(* ===== verification/ZL_Prelude.thy ===== *)
theory ZL_Prelude
  imports Main "HOL-Library.List_Lexorder" "HOL-Library.Char_ord"
begin

text \<open>
  The vocabulary shared by every component: Go strings as byte strings, the functions of Go's
  standard library the backend calls on them (\<open>strings.TrimSpace\<close>, \<open>ToLower\<close>, \<open>EqualFold\<close>,
  \<open>Split\<close>, \<open>Join\<close>, \<open>HasSuffix\<close>, \<open>TrimSuffix\<close>, \<open>Trim\<close>, \<open>strconv.Itoa\<close>), table operations on
  lists of rows, and the fact collections the component proofs use.

  A Go string is a sequence of bytes; \<^typ>\<open>string\<close> is a list of 8-bit characters, so the length
  of one is the length of the other. \<open>TrimSpace\<close> removes the UTF-8 encodings of every code point
  of \<open>unicode.IsSpace\<close>. Case conversion is modelled on the ASCII letters: every other byte is
  left as it is, so letters outside ASCII are not folded.
\<close>

named_theorems gostr_simps \<open>rewrite rules for the Go string functions\<close>
named_theorems table_simps \<open>rewrite rules for rows looked up, inserted, updated and deleted\<close>

subsection \<open>White space\<close>

definition byte_string :: "nat list \<Rightarrow> string" where
  "byte_string ns = map char_of ns"

text \<open>The UTF-8 encodings of the code points \<open>unicode.IsSpace\<close> accepts.\<close>

definition go_spaces :: "string list" where
  "go_spaces = map byte_string
     ([[9], [10], [11], [12], [13], [32], [194, 133], [194, 160], [225, 154, 128],
       [226, 128, 168], [226, 128, 169], [226, 128, 175], [226, 129, 159], [227, 128, 128]]
      @ map (\<lambda>k. [226, 128, k]) [128..<139])"

fun strip_one :: "string list \<Rightarrow> string \<Rightarrow> string option" where
  "strip_one [] s = None"
| "strip_one (p # ps) s =
     (if p \<noteq> [] \<and> take (length p) s = p then Some (drop (length p) s) else strip_one ps s)"

lemma strip_one_shorter: "strip_one ps s = Some t \<Longrightarrow> length t < length s"
proof (induction ps)
  case Nil
  then show ?case by simp
next
  case (Cons p ps)
  show ?case
  proof (cases "p \<noteq> [] \<and> take (length p) s = p")
    case True
    then have "length p = min (length s) (length p)" by (metis length_take)
    then have "length p \<le> length s" by linarith
    moreover from True have "0 < length p" by simp
    moreover from True Cons.prems have "length t = length s - length p" by auto
    ultimately show ?thesis by linarith
  next
    case False
    with Cons show ?thesis by (auto split: if_splits)
  qed
qed

function strip_left :: "string list \<Rightarrow> string \<Rightarrow> string" where
  "strip_left ps s = (case strip_one ps s of None \<Rightarrow> s | Some t \<Rightarrow> strip_left ps t)"
  by pat_completeness auto
termination
  by (relation "measure (\<lambda>(ps, s). length s)") (auto dest: strip_one_shorter)

declare strip_left.simps [simp del]

definition strip_right :: "string list \<Rightarrow> string \<Rightarrow> string" where
  "strip_right ps s = rev (strip_left (map rev ps) (rev s))"

definition trim_space :: "string \<Rightarrow> string" where
  "trim_space s = strip_right go_spaces (strip_left go_spaces s)"

lemma byte_string_length [gostr_simps]: "length (byte_string ns) = length ns"
  by (simp add: byte_string_def)

lemma strip_one_prefix: "strip_one ps (s @ t) = None \<Longrightarrow> strip_one ps s = None"
  by (induction ps) (auto split: if_splits simp: take_append)

lemma strip_one_headed:
  "\<forall>p \<in> set ps. p \<noteq> [] \<longrightarrow> hd p \<noteq> c \<Longrightarrow> strip_one ps (c # s) = None"
proof (induction ps)
  case (Cons p ps)
  have "\<not> (p \<noteq> [] \<and> take (length p) (c # s) = p)"
  proof
    assume h: "p \<noteq> [] \<and> take (length p) (c # s) = p"
    then obtain a q where p: "p = a # q" by (cases p) auto
    with h have "a = c" by simp
    with Cons.prems p show False by simp
  qed
  with Cons show ?case by auto
qed simp

lemma strip_one_Nil [simp]: "strip_one ps [] = None"
  by (induction ps) auto

lemma strip_left_fixed: "strip_one ps s = None \<Longrightarrow> strip_left ps s = s"
  by (simp add: strip_left.simps [of ps s])

lemma strip_left_done: "strip_one ps (strip_left ps s) = None"
proof (induction ps s rule: strip_left.induct)
  case (1 ps s)
  show ?case
  proof (cases "strip_one ps s")
    case None
    then show ?thesis by (simp add: strip_left_fixed)
  next
    case (Some t)
    with "1.IH" show ?thesis by (simp add: strip_left.simps [of ps s])
  qed
qed

lemma strip_one_suffix: "strip_one ps s = Some t \<Longrightarrow> \<exists>p. s = p @ t"
proof (induction ps)
  case (Cons p ps)
  have "s = take (length p) s @ drop (length p) s" by simp
  with Cons show ?case by (metis option.inject strip_one.simps(2))
qed simp

lemma strip_left_suffix: "\<exists>p. s = p @ strip_left ps s"
proof (induction ps s rule: strip_left.induct)
  case (1 ps s)
  show ?case
  proof (cases "strip_one ps s")
    case None
    then show ?thesis by (simp add: strip_left_fixed)
  next
    case (Some t)
    with "1.IH" obtain q where "t = q @ strip_left ps t" by blast
    moreover from Some obtain p where "s = p @ t" using strip_one_suffix by blast
    moreover from Some have "strip_left ps s = strip_left ps t"
      by (simp add: strip_left.simps [of ps s])
    ultimately show ?thesis by (metis append.assoc)
  qed
qed

lemma strip_right_prefix: "\<exists>q. s = strip_right ps s @ q"
proof -
  obtain p where "rev s = p @ strip_left (map rev ps) (rev s)"
    using strip_left_suffix by blast
  then have "s = rev (strip_left (map rev ps) (rev s)) @ rev p"
    by (metis rev_append rev_rev_ident)
  then show ?thesis by (auto simp: strip_right_def)
qed

text \<open>\<open>TrimSpace\<close> is idempotent, and does nothing to a string that neither starts nor ends with
  the first or last byte of a space.\<close>

lemma trim_space_idem [simp, gostr_simps]: "trim_space (trim_space s) = trim_space s"
proof -
  define t where "t = strip_left go_spaces s"
  define r where "r = strip_left (map rev go_spaces) (rev t)"
  have ts: "trim_space s = rev r"
    by (simp add: trim_space_def strip_right_def t_def r_def)
  obtain q where q: "t = trim_space s @ q"
    using strip_right_prefix [of t go_spaces] by (auto simp: trim_space_def t_def)
  have "strip_one go_spaces t = None"
    unfolding t_def by (rule strip_left_done)
  then have "strip_one go_spaces (trim_space s) = None"
    unfolding q by (rule strip_one_prefix)
  then have left: "strip_left go_spaces (trim_space s) = trim_space s"
    by (rule strip_left_fixed)
  have "strip_one (map rev go_spaces) r = None"
    unfolding r_def by (rule strip_left_done)
  then have "strip_left (map rev go_spaces) r = r"
    by (rule strip_left_fixed)
  then have "strip_right go_spaces (rev r) = rev r"
    by (simp only: strip_right_def rev_rev_ident)
  then show ?thesis
    by (metis left trim_space_def ts)
qed

definition space_edge :: "char \<Rightarrow> bool" where
  "space_edge c = (c \<in> set (map hd go_spaces) \<or> c \<in> set (map last go_spaces))"

lemma trim_space_Nil [simp, gostr_simps]: "trim_space [] = []"
  by (simp add: trim_space_def strip_right_def strip_left_fixed)

lemma trim_space_id:
  assumes "s \<noteq> []" and "\<not> space_edge (hd s)" and "\<not> space_edge (last s)"
  shows "trim_space s = s"
proof -
  obtain c t where s: "s = c # t" using assms(1) by (cases s) auto
  have "strip_one go_spaces (c # t) = None"
    using assms(2) s by (intro strip_one_headed) (auto simp: space_edge_def)
  then have left: "strip_left go_spaces s = s" using s by (simp add: strip_left_fixed)
  obtain d u where r: "rev s = d # u" using assms(1) by (cases "rev s") auto
  then have d: "d = last s" by (metis hd_rev list.sel(1))
  have "last q \<noteq> d" if "q \<in> set go_spaces" for q
    using assms(3) d that by (metis imageI list.set_map space_edge_def)
  then have "\<forall>p \<in> set (map rev go_spaces). p \<noteq> [] \<longrightarrow> hd p \<noteq> d"
    by (simp add: hd_rev)
  then have "strip_one (map rev go_spaces) (rev s) = None"
    using r by (simp add: strip_one_headed)
  with left show ?thesis by (simp add: trim_space_def strip_right_def strip_left_fixed)
qed

subsection \<open>Case\<close>

definition char_code :: "char \<Rightarrow> nat" where
  "char_code c = of_char c"

definition lower_char :: "char \<Rightarrow> char" where
  "lower_char c = (if 65 \<le> char_code c \<and> char_code c \<le> 90 then char_of (char_code c + 32) else c)"

definition upper_char :: "char \<Rightarrow> char" where
  "upper_char c = (if 97 \<le> char_code c \<and> char_code c \<le> 122 then char_of (char_code c - 32) else c)"

definition to_lower :: "string \<Rightarrow> string" where
  "to_lower s = map lower_char s"

definition to_upper :: "string \<Rightarrow> string" where
  "to_upper s = map upper_char s"

definition equal_fold :: "string \<Rightarrow> string \<Rightarrow> bool" where
  "equal_fold s t = (to_lower s = to_lower t)"

lemma char_code_bound: "char_code c < 256"
  by (simp add: char_code_def)

lemma char_code_char_of [gostr_simps]: "n < 256 \<Longrightarrow> char_code (char_of n) = n"
  by (simp add: char_code_def)

lemma char_code_inject: "char_code c = char_code d \<longleftrightarrow> c = d"
  by (simp add: char_code_def)

lemma lower_char_code: "char_code (lower_char c) =
    (if 65 \<le> char_code c \<and> char_code c \<le> 90 then char_code c + 32 else char_code c)"
  using char_code_bound [of c] by (simp add: lower_char_def char_code_char_of)

lemma upper_char_code: "char_code (upper_char c) =
    (if 97 \<le> char_code c \<and> char_code c \<le> 122 then char_code c - 32 else char_code c)"
  using char_code_bound [of c] by (simp add: upper_char_def char_code_char_of)

lemma lower_char_idem [simp]: "lower_char (lower_char c) = lower_char c"
  by (simp add: char_code_inject [symmetric] lower_char_code)

lemma upper_char_iff_lower: "upper_char c = upper_char d \<longleftrightarrow> lower_char c = lower_char d"
  by (auto simp: char_code_inject [symmetric] lower_char_code upper_char_code split: if_splits)

lemma to_lower_idem [simp, gostr_simps]: "to_lower (to_lower s) = to_lower s"
  by (simp add: to_lower_def comp_def)

lemma to_lower_Nil [simp, gostr_simps]: "to_lower [] = []" "to_lower s = [] \<longleftrightarrow> s = []"
  by (simp_all add: to_lower_def)

lemma to_lower_append [gostr_simps]: "to_lower (s @ t) = to_lower s @ to_lower t"
  by (simp add: to_lower_def)

lemma length_to_lower [simp]: "length (to_lower s) = length s"
  by (simp add: to_lower_def)

lemma to_upper_iff_fold: "to_upper s = to_upper t \<longleftrightarrow> equal_fold s t"
  unfolding equal_fold_def to_upper_def to_lower_def
proof (induction s arbitrary: t)
  case (Cons x xs)
  then show ?case by (cases t) (simp_all add: upper_char_iff_lower)
qed auto

lemma equal_fold_refl [simp]: "equal_fold s s"
  by (simp add: equal_fold_def)

lemma equal_fold_sym: "equal_fold s t \<longleftrightarrow> equal_fold t s"
  by (auto simp: equal_fold_def)

lemma equal_fold_trans: "equal_fold s t \<Longrightarrow> equal_fold t u \<Longrightarrow> equal_fold s u"
  by (simp add: equal_fold_def)

lemma equal_fold_upper: "equal_fold (to_upper s) s"
  by (auto simp: equal_fold_def to_upper_def to_lower_def char_code_inject [symmetric]
        lower_char_code upper_char_code)

subsection \<open>Splitting, joining, trimming\<close>

definition has_prefix :: "string \<Rightarrow> string \<Rightarrow> bool" where
  "has_prefix s p = (take (length p) s = p)"

definition has_suffix :: "string \<Rightarrow> string \<Rightarrow> bool" where
  "has_suffix s p = (length p \<le> length s \<and> drop (length s - length p) s = p)"

definition trim_prefix :: "string \<Rightarrow> string \<Rightarrow> string" where
  "trim_prefix s p = (if has_prefix s p then drop (length p) s else s)"

definition trim_suffix :: "string \<Rightarrow> string \<Rightarrow> string" where
  "trim_suffix s p = (if has_suffix s p then take (length s - length p) s else s)"

text \<open>\<open>strings.Trim\<close> with a cut set of one byte.\<close>

definition trim_char :: "char \<Rightarrow> string \<Rightarrow> string" where
  "trim_char c s = rev (dropWhile (\<lambda>x. x = c) (rev (dropWhile (\<lambda>x. x = c) s)))"

text \<open>\<open>strings.Split\<close> at a separator of one byte; the result is never empty.\<close>

fun split_on :: "char \<Rightarrow> string \<Rightarrow> string list" where
  "split_on c [] = [[]]"
| "split_on c (x # xs) =
     (if x = c then [] # split_on c xs
      else (case split_on c xs of [] \<Rightarrow> [[x]] | y # ys \<Rightarrow> (x # y) # ys))"

fun join_with :: "string \<Rightarrow> string list \<Rightarrow> string" where
  "join_with sep [] = []"
| "join_with sep [x] = x"
| "join_with sep (x # y # ys) = x @ sep @ join_with sep (y # ys)"

fun contains :: "string \<Rightarrow> string \<Rightarrow> bool" where
  "contains [] p = (p = [])"
| "contains (x # xs) p = (has_prefix (x # xs) p \<or> contains xs p)"

text \<open>\<open>strings.ReplaceAll\<close> for a non-empty pattern: left to right, without overlaps.\<close>

function replace_all :: "string \<Rightarrow> string \<Rightarrow> string \<Rightarrow> string" where
  "replace_all s p r =
     (if s = [] then []
      else if p \<noteq> [] \<and> has_prefix s p then r @ replace_all (drop (length p) s) p r
      else hd s # replace_all (tl s) p r)"
  by pat_completeness auto
termination
  by (relation "measure (\<lambda>(s, p, r). length s)") auto

declare replace_all.simps [simp del]

lemma split_on_nonempty [simp]: "split_on c s \<noteq> []"
  by (cases s) (auto split: list.splits)

lemma split_on_clean: "c \<notin> set s \<Longrightarrow> split_on c s = [s]"
  by (induction s) auto

lemma split_on_append: "c \<notin> set s \<Longrightarrow> split_on c (s @ c # t) = s # split_on c t"
  by (induction s) (auto split: list.splits)

lemma split_on_join:
  "xs \<noteq> [] \<Longrightarrow> \<forall>x \<in> set xs. c \<notin> set x \<Longrightarrow> split_on c (join_with [c] xs) = xs"
proof (induction "[c]" xs rule: join_with.induct)
  case (3 x y ys)
  then show ?case by (simp add: split_on_append)
qed (simp_all add: split_on_clean)

lemma join_split_on: "join_with [c] (split_on c s) = s"
proof (induction s)
  case (Cons x xs)
  obtain y ys where ys: "split_on c xs = y # ys" by (cases "split_on c xs") auto
  show ?case
  proof (cases "x = c")
    case True
    with Cons ys show ?thesis by simp
  next
    case False
    with Cons ys show ?thesis by (cases ys) auto
  qed
qed simp

lemma split_on_no_sep: "x \<in> set (split_on c s) \<Longrightarrow> c \<notin> set x"
  by (induction s arbitrary: x) (auto split: list.splits if_splits)

lemma has_suffix_append [simp, gostr_simps]: "has_suffix (s @ p) p"
  by (simp add: has_suffix_def)

lemma has_suffix_iff: "has_suffix s p \<longleftrightarrow> (\<exists>t. s = t @ p)"
proof
  assume "has_suffix s p"
  then have "s = take (length s - length p) s @ p"
    by (metis append_take_drop_id has_suffix_def)
  then show "\<exists>t. s = t @ p" by blast
qed auto

lemma has_prefix_iff: "has_prefix s p \<longleftrightarrow> (\<exists>t. s = p @ t)"
proof
  assume "has_prefix s p"
  then have "s = p @ drop (length p) s" by (metis append_take_drop_id has_prefix_def)
  then show "\<exists>t. s = p @ t" by blast
qed (auto simp: has_prefix_def)

lemma trim_suffix_append [simp, gostr_simps]: "trim_suffix (s @ p) p = s"
  by (simp add: trim_suffix_def)

lemma trim_char_id:
  "s = [] \<or> (hd s \<noteq> c \<and> last s \<noteq> c) \<Longrightarrow> trim_char c s = s"
proof (cases s)
  case (Cons x xs)
  assume h: "s = [] \<or> (hd s \<noteq> c \<and> last s \<noteq> c)"
  with Cons have "dropWhile (\<lambda>x. x = c) s = s" by simp
  moreover have "dropWhile (\<lambda>x. x = c) (rev s) = rev s"
    using h Cons by (cases "rev s") (auto simp: hd_rev [symmetric])
  ultimately show ?thesis by (simp add: trim_char_def)
qed (simp add: trim_char_def)

subsection \<open>Decimal numbers\<close>

definition digit_char :: "nat \<Rightarrow> char" where
  "digit_char d = char_of (48 + d)"

definition is_digit :: "char \<Rightarrow> bool" where
  "is_digit c = (48 \<le> char_code c \<and> char_code c \<le> 57)"

text \<open>\<open>strconv.Itoa\<close>, and the \<open>%d\<close> verb, on a number that is not negative.\<close>

fun itoa :: "nat \<Rightarrow> string" where
  "itoa n = (if n < 10 then [digit_char n] else itoa (n div 10) @ [digit_char (n mod 10)])"

declare itoa.simps [simp del]

definition digits_value :: "string \<Rightarrow> nat" where
  "digits_value s = foldl (\<lambda>v c. v * 10 + (char_code c - 48)) 0 s"

lemma char_code_digit [simp]: "d < 10 \<Longrightarrow> char_code (digit_char d) = 48 + d"
  by (simp add: digit_char_def char_code_char_of)

lemma is_digit_digit_char [simp]: "d < 10 \<Longrightarrow> is_digit (digit_char d)"
  by (simp add: is_digit_def)

lemma itoa_nonempty [simp]: "itoa n \<noteq> []"
  by (subst itoa.simps) simp

lemma itoa_digits: "c \<in> set (itoa n) \<Longrightarrow> is_digit c"
proof (induction n rule: itoa.induct)
  case (1 n)
  show ?case
  proof (cases "n < 10")
    case True
    with 1 show ?thesis by (simp add: itoa.simps [of n])
  next
    case False
    with 1 show ?thesis by (auto simp: itoa.simps [of n])
  qed
qed

lemma digits_value_snoc: "digits_value (s @ [c]) = digits_value s * 10 + (char_code c - 48)"
  by (simp add: digits_value_def)

lemma digits_value_itoa [simp]: "digits_value (itoa n) = n"
proof (induction n rule: itoa.induct)
  case (1 n)
  show ?case
  proof (cases "n < 10")
    case True
    then show ?thesis by (simp add: itoa.simps [of n] digits_value_def)
  next
    case False
    with 1 show ?thesis by (simp add: itoa.simps [of n] digits_value_snoc)
  qed
qed

lemma itoa_inject [simp]: "itoa m = itoa n \<longleftrightarrow> m = n"
  by (metis digits_value_itoa)

lemma graph_not_edge: "32 < char_code c \<Longrightarrow> char_code c < 127 \<Longrightarrow> \<not> space_edge c"
  by (auto simp: space_edge_def go_spaces_def byte_string_def char_code_char_of upt_rec)

lemma digit_not_edge: "is_digit c \<Longrightarrow> \<not> space_edge c"
  by (rule graph_not_edge) (auto simp: is_digit_def)

text \<open>A string whose first and last character are printable ASCII is left alone by \<open>TrimSpace\<close>.\<close>

definition graph_ends :: "string \<Rightarrow> bool" where
  "graph_ends s \<longleftrightarrow> s \<noteq> [] \<and> 32 < char_code (hd s) \<and> char_code (hd s) < 127 \<and>
     32 < char_code (last s) \<and> char_code (last s) < 127"

lemma trim_space_graph: "graph_ends s \<Longrightarrow> trim_space s = s"
  by (rule trim_space_id) (auto simp: graph_ends_def graph_not_edge)

subsection \<open>Text normalisation used across the backend\<close>

text \<open>\<open>strutil.FirstNonEmpty\<close> and \<open>domain.firstConfigText\<close> are the same loop.\<close>

fun first_non_empty :: "string list \<Rightarrow> string" where
  "first_non_empty [] = []"
| "first_non_empty (v # vs) = (if trim_space v \<noteq> [] then trim_space v else first_non_empty vs)"

text \<open>The loop of \<open>normalizeRoleKeys\<close> and \<open>normalizeIDs\<close>: trim, drop the empty ones, keep the
  first of each.\<close>

fun trim_unique :: "string list \<Rightarrow> string list \<Rightarrow> string list" where
  "trim_unique seen [] = []"
| "trim_unique seen (k # ks) =
     (let t = trim_space k
      in if t = [] \<or> t \<in> set seen then trim_unique seen ks else t # trim_unique (t # seen) ks)"

lemma first_non_empty_trimmed [simp]: "trim_space (first_non_empty vs) = first_non_empty vs"
  by (induction vs) auto

lemma first_non_empty_in:
  "first_non_empty vs \<noteq> [] \<Longrightarrow> \<exists>v \<in> set vs. first_non_empty vs = trim_space v"
  by (induction vs) (auto split: if_splits)

lemma first_non_empty_Nil_iff: "first_non_empty vs = [] \<longleftrightarrow> (\<forall>v \<in> set vs. trim_space v = [])"
  by (induction vs) auto

lemma set_trim_unique: "set (trim_unique seen ks) = (trim_space ` set ks) - {[]} - set seen"
  by (induction seen ks rule: trim_unique.induct) (auto simp: Let_def split: if_splits)

lemma distinct_trim_unique: "distinct (trim_unique seen ks)"
  by (induction seen ks rule: trim_unique.induct) (auto simp: Let_def set_trim_unique)

subsection \<open>Tables\<close>

text \<open>A table is a list of rows in insertion order. \<open>find_row\<close> is a \<open>SELECT\<close> of at most one row,
  \<open>update_rows\<close> an \<open>UPDATE ... WHERE\<close>, \<open>delete_rows\<close> a \<open>DELETE ... WHERE\<close>; the number of rows
  a statement affects is the number of rows the condition holds for.\<close>

definition find_row :: "('r \<Rightarrow> bool) \<Rightarrow> 'r list \<Rightarrow> 'r option" where
  "find_row p rs = find p rs"

definition update_rows :: "('r \<Rightarrow> bool) \<Rightarrow> ('r \<Rightarrow> 'r) \<Rightarrow> 'r list \<Rightarrow> 'r list" where
  "update_rows p f rs = map (\<lambda>r. if p r then f r else r) rs"

definition delete_rows :: "('r \<Rightarrow> bool) \<Rightarrow> 'r list \<Rightarrow> 'r list" where
  "delete_rows p rs = filter (\<lambda>r. \<not> p r) rs"

definition count_rows :: "('r \<Rightarrow> bool) \<Rightarrow> 'r list \<Rightarrow> nat" where
  "count_rows p rs = length (filter p rs)"

text \<open>\<open>INSERT ... ON CONFLICT DO UPDATE\<close>: the rows in conflict are updated, or the new row is
  added when there is none.\<close>

definition upsert_row :: "('r \<Rightarrow> bool) \<Rightarrow> ('r \<Rightarrow> 'r) \<Rightarrow> 'r \<Rightarrow> 'r list \<Rightarrow> 'r list" where
  "upsert_row p f r rs = (if list_ex p rs then update_rows p f rs else rs @ [r])"

lemma find_row_Some: "find_row p rs = Some r \<Longrightarrow> r \<in> set rs \<and> p r"
  by (auto simp: find_row_def find_Some_iff)

lemma find_row_None: "find_row p rs = None \<longleftrightarrow> (\<forall>r \<in> set rs. \<not> p r)"
  by (auto simp: find_row_def find_None_iff)

lemma find_row_append [table_simps]:
  "find_row p (rs @ ss) = (case find_row p rs of Some r \<Rightarrow> Some r | None \<Rightarrow> find_row p ss)"
  unfolding find_row_def by (induction rs) auto

lemma find_row_simps [simp, table_simps]:
  "find_row p [] = None"
  "find_row p (r # rs) = (if p r then Some r else find_row p rs)"
  by (simp_all add: find_row_def)

lemma delete_rows_simps [simp, table_simps]:
  "delete_rows p [] = []"
  "delete_rows p (r # rs) = (if p r then delete_rows p rs else r # delete_rows p rs)"
  by (simp_all add: delete_rows_def)

lemma set_delete_rows [simp, table_simps]: "set (delete_rows p rs) = {r \<in> set rs. \<not> p r}"
  by (auto simp: delete_rows_def)

lemma set_update_rows: "set (update_rows p f rs) = (\<lambda>r. if p r then f r else r) ` set rs"
  by (simp add: update_rows_def)

lemma find_row_delete [simp, table_simps]: "find_row p (delete_rows p rs) = None"
  by (auto simp: find_row_None)

lemma find_row_delete_other:
  "(\<And>r. q r \<Longrightarrow> \<not> p r) \<Longrightarrow> find_row q (delete_rows p rs) = find_row q rs"
  by (induction rs) auto

lemma find_row_update_hit:
  "(\<And>r. p r \<Longrightarrow> p (f r)) \<Longrightarrow> find_row p (update_rows p f rs) = map_option f (find_row p rs)"
  unfolding update_rows_def by (induction rs) auto

lemma find_row_update_other:
  "(\<And>r. p r \<Longrightarrow> \<not> q r \<and> \<not> q (f r)) \<Longrightarrow> find_row q (update_rows p f rs) = find_row q rs"
  unfolding update_rows_def by (induction rs) auto

lemma map_update_rows: "(\<And>r. p r \<Longrightarrow> g (f r) = g r) \<Longrightarrow> map g (update_rows p f rs) = map g rs"
  by (simp add: update_rows_def)

lemma distinct_map_delete: "distinct (map g rs) \<Longrightarrow> distinct (map g (delete_rows p rs))"
  by (simp add: delete_rows_def distinct_map_filter)

lemma count_rows_zero [simp]: "count_rows p rs = 0 \<longleftrightarrow> (\<forall>r \<in> set rs. \<not> p r)"
  by (simp add: count_rows_def filter_empty_conv)

lemma count_rows_delete [simp]: "count_rows p (delete_rows p rs) = 0"
  by simp

text \<open>A key that is unique stays unique under an upsert on that key.\<close>

lemma upsert_row_distinct:
  assumes "distinct (map key rs)"
    and "\<And>r. key (f r) = key r"
    and "\<And>x. p x \<longleftrightarrow> key x = key r"
  shows "distinct (map key (upsert_row p f r rs))"
proof (cases "list_ex p rs")
  case True
  then show ?thesis using assms(1,2) by (simp add: upsert_row_def map_update_rows)
next
  case False
  then have "\<forall>x \<in> set rs. key x \<noteq> key r" using assms(3) by (auto simp: list_ex_iff)
  with assms(1) False show ?thesis by (auto simp: upsert_row_def)
qed

end
