(* ===== verification/ZL_Resource_Id.thy ===== *)
theory ZL_Resource_Id
  imports ZL_Prelude
begin

text \<open>
  Resource identifiers (\<open>internal/repository/ids.go\<close>): the identifier of a DNS zone or record is
  the list of its parts, each in base64 with the URL alphabet and no padding, joined by a dot.
  \<open>raw_url_encode\<close> and \<open>raw_url_decode\<close> are \<open>base64.RawURLEncoding\<close> of Go's standard library: the
  decoder skips carriage returns and line feeds, refuses every other character outside the
  alphabet and a final group of one character, and ignores the unused bits of the last character.
\<close>

subsection \<open>Base64 with the URL alphabet\<close>

definition url_alphabet :: string where
  "url_alphabet = ''ABCDEFGHIJKLMNOPQRSTUVWXYZabcdefghijklmnopqrstuvwxyz0123456789-_''"

definition sextet_char :: "nat \<Rightarrow> char" where
  "sextet_char n = url_alphabet ! n"

definition char_sextet :: "char \<Rightarrow> nat option" where
  "char_sextet c =
     (let k = char_code c in
      if 65 \<le> k \<and> k \<le> 90 then Some (k - 65)
      else if 97 \<le> k \<and> k \<le> 122 then Some (k - 71)
      else if 48 \<le> k \<and> k \<le> 57 then Some (k + 4)
      else if k = 45 then Some 62
      else if k = 95 then Some 63
      else None)"

fun encode_sextets :: "nat list \<Rightarrow> nat list" where
  "encode_sextets (a # b # c # bs) =
     (a div 4) # ((a mod 4) * 16 + b div 16) # ((b mod 16) * 4 + c div 64) # (c mod 64)
       # encode_sextets bs"
| "encode_sextets [a, b] = [a div 4, (a mod 4) * 16 + b div 16, (b mod 16) * 4]"
| "encode_sextets [a] = [a div 4, (a mod 4) * 16]"
| "encode_sextets [] = []"

fun decode_sextets :: "nat list \<Rightarrow> nat list option" where
  "decode_sextets (p # q # r # s # xs) =
     map_option
       (\<lambda>bs. (p * 4 + q div 16) # ((q mod 16) * 16 + r div 4) # ((r mod 4) * 64 + s) # bs)
       (decode_sextets xs)"
| "decode_sextets [p, q, r] = Some [p * 4 + q div 16, (q mod 16) * 16 + r div 4]"
| "decode_sextets [p, q] = Some [p * 4 + q div 16]"
| "decode_sextets [p] = None"
| "decode_sextets [] = Some []"

fun chars_sextets :: "string \<Rightarrow> nat list option" where
  "chars_sextets [] = Some []"
| "chars_sextets (c # cs) =
     (case char_sextet c of
        None \<Rightarrow> None
      | Some n \<Rightarrow> map_option (\<lambda>ns. n # ns) (chars_sextets cs))"

definition raw_url_encode :: "string \<Rightarrow> string" where
  "raw_url_encode s = map sextet_char (encode_sextets (map char_code s))"

definition raw_url_decode :: "string \<Rightarrow> string option" where
  "raw_url_decode s =
     (case chars_sextets (filter (\<lambda>c. char_code c \<noteq> 10 \<and> char_code c \<noteq> 13) s) of
        None \<Rightarrow> None
      | Some ns \<Rightarrow> map_option (map char_of) (decode_sextets ns))"

subsection \<open>Identifiers\<close>

definition encode_resource_id :: "string list \<Rightarrow> string" where
  "encode_resource_id parts = join_with ''.'' (map raw_url_encode parts)"

definition decode_resource_id_part :: "string \<Rightarrow> string option" where
  "decode_resource_id_part v = raw_url_decode v"

definition dns_zone_id :: "string \<Rightarrow> string \<Rightarrow> string" where
  "dns_zone_id server_id zone_name = encode_resource_id [server_id, zone_name]"

definition dns_record_id :: "string \<Rightarrow> string \<Rightarrow> string \<Rightarrow> string \<Rightarrow> string \<Rightarrow> string" where
  "dns_record_id server_id zone_name rtype rname rvalue =
     encode_resource_id [server_id, zone_name, rtype, rname, rvalue]"

definition decode_dns_zone_id :: "string \<Rightarrow> (string \<times> string) option" where
  "decode_dns_zone_id rid =
     (case split_on (CHR ''.'') rid of
        [a, b] \<Rightarrow>
          (case decode_resource_id_part a of
             None \<Rightarrow> None
           | Some server_id \<Rightarrow>
               (case decode_resource_id_part b of
                  None \<Rightarrow> None
                | Some zone_name \<Rightarrow> Some (server_id, zone_name)))
      | _ \<Rightarrow> None)"

fun decode_parts :: "string list \<Rightarrow> string list option" where
  "decode_parts [] = Some []"
| "decode_parts (p # ps) =
     (case decode_resource_id_part p of
        None \<Rightarrow> None
      | Some v \<Rightarrow> map_option (\<lambda>vs. v # vs) (decode_parts ps))"

definition decode_dns_record_id ::
    "string \<Rightarrow> (string \<times> string \<times> string \<times> string \<times> string) option" where
  "decode_dns_record_id rid =
     (let parts = split_on (CHR ''.'') rid in
      if length parts \<noteq> 5 then None
      else (case decode_parts parts of
              None \<Rightarrow> None
            | Some vs \<Rightarrow> Some (vs ! 0, vs ! 1, vs ! 2, vs ! 3, vs ! 4)))"

subsection \<open>Lemmas\<close>

lemma url_alphabet_codes:
  "url_alphabet = map char_of ([65..<91] @ [97..<123] @ [48..<58] @ [45::nat, 95])"
  by code_simp

lemma sextet_char_code:
  assumes "n < 64"
  shows "char_code (sextet_char n) =
    (if n < 26 then 65 + n else if n < 52 then n + 71 else if n < 62 then n - 4
     else if n = 62 then 45 else 95)"
proof -
  let ?cs = "[65..<91] @ [97..<123] @ [48..<58] @ [45::nat, 95]"
  have "sextet_char n = char_of (?cs ! n)"
    using assms unfolding sextet_char_def url_alphabet_codes by (intro nth_map) simp
  moreover have "?cs ! n =
    (if n < 26 then 65 + n else if n < 52 then n + 71 else if n < 62 then n - 4
     else if n = 62 then 45 else 95)"
    using assms by (auto simp: nth_append nth_Cons' simp del: upt_rec_numeral)
  ultimately show ?thesis using assms by (auto simp: char_code_char_of)
qed

lemma char_sextet_sextet_char [simp]: "n < 64 \<Longrightarrow> char_sextet (sextet_char n) = Some n"
  by (auto simp: char_sextet_def sextet_char_code Let_def)

lemma alphabet_clean:
  "n < 64 \<Longrightarrow> sextet_char n \<noteq> CHR ''.'' \<and> char_code (sextet_char n) \<noteq> 10 \<and>
     char_code (sextet_char n) \<noteq> 13"
  by (auto simp: sextet_char_code char_code_inject [symmetric, of "sextet_char n"]
      char_code_def [of "CHR ''.''"])

lemma byte_div: "(b::nat) < 256 \<Longrightarrow> b div 4 < 64" "b < 256 \<Longrightarrow> b div 16 < 16" "b < 256 \<Longrightarrow> b div 64 < 4"
  by (simp_all add: less_mult_imp_div_less)

lemma sextet_sum: "(x::nat) < 4 \<Longrightarrow> y < 16 \<Longrightarrow> x * 16 + y < 64" "(x::nat) < 16 \<Longrightarrow> y < 4 \<Longrightarrow> x * 4 + y < 64"
  by linarith+

lemma encode_sextets_bound: "list_all (\<lambda>b. b < 256) bs \<Longrightarrow> list_all (\<lambda>n. n < 64) (encode_sextets bs)"
proof (induction bs rule: encode_sextets.induct)
  case (1 a b c bs)
  then have abc: "a < 256" "b < 256" "c < 256" "list_all (\<lambda>b. b < 256) bs" by simp_all
  show ?case
    unfolding encode_sextets.simps list.pred_inject
    by (intro conjI byte_div sextet_sum mod_less_divisor abc "1.IH") simp_all
next
  case (2 a b)
  then have ab: "a < 256" "b < 256" by simp_all
  have "b mod 16 * 4 < 64" by simp
  then show ?case
    unfolding encode_sextets.simps list.pred_inject
    by (intro conjI byte_div sextet_sum mod_less_divisor ab) simp_all
next
  case (3 a)
  then have "a < 256" by simp
  moreover have "a mod 4 * 16 < 64" by simp
  ultimately show ?case
    unfolding encode_sextets.simps list.pred_inject by (intro conjI byte_div) simp_all
qed simp

lemma decode_encode_sextets:
  "\<forall>b \<in> set bs. b < 256 \<Longrightarrow> decode_sextets (encode_sextets bs) = Some bs"
proof (induction bs rule: encode_sextets.induct)
  case (1 a b c bs)
  then show ?case by (simp add: byte_div)
next
  case (2 a b)
  then show ?case by (simp add: byte_div)
next
  case (3 a)
  then show ?case by auto
qed simp

lemma chars_sextets_map:
  "\<forall>n \<in> set ns. n < 64 \<Longrightarrow> chars_sextets (map sextet_char ns) = Some ns"
  by (induction ns) auto

lemma encode_sextets_of_string: "n \<in> set (encode_sextets (map char_code s)) \<Longrightarrow> n < 64"
  using encode_sextets_bound [of "map char_code s"]
  by (auto simp: list_all_iff char_code_bound)

lemma raw_url_roundtrip [simp]: "raw_url_decode (raw_url_encode s) = Some s"
proof -
  let ?ns = "encode_sextets (map char_code s)"
  have "filter (\<lambda>c. char_code c \<noteq> 10 \<and> char_code c \<noteq> 13) (raw_url_encode s) = raw_url_encode s"
    using encode_sextets_of_string alphabet_clean
    by (auto simp: raw_url_encode_def filter_id_conv)
  moreover have "chars_sextets (raw_url_encode s) = Some ?ns"
    unfolding raw_url_encode_def using encode_sextets_of_string by (intro chars_sextets_map) blast
  moreover have "decode_sextets ?ns = Some (map char_code s)"
    by (rule decode_encode_sextets) (auto simp: char_code_bound)
  moreover have "map char_of (map char_code s) = s"
    by (simp add: char_code_def comp_def)
  ultimately show ?thesis by (simp add: raw_url_decode_def)
qed

lemma raw_url_no_dot: "CHR ''.'' \<notin> set (raw_url_encode s)"
  using encode_sextets_of_string alphabet_clean by (force simp: raw_url_encode_def)

lemma split_encoded: "ps \<noteq> [] \<Longrightarrow> split_on (CHR ''.'') (encode_resource_id ps) = map raw_url_encode ps"
  unfolding encode_resource_id_def by (rule split_on_join) (auto simp: raw_url_no_dot)

lemma decode_parts_encoded: "decode_parts (map raw_url_encode ps) = Some ps"
  by (induction ps) (auto simp: decode_resource_id_part_def)

lemma decode_dns_zone_id_encode [simp]: "decode_dns_zone_id (dns_zone_id s z) = Some (s, z)"
  by (simp add: decode_dns_zone_id_def dns_zone_id_def split_encoded decode_resource_id_part_def)

lemma decode_dns_record_id_encode [simp]:
  "decode_dns_record_id (dns_record_id s z t n v) = Some (s, z, t, n, v)"
  by (simp add: decode_dns_record_id_def dns_record_id_def split_encoded decode_parts_encoded
      del: list.map)

subsection \<open>The contract of an identifier\<close>

text \<open>What the handlers rely on: an identifier built by the encoder decodes to its parts, so two
  identifiers are equal only when their parts are.\<close>

locale codec =
  fixes enc :: "'a \<Rightarrow> string" and dec :: "string \<Rightarrow> 'a option"
  assumes dec_enc: "dec (enc x) = Some x"
begin

lemma enc_inject: "enc x = enc y \<longleftrightarrow> x = y"
  by (metis dec_enc option.inject)

lemma enc_dec_canonical: "y \<in> range enc \<Longrightarrow> dec y = Some x \<Longrightarrow> enc x = y"
  by (auto simp: dec_enc)

end

interpretation zone_codec: codec "\<lambda>(s, z). dns_zone_id s z" decode_dns_zone_id
  by unfold_locales auto

interpretation record_codec: codec "\<lambda>(s, z, t, n, v). dns_record_id s z t n v" decode_dns_record_id
  by unfold_locales auto

lemma dns_zone_id_inject [simp]: "dns_zone_id s z = dns_zone_id s' z' \<longleftrightarrow> s = s' \<and> z = z'"
  using zone_codec.enc_inject [of "(s, z)" "(s', z')"] by simp

lemma dns_record_id_inject [simp]:
  "dns_record_id s z t n v = dns_record_id s' z' t' n' v' \<longleftrightarrow>
     s = s' \<and> z = z' \<and> t = t' \<and> n = n' \<and> v = v'"
  using record_codec.enc_inject [of "(s, z, t, n, v)" "(s', z', t', n', v')"] by simp

text \<open>C3. Identifiers round-trip for all byte strings, empty ones and ones with dots included: a zone or
  record identifier decodes to exactly the parts it was built from, distinct parts give distinct
  identifiers, and neither kind is ever read as the other.\<close>

theorem resource_ids_roundtrip:
  "decode_dns_zone_id (dns_zone_id s z) = Some (s, z) \<and>
   decode_dns_record_id (dns_record_id s z t n v) = Some (s, z, t, n, v) \<and>
   (dns_record_id s z t n v = dns_record_id s' z' t' n' v' \<longleftrightarrow> (s, z, t, n, v) = (s', z', t', n', v')) \<and>
   decode_dns_record_id (dns_zone_id s z) = None \<and> decode_dns_zone_id (dns_record_id s z t n v) = None"
  by (simp add: decode_dns_zone_id_def [of "dns_record_id s z t n v"] decode_dns_record_id_def [of "dns_zone_id s z"])
     (simp add: dns_record_id_def dns_zone_id_def split_encoded)

end
