(* ===== verification/ZL_IP.thy ===== *)
theory ZL_IP
  imports ZL_Prelude
begin

text \<open>
  \<open>net.ParseIP\<close> of Go's standard library (the parser of \<open>net/netip\<close> behind it) and \<open>IP.To4\<close>, on
  which every check of an address in the backend rests. An address is the list of its 16 bytes.
  \<open>parse_ip_to4\<close> is \<open>net.ParseIP(s).To4()\<close>: \<^term>\<open>None\<close> stands for the nil slice.
\<close>

type_synonym ip_bytes = "nat list"

subsection \<open>IPv4\<close>

text \<open>\<open>parseIPv4Fields\<close>. \<open>first\<close> says that the position is the start or follows a dot, \<open>v\<close> and \<open>dl\<close>
  are the value and the number of digits of the current octet, \<open>fs\<close> the octets already read.\<close>

fun v4_fields :: "bool \<Rightarrow> string \<Rightarrow> nat \<Rightarrow> nat \<Rightarrow> nat list \<Rightarrow> nat list option" where
  "v4_fields first [] v dl fs = (if length fs < 3 then None else Some (fs @ [v]))"
| "v4_fields first (c # cs) v dl fs =
     (if is_digit c then
        (if dl = 1 \<and> v = 0 then None
         else let w = v * 10 + (char_code c - 48) in
           if w > 255 then None else v4_fields False cs w (dl + 1) fs)
      else if c = CHR ''.'' then
        (if first \<or> cs = [] then None
         else if length fs = 3 then None
         else v4_fields True cs 0 0 (fs @ [v]))
      else None)"

definition v4_mapped_prefix :: ip_bytes where
  "v4_mapped_prefix = replicate 10 0 @ [255, 255]"

definition parse_ipv4 :: "string \<Rightarrow> ip_bytes option" where
  "parse_ipv4 s = map_option (\<lambda>fs. v4_mapped_prefix @ fs) (v4_fields True s 0 0 [])"

subsection \<open>IPv6\<close>

definition hex_value :: "char \<Rightarrow> nat option" where
  "hex_value c =
     (let k = char_code c in
      if 48 \<le> k \<and> k \<le> 57 then Some (k - 48)
      else if 97 \<le> k \<and> k \<le> 102 then Some (k - 87)
      else if 65 \<le> k \<and> k \<le> 70 then Some (k - 55)
      else None)"

fun scan_hex :: "nat \<Rightarrow> nat \<Rightarrow> string \<Rightarrow> (nat \<times> nat \<times> string) option" where
  "scan_hex off acc [] = Some (off, acc, [])"
| "scan_hex off acc (c # cs) =
     (case hex_value c of
        None \<Rightarrow> Some (off, acc, c # cs)
      | Some h \<Rightarrow>
          if off > 3 then None
          else if acc * 16 + h > 65535 then None
          else scan_hex (off + 1) (acc * 16 + h) cs)"

function v6_loop :: "ip_bytes \<Rightarrow> nat option \<Rightarrow> string \<Rightarrow> (ip_bytes \<times> nat option \<times> string) option" where
  "v6_loop ip ell s =
     (if 16 \<le> length ip then Some (ip, ell, s)
      else case scan_hex 0 0 s of
        None \<Rightarrow> None
      | Some (off, acc, rest) \<Rightarrow>
          if off = 0 then None
          else if rest \<noteq> [] \<and> hd rest = CHR ''.'' then
            (if ell = None \<and> length ip \<noteq> 12 then None
             else if length ip + 4 > 16 then None
             else map_option (\<lambda>fs. (ip @ fs, ell, [])) (v4_fields True s 0 0 []))
          else if rest = [] then Some (ip @ [acc div 256, acc mod 256], ell, [])
          else if hd rest \<noteq> CHR '':'' then None
          else if tl rest = [] then None
          else if hd (tl rest) = CHR '':'' then
            (if ell \<noteq> None then None
             else if tl (tl rest) = [] then
               Some (ip @ [acc div 256, acc mod 256], Some (length ip + 2), [])
             else v6_loop (ip @ [acc div 256, acc mod 256]) (Some (length ip + 2)) (tl (tl rest)))
          else v6_loop (ip @ [acc div 256, acc mod 256]) ell (tl rest))"
  by pat_completeness auto
termination
  by (relation "measure (\<lambda>(ip, ell, s). 16 - length ip)") auto

declare v6_loop.simps [simp del]

definition v6_finish :: "ip_bytes \<times> nat option \<times> string \<Rightarrow> ip_bytes option" where
  "v6_finish r =
     (case r of (ip, ell, s) \<Rightarrow>
        if s \<noteq> [] then None
        else if length ip < 16 then
          (case ell of
             None \<Rightarrow> None
           | Some e \<Rightarrow> Some (take e ip @ replicate (16 - length ip) 0 @ drop e ip))
        else if ell \<noteq> None then None
        else Some ip)"

text \<open>A zone (\<open>%eth0\<close>) makes \<open>ParseIP\<close> refuse the address, an empty zone is an error before that.\<close>

definition parse_ipv6 :: "string \<Rightarrow> ip_bytes option" where
  "parse_ipv6 s =
     (if CHR ''%'' \<in> set s then None
      else if has_prefix s ''::'' then
        (if drop 2 s = [] then Some (replicate 16 0)
         else Option.bind (v6_loop [] (Some 0) (drop 2 s)) v6_finish)
      else Option.bind (v6_loop [] None s) v6_finish)"

subsection \<open>Addresses\<close>

definition parse_ip :: "string \<Rightarrow> ip_bytes option" where
  "parse_ip s =
     (case find (\<lambda>c. c = CHR ''.'' \<or> c = CHR '':'' \<or> c = CHR ''%'') s of
        None \<Rightarrow> None
      | Some c \<Rightarrow>
          if c = CHR ''.'' then parse_ipv4 s
          else if c = CHR '':'' then parse_ipv6 s
          else None)"

definition ip_to4 :: "ip_bytes \<Rightarrow> nat list option" where
  "ip_to4 ip = (if length ip = 16 \<and> take 12 ip = v4_mapped_prefix then Some (drop 12 ip) else None)"

definition parse_ip_to4 :: "string \<Rightarrow> nat list option" where
  "parse_ip_to4 s = Option.bind (parse_ip s) ip_to4"

text \<open>\<open>fmt.Sprintf("%d.%d.%d.%d", ...)\<close>.\<close>

definition dotted :: "nat list \<Rightarrow> string" where
  "dotted fs = join_with ''.'' (map itoa fs)"

subsection \<open>Lemmas\<close>

lemma dot_not_digit [simp]: "\<not> is_digit (CHR ''.'')" "\<not> is_digit (CHR '':'')" "\<not> is_digit (CHR ''%'')"
  by (simp_all add: is_digit_def char_code_def)

lemma v4_fields_itoa:
  assumes "n < 256"
  shows "v4_fields first (itoa n @ rest) 0 0 fs = v4_fields False rest n (length (itoa n)) fs"
proof -
  have small: "itoa k = [digit_char k]" if "k < 10" for k
    using that by (simp add: itoa.simps [of k])
  consider "n < 10" | "10 \<le> n" "n < 100" | "100 \<le> n" by linarith
  then show ?thesis
  proof cases
    case 1
    then show ?thesis by (simp add: small Let_def)
  next
    case 2
    then have "itoa n = [digit_char (n div 10), digit_char (n mod 10)]"
      by (simp add: itoa.simps [of n] small)
    moreover from 2 have "0 < n div 10" "n div 10 \<le> 255" by linarith+
    ultimately show ?thesis using 2 by (simp add: Let_def)
  next
    case 3
    then have "itoa n = itoa (n div 10) @ [digit_char (n mod 10)]"
      by (simp add: itoa.simps [of n])
    moreover have "itoa (n div 10) = [digit_char (n div 10 div 10), digit_char (n div 10 mod 10)]"
      using 3 assms by (simp add: itoa.simps [of "n div 10"] small)
    moreover have "n div 10 div 10 * 10 + n div 10 mod 10 = n div 10" by presburger
    moreover have "n div 10 \<le> 255" "0 < n div 10 div 10" "n div 10 div 10 \<le> 255"
      using 3 assms by linarith+
    ultimately show ?thesis using 3 assms by (simp add: Let_def)
  qed
qed

lemma v4_fields_dotted:
  assumes "length fs + length gs = 4" and "gs \<noteq> []" and "\<forall>g \<in> set gs. g < 256"
  shows "v4_fields first (dotted gs) 0 0 fs = Some (fs @ gs)"
  using assms
proof (induction gs arbitrary: first fs)
  case (Cons g gs)
  then have g: "g < 256" by simp
  show ?case
  proof (cases gs)
    case Nil
    have "v4_fields first (itoa g @ []) 0 0 fs = Some (fs @ [g])"
      unfolding v4_fields_itoa [OF g] using Cons.prems Nil by simp
    with Nil show ?thesis by (simp add: dotted_def)
  next
    case (Cons h hs)
    have ne: "dotted gs \<noteq> []" using Cons by (cases hs) (simp_all add: dotted_def)
    have "dotted (g # gs) = itoa g @ CHR ''.'' # dotted gs"
      using Cons by (simp add: dotted_def)
    then have "v4_fields first (dotted (g # gs)) 0 0 fs = v4_fields True (dotted gs) 0 0 (fs @ [g])"
      using Cons.prems Cons ne by (simp add: v4_fields_itoa [OF g])
    also have "\<dots> = Some ((fs @ [g]) @ gs)"
      using Cons.prems Cons by (intro Cons.IH) auto
    finally show ?thesis by simp
  qed
qed simp

lemma digit_char_of: "is_digit c \<Longrightarrow> digit_char (char_code c - 48) = c"
  by (auto simp: is_digit_def digit_char_def char_code_def)

lemma itoa_snoc: "0 < v \<Longrightarrow> d < 10 \<Longrightarrow> itoa (v * 10 + d) = itoa v @ [digit_char d]"
  by (simp add: itoa.simps [of "v * 10 + d"])

text \<open>The text read so far of the current octet is the decimal form of its value.\<close>

definition octet_text :: "string \<Rightarrow> nat \<Rightarrow> nat \<Rightarrow> bool" where
  "octet_text w v dl \<longleftrightarrow> (if w = [] then v = 0 \<and> dl = 0 else w = itoa v \<and> dl = length w \<and> v < 256)"

lemma octet_text_step:
  assumes "octet_text w v dl" and "is_digit c" and "\<not> (dl = 1 \<and> v = 0)"
    and "v * 10 + (char_code c - 48) \<le> 255"
  shows "octet_text (w @ [c]) (v * 10 + (char_code c - 48)) (dl + 1)"
proof -
  let ?d = "char_code c - 48"
  have d: "?d < 10" using assms(2) by (auto simp: is_digit_def)
  have c: "digit_char ?d = c" using assms(2) by (rule digit_char_of)
  show ?thesis
  proof (cases "w = []")
    case True
    with assms(1) d c show ?thesis by (simp add: octet_text_def itoa.simps [of ?d])
  next
    case False
    then have w: "w = itoa v" "dl = length w" using assms(1) by (auto simp: octet_text_def)
    have "0 < v"
      using assms(3) w by (cases "v = 0") (simp_all add: itoa.simps [of 0])
    then show ?thesis using w assms(4) d c by (simp add: octet_text_def itoa_snoc)
  qed
qed

lemma v4_fields_canonical:
  assumes "v4_fields first s v dl fs = Some out"
    and "octet_text w v dl" and "first \<longleftrightarrow> w = []" and "first \<Longrightarrow> s \<noteq> [] \<or> length fs < 3"
    and "length fs \<le> 3"
  shows "\<exists>gs. out = fs @ gs \<and> gs \<noteq> [] \<and> length out = 4 \<and> (\<forall>g \<in> set gs. g < 256) \<and> w @ s = dotted gs"
  using assms
proof (induction s arbitrary: first v dl fs w)
  case Nil
  then show ?case
    by (intro exI [of _ "[v]"]) (auto simp: octet_text_def dotted_def split: if_splits)
next
  case (Cons c cs)
  show ?case
  proof (cases "is_digit c")
    case True
    let ?v = "v * 10 + (char_code c - 48)"
    have rec: "v4_fields False cs ?v (dl + 1) fs = Some out" and
      ok: "\<not> (dl = 1 \<and> v = 0)" "?v \<le> 255"
      using Cons.prems(1) True by (auto simp: Let_def split: if_splits)
    have "octet_text (w @ [c]) ?v (dl + 1)"
      using Cons.prems(2) True ok by (rule octet_text_step)
    from Cons.IH [OF rec this] Cons.prems(5) show ?thesis by auto
  next
    case False
    then have c: "c = CHR ''.''" "\<not> first" "cs \<noteq> []" "length fs \<noteq> 3" and
      rec: "v4_fields True cs 0 0 (fs @ [v]) = Some out"
      using Cons.prems(1) by (auto split: if_splits)
    have "\<exists>gs. out = (fs @ [v]) @ gs \<and> gs \<noteq> [] \<and> length out = 4 \<and> (\<forall>g \<in> set gs. g < 256) \<and>
        [] @ cs = dotted gs"
      using c Cons.prems(5) by (intro Cons.IH [OF rec]) (auto simp: octet_text_def)
    then obtain gs where gs: "out = fs @ v # gs" "gs \<noteq> []" "length out = 4"
      "\<forall>g \<in> set gs. g < 256" "cs = dotted gs" by auto
    have w: "w = itoa v" "v < 256" using Cons.prems(2,3) c by (auto simp: octet_text_def split: if_splits)
    have "w @ c # cs = dotted (v # gs)"
      using w c gs by (cases gs) (simp_all add: dotted_def)
    with gs w show ?thesis by (intro exI [of _ "v # gs"]) auto
  qed
qed

lemma dotted_first_special:
  assumes "length gs = 4"
  shows "find (\<lambda>c. c = CHR ''.'' \<or> c = CHR '':'' \<or> c = CHR ''%'') (dotted gs) = Some (CHR ''.'')"
proof -
  let ?p = "\<lambda>c. c = CHR ''.'' \<or> c = CHR '':'' \<or> c = CHR ''%''"
  have skip: "find ?p (xs @ ys) = find ?p ys" if "\<forall>c \<in> set xs. is_digit c" for xs ys
    using that by (induction xs) auto
  obtain a b gs' where "gs = a # b # gs'"
    using assms by (metis Suc_eq_numeral length_Suc_conv eval_nat_numeral(2) pred_numeral_simps(2))
  then show ?thesis by (simp add: dotted_def skip itoa_digits)
qed

lemma parse_ip_dotted:
  assumes "length gs = 4" and "\<forall>g \<in> set gs. g < 256"
  shows "parse_ip_to4 (dotted gs) = Some gs"
proof -
  have "v4_fields True (dotted gs) 0 0 [] = Some gs"
    using v4_fields_dotted [of "[]" gs True] assms by (cases gs) auto
  moreover have "parse_ip (dotted gs) = parse_ipv4 (dotted gs)"
    using dotted_first_special [OF assms(1)] by (simp add: parse_ip_def)
  ultimately show ?thesis
    using assms(1) by (simp add: parse_ip_to4_def parse_ipv4_def ip_to4_def v4_mapped_prefix_def)
qed

text \<open>A string without a colon is accepted only in canonical dotted form.\<close>

lemma parse_ip_no_colon:
  assumes "parse_ip_to4 s = Some gs" and "CHR '':'' \<notin> set s"
  shows "s = dotted gs \<and> length gs = 4 \<and> (\<forall>g \<in> set gs. g < 256)"
proof -
  let ?p = "\<lambda>c. c = CHR ''.'' \<or> c = CHR '':'' \<or> c = CHR ''%''"
  from assms(1) obtain c where c: "find ?p s = Some c"
    by (auto simp: parse_ip_to4_def parse_ip_def split: option.splits)
  then have "c \<in> set s" by (metis find_Some_iff nth_mem)
  with assms(2) have "c \<noteq> CHR '':''" by auto
  with assms(1) c have v4: "Option.bind (parse_ipv4 s) ip_to4 = Some gs"
    by (auto simp: parse_ip_to4_def parse_ip_def split: if_splits option.splits)
  then obtain out where out: "v4_fields True s 0 0 [] = Some out"
    by (auto simp: parse_ipv4_def bind_eq_Some_conv)
  have "s \<noteq> []" using c by auto
  with v4_fields_canonical [OF out, of "[]"] have canon: "length out = 4"
    "\<forall>g \<in> set out. g < 256" "s = dotted out" by (auto simp: octet_text_def)
  with v4 out have "gs = out"
    by (auto simp: parse_ipv4_def ip_to4_def v4_mapped_prefix_def)
  with canon show ?thesis by simp
qed

declare itoa.simps [simp del]

end
