(* ===== verification/ZL_Domain.thy ===== *)
theory ZL_Domain
  imports ZL_Prelude Complex_Main
begin

text \<open>
  The data model (\<open>internal/domain/types.go\<close>): one record per struct, with the fields of the
  struct in their order. A \<open>time.Time\<close> is the number of nanoseconds since the Unix epoch as an
  \<^typ>\<open>int\<close>, a pointer to one an option; \<open>json.RawMessage\<close> is the text it holds; a \<open>float64\<close> is a
  rational (rounding is not modelled).
\<close>

type_synonym gotime = int

definition nanos_per_second :: int where
  "nanos_per_second = 1000000000"

definition seconds :: "int \<Rightarrow> int" where
  "seconds n = n * nanos_per_second"

definition minutes :: "int \<Rightarrow> int" where
  "minutes n = seconds (60 * n)"

text \<open>\<open>Time.Unix\<close> rounds towards minus infinity.\<close>

definition unix_seconds :: "gotime \<Rightarrow> int" where
  "unix_seconds t = t div nanos_per_second"

subsection \<open>Users, roles, sessions\<close>

record role =
  ro_id :: string
  ro_key :: string
  ro_name :: string
  ro_description :: string
  ro_permissions :: "string list"
  ro_builtin :: bool
  ro_created_at :: gotime
  ro_updated_at :: gotime

record user =
  u_id :: string
  u_username :: string
  u_email :: string
  u_display_name :: string
  u_role :: string
  u_source :: string
  u_roles :: "role list"
  u_direct_roles :: "role list"
  u_disabled :: bool
  u_wecom_bound :: bool
  u_last_login_at :: "gotime option"
  u_created_at :: gotime
  u_updated_at :: gotime
  u_permissions :: "string list"

record user_group =
  g_id :: string
  g_name :: string
  g_description :: string
  g_disabled :: bool
  g_members :: "user list"
  g_roles :: "role list"
  g_created_at :: gotime
  g_updated_at :: gotime

record permission_info =
  pm_key :: string
  pm_implied_read :: string

record session =
  s_token :: string
  s_provider :: string
  s_expires_at :: gotime
  s_user :: user

record refresh_task =
  t_id :: string
  t_type :: string
  t_status :: string
  t_payload :: string
  t_created_by :: string
  t_created_at :: gotime
  t_updated_at :: gotime
  t_finished_at :: "gotime option"

record reset_captcha =
  c_token :: string
  c_question :: string
  c_expires_at :: gotime

record reset_channel =
  ch_id :: string
  ch_masked_to :: string
  ch_requires_to :: bool

subsection \<open>Servers, zones, records, scopes\<close>

record server =
  sv_id :: string
  sv_name :: string
  sv_host :: string
  sv_role :: string
  sv_agent_url :: string
  sv_api_key :: string
  sv_tls_insecure :: bool
  sv_status :: string
  sv_failure_count :: int
  sv_last_checked :: gotime

record dns_zone =
  z_id :: string
  z_name :: string
  z_type :: string
  z_reverse :: bool
  z_dynamic_update :: string
  z_server_id :: string
  z_last_synced_at :: "gotime option"
  z_sync_status :: string
  z_last_error :: string

record dns_record =
  r_id :: string
  r_zone_id :: string
  r_name :: string
  r_type :: string
  r_value :: string
  r_ttl :: int
  r_create_ptr :: bool
  r_updated_at :: gotime
  r_last_synced_at :: "gotime option"

record dhcp_scope =
  sc_id :: string
  sc_name :: string
  sc_description :: string
  sc_subnet :: string
  sc_default_gateway :: string
  sc_start_range :: string
  sc_end_range :: string
  sc_lease_hours :: int
  sc_lease_seconds :: int
  sc_state :: string
  sc_server_id :: string
  sc_external_id :: string
  sc_last_synced_at :: "gotime option"
  sc_sync_status :: string
  sc_last_error :: string

record dhcp_exclusion =
  ex_id :: string
  ex_scope_id :: string
  ex_start_ip :: string
  ex_end_ip :: string
  ex_external_id :: string
  ex_last_synced_at :: "gotime option"

record dhcp_lease =
  l_id :: string
  l_scope_id :: string
  l_ip :: string
  l_mac :: string
  l_hostname :: string
  l_state :: string
  l_expires_at :: gotime
  l_external_id :: string
  l_last_synced_at :: "gotime option"

record dhcp_reservation =
  rv_id :: string
  rv_scope_id :: string
  rv_ip :: string
  rv_mac :: string
  rv_name :: string
  rv_description :: string
  rv_external_id :: string
  rv_last_synced_at :: "gotime option"

record notification =
  n_id :: string
  n_level :: string
  n_title :: string
  n_message :: string
  n_source_type :: string
  n_source_id :: string
  n_metadata :: string
  n_read_at :: "gotime option"
  n_dismissed_at :: "gotime option"
  n_created_at :: gotime
  n_updated_at :: gotime

record auth_provider =
  ap_id :: string
  ap_type :: string
  ap_name :: string
  ap_enabled :: bool
  ap_config :: string

record channel =
  mc_id :: string
  mc_name :: string
  mc_enabled :: bool
  mc_reset_enabled :: bool
  mc_config :: string

record audit_entry =
  a_ts :: gotime
  a_user_id :: string
  a_username :: string
  a_action :: string
  a_target :: string
  a_module :: string
  a_result :: string
  a_detail :: "(string \<times> string) list"
  a_ip :: string

subsection \<open>System configuration\<close>

record base_config =
  bc_site_name :: string
  bc_login_name :: string
  bc_app_name :: string
  bc_app_subtitle :: string
  bc_icon_data :: string
  bc_reset_code_ttl_minutes :: int
  bc_reset_captcha_ttl_minutes :: int
  bc_reset_send_cooldown_minutes :: rat
  bc_reset_rate_limit_minutes :: int
  bc_sync_concurrency :: int
  bc_dns_record_concurrency :: int
  bc_dhcp_scope_concurrency :: int
  bc_refresh_delay_seconds :: int
  bc_offline_failure_count :: int
  bc_connection_timeout_seconds :: int
  bc_operation_timeout_seconds :: int
  bc_full_sync_timeout_seconds :: int
  bc_health_interval_minutes :: int
  bc_health_concurrency :: int
  bc_wecom_state_ttl_minutes :: int
  bc_login_max_failures :: int
  bc_login_lockout_minutes :: int

definition default_base_config :: base_config where
  "default_base_config = \<lparr>
     bc_site_name = ''ZoneLease'',
     bc_login_name = ''ZoneLease'',
     bc_app_name = ''ZoneLease'',
     bc_app_subtitle = ''DNS / DHCP Control'',
     bc_icon_data = ''/favicon.svg'',
     bc_reset_code_ttl_minutes = 10,
     bc_reset_captcha_ttl_minutes = 1,
     bc_reset_send_cooldown_minutes = 1 / 2,
     bc_reset_rate_limit_minutes = 5,
     bc_sync_concurrency = 3,
     bc_dns_record_concurrency = 3,
     bc_dhcp_scope_concurrency = 5,
     bc_refresh_delay_seconds = 10,
     bc_offline_failure_count = 3,
     bc_connection_timeout_seconds = 5,
     bc_operation_timeout_seconds = 20,
     bc_full_sync_timeout_seconds = 300,
     bc_health_interval_minutes = 1,
     bc_health_concurrency = 1,
     bc_wecom_state_ttl_minutes = 5,
     bc_login_max_failures = 5,
     bc_login_lockout_minutes = 2\<rparr>"

definition positive_or :: "'a::linordered_idom \<Rightarrow> 'a \<Rightarrow> 'a" where
  "positive_or v d = (if v \<le> 0 then d else v)"

definition normalize_base_config :: "base_config \<Rightarrow> base_config" where
  "normalize_base_config b =
     (let d = default_base_config in
      \<lparr>bc_site_name = first_non_empty [bc_site_name b, bc_site_name d],
       bc_login_name = first_non_empty [bc_login_name b, bc_login_name d],
       bc_app_name = first_non_empty [bc_app_name b, bc_app_name d],
       bc_app_subtitle = first_non_empty [bc_app_subtitle b, bc_app_subtitle d],
       bc_icon_data = first_non_empty [bc_icon_data b, bc_icon_data d],
       bc_reset_code_ttl_minutes = positive_or (bc_reset_code_ttl_minutes b) (bc_reset_code_ttl_minutes d),
       bc_reset_captcha_ttl_minutes =
         positive_or (bc_reset_captcha_ttl_minutes b) (bc_reset_captcha_ttl_minutes d),
       bc_reset_send_cooldown_minutes =
         positive_or (bc_reset_send_cooldown_minutes b) (bc_reset_send_cooldown_minutes d),
       bc_reset_rate_limit_minutes =
         positive_or (bc_reset_rate_limit_minutes b) (bc_reset_rate_limit_minutes d),
       bc_sync_concurrency = positive_or (bc_sync_concurrency b) (bc_sync_concurrency d),
       bc_dns_record_concurrency = positive_or (bc_dns_record_concurrency b) (bc_dns_record_concurrency d),
       bc_dhcp_scope_concurrency = positive_or (bc_dhcp_scope_concurrency b) (bc_dhcp_scope_concurrency d),
       bc_refresh_delay_seconds = positive_or (bc_refresh_delay_seconds b) (bc_refresh_delay_seconds d),
       bc_offline_failure_count = positive_or (bc_offline_failure_count b) (bc_offline_failure_count d),
       bc_connection_timeout_seconds =
         positive_or (bc_connection_timeout_seconds b) (bc_connection_timeout_seconds d),
       bc_operation_timeout_seconds =
         positive_or (bc_operation_timeout_seconds b) (bc_operation_timeout_seconds d),
       bc_full_sync_timeout_seconds =
         positive_or (bc_full_sync_timeout_seconds b) (bc_full_sync_timeout_seconds d),
       bc_health_interval_minutes =
         positive_or (bc_health_interval_minutes b) (bc_health_interval_minutes d),
       bc_health_concurrency = positive_or (bc_health_concurrency b) (bc_health_concurrency d),
       bc_wecom_state_ttl_minutes =
         (if bc_wecom_state_ttl_minutes b \<le> 0 \<or> bc_wecom_state_ttl_minutes b > 60
          then bc_wecom_state_ttl_minutes d else bc_wecom_state_ttl_minutes b),
       bc_login_max_failures = positive_or (bc_login_max_failures b) (bc_login_max_failures d),
       bc_login_lockout_minutes = positive_or (bc_login_lockout_minutes b) (bc_login_lockout_minutes d)\<rparr>)"

text \<open>What every reader of the configuration relies on: no limit, timeout or interval is zero or
  negative, and no text is blank.\<close>

definition usable_base_config :: "base_config \<Rightarrow> bool" where
  "usable_base_config b \<longleftrightarrow>
     (\<forall>t \<in> {bc_site_name b, bc_login_name b, bc_app_name b, bc_app_subtitle b, bc_icon_data b}.
        t \<noteq> [] \<and> trim_space t = t) \<and>
     0 < bc_reset_send_cooldown_minutes b \<and>
     (\<forall>n \<in> {bc_reset_code_ttl_minutes b, bc_reset_captcha_ttl_minutes b, bc_reset_rate_limit_minutes b,
        bc_sync_concurrency b, bc_dns_record_concurrency b, bc_dhcp_scope_concurrency b,
        bc_refresh_delay_seconds b, bc_offline_failure_count b, bc_connection_timeout_seconds b,
        bc_operation_timeout_seconds b, bc_full_sync_timeout_seconds b, bc_health_interval_minutes b,
        bc_health_concurrency b, bc_wecom_state_ttl_minutes b, bc_login_max_failures b,
        bc_login_lockout_minutes b}. 0 < n) \<and>
     bc_wecom_state_ttl_minutes b \<le> 60"

lemma positive_or_pos: "0 < d \<Longrightarrow> 0 < positive_or v d"
  by (simp add: positive_or_def)

lemma positive_or_id: "0 < v \<Longrightarrow> positive_or v d = v"
  by (simp add: positive_or_def)

lemma default_text_plain:
  "trim_space ''ZoneLease'' = ''ZoneLease''"
  "trim_space ''DNS / DHCP Control'' = ''DNS / DHCP Control''"
  "trim_space ''/favicon.svg'' = ''/favicon.svg''"
  by (rule trim_space_graph, simp add: graph_ends_def char_code_def)+

lemma first_non_empty_default:
  assumes "trim_space d = d" and "d \<noteq> []"
  shows "first_non_empty [v, d] \<noteq> []"
  using assms by simp

lemma normalize_usable: "usable_base_config (normalize_base_config b)"
  unfolding usable_base_config_def normalize_base_config_def default_base_config_def Let_def
  by (simp add: positive_or_pos default_text_plain)

lemma normalize_fixes_usable:
  "usable_base_config b \<Longrightarrow> normalize_base_config b = b"
  unfolding usable_base_config_def normalize_base_config_def Let_def
  by (cases b) (simp add: positive_or_id)

text \<open>Whatever is stored, \<open>NormalizeSystemBaseConfig\<close> returns a usable configuration: texts are
  trimmed and not blank, every limit, timeout, interval and threshold is positive and the WeCom
  state lives at most 60 minutes; a usable configuration is returned unchanged, so normalising twice
  is normalising once.\<close>

theorem normalize_base_config_correct:
  "usable_base_config (normalize_base_config b) \<and>
   normalize_base_config (normalize_base_config b) = normalize_base_config b \<and>
   (usable_base_config b \<longleftrightarrow> normalize_base_config b = b)"
proof -
  have u: "usable_base_config (normalize_base_config b)" by (rule normalize_usable)
  then have "normalize_base_config (normalize_base_config b) = normalize_base_config b"
    by (rule normalize_fixes_usable)
  moreover have "usable_base_config b" if "normalize_base_config b = b"
    using u unfolding that .
  ultimately show ?thesis using u normalize_fixes_usable by blast
qed

end
