(* ===== verification/ZL_Store.thy ===== *)
theory ZL_Store
  imports ZL_Resource_Id ZL_Domain "HOL-Library.Product_Lexorder"
begin

text \<open>
  The PostgreSQL tables behind \<open>repository.Store\<close> and the statements on servers, the base
  configuration, the audit trail, DNS zones and DNS records (\<open>internal/repository/resources.go\<close>,
  \<open>settings.go\<close>, \<open>audit.go\<close>, \<open>dns.go\<close>; the constraints are those of
  \<open>pkg/database/migrations\<close>). A table is a list of rows; a statement is atomic, so a failed one
  leaves the database as it was. \<open>db_fault op key\<close> says that the statement of method \<open>op\<close> on \<open>key\<close>
  fails (connection lost, deadline exceeded, a key that is no UUID): it is arbitrary, so every
  theorem holds whichever statements fail. \<open>ORDER BY\<close> on text is the byte order. Identifiers the
  database generates are arguments (\<open>nid\<close>), the time of a statement (\<open>now()\<close>) is the argument \<open>now\<close>.
\<close>

datatype store_error = NotFound | UniqueViolation | DbError

type_synonym store_op = string

record user_row =
  ur_id :: string
  ur_username :: string
  ur_email :: string
  ur_password_hash :: string
  ur_display_name :: string
  ur_role :: string
  ur_source :: string
  ur_disabled :: bool
  ur_last_login_at :: "gotime option"
  ur_created_at :: gotime
  ur_updated_at :: gotime

record group_row =
  gr_id :: string
  gr_name :: string
  gr_description :: string
  gr_disabled :: bool
  gr_created_at :: gotime
  gr_updated_at :: gotime

record session_row =
  sr_token_hash :: string
  sr_user_id :: string
  sr_provider :: string
  sr_expires_at :: gotime

record reset_row =
  rr_token_hash :: string
  rr_user_id :: string
  rr_code_hash :: string
  rr_channel :: string
  rr_expires_at :: gotime
  rr_used_at :: "gotime option"
  rr_created_at :: gotime

record db =
  db_fault :: "store_op \<Rightarrow> string \<Rightarrow> bool"
  db_users :: "user_row list"
  db_roles :: "role list"
  db_user_roles :: "(string \<times> string) list"
  db_groups :: "group_row list"
  db_group_members :: "(string \<times> string) list"
  db_group_roles :: "(string \<times> string) list"
  db_bindings :: "(string \<times> string) list"
  db_sessions :: "session_row list"
  db_resets :: "reset_row list"
  db_login_failures :: "(string \<times> int) list"
  db_settings :: "base_config option"
  db_providers :: "auth_provider list"
  db_channels :: "channel list"
  db_servers :: "server list"
  db_zones :: "dns_zone list"
  db_records :: "dns_record list"
  db_scopes :: "dhcp_scope list"
  db_exclusions :: "dhcp_exclusion list"
  db_leases :: "dhcp_lease list"
  db_reservations :: "dhcp_reservation list"
  db_tasks :: "refresh_task list"
  db_notifications :: "notification list"
  db_audit :: "audit_entry list"

text \<open>The database right after the migrations, before the seed.\<close>

definition empty_db :: db where
  "empty_db = \<lparr>db_fault = (\<lambda>_ _. False), db_users = [], db_roles = [], db_user_roles = [], db_groups = [],
     db_group_members = [], db_group_roles = [], db_bindings = [], db_sessions = [], db_resets = [],
     db_login_failures = [], db_settings = None, db_providers = [], db_channels = [],
     db_servers = [], db_zones = [], db_records = [], db_scopes = [], db_exclusions = [], db_leases = [],
     db_reservations = [], db_tasks = [], db_notifications = [], db_audit = []\<rparr>"

text \<open>The database after a statement whose error the code drops (\<open>_ = s.store.F(...)\<close>).\<close>

definition drop_err :: "db \<Rightarrow> store_error + db \<Rightarrow> db" where
  "drop_err d r = (case r of Inl e \<Rightarrow> d | Inr d' \<Rightarrow> d')"

subsection \<open>Servers\<close>

definition get_server :: "db \<Rightarrow> string \<Rightarrow> store_error + server" where
  "get_server d sid =
     (if db_fault d ''GetServer'' sid then Inl DbError
      else case find_row (\<lambda>s. sv_id s = sid) (db_servers d) of
             None \<Rightarrow> Inl NotFound
           | Some s \<Rightarrow> Inr s)"

definition list_servers :: "db \<Rightarrow> store_error + server list" where
  "list_servers d =
     (if db_fault d ''ListServers'' [] then Inl DbError else Inr (sort_key sv_name (db_servers d)))"

record health_update =
  hu_previous :: string
  hu_status :: string
  hu_failures :: int

definition became_offline :: "health_update \<Rightarrow> bool" where
  "became_offline h = (hu_status h = ''Offline'' \<and> hu_previous h \<noteq> ''Offline'')"

text \<open>The row after one health report: the two \<open>UPDATE servers\<close> statements.\<close>

definition health_row :: "string \<Rightarrow> int \<Rightarrow> gotime \<Rightarrow> server \<Rightarrow> server" where
  "health_row status limit now s =
     (if status = ''Online'' then s\<lparr>sv_status := ''Online'', sv_failure_count := 0, sv_last_checked := now\<rparr>
      else s\<lparr>sv_failure_count := sv_failure_count s + 1,
             sv_status := (if sv_failure_count s + 1 \<ge> limit then status else sv_status s),
             sv_last_checked := now\<rparr>)"

definition update_server_health ::
    "db \<Rightarrow> string \<Rightarrow> string \<Rightarrow> int \<Rightarrow> gotime \<Rightarrow> store_error + (health_update \<times> db)" where
  "update_server_health d sid status offline_limit now =
     (let limit = (if offline_limit \<le> 0 then 3 else offline_limit) in
      if db_fault d ''UpdateHealth'' sid then Inl DbError
      else case find_row (\<lambda>s. sv_id s = sid) (db_servers d) of
             None \<Rightarrow> Inl NotFound
           | Some s \<Rightarrow>
               let s' = health_row status limit now s in
               Inr (\<lparr>hu_previous = sv_status s, hu_status = sv_status s', hu_failures = sv_failure_count s'\<rparr>,
                    d\<lparr>db_servers := update_rows (\<lambda>x. sv_id x = sid) (health_row status limit now)
                       (db_servers d)\<rparr>))"

subsection \<open>Configuration and audit\<close>

text \<open>A missing row decodes to the zero value of the struct.\<close>

definition zero_base_config :: base_config where
  "zero_base_config = \<lparr>bc_site_name = [], bc_login_name = [], bc_app_name = [], bc_app_subtitle = [],
     bc_icon_data = [], bc_reset_code_ttl_minutes = 0, bc_reset_captcha_ttl_minutes = 0,
     bc_reset_send_cooldown_minutes = 0, bc_reset_rate_limit_minutes = 0, bc_sync_concurrency = 0,
     bc_dns_record_concurrency = 0, bc_dhcp_scope_concurrency = 0, bc_refresh_delay_seconds = 0,
     bc_offline_failure_count = 0, bc_connection_timeout_seconds = 0, bc_operation_timeout_seconds = 0,
     bc_full_sync_timeout_seconds = 0, bc_health_interval_minutes = 0, bc_health_concurrency = 0,
     bc_wecom_state_ttl_minutes = 0, bc_login_max_failures = 0, bc_login_lockout_minutes = 0\<rparr>"

definition get_system_base_config :: "db \<Rightarrow> store_error + base_config" where
  "get_system_base_config d =
     (if db_fault d ''GetBase'' [] then Inl DbError
      else case db_settings d of None \<Rightarrow> Inr zero_base_config | Some b \<Rightarrow> Inr b)"

definition write_audit :: "audit_entry \<Rightarrow> db \<Rightarrow> store_error + db" where
  "write_audit e d =
     (if db_fault d ''WriteAudit'' (a_action e) then Inl DbError
      else Inr (d\<lparr>db_audit := db_audit d @ [e]\<rparr>))"

subsection \<open>DNS zones\<close>

definition list_dns_zones :: "db \<Rightarrow> store_error + dns_zone list" where
  "list_dns_zones d =
     (if db_fault d ''ListZones'' [] then Inl DbError else Inr (sort_key z_name (db_zones d)))"

definition get_dns_zone :: "db \<Rightarrow> string \<Rightarrow> store_error + dns_zone" where
  "get_dns_zone d zid =
     (if db_fault d ''GetZone'' zid then Inl DbError
      else case find_row (\<lambda>z. z_id z = zid) (db_zones d) of
             None \<Rightarrow> Inl NotFound
           | Some z \<Rightarrow> Inr z)"

definition dns_reverse_zone_exists :: "db \<Rightarrow> string \<Rightarrow> string \<Rightarrow> store_error + bool" where
  "dns_reverse_zone_exists d sid name =
     (if db_fault d ''ReverseExists'' name then Inl DbError
      else Inr (list_ex (\<lambda>z. z_server_id z = sid \<and> to_lower (z_name z) = to_lower name \<and> z_reverse z)
             (db_zones d)))"

text \<open>The row the upsert writes: blank type and dynamic update get their defaults, the zone counts
  as synced.\<close>

definition synced_zone :: "gotime \<Rightarrow> dns_zone \<Rightarrow> dns_zone" where
  "synced_zone now z = z\<lparr>z_type := first_non_empty [z_type z, ''Primary''],
     z_dynamic_update := first_non_empty [z_dynamic_update z, ''None''],
     z_sync_status := ''synced'', z_last_synced_at := Some now, z_last_error := []\<rparr>"

definition upsert_dns_zone_stmt :: "gotime \<Rightarrow> dns_zone \<Rightarrow> db \<Rightarrow> store_error + db" where
  "upsert_dns_zone_stmt now z d =
     (if \<not> list_ex (\<lambda>s. sv_id s = z_server_id z) (db_servers d) then Inl DbError
      else if list_ex (\<lambda>x. z_id x \<noteq> z_id z \<and> z_server_id x = z_server_id z \<and> z_name x = z_name z)
                (db_zones d) then Inl UniqueViolation
      else Inr (d\<lparr>db_zones := upsert_row (\<lambda>x. z_id x = z_id z) (\<lambda>_. synced_zone now z) (synced_zone now z)
             (db_zones d)\<rparr>))"

definition zone_with_id :: "dns_zone \<Rightarrow> dns_zone" where
  "zone_with_id z = (if z_id z = [] then z\<lparr>z_id := dns_zone_id (z_server_id z) (z_name z)\<rparr> else z)"

text \<open>\<open>UpsertDNSZone\<close>: the returned item keeps its own type and dynamic update.\<close>

definition upsert_dns_zone :: "gotime \<Rightarrow> dns_zone \<Rightarrow> db \<Rightarrow> store_error + (dns_zone \<times> db)" where
  "upsert_dns_zone now z d =
     (let z1 = zone_with_id z in
      if db_fault d ''UpsertZone'' (z_id z1) then Inl DbError
      else case upsert_dns_zone_stmt now z1 d of
             Inl e \<Rightarrow> Inl e
           | Inr d' \<Rightarrow> Inr (z1\<lparr>z_last_synced_at := Some now, z_sync_status := ''synced'', z_last_error := []\<rparr>, d'))"

text \<open>Deleting zones deletes their records (\<open>ON DELETE CASCADE\<close>).\<close>

definition delete_zones_where :: "(dns_zone \<Rightarrow> bool) \<Rightarrow> db \<Rightarrow> db" where
  "delete_zones_where p d =
     (let gone = map z_id (filter p (db_zones d)) in
      d\<lparr>db_zones := delete_rows p (db_zones d),
        db_records := delete_rows (\<lambda>r. r_zone_id r \<in> set gone) (db_records d)\<rparr>)"

definition delete_dns_zone :: "string \<Rightarrow> db \<Rightarrow> store_error + db" where
  "delete_dns_zone zid d =
     (if db_fault d ''DeleteZone'' zid then Inl DbError
      else if \<not> list_ex (\<lambda>z. z_id z = zid) (db_zones d) then Inl NotFound
      else Inr (delete_zones_where (\<lambda>z. z_id z = zid) d))"

fun upsert_zones :: "gotime \<Rightarrow> string \<Rightarrow> dns_zone list \<Rightarrow> db \<Rightarrow> store_error + (string list \<times> db)" where
  "upsert_zones now sid [] d = Inr ([], d)"
| "upsert_zones now sid (z # zs) d =
     (let z1 = zone_with_id (z\<lparr>z_server_id := sid\<rparr>) in
      case upsert_dns_zone_stmt now z1 d of
        Inl e \<Rightarrow> Inl e
      | Inr d1 \<Rightarrow>
          (case upsert_zones now sid zs d1 of
             Inl e \<Rightarrow> Inl e
           | Inr (keep, d2) \<Rightarrow> Inr (z_id z1 # keep, d2)))"

text \<open>\<open>ReplaceDNSZones\<close>, one transaction: it commits as a whole or leaves the tables alone.\<close>

definition replace_dns_zones :: "gotime \<Rightarrow> string \<Rightarrow> dns_zone list \<Rightarrow> db \<Rightarrow> store_error + db" where
  "replace_dns_zones now sid zs d =
     (if db_fault d ''ReplaceZones'' sid then Inl DbError
      else case upsert_zones now sid zs d of
             Inl e \<Rightarrow> Inl e
           | Inr (keep, d1) \<Rightarrow>
               Inr (delete_zones_where (\<lambda>z. z_server_id z = sid \<and> z_id z \<notin> set keep) d1))"

definition mark_dns_zone_sync_error :: "string \<Rightarrow> string \<Rightarrow> db \<Rightarrow> store_error + db" where
  "mark_dns_zone_sync_error zid message d =
     (if db_fault d ''MarkZone'' zid then Inl DbError
      else Inr (d\<lparr>db_zones := update_rows (\<lambda>z. z_id z = zid)
             (\<lambda>z. z\<lparr>z_sync_status := ''failed'', z_last_error := message\<rparr>) (db_zones d)\<rparr>))"

subsection \<open>DNS records\<close>

definition record_order :: "dns_record \<Rightarrow> string \<times> string \<times> string" where
  "record_order r = (r_name r, r_type r, r_value r)"

definition list_dns_records_by_zone :: "db \<Rightarrow> string \<Rightarrow> store_error + dns_record list" where
  "list_dns_records_by_zone d zid =
     (if db_fault d ''ListRecords'' zid then Inl DbError
      else Inr (sort_key record_order (filter (\<lambda>r. r_zone_id r = zid) (db_records d))))"

definition get_dns_record :: "db \<Rightarrow> string \<Rightarrow> store_error + dns_record" where
  "get_dns_record d rid =
     (if db_fault d ''GetRecord'' rid then Inl DbError
      else case find_row (\<lambda>r. r_id r = rid) (db_records d) of
             None \<Rightarrow> Inl NotFound
           | Some r \<Rightarrow> Inr r)"

definition default_ttl :: "dns_record \<Rightarrow> dns_record" where
  "default_ttl r = (if r_ttl r \<le> 0 then r\<lparr>r_ttl := 3600\<rparr> else r)"

definition written_record :: "gotime \<Rightarrow> dns_record \<Rightarrow> dns_record" where
  "written_record now r = r\<lparr>r_updated_at := now, r_last_synced_at := Some now\<rparr>"

fun insert_zone_records ::
    "gotime \<Rightarrow> dns_zone \<Rightarrow> dns_record list \<Rightarrow> db \<Rightarrow> store_error + db" where
  "insert_zone_records now z [] d = Inr d"
| "insert_zone_records now z (r # rs) d =
     (let r1 = r\<lparr>r_zone_id := z_id z\<rparr>;
          r2 = (if r_id r1 = [] then
                  r1\<lparr>r_id := dns_record_id (z_server_id z) (z_name z) (r_type r1) (r_name r1) (r_value r1)\<rparr>
                else r1);
          r3 = default_ttl r2
      in if list_ex (\<lambda>x. r_id x = r_id r3) (db_records d) then Inl UniqueViolation
         else insert_zone_records now z rs (d\<lparr>db_records := db_records d @ [written_record now r3]\<rparr>))"

text \<open>\<open>ReplaceDNSZoneRecords\<close>, one transaction.\<close>

definition replace_dns_zone_records ::
    "gotime \<Rightarrow> dns_zone \<Rightarrow> dns_record list \<Rightarrow> db \<Rightarrow> store_error + db" where
  "replace_dns_zone_records now z rs d =
     (let z1 = zone_with_id z in
      if db_fault d ''ReplaceRecords'' (z_id z1) then Inl DbError
      else case upsert_dns_zone_stmt now z1 d of
             Inl e \<Rightarrow> Inl e
           | Inr d1 \<Rightarrow>
               insert_zone_records now z1 rs
                 (d1\<lparr>db_records := delete_rows (\<lambda>r. r_zone_id r = z_id z1) (db_records d1)\<rparr>))"

text \<open>\<open>UpsertDNSRecord\<close> returns a record whatever happens: on an error it carries the zero time.\<close>

definition go_zero_time :: gotime where
  "go_zero_time = - 62135596800 * nanos_per_second"

definition upsert_dns_record :: "gotime \<Rightarrow> dns_record \<Rightarrow> db \<Rightarrow> dns_record \<times> (store_error + db)" where
  "upsert_dns_record now r d =
     (let r1 = default_ttl r in
      if db_fault d ''UpsertRecord'' (r_id r1) \<or> \<not> list_ex (\<lambda>z. z_id z = r_zone_id r1) (db_zones d)
      then (r1\<lparr>r_updated_at := go_zero_time\<rparr>, Inl DbError)
      else let r2 = written_record now r1 in
        (r2, Inr (d\<lparr>db_records := upsert_row (\<lambda>x. r_id x = r_id r2) (\<lambda>_. r2) r2 (db_records d)\<rparr>)))"

definition delete_dns_record :: "string \<Rightarrow> db \<Rightarrow> store_error + db" where
  "delete_dns_record rid d =
     (if db_fault d ''DeleteRecord'' rid then Inl DbError
      else if \<not> list_ex (\<lambda>r. r_id r = rid) (db_records d) then Inl NotFound
      else Inr (d\<lparr>db_records := delete_rows (\<lambda>r. r_id r = rid) (db_records d)\<rparr>))"

end
