(* ===== verification/ZL_Http.thy ===== *)
theory ZL_Http
  imports ZL_Store
begin

text \<open>
  What every handler shares, \<open>api/router/helpers.go\<close> and the permission checks of
  \<open>api/router/rbac.go\<close>: bearer token, path identifiers, CORS, audit metadata, status codes and the
  client address of \<open>internal/repository/repository.go\<close>. A handler answers with a status and either
  the error code of its error body or its payload; a request body is \<open>None\<close> when \<open>decode\<close> rejects it.
\<close>

datatype 'a response = Fail int string | Done int 'a

text \<open>Who calls, from where and when.\<close>

record caller =
  ca_user :: user
  ca_ip :: string
  ca_now :: gotime

fun response_status :: "'a response \<Rightarrow> int" where
  "response_status (Fail st code) = st"
| "response_status (Done st v) = st"

definition status_from_err :: "store_error \<Rightarrow> int" where
  "status_from_err e = (case e of NotFound \<Rightarrow> 404 | _ \<Rightarrow> 500)"

subsection \<open>Permissions\<close>

definition has_permission :: "user \<Rightarrow> string \<Rightarrow> bool" where
  "has_permission u p = (if u_role u = ''admin'' then True else list_ex (\<lambda>x. x = p) (u_permissions u))"

text \<open>\<open>ensurePermission\<close> in front of the rest of a handler, which leaves the state alone on refusal.\<close>

definition ensure_permission ::
    "caller \<Rightarrow> string \<Rightarrow> ('s \<Rightarrow> 'a response \<times> 's) \<Rightarrow> 's \<Rightarrow> 'a response \<times> 's" where
  "ensure_permission c p k s =
     (if has_permission (ca_user c) p then k s else (Fail 403 ''permission_denied'', s))"

subsection \<open>Requests\<close>

definition bearer_token :: "string \<Rightarrow> string" where
  "bearer_token header =
     (if has_prefix (to_lower header) ''bearer '' then trim_space (drop 7 header) else [])"

definition path_id :: "string \<Rightarrow> string \<Rightarrow> string" where
  "path_id path prefix =
     (let i = trim_char (CHR ''/'') (trim_prefix path prefix) in
      if i = [] \<or> CHR ''/'' \<in> set i then [] else i)"

definition path_id_action :: "string \<Rightarrow> string \<Rightarrow> string \<times> string" where
  "path_id_action path prefix =
     (case split_on (CHR ''/'') (trim_char (CHR ''/'') (trim_prefix path prefix)) of
        [a, b] \<Rightarrow> (a, b)
      | _ \<Rightarrow> ([], []))"

text \<open>CORS: the allowed origin the answer names, and whether the next handler runs.\<close>

definition cors_origin :: "string \<Rightarrow> string \<Rightarrow> string option" where
  "cors_origin configured origin =
     (if configured = ''*'' then Some ''*'' else if origin = configured then Some configured else None)"

definition with_cors :: "string \<Rightarrow> string \<Rightarrow> string \<Rightarrow> 'a \<Rightarrow> string option \<times> (int + 'a)" where
  "with_cors configured meth origin nxt =
     (cors_origin configured origin, if meth = ''OPTIONS'' then Inl 204 else Inr nxt)"

subsection \<open>The client address\<close>

definition last_index :: "char \<Rightarrow> string \<Rightarrow> nat option" where
  "last_index c s = (if c \<in> set s then Some (length s - 1 - length (takeWhile (\<lambda>x. x \<noteq> c) (rev s))) else None)"

definition first_index :: "char \<Rightarrow> string \<Rightarrow> nat option" where
  "first_index c s = (if c \<in> set s then Some (length (takeWhile (\<lambda>x. x \<noteq> c) s)) else None)"

text \<open>The host of Go's \<open>net.SplitHostPort\<close>, \<open>None\<close> when it fails.\<close>

definition split_host :: "string \<Rightarrow> string option" where
  "split_host s =
     (case last_index (CHR '':'') s of
        None \<Rightarrow> None
      | Some i \<Rightarrow>
          if hd s = CHR ''['' then
            (case first_index (CHR '']'') s of
               None \<Rightarrow> None
             | Some e \<Rightarrow>
                 if Suc e \<noteq> i then None
                 else if CHR ''['' \<in> set (drop 1 s) \<or> CHR '']'' \<in> set (drop (Suc e) s) then None
                 else Some (drop 1 (take e s)))
          else if CHR '':'' \<in> set (take i s) then None
          else if CHR ''['' \<in> set s \<or> CHR '']'' \<in> set s then None
          else Some (take i s))"

definition normalize_client_ip :: "string \<Rightarrow> string" where
  "normalize_client_ip v0 =
     (let v1 = trim_space v0 in
      if v1 = [] then []
      else let v2 = (if CHR '','' \<in> set v1 then trim_space (hd (split_on (CHR '','') v1)) else v1) in
        case split_host v2 of Some h \<Rightarrow> h | None \<Rightarrow> v2)"

definition client_ip :: "string \<Rightarrow> string \<Rightarrow> string \<Rightarrow> string" where
  "client_ip forwarded real_ip remote =
     (case find (\<lambda>ip. ip \<noteq> []) (map normalize_client_ip [forwarded, real_ip, remote]) of
        None \<Rightarrow> []
      | Some ip \<Rightarrow> ip)"

subsection \<open>Audit metadata\<close>

text \<open>A metadata map is an association list with distinct keys; its JSON text is represented by the
  list of its members in the order \<open>marshalOrderedMetadata\<close> writes them.\<close>

type_synonym metadata = "(string \<times> string) list"

definition bool_text :: "bool \<Rightarrow> string" where
  "bool_text b = (if b then ''true'' else ''false'')"

definition set_meta :: "string \<Rightarrow> string \<Rightarrow> metadata \<Rightarrow> metadata" where
  "set_meta k v m = filter (\<lambda>kv. fst kv \<noteq> k) m @ [(k, v)]"

definition metadata_priority :: "string list" where
  "metadata_priority = [''zoneId'', ''zoneName'', ''scopeId'', ''scopeName'', ''serverId'', ''serverName'',
     ''host'', ''agentURL'', ''status'']"

definition marshal_ordered_metadata :: "metadata \<Rightarrow> metadata" where
  "marshal_ordered_metadata m =
     (let keys = filter (\<lambda>k. k \<in> fst ` set m) metadata_priority;
          remaining = sort (filter (\<lambda>k. k \<notin> set keys) (map fst m))
      in map (\<lambda>k. (k, the (map_of m k))) (keys @ remaining))"

definition audit_metadata :: "metadata \<Rightarrow> metadata" where
  "audit_metadata m = (if m = [] then [] else marshal_ordered_metadata m)"

definition resource_audit_metadata :: "server \<Rightarrow> metadata \<Rightarrow> metadata" where
  "resource_audit_metadata s m =
     (let m1 = (if trim_space (sv_name s) \<noteq> [] then set_meta ''serverName'' (sv_name s) m else m) in
      if trim_space (sv_id s) \<noteq> [] then set_meta ''serverId'' (sv_id s) m1 else m1)"

definition put_if :: "string \<Rightarrow> string \<Rightarrow> metadata \<Rightarrow> metadata" where
  "put_if k v m = (if trim_space v \<noteq> [] then set_meta k v m else m)"

definition add_others :: "string list \<Rightarrow> metadata \<Rightarrow> metadata \<Rightarrow> metadata" where
  "add_others skip m result =
     foldl (\<lambda>acc kv. if fst kv \<in> set skip then acc else set_meta (fst kv) (snd kv) acc) result m"

definition server_audit_metadata :: "server \<Rightarrow> metadata \<Rightarrow> metadata" where
  "server_audit_metadata s m =
     add_others [''server'', ''serverId'', ''serverName'', ''host'', ''agentURL''] m
       (put_if ''agentURL'' (sv_agent_url s) (put_if ''host'' (sv_host s)
         (put_if ''serverName'' (sv_name s) (put_if ''serverId'' (sv_id s) []))))"

definition dns_audit_metadata :: "server \<Rightarrow> string \<Rightarrow> string \<Rightarrow> metadata \<Rightarrow> metadata" where
  "dns_audit_metadata s zid zname m =
     resource_audit_metadata s
       (add_others [''zone'', ''zoneId'', ''zoneName''] m (put_if ''zoneName'' zname (put_if ''zoneId'' zid [])))"

definition dhcp_scope_audit_metadata :: "server \<Rightarrow> string \<Rightarrow> string \<Rightarrow> metadata \<Rightarrow> metadata" where
  "dhcp_scope_audit_metadata s scid sname m =
     resource_audit_metadata s
       (add_others [''scope'', ''scopeId'', ''scopeName''] m (put_if ''scopeName'' sname (put_if ''scopeId'' scid [])))"

definition audit :: "caller \<Rightarrow> string \<Rightarrow> string \<Rightarrow> string \<Rightarrow> string \<Rightarrow> metadata \<Rightarrow> db \<Rightarrow> db" where
  "audit c action target modname result m d =
     drop_err d (write_audit \<lparr>a_ts = ca_now c, a_user_id = u_id (ca_user c), a_username = u_username (ca_user c),
       a_action = action, a_target = target, a_module = modname, a_result = result,
       a_detail = audit_metadata m, a_ip = ca_ip c\<rparr> d)"

subsection \<open>What the helpers guarantee\<close>

lemma audit_shape: "\<exists>es. audit c action target modname result m d = d\<lparr>db_audit := db_audit d @ es\<rparr>"
  by (auto simp: audit_def write_audit_def drop_err_def intro: exI [of _ "[]"])

lemma audit_keeps [simp]:
  "db_users (audit c a t m r md d) = db_users d" "db_zones (audit c a t m r md d) = db_zones d"
  "db_records (audit c a t m r md d) = db_records d" "db_roles (audit c a t m r md d) = db_roles d"
  "db_user_roles (audit c a t m r md d) = db_user_roles d" "db_fault (audit c a t m r md d) = db_fault d"
  "db_sessions (audit c a t m r md d) = db_sessions d" "db_servers (audit c a t m r md d) = db_servers d"
  "db_groups (audit c a t m r md d) = db_groups d" "db_scopes (audit c a t m r md d) = db_scopes d"
  by (simp_all add: audit_def write_audit_def drop_err_def)

lemma keys_set_meta: "fst ` set (set_meta k v m) = insert k (fst ` set m)"
  by (auto simp: set_meta_def image_iff)

lemma distinct_set_meta: "distinct (map fst m) \<Longrightarrow> distinct (map fst (set_meta k v m))"
  by (auto simp: set_meta_def distinct_map_filter)

lemma distinct_put_if: "distinct (map fst m) \<Longrightarrow> distinct (map fst (put_if k v m))"
  by (simp add: put_if_def distinct_set_meta)

lemma map_of_set_meta: "map_of (set_meta k v m) = (map_of m)(k \<mapsto> v)"
proof
  fix x
  have "map_of (filter (\<lambda>kv. fst kv \<noteq> k) m) x = (if x = k then None else map_of m x)"
    by (induction m) auto
  then show "map_of (set_meta k v m) x = ((map_of m)(k \<mapsto> v)) x"
    by (simp add: set_meta_def map_add_def split: option.splits)
qed

lemma marshal_split:
  "marshal_ordered_metadata m =
     map (\<lambda>k. (k, the (map_of m k))) (filter (\<lambda>k. k \<in> fst ` set m) metadata_priority) @
     map (\<lambda>k. (k, the (map_of m k)))
       (sort (filter (\<lambda>k. k \<notin> set (filter (\<lambda>k. k \<in> fst ` set m) metadata_priority)) (map fst m)))"
  by (simp add: marshal_ordered_metadata_def Let_def)

lemma marshal_set:
  assumes "distinct (map fst m)"
  shows "set (marshal_ordered_metadata m) = set m"
proof -
  let ?f = "\<lambda>k. (k, the (map_of m k))"
  have f: "?f (fst kv) = kv" if "kv \<in> set m" for kv
    using map_of_is_SomeI [OF assms, of "fst kv" "snd kv"] that by simp
  have "set (marshal_ordered_metadata m) = ?f ` fst ` set m"
    by (auto simp: marshal_split)
  also have "\<dots> = set m"
    using f by (force simp: image_image)
  finally show ?thesis .
qed

lemma marshal_distinct:
  "distinct (map fst m) \<Longrightarrow> distinct (map fst (marshal_ordered_metadata m))"
proof -
  assume d: "distinct (map fst m)"
  have "distinct metadata_priority" by (simp add: metadata_priority_def)
  with d show ?thesis unfolding marshal_split map_append map_map comp_def fst_conv map_ident
    by (simp only: distinct_append distinct_sort set_sort distinct_filter set_filter) blast
qed

text \<open>The audit detail holds exactly the members of the metadata map, each once, and lists first the
  identifying keys in their fixed order and then the others in alphabetical order.\<close>

theorem marshal_ordered_metadata_correct:
  assumes "distinct (map fst m)"
  shows "set (marshal_ordered_metadata m) = set m \<and> distinct (map fst (marshal_ordered_metadata m)) \<and>
    (\<exists>pre post. marshal_ordered_metadata m = pre @ post \<and>
       map fst pre = filter (\<lambda>k. k \<in> fst ` set m) metadata_priority \<and>
       sorted (map fst post) \<and> fst ` set post \<inter> set metadata_priority = {})"
proof (intro conjI marshal_set marshal_distinct assms)
  show "\<exists>pre post. marshal_ordered_metadata m = pre @ post \<and>
       map fst pre = filter (\<lambda>k. k \<in> fst ` set m) metadata_priority \<and>
       sorted (map fst post) \<and> fst ` set post \<inter> set metadata_priority = {}"
    unfolding marshal_split by (intro exI conjI, rule refl) (auto simp: comp_def)
qed

theorem marshal_ordered_metadata_correct_witness:
  "set (marshal_ordered_metadata [(''ttl'', ''60''), (''serverId'', ''s'')]) = {(''ttl'', ''60''), (''serverId'', ''s'')}"
  using marshal_ordered_metadata_correct [of "[(''ttl'', ''60''), (''serverId'', ''s'')]"] by simp

end
