(* ===== verification/ZL_Access.thy ===== *)
theory ZL_Access
  imports ZL_Http
begin

text \<open>
  Users, roles, groups and permissions: \<open>internal/repository/rbac.go\<close>, the parts of
  \<open>internal/repository/users.go\<close> and \<open>repository.go\<close> it uses, and the settings handlers of
  \<open>api/router/rbac.go\<close>. Reading a user can write: \<open>fallbackRole\<close> inserts the role a user without roles
  falls back to, so reads return the next database too. The methods that change several tables run
  their statements one by one without a transaction; the model keeps what the earlier ones wrote
  when a later one fails. \<open>bcrypt\<close> is the parameter \<open>hasher\<close> (\<open>None\<close> when it refuses the password),
  \<open>net/mail\<close>'s address parser the parameter \<open>mail_ok\<close>.
\<close>

type_synonym 'a dres = "(store_error + 'a) \<times> db"

subsection \<open>Permissions\<close>

definition implied_read_permissions :: "string \<Rightarrow> string option" where
  "implied_read_permissions = map_of
     [(''servers.manage'', ''servers.read''), (''dns.manage'', ''dns.read''),
      (''dhcp.manage'', ''dhcp.read''), (''notifications.manage'', ''notifications.read''),
      (''settings.base.manage'', ''settings.base.read''), (''settings.users.manage'', ''settings.users.read''),
      (''settings.auth.manage'', ''settings.auth.read''),
      (''settings.notifications.manage'', ''settings.notifications.read'')]"

definition permission_entries :: "string \<Rightarrow> string list" where
  "permission_entries p0 =
     (let p = trim_space p0 in
      if p = [] then [] else
      p # (case implied_read_permissions p of None \<Rightarrow> [] | Some r \<Rightarrow> [r]))"

definition normalize_permissions :: "string list \<Rightarrow> string list" where
  "normalize_permissions ps = sort (remdups (concat (map permission_entries ps)))"

definition unique_permissions :: "role list \<Rightarrow> string list" where
  "unique_permissions rs =
     sort (remdups (filter (\<lambda>p. p \<noteq> []) (concat (map (\<lambda>r. map trim_space (ro_permissions r)) rs))))"

definition permissions_for_role :: "string \<Rightarrow> string list" where
  "permissions_for_role r =
     (if r = ''viewer'' then
        [''dashboard.read'', ''dns.read'', ''dhcp.read'', ''servers.read'', ''audit.read'', ''notifications.read'',
         ''settings.base.read'', ''settings.users.read'', ''settings.auth.read'', ''settings.notifications.read'']
      else if r = ''operator'' then
        [''dashboard.read'', ''dns.read'', ''dns.manage'', ''dhcp.read'', ''dhcp.manage'', ''servers.read'',
         ''servers.manage'', ''audit.read'', ''refresh.manage'', ''export.manage'', ''notifications.read'',
         ''notifications.manage'', ''settings.base.read'', ''settings.users.read'', ''settings.auth.read'',
         ''settings.notifications.read'']
      else
        [''dashboard.read'', ''dns.read'', ''dns.manage'', ''dhcp.read'', ''dhcp.manage'', ''servers.read'',
         ''servers.manage'', ''audit.read'', ''refresh.manage'', ''export.manage'', ''notifications.read'',
         ''notifications.manage'', ''settings.base.read'', ''settings.base.manage'', ''settings.users.read'',
         ''settings.users.manage'', ''settings.auth.read'', ''settings.auth.manage'',
         ''settings.notifications.read'', ''settings.notifications.manage''])"

definition normalize_role_keys :: "string list \<Rightarrow> string list" where
  "normalize_role_keys ks = (let n = trim_unique [] ks in if n = [] then [''viewer''] else n)"

definition normalize_ids :: "string list \<Rightarrow> string list" where
  "normalize_ids ids = trim_unique [] ids"

definition normalize_user_source :: "string \<Rightarrow> string" where
  "normalize_user_source src = (if to_lower (trim_space src) = ''ldap'' then ''ldap'' else ''local'')"

subsection \<open>Roles of a user\<close>

definition role_rank :: "role \<Rightarrow> nat \<times> string" where
  "role_rank r =
     ((if ro_key r = ''admin'' then 1 else if ro_key r = ''operator'' then 2
       else if ro_key r = ''viewer'' then 3 else 9), ro_key r)"

definition list_user_direct_roles :: "db \<Rightarrow> string \<Rightarrow> store_error + role list" where
  "list_user_direct_roles d uid =
     (if db_fault d ''DirectRoles'' uid then Inl DbError
      else Inr (sort_key role_rank (filter (\<lambda>r. (uid, ro_id r) \<in> set (db_user_roles d)) (db_roles d))))"

definition group_grants :: "db \<Rightarrow> string \<Rightarrow> string \<Rightarrow> bool" where
  "group_grants d uid rid =
     list_ex (\<lambda>gr. snd gr = rid \<and> list_ex (\<lambda>gm. fst gm = fst gr \<and> snd gm = uid) (db_group_members d) \<and>
         list_ex (\<lambda>g. gr_id g = fst gr \<and> \<not> gr_disabled g) (db_groups d)) (db_group_roles d)"

definition insert_user_role :: "string \<Rightarrow> string \<Rightarrow> db \<Rightarrow> store_error + db" where
  "insert_user_role uid key d =
     (if db_fault d ''InsertUserRole'' key then Inl DbError
      else case find_row (\<lambda>r. ro_key r = key) (db_roles d) of
        None \<Rightarrow> Inl NotFound
      | Some r \<Rightarrow>
          if \<not> list_ex (\<lambda>u. ur_id u = uid) (db_users d) then Inl DbError
          else if (uid, ro_id r) \<in> set (db_user_roles d) then Inl NotFound
          else Inr (d\<lparr>db_user_roles := db_user_roles d @ [(uid, ro_id r)]\<rparr>))"

fun insert_user_roles :: "string \<Rightarrow> string list \<Rightarrow> db \<Rightarrow> unit dres" where
  "insert_user_roles uid [] d = (Inr (), d)"
| "insert_user_roles uid (k # ks) d =
     (case insert_user_role uid k d of
        Inl e \<Rightarrow> (Inl e, d)
      | Inr d' \<Rightarrow> insert_user_roles uid ks d')"

definition replace_user_roles :: "string \<Rightarrow> string list \<Rightarrow> db \<Rightarrow> unit dres" where
  "replace_user_roles uid ks d =
     (if db_fault d ''ClearUserRoles'' uid then (Inl DbError, d)
      else insert_user_roles uid ks
        (d\<lparr>db_user_roles := filter (\<lambda>ur. fst ur \<noteq> uid) (db_user_roles d)\<rparr>))"

definition fallback_role :: "string \<Rightarrow> db \<Rightarrow> role list dres" where
  "fallback_role uid d =
     (if db_fault d ''FallbackRole'' uid then (Inl DbError, d)
      else case find_row (\<lambda>u. ur_id u = uid) (db_users d) of
        None \<Rightarrow> (Inl DbError, d)
      | Some u \<Rightarrow>
          (let key = (if ur_role u = [] then ''viewer'' else ur_role u) in
           case find_row (\<lambda>r. ro_key r = key) (db_roles d) of
             None \<Rightarrow> (Inr [], d)
           | Some r \<Rightarrow> (Inr [r], snd (replace_user_roles uid [ro_key r] d))))"

definition list_user_effective_roles :: "string \<Rightarrow> db \<Rightarrow> role list dres" where
  "list_user_effective_roles uid d =
     (if db_fault d ''EffectiveRoles'' uid then (Inl DbError, d)
      else let rs = sort_key role_rank
             (filter (\<lambda>r. (uid, ro_id r) \<in> set (db_user_roles d) \<or> group_grants d uid (ro_id r)) (db_roles d))
        in if rs = [] then fallback_role uid d else (Inr rs, d))"

definition attach_access :: "user \<Rightarrow> db \<Rightarrow> user dres" where
  "attach_access u d =
     (case list_user_direct_roles d (u_id u) of
        Inl e \<Rightarrow> (Inl e, d)
      | Inr direct \<Rightarrow>
          (case list_user_effective_roles (u_id u) d of
             (Inl e, d') \<Rightarrow> (Inl e, d')
           | (Inr roles, d') \<Rightarrow>
               (Inr (u\<lparr>u_direct_roles := direct, u_roles := roles, u_permissions := unique_permissions roles,
                  u_wecom_bound := list_ex (\<lambda>b. fst b = u_id u) (db_bindings d)\<rparr>), d')))"

fun attach_all :: "user list \<Rightarrow> db \<Rightarrow> user list dres" where
  "attach_all [] d = (Inr [], d)"
| "attach_all (u # us) d =
     (case attach_access u d of
        (Inl e, d1) \<Rightarrow> (Inl e, d1)
      | (Inr u', d1) \<Rightarrow>
          (case attach_all us d1 of
             (Inl e, d2) \<Rightarrow> (Inl e, d2)
           | (Inr us', d2) \<Rightarrow> (Inr (u' # us'), d2)))"

text \<open>The WeCom flags are read first, for all users at once.\<close>

definition attach_access_to_users :: "user list \<Rightarrow> db \<Rightarrow> user list dres" where
  "attach_access_to_users us d =
     (if us \<noteq> [] \<and> db_fault d ''WecomFlags'' [] then (Inl DbError, d) else attach_all us d)"

definition scan_user :: "user_row \<Rightarrow> user" where
  "scan_user u = \<lparr>u_id = ur_id u, u_username = ur_username u, u_email = ur_email u,
     u_display_name = ur_display_name u, u_role = ur_role u,
     u_source = (if ur_source u = [] then ''local'' else ur_source u), u_roles = [], u_direct_roles = [],
     u_disabled = ur_disabled u, u_wecom_bound = False, u_last_login_at = ur_last_login_at u,
     u_created_at = ur_created_at u, u_updated_at = ur_updated_at u,
     u_permissions = permissions_for_role (ur_role u)\<rparr>"

definition find_user_row :: "string \<Rightarrow> (user_row \<Rightarrow> bool) \<Rightarrow> string \<Rightarrow> db \<Rightarrow> (user \<times> string) dres" where
  "find_user_row op p key d =
     (if db_fault d op key then (Inl DbError, d)
      else case find_row p (db_users d) of
        None \<Rightarrow> (Inl NotFound, d)
      | Some u \<Rightarrow>
          (case attach_access_to_users [scan_user u] d of
             (Inl e, d') \<Rightarrow> (Inl e, d')
           | (Inr us, d') \<Rightarrow> (Inr (hd us, ur_password_hash u), d')))"

definition find_user_by_username :: "string \<Rightarrow> db \<Rightarrow> (user \<times> string) dres" where
  "find_user_by_username name d = find_user_row ''FindUser'' (\<lambda>u. ur_username u = name) name d"

definition find_user_by_id :: "string \<Rightarrow> db \<Rightarrow> user dres" where
  "find_user_by_id uid d =
     (case find_user_row ''FindUserById'' (\<lambda>u. ur_id u = uid) uid d of
        (Inl e, d') \<Rightarrow> (Inl e, d')
      | (Inr (u, h), d') \<Rightarrow> (Inr u, d'))"

subsection \<open>Managed users\<close>

record user_input =
  ui_username :: string
  ui_email :: string
  ui_display_name :: string
  ui_source :: string
  ui_role_keys :: "string list"
  ui_disabled :: bool

definition list_managed_users :: "db \<Rightarrow> user list dres" where
  "list_managed_users d =
     (if db_fault d ''ListUsers'' [] then (Inl DbError, d)
      else attach_access_to_users
        (map (\<lambda>u. (scan_user u)\<lparr>u_permissions := []\<rparr>) (sort_key ur_username (db_users d))) d)"

definition create_managed_user ::
    "string \<Rightarrow> gotime \<Rightarrow> user_input \<Rightarrow> string \<Rightarrow> db \<Rightarrow> user dres" where
  "create_managed_user nid now input hash d =
     (let keys = normalize_role_keys (ui_role_keys input) in
      if db_fault d ''CreateUser'' (ui_username input) then (Inl DbError, d)
      else if list_ex (\<lambda>u. ur_username u = ui_username input) (db_users d) then (Inl UniqueViolation, d)
      else let row = \<lparr>ur_id = nid, ur_username = ui_username input, ur_email = ui_email input,
             ur_password_hash = hash, ur_display_name = ui_display_name input, ur_role = hd keys,
             ur_source = normalize_user_source (ui_source input), ur_disabled = ui_disabled input,
             ur_last_login_at = None, ur_created_at = now, ur_updated_at = now\<rparr>;
             d1 = d\<lparr>db_users := db_users d @ [row]\<rparr>
        in case replace_user_roles nid keys d1 of
             (Inl e, d2) \<Rightarrow> (Inl e, d2)
           | (Inr _, d2) \<Rightarrow> find_user_by_id nid d2)"

definition updated_user :: "gotime \<Rightarrow> user_input \<Rightarrow> string \<Rightarrow> user_row \<Rightarrow> user_row" where
  "updated_user now input hash u =
     u\<lparr>ur_username := ui_username input, ur_email := ui_email input,
       ur_password_hash := (if hash = [] then ur_password_hash u else hash),
       ur_display_name := ui_display_name input, ur_role := hd (normalize_role_keys (ui_role_keys input)),
       ur_source := normalize_user_source (ui_source input), ur_disabled := ui_disabled input,
       ur_updated_at := now\<rparr>"

definition update_managed_user ::
    "string \<Rightarrow> gotime \<Rightarrow> user_input \<Rightarrow> string \<Rightarrow> db \<Rightarrow> user dres" where
  "update_managed_user uid now input hash d =
     (if db_fault d ''UpdateUser'' uid then (Inl DbError, d)
      else if \<not> list_ex (\<lambda>u. ur_id u = uid) (db_users d) then (Inl NotFound, d)
      else if list_ex (\<lambda>u. ur_id u \<noteq> uid \<and> ur_username u = ui_username input) (db_users d)
      then (Inl UniqueViolation, d)
      else case replace_user_roles uid (normalize_role_keys (ui_role_keys input))
             (d\<lparr>db_users := update_rows (\<lambda>u. ur_id u = uid) (updated_user now input hash) (db_users d)\<rparr>) of
             (Inl e, d2) \<Rightarrow> (Inl e, d2)
           | (Inr _, d2) \<Rightarrow> find_user_by_id uid d2)"

definition set_managed_user_disabled :: "string \<Rightarrow> gotime \<Rightarrow> bool \<Rightarrow> db \<Rightarrow> user dres" where
  "set_managed_user_disabled uid now disabled d =
     (if db_fault d ''SetDisabled'' uid then (Inl DbError, d)
      else if \<not> list_ex (\<lambda>u. ur_id u = uid) (db_users d) then (Inl NotFound, d)
      else find_user_by_id uid
        (d\<lparr>db_users := update_rows (\<lambda>u. ur_id u = uid)
             (\<lambda>u. u\<lparr>ur_disabled := disabled, ur_updated_at := now\<rparr>) (db_users d)\<rparr>))"

text \<open>The foreign keys: sessions, reset requests, roles, memberships and the WeCom binding go with the
  user, tasks and audit entries keep a null author.\<close>

definition delete_managed_user :: "string \<Rightarrow> db \<Rightarrow> store_error + db" where
  "delete_managed_user uid d =
     (if db_fault d ''DeleteUser'' uid then Inl DbError
      else if \<not> list_ex (\<lambda>u. ur_id u = uid) (db_users d) then Inl NotFound
      else Inr (d\<lparr>db_users := delete_rows (\<lambda>u. ur_id u = uid) (db_users d),
        db_sessions := delete_rows (\<lambda>x. sr_user_id x = uid) (db_sessions d),
        db_resets := delete_rows (\<lambda>x. rr_user_id x = uid) (db_resets d),
        db_user_roles := delete_rows (\<lambda>x. fst x = uid) (db_user_roles d),
        db_group_members := delete_rows (\<lambda>x. snd x = uid) (db_group_members d),
        db_bindings := delete_rows (\<lambda>x. fst x = uid) (db_bindings d),
        db_tasks := update_rows (\<lambda>t. t_created_by t = uid) (\<lambda>t. t\<lparr>t_created_by := []\<rparr>) (db_tasks d),
        db_audit := update_rows (\<lambda>a. a_user_id a = uid) (\<lambda>a. a\<lparr>a_user_id := []\<rparr>) (db_audit d)\<rparr>))"

subsection \<open>Roles and groups\<close>

record role_input =
  ri_key :: string
  ri_name :: string
  ri_description :: string
  ri_permissions :: "string list"

definition list_roles :: "db \<Rightarrow> store_error + role list" where
  "list_roles d =
     (if db_fault d ''ListRoles'' [] then Inl DbError
      else Inr (sort_key (\<lambda>r. (if ro_builtin r then 0 else 1::nat, role_rank r)) (db_roles d)))"

definition upsert_custom_role ::
    "string \<Rightarrow> gotime \<Rightarrow> string \<Rightarrow> role_input \<Rightarrow> db \<Rightarrow> store_error + role \<times> db" where
  "upsert_custom_role nid now rid input d =
     (let perms = normalize_permissions (ri_permissions input) in
      if db_fault d ''UpsertRole'' (ri_key input) then Inl DbError
      else if rid = [] then
        (if list_ex (\<lambda>r. ro_key r = ri_key input) (db_roles d) then Inl UniqueViolation
         else let row = \<lparr>ro_id = nid, ro_key = ri_key input, ro_name = ri_name input,
                ro_description = ri_description input, ro_permissions = perms, ro_builtin = False,
                ro_created_at = now, ro_updated_at = now\<rparr>
           in Inr (row, d\<lparr>db_roles := db_roles d @ [row]\<rparr>))
      else case find_row (\<lambda>r. ro_id r = rid \<and> \<not> ro_builtin r) (db_roles d) of
        None \<Rightarrow> Inl NotFound
      | Some old \<Rightarrow>
          if list_ex (\<lambda>r. ro_id r \<noteq> rid \<and> ro_key r = ri_key input) (db_roles d) then Inl UniqueViolation
          else let row = old\<lparr>ro_key := ri_key input, ro_name := ri_name input,
                 ro_description := ri_description input, ro_permissions := perms, ro_updated_at := now\<rparr>
            in Inr (row, d\<lparr>db_roles := update_rows (\<lambda>r. ro_id r = rid \<and> \<not> ro_builtin r) (\<lambda>_. row) (db_roles d)\<rparr>))"

definition delete_custom_role :: "string \<Rightarrow> db \<Rightarrow> store_error + db" where
  "delete_custom_role rid d =
     (if db_fault d ''DeleteRole'' rid then Inl DbError
      else if \<not> list_ex (\<lambda>r. ro_id r = rid \<and> \<not> ro_builtin r) (db_roles d) then Inl NotFound
      else Inr (d\<lparr>db_roles := delete_rows (\<lambda>r. ro_id r = rid \<and> \<not> ro_builtin r) (db_roles d),
        db_user_roles := delete_rows (\<lambda>x. snd x = rid) (db_user_roles d),
        db_group_roles := delete_rows (\<lambda>x. snd x = rid) (db_group_roles d)\<rparr>))"

record group_input =
  gi_name :: string
  gi_description :: string
  gi_disabled :: bool
  gi_member_ids :: "string list"
  gi_role_keys :: "string list"

fun insert_group_members :: "string \<Rightarrow> string list \<Rightarrow> db \<Rightarrow> unit dres" where
  "insert_group_members gid [] d = (Inr (), d)"
| "insert_group_members gid (m # ms) d =
     (if db_fault d ''InsertMember'' m \<or> \<not> list_ex (\<lambda>u. ur_id u = m) (db_users d) then (Inl DbError, d)
      else insert_group_members gid ms
        (d\<lparr>db_group_members := List.insert (gid, m) (db_group_members d)\<rparr>))"

definition replace_group_members :: "string \<Rightarrow> string list \<Rightarrow> db \<Rightarrow> unit dres" where
  "replace_group_members gid ms d =
     (if db_fault d ''ClearMembers'' gid then (Inl DbError, d)
      else insert_group_members gid (normalize_ids ms)
        (d\<lparr>db_group_members := filter (\<lambda>x. fst x \<noteq> gid) (db_group_members d)\<rparr>))"

text \<open>Here an unknown role key inserts nothing and is no error.\<close>

fun insert_group_roles :: "string \<Rightarrow> string list \<Rightarrow> db \<Rightarrow> unit dres" where
  "insert_group_roles gid [] d = (Inr (), d)"
| "insert_group_roles gid (k # ks) d =
     (if db_fault d ''InsertGroupRole'' k then (Inl DbError, d)
      else case find_row (\<lambda>r. ro_key r = k) (db_roles d) of
        None \<Rightarrow> insert_group_roles gid ks d
      | Some r \<Rightarrow> insert_group_roles gid ks
          (d\<lparr>db_group_roles := List.insert (gid, ro_id r) (db_group_roles d)\<rparr>))"

definition replace_group_roles :: "string \<Rightarrow> string list \<Rightarrow> db \<Rightarrow> unit dres" where
  "replace_group_roles gid ks d =
     (if db_fault d ''ClearGroupRoles'' gid then (Inl DbError, d)
      else insert_group_roles gid ks
        (d\<lparr>db_group_roles := filter (\<lambda>x. fst x \<noteq> gid) (db_group_roles d)\<rparr>))"

definition list_group_members :: "string \<Rightarrow> db \<Rightarrow> user list dres" where
  "list_group_members gid d =
     (if db_fault d ''GroupMembers'' gid then (Inl DbError, d)
      else attach_access_to_users
        (map (\<lambda>u. (scan_user u)\<lparr>u_permissions := []\<rparr>)
          (sort_key ur_username (filter (\<lambda>u. (gid, ur_id u) \<in> set (db_group_members d)) (db_users d)))) d)"

definition list_group_roles :: "db \<Rightarrow> string \<Rightarrow> store_error + role list" where
  "list_group_roles d gid =
     (if db_fault d ''GroupRoles'' gid then Inl DbError
      else Inr (sort_key role_rank (filter (\<lambda>r. (gid, ro_id r) \<in> set (db_group_roles d)) (db_roles d))))"

fun fill_groups :: "group_row list \<Rightarrow> db \<Rightarrow> user_group list dres" where
  "fill_groups [] d = (Inr [], d)"
| "fill_groups (g # gs) d =
     (case list_group_members (gr_id g) d of
        (Inl e, d1) \<Rightarrow> (Inl e, d1)
      | (Inr ms, d1) \<Rightarrow>
          (case list_group_roles d1 (gr_id g) of
             Inl e \<Rightarrow> (Inl e, d1)
           | Inr rs \<Rightarrow>
               (case fill_groups gs d1 of
                  (Inl e, d2) \<Rightarrow> (Inl e, d2)
                | (Inr out, d2) \<Rightarrow>
                    (Inr (\<lparr>g_id = gr_id g, g_name = gr_name g, g_description = gr_description g,
                       g_disabled = gr_disabled g, g_members = ms, g_roles = rs,
                       g_created_at = gr_created_at g, g_updated_at = gr_updated_at g\<rparr> # out), d2))))"

definition list_user_groups :: "db \<Rightarrow> user_group list dres" where
  "list_user_groups d =
     (if db_fault d ''ListGroups'' [] then (Inl DbError, d)
      else fill_groups (sort_key gr_name (db_groups d)) d)"

definition save_group_row ::
    "string \<Rightarrow> gotime \<Rightarrow> string \<Rightarrow> group_input \<Rightarrow> db \<Rightarrow> store_error + string \<times> db" where
  "save_group_row nid now gid input d =
     (if db_fault d ''UpsertGroup'' (gi_name input) then Inl DbError
      else if gid = [] then
        (if list_ex (\<lambda>g. gr_name g = gi_name input) (db_groups d) then Inl UniqueViolation
         else Inr (nid, d\<lparr>db_groups := db_groups d @ [\<lparr>gr_id = nid, gr_name = gi_name input,
            gr_description = gi_description input, gr_disabled = gi_disabled input,
            gr_created_at = now, gr_updated_at = now\<rparr>]\<rparr>))
      else if \<not> list_ex (\<lambda>g. gr_id g = gid) (db_groups d) then Inl NotFound
      else if list_ex (\<lambda>g. gr_id g \<noteq> gid \<and> gr_name g = gi_name input) (db_groups d) then Inl UniqueViolation
      else Inr (gid, d\<lparr>db_groups := update_rows (\<lambda>g. gr_id g = gid)
             (\<lambda>g. g\<lparr>gr_name := gi_name input, gr_description := gi_description input,
                gr_disabled := gi_disabled input, gr_updated_at := now\<rparr>) (db_groups d)\<rparr>))"

definition upsert_user_group ::
    "string \<Rightarrow> gotime \<Rightarrow> string \<Rightarrow> group_input \<Rightarrow> db \<Rightarrow> user_group dres" where
  "upsert_user_group nid now gid input d =
     (case save_group_row nid now gid input d of
        Inl e \<Rightarrow> (Inl e, d)
      | Inr (i, d1) \<Rightarrow>
          (case replace_group_members i (gi_member_ids input) d1 of
             (Inl e, d2) \<Rightarrow> (Inl e, d2)
           | (Inr _, d2) \<Rightarrow>
               (case replace_group_roles i (normalize_role_keys (gi_role_keys input)) d2 of
                  (Inl e, d3) \<Rightarrow> (Inl e, d3)
                | (Inr _, d3) \<Rightarrow>
                    (case list_user_groups d3 of
                       (Inl e, d4) \<Rightarrow> (Inl e, d4)
                     | (Inr gs, d4) \<Rightarrow>
                         (case find_row (\<lambda>g. g_id g = i) gs of
                            None \<Rightarrow> (Inl NotFound, d4)
                          | Some g \<Rightarrow> (Inr g, d4))))))"

definition delete_user_group :: "string \<Rightarrow> db \<Rightarrow> store_error + db" where
  "delete_user_group gid d =
     (if db_fault d ''DeleteGroup'' gid then Inl DbError
      else if \<not> list_ex (\<lambda>g. gr_id g = gid) (db_groups d) then Inl NotFound
      else Inr (d\<lparr>db_groups := delete_rows (\<lambda>g. gr_id g = gid) (db_groups d),
        db_group_members := delete_rows (\<lambda>x. fst x = gid) (db_group_members d),
        db_group_roles := delete_rows (\<lambda>x. fst x = gid) (db_group_roles d)\<rparr>))"

subsection \<open>Reads\<close>

text \<open>A read changes at most the role assignments (\<open>fallbackRole\<close>).\<close>

definition same_but_roles :: "db \<Rightarrow> db \<Rightarrow> bool" where
  "same_but_roles d d' \<longleftrightarrow> (\<exists>urs. d' = d\<lparr>db_user_roles := urs\<rparr>)"

lemma same_but_roles_refl [simp, intro]: "same_but_roles d d"
  unfolding same_but_roles_def by (rule exI [of _ "db_user_roles d"]) simp

lemma same_but_roles_trans [trans]: "same_but_roles d e \<Longrightarrow> same_but_roles e f \<Longrightarrow> same_but_roles d f"
  by (auto simp: same_but_roles_def)

lemma same_but_roles_sel:
  assumes "same_but_roles d d'"
  shows "db_users d' = db_users d" "db_roles d' = db_roles d" "db_groups d' = db_groups d"
    "db_group_members d' = db_group_members d" "db_group_roles d' = db_group_roles d"
    "db_fault d' = db_fault d" "db_bindings d' = db_bindings d" "db_sessions d' = db_sessions d"
    "db_audit d' = db_audit d" "db_resets d' = db_resets d"
  using assms by (auto simp: same_but_roles_def)

lemma insert_user_role_frame: "insert_user_role uid k d = Inr d' \<Longrightarrow> same_but_roles d d'"
  by (auto simp: insert_user_role_def same_but_roles_def split: if_splits option.splits)

lemma insert_user_roles_frame: "insert_user_roles uid ks d = (r, d') \<Longrightarrow> same_but_roles d d'"
  by (induction uid ks d rule: insert_user_roles.induct)
     (auto split: sum.splits dest: insert_user_role_frame intro: same_but_roles_trans)

lemma replace_user_roles_frame: "replace_user_roles uid ks d = (r, d') \<Longrightarrow> same_but_roles d d'"
proof -
  assume a: "replace_user_roles uid ks d = (r, d')"
  have "same_but_roles d (d\<lparr>db_user_roles := urs\<rparr>)" for urs by (auto simp: same_but_roles_def)
  with a show ?thesis
    by (auto simp: replace_user_roles_def split: if_splits dest!: insert_user_roles_frame
        intro: same_but_roles_trans)
qed

lemma fallback_role_frame: "fallback_role uid d = (r, d') \<Longrightarrow> same_but_roles d d'"
proof -
  have "same_but_roles d (snd (replace_user_roles uid ks d))" for ks
    by (rule replace_user_roles_frame) (rule surjective_pairing)
  moreover assume "fallback_role uid d = (r, d')"
  ultimately show ?thesis
    by (auto simp: fallback_role_def Let_def split: if_splits option.splits)
qed

lemma effective_roles_frame: "list_user_effective_roles uid d = (r, d') \<Longrightarrow> same_but_roles d d'"
  by (auto simp: list_user_effective_roles_def Let_def split: if_splits dest: fallback_role_frame)

lemma attach_access_frame: "attach_access u d = (r, d') \<Longrightarrow> same_but_roles d d'"
  by (auto simp: attach_access_def split: sum.splits prod.splits dest: effective_roles_frame)

lemma attach_all_frame: "attach_all us d = (r, d') \<Longrightarrow> same_but_roles d d'"
proof (induction us arbitrary: d r d')
  case (Cons u us)
  then show ?case
    by (auto split: sum.splits prod.splits dest!: attach_access_frame intro: same_but_roles_trans)
qed simp

lemma find_user_row_frame: "find_user_row op p key d = (r, d') \<Longrightarrow> same_but_roles d d'"
  by (auto simp: find_user_row_def attach_access_to_users_def split: if_splits option.splits sum.splits prod.splits
      dest: attach_access_frame)

lemma find_user_by_id_frame: "find_user_by_id uid d = (r, d') \<Longrightarrow> same_but_roles d d'"
  by (auto simp: find_user_by_id_def split: sum.splits prod.splits dest: find_user_row_frame)

lemma attach_access_keeps:
  "attach_access u d = (Inr v, d') \<Longrightarrow> u_id v = u_id u \<and> u_username v = u_username u \<and> u_role v = u_role u \<and>
     u_disabled v = u_disabled u \<and> u_email v = u_email u \<and> u_source v = u_source u"
  by (auto simp: attach_access_def split: sum.splits prod.splits)

lemma find_user_row_result:
  assumes "find_user_row op p key d = (Inr (u, h), d')"
  shows "\<exists>row. find_row p (db_users d) = Some row \<and> attach_access (scan_user row) d = (Inr u, d') \<and>
     h = ur_password_hash row"
  using assms
  by (auto simp: find_user_row_def attach_access_to_users_def split: if_splits option.splits sum.splits prod.splits)

lemma find_user_by_id_result:
  assumes "find_user_by_id uid d = (Inr u, d')"
  shows "\<exists>row. row \<in> set (db_users d) \<and> ur_id row = uid \<and> find_row (\<lambda>x. ur_id x = uid) (db_users d) = Some row \<and>
     u_id u = uid \<and> u_username u = ur_username row \<and> u_role u = ur_role row \<and> u_disabled u = ur_disabled row"
proof -
  from assms obtain h where "find_user_row ''FindUserById'' (\<lambda>u. ur_id u = uid) uid d = (Inr (u, h), d')"
    by (auto simp: find_user_by_id_def split: sum.splits prod.splits)
  from find_user_row_result [OF this] obtain row where
      "find_row (\<lambda>u. ur_id u = uid) (db_users d) = Some row" "attach_access (scan_user row) d = (Inr u, d')"
    by blast
  with attach_access_keeps [of "scan_user row" d u d'] find_row_Some [of "\<lambda>u. ur_id u = uid" "db_users d" row]
  show ?thesis by (auto simp: scan_user_def)
qed

subsection \<open>Permissions: closure and origin\<close>

lemma implied_read_nonempty: "implied_read_permissions q = Some r \<Longrightarrow> q \<noteq> [] \<and> r \<noteq> []"
  by (auto simp: implied_read_permissions_def split: if_splits)

lemma set_permission_entries:
  "set (permission_entries q) = {p. p \<noteq> [] \<and> (p = trim_space q \<or> implied_read_permissions (trim_space q) = Some p)}"
  by (auto simp: permission_entries_def Let_def split: option.splits dest: implied_read_nonempty dest!: sym [of "Some _"])

text \<open>Stored role permissions are sorted, distinct and trimmed, never blank; they hold exactly the given
  ones and the read permissions these imply.\<close>

theorem normalize_permissions_correct:
  "sorted (normalize_permissions ps) \<and> distinct (normalize_permissions ps) \<and>
   set (normalize_permissions ps) =
     {p. p \<noteq> [] \<and> (\<exists>q. q \<in> set ps \<and> (p = trim_space q \<or> implied_read_permissions (trim_space q) = Some p))}"
  by (auto simp: normalize_permissions_def set_permission_entries)

lemma set_unique_permissions:
  "set (unique_permissions rs) = {p. p \<noteq> [] \<and> (\<exists>r \<in> set rs. \<exists>q \<in> set (ro_permissions r). p = trim_space q)}"
  by (auto simp: unique_permissions_def)

definition holds_role :: "db \<Rightarrow> string \<Rightarrow> role \<Rightarrow> bool" where
  "holds_role d uid r \<longleftrightarrow> r \<in> set (db_roles d) \<and> ((uid, ro_id r) \<in> set (db_user_roles d) \<or> group_grants d uid (ro_id r))"

lemma attach_access_roles:
  assumes "attach_access u d = (Inr v, d')"
  shows "\<exists>rs. list_user_effective_roles (u_id u) d = (Inr rs, d') \<and> u_roles v = rs \<and>
     u_permissions v = unique_permissions rs"
  using assms by (auto simp: attach_access_def split: sum.splits prod.splits)

lemma effective_roles_empty:
  "sort_key role_rank (filter (\<lambda>r. (uid, ro_id r) \<in> set (db_user_roles d) \<or> group_grants d uid (ro_id r)) (db_roles d)) = []
     \<longleftrightarrow> (\<nexists>r. holds_role d uid r)"
  unfolding set_empty [symmetric] set_sort holds_role_def by auto

lemma effective_roles_held:
  assumes "list_user_effective_roles uid d = (Inr rs, d')" and "\<exists>r. holds_role d uid r"
  shows "set rs = {r. holds_role d uid r} \<and> d' = d"
  using assms effective_roles_empty [of uid d]
  by (auto simp: list_user_effective_roles_def Let_def holds_role_def simp del: sort_key_simps split: if_splits)

lemma effective_roles_fallback:
  assumes "list_user_effective_roles uid d = (Inr rs, d')" and "\<nexists>r. holds_role d uid r"
  shows "\<exists>row. find_row (\<lambda>x. ur_id x = uid) (db_users d) = Some row \<and>
     set rs \<subseteq> {r \<in> set (db_roles d). ro_key r = (if ur_role row = [] then ''viewer'' else ur_role row)}"
proof -
  have "fallback_role uid d = (Inr rs, d')"
    using assms effective_roles_empty [of uid d]
    by (simp add: list_user_effective_roles_def Let_def split: if_splits)
  then obtain row where row: "find_row (\<lambda>x. ur_id x = uid) (db_users d) = Some row"
    by (auto simp: fallback_role_def split: if_splits option.splits)
  let ?k = "if ur_role row = [] then ''viewer'' else ur_role row"
  from \<open>fallback_role uid d = (Inr rs, d')\<close> row
  have "rs = (case find_row (\<lambda>r. ro_key r = ?k) (db_roles d) of None \<Rightarrow> [] | Some r \<Rightarrow> [r])"
    by (simp add: fallback_role_def Let_def split: if_splits option.splits)
  then have "set rs \<subseteq> {r \<in> set (db_roles d). ro_key r = ?k}"
    using find_row_Some [of "\<lambda>r. ro_key r = ?k" "db_roles d"] by (auto split: option.splits)
  with row show ?thesis by blast
qed


subsection \<open>A concrete user\<close>

definition sample_role :: "string \<Rightarrow> string \<Rightarrow> role" where
  "sample_role i key = \<lparr>ro_id = i, ro_key = key, ro_name = key, ro_description = [],
     ro_permissions = permissions_for_role key, ro_builtin = True, ro_created_at = 0, ro_updated_at = 0\<rparr>"

definition sample_user :: "string \<Rightarrow> string \<Rightarrow> string \<Rightarrow> user_row" where
  "sample_user i name rl = \<lparr>ur_id = i, ur_username = name, ur_email = ''m@corp.test'', ur_password_hash = ''h'',
     ur_display_name = name, ur_role = rl, ur_source = ''local'', ur_disabled = False,
     ur_last_login_at = None, ur_created_at = 0, ur_updated_at = 0\<rparr>"

definition access_db :: db where
  "access_db = empty_db\<lparr>db_users := [sample_user ''1'' ''admin'' ''admin'', sample_user ''2'' ''bob'' ''viewer''],
     db_roles := [sample_role ''r1'' ''admin'', sample_role ''r2'' ''viewer''],
     db_user_roles := [(''1'', ''r1'')], db_groups := [\<lparr>gr_id = ''g'', gr_name = ''ops'', gr_description = [],
       gr_disabled = False, gr_created_at = 0, gr_updated_at = 0\<rparr>],
     db_group_members := [(''g'', ''2'')], db_group_roles := [(''g'', ''r2'')]\<rparr>"

lemmas access_simps = access_db_def sample_role_def sample_user_def empty_db_def

lemma access_db_sel:
  "db_fault access_db = (\<lambda>_ _. False)"
  "db_roles access_db = [sample_role ''r1'' ''admin'', sample_role ''r2'' ''viewer'']"
  "db_user_roles access_db = [(''1'', ''r1'')]" "db_group_members access_db = [(''g'', ''2'')]"
  "db_group_roles access_db = [(''g'', ''r2'')]" "db_bindings access_db = []"
  "group_grants access_db ''2'' rid = (rid = ''r2'')" "ro_id (sample_role i k) = i"
  by (auto simp: access_db_def empty_db_def sample_role_def group_grants_def)

lemma access_db_roles:
  "list_user_direct_roles access_db ''2'' = Inr []"
  "list_user_effective_roles ''2'' access_db = (Inr [sample_role ''r2'' ''viewer''], access_db)"
  by (simp_all add: list_user_direct_roles_def list_user_effective_roles_def access_db_sel)


end
