(* ===== verification/ZL_Access_Handlers.thy ===== *)
theory ZL_Access_Handlers
  imports ZL_Access
begin

text \<open>
  The user, role and group handlers of \<open>api/router/rbac.go\<close> with the request decoding of
  \<open>settings_helpers.go\<close>. Every handler runs behind \<open>requirePermission\<close>, which is
  \<open>ensure_permission\<close> of theory \<open>ZL_Http\<close>; a handler takes the caller, its request and the database.
\<close>

subsection \<open>Requests\<close>

definition parse_settings_resource_path :: "string \<Rightarrow> string \<Rightarrow> (string \<times> string) option" where
  "parse_settings_resource_path path prefix =
     (case split_on (CHR ''/'') (trim_char (CHR ''/'') (trim_prefix path prefix)) of
        [a] \<Rightarrow> (if a \<noteq> [] then Some (a, []) else None)
      | [a, b] \<Rightarrow> (if a \<noteq> [] \<and> b \<noteq> [] then Some (a, b) else None)
      | _ \<Rightarrow> None)"

definition normalize_request_strings :: "string list \<Rightarrow> string list" where
  "normalize_request_strings vs = trim_unique [] vs"

record managed_user_request =
  mr_username :: string
  mr_password :: string
  mr_email :: string
  mr_display_name :: string
  mr_role_keys :: "string list"
  mr_disabled :: bool

definition trimmed_user_request :: "managed_user_request \<Rightarrow> managed_user_request" where
  "trimmed_user_request b =
     b\<lparr>mr_username := trim_space (mr_username b), mr_email := trim_space (mr_email b),
       mr_display_name := trim_space (mr_display_name b),
       mr_role_keys := normalize_request_strings (mr_role_keys b)\<rparr>"

definition decode_managed_user_request ::
    "(string \<Rightarrow> bool) \<Rightarrow> bool \<Rightarrow> managed_user_request option \<Rightarrow> (int \<times> string) + managed_user_request" where
  "decode_managed_user_request mail_ok creating body =
     (case body of
        None \<Rightarrow> Inl (400, ''invalid_request'')
      | Some raw \<Rightarrow>
          (let b = trimmed_user_request raw in
           if mr_username b = [] then Inl (400, ''invalid_username'')
           else if \<not> mail_ok (mr_email b) then Inl (400, ''invalid_email'')
           else let b1 = (if mr_display_name b = [] then b\<lparr>mr_display_name := mr_username b\<rparr> else b) in
             if creating \<and> length (mr_password b1) < 6 then Inl (400, ''invalid_password'')
             else if \<not> creating \<and> mr_password b1 \<noteq> [] \<and> length (mr_password b1) < 6
             then Inl (400, ''invalid_password'')
             else Inr (if mr_role_keys b1 = [] then b1\<lparr>mr_role_keys := [''viewer'']\<rparr> else b1)))"

definition input_of_request :: "managed_user_request \<Rightarrow> user_input" where
  "input_of_request b = \<lparr>ui_username = mr_username b, ui_email = mr_email b,
     ui_display_name = mr_display_name b, ui_source = [], ui_role_keys = mr_role_keys b,
     ui_disabled = mr_disabled b\<rparr>"

definition is_default_admin_user :: "user \<Rightarrow> bool" where
  "is_default_admin_user u = (u_username u = ''admin'')"

subsection \<open>Users\<close>

definition list_managed_users_handler :: "db \<Rightarrow> user list response \<times> db" where
  "list_managed_users_handler d =
     (case list_managed_users d of
        (Inl e, d') \<Rightarrow> (Fail 500 ''list_users_failed'', d')
      | (Inr us, d') \<Rightarrow> (Done 200 us, d'))"

definition create_managed_user_handler ::
    "(string \<Rightarrow> bool) \<Rightarrow> (string \<Rightarrow> string option) \<Rightarrow> string \<Rightarrow> caller \<Rightarrow> managed_user_request option \<Rightarrow>
     db \<Rightarrow> user response \<times> db" where
  "create_managed_user_handler mail_ok hasher nid c body d =
     (case decode_managed_user_request mail_ok True body of
        Inl (st, code) \<Rightarrow> (Fail st code, d)
      | Inr b \<Rightarrow>
          (case hasher (mr_password b) of
             None \<Rightarrow> (Fail 500 ''create_user_failed'', d)
           | Some h \<Rightarrow>
               (case create_managed_user nid (ca_now c) (input_of_request b) h d of
                  (Inl UniqueViolation, d') \<Rightarrow> (Fail 409 ''user_exists'', d')
                | (Inl NotFound, d') \<Rightarrow> (Fail 400 ''role_not_found'', d')
                | (Inl DbError, d') \<Rightarrow> (Fail 500 ''create_user_failed'', d')
                | (Inr u, d') \<Rightarrow>
                    (Done 201 u, audit c ''settings.user.create'' (u_id u) ''System'' ''success''
                       [(''username'', u_username u), (''email'', u_email u), (''role'', u_role u),
                        (''disabled'', bool_text (u_disabled u))] d'))))"

definition delete_managed_user_handler :: "caller \<Rightarrow> string \<Rightarrow> db \<Rightarrow> unit response \<times> db" where
  "delete_managed_user_handler c uid d =
     (if uid = u_id (ca_user c) then (Fail 400 ''delete_self_forbidden'', d)
      else case find_user_by_id uid d of
        (Inl NotFound, d') \<Rightarrow> (Fail 404 ''user_not_found'', d')
      | (Inl e, d') \<Rightarrow> (Fail 500 ''delete_user_failed'', d')
      | (Inr u, d') \<Rightarrow>
          if is_default_admin_user u then (Fail 400 ''default_admin_protected'', d')
          else if \<not> u_disabled u then (Fail 400 ''user_must_be_disabled'', d')
          else case delete_managed_user uid d' of
            Inl e \<Rightarrow> (Fail (status_from_err e) ''delete_user_failed'', d')
          | Inr d'' \<Rightarrow>
              (Done 204 (), audit c ''settings.user.delete'' uid ''System'' ''success''
                 [(''username'', u_username u), (''email'', u_email u)] d''))"

definition update_managed_user_handler ::
    "(string \<Rightarrow> bool) \<Rightarrow> (string \<Rightarrow> string option) \<Rightarrow> caller \<Rightarrow> string \<Rightarrow> managed_user_request option \<Rightarrow>
     db \<Rightarrow> user response \<times> db" where
  "update_managed_user_handler mail_ok hasher c uid body d =
     (case decode_managed_user_request mail_ok False body of
        Inl (st, code) \<Rightarrow> (Fail st code, d)
      | Inr b \<Rightarrow>
          if uid = u_id (ca_user c) \<and> mr_disabled b then (Fail 400 ''disable_self_forbidden'', d)
          else case find_user_by_id uid d of
            (Inl e, d') \<Rightarrow> (Fail (status_from_err e) ''user_not_found'', d')
          | (Inr u, d') \<Rightarrow>
              if is_default_admin_user u \<and> (mr_disabled b \<or> mr_username b \<noteq> u_username u)
              then (Fail 400 ''default_admin_protected'', d')
              else case (if mr_password b \<noteq> [] then hasher (mr_password b) else Some []) of
                None \<Rightarrow> (Fail 500 ''update_user_failed'', d')
              | Some h \<Rightarrow>
                  (case update_managed_user uid (ca_now c) (input_of_request b) h d' of
                     (Inl NotFound, d2) \<Rightarrow> (Fail 404 ''user_not_found'', d2)
                   | (Inl UniqueViolation, d2) \<Rightarrow> (Fail 409 ''user_exists'', d2)
                   | (Inl DbError, d2) \<Rightarrow> (Fail 500 ''update_user_failed'', d2)
                   | (Inr v, d2) \<Rightarrow>
                       (Done 200 v, audit c ''settings.user.update'' (u_id v) ''System'' ''success''
                          [(''username'', u_username v), (''email'', u_email v), (''role'', u_role v),
                           (''disabled'', bool_text (u_disabled v)),
                           (''passwordChanged'', bool_text (mr_password b \<noteq> []))] d2)))"

definition set_managed_user_disabled_handler ::
    "caller \<Rightarrow> string \<Rightarrow> bool option \<Rightarrow> db \<Rightarrow> user response \<times> db" where
  "set_managed_user_disabled_handler c uid body d =
     (case body of
        None \<Rightarrow> (Fail 400 ''invalid_request'', d)
      | Some disabled \<Rightarrow>
          if uid = u_id (ca_user c) \<and> disabled then (Fail 400 ''disable_self_forbidden'', d)
          else let guard = (if disabled then
                  (case find_user_by_id uid d of
                     (Inl e, d') \<Rightarrow> (Some (status_from_err e, ''user_not_found''), d')
                   | (Inr u, d') \<Rightarrow>
                       (if is_default_admin_user u then Some (400, ''default_admin_protected'') else None, d'))
                else (None, d))
            in case guard of
              (Some (st, code), d1) \<Rightarrow> (Fail st code, d1)
            | (None, d1) \<Rightarrow>
                (case set_managed_user_disabled uid (ca_now c) disabled d1 of
                   (Inl e, d2) \<Rightarrow> (Fail (status_from_err e) ''update_user_failed'', d2)
                 | (Inr v, d2) \<Rightarrow>
                     (Done 200 v, audit c ''settings.user.disabled'' (u_id v) ''System'' ''success''
                        [(''username'', u_username v), (''disabled'', bool_text (u_disabled v))] d2)))"

text \<open>\<open>managedUserRoute\<close>: the method and the path choose the handler.\<close>

datatype user_body = UserBody "managed_user_request option" | DisabledBody "bool option"

definition body_user :: "user_body \<Rightarrow> managed_user_request option" where
  "body_user b = (case b of UserBody x \<Rightarrow> x | DisabledBody _ \<Rightarrow> None)"

definition body_disabled :: "user_body \<Rightarrow> bool option" where
  "body_disabled b = (case b of DisabledBody x \<Rightarrow> x | UserBody _ \<Rightarrow> None)"

definition managed_user_route ::
    "(string \<Rightarrow> bool) \<Rightarrow> (string \<Rightarrow> string option) \<Rightarrow> caller \<Rightarrow> string \<Rightarrow> string \<Rightarrow> user_body \<Rightarrow> db \<Rightarrow>
     unit response \<times> db" where
  "managed_user_route mail_ok hasher c meth path body d =
     (let forget = (\<lambda>r. case r of (Fail st code, d') \<Rightarrow> (Fail st code, d') | (Done st v, d') \<Rightarrow> (Done st (), d')) in
      case parse_settings_resource_path path ''/api/settings/users/'' of
        None \<Rightarrow> (Fail 404 ''not_found'', d)
      | Some (uid, action) \<Rightarrow>
          if meth = ''PUT'' \<and> action = [] then
            forget (update_managed_user_handler mail_ok hasher c uid (body_user body) d)
          else if meth = ''DELETE'' \<and> action = [] then delete_managed_user_handler c uid d
          else if meth = ''POST'' \<and> action = ''disabled'' then
            forget (set_managed_user_disabled_handler c uid (body_disabled body) d)
          else (Fail 405 ''method_not_allowed'', d))"

subsection \<open>Roles\<close>

definition role_key_char :: "char \<Rightarrow> bool" where
  "role_key_char c =
     (let n = char_code c in (97 \<le> n \<and> n \<le> 122) \<or> (48 \<le> n \<and> n \<le> 57) \<or> c \<in> set ''._-'')"

text \<open>The pattern \<open>^[a-z][a-z0-9._-]{1,40}$\<close>.\<close>

definition role_key_pattern :: "string \<Rightarrow> bool" where
  "role_key_pattern k =
     (case k of [] \<Rightarrow> False
      | c # cs \<Rightarrow> 97 \<le> char_code c \<and> char_code c \<le> 122 \<and> 1 \<le> length cs \<and> length cs \<le> 40 \<and>
          list_all role_key_char cs)"

definition decode_role_request :: "role_input option \<Rightarrow> (int \<times> string) + role_input" where
  "decode_role_request body =
     (case body of
        None \<Rightarrow> Inl (400, ''invalid_request'')
      | Some raw \<Rightarrow>
          (let b = \<lparr>ri_key = trim_space (ri_key raw), ri_name = trim_space (ri_name raw),
                 ri_description = trim_space (ri_description raw),
                 ri_permissions = normalize_request_strings (ri_permissions raw)\<rparr>
           in if \<not> role_key_pattern (ri_key b) then Inl (400, ''invalid_role_key'')
              else if ri_name b = [] then Inl (400, ''invalid_role_name'')
              else Inr b))"

definition role_audit :: "caller \<Rightarrow> string \<Rightarrow> role \<Rightarrow> db \<Rightarrow> db" where
  "role_audit c action r d =
     audit c action (ro_id r) ''System'' ''success''
       [(''key'', ro_key r), (''name'', ro_name r), (''permissions'', itoa (length (ro_permissions r)))] d"

definition create_role_handler ::
    "string \<Rightarrow> caller \<Rightarrow> role_input option \<Rightarrow> db \<Rightarrow> role response \<times> db" where
  "create_role_handler nid c body d =
     (case decode_role_request body of
        Inl (st, code) \<Rightarrow> (Fail st code, d)
      | Inr b \<Rightarrow>
          (case upsert_custom_role nid (ca_now c) [] b d of
             Inl UniqueViolation \<Rightarrow> (Fail 409 ''role_exists'', d)
           | Inl e \<Rightarrow> (Fail 500 ''save_role_failed'', d)
           | Inr (r, d') \<Rightarrow> (Done 201 r, role_audit c ''settings.role.create'' r d')))"

definition role_route ::
    "caller \<Rightarrow> string \<Rightarrow> string \<Rightarrow> role_input option \<Rightarrow> db \<Rightarrow> role option response \<times> db" where
  "role_route c meth path body d =
     (case parse_settings_resource_path path ''/api/settings/roles/'' of
        None \<Rightarrow> (Fail 404 ''not_found'', d)
      | Some (rid, _) \<Rightarrow>
          if meth = ''PUT'' then
            (case decode_role_request body of
               Inl (st, code) \<Rightarrow> (Fail st code, d)
             | Inr b \<Rightarrow>
                 (case upsert_custom_role [] (ca_now c) rid b d of
                    Inl NotFound \<Rightarrow> (Fail 404 ''role_not_found'', d)
                  | Inl e \<Rightarrow> (Fail 500 ''save_role_failed'', d)
                  | Inr (r, d') \<Rightarrow> (Done 200 (Some r), role_audit c ''settings.role.update'' r d')))
          else if meth = ''DELETE'' then
            (case delete_custom_role rid d of
               Inl NotFound \<Rightarrow> (Fail 404 ''role_not_found'', d)
             | Inl e \<Rightarrow> (Fail 500 ''delete_role_failed'', d)
             | Inr d' \<Rightarrow> (Done 200 None, audit c ''settings.role.delete'' rid ''System'' ''success''
                  [(''role'', rid)] d'))
          else (Fail 405 ''method_not_allowed'', d))"

subsection \<open>Groups\<close>

definition decode_user_group_request :: "group_input option \<Rightarrow> (int \<times> string) + group_input" where
  "decode_user_group_request body =
     (case body of
        None \<Rightarrow> Inl (400, ''invalid_request'')
      | Some raw \<Rightarrow>
          (let b = \<lparr>gi_name = trim_space (gi_name raw), gi_description = trim_space (gi_description raw),
                 gi_disabled = gi_disabled raw,
                 gi_member_ids = normalize_request_strings (gi_member_ids raw),
                 gi_role_keys = normalize_request_strings (gi_role_keys raw)\<rparr>
           in if gi_name b = [] then Inl (400, ''invalid_user_group_name'') else Inr b))"

definition group_audit :: "caller \<Rightarrow> string \<Rightarrow> user_group \<Rightarrow> db \<Rightarrow> db" where
  "group_audit c action g d =
     audit c action (g_id g) ''System'' ''success''
       [(''name'', g_name g), (''members'', itoa (length (g_members g))),
        (''roles'', itoa (length (g_roles g))), (''disabled'', bool_text (g_disabled g))] d"

definition create_user_group_handler ::
    "string \<Rightarrow> caller \<Rightarrow> group_input option \<Rightarrow> db \<Rightarrow> user_group response \<times> db" where
  "create_user_group_handler nid c body d =
     (case decode_user_group_request body of
        Inl (st, code) \<Rightarrow> (Fail st code, d)
      | Inr b \<Rightarrow>
          (case upsert_user_group nid (ca_now c) [] b d of
             (Inl UniqueViolation, d') \<Rightarrow> (Fail 409 ''user_group_exists'', d')
           | (Inl e, d') \<Rightarrow> (Fail 500 ''save_user_group_failed'', d')
           | (Inr g, d') \<Rightarrow> (Done 201 g, group_audit c ''settings.user_group.create'' g d')))"

definition user_group_route ::
    "caller \<Rightarrow> string \<Rightarrow> string \<Rightarrow> group_input option \<Rightarrow> db \<Rightarrow> user_group option response \<times> db" where
  "user_group_route c meth path body d =
     (case parse_settings_resource_path path ''/api/settings/user-groups/'' of
        None \<Rightarrow> (Fail 404 ''not_found'', d)
      | Some (gid, _) \<Rightarrow>
          if meth = ''PUT'' then
            (case decode_user_group_request body of
               Inl (st, code) \<Rightarrow> (Fail st code, d)
             | Inr b \<Rightarrow>
                 (case upsert_user_group [] (ca_now c) gid b d of
                    (Inl e, d') \<Rightarrow> (Fail (status_from_err e) ''save_user_group_failed'', d')
                  | (Inr g, d') \<Rightarrow> (Done 200 (Some g), group_audit c ''settings.user_group.update'' g d')))
          else if meth = ''DELETE'' then
            (case delete_user_group gid d of
               Inl e \<Rightarrow> (Fail (status_from_err e) ''delete_user_group_failed'', d)
             | Inr d' \<Rightarrow> (Done 200 None, audit c ''settings.user_group.delete'' gid ''System'' ''success''
                  [(''group'', gid)] d'))
          else (Fail 405 ''method_not_allowed'', d))"

definition builtin_permissions :: "string list" where
  "builtin_permissions = [''dashboard.read'', ''servers.read'', ''servers.manage'', ''dns.read'', ''dns.manage'',
     ''dhcp.read'', ''dhcp.manage'', ''refresh.manage'', ''audit.read'', ''export.manage'',
     ''notifications.read'', ''notifications.manage'', ''settings.base.read'', ''settings.base.manage'',
     ''settings.users.read'', ''settings.users.manage'', ''settings.auth.read'', ''settings.auth.manage'',
     ''settings.notifications.read'', ''settings.notifications.manage'']"

definition list_permissions_handler :: "permission_info list response" where
  "list_permissions_handler =
     Done 200 (map (\<lambda>k. \<lparr>pm_key = k, pm_implied_read =
        (case implied_read_permissions k of None \<Rightarrow> [] | Some r \<Rightarrow> r)\<rparr>) builtin_permissions)"

subsection \<open>The default administrator\<close>

definition users_ok :: "db \<Rightarrow> bool" where
  "users_ok d \<longleftrightarrow> distinct (map ur_id (db_users d)) \<and> distinct (map ur_username (db_users d))"

definition admin_ok :: "db \<Rightarrow> bool" where
  "admin_ok d \<longleftrightarrow> (\<exists>u \<in> set (db_users d). ur_username u = ''admin'' \<and> \<not> ur_disabled u)"

lemma users_ok_id: "users_ok d \<Longrightarrow> u \<in> set (db_users d) \<Longrightarrow> v \<in> set (db_users d) \<Longrightarrow> ur_id u = ur_id v \<Longrightarrow> u = v"
  by (auto simp: users_ok_def distinct_map dest: inj_onD)

lemma distinct_update_usernames:
  assumes "distinct (map ur_id rs)" and "distinct (map ur_username rs)"
    and "\<And>u. u \<in> set rs \<Longrightarrow> ur_id u = uid \<Longrightarrow> ur_username (f u) = name"
    and "\<And>u. u \<in> set rs \<Longrightarrow> ur_id u \<noteq> uid \<Longrightarrow> ur_username u \<noteq> name"
  shows "distinct (map ur_username (update_rows (\<lambda>u. ur_id u = uid) f rs))"
  using assms
proof (induction rs)
  case (Cons a rs)
  have tl: "distinct (map ur_username (update_rows (\<lambda>u. ur_id u = uid) f rs))"
    by (rule Cons.IH) (use Cons.prems in auto)
  have "ur_username (if ur_id a = uid then f a else a) \<notin> set (map ur_username (update_rows (\<lambda>u. ur_id u = uid) f rs))"
    using Cons.prems by (auto simp: update_rows_def image_iff)
  with tl show ?case by (simp add: update_rows_def)
qed (simp_all add: update_rows_def)

lemma users_frame: "same_but_roles d d' \<Longrightarrow> users_ok d' = users_ok d \<and> admin_ok d' = admin_ok d"
  by (simp add: users_ok_def admin_ok_def same_but_roles_sel)

lemma audit_users [simp]: "users_ok (audit c a t m r md d) = users_ok d" "admin_ok (audit c a t m r md d) = admin_ok d"
  by (simp_all add: users_ok_def admin_ok_def)

text \<open>An update of one user row: the frame of the statement, then what it means for the administrator.\<close>

lemma users_ok_update:
  assumes "users_ok d" and "\<And>u. ur_id (f u) = ur_id u"
    and "\<And>u. u \<in> set (db_users d) \<Longrightarrow> ur_id u = uid \<Longrightarrow> ur_username (f u) = name"
    and "\<And>u. u \<in> set (db_users d) \<Longrightarrow> ur_id u \<noteq> uid \<Longrightarrow> ur_username u \<noteq> name"
  shows "users_ok (d\<lparr>db_users := update_rows (\<lambda>u. ur_id u = uid) f (db_users d)\<rparr>)"
  using assms distinct_update_usernames [of "db_users d" uid f name]
  by (simp add: users_ok_def map_update_rows)

lemma admin_ok_update:
  assumes "admin_ok d"
    and "\<And>u. u \<in> set (db_users d) \<Longrightarrow> ur_id u = uid \<Longrightarrow> ur_username u = ''admin'' \<Longrightarrow> \<not> ur_disabled u \<Longrightarrow>
       ur_username (f u) = ''admin'' \<and> \<not> ur_disabled (f u)"
  shows "admin_ok (d\<lparr>db_users := update_rows (\<lambda>u. ur_id u = uid) f (db_users d)\<rparr>)"
proof -
  from assms(1) obtain a where a: "a \<in> set (db_users d)" "ur_username a = ''admin''" "\<not> ur_disabled a"
    by (auto simp: admin_ok_def)
  let ?a = "if ur_id a = uid then f a else a"
  have "?a \<in> set (update_rows (\<lambda>u. ur_id u = uid) f (db_users d))"
    using a(1) unfolding set_update_rows by (rule rev_image_eqI) simp
  moreover have "ur_username ?a = ''admin'' \<and> \<not> ur_disabled ?a" using a assms(2) by simp
  ultimately show ?thesis unfolding admin_ok_def by auto
qed

lemma update_user_keeps:
  assumes "users_ok d" "admin_ok d" and "update_managed_user uid now input h d = (r, d')"
    and "\<And>u. u \<in> set (db_users d) \<Longrightarrow> ur_id u = uid \<Longrightarrow> ur_username u = ''admin'' \<Longrightarrow>
      ui_username input = ''admin'' \<and> \<not> ui_disabled input"
  shows "users_ok d' \<and> admin_ok d'"
proof (cases "db_fault d ''UpdateUser'' uid \<or> \<not> list_ex (\<lambda>u. ur_id u = uid) (db_users d) \<or>
    list_ex (\<lambda>u. ur_id u \<noteq> uid \<and> ur_username u = ui_username input) (db_users d)")
  case True
  with assms show ?thesis by (auto simp: update_managed_user_def split: if_splits)
next
  case False
  let ?d = "d\<lparr>db_users := update_rows (\<lambda>u. ur_id u = uid) (updated_user now input h) (db_users d)\<rparr>"
  have 1: "users_ok ?d"
    using assms(1) False
    by (intro users_ok_update [where name = "ui_username input"]) (auto simp: updated_user_def list_ex_iff)
  have 2: "admin_ok ?d"
    using assms(2,4) by (intro admin_ok_update) (auto simp: updated_user_def)
  have "same_but_roles ?d d'"
    using assms(3) False
    by (auto simp: update_managed_user_def split: sum.splits prod.splits
        dest!: replace_user_roles_frame find_user_by_id_frame intro: same_but_roles_trans)
  with users_frame [OF this] 1 2 show ?thesis by simp
qed

lemma set_disabled_keeps:
  assumes "users_ok d" "admin_ok d" and "set_managed_user_disabled uid now b d = (r, d')"
    and "\<And>u. u \<in> set (db_users d) \<Longrightarrow> ur_id u = uid \<Longrightarrow> b \<Longrightarrow> ur_username u \<noteq> ''admin''"
  shows "users_ok d' \<and> admin_ok d'"
proof (cases "db_fault d ''SetDisabled'' uid \<or> \<not> list_ex (\<lambda>u. ur_id u = uid) (db_users d)")
  case True
  with assms show ?thesis by (auto simp: set_managed_user_disabled_def split: if_splits)
next
  case False
  let ?f = "\<lambda>u. u\<lparr>ur_disabled := b, ur_updated_at := now\<rparr>"
  let ?d = "d\<lparr>db_users := update_rows (\<lambda>u. ur_id u = uid) ?f (db_users d)\<rparr>"
  have "map ur_username (db_users ?d) = map ur_username (db_users d)"
       "map ur_id (db_users ?d) = map ur_id (db_users d)"
    by (simp_all add: map_update_rows)
  with assms(1) have 1: "users_ok ?d" by (simp add: users_ok_def)
  have 2: "admin_ok ?d" using assms(2,4) by (intro admin_ok_update) auto
  have "same_but_roles ?d d'"
    using assms(3) False by (auto simp: set_managed_user_disabled_def dest: find_user_by_id_frame)
  with users_frame [OF this] 1 2 show ?thesis by simp
qed

lemma delete_user_keeps:
  assumes "users_ok d" "admin_ok d" and "delete_managed_user uid d = Inr d'"
    and "\<And>u. u \<in> set (db_users d) \<Longrightarrow> ur_id u = uid \<Longrightarrow> ur_username u \<noteq> ''admin''"
  shows "users_ok d' \<and> admin_ok d'"
proof -
  from assms(3) have u: "db_users d' = delete_rows (\<lambda>u. ur_id u = uid) (db_users d)"
    by (auto simp: delete_managed_user_def split: if_splits)
  from assms(2) obtain a where "a \<in> set (db_users d)" "ur_username a = ''admin''" "\<not> ur_disabled a"
    by (auto simp: admin_ok_def)
  with assms(4) have "a \<in> set (db_users d') \<and> ur_username a = ''admin'' \<and> \<not> ur_disabled a" by (auto simp: u)
  with assms(1) show ?thesis unfolding users_ok_def admin_ok_def u by (auto simp: distinct_map_delete)
qed

lemma create_user_keeps:
  assumes "users_ok d" "admin_ok d" and "create_managed_user nid now input h d = (r, d')"
    and "nid \<notin> set (map ur_id (db_users d))"
  shows "users_ok d' \<and> admin_ok d'"
proof (cases "db_fault d ''CreateUser'' (ui_username input) \<or>
    list_ex (\<lambda>u. ur_username u = ui_username input) (db_users d)")
  case True
  with assms show ?thesis by (auto simp: create_managed_user_def Let_def split: if_splits)
next
  case False
  have "\<exists>row. ur_id row = nid \<and> ur_username row = ui_username input \<and>
      same_but_roles (d\<lparr>db_users := db_users d @ [row]\<rparr>) d'"
    using assms(3) False
    by (auto simp: create_managed_user_def Let_def split: sum.splits prod.splits
        dest!: replace_user_roles_frame find_user_by_id_frame intro!: exI intro: same_but_roles_trans)
  then obtain row where row: "ur_id row = nid" "ur_username row = ui_username input"
      "same_but_roles (d\<lparr>db_users := db_users d @ [row]\<rparr>) d'" by blast
  from users_frame [OF row(3)] show ?thesis
    using assms(1,2,4) False row(1,2) by (auto simp: users_ok_def admin_ok_def list_ex_iff)
qed

lemma found_user_is_admin:
  assumes "users_ok d" and "find_user_by_id uid d = (Inr v, d')" and "u \<in> set (db_users d)" and "ur_id u = uid"
  shows "u_username v = ur_username u \<and> u_disabled v = ur_disabled u"
  using find_user_by_id_result [OF assms(2)] users_ok_id [OF assms(1,3)] assms(4) by metis

lemma found_user_not_admin:
  assumes "users_ok d" and "find_user_by_id uid d = (Inr v, d')" and "\<not> is_default_admin_user v"
    and "u \<in> set (db_users d')" and "ur_id u = uid"
  shows "ur_username u \<noteq> ''admin''"
  using found_user_is_admin [OF assms(1,2) _ assms(5)] assms(3,4) same_but_roles_sel(1) [OF find_user_by_id_frame [OF assms(2)]]
  by (simp add: is_default_admin_user_def)

lemma update_handler_keeps:
  assumes "users_ok d" "admin_ok d" and "update_managed_user_handler mail_ok hasher c uid body d = (r, d')"
  shows "users_ok d' \<and> admin_ok d'"
proof -
  have upd: "users_ok d2 \<and> admin_ok d2"
    if "find_user_by_id uid d = (Inr v, d1)" "\<not> (is_default_admin_user v \<and> (mr_disabled b \<or> mr_username b \<noteq> u_username v))"
      "update_managed_user uid (ca_now c) (input_of_request b) h d1 = (res, d2)" for v d1 b h res d2
  proof -
    have fr: "same_but_roles d d1" using that(1) by (rule find_user_by_id_frame)
    have "ui_username (input_of_request b) = ''admin'' \<and> \<not> ui_disabled (input_of_request b)"
      if "u \<in> set (db_users d1)" "ur_id u = uid" "ur_username u = ''admin''" for u
      using found_user_is_admin [OF assms(1) \<open>find_user_by_id uid d = (Inr v, d1)\<close>, of u] that
        \<open>\<not> (is_default_admin_user v \<and> (mr_disabled b \<or> mr_username b \<noteq> u_username v))\<close> same_but_roles_sel(1) [OF fr]
      by (auto simp: is_default_admin_user_def input_of_request_def)
    then show ?thesis
      using update_user_keeps [OF _ _ that(3)] users_frame [OF fr] assms(1,2) by simp
  qed
  have fr: "users_ok d1 \<and> admin_ok d1" if "find_user_by_id uid d = (x, d1)" for x d1
    using users_frame [OF find_user_by_id_frame [OF that]] assms(1,2) by simp
  show ?thesis
    using assms fr
    unfolding update_managed_user_handler_def
    by (auto split: sum.splits prod.splits if_splits option.splits store_error.splits) (metis upd)+
qed

lemma delete_handler_keeps:
  assumes "users_ok d" "admin_ok d" and "delete_managed_user_handler c uid d = (r, d')"
  shows "users_ok d' \<and> admin_ok d'"
proof -
  have fr: "users_ok d1 \<and> admin_ok d1" if "find_user_by_id uid d = (x, d1)" for x d1
    using users_frame [OF find_user_by_id_frame [OF that]] assms(1,2) by simp
  have del: "users_ok d2 \<and> admin_ok d2"
    if "find_user_by_id uid d = (Inr v, d1)" "\<not> is_default_admin_user v" "delete_managed_user uid d1 = Inr d2" for v d1 d2
    using delete_user_keeps [OF _ _ that(3)] fr [OF that(1)] found_user_not_admin [OF assms(1) that(1,2)] by blast
  show ?thesis
    using assms fr del
    unfolding delete_managed_user_handler_def
    by (auto split: sum.splits prod.splits if_splits store_error.splits)
qed

lemma set_disabled_handler_keeps:
  assumes "users_ok d" "admin_ok d" and "set_managed_user_disabled_handler c uid body d = (r, d')"
  shows "users_ok d' \<and> admin_ok d'"
proof -
  have fr: "users_ok d1 \<and> admin_ok d1" if "find_user_by_id uid d = (x, d1)" for x d1
    using users_frame [OF find_user_by_id_frame [OF that]] assms(1,2) by simp
  have off: "users_ok d2 \<and> admin_ok d2"
    if "find_user_by_id uid d = (Inr v, d1)" "\<not> is_default_admin_user v"
      "set_managed_user_disabled uid (ca_now c) b d1 = (x, d2)" for v d1 b x d2
    using set_disabled_keeps [OF _ _ that(3)] fr [OF that(1)] found_user_not_admin [OF assms(1) that(1,2)] by blast
  have on: "users_ok d2 \<and> admin_ok d2" if "set_managed_user_disabled uid (ca_now c) False d = (x, d2)" for x d2
    using set_disabled_keeps [OF assms(1,2) that] by simp
  show ?thesis
    using assms fr off on
    unfolding set_managed_user_disabled_handler_def Let_def
    by (auto split: sum.splits prod.splits if_splits option.splits)
qed

text \<open>C4. No request to the user settings can lock everybody out by removing the default administrator:
  whatever user route is called, by whom and with which body, an enabled user named \<open>admin\<close> and the
  uniqueness of user names and identifiers survive, also when a statement fails in between.\<close>

theorem default_admin_survives:
  assumes "users_ok d" and "admin_ok d" and "nid \<notin> set (map ur_id (db_users d))"
  shows "admin_ok (snd (managed_user_route mail_ok hasher c meth path body d)) \<and>
    users_ok (snd (managed_user_route mail_ok hasher c meth path body d)) \<and>
    admin_ok (snd (create_managed_user_handler mail_ok hasher nid c req d)) \<and>
    users_ok (snd (create_managed_user_handler mail_ok hasher nid c req d))"
proof -
  have route: "users_ok (snd (managed_user_route mail_ok hasher c meth path body d)) \<and>
      admin_ok (snd (managed_user_route mail_ok hasher c meth path body d))"
    using assms(1,2) update_handler_keeps [OF assms(1,2)]
      set_disabled_handler_keeps [OF assms(1,2)] delete_handler_keeps [OF assms(1,2) surjective_pairing]
    by (auto simp: managed_user_route_def Let_def split: option.splits prod.splits response.splits)
  have create: "users_ok d' \<and> admin_ok d'" if "create_managed_user_handler mail_ok hasher nid c req d = (r, d')" for r d'
    using that assms create_user_keeps [OF assms(1,2) _ assms(3)]
    unfolding create_managed_user_handler_def
    by (auto split: sum.splits prod.splits option.splits store_error.splits)
  from create [OF surjective_pairing] route show ?thesis by blast
qed

subsection \<open>Built-in roles\<close>

lemma filter_update_other:
  "(\<And>x. p x \<Longrightarrow> \<not> q x \<and> \<not> q (f x)) \<Longrightarrow> filter q (update_rows p f rs) = filter q rs"
  by (induction rs) (auto simp: update_rows_def)

lemma filter_delete_other: "(\<And>x. p x \<Longrightarrow> \<not> q x) \<Longrightarrow> filter q (delete_rows p rs) = filter q rs"
  by (induction rs) (auto simp: delete_rows_def)

lemma upsert_role_builtin:
  assumes "upsert_custom_role nid now rid input d = Inr (r, d')"
  shows "filter ro_builtin (db_roles d') = filter ro_builtin (db_roles d)"
proof (cases "rid = []")
  case True
  with assms show ?thesis by (auto simp: upsert_custom_role_def Let_def split: if_splits)
next
  case False
  with assms obtain old where old: "find_row (\<lambda>r. ro_id r = rid \<and> \<not> ro_builtin r) (db_roles d) = Some old"
      "db_roles d' = update_rows (\<lambda>r. ro_id r = rid \<and> \<not> ro_builtin r) (\<lambda>_. r) (db_roles d)"
      "ro_builtin r = ro_builtin old"
    by (auto simp: upsert_custom_role_def Let_def split: if_splits option.splits)
  have "\<not> ro_builtin old" using find_row_Some [OF old(1)] by simp
  then show ?thesis unfolding old(2) using old(3) by (intro filter_update_other) auto
qed

lemma delete_role_builtin:
  "delete_custom_role rid d = Inr d' \<Longrightarrow> filter ro_builtin (db_roles d') = filter ro_builtin (db_roles d)"
  by (auto simp: delete_custom_role_def split: if_splits intro!: filter_delete_other)

text \<open>C5. The built-in roles are read-only: no role request, accepted or refused, changes, removes or adds
  one.\<close>

theorem builtin_roles_immutable:
  "filter ro_builtin (db_roles (snd (create_role_handler nid c body d))) = filter ro_builtin (db_roles d) \<and>
   filter ro_builtin (db_roles (snd (role_route c meth path body d))) = filter ro_builtin (db_roles d)"
proof
  show "filter ro_builtin (db_roles (snd (create_role_handler nid c body d))) = filter ro_builtin (db_roles d)"
    unfolding create_role_handler_def role_audit_def
    by (simp split: sum.split prod.split store_error.split) (auto dest: upsert_role_builtin)
  show "filter ro_builtin (db_roles (snd (role_route c meth path body d))) = filter ro_builtin (db_roles d)"
    unfolding role_route_def role_audit_def
    by (simp split: sum.split prod.split option.split store_error.split)
       (auto dest: upsert_role_builtin delete_role_builtin)
qed

subsection \<open>An unknown role\<close>

text \<open>Creating a user is not atomic. When the first requested role exists and the second does not, the
  answer is 400 \<open>role_not_found\<close> and nothing is audited, but the user exists afterwards, enabled as
  requested, with the first role.\<close>

theorem create_user_with_unknown_role:
  assumes "\<And>op key. \<not> db_fault d op key"
    and "decode_managed_user_request mail_ok True body = Inr b" and "hasher (mr_password b) = Some h"
    and "\<And>u. u \<in> set (db_users d) \<Longrightarrow> ur_username u \<noteq> mr_username b"
    and "normalize_role_keys (mr_role_keys b) = [k, ghost]"
    and "find_row (\<lambda>r. ro_key r = k) (db_roles d) = Some role"
    and "find_row (\<lambda>r. ro_key r = ghost) (db_roles d) = None"
  shows "\<exists>d' u. create_managed_user_handler mail_ok hasher nid c body d = (Fail 400 ''role_not_found'', d') \<and>
     u \<in> set (db_users d') \<and> ur_id u = nid \<and> ur_username u = mr_username b \<and> ur_role u = k \<and>
     ur_disabled u = mr_disabled b \<and> (nid, ro_id role) \<in> set (db_user_roles d') \<and> db_audit d' = db_audit d"
proof -
  have "\<not> list_ex (\<lambda>u. ur_username u = mr_username b) (db_users d)" using assms(4) by (auto simp: list_ex_iff)
  then show ?thesis
    using assms(1-3,5-7)
    by (simp add: create_managed_user_handler_def create_managed_user_def replace_user_roles_def
        insert_user_role_def input_of_request_def Let_def) force
qed

subsection \<open>Concrete requests\<close>

definition sample_request :: managed_user_request where
  "sample_request = \<lparr>mr_username = ''eve'', mr_password = ''secret1'', mr_email = ''eve'',
     mr_display_name = ''eve'', mr_role_keys = [''admin'', ''ghost''], mr_disabled = False\<rparr>"

definition sample_caller :: caller where
  "sample_caller = \<lparr>ca_user = scan_user (sample_user ''2'' ''bob'' ''viewer''), ca_ip = ''10.0.0.9'', ca_now = 7\<rparr>"

lemma sample_request_trim:
  "trim_space ''eve'' = ''eve''" "trim_space ''admin'' = ''admin''" "trim_space ''ghost'' = ''ghost''"
  by (rule trim_space_graph, simp add: graph_ends_def char_code_def)+

theorem create_user_with_unknown_role_witness:
  "\<exists>d' u. create_managed_user_handler (\<lambda>_. True) Some ''9'' sample_caller (Some sample_request) access_db =
       (Fail 400 ''role_not_found'', d') \<and> u \<in> set (db_users d') \<and> ur_username u = ''eve'' \<and> ur_role u = ''admin''"
proof -
  have "decode_managed_user_request (\<lambda>_. True) True (Some sample_request) = Inr sample_request"
    by (simp add: decode_managed_user_request_def trimmed_user_request_def normalize_request_strings_def
        sample_request_def sample_request_trim Let_def)
  moreover have "normalize_role_keys (mr_role_keys sample_request) = [''admin'', ''ghost'']"
    by (simp add: normalize_role_keys_def sample_request_def sample_request_trim Let_def)
  moreover have "find_row (\<lambda>r. ro_key r = ''admin'') (db_roles access_db) = Some (sample_role ''r1'' ''admin'')"
      "find_row (\<lambda>r. ro_key r = ''ghost'') (db_roles access_db) = None"
    by (simp_all add: access_simps find_row_def)
  ultimately show ?thesis
    using create_user_with_unknown_role [of access_db "\<lambda>_. True" "Some sample_request" sample_request Some "''secret1''"
        "''admin''" "''ghost''" "sample_role ''r1'' ''admin''" "''9''" sample_caller]
    by (fastforce simp: access_simps sample_request_def)
qed

theorem default_admin_survives_witness:
  "admin_ok (snd (managed_user_route (\<lambda>_. True) Some sample_caller ''DELETE'' ''/api/settings/users/1''
     (DisabledBody None) access_db))"
proof -
  have "users_ok access_db" "admin_ok access_db" "''9'' \<notin> set (map ur_id (db_users access_db))"
    by (simp_all add: users_ok_def admin_ok_def access_simps)
  from default_admin_survives [OF this] show ?thesis by blast
qed

end
