(* ===== verification/ZL_Dns.thy ===== *)
theory ZL_Dns
  imports ZL_Store ZL_IP
begin

text \<open>
  The DNS rules of the router and of the sync service that touch no agent:
  \<open>api/router/dns_record_validation.go\<close>, \<open>internal/service/sync/dns_zones.go\<close>, the pure part of
  \<open>internal/service/sync/dns_ptr.go\<close> and the helpers of \<open>api/router/resources_dns_records.go\<close>.
  The messages of the validators are the constructors of \<open>dns_error\<close>, with the parts of the record
  they quote.
\<close>

subsection \<open>Values\<close>

definition is_valid_a_record_value :: "string \<Rightarrow> bool" where
  "is_valid_a_record_value v = (parse_ip_to4 (trim_space v) \<noteq> None)"

definition label_char :: "char \<Rightarrow> bool" where
  "label_char c =
     (let n = char_code c in
      (97 \<le> n \<and> n \<le> 122) \<or> (65 \<le> n \<and> n \<le> 90) \<or> (48 \<le> n \<and> n \<le> 57) \<or> n = 45)"

fun label_loop :: "nat \<Rightarrow> nat \<Rightarrow> string \<Rightarrow> bool" where
  "label_loop len i [] = True"
| "label_loop len i (c # cs) =
     (if \<not> label_char c then False
      else if (i = 0 \<or> i = len - 1) \<and> c = CHR ''-'' then False
      else label_loop len (Suc i) cs)"

definition is_valid_dns_label :: "string \<Rightarrow> bool" where
  "is_valid_dns_label l = (if l = [] \<or> length l > 63 then False else label_loop (length l) 0 l)"

definition is_valid_cname_value :: "string \<Rightarrow> bool" where
  "is_valid_cname_value v0 =
     (let v = trim_space v0 in
      if v = [] \<or> \<not> has_suffix v ''.'' then False
      else let name = trim_suffix v ''.'' in
        if name = [] \<or> length name > 253 then False
        else list_all is_valid_dns_label (split_on (CHR ''.'') name))"

definition ipv4_reverse_zone :: "string \<Rightarrow> string option" where
  "ipv4_reverse_zone v =
     (case parse_ip_to4 (trim_space v) of
        None \<Rightarrow> None
      | Some ip \<Rightarrow> Some (itoa (ip ! 2) @ ''.'' @ itoa (ip ! 1) @ ''.'' @ itoa (ip ! 0) @ ''.in-addr.arpa''))"

definition ptr_record_fqdn :: "string \<Rightarrow> string \<Rightarrow> string" where
  "ptr_record_fqdn zone_name record_name =
     (let name = trim_space record_name;
          zone = trim_char (CHR ''.'') (trim_space zone_name);
          fqdn = (if name = [] \<or> name = ''@'' then zone
                  else trim_char (CHR ''.'') name @ ''.'' @ zone)
      in if has_suffix fqdn ''.'' then fqdn else fqdn @ ''.'')"

text \<open>The label of a PTR record relative to its zone: \<open>network_octets\<close> is the loop that reads the
  labels of the zone back to front.\<close>

fun network_octets :: "string list \<Rightarrow> nat list option" where
  "network_octets [] = Some []"
| "network_octets (p # ps) =
     (case parse_ip_to4 (''0.0.0.'' @ p) of
        None \<Rightarrow> None
      | Some ip \<Rightarrow> map_option (\<lambda>os. ip ! 3 # os) (network_octets ps))"

definition dns_record_agent_name :: "string \<Rightarrow> string \<Rightarrow> string \<Rightarrow> string" where
  "dns_record_agent_name zone_name rtype record_name =
     (let name = trim_space record_name in
      if \<not> equal_fold rtype ''PTR'' then name
      else let zone = to_lower (trim_suffix (trim_space zone_name) ''.'') in
        if \<not> has_suffix zone ''.in-addr.arpa'' then name
        else case parse_ip_to4 (trim_suffix name ''.'') of
          None \<Rightarrow> name
        | Some ip \<Rightarrow>
            (let parts = split_on (CHR ''.'') (trim_suffix zone ''.in-addr.arpa'') in
             if parts = [] \<or> length parts \<ge> 4 then name
             else case network_octets (rev parts) of
               None \<Rightarrow> name
             | Some expected \<Rightarrow>
                 if take (length expected) ip \<noteq> expected then name
                 else itoa (ip ! length expected)))"

definition empty_record :: dns_record where
  "empty_record = \<lparr>r_id = [], r_zone_id = [], r_name = [], r_type = [], r_value = [], r_ttl = 0,
     r_create_ptr = False, r_updated_at = go_zero_time, r_last_synced_at = None\<rparr>"

definition ptr_record_for_a_record :: "string \<Rightarrow> string \<Rightarrow> dns_record \<Rightarrow> dns_record option" where
  "ptr_record_for_a_record sid zone_name r =
     (case ipv4_reverse_zone (r_value r) of
        None \<Rightarrow> None
      | Some rz \<Rightarrow>
          (let ptr_name = trim_space (r_value r) @ ''.'';
               v = ptr_record_fqdn zone_name (r_name r)
           in Some (default_ttl (empty_record\<lparr>r_id := dns_record_id sid rz ''PTR'' ptr_name v,
                r_zone_id := dns_zone_id sid rz, r_name := ptr_name, r_type := ''PTR'',
                r_value := v, r_ttl := r_ttl r\<rparr>))))"

subsection \<open>Validation of a new record\<close>

datatype dns_error =
    ReverseZoneReadOnly
  | RecordExists string
  | CnameExists string
  | BlockedByCname string string
  | CnameBlocked string
  | BadCnameValue string
  | BadPtrValue string
  | BadAValue string
  | OnlyValueEditable
  | CnameUpdateBlocked string
  | UpdateBlockedByCname string string string
  | StoreFailed store_error

definition dns_record_label :: "string \<Rightarrow> string \<Rightarrow> string \<Rightarrow> string" where
  "dns_record_label name rtype v = trim_space (join_with '' '' [name, rtype, v])"

definition norm_type :: "string \<Rightarrow> string" where
  "norm_type t = to_upper (trim_space t)"

fun create_conflict :: "string \<Rightarrow> string \<Rightarrow> string \<Rightarrow> dns_record list \<Rightarrow> dns_error option" where
  "create_conflict name rtype v [] = None"
| "create_conflict name rtype v (e # es) =
     (if \<not> equal_fold (trim_space (r_name e)) name then create_conflict name rtype v es
      else let etype = norm_type (r_type e) in
        if etype = rtype \<and> equal_fold (trim_space (r_value e)) v then
          (if rtype = ''CNAME'' then Some (CnameExists name)
           else Some (RecordExists (dns_record_label name rtype v)))
        else if etype = ''CNAME'' \<and> rtype = ''CNAME'' then Some (CnameExists name)
        else if etype = ''CNAME'' \<and> rtype \<noteq> ''CNAME'' then Some (BlockedByCname name rtype)
        else if etype \<noteq> ''CNAME'' \<and> rtype = ''CNAME'' then Some (CnameBlocked name)
        else create_conflict name rtype v es)"

definition validate_dns_record_create :: "db \<Rightarrow> dns_record \<Rightarrow> dns_error option" where
  "validate_dns_record_create d r =
     (case get_dns_zone d (r_zone_id r) of
        Inl e \<Rightarrow> Some (StoreFailed e)
      | Inr zone \<Rightarrow>
          if z_reverse zone then Some ReverseZoneReadOnly
          else case list_dns_records_by_zone d (r_zone_id r) of
            Inl e \<Rightarrow> Some (StoreFailed e)
          | Inr records \<Rightarrow>
              (let name = trim_space (r_name r);
                   rtype = norm_type (r_type r);
                   v = trim_space (r_value r)
               in case create_conflict name rtype v records of
                    Some e \<Rightarrow> Some e
                  | None \<Rightarrow>
                      if rtype = ''CNAME'' \<and> \<not> is_valid_cname_value v then Some (BadCnameValue name)
                      else if rtype = ''A'' \<and> \<not> is_valid_a_record_value v then Some (BadAValue name)
                      else None))"

datatype dns_warning =
    BadIpForPtr | NoReverseZone | AgentWarning string | PtrCreateFailed | PtrDeleteFailed

definition dns_record_create_warnings ::
    "db \<Rightarrow> dns_record \<Rightarrow> string \<Rightarrow> store_error + dns_warning list" where
  "dns_record_create_warnings d r sid =
     (if \<not> equal_fold (trim_space (r_type r)) ''A'' \<or> \<not> r_create_ptr r then Inr []
      else case ipv4_reverse_zone (r_value r) of
        None \<Rightarrow> Inr [BadIpForPtr]
      | Some rz \<Rightarrow>
          (case dns_reverse_zone_exists d sid rz of
             Inl e \<Rightarrow> Inl e
           | Inr found \<Rightarrow> if found then Inr [] else Inr [NoReverseZone]))"

subsection \<open>Validation of an edited record\<close>

fun update_conflict ::
    "string \<Rightarrow> string \<Rightarrow> string \<Rightarrow> string \<Rightarrow> dns_record list \<Rightarrow> dns_error option" where
  "update_conflict old_id name rtype nv [] = None"
| "update_conflict old_id name rtype nv (e # es) =
     (if r_id e = old_id then update_conflict old_id name rtype nv es
      else if \<not> equal_fold (trim_space (r_name e)) name then update_conflict old_id name rtype nv es
      else let etype = norm_type (r_type e) in
        if etype = rtype \<and> equal_fold (trim_space (r_value e)) nv then
          (if rtype = ''CNAME'' then Some (CnameExists name)
           else Some (RecordExists (dns_record_label name rtype nv)))
        else if rtype = ''CNAME'' \<and> etype \<noteq> ''CNAME'' then Some (CnameUpdateBlocked name)
        else if rtype \<noteq> ''CNAME'' \<and> etype = ''CNAME'' then Some (UpdateBlockedByCname name rtype nv)
        else update_conflict old_id name rtype nv es)"

definition validate_dns_record_update :: "db \<Rightarrow> dns_record \<Rightarrow> dns_record \<Rightarrow> dns_error option" where
  "validate_dns_record_update d old new =
     (if r_zone_id old \<noteq> r_zone_id new \<or> \<not> equal_fold (r_name old) (r_name new) \<or>
         \<not> equal_fold (r_type old) (r_type new) then Some OnlyValueEditable
      else let name = trim_space (r_name old);
               rtype = norm_type (r_type old);
               ov = trim_space (r_value old);
               nv = trim_space (r_value new)
        in if equal_fold ov nv \<and> r_create_ptr old = r_create_ptr new then None
           else if rtype = ''CNAME'' \<and> \<not> is_valid_cname_value nv then Some (BadCnameValue name)
           else if rtype = ''PTR'' \<and> \<not> is_valid_cname_value nv then Some (BadPtrValue name)
           else if rtype = ''A'' \<and> \<not> is_valid_a_record_value nv then Some (BadAValue name)
           else case list_dns_records_by_zone d (r_zone_id old) of
             Inl e \<Rightarrow> Some (StoreFailed e)
           | Inr records \<Rightarrow> update_conflict (r_id old) name rtype nv records)"

subsection \<open>PTR annotation and zone filter of the sync service\<close>

definition dns_ptr_match_key :: "string \<Rightarrow> string \<Rightarrow> string \<Rightarrow> string" where
  "dns_ptr_match_key zid name v =
     to_lower (trim_space zid) @ ''|'' @ to_lower (trim_space name) @ ''|'' @ to_lower (trim_space v)"

text \<open>\<open>dnsPTRRecordForARecord\<close> of the sync service keeps the TTL as it is.\<close>

definition dns_ptr_record_for_a_record :: "string \<Rightarrow> string \<Rightarrow> dns_record \<Rightarrow> dns_record option" where
  "dns_ptr_record_for_a_record sid zone_name r =
     (case parse_ip_to4 (trim_space (r_value r)) of
        None \<Rightarrow> None
      | Some ip \<Rightarrow>
          (let rz = itoa (ip ! 2) @ ''.'' @ itoa (ip ! 1) @ ''.'' @ itoa (ip ! 0) @ ''.in-addr.arpa'';
               v = ptr_record_fqdn zone_name (r_name r);
               ptr_name = trim_space (r_value r) @ ''.''
           in Some (empty_record\<lparr>r_id := dns_record_id sid rz ''PTR'' ptr_name v,
                r_zone_id := dns_zone_id sid rz, r_name := ptr_name, r_type := ''PTR'',
                r_value := v, r_ttl := r_ttl r\<rparr>)))"

definition ptr_keys :: "dns_record list \<Rightarrow> string list" where
  "ptr_keys rs =
     map (\<lambda>r. dns_ptr_match_key (r_zone_id r) (r_name r) (r_value r))
       (filter (\<lambda>r. equal_fold (trim_space (r_type r)) ''PTR'') rs)"

definition annotate_record :: "string \<Rightarrow> string \<Rightarrow> string list \<Rightarrow> dns_record \<Rightarrow> dns_record" where
  "annotate_record sid zone_name keys r =
     (if \<not> equal_fold (trim_space (r_type r)) ''A'' then r
      else case dns_ptr_record_for_a_record sid zone_name r of
             None \<Rightarrow> r
           | Some p \<Rightarrow>
               r\<lparr>r_create_ptr := (dns_ptr_match_key (r_zone_id p) (r_name p) (r_value p) \<in> set keys)\<rparr>)"

definition annotate_dns_ptr_records :: "string \<Rightarrow> string \<Rightarrow> dns_record list \<Rightarrow> dns_record list" where
  "annotate_dns_ptr_records sid zone_name rs = map (annotate_record sid zone_name (ptr_keys rs)) rs"

definition is_system_dns_zone :: "string \<Rightarrow> bool" where
  "is_system_dns_zone name =
     (to_lower (trim_char (CHR ''.'') (trim_space name))
        \<in> set [''trustanchors'', ''0.in-addr.arpa'', ''127.in-addr.arpa'', ''255.in-addr.arpa''])"

definition syncable_dns_zone_name :: "string \<Rightarrow> bool" where
  "syncable_dns_zone_name name =
     (let v = trim_space name in if v = [] then False else \<not> is_system_dns_zone v)"

definition filter_syncable_dns_zones :: "dns_zone list \<Rightarrow> dns_zone list" where
  "filter_syncable_dns_zones zs = filter (\<lambda>z. syncable_dns_zone_name (z_name z)) zs"

subsection \<open>Helpers of the record handlers\<close>

definition dns_zone_name_is_reverse :: "string \<Rightarrow> bool" where
  "dns_zone_name_is_reverse name =
     has_suffix (to_lower (trim_char (CHR ''.'') (trim_space name))) ''.in-addr.arpa''"

definition dns_record_manageable_in_zone :: "string \<Rightarrow> string \<Rightarrow> bool" where
  "dns_record_manageable_in_zone zone_name rtype =
     (let t = norm_type rtype in
      if dns_zone_name_is_reverse zone_name then t = ''PTR'' else t = ''A'' \<or> t = ''CNAME'')"

definition normalize_dns_record_agent_warnings :: "string list \<Rightarrow> dns_warning list" where
  "normalize_dns_record_agent_warnings ws =
     map (\<lambda>w. if trim_space w = ''PTR_REVERSE_ZONE_NOT_FOUND'' then NoReverseZone else AgentWarning w) ws"

definition should_refresh_deleted_a_record_ptr_zone :: "bool \<Rightarrow> bool \<Rightarrow> bool \<Rightarrow> bool" where
  "should_refresh_deleted_a_record_ptr_zone related create_ptr reverse_exists =
     (related \<or> (create_ptr \<and> reverse_exists))"

definition related_ptr_record_for_dns_record ::
    "db \<Rightarrow> string \<Rightarrow> string \<Rightarrow> dns_record \<Rightarrow> dns_record option" where
  "related_ptr_record_for_dns_record d sid zone_name r =
     (case ptr_record_for_a_record sid zone_name r of
        None \<Rightarrow> None
      | Some expected \<Rightarrow>
          (case list_dns_records_by_zone d (r_zone_id expected) of
             Inl e \<Rightarrow> None
           | Inr records \<Rightarrow>
               find_row (\<lambda>x. equal_fold (trim_space (r_type x)) ''PTR'' \<and>
                  equal_fold (trim_space (r_name x)) (trim_space (r_name expected)) \<and>
                  equal_fold (trim_space (r_value x)) (trim_space (r_value expected))) records))"

subsection \<open>Values: what the checks accept\<close>

lemma label_loop_iff:
  "label_loop len i cs \<longleftrightarrow>
     (\<forall>k < length cs. label_char (cs ! k) \<and> ((i + k = 0 \<or> i + k = len - 1) \<longrightarrow> cs ! k \<noteq> CHR ''-''))"
  by (induction cs arbitrary: i) (auto simp: nth_Cons All_less_Suc2 split: nat.splits)

lemma is_valid_dns_label_iff [simp]:
  "is_valid_dns_label l \<longleftrightarrow>
     l \<noteq> [] \<and> length l \<le> 63 \<and> list_all label_char l \<and> hd l \<noteq> CHR ''-'' \<and> last l \<noteq> CHR ''-''"
proof (cases "l = []")
  case False
  then have "length l - Suc 0 < length l" by simp
  with False show ?thesis
    by (auto simp: is_valid_dns_label_def label_loop_iff list_all_length hd_conv_nth last_conv_nth
        dest: spec [where x = "length l - Suc 0"])
qed (simp add: is_valid_dns_label_def)

lemma label_char_not_dot: "label_char c \<Longrightarrow> c \<noteq> CHR ''.''"
  by (auto simp: label_char_def char_code_def Let_def)

text \<open>A value passes \<open>isValidCNAMEValue\<close> exactly when, trimmed, it is a sequence of labels each ended
  by a dot, at most 253 bytes without the last dot; a label has 1 to 63 letters, digits and hyphens,
  the first and the last no hyphen.\<close>

theorem is_valid_cname_value_iff:
  "is_valid_cname_value v \<longleftrightarrow>
     (\<exists>ls. ls \<noteq> [] \<and> trim_space v = join_with ''.'' ls @ ''.'' \<and> length (join_with ''.'' ls) \<le> 253 \<and>
        list_all (\<lambda>l. l \<noteq> [] \<and> length l \<le> 63 \<and> list_all label_char l \<and>
          hd l \<noteq> CHR ''-'' \<and> last l \<noteq> CHR ''-'') ls)" (is "_ \<longleftrightarrow> (\<exists>ls. ?good ls)")
proof
  assume a: "is_valid_cname_value v"
  then obtain t where t: "trim_space v = t @ ''.''"
    by (auto simp: is_valid_cname_value_def Let_def has_suffix_iff split: if_splits)
  have "?good (split_on (CHR ''.'') t)"
    using a unfolding is_valid_cname_value_def Let_def t
    by (auto simp: join_split_on list_all_iff split: if_splits)
  then show "\<exists>ls. ?good ls" by blast
next
  assume "\<exists>ls. ?good ls"
  then obtain ls where g: "?good ls" by blast
  then have "\<forall>x \<in> set ls. CHR ''.'' \<notin> set x"
    using label_char_not_dot by (fastforce simp: list_all_iff)
  with g have s: "split_on (CHR ''.'') (join_with ''.'' ls) = ls"
    by (intro split_on_join) auto
  moreover have "join_with ''.'' ls \<noteq> []"
    using g s by (auto simp: list_all_iff)
  ultimately show "is_valid_cname_value v"
    using g by (simp add: is_valid_cname_value_def list_all_iff)
qed

subsection \<open>Validation: no two records of a zone collide\<close>

text \<open>Two records collide when they stand at the same name and one is a CNAME, or have the same type
  and value; types and values are compared the way the code compares them.\<close>

definition same_name :: "dns_record \<Rightarrow> dns_record \<Rightarrow> bool" where
  "same_name r e = equal_fold (trim_space (r_name e)) (trim_space (r_name r))"

definition same_entry :: "dns_record \<Rightarrow> dns_record \<Rightarrow> bool" where
  "same_entry r e \<longleftrightarrow> norm_type (r_type e) = norm_type (r_type r) \<and>
     equal_fold (trim_space (r_value e)) (trim_space (r_value r))"

definition is_cname :: "dns_record \<Rightarrow> bool" where
  "is_cname r \<longleftrightarrow> norm_type (r_type r) = ''CNAME''"

definition collides :: "dns_record \<Rightarrow> dns_record \<Rightarrow> bool" where
  "collides r e \<longleftrightarrow> same_name r e \<and> (same_entry r e \<or> is_cname r \<or> is_cname e)"

definition zone_rows :: "db \<Rightarrow> string \<Rightarrow> dns_record list" where
  "zone_rows d zid = filter (\<lambda>r. r_zone_id r = zid) (db_records d)"

definition collision_free :: "dns_record list \<Rightarrow> bool" where
  "collision_free rs \<longleftrightarrow> (\<forall>r \<in> set rs. \<forall>e \<in> set rs. r_id r \<noteq> r_id e \<longrightarrow> \<not> collides r e)"

lemma collides_sym: "collides r e \<longleftrightarrow> collides e r"
  by (auto simp: collides_def same_name_def same_entry_def equal_fold_sym)

lemma create_conflict_None:
  "create_conflict (trim_space (r_name r)) (norm_type (r_type r)) (trim_space (r_value r)) es = None \<longleftrightarrow>
     (\<forall>e \<in> set es. \<not> collides r e)"
  by (induction es) (auto simp: collides_def same_name_def same_entry_def is_cname_def Let_def)

lemma update_conflict_None:
  "update_conflict old_id (trim_space (r_name r)) (norm_type (r_type r)) (trim_space (r_value r)) es = None \<longleftrightarrow>
     (\<forall>e \<in> set es. r_id e \<noteq> old_id \<and> same_name r e \<longrightarrow>
        \<not> same_entry r e \<and> is_cname r = is_cname e)"
  by (induction es) (auto simp: same_name_def same_entry_def is_cname_def Let_def)

lemma list_dns_records_set:
  "list_dns_records_by_zone d zid = Inr rs \<Longrightarrow> set rs = set (zone_rows d zid)"
  by (auto simp: list_dns_records_by_zone_def zone_rows_def split: if_splits)

lemma collision_free_subset: "collision_free rs \<Longrightarrow> set es \<subseteq> set rs \<Longrightarrow> collision_free es"
  by (auto simp: collision_free_def)

lemma collision_free_add:
  assumes "collision_free rs" and "\<forall>e \<in> set rs. r_id e \<noteq> r_id r \<longrightarrow> \<not> collides r e"
    and "set es \<subseteq> insert r (set rs)"
  shows "collision_free es"
  using assms collides_sym unfolding collision_free_def by (metis insert_iff subsetD)

text \<open>The rows of a zone after an upsert: the written record and some of the rows it had.\<close>

lemma upsert_dns_record_rows:
  assumes "upsert_dns_record now r d = (r', Inr d')"
  shows "set (zone_rows d' zid) \<subseteq> insert r' {e \<in> set (zone_rows d zid). r_id e \<noteq> r_id r}"
    and "r' = written_record now (default_ttl r)"
  using assms
  by (auto simp: upsert_dns_record_def zone_rows_def Let_def upsert_row_def update_rows_def
      default_ttl_def written_record_def list_ex_iff split: if_splits)

lemma collides_written [simp]:
  "collides (written_record now r) e = collides r e" "collides (default_ttl r) e = collides r e"
  "collides (r\<lparr>r_id := i\<rparr>) e = collides r e"
  by (simp_all add: collides_def same_name_def same_entry_def is_cname_def written_record_def default_ttl_def)

lemma written_record_id [simp]: "r_id (written_record now r) = r_id r" "r_id (default_ttl r) = r_id r"
  by (simp_all add: written_record_def default_ttl_def)

lemma validate_create_None:
  "validate_dns_record_create d r = None \<longleftrightarrow>
     (\<exists>zone records. get_dns_zone d (r_zone_id r) = Inr zone \<and> \<not> z_reverse zone \<and>
        list_dns_records_by_zone d (r_zone_id r) = Inr records \<and>
        (\<forall>e \<in> set records. \<not> collides r e) \<and>
        (norm_type (r_type r) = ''CNAME'' \<longrightarrow> is_valid_cname_value (trim_space (r_value r))) \<and>
        (norm_type (r_type r) = ''A'' \<longrightarrow> is_valid_a_record_value (trim_space (r_value r))))"
  by (auto simp: validate_dns_record_create_def Let_def create_conflict_None [symmetric]
      split: sum.splits option.splits if_splits)

text \<open>Creating a record that the validation accepts keeps the zone free of collisions: afterwards no
  name has two equal entries, and a CNAME stands alone at its name.\<close>

theorem validated_create_keeps_zone:
  assumes "collision_free (zone_rows d (r_zone_id r))"
    and "validate_dns_record_create d r = None"
    and "upsert_dns_record now (r\<lparr>r_id := i\<rparr>) d = (r', Inr d')"
  shows "collision_free (zone_rows d' (r_zone_id r))"
proof (rule collision_free_add [OF assms(1)])
  show "set (zone_rows d' (r_zone_id r)) \<subseteq> insert r' (set (zone_rows d (r_zone_id r)))"
    using upsert_dns_record_rows [OF assms(3)] by auto
  show "\<forall>e \<in> set (zone_rows d (r_zone_id r)). r_id e \<noteq> r_id r' \<longrightarrow> \<not> collides r' e"
    using assms(2) upsert_dns_record_rows(2) [OF assms(3)]
    by (auto simp: validate_create_None dest!: list_dns_records_set)
qed

lemma validate_update_None:
  assumes "r_zone_id new = r_zone_id old" "r_name new = r_name old" "r_type new = r_type old"
    and "validate_dns_record_update d old new = None"
    and "\<not> equal_fold (trim_space (r_value old)) (trim_space (r_value new))"
  shows "\<exists>records. list_dns_records_by_zone d (r_zone_id old) = Inr records \<and>
      (\<forall>e \<in> set records. r_id e \<noteq> r_id old \<and> same_name new e \<longrightarrow>
         \<not> same_entry new e \<and> is_cname new = is_cname e)"
  using assms update_conflict_None [of "r_id old" new]
  by (auto simp: validate_dns_record_update_def Let_def split: sum.splits if_splits)

text \<open>Editing the value of a record that is stored in a collision free zone keeps the zone collision
  free: the validation compares the new value with every other record, the old row is deleted and
  the new one written.\<close>

theorem validated_update_keeps_zone:
  assumes "collision_free (zone_rows d (r_zone_id old))" and "old \<in> set (db_records d)"
    and "r_zone_id new = r_zone_id old" "r_name new = r_name old" "r_type new = r_type old"
    and "validate_dns_record_update d old new = None"
    and "\<not> equal_fold (trim_space (r_value old)) (trim_space (r_value new))"
    and "delete_dns_record (r_id old) d = Inr d1"
    and "upsert_dns_record now new d1 = (r', Inr d')"
  shows "collision_free (zone_rows d' (r_zone_id old))"
proof (rule collision_free_add)
  let ?z = "r_zone_id old"
  have del: "set (zone_rows d1 ?z) = {e \<in> set (zone_rows d ?z). r_id e \<noteq> r_id old}"
    using assms(8) by (auto simp: delete_dns_record_def zone_rows_def split: if_splits)
  show "collision_free (zone_rows d1 ?z)"
    using assms(1) by (rule collision_free_subset) (auto simp: del)
  show "set (zone_rows d' ?z) \<subseteq> insert r' (set (zone_rows d1 ?z))"
    using upsert_dns_record_rows [OF assms(9)] by auto
  obtain records where rs: "list_dns_records_by_zone d ?z = Inr records"
      "\<forall>e \<in> set records. r_id e \<noteq> r_id old \<and> same_name new e \<longrightarrow>
         \<not> same_entry new e \<and> is_cname new = is_cname e"
    using validate_update_None [OF assms(3-7)] by blast
  have "\<not> collides new e" if e: "e \<in> set (zone_rows d ?z)" "r_id e \<noteq> r_id old" for e
  proof
    assume c: "collides new e"
    with e rs have "is_cname new" "is_cname e" "same_name new e"
      by (auto simp: collides_def list_dns_records_set)
    then have "collides old e" by (simp add: collides_def same_name_def assms(4))
    with assms(1,2) e show False by (auto simp: collision_free_def zone_rows_def)
  qed
  then show "\<forall>e \<in> set (zone_rows d1 ?z). r_id e \<noteq> r_id r' \<longrightarrow> \<not> collides r' e"
    using upsert_dns_record_rows(2) [OF assms(9)] by (auto simp: del)
qed

subsection \<open>PTR records of an address\<close>

lemma dotted4: "dotted [a, b, c, e] = itoa a @ ''.'' @ itoa b @ ''.'' @ itoa c @ ''.'' @ itoa e"
  by (simp add: dotted_def)

lemma itoa_no_dot: "CHR ''.'' \<notin> set (itoa n)"
  using itoa_digits [of "CHR ''.''" n] by auto

lemma lower_char_digit: "is_digit c \<Longrightarrow> lower_char c = c"
  by (auto simp: is_digit_def lower_char_def)

lemma to_lower_itoa [simp]: "to_lower (itoa n) = itoa n"
  unfolding to_lower_def using itoa_digits [of _ n] by (auto intro: map_idI simp: lower_char_digit)

lemma graph_ends_itoa: "graph_ends (itoa a @ s @ ''.'')"
proof -
  have "is_digit (hd (itoa a))" by (rule itoa_digits [of _ a]) (simp)
  then show ?thesis
    by (auto simp: graph_ends_def is_digit_def char_code_def hd_append)
qed

lemma itoa_0: "itoa 0 = ''0''"
  by code_simp

lemma network_octets_itoa:
  "\<forall>n \<in> set ns. n < 256 \<Longrightarrow> network_octets (map itoa ns) = Some ns"
proof (induction ns)
  case (Cons n ns)
  have "''0.0.0.'' @ itoa n = dotted [0, 0, 0, n]"
    by (simp add: dotted4 itoa_0)
  with Cons parse_ip_dotted [of "[0, 0, 0, n]"] show ?case
    by (simp)
qed simp

lemma reverse_zone_lower: "to_lower (itoa c @ ''.'' @ itoa b @ ''.'' @ itoa a @ ''.in-addr.arpa'')
    = itoa c @ ''.'' @ itoa b @ ''.'' @ itoa a @ ''.in-addr.arpa''"
proof -
  have "lower_char (CHR ''.'') = CHR ''.''" by code_simp
  moreover have "to_lower (x # s) = lower_char x # to_lower s" for x s by (simp add: to_lower_def)
  moreover have "to_lower ''in-addr.arpa'' = ''in-addr.arpa''" by code_simp
  ultimately show ?thesis by (simp add: to_lower_append)
qed

lemma reverse_zone_trim: "trim_space (itoa c @ ''.'' @ itoa b @ ''.'' @ itoa a @ ''.in-addr.arpa'')
    = itoa c @ ''.'' @ itoa b @ ''.'' @ itoa a @ ''.in-addr.arpa''"
  using itoa_digits [of "hd (itoa c)" c]
  by (intro trim_space_graph) (auto simp: graph_ends_def is_digit_def char_code_def hd_append)

lemma norm_type_PTR: "norm_type ''PTR'' = ''PTR''"
proof -
  have "trim_space ''PTR'' = ''PTR''"
    by (rule trim_space_graph) (simp add: graph_ends_def char_code_def)
  moreover have "to_upper ''PTR'' = ''PTR''" by code_simp
  ultimately show ?thesis by (simp add: norm_type_def)
qed

lemma agent_name_of_octets:
  assumes "\<forall>n \<in> {a, b, c, e}. n < 256"
  shows "dns_record_agent_name (itoa c @ ''.'' @ itoa b @ ''.'' @ itoa a @ ''.in-addr.arpa'') ''PTR''
      (dotted [a, b, c, e] @ ''.'') = itoa e"
proof -
  let ?net = "itoa c @ ''.'' @ itoa b @ ''.'' @ itoa a"
  have trim1: "trim_space (dotted [a, b, c, e] @ ''.'') = dotted [a, b, c, e] @ ''.''"
    using graph_ends_itoa [of a "''.'' @ itoa b @ ''.'' @ itoa c @ ''.'' @ itoa e"]
    by (simp add: dotted4 trim_space_graph)
  have trim2: "trim_space (?net @ ''.in-addr.arpa'') = ?net @ ''.in-addr.arpa''"
    using reverse_zone_trim [of c b a] by simp
  have no_dot: "trim_suffix (?net @ ''.in-addr.arpa'') ''.'' = ?net @ ''.in-addr.arpa''"
    by (auto simp: trim_suffix_def has_suffix_iff dest: arg_cong [where f = last])
  have split: "split_on (CHR ''.'') ?net = [itoa c, itoa b, itoa a]"
    using split_on_join [of "[itoa c, itoa b, itoa a]" "CHR ''.''"] by (simp add: itoa_no_dot)
  have oct: "network_octets [itoa a, itoa b, itoa c] = Some [a, b, c]"
    using network_octets_itoa [of "[a, b, c]"] assms by simp
  have sfx: "has_suffix (?net @ ''.in-addr.arpa'') ''.in-addr.arpa''"
      "trim_suffix (?net @ ''.in-addr.arpa'') ''.in-addr.arpa'' = ?net"
    using has_suffix_append trim_suffix_append by blast+
  have ip: "parse_ip_to4 (trim_suffix (dotted [a, b, c, e] @ ''.'') ''.'') = Some [a, b, c, e]"
    using assms parse_ip_dotted [of "[a, b, c, e]"] by simp
  show ?thesis
    unfolding dns_record_agent_name_def Let_def
    using trim1 trim2 no_dot split oct sfx ip reverse_zone_lower [of c b a] by simp
qed

lemma octets_of_length4:
  assumes "length gs = 4"
  shows "\<exists>a b c e. gs = [a, b, c, e]"
  using assms by (auto simp: numeral_eq_Suc length_Suc_conv)

text \<open>For an A record with a plain IPv4 address the PTR record the router derives lies in the reverse
  zone of the address, carries a fully qualified target ending in a dot and a positive TTL, its
  identifiers decode to server, reverse zone and record, and its name is sent to the agent as the
  last octet of the address.\<close>

theorem ptr_record_of_a_record:
  assumes "is_valid_a_record_value (r_value r)" and "CHR '':'' \<notin> set (trim_space (r_value r))"
  shows "\<exists>a b c e p. trim_space (r_value r) = dotted [a, b, c, e] \<and>
     (let rz = itoa c @ ''.'' @ itoa b @ ''.'' @ itoa a @ ''.in-addr.arpa'' in
      ptr_record_for_a_record sid zn r = Some p \<and>
      decode_dns_zone_id (r_zone_id p) = Some (sid, rz) \<and>
      decode_dns_record_id (r_id p) = Some (sid, rz, ''PTR'', r_name p, r_value p) \<and>
      dns_record_agent_name rz ''PTR'' (r_name p) = itoa e \<and>
      has_suffix (r_value p) ''.'' \<and> 0 < r_ttl p \<and> dns_record_manageable_in_zone rz (r_type p))"
proof -
  from assms(1) obtain gs where gs: "parse_ip_to4 (trim_space (r_value r)) = Some gs"
    by (auto simp: is_valid_a_record_value_def)
  from parse_ip_no_colon [OF this assms(2)] obtain a b c e where
    o: "gs = [a, b, c, e]" "trim_space (r_value r) = dotted [a, b, c, e]" "\<forall>n \<in> {a, b, c, e}. n < 256"
    using octets_of_length4 [of gs] by auto
  let ?rz = "itoa c @ ''.'' @ itoa b @ ''.'' @ itoa a @ ''.in-addr.arpa''"
  let ?v = "ptr_record_fqdn zn (r_name r)"
  let ?p = "default_ttl (empty_record\<lparr>r_id := dns_record_id sid ?rz ''PTR'' (dotted [a, b, c, e] @ ''.'') ?v,
                r_zone_id := dns_zone_id sid ?rz, r_name := dotted [a, b, c, e] @ ''.'', r_type := ''PTR'',
                r_value := ?v, r_ttl := r_ttl r\<rparr>)"
  have p: "ptr_record_for_a_record sid zn r = Some ?p"
    unfolding ptr_record_for_a_record_def ipv4_reverse_zone_def Let_def using gs o by simp
  have rev: "dns_record_manageable_in_zone ?rz ''PTR''"
  proof -
    have "trim_char (CHR ''.'') ?rz = ?rz"
      using itoa_digits [of "hd (itoa c)" c] by (intro trim_char_id) (auto simp: hd_append)
    then have "dns_zone_name_is_reverse ?rz"
      unfolding dns_zone_name_is_reverse_def reverse_zone_trim
      using reverse_zone_lower [of c b a] has_suffix_append [of "itoa c @ ''.'' @ itoa b @ ''.'' @ itoa a"]
      by simp
    then show ?thesis by (simp add: dns_record_manageable_in_zone_def norm_type_PTR)
  qed
  have "has_suffix ?v ''.''" by (simp add: ptr_record_fqdn_def Let_def)
  then show ?thesis
    using p o(2) agent_name_of_octets [OF o(3)] rev
    by (intro exI [of _ a] exI [of _ b] exI [of _ c] exI [of _ e] exI [of _ ?p])
       (simp add: Let_def default_ttl_def)
qed

lemma annotate_record_keeps:
  "r_type (annotate_record sid zn ks r) = r_type r" "r_zone_id (annotate_record sid zn ks r) = r_zone_id r"
  "r_name (annotate_record sid zn ks r) = r_name r" "r_value (annotate_record sid zn ks r) = r_value r"
  by (auto simp: annotate_record_def split: option.splits)

lemma ptr_keys_iff:
  "k \<in> set (ptr_keys rs) \<longleftrightarrow> list_ex (\<lambda>x. equal_fold (trim_space (r_type x)) ''PTR'' \<and>
     dns_ptr_match_key (r_zone_id x) (r_name x) (r_value x) = k) rs"
  by (auto simp: ptr_keys_def list_ex_iff)

lemma ptr_keys_annotated: "ptr_keys (map (annotate_record sid zn ks) rs) = ptr_keys rs"
  by (simp add: ptr_keys_def filter_map comp_def annotate_record_keeps)

text \<open>The annotation of the sync service keeps every record in its place and decides the PTR flag of
  exactly the A records with an IPv4 value: set when a PTR record of the list has the zone, name and
  value of the expected one up to letter case and outer white space, cleared otherwise. A second run
  changes nothing.\<close>

theorem annotate_dns_ptr_records_correct:
  "annotate_dns_ptr_records sid zn rs = map (\<lambda>r.
     case dns_ptr_record_for_a_record sid zn r of
       None \<Rightarrow> r
     | Some p \<Rightarrow>
         if equal_fold (trim_space (r_type r)) ''A'' then
           r\<lparr>r_create_ptr := list_ex (\<lambda>x. equal_fold (trim_space (r_type x)) ''PTR'' \<and>
               dns_ptr_match_key (r_zone_id x) (r_name x) (r_value x) =
               dns_ptr_match_key (r_zone_id p) (r_name p) (r_value p)) rs\<rparr>
         else r) rs
   \<and> annotate_dns_ptr_records sid zn (annotate_dns_ptr_records sid zn rs) = annotate_dns_ptr_records sid zn rs"
proof
  show "annotate_dns_ptr_records sid zn (annotate_dns_ptr_records sid zn rs) = annotate_dns_ptr_records sid zn rs"
    by (auto simp: annotate_dns_ptr_records_def ptr_keys_annotated annotate_record_def
        dns_ptr_record_for_a_record_def Let_def split: option.splits)
qed (auto simp: annotate_dns_ptr_records_def annotate_record_def ptr_keys_iff split: option.splits)

subsection \<open>A concrete zone\<close>

definition sample_zone :: dns_zone where
  "sample_zone = \<lparr>z_id = ''z'', z_name = ''corp.test'', z_type = ''Primary'', z_reverse = False,
     z_dynamic_update = ''None'', z_server_id = ''s'', z_last_synced_at = None, z_sync_status = ''synced'',
     z_last_error = []\<rparr>"

definition sample_record :: "string \<Rightarrow> string \<Rightarrow> string \<Rightarrow> dns_record" where
  "sample_record name rtype v = empty_record\<lparr>r_id := name, r_zone_id := ''z'', r_name := name,
     r_type := rtype, r_value := v, r_ttl := 600\<rparr>"

definition sample_db :: db where
  "sample_db = empty_db\<lparr>db_zones := [sample_zone],
     db_records := [sample_record ''mail'' ''A'' ''10.0.0.2'', sample_record ''www'' ''CNAME'' ''mail.test.'']\<rparr>"

lemma literal_trim:
  "trim_space ''A'' = ''A''" "trim_space ''CNAME'' = ''CNAME''" "trim_space ''mail'' = ''mail''"
  "trim_space ''www'' = ''www''" "trim_space ''api'' = ''api''" "trim_space ''10.0.0.2'' = ''10.0.0.2''"
  "trim_space ''10.0.0.7'' = ''10.0.0.7''" "trim_space ''mail.test.'' = ''mail.test.''"
  "trim_space ''api.test.'' = ''api.test.''" "trim_space ''MAIL.test.'' = ''MAIL.test.''"
  by (rule trim_space_graph, simp add: graph_ends_def char_code_def)+

lemma literal_type: "norm_type ''A'' = ''A''" "norm_type ''CNAME'' = ''CNAME''"
proof -
  have "to_upper ''A'' = ''A''" "to_upper ''CNAME'' = ''CNAME''" by code_simp+
  then show "norm_type ''A'' = ''A''" "norm_type ''CNAME'' = ''CNAME''"
    by (simp_all add: norm_type_def literal_trim)
qed

lemma literal_fold:
  "\<not> equal_fold ''mail'' ''api''" "\<not> equal_fold ''www'' ''api''" "\<not> equal_fold ''api'' ''mail''"
  "\<not> equal_fold ''mail'' ''www''" "\<not> equal_fold ''www'' ''mail''"
  "\<not> equal_fold ''mail.test.'' ''api.test.''" "equal_fold ''mail.test.'' ''MAIL.test.''"
  by code_simp+

lemma literal_ip: "parse_ip_to4 ''10.0.0.7'' = Some [10, 0, 0, 7]"
proof -
  have "dotted [10, 0, 0, 7] = ''10.0.0.7''" by code_simp
  then show ?thesis using parse_ip_dotted [of "[10, 0, 0, 7]"] by simp
qed

lemmas sample_simps = sample_db_def sample_record_def sample_zone_def empty_record_def empty_db_def

lemma sample_collision_free: "collision_free (zone_rows sample_db ''z'')"
  by (simp add: collision_free_def zone_rows_def sample_simps collides_def same_name_def literal_trim literal_fold)

theorem validated_create_keeps_zone_witness:
  "\<exists>r' d'. upsert_dns_record 5 ((sample_record ''api'' ''A'' ''10.0.0.7'')\<lparr>r_id := ''i''\<rparr>) sample_db = (r', Inr d')
     \<and> collision_free (zone_rows d' ''z'')"
proof -
  let ?r = "sample_record ''api'' ''A'' ''10.0.0.7''"
  have zid: "r_zone_id ?r = ''z''" by (simp add: sample_simps)
  have v: "validate_dns_record_create sample_db ?r = None"
    by (simp add: validate_dns_record_create_def get_dns_zone_def list_dns_records_by_zone_def sample_simps
        find_row_def insort_key_def literal_trim literal_type literal_fold is_valid_a_record_value_def literal_ip Let_def
        record_order_def)
  obtain r' d' where u: "upsert_dns_record 5 (?r\<lparr>r_id := ''i''\<rparr>) sample_db = (r', Inr d')"
    by (simp add: upsert_dns_record_def default_ttl_def Let_def sample_simps)
  show ?thesis
    using validated_create_keeps_zone [OF _ v u] sample_collision_free u zid by auto
qed

theorem validated_update_keeps_zone_witness:
  "\<exists>d1 r' d'. delete_dns_record ''www'' sample_db = Inr d1 \<and>
     upsert_dns_record 5 (sample_record ''www'' ''CNAME'' ''api.test.'') d1 = (r', Inr d') \<and>
     collision_free (zone_rows d' ''z'')"
proof -
  let ?old = "sample_record ''www'' ''CNAME'' ''mail.test.''"
  let ?new = "sample_record ''www'' ''CNAME'' ''api.test.''"
  have zid: "r_zone_id ?old = ''z''" "r_id ?old = ''www''" by (simp_all add: sample_simps)
  have same: "r_zone_id ?new = r_zone_id ?old" "r_name ?new = r_name ?old" "r_type ?new = r_type ?old"
    "?old \<in> set (db_records sample_db)" by (simp_all add: sample_simps)
  have cname: "is_valid_cname_value ''api.test.''"
    unfolding is_valid_cname_value_def literal_trim Let_def by code_simp
  have v: "validate_dns_record_update sample_db ?old ?new = None"
    by (simp add: validate_dns_record_update_def list_dns_records_by_zone_def sample_simps
        literal_trim literal_type literal_fold cname Let_def record_order_def)
  have ne: "\<not> equal_fold (trim_space (r_value ?old)) (trim_space (r_value ?new))"
    by (simp add: sample_simps literal_trim literal_fold)
  obtain d1 where d: "delete_dns_record ''www'' sample_db = Inr d1" "db_zones d1 = [sample_zone]"
      "db_fault d1 = (\<lambda>_ _. False)"
    by (simp add: delete_dns_record_def sample_simps)
  then obtain r' d' where u: "upsert_dns_record 5 ?new d1 = (r', Inr d')"
    by (simp add: upsert_dns_record_def default_ttl_def Let_def sample_simps)
  show ?thesis
    using validated_update_keeps_zone [OF _ same(4,1-3) v ne _ u] d u sample_collision_free zid by auto
qed

theorem ptr_record_of_a_record_witness:
  "\<exists>p. ptr_record_for_a_record ''s'' ''test'' (sample_record ''api'' ''A'' ''10.0.0.7'') = Some p \<and> 0 < r_ttl p"
proof -
  have "is_valid_a_record_value (r_value (sample_record ''api'' ''A'' ''10.0.0.7''))"
       "CHR '':'' \<notin> set (trim_space (r_value (sample_record ''api'' ''A'' ''10.0.0.7'')))"
    by (simp_all add: sample_record_def literal_trim literal_ip is_valid_a_record_value_def)
  from ptr_record_of_a_record [OF this, of "''s''" "''test''"] show ?thesis
    unfolding Let_def by blast
qed

end
