(* ===== verification/ZL_Agent.thy ===== *)
theory ZL_Agent
  imports ZL_Domain
begin

text \<open>
  The agent client, \<open>internal/agent/client.go\<close>, with the URL escaping of Go's \<open>net/url\<close> that its
  callers use. The network and the agents behind it are a parameter \<open>net\<close>: a function from the
  request and the state of the world to the reply and the next state. It is arbitrary, so a theorem
  holds for every behaviour of the agents. A reply carries its envelope already parsed (\<open>None\<close> when
  the body is no JSON envelope); the \<open>data\<close> of an envelope is one of the shapes the callers decode.
\<close>

subsection \<open>Escaping\<close>

definition hex_upper :: "nat \<Rightarrow> char" where
  "hex_upper n = (if n < 10 then char_of (48 + n) else char_of (55 + n))"

definition percent :: "char \<Rightarrow> string" where
  "percent c = [CHR ''%'', hex_upper (char_code c div 16), hex_upper (char_code c mod 16)]"

definition unreserved :: "char \<Rightarrow> bool" where
  "unreserved c =
     (let n = char_code c in
      (97 \<le> n \<and> n \<le> 122) \<or> (65 \<le> n \<and> n \<le> 90) \<or> (48 \<le> n \<and> n \<le> 57) \<or> c \<in> set ''-_.~'')"

definition path_escape :: "string \<Rightarrow> string" where
  "path_escape s = concat (map (\<lambda>c. if unreserved c \<or> c \<in> set ''$&+=:@'' then [c] else percent c) s)"

definition query_escape :: "string \<Rightarrow> string" where
  "query_escape s =
     concat (map (\<lambda>c. if c = CHR '' '' then ''+'' else if unreserved c then [c] else percent c) s)"

lemma path_escape_no_slash: "CHR ''/'' \<notin> set (path_escape s)"
proof -
  have "CHR ''/'' \<noteq> hex_upper n" if "n < 16" for n
    using that by (auto simp: hex_upper_def char_code_inject [symmetric] char_code_char_of char_code_def [of "CHR ''/''"])
  moreover have "char_code c div 16 < 16" "char_code c mod 16 < 16" for c
    using char_code_bound [of c] by (simp_all add: less_mult_imp_div_less)
  ultimately show ?thesis
    by (auto simp: path_escape_def percent_def unreserved_def char_code_def Let_def split: if_splits)
qed

subsection \<open>Requests and replies\<close>

datatype agent_body =
    NoBody
  | ZoneBody string
  | RecordBody string dns_record
  | UpdateBody string dns_record dns_record
  | PlainRecord dns_record
  | ZoneCreate dns_zone
  | ScopeBody dhcp_scope
  | ScopeUpdate dhcp_scope string string "string list"
  | ExclusionBody dhcp_exclusion
  | ExclusionDelete string string string
  | LeaseRelease string string
  | ReservationBody dhcp_reservation
  | ReservationUpdate dhcp_reservation dhcp_reservation
  | ReservationDelete string string string

datatype http_method = MGet | MPost | MPut | MDelete

record agent_request =
  q_method :: http_method
  q_url :: string
  q_api_key :: "string option"
  q_tls_insecure :: bool
  q_body :: agent_body

text \<open>The payloads: an absent \<open>data\<close> leaves the destination as it is.\<close>

datatype agent_data =
    NoData
  | ObjectData
  | ListData
  | RecordsData "dns_record list"
  | ZonesData "dns_zone list"
  | OutcomeData bool "string list"
  | HealthData string
  | ScopeData dhcp_scope
  | ExclusionData dhcp_exclusion
  | ReservationData dhcp_reservation
  | DetailData "dhcp_exclusion list" "dhcp_lease list" "dhcp_reservation list"
  | ScopesData "dhcp_scope list"
  | ExclusionsData "dhcp_exclusion list"
  | LeasesData "dhcp_lease list"
  | ReservationsData "dhcp_reservation list"

record envelope =
  ev_success :: bool
  ev_data :: agent_data
  ev_error :: "(string \<times> string) option"

datatype transport_error =
    Cancelled
  | DeadlineExceeded
  | NetTimeout
  | UnknownAuthority
  | OtherFailure string

datatype http_reply = NoReply transport_error | Reply int "envelope option"

datatype agent_error =
    StatusError int string string
  | TransportFailure transport_error
  | DecodeFailure
  | UnsupportedRole

type_synonym 'w network = "agent_request \<Rightarrow> 'w \<Rightarrow> http_reply \<times> 'w"

definition trim_right_slash :: "string \<Rightarrow> string" where
  "trim_right_slash s = rev (dropWhile (\<lambda>c. c = CHR ''/'') (rev s))"

definition agent_do ::
    "'w network \<Rightarrow> http_method \<Rightarrow> server \<Rightarrow> string \<Rightarrow> agent_body \<Rightarrow> 'w \<Rightarrow> (agent_error + agent_data) \<times> 'w" where
  "agent_do net m s path body w =
     (let q = \<lparr>q_method = m, q_url = trim_right_slash (sv_agent_url s) @ path,
               q_api_key = (if trim_space (sv_api_key s) \<noteq> [] then Some (sv_api_key s) else None),
               q_tls_insecure = sv_tls_insecure s, q_body = body\<rparr>
      in case net q w of
           (NoReply e, w') \<Rightarrow> (Inl (TransportFailure e), w')
         | (Reply code None, w') \<Rightarrow> (Inl DecodeFailure, w')
         | (Reply code (Some env), w') \<Rightarrow>
             (if code < 200 \<or> 300 \<le> code \<or> \<not> ev_success env then
                (case ev_error env of
                   Some (c, msg) \<Rightarrow> (Inl (StatusError code c msg), w')
                 | None \<Rightarrow> (Inl (StatusError code [] []), w'))
              else (Inr (ev_data env), w')))"

text \<open>The shapes callers unmarshal into.\<close>

fun object_data :: "agent_data \<Rightarrow> bool" where
  "object_data ObjectData = True"
| "object_data (OutcomeData _ _) = True"
| "object_data (HealthData _) = True"
| "object_data (ScopeData _) = True"
| "object_data (ExclusionData _) = True"
| "object_data (ReservationData _) = True"
| "object_data (DetailData _ _ _) = True"
| "object_data _ = False"

definition as_object :: "agent_data \<Rightarrow> agent_error + unit" where
  "as_object v = (if v = NoData \<or> object_data v then Inr () else Inl DecodeFailure)"

definition as_list :: "agent_data \<Rightarrow> agent_error + unit" where
  "as_list v = (if v = NoData \<or> \<not> object_data v then Inr () else Inl DecodeFailure)"

definition as_records :: "agent_data \<Rightarrow> agent_error + dns_record list" where
  "as_records v = (case v of NoData \<Rightarrow> Inr [] | RecordsData rs \<Rightarrow> Inr rs | _ \<Rightarrow> Inl DecodeFailure)"

definition as_zones :: "agent_data \<Rightarrow> agent_error + dns_zone list" where
  "as_zones v = (case v of NoData \<Rightarrow> Inr [] | ZonesData zs \<Rightarrow> Inr zs | _ \<Rightarrow> Inl DecodeFailure)"

text \<open>What the synchronisation of DHCP reads; \<open>as_mode\<close> is the \<open>mode\<close> of a health answer.\<close>

definition as_mode :: "agent_data \<Rightarrow> agent_error + string" where
  "as_mode v = (case v of HealthData m \<Rightarrow> Inr m | _ \<Rightarrow> if v = NoData \<or> object_data v then Inr [] else Inl DecodeFailure)"

definition as_scope :: "dhcp_scope \<Rightarrow> agent_data \<Rightarrow> agent_error + dhcp_scope" where
  "as_scope zero v = (case v of ScopeData sc \<Rightarrow> Inr sc
     | _ \<Rightarrow> if v = NoData \<or> object_data v then Inr zero else Inl DecodeFailure)"

definition as_exclusion :: "dhcp_exclusion \<Rightarrow> agent_data \<Rightarrow> agent_error + dhcp_exclusion" where
  "as_exclusion zero v = (case v of ExclusionData e \<Rightarrow> Inr e
     | _ \<Rightarrow> if v = NoData \<or> object_data v then Inr zero else Inl DecodeFailure)"

definition as_reservation :: "dhcp_reservation \<Rightarrow> agent_data \<Rightarrow> agent_error + dhcp_reservation" where
  "as_reservation zero v = (case v of ReservationData r \<Rightarrow> Inr r
     | _ \<Rightarrow> if v = NoData \<or> object_data v then Inr zero else Inl DecodeFailure)"

definition as_details ::
    "agent_data \<Rightarrow> agent_error + (dhcp_exclusion list \<times> dhcp_lease list \<times> dhcp_reservation list)" where
  "as_details v = (case v of DetailData es ls rs \<Rightarrow> Inr (es, ls, rs)
     | _ \<Rightarrow> if v = NoData \<or> object_data v then Inr ([], [], []) else Inl DecodeFailure)"

definition as_scopes :: "agent_data \<Rightarrow> agent_error + dhcp_scope list" where
  "as_scopes v = (case v of NoData \<Rightarrow> Inr [] | ScopesData xs \<Rightarrow> Inr xs | _ \<Rightarrow> Inl DecodeFailure)"

definition as_exclusions :: "agent_data \<Rightarrow> agent_error + dhcp_exclusion list" where
  "as_exclusions v = (case v of NoData \<Rightarrow> Inr [] | ExclusionsData xs \<Rightarrow> Inr xs | _ \<Rightarrow> Inl DecodeFailure)"

definition as_leases :: "agent_data \<Rightarrow> agent_error + dhcp_lease list" where
  "as_leases v = (case v of NoData \<Rightarrow> Inr [] | LeasesData xs \<Rightarrow> Inr xs | _ \<Rightarrow> Inl DecodeFailure)"

definition as_reservations :: "agent_data \<Rightarrow> agent_error + dhcp_reservation list" where
  "as_reservations v = (case v of NoData \<Rightarrow> Inr [] | ReservationsData xs \<Rightarrow> Inr xs | _ \<Rightarrow> Inl DecodeFailure)"

text \<open>The outcome of a record change: whether it was created and the warnings; an object without
  these fields leaves them zero.\<close>

definition as_outcome :: "agent_data \<Rightarrow> agent_error + string list" where
  "as_outcome v = (case v of OutcomeData _ ws \<Rightarrow> Inr ws
                   | _ \<Rightarrow> if v = NoData \<or> object_data v then Inr [] else Inl DecodeFailure)"

definition agent_call ::
    "'w network \<Rightarrow> http_method \<Rightarrow> server \<Rightarrow> string \<Rightarrow> agent_body \<Rightarrow> (agent_data \<Rightarrow> agent_error + 'a) \<Rightarrow>
     'w \<Rightarrow> (agent_error + 'a) \<times> 'w" where
  "agent_call net m s path body dst w =
     (case agent_do net m s path body w of
        (Inl e, w') \<Rightarrow> (Inl e, w')
      | (Inr v, w') \<Rightarrow> (dst v, w'))"

definition agent_not_found :: "agent_error \<Rightarrow> bool" where
  "agent_not_found e = (case e of StatusError code _ _ \<Rightarrow> code = 404 | _ \<Rightarrow> False)"

subsection \<open>Health and validation of an agent\<close>

definition agent_health :: "'w network \<Rightarrow> server \<Rightarrow> 'w \<Rightarrow> (agent_error + unit) \<times> 'w" where
  "agent_health net s w = agent_call net MGet s ''/health'' NoBody as_object w"

text \<open>\<open>Validate\<close> calls \<open>Health\<close> on the client it already switched to the TLS mode of the server.
  An older DHCP agent has no probe: its 404 counts as success.\<close>

definition agent_validate :: "'w network \<Rightarrow> server \<Rightarrow> string \<Rightarrow> 'w \<Rightarrow> (agent_error + unit) \<times> 'w" where
  "agent_validate net s role w =
     (case agent_health net s w of
        (Inl e, w1) \<Rightarrow> (Inl e, w1)
      | (Inr _, w1) \<Rightarrow>
          (let rl = to_lower (trim_space role) in
           if rl = [] then (Inr (), w1)
           else if rl = ''dns'' then agent_call net MGet s ''/dns/zones'' NoBody as_list w1
           else if rl = ''dhcp'' then
             (case agent_call net MGet s ''/dhcp/probe'' NoBody as_object w1 of
                (Inr _, w2) \<Rightarrow> (Inr (), w2)
              | (Inl e, w2) \<Rightarrow> if agent_not_found e then (Inr (), w2) else (Inl e, w2))
           else (Inl UnsupportedRole, w1)))"

subsection \<open>What the user is told\<close>

datatype agent_advice =
    AdviceNone
  | AdviceUnauthorized
  | AdviceForbidden
  | AdviceNotFound
  | AdviceMessage string
  | AdviceStatus int
  | AdviceCancelled
  | AdviceTimeout
  | AdviceCertificate
  | AdviceRefused
  | AdviceNoHost
  | AdviceProtocol
  | AdviceRole
  | AdviceFailed

definition text_advice :: "string \<Rightarrow> agent_advice" where
  "text_advice text =
     (let m = to_lower text in
      if contains m ''connection refused'' then AdviceRefused
      else if contains m ''no such host'' then AdviceNoHost
      else if contains m ''server gave http response to https client'' then AdviceProtocol
      else if contains m ''context deadline exceeded'' then AdviceTimeout
      else if contains m ''unsupported agent role'' then AdviceRole
      else AdviceFailed)"

definition user_facing_error_message :: "agent_error option \<Rightarrow> agent_advice" where
  "user_facing_error_message err =
     (case err of
        None \<Rightarrow> AdviceNone
      | Some (StatusError code c msg) \<Rightarrow>
          (if code = 401 then AdviceUnauthorized
           else if code = 403 then AdviceForbidden
           else if code = 404 then AdviceNotFound
           else if trim_space msg \<noteq> [] then AdviceMessage (trim_space msg)
           else AdviceStatus code)
      | Some (TransportFailure Cancelled) \<Rightarrow> AdviceCancelled
      | Some (TransportFailure DeadlineExceeded) \<Rightarrow> AdviceTimeout
      | Some (TransportFailure NetTimeout) \<Rightarrow> AdviceTimeout
      | Some (TransportFailure UnknownAuthority) \<Rightarrow> AdviceCertificate
      | Some (TransportFailure (OtherFailure text)) \<Rightarrow> text_advice text
      | Some DecodeFailure \<Rightarrow> AdviceFailed
      | Some UnsupportedRole \<Rightarrow> AdviceRole)"

text \<open>An agent passes validation exactly when its health endpoint answers and then the probe of its
  role does: the zone list for DNS, and for DHCP a probe that answers or is missing (404). With no role
  given the health endpoint decides alone, and an unknown role is refused.\<close>

theorem agent_validate_accepts:
  "fst (agent_validate net s role w) = Inr () \<longleftrightarrow>
     fst (agent_health net s w) = Inr () \<and>
     (let w1 = snd (agent_health net s w); rl = to_lower (trim_space role) in
      rl = [] \<or>
      (rl = ''dns'' \<and> fst (agent_call net MGet s ''/dns/zones'' NoBody as_list w1) = Inr ()) \<or>
      (rl = ''dhcp'' \<and> (case fst (agent_call net MGet s ''/dhcp/probe'' NoBody as_object w1) of
                          Inr _ \<Rightarrow> True | Inl e \<Rightarrow> agent_not_found e)))"
  by (auto simp: agent_validate_def Let_def split: prod.splits sum.splits)

end
