(* ===== verification/ZL_Op_Refresh.thy ===== *)
theory ZL_Op_Refresh
  imports ZL_Store
begin

text \<open>
  The operation refresh scheduler, \<open>api/router/operation_refresh.go\<close>: after the last operation on a
  zone or scope ends, a timer triggers one refresh of it. The map of targets and the timers are the
  record \<open>scheduler\<close>; its mutex makes each operation one step. A timer is either armed
  (\<open>sd_pending\<close>) or has expired, its callback waiting for the mutex (\<open>sd_fired\<close>): \<open>Timer.Stop\<close>
  only removes an armed one. The delay a timer is armed with is kept with it; when it expires is
  left to the step relation.
\<close>

subsection \<open>Targets\<close>

datatype op_kind = DnsZoneKind | DhcpScopeKind | OtherKind string

record op_target =
  ot_kind :: op_kind
  ot_server_id :: string
  ot_zone_id :: string
  ot_zone_name :: string
  ot_scope_id :: string
  ot_scope_external_id :: string
  ot_scope_name :: string

definition target_key :: "op_target \<Rightarrow> string" where
  "target_key t =
     (case ot_kind t of
        DnsZoneKind \<Rightarrow>
          (if ot_server_id t = [] \<or> ot_zone_name t = [] then []
           else ''dns.zone:'' @ ot_server_id t @ '':'' @ ot_zone_name t)
      | DhcpScopeKind \<Rightarrow>
          (if ot_server_id t = [] \<or> ot_scope_external_id t = [] then []
           else ''dhcp.scope:'' @ ot_server_id t @ '':'' @ ot_scope_external_id t)
      | OtherKind _ \<Rightarrow> [])"

definition dns_zone_refresh_target :: "string \<Rightarrow> string \<Rightarrow> string \<Rightarrow> op_target" where
  "dns_zone_refresh_target sid zid zname =
     \<lparr>ot_kind = DnsZoneKind, ot_server_id = sid, ot_zone_id = zid, ot_zone_name = zname,
      ot_scope_id = [], ot_scope_external_id = [], ot_scope_name = []\<rparr>"

definition dhcp_scope_refresh_target :: "string \<Rightarrow> string \<Rightarrow> string \<Rightarrow> string \<Rightarrow> op_target" where
  "dhcp_scope_refresh_target sid scid ext sname =
     \<lparr>ot_kind = DhcpScopeKind, ot_server_id = sid, ot_zone_id = [], ot_zone_name = [],
      ot_scope_id = scid, ot_scope_external_id = ext, ot_scope_name = sname\<rparr>"

subsection \<open>The scheduler\<close>

record op_state =
  os_target :: op_target
  os_active :: nat
  os_dirty :: bool
  os_timer :: "nat option"

record op_timer =
  tm_id :: nat
  tm_key :: string
  tm_target :: op_target
  tm_delay :: gotime

record scheduler =
  sd_targets :: "string \<Rightarrow> op_state option"
  sd_pending :: "op_timer list"
  sd_fired :: "op_timer list"
  sd_next :: nat

definition new_scheduler :: scheduler where
  "new_scheduler = \<lparr>sd_targets = (\<lambda>_. None), sd_pending = [], sd_fired = [], sd_next = 0\<rparr>"

definition stop_timer :: "nat option \<Rightarrow> op_timer list \<Rightarrow> op_timer list" where
  "stop_timer t ps = (case t of None \<Rightarrow> ps | Some i \<Rightarrow> delete_rows (\<lambda>p. tm_id p = i) ps)"

definition state_for :: "op_target \<Rightarrow> scheduler \<Rightarrow> op_state" where
  "state_for t s =
     (case sd_targets s (target_key t) of
        None \<Rightarrow> \<lparr>os_target = t, os_active = 0, os_dirty = False, os_timer = None\<rparr>
      | Some st \<Rightarrow> st\<lparr>os_target := t\<rparr>)"

definition arm :: "gotime \<Rightarrow> string \<Rightarrow> op_state \<Rightarrow> scheduler \<Rightarrow> scheduler" where
  "arm delay k st s =
     s\<lparr>sd_pending := stop_timer (os_timer st) (sd_pending s) @
         [\<lparr>tm_id = sd_next s, tm_key = k, tm_target = os_target st, tm_delay = delay\<rparr>],
       sd_targets := (sd_targets s)(k \<mapsto> st\<lparr>os_timer := Some (sd_next s)\<rparr>),
       sd_next := Suc (sd_next s)\<rparr>"

definition op_begin :: "op_target \<Rightarrow> scheduler \<Rightarrow> scheduler" where
  "op_begin t s =
     (let k = target_key t in
      if k = [] then s
      else let st = state_for t s;
               st1 = st\<lparr>os_active := os_active st + 1\<rparr>
        in s\<lparr>sd_pending := stop_timer (os_timer st1) (sd_pending s),
             sd_targets := (sd_targets s)(k \<mapsto> st1\<lparr>os_timer := None\<rparr>)\<rparr>)"

definition op_finish :: "gotime \<Rightarrow> op_target \<Rightarrow> scheduler \<Rightarrow> scheduler" where
  "op_finish delay t s =
     (let k = target_key t in
      if k = [] then s
      else case sd_targets s k of
        None \<Rightarrow> s
      | Some st \<Rightarrow>
          (let st1 = (if 0 < os_active st then st\<lparr>os_active := os_active st - 1\<rparr> else st) in
           if os_active st1 = 0 \<and> os_dirty st1 then arm delay k st1 s
           else s\<lparr>sd_targets := (sd_targets s)(k \<mapsto> st1)\<rparr>))"

definition mark_dirty :: "gotime \<Rightarrow> op_target \<Rightarrow> scheduler \<Rightarrow> scheduler" where
  "mark_dirty delay t s =
     (let k = target_key t in
      if k = [] then s
      else let st = (state_for t s)\<lparr>os_dirty := True\<rparr> in
        if os_active st = 0 then arm delay k st s
        else s\<lparr>sd_targets := (sd_targets s)(k \<mapsto> st)\<rparr>)"

text \<open>The locked part of \<open>fire\<close>: the second component says whether the refresh goes ahead.\<close>

definition op_fire :: "gotime \<Rightarrow> op_timer \<Rightarrow> scheduler \<Rightarrow> scheduler \<times> bool" where
  "op_fire delay p s =
     (case sd_targets s (tm_key p) of
        None \<Rightarrow> (s, False)
      | Some st \<Rightarrow>
          if 0 < os_active st then (arm delay (tm_key p) st s, False)
          else (s\<lparr>sd_targets := (sd_targets s)(tm_key p := None)\<rparr>, True))"

text \<open>The rest of \<open>fire\<close>: an error of the lock is only logged, a lock held elsewhere skips the
  refresh, and so does a running synchronisation of the server.\<close>

datatype lock_outcome = LockFailed | LockHeld | LockTaken

datatype refresh_request =
    ZoneRefresh string string string
  | ScopeRefresh string string string string

definition fire_request :: "lock_outcome \<Rightarrow> bool \<Rightarrow> op_target \<Rightarrow> refresh_request option" where
  "fire_request lock syncing t =
     (if lock = LockHeld then None
      else if syncing then None
      else case ot_kind t of
        DnsZoneKind \<Rightarrow> Some (ZoneRefresh (ot_server_id t) (ot_zone_id t) (ot_zone_name t))
      | DhcpScopeKind \<Rightarrow>
          Some (ScopeRefresh (ot_server_id t) (ot_scope_id t) (ot_scope_external_id t) (ot_scope_name t))
      | OtherKind _ \<Rightarrow> None)"

subsection \<open>Runs\<close>

text \<open>A configuration adds what the callers do: the operations that are open (each \<open>begin\<close> is paired
  with one deferred \<open>finish\<close>) and the keys marked dirty since their last refresh went ahead.\<close>

record run_state =
  rs_sched :: scheduler
  rs_open :: "op_target list"
  rs_owed :: "string set"

datatype op_label = LBegin op_target | LFinish op_target | LMark op_target | LExpire op_timer
  | LSkip op_timer | LRefresh op_timer

inductive op_step :: "run_state \<Rightarrow> op_label \<Rightarrow> run_state \<Rightarrow> bool" where
  begin_step:
    "op_step c (LBegin t) (c\<lparr>rs_sched := op_begin t (rs_sched c), rs_open := t # rs_open c\<rparr>)"
| finish_step:
    "t \<in> set (rs_open c) \<Longrightarrow>
     op_step c (LFinish t) (c\<lparr>rs_sched := op_finish delay t (rs_sched c), rs_open := remove1 t (rs_open c)\<rparr>)"
| mark_step:
    "op_step c (LMark t) (c\<lparr>rs_sched := mark_dirty delay t (rs_sched c),
       rs_owed := (if target_key t = [] then rs_owed c else insert (target_key t) (rs_owed c))\<rparr>)"
| expire_step:
    "p \<in> set (sd_pending (rs_sched c)) \<Longrightarrow>
     op_step c (LExpire p) (c\<lparr>rs_sched := (rs_sched c)\<lparr>sd_pending := remove1 p (sd_pending (rs_sched c)),
       sd_fired := sd_fired (rs_sched c) @ [p]\<rparr>\<rparr>)"
| skip_step:
    "p \<in> set (sd_fired (rs_sched c)) \<Longrightarrow> op_fire delay p (rs_sched c) = (s', False) \<Longrightarrow>
     op_step c (LSkip p) (c\<lparr>rs_sched := s'\<lparr>sd_fired := remove1 p (sd_fired s')\<rparr>\<rparr>)"
| refresh_step:
    "p \<in> set (sd_fired (rs_sched c)) \<Longrightarrow> op_fire delay p (rs_sched c) = (s', True) \<Longrightarrow>
     op_step c (LRefresh p) (c\<lparr>rs_sched := s'\<lparr>sd_fired := remove1 p (sd_fired s')\<rparr>,
       rs_owed := rs_owed c - {tm_key p}\<rparr>)"

definition initial_run :: run_state where
  "initial_run = \<lparr>rs_sched = new_scheduler, rs_open = [], rs_owed = {}\<rparr>"

inductive op_reachable :: "run_state \<Rightarrow> bool" where
  start: "op_reachable initial_run"
| next_step: "op_reachable c \<Longrightarrow> op_step c l c' \<Longrightarrow> op_reachable c'"

inductive_cases op_refreshE: "op_step c (LRefresh p) c'"

subsection \<open>The invariant\<close>

definition open_count :: "string \<Rightarrow> op_target list \<Rightarrow> nat" where
  "open_count k ts = count_rows (\<lambda>t. target_key t = k) ts"

definition timer_for :: "string \<Rightarrow> scheduler \<Rightarrow> bool" where
  "timer_for k s \<longleftrightarrow> (\<exists>p \<in> set (sd_pending s) \<union> set (sd_fired s). tm_key p = k)"

text \<open>The count of open operations is exact; a dirty target without open operation has a timer or a
  waiting callback; an owed refresh has a dirty entry; the timer a state names is its own.\<close>

definition active_of :: "scheduler \<Rightarrow> string \<Rightarrow> nat" where
  "active_of s k = (case sd_targets s k of None \<Rightarrow> 0 | Some st \<Rightarrow> os_active st)"

definition counts_ok :: "run_state \<Rightarrow> bool" where
  "counts_ok c \<longleftrightarrow> (\<forall>k. k \<noteq> [] \<longrightarrow> active_of (rs_sched c) k = open_count k (rs_open c))"

definition own_timer :: "scheduler \<Rightarrow> string \<Rightarrow> op_state \<Rightarrow> bool" where
  "own_timer s k st \<longleftrightarrow> (\<forall>i. os_timer st = Some i \<longrightarrow>
     i < sd_next s \<and> (\<forall>p \<in> set (sd_pending s). tm_id p = i \<longrightarrow> tm_key p = k))"

definition keys_ok :: "scheduler \<Rightarrow> bool" where
  "keys_ok s \<longleftrightarrow>
     sd_targets s [] = None \<and>
     (\<forall>p \<in> set (sd_pending s) \<union> set (sd_fired s). tm_id p < sd_next s \<and> tm_key p \<noteq> []) \<and>
     (\<forall>k st. sd_targets s k = Some st \<longrightarrow> own_timer s k st)"

definition dirty_ok :: "scheduler \<Rightarrow> bool" where
  "dirty_ok s \<longleftrightarrow> (\<forall>k st. sd_targets s k = Some st \<longrightarrow> os_dirty st \<longrightarrow> os_active st = 0 \<longrightarrow> timer_for k s)"

definition owed_ok :: "run_state \<Rightarrow> bool" where
  "owed_ok c \<longleftrightarrow> (\<forall>k \<in> rs_owed c. \<exists>st. sd_targets (rs_sched c) k = Some st \<and> os_dirty st)"

lemma stop_timer_set: "set (stop_timer t ps) = {p \<in> set ps. t \<noteq> Some (tm_id p)}"
  by (auto simp: stop_timer_def split: option.splits)

lemma open_count_simps [simp]:
  "open_count k [] = 0"
  "open_count k (t # ts) = (if target_key t = k then Suc (open_count k ts) else open_count k ts)"
  by (simp_all add: open_count_def count_rows_def)

lemma open_count_pos: "t \<in> set ts \<Longrightarrow> 0 < open_count (target_key t) ts"
  by (induction ts) auto

lemma open_count_remove1:
  "t \<in> set ts \<Longrightarrow> open_count k (remove1 t ts) = open_count k ts - (if target_key t = k then 1 else 0)"
proof (induction ts)
  case (Cons a ts)
  then show ?case using open_count_pos [of t ts] by auto
qed simp

lemmas op_defs = op_begin_def op_finish_def mark_dirty_def op_fire_def arm_def state_for_def Let_def

lemma active_of_steps:
  "k \<noteq> [] \<Longrightarrow> active_of (op_begin t s) k = (if target_key t = k then Suc (active_of s k) else active_of s k)"
  "k \<noteq> [] \<Longrightarrow> active_of (op_finish delay t s) k = active_of s k - (if target_key t = k then 1 else 0)"
  "active_of (mark_dirty delay t s) k = active_of s k"
  "op_fire delay p s = (s', go) \<Longrightarrow> active_of s' k = active_of s k"
  by (auto simp: active_of_def op_defs split: option.splits if_splits)

lemma active_of_lists [simp]:
  "active_of (s\<lparr>sd_pending := ps\<rparr>) k = active_of s k" "active_of (s\<lparr>sd_fired := ps\<rparr>) k = active_of s k"
  by (simp_all add: active_of_def)

lemma counts_step: "op_step c l c' \<Longrightarrow> counts_ok c \<Longrightarrow> counts_ok c'"
  by (induction rule: op_step.induct) (auto simp: counts_ok_def active_of_steps open_count_remove1)

lemma keys_put:
  "keys_ok s \<Longrightarrow> k \<noteq> [] \<Longrightarrow> own_timer s k st \<Longrightarrow> keys_ok (s\<lparr>sd_targets := (sd_targets s)(k \<mapsto> st)\<rparr>)"
  by (auto simp: keys_ok_def own_timer_def)

lemma keys_fewer_timers:
  "keys_ok s \<Longrightarrow> set ps \<subseteq> set (sd_pending s) \<Longrightarrow> set fs \<subseteq> set (sd_pending s) \<union> set (sd_fired s) \<Longrightarrow>
   keys_ok (s\<lparr>sd_pending := ps, sd_fired := fs\<rparr>)"
  unfolding keys_ok_def own_timer_def by (simp add: subset_iff) blast

lemma keys_stop: "keys_ok s \<Longrightarrow> keys_ok (s\<lparr>sd_pending := stop_timer t (sd_pending s)\<rparr>)"
  using keys_fewer_timers [of s "stop_timer t (sd_pending s)" "sd_fired s"] by (simp add: stop_timer_set)

lemma keys_timer: "keys_ok s \<Longrightarrow> p \<in> set (sd_pending s) \<Longrightarrow> tm_id p < sd_next s"
  by (simp add: keys_ok_def ball_Un)

lemma keys_arm:
  assumes "keys_ok s" and "k \<noteq> []"
  shows "keys_ok (arm delay k st s)"
proof -
  let ?s = "s\<lparr>sd_pending := stop_timer (os_timer st) (sd_pending s)\<rparr>"
  have ok: "keys_ok ?s" using assms(1) by (rule keys_stop)
  have fresh: "tm_id p \<noteq> sd_next s" if "p \<in> set (sd_pending ?s)" for p
    using keys_timer [OF ok that] by simp
  let ?t = "arm delay k st s"
  have sel: "sd_next ?t = Suc (sd_next s)" "sd_fired ?t = sd_fired s"
    "sd_targets ?t = (sd_targets s)(k \<mapsto> st\<lparr>os_timer := Some (sd_next s)\<rparr>)"
    "sd_pending ?t = sd_pending ?s @ [\<lparr>tm_id = sd_next s, tm_key = k, tm_target = os_target st, tm_delay = delay\<rparr>]"
    by (simp_all add: arm_def)
  have "own_timer ?t k' st'" if "sd_targets ?t k' = Some st'" for k' st'
  proof (cases "k' = k")
    case True
    with that show ?thesis using fresh by (fastforce simp: own_timer_def sel)
  next
    case False
    with that have "sd_targets ?s k' = Some st'" by (simp add: sel)
    with ok have "own_timer ?s k' st'" by (simp add: keys_ok_def)
    then show ?thesis by (auto simp: own_timer_def sel)
  qed
  then show ?thesis
    using ok assms(2) by (auto simp: keys_ok_def sel less_Suc_eq)
qed

lemma own_timer_lookup: "keys_ok s \<Longrightarrow> sd_targets s k = Some st \<Longrightarrow> own_timer s k st"
  by (simp add: keys_ok_def)

lemma own_timer_cong: "os_timer st' = os_timer st \<Longrightarrow> own_timer s k st' = own_timer s k st"
  by (simp add: own_timer_def)

lemma own_timer_state_for: "keys_ok s \<Longrightarrow> target_key t \<noteq> [] \<Longrightarrow> own_timer s (target_key t) (state_for t s)"
  by (auto simp: state_for_def own_timer_def keys_ok_def split: option.splits)

lemma keys_begin: "keys_ok s \<Longrightarrow> keys_ok (op_begin t s)"
proof -
  assume ok: "keys_ok s"
  have "keys_ok (s'\<lparr>sd_targets := (sd_targets s')(target_key t \<mapsto> st\<lparr>os_timer := None\<rparr>)\<rparr>)"
    if "keys_ok s'" "target_key t \<noteq> []" for s' st
    using keys_put [OF that] by (simp add: own_timer_def)
  from this [OF keys_stop [OF ok]] show ?thesis
    using ok by (simp add: op_begin_def Let_def)
qed

lemma keys_finish: "keys_ok s \<Longrightarrow> keys_ok (op_finish delay t s)"
  by (auto simp: op_finish_def Let_def keys_arm own_timer_lookup own_timer_cong intro!: keys_put
      split: option.splits)

lemma keys_mark: "keys_ok s \<Longrightarrow> keys_ok (mark_dirty delay t s)"
  using own_timer_state_for [of s t]
  by (auto simp: mark_dirty_def Let_def keys_arm own_timer_cong [of "state_for t s\<lparr>os_dirty := True\<rparr>" "state_for t s"]
      intro!: keys_put)

lemma keys_fire:
  assumes "keys_ok s" and "p \<in> set (sd_fired s)" and "op_fire delay p s = (s', go)"
  shows "keys_ok s' \<and> sd_fired s' = sd_fired s"
proof -
  have "tm_key p \<noteq> []" using assms(1,2) by (auto simp: keys_ok_def)
  moreover have "sd_fired (arm delay k st s) = sd_fired s" for k st by (simp add: arm_def)
  moreover have "keys_ok (s\<lparr>sd_targets := (sd_targets s)(k := None)\<rparr>)" for k
    using assms(1) by (auto simp: keys_ok_def own_timer_def)
  ultimately show ?thesis
    using assms(3) keys_arm [OF assms(1)] assms(1)
    by (auto simp: op_fire_def split: option.splits if_splits)
qed

lemma keys_unfire: "keys_ok s \<Longrightarrow> keys_ok (s\<lparr>sd_fired := remove1 p (sd_fired s)\<rparr>)"
  using keys_fewer_timers [of s "sd_pending s" "remove1 p (sd_fired s)"]
  by (simp add: set_remove1_subset le_supI2)

lemma keys_step: "op_step c l c' \<Longrightarrow> keys_ok (rs_sched c) \<Longrightarrow> keys_ok (rs_sched c')"
proof (induction rule: op_step.induct)
  case (expire_step p c)
  then show ?case
    using keys_fewer_timers [of "rs_sched c" "remove1 p (sd_pending (rs_sched c))" "sd_fired (rs_sched c) @ [p]"]
    by (simp add: set_remove1_subset)
next
  case (skip_step p c delay s')
  then have "keys_ok s'" using keys_fire by blast
  then show ?case by (simp add: keys_unfire)
next
  case (refresh_step p c delay s')
  then have "keys_ok s'" using keys_fire by blast
  then show ?case by (simp add: keys_unfire)
qed (simp_all add: keys_begin keys_finish keys_mark)

subsection \<open>No refresh is lost\<close>

lemma timer_for_arm: "timer_for k (arm delay k st s)"
  by (auto simp: timer_for_def arm_def)

lemma timer_for_arm_other:
  assumes "keys_ok s" and "own_timer s k st" and "timer_for k' s" and "k' \<noteq> k"
  shows "timer_for k' (arm delay k st s)"
  using assms by (auto simp: timer_for_def arm_def stop_timer_set own_timer_def)

lemma timer_for_remove1:
  "timer_for k s \<Longrightarrow> tm_key p \<noteq> k \<Longrightarrow> timer_for k (s\<lparr>sd_fired := remove1 p (sd_fired s)\<rparr>)"
  unfolding timer_for_def by (auto simp: bex_Un) (metis in_set_remove1)

lemma dirty_put:
  "dirty_ok s \<Longrightarrow> (os_dirty st \<Longrightarrow> os_active st = 0 \<Longrightarrow> timer_for k s) \<Longrightarrow>
   dirty_ok (s\<lparr>sd_targets := (sd_targets s)(k \<mapsto> st)\<rparr>)"
  by (auto simp: dirty_ok_def timer_for_def)

lemma dirty_arm:
  assumes "keys_ok s" and "own_timer s k st" and "dirty_ok s"
  shows "dirty_ok (arm delay k st s)"
proof -
  have "timer_for k' (arm delay k st s)"
    if "sd_targets s k' = Some st'" "os_dirty st'" "os_active st' = 0" "k' \<noteq> k" for k' st'
    using that assms timer_for_arm_other by (auto simp: dirty_ok_def)
  then show ?thesis
    using timer_for_arm [of k delay st s] by (auto simp: dirty_ok_def arm_def)
qed

lemma dirty_begin:
  assumes "keys_ok s" and "dirty_ok s"
  shows "dirty_ok (op_begin t s)"
proof -
  let ?k = "target_key t" and ?st = "state_for t s"
  have "timer_for k' (s\<lparr>sd_pending := stop_timer (os_timer ?st) (sd_pending s)\<rparr>)"
    if "timer_for k' s" "k' \<noteq> ?k" "?k \<noteq> []" for k'
    using that own_timer_state_for [OF assms(1), of t]
    by (auto simp: timer_for_def stop_timer_set own_timer_def)
  then show ?thesis
    using assms(2) unfolding op_begin_def Let_def dirty_ok_def timer_for_def by auto
qed

lemma dirty_finish:
  assumes "keys_ok s" and "dirty_ok s"
  shows "dirty_ok (op_finish delay t s)"
proof (cases "sd_targets s (target_key t)")
  case (Some st)
  let ?st = "if 0 < os_active st then st\<lparr>os_active := os_active st - 1\<rparr> else st"
  have "own_timer s (target_key t) st" using assms(1) Some by (rule own_timer_lookup)
  then have "own_timer s (target_key t) ?st" by (simp add: own_timer_def)
  then have "dirty_ok (arm delay (target_key t) ?st s)" by (rule dirty_arm [OF assms(1) _ assms(2)])
  moreover have "dirty_ok (s\<lparr>sd_targets := (sd_targets s)(target_key t \<mapsto> ?st)\<rparr>)"
    if "\<not> (os_active ?st = 0 \<and> os_dirty ?st)"
    using that by (intro dirty_put [OF assms(2)]) simp
  ultimately show ?thesis
    unfolding op_finish_def Let_def Some using assms(2) by simp
qed (use assms in \<open>simp add: op_finish_def Let_def\<close>)

lemma dirty_mark:
  assumes "keys_ok s" and "dirty_ok s"
  shows "dirty_ok (mark_dirty delay t s)"
  using assms dirty_arm [OF assms(1) _ assms(2), of "target_key t"] own_timer_state_for [OF assms(1), of t]
  by (auto simp: mark_dirty_def Let_def own_timer_cong [of "state_for t s\<lparr>os_dirty := True\<rparr>" "state_for t s"]
      intro!: dirty_put)

lemma dirty_unfire:
  assumes "dirty_ok s" and "\<And>st. sd_targets s (tm_key p) = Some st \<Longrightarrow> \<not> (os_dirty st \<and> os_active st = 0)"
  shows "dirty_ok (s\<lparr>sd_fired := remove1 p (sd_fired s)\<rparr>)"
  unfolding dirty_ok_def
proof (intro allI impI)
  fix k st
  let ?s = "s\<lparr>sd_fired := remove1 p (sd_fired s)\<rparr>"
  assume a: "sd_targets ?s k = Some st" "os_dirty st" "os_active st = 0"
  with assms have "timer_for k s" "tm_key p \<noteq> k" by (auto simp: dirty_ok_def)
  then show "timer_for k ?s" by (rule timer_for_remove1)
qed

lemma dirty_fire:
  assumes "keys_ok s" and "dirty_ok s" and "p \<in> set (sd_fired s)" and "op_fire delay p s = (s', go)"
  shows "dirty_ok (s'\<lparr>sd_fired := remove1 p (sd_fired s')\<rparr>)"
proof (cases "sd_targets s (tm_key p)")
  case None
  with assms(4) have "s' = s" by (simp add: op_fire_def)
  with None show ?thesis using assms(2) by (auto intro: dirty_unfire)
next
  case (Some st)
  show ?thesis
  proof (cases "0 < os_active st")
    case True
    with assms(4) Some have s': "s' = arm delay (tm_key p) st s" by (simp add: op_fire_def)
    have "own_timer s (tm_key p) st" using assms(1) Some by (rule own_timer_lookup)
    from dirty_arm [OF assms(1) this assms(2)] have "dirty_ok s'" by (simp add: s')
    moreover have "sd_targets s' (tm_key p) = Some (st\<lparr>os_timer := Some (sd_next s)\<rparr>)"
      by (simp add: s' arm_def)
    ultimately show ?thesis
      using timer_for_remove1 [of _ s' p] True by (intro dirty_unfire) auto
  next
    case False
    with assms(4) Some have "s' = s\<lparr>sd_targets := (sd_targets s)(tm_key p := None)\<rparr>"
      by (simp add: op_fire_def)
    moreover from this have "dirty_ok s'" using assms(2) by (auto simp: dirty_ok_def timer_for_def)
    ultimately show ?thesis by (intro dirty_unfire) auto
  qed
qed

lemma dirty_expire:
  assumes "dirty_ok s"
  shows "dirty_ok (s\<lparr>sd_pending := remove1 p (sd_pending s), sd_fired := sd_fired s @ [p]\<rparr>)"
proof -
  have "set (sd_pending s) \<subseteq> insert p (set (remove1 p (sd_pending s)))"
    by (metis in_set_remove1 insert_iff subsetI)
  then show ?thesis using assms by (fastforce simp: dirty_ok_def timer_for_def)
qed

lemma dirty_step:
  "op_step c l c' \<Longrightarrow> keys_ok (rs_sched c) \<Longrightarrow> dirty_ok (rs_sched c) \<Longrightarrow> dirty_ok (rs_sched c')"
  by (induction rule: op_step.induct)
     (simp_all add: dirty_begin dirty_finish dirty_mark dirty_fire dirty_expire)

lemma owed_step: "op_step c l c' \<Longrightarrow> owed_ok c \<Longrightarrow> owed_ok c'"
proof (induction rule: op_step.induct)
  case (finish_step t c delay)
  then show ?case
    by (fastforce simp: owed_ok_def op_finish_def arm_def Let_def split: option.splits)
next
  case (skip_step p c delay s')
  then show ?case
    by (fastforce simp: owed_ok_def op_fire_def arm_def split: option.splits if_splits)
qed (fastforce simp: owed_ok_def op_begin_def mark_dirty_def arm_def op_fire_def state_for_def Let_def
       split: option.splits if_splits)+

lemma reachable_ok:
  "op_reachable c \<Longrightarrow> counts_ok c \<and> keys_ok (rs_sched c) \<and> dirty_ok (rs_sched c) \<and> owed_ok c"
proof (induction rule: op_reachable.induct)
  case start
  show ?case
    by (simp add: initial_run_def new_scheduler_def counts_ok_def active_of_def keys_ok_def dirty_ok_def owed_ok_def)
next
  case (next_step c l c')
  then show ?case using counts_step keys_step dirty_step owed_step by blast
qed


text \<open>A refresh goes ahead only while no operation on its target is open.\<close>

theorem refresh_waits_for_operations:
  assumes "op_reachable c" and "op_step c (LRefresh p) c'"
  shows "open_count (tm_key p) (rs_open c) = 0 \<and> sd_targets (rs_sched c') (tm_key p) = None"
proof -
  have ok: "counts_ok c" "keys_ok (rs_sched c)" using reachable_ok [OF assms(1)] by auto
  from assms(2) obtain st where st: "p \<in> set (sd_fired (rs_sched c))"
      "sd_targets (rs_sched c) (tm_key p) = Some st" "os_active st = 0"
      "sd_targets (rs_sched c') (tm_key p) = None"
    by (auto elim!: op_refreshE simp: op_fire_def split: option.splits if_splits)
  then have "active_of (rs_sched c) (tm_key p) = 0" by (simp add: active_of_def)
  moreover have "tm_key p \<noteq> []" using ok(2) st(1) by (auto simp: keys_ok_def)
  ultimately show ?thesis using ok(1) st(4) by (simp add: counts_ok_def)
qed

subsection \<open>Runs of the timers\<close>

text \<open>What happens when no request arrives: timers expire and their callbacks skip or go ahead.\<close>

fun timer_label :: "op_label \<Rightarrow> bool" where
  "timer_label (LExpire p) = True"
| "timer_label (LSkip p) = True"
| "timer_label (LRefresh p) = True"
| "timer_label l = False"

inductive timer_run :: "run_state \<Rightarrow> nat \<Rightarrow> run_state \<Rightarrow> bool" where
  no_timer: "timer_run c 0 c"
| one_timer: "timer_run c n c' \<Longrightarrow> op_step c' l c'' \<Longrightarrow> timer_label l \<Longrightarrow> timer_run c (Suc n) c''"

definition timer_work :: "run_state \<Rightarrow> nat" where
  "timer_work c = 2 * length (sd_pending (rs_sched c)) + length (sd_fired (rs_sched c))"

lemma idle_fire:
  assumes "counts_ok c" "keys_ok (rs_sched c)" "rs_open c = []" "p \<in> set (sd_fired (rs_sched c))" "op_fire delay p (rs_sched c) = (s', ok)"
  shows "sd_pending s' = sd_pending (rs_sched c)" "sd_fired s' = sd_fired (rs_sched c)"
proof -
  have "tm_key p \<noteq> []" using assms(2,4) by (auto simp: keys_ok_def)
  then have "active_of (rs_sched c) (tm_key p) = 0" using assms(1,3) by (simp add: counts_ok_def)
  then show "sd_pending s' = sd_pending (rs_sched c)" "sd_fired s' = sd_fired (rs_sched c)"
    using assms(5) by (auto simp: active_of_def op_fire_def split: option.splits if_splits)
qed

lemma timer_step_work:
  assumes "op_step c l c'" "timer_label l" "counts_ok c" "keys_ok (rs_sched c)" "rs_open c = []"
  shows "timer_work c' < timer_work c \<and> rs_open c' = []"
  using assms
proof (induction rule: op_step.induct)
  case (expire_step p c)
  then obtain n where "length (sd_pending (rs_sched c)) = Suc n" by (cases "sd_pending (rs_sched c)") auto
  with expire_step show ?case by (simp add: timer_work_def length_remove1)
next
  case (skip_step p c delay s')
  note same = idle_fire [OF skip_step.prems(2-4) skip_step.hyps]
  have "length (sd_fired (rs_sched c)) \<noteq> 0" using skip_step.hyps(1) by auto
  with skip_step same show ?case by (simp add: timer_work_def length_remove1)
next
  case (refresh_step p c delay s')
  note same = idle_fire [OF refresh_step.prems(2-4) refresh_step.hyps]
  have "length (sd_fired (rs_sched c)) \<noteq> 0" using refresh_step.hyps(1) by auto
  with refresh_step same show ?case by (simp add: timer_work_def length_remove1)
qed simp_all

lemma timer_run_work:
  assumes "timer_run c n c'" "op_reachable c" "rs_open c = []"
  shows "n + timer_work c' \<le> timer_work c \<and> op_reachable c' \<and> rs_open c' = []"
  using assms
proof (induction rule: timer_run.induct)
  case (one_timer c n c' l c'')
  then have r: "op_reachable c'" "rs_open c' = []" "n + timer_work c' \<le> timer_work c" by blast+
  have "timer_work c'' < timer_work c' \<and> rs_open c'' = []"
    using timer_step_work [OF one_timer.hyps(2,3)] reachable_ok [OF r(1)] r(2) by blast
  with r one_timer.hyps(2) show ?case by (auto intro: next_step)
qed simp


subsection \<open>Concrete runs\<close>

definition sample_target :: op_target where
  "sample_target = dns_zone_refresh_target ''s'' ''z'' ''corp.test''"

definition marked_run :: run_state where
  "marked_run = initial_run\<lparr>rs_sched := mark_dirty (seconds 30) sample_target new_scheduler,
     rs_owed := {target_key sample_target}\<rparr>"

definition sample_timer :: op_timer where
  "sample_timer = \<lparr>tm_id = 0, tm_key = target_key sample_target, tm_target = sample_target,
     tm_delay = seconds 30\<rparr>"

definition expired_run :: run_state where
  "expired_run = marked_run\<lparr>rs_sched := (rs_sched marked_run)\<lparr>
     sd_pending := remove1 sample_timer (sd_pending (rs_sched marked_run)),
     sd_fired := sd_fired (rs_sched marked_run) @ [sample_timer]\<rparr>\<rparr>"

lemma sample_key: "target_key sample_target = ''dns.zone:s:corp.test''"
  by (simp add: target_key_def sample_target_def dns_zone_refresh_target_def)

lemma marked_reachable: "op_reachable marked_run"
proof -
  have "op_step initial_run (LMark sample_target) marked_run"
    using mark_step [of initial_run sample_target "seconds 30"]
    by (simp add: marked_run_def initial_run_def sample_key)
  with start show ?thesis by (rule next_step)
qed

lemma marked_sched: "rs_sched marked_run =
    new_scheduler\<lparr>sd_pending := [sample_timer], sd_next := 1,
      sd_targets := [target_key sample_target \<mapsto>
        \<lparr>os_target = sample_target, os_active = 0, os_dirty = True, os_timer = Some 0\<rparr>]\<rparr>"
  by (simp add: marked_run_def initial_run_def mark_dirty_def state_for_def arm_def new_scheduler_def
      stop_timer_def sample_timer_def sample_key Let_def)

lemma expired_reachable: "op_reachable expired_run"
proof -
  have "op_step marked_run (LExpire sample_timer) expired_run"
    unfolding expired_run_def by (rule expire_step) (simp add: marked_sched)
  with marked_reachable show ?thesis by (rule next_step)
qed


theorem refresh_waits_for_operations_witness:
  "\<exists>c'. op_step expired_run (LRefresh sample_timer) c' \<and> open_count (tm_key sample_timer) (rs_open expired_run) = 0"
proof -
  obtain s' where "op_fire 0 sample_timer (rs_sched expired_run) = (s', True)"
    by (simp add: op_fire_def expired_run_def marked_sched sample_timer_def)
  then obtain c' where c': "op_step expired_run (LRefresh sample_timer) c'"
    using refresh_step [of sample_timer expired_run 0 s'] by (auto simp: expired_run_def)
  with refresh_waits_for_operations [OF expired_reachable c'] show ?thesis by blast
qed


end
