(* ===== verification/ZL_Realtime.thy ===== *)
theory ZL_Realtime
  imports ZL_Domain
begin

text \<open>
  The realtime service, \<open>internal/service/realtime/service.go\<close>, over a model of the Redis commands it
  sends: keys with an expiry, the event stream and the publications of the channel. \<open>rd_fault\<close> says
  which commands fail, \<open>rd_now\<close> is the clock of the server. Tokens of locks are arguments (\<open>None\<close> when
  the random source fails). A stored value is its text; \<open>json_ok\<close> says whether a text decodes.
\<close>

record redis =
  rd_fault :: "string \<Rightarrow> string \<Rightarrow> bool"
  rd_now :: gotime
  rd_keys :: "string \<Rightarrow> (string \<times> gotime option) option"
  rd_stream :: "string list"
  rd_published :: "string list"

definition empty_redis :: redis where
  "empty_redis = \<lparr>rd_fault = (\<lambda>_ _. False), rd_now = 0, rd_keys = (\<lambda>_. None), rd_stream = [], rd_published = []\<rparr>"

subsection \<open>Commands\<close>

definition live :: "redis \<Rightarrow> string \<Rightarrow> string option" where
  "live r k =
     (case rd_keys r k of
        None \<Rightarrow> None
      | Some (v, None) \<Rightarrow> Some v
      | Some (v, Some t) \<Rightarrow> if rd_now r < t then Some v else None)"

definition expiry :: "redis \<Rightarrow> gotime \<Rightarrow> gotime option" where
  "expiry r ttl = (if 0 < ttl then Some (rd_now r + ttl) else None)"

definition redis_set :: "string \<Rightarrow> string \<Rightarrow> gotime \<Rightarrow> redis \<Rightarrow> redis" where
  "redis_set k v ttl r = r\<lparr>rd_keys := (rd_keys r)(k \<mapsto> (v, expiry r ttl))\<rparr>"

definition redis_del :: "string \<Rightarrow> redis \<Rightarrow> redis" where
  "redis_del k r = r\<lparr>rd_keys := (rd_keys r)(k := None)\<rparr>"

text \<open>\<open>XADD\<close> with an approximate length limit: Redis may cut the stream to the limit, or less (\<open>cutoff\<close>).\<close>

definition redis_xadd :: "nat \<Rightarrow> nat \<Rightarrow> string \<Rightarrow> redis \<Rightarrow> redis" where
  "redis_xadd cutoff max_len e r =
     (let s = rd_stream r @ [e] in r\<lparr>rd_stream := drop (min cutoff (length s - max_len)) s\<rparr>)"

subsection \<open>The service\<close>

type_synonym redis_result = "bool \<times> redis"

definition rt_set :: "string \<Rightarrow> string \<Rightarrow> gotime \<Rightarrow> redis \<Rightarrow> redis_result" where
  "rt_set k v ttl r = (if rd_fault r ''SET'' k then (False, r) else (True, redis_set k v ttl r))"

definition rt_get :: "string \<Rightarrow> redis \<Rightarrow> unit + string option" where
  "rt_get k r = (if rd_fault r ''GET'' k then Inl () else Inr (live r k))"

definition rt_exists :: "string \<Rightarrow> redis \<Rightarrow> unit + bool" where
  "rt_exists k r = (if rd_fault r ''EXISTS'' k then Inl () else Inr (live r k \<noteq> None))"

definition rt_get_json :: "(string \<Rightarrow> bool) \<Rightarrow> string \<Rightarrow> redis \<Rightarrow> unit + bool" where
  "rt_get_json json_ok k r =
     (case rt_get k r of
        Inl e \<Rightarrow> Inl e
      | Inr None \<Rightarrow> Inr False
      | Inr (Some raw) \<Rightarrow> if json_ok raw then Inr True else Inl ())"

definition rt_set_int :: "string \<Rightarrow> nat \<Rightarrow> gotime \<Rightarrow> redis \<Rightarrow> redis_result" where
  "rt_set_int k n ttl r = rt_set k (itoa n) ttl r"

text \<open>\<open>strconv.Atoi\<close> on the texts \<open>SetInt\<close> writes: unsigned decimal digits.\<close>

definition parse_count :: "string \<Rightarrow> nat option" where
  "parse_count s = (if s \<noteq> [] \<and> list_all is_digit s then Some (digits_value s) else None)"

definition rt_get_int :: "string \<Rightarrow> redis \<Rightarrow> unit + nat option" where
  "rt_get_int k r =
     (case rt_get k r of
        Inl e \<Rightarrow> Inl e
      | Inr None \<Rightarrow> Inr None
      | Inr (Some raw) \<Rightarrow> (case parse_count raw of None \<Rightarrow> Inl () | Some n \<Rightarrow> Inr (Some n)))"

definition rt_delete :: "string \<Rightarrow> redis \<Rightarrow> redis_result" where
  "rt_delete k r = (if rd_fault r ''DEL'' k then (False, r) else (True, redis_del k r))"

record lock =
  lk_key :: string
  lk_token :: string

definition no_lock :: lock where
  "no_lock = \<lparr>lk_key = [], lk_token = []\<rparr>"

datatype try_result = TryError | TryBusy | TryTaken lock

definition try_lock :: "string option \<Rightarrow> string \<Rightarrow> gotime \<Rightarrow> redis \<Rightarrow> try_result \<times> redis" where
  "try_lock token k expiration r =
     (let ttl = (if expiration \<le> 0 then minutes 1 else expiration) in
      case token of
        None \<Rightarrow> (TryError, r)
      | Some t \<Rightarrow>
          if rd_fault r ''SETNX'' k then (TryError, r)
          else if live r k \<noteq> None then (TryBusy, r)
          else (TryTaken \<lparr>lk_key = k, lk_token = t\<rparr>, redis_set k t ttl r))"

definition unlock :: "lock \<Rightarrow> redis \<Rightarrow> redis_result" where
  "unlock l r =
     (if lk_key l = [] \<or> lk_token l = [] then (True, r)
      else if rd_fault r ''EVAL'' (lk_key l) then (False, r)
      else (True, if live r (lk_key l) = Some (lk_token l) then redis_del (lk_key l) r else r))"

definition publish_refresh :: "nat \<Rightarrow> nat \<Rightarrow> gotime \<Rightarrow> string \<Rightarrow> redis \<Rightarrow> redis_result" where
  "publish_refresh cutoff max_len ttl event r =
     (if rd_fault r ''SET'' ''zonelease:refresh:last'' then (False, r)
      else let r1 = redis_set ''zonelease:refresh:last'' event ttl r in
        if rd_fault r1 ''XADD'' ''zonelease:refresh:stream'' then (False, r1)
        else let r2 = redis_xadd cutoff max_len event r1 in
          if rd_fault r2 ''PUBLISH'' ''zonelease:refresh-events'' then (False, r2)
          else (True, r2\<lparr>rd_published := rd_published r2 @ [event]\<rparr>))"

text \<open>The newest events come first from Redis; the loop reads them back to front.\<close>

definition recent_refresh_events :: "int \<Rightarrow> redis \<Rightarrow> unit + string list" where
  "recent_refresh_events limit0 r =
     (let limit = (if limit0 \<le> 0 \<or> 100 < limit0 then 20 else limit0) in
      if rd_fault r ''XREVRANGE'' ''zonelease:refresh:stream'' then Inl ()
      else let events = take (nat limit) (rev (rd_stream r)) in
        Inr (filter (\<lambda>e. e \<noteq> []) (rev events)))"

subsection \<open>A lock service\<close>

text \<open>What the callers of \<open>TryLock\<close> and \<open>Unlock\<close> rely on, and the exclusion that follows from it.\<close>

datatype lock_op = TryOp string string gotime | ReleaseOp string string | TickOp gotime

fun run_steps :: "('s \<Rightarrow> 'o \<Rightarrow> bool \<times> 's) \<Rightarrow> 's \<Rightarrow> 'o list \<Rightarrow> ('o \<times> bool) list \<times> 's" where
  "run_steps step s [] = ([], s)"
| "run_steps step s (x # xs) =
     (let (b, s1) = step s x; (bs, s2) = run_steps step s1 xs in ((x, b) # bs, s2))"

fun op_ticks :: "lock_op list \<Rightarrow> gotime" where
  "op_ticks [] = 0"
| "op_ticks (TickOp dt # xs) = dt + op_ticks xs"
| "op_ticks (_ # xs) = op_ticks xs"

definition ticks_ok :: "lock_op list \<Rightarrow> bool" where
  "ticks_ok xs = list_all (\<lambda>x. case x of TickOp dt \<Rightarrow> 0 \<le> dt | _ \<Rightarrow> True) xs"

locale lock_service =
  fixes step :: "'s \<Rightarrow> lock_op \<Rightarrow> bool \<times> 's"
    and holder :: "'s \<Rightarrow> string \<Rightarrow> string option"
    and left :: "'s \<Rightarrow> string \<Rightarrow> gotime"
    and good :: "'s \<Rightarrow> bool"
  assumes good_step: "good s \<Longrightarrow> good (snd (step s x))"
    and try_busy: "good s \<Longrightarrow> holder s k = Some t \<Longrightarrow> step s (TryOp k t' ttl) = (False, s)"
    and try_free: "good s \<Longrightarrow> holder s k = None \<Longrightarrow> step s (TryOp k t ttl) = (True, s') \<Longrightarrow>
      holder s' k = Some t \<and> left s' k = (if ttl \<le> 0 then minutes 1 else ttl)"
    and try_other: "good s \<Longrightarrow> k' \<noteq> k \<Longrightarrow> step s (TryOp k' t' ttl) = (b, s') \<Longrightarrow>
      holder s' k = holder s k \<and> left s' k = left s k"
    and release_other: "good s \<Longrightarrow> holder s k = Some t \<Longrightarrow> (k', t') \<noteq> (k, t) \<Longrightarrow>
      step s (ReleaseOp k' t') = (b, s') \<Longrightarrow> holder s' k = Some t \<and> left s' k = left s k"
    and tick_live: "good s \<Longrightarrow> holder s k = Some t \<Longrightarrow> dt < left s k \<Longrightarrow> step s (TickOp dt) = (b, s') \<Longrightarrow>
      holder s' k = Some t \<and> left s' k = left s k - dt"
begin

lemma op_ticks_nonneg: "ticks_ok xs \<Longrightarrow> 0 \<le> op_ticks xs"
  by (induction xs rule: op_ticks.induct) (auto simp: ticks_ok_def)

lemma step_keeps_holder:
  assumes "good s" and "holder s k = Some t" and "x \<noteq> ReleaseOp k t" and "op_ticks [x] < left s k"
    and "step s x = (b, s')"
  shows "holder s' k = Some t \<and> left s' k = left s k - op_ticks [x] \<and> (\<forall>t' ttl. x = TryOp k t' ttl \<longrightarrow> \<not> b)"
proof (cases x)
  case (TryOp k' t' ttl)
  then show ?thesis
    using assms try_busy [OF assms(1,2)] try_other [OF assms(1)] by (cases "k' = k") auto
next
  case (ReleaseOp k' t')
  then show ?thesis using assms release_other [OF assms(1,2)] by auto
next
  case (TickOp dt)
  then show ?thesis using assms tick_live [OF assms(1,2)] by auto
qed

lemma held_until_released:
  assumes "good s" and "holder s k = Some t" and "ReleaseOp k t \<notin> set xs" and "ticks_ok xs"
    and "op_ticks xs < left s k" and "run_steps step s xs = (bs, s')"
  shows "holder s' k = Some t \<and> (\<forall>t' ttl. (TryOp k t' ttl, True) \<notin> set bs)"
  using assms
proof (induction xs arbitrary: s bs)
  case (Cons x xs)
  obtain b s1 where s1: "step s x = (b, s1)" by fastforce
  obtain cs where cs: "run_steps step s1 xs = (cs, s')" "bs = (x, b) # cs"
    using Cons.prems(6) s1 by (auto split: prod.splits)
  have ok: "ticks_ok xs" "0 \<le> op_ticks [x]" "op_ticks (x # xs) = op_ticks [x] + op_ticks xs"
    using Cons.prems(4) by (cases x; simp add: ticks_ok_def)+
  then have "op_ticks [x] < left s k"
    using op_ticks_nonneg [OF ok(1)] Cons.prems(5) by linarith
  from step_keeps_holder [OF Cons.prems(1,2) _ this s1] Cons.prems(3)
  have h: "holder s1 k = Some t" "left s1 k = left s k - op_ticks [x]" "\<forall>t' ttl. x = TryOp k t' ttl \<longrightarrow> \<not> b"
    by auto
  have "good s1" using good_step [OF Cons.prems(1), of x] s1 by simp
  from Cons.IH [OF this h(1) _ ok(1) _ cs(1)] Cons.prems(3,5) h ok(3) cs(2)
  show ?case by auto
qed simp

end

subsection \<open>The Redis locks are one\<close>

definition lock_step :: "redis \<Rightarrow> lock_op \<Rightarrow> bool \<times> redis" where
  "lock_step r x =
     (case x of
        TryOp k t ttl \<Rightarrow>
          (case try_lock (Some t) k ttl r of
             (TryTaken l, r') \<Rightarrow> (True, r')
           | (_, r') \<Rightarrow> (False, r'))
      | ReleaseOp k t \<Rightarrow> unlock \<lparr>lk_key = k, lk_token = t\<rparr> r
      | TickOp dt \<Rightarrow> (True, r\<lparr>rd_now := rd_now r + dt\<rparr>))"

definition time_left :: "redis \<Rightarrow> string \<Rightarrow> gotime" where
  "time_left r k =
     (case rd_keys r k of
        Some (v, Some t) \<Rightarrow> t - rd_now r
      | _ \<Rightarrow> 0)"

text \<open>The keys locks live under always carry an expiry.\<close>

definition locks_expire :: "redis \<Rightarrow> bool" where
  "locks_expire r \<longleftrightarrow> (\<forall>k v. rd_keys r k \<noteq> Some (v, None))"

lemmas redis_defs = lock_step_def try_lock_def unlock_def redis_set_def redis_del_def expiry_def live_def
  time_left_def Let_def

lemma redis_set_other [simp]:
  "k' \<noteq> k \<Longrightarrow> live (redis_set k' v ttl r) k = live r k"
  "k' \<noteq> k \<Longrightarrow> time_left (redis_set k' v ttl r) k = time_left r k"
  "k' \<noteq> k \<Longrightarrow> live (redis_del k' r) k = live r k"
  "k' \<noteq> k \<Longrightarrow> time_left (redis_del k' r) k = time_left r k"
  by (auto simp: live_def time_left_def redis_set_def redis_del_def split: option.splits)

lemma redis_set_own [simp]:
  "0 < ttl \<Longrightarrow> live (redis_set k v ttl r) k = Some v" "0 < ttl \<Longrightarrow> time_left (redis_set k v ttl r) k = ttl"
  "live (redis_del k r) k = None"
  by (simp_all add: live_def time_left_def redis_set_def redis_del_def expiry_def)

lemma minute_pos [simp]: "0 < minutes 1"
  by (simp add: minutes_def seconds_def nanos_per_second_def)

interpretation redis_lock: lock_service lock_step live time_left locks_expire
proof
  show "locks_expire (snd (lock_step s x))" if "locks_expire s" for s x
    using that by (cases x) (auto simp: locks_expire_def redis_defs split: if_splits)
  show "lock_step s (TryOp k t' ttl) = (False, s)" if "live s k = Some t" for s k t t' ttl
    using that by (simp add: lock_step_def try_lock_def Let_def)
  show "live s' k = Some t \<and> time_left s' k = (if ttl \<le> 0 then minutes 1 else ttl)"
    if "live s k = None" "lock_step s (TryOp k t ttl) = (True, s')" for s k t ttl s'
    using that by (auto simp: lock_step_def try_lock_def Let_def split: if_splits)
  show "live s' k = live s k \<and> time_left s' k = time_left s k"
    if "k' \<noteq> k" "lock_step s (TryOp k' t' ttl) = (b, s')" for s k k' t' ttl b s'
    using that by (auto simp: lock_step_def try_lock_def Let_def split: if_splits)
  show "live s' k = Some t \<and> time_left s' k = time_left s k"
    if "live s k = Some t" "(k', t') \<noteq> (k, t)" "lock_step s (ReleaseOp k' t') = (b, s')" for s k t k' t' b s'
    using that by (cases "k' = k") (auto simp: lock_step_def unlock_def split: if_splits)
  show "live s' k = Some t \<and> time_left s' k = time_left s k - dt"
    if "locks_expire s" "live s k = Some t" "dt < time_left s k" "lock_step s (TickOp dt) = (b, s')" for s k t dt b s'
    using that
    by (auto simp: lock_step_def live_def time_left_def locks_expire_def split: option.splits if_splits)
qed

text \<open>C7. A lock excludes: from the moment \<open>TryLock\<close> succeeds until its own token releases it or its
  lifetime has passed, every other attempt on the key fails and releases with other tokens do not
  free it, whatever other lock operations happen in between.\<close>

theorem lock_excludes:
  assumes "locks_expire r" and "try_lock (Some t) k ttl r = (TryTaken l, r1)"
    and "ReleaseOp k t \<notin> set xs" and "ticks_ok xs" and "op_ticks xs < (if ttl \<le> 0 then minutes 1 else ttl)"
    and "run_steps lock_step r1 xs = (bs, r2)"
  shows "live r2 k = Some t \<and> (\<forall>t' ttl'. (TryOp k t' ttl', True) \<notin> set bs)"
proof -
  have s: "lock_step r (TryOp k t ttl) = (True, r1)" using assms(2) by (simp add: lock_step_def)
  have free: "live r k = None" using assms(2) by (auto simp: try_lock_def Let_def split: if_splits)
  have g: "locks_expire r1" using redis_lock.good_step [OF assms(1), of "TryOp k t ttl"] s by simp
  from redis_lock.try_free [OF assms(1) free s] show ?thesis
    using redis_lock.held_until_released [OF g _ assms(3,4) _ assms(6)] assms(5) by simp
qed

theorem lock_excludes_witness:
  "live (snd (run_steps lock_step (snd (try_lock (Some ''a'') ''key'' 100 empty_redis))
     [TryOp ''key'' ''b'' 50, ReleaseOp ''key'' ''b'', TickOp 40, TryOp ''key'' ''c'' 50])) ''key'' = Some ''a''"
proof -
  have e: "locks_expire empty_redis" by (simp add: locks_expire_def empty_redis_def)
  obtain l r1 where l: "try_lock (Some ''a'') ''key'' 100 empty_redis = (TryTaken l, r1)"
    by (simp add: try_lock_def empty_redis_def live_def)
  obtain bs r2 where r: "run_steps lock_step r1
      [TryOp ''key'' ''b'' 50, ReleaseOp ''key'' ''b'', TickOp 40, TryOp ''key'' ''c'' 50] = (bs, r2)"
    by fastforce
  show ?thesis using lock_excludes [OF e l _ _ _ r] by (simp add: l r ticks_ok_def del: run_steps.simps)
qed

text \<open>Cached counters read back what was written while they live, and an expired or deleted key reads
  as missing.\<close>

theorem cached_int_roundtrip:
  "rt_set_int k n ttl r = (True, r1) \<Longrightarrow> rt_get_int k (r1\<lparr>rd_now := later\<rparr>) \<noteq> Inl () \<Longrightarrow>
   rt_get_int k (r1\<lparr>rd_now := later\<rparr>) = Inr (if 0 < ttl \<and> rd_now r + ttl \<le> later then None else Some n)"
  by (auto simp: rt_set_int_def rt_set_def rt_get_int_def rt_get_def redis_set_def live_def expiry_def
      parse_count_def list_all_iff itoa_digits split: if_splits)

theorem cached_int_roundtrip_witness:
  "rt_get_int ''c'' ((snd (rt_set_int ''c'' 42 10 empty_redis))\<lparr>rd_now := 9\<rparr>) = Inr (Some 42)"
  using cached_int_roundtrip [of "''c''" 42 10 empty_redis "snd (rt_set_int ''c'' 42 10 empty_redis)" 9]
  by (simp add: rt_set_int_def rt_set_def empty_redis_def redis_set_def rt_get_int_def rt_get_def live_def
      expiry_def parse_count_def list_all_iff itoa_digits)

end
