(* ===== verification/ZL_App.thy ===== *)
theory ZL_App
  imports ZL_Http ZL_Agent ZL_Op_Refresh ZL_Realtime
begin

text \<open>
  The state a handler of the router works on: the database, Redis, the operation refresh scheduler
  and the world of the agents. With the delays of \<open>api/router/settings.go\<close>, the agent synchronisation
  marks of \<open>internal/service/sync/service.go\<close> and \<open>ensureAgentNotSyncing\<close>.
\<close>

record 'w app =
  ap_db :: db
  ap_redis :: redis
  ap_sched :: scheduler
  ap_world :: 'w

subsection \<open>Configured delays\<close>

definition agent_operation_timeout :: "db \<Rightarrow> gotime" where
  "agent_operation_timeout d =
     (case get_system_base_config d of
        Inl e \<Rightarrow> seconds (bc_operation_timeout_seconds default_base_config)
      | Inr b \<Rightarrow> seconds (bc_operation_timeout_seconds (normalize_base_config b)))"

definition operation_refresh_delay :: "db \<Rightarrow> gotime" where
  "operation_refresh_delay d =
     (case get_system_base_config d of
        Inl e \<Rightarrow> seconds (bc_refresh_delay_seconds default_base_config)
      | Inr b \<Rightarrow> seconds (bc_refresh_delay_seconds (normalize_base_config b)))"

text \<open>The limits of the synchronisation service.\<close>

record runtime_limits =
  rl_sync_concurrency :: int
  rl_dns_record_concurrency :: int
  rl_dhcp_scope_concurrency :: int
  rl_agent_offline_failure_count :: int
  rl_agent_health_concurrency :: int
  rl_agent_connection_timeout :: gotime
  rl_agent_operation_timeout :: gotime
  rl_agent_full_sync_timeout :: gotime

definition limits_of :: "base_config \<Rightarrow> runtime_limits" where
  "limits_of b = \<lparr>rl_sync_concurrency = bc_sync_concurrency b,
     rl_dns_record_concurrency = bc_dns_record_concurrency b,
     rl_dhcp_scope_concurrency = bc_dhcp_scope_concurrency b,
     rl_agent_offline_failure_count = bc_offline_failure_count b,
     rl_agent_health_concurrency = bc_health_concurrency b,
     rl_agent_connection_timeout = seconds (bc_connection_timeout_seconds b),
     rl_agent_operation_timeout = seconds (bc_operation_timeout_seconds b),
     rl_agent_full_sync_timeout = seconds (bc_full_sync_timeout_seconds b)\<rparr>"

definition runtime_limits_of :: "db \<Rightarrow> runtime_limits" where
  "runtime_limits_of d =
     (case get_system_base_config d of
        Inl e \<Rightarrow> limits_of default_base_config
      | Inr b \<Rightarrow> limits_of (normalize_base_config b))"

definition agent_sync_execution_ttl :: "runtime_limits \<Rightarrow> gotime" where
  "agent_sync_execution_ttl l = rl_agent_connection_timeout l + rl_agent_full_sync_timeout l + minutes 1"

definition refresh_task_lock_ttl :: "db \<Rightarrow> gotime" where
  "refresh_task_lock_ttl d =
     (let ttl = agent_sync_execution_ttl (runtime_limits_of d) in
      if ttl \<le> minutes 1 then minutes 2 else ttl)"

definition health_check_interval :: "db \<Rightarrow> gotime" where
  "health_check_interval d =
     (case get_system_base_config d of
        Inl e \<Rightarrow> minutes (bc_health_interval_minutes default_base_config)
      | Inr b \<Rightarrow> minutes (bc_health_interval_minutes (normalize_base_config b)))"

subsection \<open>Synchronisation marks\<close>

definition agent_sync_runtime_key :: "string \<Rightarrow> string" where
  "agent_sync_runtime_key sid = ''zonelease:runtime:agent-sync:'' @ trim_space sid"

definition agent_sync_lock_key :: "string \<Rightarrow> string" where
  "agent_sync_lock_key sid = ''zonelease:lock:agent-sync:'' @ trim_space sid"

definition refresh_task_runtime_ttl :: gotime where
  "refresh_task_runtime_ttl = minutes 30"

definition mark_agent_sync_running :: "string \<Rightarrow> server \<Rightarrow> gotime \<Rightarrow> redis \<Rightarrow> redis" where
  "mark_agent_sync_running payload s ttl r =
     (if trim_space (sv_id s) = [] then r
      else snd (rt_set (agent_sync_runtime_key (sv_id s)) payload
             (if ttl \<le> 0 then refresh_task_runtime_ttl else ttl) r))"

definition clear_agent_sync_running :: "string \<Rightarrow> redis \<Rightarrow> redis" where
  "clear_agent_sync_running sid r =
     (if trim_space sid = [] then r else snd (rt_delete (agent_sync_runtime_key sid) r))"

definition is_agent_sync_running :: "(string \<Rightarrow> bool) \<Rightarrow> string \<Rightarrow> redis \<Rightarrow> bool" where
  "is_agent_sync_running json_ok sid r =
     (if trim_space sid = [] then False
      else case rt_get_json json_ok (agent_sync_runtime_key sid) r of Inl e \<Rightarrow> False | Inr found \<Rightarrow> found)"

definition ensure_agent_not_syncing ::
    "(string \<Rightarrow> bool) \<Rightarrow> string \<Rightarrow> ('w app \<Rightarrow> 'a response \<times> 'w app) \<Rightarrow> 'w app \<Rightarrow> 'a response \<times> 'w app" where
  "ensure_agent_not_syncing json_ok sid k s =
     (if is_agent_sync_running json_ok sid (ap_redis s) then (Fail 409 ''agent_sync_running'', s) else k s)"

subsection \<open>Steps on the whole state\<close>

definition app_begin :: "op_target \<Rightarrow> 'w app \<Rightarrow> 'w app" where
  "app_begin t s = s\<lparr>ap_sched := op_begin t (ap_sched s)\<rparr>"

definition app_finish :: "op_target \<Rightarrow> 'w app \<Rightarrow> 'w app" where
  "app_finish t s = s\<lparr>ap_sched := op_finish (operation_refresh_delay (ap_db s)) t (ap_sched s)\<rparr>"

definition app_mark :: "op_target \<Rightarrow> 'w app \<Rightarrow> 'w app" where
  "app_mark t s = s\<lparr>ap_sched := mark_dirty (operation_refresh_delay (ap_db s)) t (ap_sched s)\<rparr>"

text \<open>\<open>finish := r.refresh.begin(t); defer finish()\<close> around the rest of a handler.\<close>

definition with_operation :: "op_target \<Rightarrow> ('w app \<Rightarrow> 'a \<times> 'w app) \<Rightarrow> 'w app \<Rightarrow> 'a \<times> 'w app" where
  "with_operation t k s = (case k (app_begin t s) of (r, s') \<Rightarrow> (r, app_finish t s'))"

definition app_store :: "(db \<Rightarrow> store_error + db) \<Rightarrow> 'w app \<Rightarrow> 'w app" where
  "app_store f s = s\<lparr>ap_db := drop_err (ap_db s) (f (ap_db s))\<rparr>"

definition app_audit :: "caller \<Rightarrow> string \<Rightarrow> string \<Rightarrow> string \<Rightarrow> metadata \<Rightarrow> 'w app \<Rightarrow> 'w app" where
  "app_audit c action target modname m s = s\<lparr>ap_db := audit c action target modname ''success'' m (ap_db s)\<rparr>"

definition app_call ::
    "('w \<Rightarrow> (agent_error + 'a) \<times> 'w) \<Rightarrow> 'w app \<Rightarrow> (agent_error + 'a) \<times> 'w app" where
  "app_call f s = (case f (ap_world s) of (r, w) \<Rightarrow> (r, s\<lparr>ap_world := w\<rparr>))"

subsection \<open>The delays are usable\<close>

definition limits_positive :: "base_config \<Rightarrow> bool" where
  "limits_positive b \<longleftrightarrow> 0 < bc_operation_timeout_seconds b \<and> 0 < bc_refresh_delay_seconds b \<and>
     0 < bc_health_interval_minutes b \<and> 0 < bc_sync_concurrency b \<and> 0 < bc_dns_record_concurrency b \<and>
     0 < bc_dhcp_scope_concurrency b \<and> 0 < bc_offline_failure_count b \<and> 0 < bc_health_concurrency b \<and>
     0 < bc_connection_timeout_seconds b \<and> 0 < bc_full_sync_timeout_seconds b"

lemma usable_limits: "usable_base_config b \<Longrightarrow> limits_positive b"
  by (simp add: usable_base_config_def limits_positive_def)

lemma seconds_pos: "0 < seconds n \<longleftrightarrow> 0 < n"
  by (simp add: seconds_def nanos_per_second_def zero_less_mult_iff)

lemma minutes_pos: "0 < minutes n \<longleftrightarrow> 0 < n"
  by (simp add: minutes_def seconds_pos)

lemma refresh_lock_ttl_bound:
  "0 < rl_agent_connection_timeout (runtime_limits_of d) \<Longrightarrow> 0 < rl_agent_full_sync_timeout (runtime_limits_of d) \<Longrightarrow>
   rl_agent_connection_timeout (runtime_limits_of d) + rl_agent_full_sync_timeout (runtime_limits_of d)
     < refresh_task_lock_ttl d"
  using minutes_pos [of 1] by (simp add: refresh_task_lock_ttl_def agent_sync_execution_ttl_def Let_def)

lemma limits_of_some:
  obtains b where "limits_positive b" "runtime_limits_of d = limits_of b"
proof -
  have "limits_positive (normalize_base_config b)" for b by (rule usable_limits [OF normalize_usable])
  moreover have "limits_positive default_base_config" by (simp add: limits_positive_def default_base_config_def)
  ultimately show ?thesis
    using that unfolding runtime_limits_of_def by (cases "get_system_base_config d") auto
qed

lemma timeouts_positive:
  "0 < rl_agent_connection_timeout (runtime_limits_of d)" "0 < rl_agent_full_sync_timeout (runtime_limits_of d)"
  by (rule limits_of_some [of d]; simp add: limits_of_def limits_positive_def seconds_pos)+

lemma sync_ttl_pos: "0 < agent_sync_execution_ttl (runtime_limits_of d)"
  unfolding agent_sync_execution_ttl_def using timeouts_positive [of d] minutes_pos [of 1] by linarith

text \<open>Whatever the stored configuration holds, also none or nonsense, the limits of a synchronisation
  run are positive, the refresh delay and the health check interval are positive, and the lock of a
  refresh task outlives its connection and full sync timeouts.\<close>

theorem configured_limits_positive:
  "0 < agent_operation_timeout d \<and> 0 < operation_refresh_delay d \<and> 0 < health_check_interval d \<and>
   1 \<le> rl_sync_concurrency (runtime_limits_of d) \<and> 1 \<le> rl_dns_record_concurrency (runtime_limits_of d) \<and>
   1 \<le> rl_dhcp_scope_concurrency (runtime_limits_of d) \<and> 1 \<le> rl_agent_offline_failure_count (runtime_limits_of d) \<and>
   1 \<le> rl_agent_health_concurrency (runtime_limits_of d) \<and>
   rl_agent_connection_timeout (runtime_limits_of d) + rl_agent_full_sync_timeout (runtime_limits_of d)
     < refresh_task_lock_ttl d"
proof -
  have u: "limits_positive (normalize_base_config b)" for b
    by (rule usable_limits [OF normalize_usable])
  have d: "limits_positive default_base_config"
    by (simp add: limits_positive_def default_base_config_def)
  obtain b where b: "limits_positive b" "runtime_limits_of d = limits_of b" by (rule limits_of_some)
  have "rl_agent_connection_timeout (runtime_limits_of d) + rl_agent_full_sync_timeout (runtime_limits_of d)
      < refresh_task_lock_ttl d"
    by (rule refresh_lock_ttl_bound) (rule timeouts_positive)+
  moreover have "0 < agent_operation_timeout d \<and> 0 < operation_refresh_delay d \<and> 0 < health_check_interval d"
    using u d by (auto simp: agent_operation_timeout_def operation_refresh_delay_def health_check_interval_def
        limits_positive_def seconds_pos minutes_pos split: sum.splits)
  ultimately show ?thesis
    using b by (simp add: limits_of_def limits_positive_def int_one_le_iff_zero_less)
qed

subsection \<open>The contract of a request\<close>

text \<open>What every handler on this state promises: whatever it answers, each operation it began has
  finished again; a refused request leaves the database as it was and, unless the agent itself
  failed (502), did not reach the agent.\<close>

definition same_open :: "'w app \<Rightarrow> 'w app \<Rightarrow> bool" where
  "same_open s s' \<longleftrightarrow> (\<forall>k. k \<noteq> [] \<longrightarrow> active_of (ap_sched s') k = active_of (ap_sched s) k)"

definition request_ok :: "'w app \<Rightarrow> 'a response \<times> 'w app \<Rightarrow> bool" where
  "request_ok s rs \<longleftrightarrow> same_open s (snd rs) \<and>
     (\<forall>code msg. fst rs = Fail code msg \<longrightarrow>
        ap_db (snd rs) = ap_db s \<and> (code \<noteq> 502 \<longrightarrow> ap_world (snd rs) = ap_world s))"

named_theorems request_intro

lemma request_refused [simp]: "request_ok s (Fail code msg, s)"
  by (simp add: request_ok_def same_open_def)

lemma request_done [simp]: "request_ok s (Done code x, s') \<longleftrightarrow> same_open s s'"
  by (simp add: request_ok_def)

lemma same_open_refl [simp]: "same_open s s" by (simp add: same_open_def)

lemma same_open_trans [trans]: "same_open s s1 \<Longrightarrow> same_open s1 s2 \<Longrightarrow> same_open s s2"
  by (simp add: same_open_def)

lemma same_open_steps [simp]:
  "same_open s (app_store f s') \<longleftrightarrow> same_open s s'" "same_open s (app_audit c a tgt m md s') \<longleftrightarrow> same_open s s'"
  "same_open s (app_mark t s') \<longleftrightarrow> same_open s s'"
  by (simp_all add: same_open_def app_store_def app_audit_def app_mark_def active_of_steps)

lemma app_call_shape: "app_call f s = (r, s') \<Longrightarrow> s' = s\<lparr>ap_world := snd (f (ap_world s))\<rparr> \<and> r = fst (f (ap_world s))"
  by (auto simp: app_call_def split: prod.splits)

lemma app_call_fields:
  "app_call f s = (r, s') \<Longrightarrow> ap_db s' = ap_db s \<and> ap_sched s' = ap_sched s \<and> ap_redis s' = ap_redis s"
  by (auto dest: app_call_shape)

lemma same_open_call: "app_call f s = (r, s') \<Longrightarrow> same_open s s'"
  by (auto simp: same_open_def dest: app_call_fields)

lemma request_agent_failed: "app_call f s = (r, s') \<Longrightarrow> request_ok s (Fail 502 msg, s')"
  by (auto simp: request_ok_def dest: same_open_call app_call_fields)

lemma request_permission [request_intro]:
  "(\<And>s. request_ok s (k s)) \<Longrightarrow> request_ok s (ensure_permission c p k s)"
  by (simp add: ensure_permission_def)

lemma request_not_syncing [request_intro]:
  "request_ok s (k s) \<Longrightarrow> request_ok s (ensure_agent_not_syncing json_ok sid k s)"
  by (simp add: ensure_agent_not_syncing_def)

lemma request_operation [request_intro]:
  assumes "\<And>s. request_ok s (k s)"
  shows "request_ok s (with_operation t k s)"
proof -
  obtain r s' where k: "k (app_begin t s) = (r, s')" by fastforce
  with assms [of "app_begin t s"] show ?thesis
    by (auto simp: with_operation_def request_ok_def same_open_def app_begin_def app_finish_def active_of_steps)
qed

text \<open>The weaker promise alone: a handler that finishes what it begins leaks no operation over any sequence
  of requests.\<close>

locale balanced_handler =
  fixes handle :: "'q \<Rightarrow> 'w app \<Rightarrow> 'a response \<times> 'w app"
  assumes balanced: "same_open s (snd (handle q s))"
begin

lemma requests_keep_open: "same_open s (fold (\<lambda>q s. snd (handle q s)) qs s)"
proof (induction qs arbitrary: s)
  case (Cons q qs)
  from same_open_trans [OF balanced Cons.IH] show ?case by simp
qed simp

end

locale request_handler =
  fixes handle :: "'q \<Rightarrow> 'w app \<Rightarrow> 'a response \<times> 'w app"
  assumes contract: "request_ok s (handle q s)"
begin

lemma refused_keeps_db: "handle q s = (Fail code msg, s') \<Longrightarrow> ap_db s' = ap_db s"
  using contract [of s q] by (simp add: request_ok_def)

lemma refused_before_agent: "handle q s = (Fail code msg, s') \<Longrightarrow> code \<noteq> 502 \<Longrightarrow> ap_world s' = ap_world s"
  using contract [of s q] by (simp add: request_ok_def)

end

sublocale request_handler \<subseteq> balanced_handler handle
  by unfold_locales (use contract in \<open>simp add: request_ok_def\<close>)

end
