(* ===== verification/ZL_Dns_Handlers.thy ===== *)
theory ZL_Dns_Handlers
  imports ZL_Dns ZL_App
begin

text \<open>
  Creating, deleting and updating a DNS record, \<open>api/router/resources_dns_records.go\<close>: the agent is
  changed first, then the snapshot in the database, and the zones concerned are marked for a refresh.
  An agent without the batch paths answers 404 and is called again on the older paths. The
  parameter \<open>net\<close> is the network of theory \<open>ZL_Agent\<close>; \<open>json_ok\<close> decodes Redis values.
\<close>

subsection \<open>Calls on the agent\<close>

definition zone_records_path :: "string \<Rightarrow> string" where
  "zone_records_path zname = ''/dns/zones/'' @ path_escape zname @ ''/records''"

definition create_dns_record_on_agent ::
    "'w network \<Rightarrow> server \<Rightarrow> string \<Rightarrow> dns_record \<Rightarrow> (agent_data \<Rightarrow> agent_error + 'a) \<Rightarrow> 'w \<Rightarrow>
     (agent_error + 'a) \<times> 'w" where
  "create_dns_record_on_agent net srv zname r dst w =
     (case agent_call net MPost srv ''/dns/records/create'' (RecordBody zname r) dst w of
        (Inr v, w1) \<Rightarrow> (Inr v, w1)
      | (Inl e, w1) \<Rightarrow>
          if \<not> agent_not_found e then (Inl e, w1)
          else agent_call net MPost srv (zone_records_path zname) (PlainRecord r) dst w1)"

definition delete_dns_record_on_agent ::
    "'w network \<Rightarrow> server \<Rightarrow> string \<Rightarrow> dns_record \<Rightarrow> 'w \<Rightarrow> (agent_error + unit) \<times> 'w" where
  "delete_dns_record_on_agent net srv zname r w =
     (case agent_call net MPost srv ''/dns/records/delete'' (RecordBody zname r) as_object w of
        (Inr v, w1) \<Rightarrow> (Inr v, w1)
      | (Inl e, w1) \<Rightarrow>
          if \<not> agent_not_found e then (Inl e, w1)
          else let path = zone_records_path zname @ ''/'' @ path_escape (r_type r) @ ''/'' @
                 path_escape (r_name r) @ ''?value='' @ query_escape (r_value r) @
                 (if r_create_ptr r then ''&createPtr=true'' else [])
            in agent_call net MDelete srv path NoBody as_object w1)"

definition update_dns_record_on_agent ::
    "'w network \<Rightarrow> server \<Rightarrow> string \<Rightarrow> dns_record \<Rightarrow> dns_record \<Rightarrow> 'w \<Rightarrow> (agent_error + string list) \<times> 'w" where
  "update_dns_record_on_agent net srv zname old new w =
     (case agent_call net MPost srv ''/dns/records/update'' (UpdateBody zname old new) as_outcome w of
        (Inr v, w1) \<Rightarrow> (Inr v, w1)
      | (Inl e, w1) \<Rightarrow>
          if \<not> agent_not_found e then (Inl e, w1)
          else case delete_dns_record_on_agent net srv zname old w1 of
            (Inl e2, w2) \<Rightarrow> (Inl e2, w2)
          | (Inr _, w2) \<Rightarrow>
              (case create_dns_record_on_agent net srv zname new as_outcome w2 of
                 (Inr v, w3) \<Rightarrow> (Inr v, w3)
               | (Inl e3, w3) \<Rightarrow> (Inl e3, snd (create_dns_record_on_agent net srv zname old as_object w3))))"

definition fetch_dns_records_from_agent ::
    "'w network \<Rightarrow> server \<Rightarrow> string \<Rightarrow> 'w \<Rightarrow> (agent_error + dns_record list) \<times> 'w" where
  "fetch_dns_records_from_agent net srv zname w =
     (case agent_call net MPost srv ''/dns/records/query'' (ZoneBody zname) as_records w of
        (Inr v, w1) \<Rightarrow> (Inr v, w1)
      | (Inl e, w1) \<Rightarrow>
          if \<not> agent_not_found e then (Inl e, w1)
          else agent_call net MGet srv (zone_records_path zname) NoBody as_records w1)"

record dns_response =
  dr_record :: dns_record
  dr_related :: "dns_record list"
  dr_warnings :: "dns_warning list"

definition app_upsert_record :: "gotime \<Rightarrow> dns_record \<Rightarrow> 'w app \<Rightarrow> dns_record \<times> 'w app" where
  "app_upsert_record now r s =
     (case upsert_dns_record now r (ap_db s) of (r', res) \<Rightarrow> (r', s\<lparr>ap_db := drop_err (ap_db s) res\<rparr>))"

text \<open>Marking the zone of a related record: the identifier decodes, or nothing is marked.\<close>

definition mark_zone_of :: "string \<Rightarrow> string \<Rightarrow> 'w app \<Rightarrow> 'w app" where
  "mark_zone_of sid zid s =
     (case decode_dns_zone_id zid of
        None \<Rightarrow> s
      | Some (_, zname) \<Rightarrow> app_mark (dns_zone_refresh_target sid zid zname) s)"

subsection \<open>Create\<close>

text \<open>The handler from \<open>validateDNSRecordCreate\<close> on, inside the begun operation.\<close>

definition create_record_steps ::
    "'w network \<Rightarrow> caller \<Rightarrow> server \<Rightarrow> string \<Rightarrow> string \<Rightarrow> dns_record \<Rightarrow> 'w app \<Rightarrow> dns_response response \<times> 'w app" where
  "create_record_steps net c srv sid zname body s =
     (let now = ca_now c in
      if validate_dns_record_create (ap_db s) body \<noteq> None then (Fail 409 ''dns_record_conflict'', s)
      else case dns_record_create_warnings (ap_db s) body sid of
        Inl e \<Rightarrow> (Fail 500 ''dns_record_warning_failed'', s)
      | Inr preflight \<Rightarrow>
          (let agent_body = (if preflight \<noteq> [] then body\<lparr>r_create_ptr := False\<rparr> else body) in
           case app_call (create_dns_record_on_agent net srv zname agent_body as_outcome) s of
             (Inl e, s1) \<Rightarrow> (Fail 502 ''agent_create_record_failed'', s1)
           | (Inr ws, s1) \<Rightarrow>
               (let agent_ws = normalize_dns_record_agent_warnings ws;
                    body1 = body\<lparr>r_id := dns_record_id sid zname (r_type body) (r_name body) (r_value body)\<rparr>;
                    (body2, s2) = app_upsert_record now body1 s1;
                    (related, s3) =
                      (if preflight = [] \<and> agent_ws = [] \<and> equal_fold (r_type body2) ''A'' \<and> r_create_ptr body2 then
                         (case ptr_record_for_a_record sid zname body2 of
                            None \<Rightarrow> ([], s2)
                          | Some p \<Rightarrow> (case app_upsert_record now p s2 of (p', s3) \<Rightarrow> ([p'], s3)))
                       else ([], s2));
                    s4 = app_audit c ''Created DNS record'' (r_name body2) ''DNS''
                      (dns_audit_metadata srv (r_zone_id body2) zname
                        [(''record'', r_name body2), (''type'', r_type body2), (''value'', r_value body2),
                         (''ttl'', itoa (nat (r_ttl body2)))]) s3;
                    s5 = app_mark (dns_zone_refresh_target sid (r_zone_id body) zname) s4;
                    s6 = fold (\<lambda>p. mark_zone_of sid (r_zone_id p)) related s5
                in (Done 201 \<lparr>dr_record = body2, dr_related = related, dr_warnings = preflight @ agent_ws\<rparr>, s6))))"

definition create_dns_record_handler ::
    "'w network \<Rightarrow> (string \<Rightarrow> bool) \<Rightarrow> caller \<Rightarrow> dns_record option \<Rightarrow> 'w app \<Rightarrow> dns_response response \<times> 'w app" where
  "create_dns_record_handler net json_ok c req = ensure_permission c ''dns.manage'' (\<lambda>s.
     case req of
       None \<Rightarrow> (Fail 400 ''invalid_request'', s)
     | Some body \<Rightarrow>
         if trim_space (r_zone_id body) = [] \<or> trim_space (r_name body) = [] \<or> trim_space (r_type body) = [] \<or>
            trim_space (r_value body) = [] then (Fail 400 ''invalid_record'', s)
         else case decode_dns_zone_id (r_zone_id body) of
           None \<Rightarrow> (Fail 400 ''invalid_zone_id'', s)
         | Some (sid, zname) \<Rightarrow>
             (case get_server (ap_db s) sid of
                Inl e \<Rightarrow> (Fail 404 ''server_not_found'', s)
              | Inr srv \<Rightarrow>
                  ensure_agent_not_syncing json_ok (sv_id srv)
                    (with_operation (dns_zone_refresh_target sid (r_zone_id body) zname)
                      (create_record_steps net c srv sid zname body)) s))"

subsection \<open>Delete\<close>

definition delete_ptr_part ::
    "string \<Rightarrow> string \<Rightarrow> dns_record \<Rightarrow> dns_record option \<Rightarrow> 'w app \<Rightarrow> 'w app" where
  "delete_ptr_part sid zname old related s =
     (let expected = (if related = None \<and> r_create_ptr old then ptr_record_for_a_record sid zname old else None);
          ptr = (case related of Some p \<Rightarrow> p | None \<Rightarrow> (case expected of Some p \<Rightarrow> p | None \<Rightarrow> empty_record));
          reverse_exists =
            (case expected of
               None \<Rightarrow> False
             | Some p \<Rightarrow> (case decode_dns_zone_id (r_zone_id p) of
                 None \<Rightarrow> False
               | Some (_, rz) \<Rightarrow> dns_reverse_zone_exists (ap_db s) sid rz = Inr True));
          s1 = (if related \<noteq> None then app_store (delete_dns_record (r_id ptr)) s else s)
      in if should_refresh_deleted_a_record_ptr_zone (related \<noteq> None) (r_create_ptr old) reverse_exists
         then mark_zone_of sid (r_zone_id ptr) s1 else s1)"

definition delete_record_steps ::
    "'w network \<Rightarrow> caller \<Rightarrow> server \<Rightarrow> string \<Rightarrow> string \<Rightarrow> string \<Rightarrow> string \<Rightarrow> string \<Rightarrow> string \<Rightarrow> 'w app \<Rightarrow>
     unit response \<times> 'w app" where
  "delete_record_steps net c srv rid sid zname rtype rname rvalue s =
     (case get_dns_record (ap_db s) rid of
        Inl e \<Rightarrow> (Fail (status_from_err e) ''record_not_found'', s)
      | Inr old \<Rightarrow>
          (let related = related_ptr_record_for_dns_record (ap_db s) sid zname old;
               is_a = equal_fold rtype ''A'';
               agent_record = empty_record\<lparr>r_name := dns_record_agent_name zname rtype rname, r_type := rtype,
                 r_value := rvalue, r_ttl := r_ttl old,
                 r_create_ptr := is_a \<and> (r_create_ptr old \<or> related \<noteq> None)\<rparr>
           in case app_call (delete_dns_record_on_agent net srv zname agent_record) s of
                (Inl e, s1) \<Rightarrow> (Fail 502 ''agent_delete_record_failed'', s1)
              | (Inr _, s1) \<Rightarrow>
                  (let s2 = app_audit c ''Deleted DNS record'' rname ''DNS''
                         (dns_audit_metadata srv (dns_zone_id sid zname) zname
                           [(''record'', rname), (''type'', rtype), (''value'', rvalue)]) s1;
                       s3 = app_store (delete_dns_record rid) s2;
                       s4 = (if is_a then delete_ptr_part sid zname old related s3 else s3);
                       s5 = app_mark (dns_zone_refresh_target sid (dns_zone_id sid zname) zname) s4
                   in (Done 200 (), s5))))"

definition delete_dns_record_handler ::
    "'w network \<Rightarrow> (string \<Rightarrow> bool) \<Rightarrow> caller \<Rightarrow> string \<Rightarrow> 'w app \<Rightarrow> unit response \<times> 'w app" where
  "delete_dns_record_handler net json_ok c path = ensure_permission c ''dns.manage'' (\<lambda>s.
     let rid = path_id path ''/api/dns/records/'' in
     if rid = [] then (Fail 404 ''not_found'', s)
     else case decode_dns_record_id rid of
       None \<Rightarrow> (Fail 400 ''invalid_record_id'', s)
     | Some (sid, zname, rtype, rname, rvalue) \<Rightarrow>
         if \<not> dns_record_manageable_in_zone zname rtype then (Fail 400 ''unsupported_record_type'', s)
         else case get_server (ap_db s) sid of
           Inl e \<Rightarrow> (Fail 404 ''server_not_found'', s)
         | Inr srv \<Rightarrow>
             ensure_agent_not_syncing json_ok (sv_id srv)
               (with_operation (dns_zone_refresh_target sid (dns_zone_id sid zname) zname)
                 (delete_record_steps net c srv rid sid zname rtype rname rvalue)) s)"

subsection \<open>Update\<close>

record dns_update_request =
  du_value :: string
  du_create_ptr :: "bool option"

text \<open>\<open>newRecord\<close>: only the value and, for addresses, the PTR flag change; the identifier follows.\<close>

definition edited_record ::
    "string \<Rightarrow> string \<Rightarrow> string \<Rightarrow> string \<Rightarrow> string \<Rightarrow> bool option \<Rightarrow> dns_record \<Rightarrow> dns_record" where
  "edited_record sid zname rtype rname nv flag old =
     old\<lparr>r_value := nv,
         r_create_ptr := (case flag of
             Some b \<Rightarrow> if equal_fold rtype ''A'' \<or> equal_fold rtype ''AAAA'' then b else r_create_ptr old
           | None \<Rightarrow> r_create_ptr old),
         r_id := dns_record_id sid zname rtype rname nv\<rparr>"

text \<open>A call on the PTR record of an unchanged address, in an operation of its own on the reverse zone
  which ends with the handler: the warning, the open operation and the new state.\<close>

definition update_ptr_call ::
    "('w network \<Rightarrow> server \<Rightarrow> string \<Rightarrow> dns_record \<Rightarrow> 'w \<Rightarrow> (agent_error + unit) \<times> 'w) \<Rightarrow> dns_warning \<Rightarrow>
     'w network \<Rightarrow> server \<Rightarrow> string \<Rightarrow> string \<Rightarrow> dns_record \<Rightarrow> 'w app \<Rightarrow>
     dns_warning list \<times> op_target list \<times> 'w app" where
  "update_ptr_call call failed net srv sid zname r s =
     (case ptr_record_for_a_record sid zname r of
        None \<Rightarrow> ([], [], s)
      | Some p \<Rightarrow>
          (case decode_dns_zone_id (r_zone_id p) of
             None \<Rightarrow> ([], [], s)
           | Some (_, rz) \<Rightarrow>
               (let t = dns_zone_refresh_target sid (r_zone_id p) rz;
                    p1 = p\<lparr>r_name := dns_record_agent_name rz ''PTR'' (r_name p)\<rparr>
                in case app_call (call net srv rz p1) (app_begin t s) of
                     (Inl e, s1) \<Rightarrow> ([failed], [t], s1)
                   | (Inr _, s1) \<Rightarrow> ([], [t], s1))))"

definition update_agent_part ::
    "'w network \<Rightarrow> server \<Rightarrow> string \<Rightarrow> string \<Rightarrow> string \<Rightarrow> string \<Rightarrow> dns_record \<Rightarrow> dns_record \<Rightarrow> bool \<Rightarrow> bool \<Rightarrow> 'w app \<Rightarrow>
     (agent_error + dns_warning list \<times> op_target list) \<times> 'w app" where
  "update_agent_part net srv sid zname rtype rname old new delete_ptr create_ptr s =
     (let changed = (\<not> equal_fold (trim_space (r_value old)) (trim_space (r_value new)));
          ptr_changed = (r_create_ptr old \<noteq> r_create_ptr new);
          aname = dns_record_agent_name zname rtype rname
      in if changed then
           (case app_call (update_dns_record_on_agent net srv zname
                   (old\<lparr>r_name := aname, r_create_ptr := delete_ptr\<rparr>)
                   (new\<lparr>r_name := aname, r_create_ptr := create_ptr\<rparr>)) s of
              (Inl e, s1) \<Rightarrow> (Inl e, s1)
            | (Inr ws, s1) \<Rightarrow> (Inr (normalize_dns_record_agent_warnings ws, []), s1))
         else
           (let (ws1, ts1, s1) = (if ptr_changed \<and> create_ptr
                  then update_ptr_call (\<lambda>n v z r. create_dns_record_on_agent n v z r as_object) PtrCreateFailed
                         net srv sid zname new s
                  else ([], [], s));
                (ws2, ts2, s2) = (if ptr_changed \<and> delete_ptr
                  then update_ptr_call delete_dns_record_on_agent PtrDeleteFailed net srv sid zname old s1
                  else ([], [], s1))
            in (Inr (ws1 @ ws2, ts2 @ ts1), s2)))"

text \<open>The zones to refresh are a Go map from zone to name; they are kept in order of insertion.\<close>

definition add_zone_of :: "string \<Rightarrow> string list \<Rightarrow> string list" where
  "add_zone_of zid zs = (if decode_dns_zone_id zid = None \<or> zid \<in> set zs then zs else zs @ [zid])"

definition update_snapshot_part ::
    "gotime \<Rightarrow> string \<Rightarrow> string \<Rightarrow> dns_record \<Rightarrow> dns_record \<Rightarrow> bool \<Rightarrow> bool \<Rightarrow> bool \<Rightarrow> 'w app \<Rightarrow>
     dns_record \<times> dns_record list \<times> string list \<times> 'w app" where
  "update_snapshot_part now sid zname old new delete_ptr create_ptr warned s =
     (let changed = (\<not> equal_fold (trim_space (r_value old)) (trim_space (r_value new)));
          ptr_changed = (r_create_ptr old \<noteq> r_create_ptr new);
          (zs1, s1) =
            (if delete_ptr \<and> (changed \<or> ptr_changed) then
               (case ptr_record_for_a_record sid zname old of
                  None \<Rightarrow> ([], s)
                | Some p \<Rightarrow> (add_zone_of (r_zone_id p) [], app_store (delete_dns_record (r_id p)) s))
             else ([], s));
          s2 = (if changed then app_store (delete_dns_record (r_id old)) s1 else s1);
          (new1, s3) = app_upsert_record now new s2
      in if \<not> warned \<and> create_ptr then
           (case ptr_record_for_a_record sid zname new1 of
              None \<Rightarrow> (new1, [], zs1, s3)
            | Some p \<Rightarrow> (case app_upsert_record now p s3 of
                (p', s4) \<Rightarrow> (new1, [p'], add_zone_of (r_zone_id p') zs1, s4)))
         else (new1, [], zs1, s3))"

definition update_record_steps ::
    "'w network \<Rightarrow> caller \<Rightarrow> server \<Rightarrow> string \<Rightarrow> string \<Rightarrow> string \<Rightarrow> string \<Rightarrow> string \<Rightarrow> string \<Rightarrow> bool option \<Rightarrow> 'w app \<Rightarrow>
     dns_response response \<times> 'w app" where
  "update_record_steps net c srv rid sid zname rtype rname nv flag s =
     (case get_dns_record (ap_db s) rid of
        Inl e \<Rightarrow> (Fail (status_from_err e) ''record_not_found'', s)
      | Inr old \<Rightarrow>
          (let new = edited_record sid zname rtype rname nv flag old;
               is_a = equal_fold rtype ''A'';
               delete_ptr = (is_a \<and> r_create_ptr old)
           in if validate_dns_record_update (ap_db s) old new \<noteq> None then (Fail 409 ''dns_record_conflict'', s)
              else case dns_record_create_warnings (ap_db s) new sid of
                Inl e \<Rightarrow> (Fail 500 ''dns_record_warning_failed'', s)
              | Inr preflight \<Rightarrow>
                  (let create_ptr = (is_a \<and> r_create_ptr new \<and> preflight = []) in
                   case update_agent_part net srv sid zname rtype rname old new delete_ptr create_ptr s of
                     (Inl e, s1) \<Rightarrow> (Fail 502 ''agent_update_record_failed'', s1)
                   | (Inr (ws, opened), s1) \<Rightarrow>
                       (let (new1, related, zs, s2) = update_snapshot_part (ca_now c) sid zname old new
                              delete_ptr create_ptr (ws \<noteq> []) s1;
                            s3 = app_audit c ''Updated DNS record'' rname ''DNS''
                              (dns_audit_metadata srv (dns_zone_id sid zname) zname
                                [(''record'', rname), (''type'', rtype), (''oldValue'', r_value old),
                                 (''newValue'', nv)]) s2;
                            s4 = app_mark (dns_zone_refresh_target sid (dns_zone_id sid zname) zname) s3;
                            s5 = fold (mark_zone_of sid) zs s4
                        in (Done 200 \<lparr>dr_record = new1, dr_related = related, dr_warnings = preflight @ ws\<rparr>,
                            fold app_finish opened s5)))))"

definition update_dns_record_handler ::
    "'w network \<Rightarrow> (string \<Rightarrow> bool) \<Rightarrow> caller \<Rightarrow> string \<Rightarrow> dns_update_request option \<Rightarrow> 'w app \<Rightarrow>
     dns_response response \<times> 'w app" where
  "update_dns_record_handler net json_ok c path req = ensure_permission c ''dns.manage'' (\<lambda>s.
     let rid = path_id path ''/api/dns/records/'' in
     if rid = [] then (Fail 404 ''not_found'', s)
     else case decode_dns_record_id rid of
       None \<Rightarrow> (Fail 400 ''invalid_record_id'', s)
     | Some (sid, zname, rtype, rname, _) \<Rightarrow>
         if \<not> dns_record_manageable_in_zone zname rtype then (Fail 400 ''unsupported_record_type'', s)
         else case req of
           None \<Rightarrow> (Fail 400 ''invalid_request'', s)
         | Some body \<Rightarrow>
             (let nv = trim_space (du_value body) in
              if nv = [] then (Fail 400 ''invalid_record'', s)
              else case get_server (ap_db s) sid of
                Inl e \<Rightarrow> (Fail 404 ''server_not_found'', s)
              | Inr srv \<Rightarrow>
                  ensure_agent_not_syncing json_ok (sv_id srv)
                    (with_operation (dns_zone_refresh_target sid (dns_zone_id sid zname) zname)
                      (update_record_steps net c srv rid sid zname rtype rname nv (du_create_ptr body))) s))"

subsection \<open>The contract of the three requests\<close>

lemma app_upsert_record_open:
  "app_upsert_record now r s = (r', s') \<Longrightarrow> same_open s0 s' \<longleftrightarrow> same_open s0 s"
  by (auto simp: app_upsert_record_def same_open_def split: prod.splits)

lemma mark_zone_of_open [simp]: "same_open s (mark_zone_of sid zid s') \<longleftrightarrow> same_open s s'"
  by (simp add: mark_zone_of_def split: option.split)

lemma mark_zones_open [simp]: "same_open s (fold (\<lambda>x. mark_zone_of sid (f x)) xs s') \<longleftrightarrow> same_open s s'"
  by (induction xs arbitrary: s') simp_all

lemma create_steps_ok: "request_ok s (create_record_steps net c srv sid zname body s)"
  unfolding create_record_steps_def Let_def
  by (auto split: sum.splits prod.splits option.splits if_splits
      intro: request_agent_failed dest: same_open_call app_upsert_record_open [where ?s0.0 = s])

lemma delete_ptr_part_open [simp]: "same_open s (delete_ptr_part sid zname old related s') \<longleftrightarrow> same_open s s'"
  by (simp add: delete_ptr_part_def Let_def)

lemma delete_steps_ok: "request_ok s (delete_record_steps net c srv rid sid zname rtype rname rvalue s)"
  unfolding delete_record_steps_def Let_def
  by (auto split: sum.splits prod.splits if_splits intro: request_agent_failed dest: same_open_call)

text \<open>The operations on reverse zones are open until the handler returns.\<close>

definition opened_by :: "op_target list \<Rightarrow> 'w app \<Rightarrow> 'w app \<Rightarrow> bool" where
  "opened_by ts s s' \<longleftrightarrow> (\<forall>k. k \<noteq> [] \<longrightarrow>
     active_of (ap_sched s') k = active_of (ap_sched s) k + length (filter (\<lambda>t. target_key t = k) ts))"

lemma opened_by_steps [simp]:
  "opened_by [] s s' \<longleftrightarrow> same_open s s'"
  "opened_by ts s (app_store f s') \<longleftrightarrow> opened_by ts s s'" "opened_by ts s (app_audit c a tgt m md s') \<longleftrightarrow> opened_by ts s s'"
  "opened_by ts s (app_mark t s') \<longleftrightarrow> opened_by ts s s'"
  by (simp_all add: opened_by_def same_open_def app_store_def app_audit_def app_mark_def active_of_steps)

lemma opened_by_zones [simp]: "opened_by ts s (fold (mark_zone_of sid) zs s') \<longleftrightarrow> opened_by ts s s'"
  by (induction zs arbitrary: s') (simp_all add: mark_zone_of_def split: option.split)

lemma opened_by_call: "app_call f s1 = (r, s2) \<Longrightarrow> opened_by ts s s2 \<longleftrightarrow> opened_by ts s s1"
  by (auto simp: opened_by_def dest: app_call_fields)

lemma opened_by_upsert: "app_upsert_record now r s1 = (r', s2) \<Longrightarrow> opened_by ts s s2 \<longleftrightarrow> opened_by ts s s1"
  by (auto simp: app_upsert_record_def opened_by_def split: prod.splits)

lemma opened_by_finish: "opened_by ts s s' \<Longrightarrow> same_open s (fold app_finish ts s')"
proof (induction ts arbitrary: s')
  case (Cons t ts)
  then have "opened_by ts s (app_finish t s')"
    by (auto simp: opened_by_def app_finish_def active_of_steps)
  from Cons.IH [OF this] show ?case by simp
qed simp

lemma opened_by_trans: "opened_by ts s s1 \<Longrightarrow> opened_by us s1 s2 \<Longrightarrow> opened_by (us @ ts) s s2"
  by (simp add: opened_by_def)

lemma update_ptr_call_open: "update_ptr_call call failed net srv sid zname r s = (ws, ts, s') \<Longrightarrow> opened_by ts s s'"
  by (auto simp: update_ptr_call_def Let_def opened_by_call split: option.splits prod.splits sum.splits)
     (auto simp: opened_by_def app_begin_def active_of_steps)

lemma update_agent_part_open:
  "update_agent_part net srv sid zname rtype rname old new dp cp s = (Inr (ws, ts), s') \<Longrightarrow> opened_by ts s s'"
  unfolding update_agent_part_def Let_def
  by (auto split: if_splits prod.splits sum.splits dest!: update_ptr_call_open same_open_call
      intro: opened_by_trans [where ts = "[]", simplified] opened_by_trans)

lemma update_agent_part_failed:
  "update_agent_part net srv sid zname rtype rname old new dp cp s = (Inl e, s') \<Longrightarrow> request_ok s (Fail 502 msg, s')"
  unfolding update_agent_part_def Let_def
  by (auto split: if_splits prod.splits sum.splits intro: request_agent_failed)

lemma update_snapshot_open:
  "update_snapshot_part now sid zname old new dp cp warned s1 = (new1, related, zs, s2) \<Longrightarrow>
   opened_by ts s s2 \<longleftrightarrow> opened_by ts s s1"
  unfolding update_snapshot_part_def Let_def
  by (auto split: if_splits prod.splits option.splits dest!: opened_by_upsert [where ts = ts and s = s])

lemma update_steps_ok: "request_ok s (update_record_steps net c srv rid sid zname rtype rname nv flag s)"
  unfolding update_record_steps_def Let_def
  by (auto split: sum.splits prod.splits if_splits intro: update_agent_part_failed intro!: opened_by_finish
      dest!: update_agent_part_open update_snapshot_open)

lemma create_handler_ok: "request_ok s (create_dns_record_handler net json_ok c req s)"
  unfolding create_dns_record_handler_def
  by (rule request_permission) (simp add: request_not_syncing request_operation create_steps_ok split: option.split sum.split prod.split)

lemma delete_handler_ok: "request_ok s (delete_dns_record_handler net json_ok c path s)"
  unfolding delete_dns_record_handler_def Let_def
  by (rule request_permission) (simp add: request_not_syncing request_operation delete_steps_ok split: option.split sum.split prod.split)

lemma update_handler_ok: "request_ok s (update_dns_record_handler net json_ok c path req s)"
  unfolding update_dns_record_handler_def Let_def
  by (rule request_permission) (simp add: request_not_syncing request_operation update_steps_ok split: option.split sum.split prod.split)

text \<open>The three requests as one, their answers reduced to status and code.\<close>

definition plain_answer :: "'a response \<times> 's \<Rightarrow> unit response \<times> 's" where
  "plain_answer rs = (case rs of (Fail code msg, s) \<Rightarrow> (Fail code msg, s) | (Done code _, s) \<Rightarrow> (Done code (), s))"

datatype dns_request =
    CreateRecord "dns_record option"
  | DeleteRecord string
  | UpdateRecord string "dns_update_request option"

definition handle_dns_request ::
    "'w network \<Rightarrow> (string \<Rightarrow> bool) \<Rightarrow> caller \<Rightarrow> dns_request \<Rightarrow> 'w app \<Rightarrow> unit response \<times> 'w app" where
  "handle_dns_request net json_ok c q s =
     (case q of
        CreateRecord body \<Rightarrow> plain_answer (create_dns_record_handler net json_ok c body s)
      | DeleteRecord path \<Rightarrow> plain_answer (delete_dns_record_handler net json_ok c path s)
      | UpdateRecord path body \<Rightarrow> plain_answer (update_dns_record_handler net json_ok c path body s))"

lemma request_plain [simp]: "request_ok s (plain_answer rs) \<longleftrightarrow> request_ok s rs"
  by (cases rs, cases "fst rs") (auto simp: plain_answer_def request_ok_def)

interpretation dns_requests: request_handler "handle_dns_request net json_ok c"
  by unfold_locales
     (simp add: handle_dns_request_def create_handler_ok delete_handler_ok update_handler_ok split: dns_request.split)

subsection \<open>What a successful create leaves behind\<close>

definition marked :: "string \<Rightarrow> 'w app \<Rightarrow> bool" where
  "marked k s \<longleftrightarrow> (\<exists>st. sd_targets (ap_sched s) k = Some st \<and> os_dirty st)"

lemma marked_mark [simp]: "marked k (app_mark t s) \<longleftrightarrow> (target_key t = k \<and> k \<noteq> []) \<or> marked k s"
  by (auto simp: marked_def app_mark_def mark_dirty_def arm_def state_for_def Let_def split: option.splits)

lemma marked_finish: "marked k s \<Longrightarrow> marked k (app_finish t s)"
  by (auto simp: marked_def app_finish_def op_finish_def arm_def Let_def split: option.splits)

lemma app_mark_db [simp]: "ap_db (app_mark t s) = ap_db s" "ap_db (app_finish t s) = ap_db s" "ap_db (app_begin t s) = ap_db s"
  "ap_world (app_mark t s) = ap_world s" "ap_world (app_finish t s) = ap_world s" "ap_world (app_begin t s) = ap_world s"
  by (simp_all add: app_mark_def app_finish_def app_begin_def)

lemma mark_zone_of_keeps [simp]:
  "ap_db (mark_zone_of sid zid s) = ap_db s" "ap_world (mark_zone_of sid zid s) = ap_world s"
  "marked k (mark_zone_of sid zid s) \<longleftrightarrow> marked k s \<or>
     (\<exists>o' z. decode_dns_zone_id zid = Some (o', z) \<and> target_key (dns_zone_refresh_target sid zid z) = k \<and> k \<noteq> [])"
  by (auto simp: mark_zone_of_def split: option.splits)

lemma marked_zones: "marked k s \<Longrightarrow> marked k (fold (\<lambda>x. mark_zone_of sid (f x)) xs s)"
  by (induction xs arbitrary: s) (auto simp: mark_zone_of_def split: option.split)

lemma mark_zones_db [simp]: "ap_db (fold (\<lambda>x. mark_zone_of sid (f x)) xs s) = ap_db s"
  "ap_world (fold (\<lambda>x. mark_zone_of sid (f x)) xs s) = ap_world s"
  by (induction xs arbitrary: s) (auto simp: mark_zone_of_def split: option.split)

lemma app_audit_records [simp]: "db_records (ap_db (app_audit c a t m md s)) = db_records (ap_db s)"
  "ap_world (app_audit c a t m md s) = ap_world s"
  by (simp_all add: app_audit_def)

text \<open>The snapshot after one dropped-error upsert.\<close>

lemma app_upsert_rows:
  assumes "app_upsert_record now r s = (r', s')"
  shows "set (zone_rows (ap_db s') zid) \<subseteq> insert r' (set (zone_rows (ap_db s) zid))"
    and "r_id r' = r_id r" "r_zone_id r' = r_zone_id r" "collides r' e = collides r e"
    and "ap_world s' = ap_world s" "db_fault (ap_db s') = db_fault (ap_db s)" "db_zones (ap_db s') = db_zones (ap_db s)"
    and "r_zone_id r \<noteq> zid \<Longrightarrow> set (zone_rows (ap_db s') zid) \<subseteq> set (zone_rows (ap_db s) zid)"
    and "\<not> db_fault (ap_db s) ''UpsertRecord'' (r_id r) \<Longrightarrow> list_ex (\<lambda>z. z_id z = r_zone_id r) (db_zones (ap_db s)) \<Longrightarrow>
           r' \<in> set (db_records (ap_db s'))"
    and "e \<in> set (db_records (ap_db s)) \<Longrightarrow> r_id e \<noteq> r_id r \<Longrightarrow> e \<in> set (db_records (ap_db s'))"
  using assms
  by (auto simp: app_upsert_record_def upsert_dns_record_def drop_err_def Let_def zone_rows_def upsert_row_def
      set_update_rows default_ttl_def written_record_def collides_def same_name_def same_entry_def is_cname_def
      list_ex_iff image_iff split: if_splits)

lemma app_upsert_type: "app_upsert_record now r s = (r', s') \<Longrightarrow> r_type r' = r_type r"
  by (auto simp: app_upsert_record_def upsert_dns_record_def default_ttl_def written_record_def Let_def split: if_splits)

lemma create_steps_done:
  assumes "create_record_steps net c srv sid zname body s = (Done code resp, s')"
  obtains preflight ws s1 s2 where
    "validate_dns_record_create (ap_db s) body = None"
    "dns_record_create_warnings (ap_db s) body sid = Inr preflight"
    "app_call (create_dns_record_on_agent net srv zname
        (if preflight \<noteq> [] then body\<lparr>r_create_ptr := False\<rparr> else body) as_outcome) s = (Inr ws, s1)"
    "code = 201"
    "app_upsert_record (ca_now c) (body\<lparr>r_id := dns_record_id sid zname (r_type body) (r_name body) (r_value body)\<rparr>) s1
       = (dr_record resp, s2)"
    "db_records (ap_db s') = db_records (ap_db s2) \<or>
     (\<exists>p p' s3. ptr_record_for_a_record sid zname (dr_record resp) = Some p \<and> equal_fold (r_type (dr_record resp)) ''A'' \<and>
        app_upsert_record (ca_now c) p s2 = (p', s3) \<and> db_records (ap_db s') = db_records (ap_db s3))"
    "marked (target_key (dns_zone_refresh_target sid (r_zone_id body) zname)) s' \<or>
     target_key (dns_zone_refresh_target sid (r_zone_id body) zname) = []"
  using assms unfolding create_record_steps_def Let_def
  by (auto split: sum.splits prod.splits option.splits if_splits intro!: marked_zones simp: comp_def)

lemma ptr_zone_suffix:
  assumes "ptr_record_for_a_record sid zname r = Some p" and "r_zone_id p = zid"
    and "decode_dns_zone_id zid = Some (sid', zname')" and "\<not> has_suffix zname' ''.in-addr.arpa''"
  shows False
proof -
  obtain rz where rz: "ipv4_reverse_zone (r_value r) = Some rz" "r_zone_id p = dns_zone_id sid rz"
    using assms(1) by (auto simp: ptr_record_for_a_record_def default_ttl_def Let_def split: option.splits if_splits)
  then have "has_suffix rz ''.in-addr.arpa''"
    unfolding ipv4_reverse_zone_def has_suffix_iff by (auto split: option.splits)
  with assms rz show False by auto
qed

lemma ptr_record_fields:
  "ptr_record_for_a_record sid zname r = Some p \<Longrightarrow> \<exists>rz v. r_id p = dns_record_id sid rz ''PTR'' (r_name p) v"
  by (auto simp: ptr_record_for_a_record_def default_ttl_def Let_def split: option.splits if_splits)

lemma create_steps_collision_free:
  assumes "create_record_steps net c srv sid zname body s = (Done code resp, s')"
    and "decode_dns_zone_id (r_zone_id body) = Some (sid', zname)" "\<not> has_suffix zname ''.in-addr.arpa''"
    and "collision_free (zone_rows (ap_db s) (r_zone_id body))"
  shows "collision_free (zone_rows (ap_db s') (r_zone_id body))"
proof -
  let ?z = "r_zone_id body"
  from assms(1) obtain preflight :: "dns_warning list" and ws s1 s2 where st:
      "validate_dns_record_create (ap_db s) body = None"
      "app_call (create_dns_record_on_agent net srv zname
        (if preflight \<noteq> [] then body\<lparr>r_create_ptr := False\<rparr> else body) as_outcome) s = (Inr ws, s1)"
      "app_upsert_record (ca_now c) (body\<lparr>r_id := dns_record_id sid zname (r_type body) (r_name body) (r_value body)\<rparr>) s1
       = (dr_record resp, s2)"
      "db_records (ap_db s') = db_records (ap_db s2) \<or>
       (\<exists>p p' s3. ptr_record_for_a_record sid zname (dr_record resp) = Some p \<and> equal_fold (r_type (dr_record resp)) ''A'' \<and>
          app_upsert_record (ca_now c) p s2 = (p', s3) \<and> db_records (ap_db s') = db_records (ap_db s3))"
    by (elim create_steps_done) blast
  have db1: "ap_db s1 = ap_db s" using st(2) app_call_fields by blast
  have no: "\<forall>e \<in> set (zone_rows (ap_db s) ?z). \<not> collides body e"
    using st(1) by (auto simp: validate_create_None dest!: list_dns_records_set)
  have "set (zone_rows (ap_db s') ?z) \<subseteq> set (zone_rows (ap_db s2) ?z)"
    using st(4)
  proof (elim disjE exE conjE)
    fix p p' s3
    assume p: "ptr_record_for_a_record sid zname (dr_record resp) = Some p"
      "app_upsert_record (ca_now c) p s2 = (p', s3)" "db_records (ap_db s') = db_records (ap_db s3)"
    have "r_zone_id p \<noteq> ?z" using ptr_zone_suffix [OF p(1) _ assms(2,3)] by blast
    from app_upsert_rows(8) [OF p(2) this] p(3) show ?thesis by (simp add: zone_rows_def)
  qed (simp add: zone_rows_def)
  then have sub: "set (zone_rows (ap_db s') ?z) \<subseteq> insert (dr_record resp) (set (zone_rows (ap_db s) ?z))"
    using app_upsert_rows(1) [OF st(3), of ?z] db1 by auto
  show ?thesis
    by (rule collision_free_add [OF assms(4) _ sub]) (use no app_upsert_rows(4) [OF st(3)] in auto)
qed

lemma create_steps_stored:
  assumes "create_record_steps net c srv sid zname body s = (Done code resp, s')"
    and "\<not> db_fault (ap_db s) ''UpsertRecord'' (dns_record_id sid zname (r_type body) (r_name body) (r_value body))"
  shows "dr_record resp \<in> set (db_records (ap_db s'))"
proof -
  let ?b = "body\<lparr>r_id := dns_record_id sid zname (r_type body) (r_name body) (r_value body)\<rparr>"
  from assms(1) obtain preflight :: "dns_warning list" and ws s1 s2 where st:
      "validate_dns_record_create (ap_db s) body = None"
      "app_call (create_dns_record_on_agent net srv zname
        (if preflight \<noteq> [] then body\<lparr>r_create_ptr := False\<rparr> else body) as_outcome) s = (Inr ws, s1)"
      "app_upsert_record (ca_now c) ?b s1 = (dr_record resp, s2)"
      "db_records (ap_db s') = db_records (ap_db s2) \<or>
       (\<exists>p p' s3. ptr_record_for_a_record sid zname (dr_record resp) = Some p \<and> equal_fold (r_type (dr_record resp)) ''A'' \<and>
          app_upsert_record (ca_now c) p s2 = (p', s3) \<and> db_records (ap_db s') = db_records (ap_db s3))"
    by (elim create_steps_done) blast
  have db1: "ap_db s1 = ap_db s" using st(2) app_call_fields by blast
  have zone: "list_ex (\<lambda>z. z_id z = r_zone_id body) (db_zones (ap_db s))"
    using st(1) by (auto simp: validate_create_None get_dns_zone_def list_ex_iff split: if_splits option.splits dest!: find_row_Some)
  have in2: "dr_record resp \<in> set (db_records (ap_db s2))"
    using app_upsert_rows(9) [OF st(3)] assms(2) zone db1 by simp
  have t: "r_type (dr_record resp) = r_type body"
    using app_upsert_type [OF st(3)] by simp
  have nofold: "\<not> equal_fold ''PTR'' ''A''" by code_simp
  show ?thesis using st(4)
  proof (elim disjE exE conjE)
    fix p p' s3
    assume p: "ptr_record_for_a_record sid zname (dr_record resp) = Some p" "equal_fold (r_type (dr_record resp)) ''A''"
      "app_upsert_record (ca_now c) p s2 = (p', s3)" "db_records (ap_db s') = db_records (ap_db s3)"
    have "r_id (dr_record resp) = r_id ?b" using app_upsert_rows(2) [OF st(3)] .
    then have "r_id (dr_record resp) \<noteq> r_id p"
      using ptr_record_fields [OF p(1)] p(2) t nofold by auto
    then show ?thesis using app_upsert_rows(10) [OF p(3) in2] p(4) by simp
  qed (use in2 in simp)
qed

lemma create_handler_done:
  assumes "create_dns_record_handler net json_ok c (Some body) s = (Done code resp, s')"
  obtains sid zname srv s1 s2 where
    "decode_dns_zone_id (r_zone_id body) = Some (sid, zname)" "get_server (ap_db s) sid = Inr srv"
    "s1 = app_begin (dns_zone_refresh_target sid (r_zone_id body) zname) s"
    "create_record_steps net c srv sid zname body s1 = (Done code resp, s2)"
    "s' = app_finish (dns_zone_refresh_target sid (r_zone_id body) zname) s2"
  using assms unfolding create_dns_record_handler_def ensure_permission_def ensure_agent_not_syncing_def with_operation_def
  by (auto split: if_splits option.splits sum.splits prod.splits)



subsection \<open>An edit of letter case\<close>

text \<open>C10. Editing a value only in its letter case is not checked and not sent to the agent, yet writes a
  second row: identifiers keep the case, so the row of the new value stands beside the old one and
  the two collide.\<close>

theorem case_only_edit_duplicates:
  assumes "get_dns_record (ap_db s) rid = Inr old" and "r_create_ptr old = False"
    and "decode_dns_record_id rid = Some (sid, zname, rtype, rname, rvalue)"
    and "equal_fold (trim_space (r_value old)) (trim_space nv)" and "nv \<noteq> rvalue"
    and "\<not> db_fault (ap_db s) ''UpsertRecord'' (dns_record_id sid zname rtype rname nv)"
    and "list_ex (\<lambda>z. z_id z = r_zone_id old) (db_zones (ap_db s))"
  shows "\<exists>resp s'. update_record_steps net c srv rid sid zname rtype rname nv None s = (Done 200 resp, s') \<and>
     ap_world s' = ap_world s \<and> old \<in> set (db_records (ap_db s')) \<and> dr_record resp \<in> set (db_records (ap_db s')) \<and>
     r_id (dr_record resp) \<noteq> r_id old \<and> r_zone_id (dr_record resp) = r_zone_id old \<and> collides (dr_record resp) old"
proof -
  let ?new = "edited_record sid zname rtype rname nv None old"
  have new: "r_create_ptr ?new = False" "r_zone_id ?new = r_zone_id old" "r_name ?new = r_name old"
      "r_type ?new = r_type old" "r_value ?new = nv" "r_id ?new = dns_record_id sid zname rtype rname nv"
    using assms(2) by (simp_all add: edited_record_def)
  have old: "old \<in> set (db_records (ap_db s))" "r_id old = rid"
    using assms(1) by (auto simp: get_dns_record_def split: if_splits option.splits dest!: find_row_Some)
  have ids: "r_id old \<noteq> r_id ?new"
    using assms(3,5) old(2) new(6) by auto
  have ok: "validate_dns_record_update (ap_db s) old ?new = None"
    using assms(2,4) new by (simp add: validate_dns_record_update_def Let_def)
  have warn: "dns_record_create_warnings (ap_db s) ?new sid = Inr []"
    using new by (simp add: dns_record_create_warnings_def)
  obtain r' s1 where u: "app_upsert_record (ca_now c) ?new s = (r', s1)" by fastforce
  have in1: "r' \<in> set (db_records (ap_db s1))" "old \<in> set (db_records (ap_db s1))"
    using app_upsert_rows(9,10) [OF u] assms(6,7) new old ids by simp_all
  have coll: "collides r' old"
    using app_upsert_rows(4) [OF u, of old] assms(4) new equal_fold_sym
    by (simp add: collides_def same_name_def same_entry_def)
  have steps: "update_record_steps net c srv rid sid zname rtype rname nv None s =
      (Done 200 \<lparr>dr_record = r', dr_related = [], dr_warnings = []\<rparr>,
       app_mark (dns_zone_refresh_target sid (dns_zone_id sid zname) zname)
         (app_audit c ''Updated DNS record'' rname ''DNS''
           (dns_audit_metadata srv (dns_zone_id sid zname) zname
              [(''record'', rname), (''type'', rtype), (''oldValue'', r_value old), (''newValue'', nv)]) s1))"
    using assms(1,2,4) ok warn new u
    by (simp add: update_record_steps_def update_agent_part_def update_snapshot_part_def Let_def)
  show ?thesis
    unfolding steps using in1 coll ids app_upsert_rows(2,3,5) [OF u] new by simp
qed

subsection \<open>Concrete requests\<close>

text \<open>An agent that accepts everything, in a world that counts its requests.\<close>

definition willing_agent :: "nat network" where
  "willing_agent q w = (Reply 200 (Some \<lparr>ev_success = True, ev_data = NoData, ev_error = None\<rparr>), Suc w)"

definition sample_server :: server where
  "sample_server = \<lparr>sv_id = ''s'', sv_name = ''dc1'', sv_host = ''dc1'', sv_role = ''DNS'', sv_agent_url = ''https://dc1'',
     sv_api_key = ''k'', sv_tls_insecure = False, sv_status = ''Online'', sv_failure_count = 0, sv_last_checked = 0\<rparr>"

definition sample_admin :: caller where
  "sample_admin = \<lparr>ca_user = \<lparr>u_id = ''1'', u_username = ''root'', u_email = [], u_display_name = [], u_role = ''admin'',
     u_source = ''local'', u_roles = [], u_direct_roles = [], u_disabled = False, u_wecom_bound = False,
     u_last_login_at = None, u_created_at = 0, u_updated_at = 0, u_permissions = []\<rparr>, ca_ip = ''10.0.0.9'', ca_now = 7\<rparr>"

definition sample_app :: "dns_record list \<Rightarrow> nat app" where
  "sample_app rs = \<lparr>ap_db = empty_db\<lparr>db_servers := [sample_server],
       db_zones := [sample_zone\<lparr>z_id := dns_zone_id ''s'' ''corp.test'', z_server_id := ''s''\<rparr>], db_records := rs\<rparr>,
     ap_redis = empty_redis, ap_sched = new_scheduler, ap_world = 0\<rparr>"

definition sample_body :: dns_record where
  "sample_body = empty_record\<lparr>r_zone_id := dns_zone_id ''s'' ''corp.test'', r_name := ''api'', r_type := ''A'',
     r_value := ''10.0.0.7'', r_ttl := 600\<rparr>"

lemma sample_zone_id: "dns_zone_id ''s'' ''corp.test'' = ''cw.Y29ycC50ZXN0''"
  by code_simp

lemma sample_zone_id_trim: "trim_space (dns_zone_id ''s'' ''corp.test'') = dns_zone_id ''s'' ''corp.test''"
  unfolding sample_zone_id by (rule trim_space_graph) (simp add: graph_ends_def char_code_def)

lemma willing_create: "fst (create_dns_record_on_agent willing_agent srv zn r as_outcome w) = Inr []"
  by (simp add: create_dns_record_on_agent_def agent_call_def agent_do_def willing_agent_def as_outcome_def Let_def)

lemma sample_body_valid: "validate_dns_record_create (ap_db (app_begin t (sample_app []))) sample_body = None"
  by (simp add: validate_dns_record_create_def sample_app_def sample_body_def get_dns_zone_def sample_simps
      list_dns_records_by_zone_def literal_trim literal_type is_valid_a_record_value_def literal_ip Let_def)

lemma sample_create: "\<exists>resp s'. create_dns_record_handler willing_agent (\<lambda>_. True) sample_admin (Some sample_body) (sample_app [])
    = (Done 201 resp, s')"
proof -
  let ?t = "dns_zone_refresh_target ''s'' (dns_zone_id ''s'' ''corp.test'') ''corp.test''"
  let ?s = "app_begin ?t (sample_app [])"
  obtain r s1 where c: "app_call (create_dns_record_on_agent willing_agent sample_server ''corp.test'' sample_body as_outcome) ?s = (r, s1)"
    by (rule prod.exhaust)
  then have call: "app_call (create_dns_record_on_agent willing_agent sample_server ''corp.test'' sample_body as_outcome) ?s = (Inr [], s1)"
    using conjunct2 [OF app_call_shape [OF c]] by (simp add: willing_create)
  have flag: "r_create_ptr sample_body = False" by (simp add: sample_body_def empty_record_def)
  have "\<exists>resp s'. create_record_steps willing_agent sample_admin sample_server ''s'' ''corp.test'' sample_body ?s = (Done 201 resp, s')"
    using sample_body_valid [of ?t] call flag
    by (simp add: create_record_steps_def dns_record_create_warnings_def normalize_dns_record_agent_warnings_def Let_def
        split: prod.split)
  then obtain resp s2 where steps: "create_record_steps willing_agent sample_admin sample_server ''s'' ''corp.test'' sample_body ?s = (Done 201 resp, s2)"
    by blast
  have run: "with_operation ?t (create_record_steps willing_agent sample_admin sample_server ''s'' ''corp.test'' sample_body) (sample_app [])
      = (Done 201 resp, app_finish ?t s2)"
    using steps by (simp add: with_operation_def)
  have b: "trim_space (dns_zone_id ''s'' ''corp.test'') \<noteq> []" "trim_space (r_name sample_body) \<noteq> []"
      "trim_space (r_type sample_body) \<noteq> []" "trim_space (r_value sample_body) \<noteq> []"
      "r_zone_id sample_body = dns_zone_id ''s'' ''corp.test''"
    by (simp_all add: sample_body_def sample_zone_id_trim literal_trim) (simp add: sample_zone_id)
  have srv: "get_server (ap_db (sample_app [])) ''s'' = Inr sample_server" "sv_id sample_server = ''s''"
    by (simp_all add: get_server_def sample_app_def sample_server_def empty_db_def)
  have idle: "\<not> is_agent_sync_running (\<lambda>_. True) ''s'' (ap_redis (sample_app []))"
    by (simp add: is_agent_sync_running_def sample_app_def empty_redis_def rt_get_json_def rt_get_def live_def split: if_split)
  have perm: "has_permission (ca_user sample_admin) p" for p
    by (simp add: has_permission_def sample_admin_def)
  show ?thesis
    using run by (simp add: create_dns_record_handler_def ensure_permission_def perm b srv ensure_agent_not_syncing_def idle)
qed



theorem case_only_edit_duplicates_witness:
  "\<exists>resp s'. update_record_steps willing_agent sample_admin sample_server (dns_record_id ''s'' ''corp.test'' ''CNAME'' ''www'' ''mail.test.'')
      ''s'' ''corp.test'' ''CNAME'' ''www'' ''MAIL.test.'' None
      (sample_app [(sample_record ''www'' ''CNAME'' ''mail.test.'')\<lparr>r_id := dns_record_id ''s'' ''corp.test'' ''CNAME'' ''www'' ''mail.test.'',
         r_zone_id := dns_zone_id ''s'' ''corp.test''\<rparr>]) = (Done 200 resp, s') \<and> ap_world s' = 0 \<and> length (db_records (ap_db s')) \<ge> 2"
proof -
  let ?id = "dns_record_id ''s'' ''corp.test'' ''CNAME'' ''www'' ''mail.test.''"
  let ?old = "(sample_record ''www'' ''CNAME'' ''mail.test.'')\<lparr>r_id := ?id, r_zone_id := dns_zone_id ''s'' ''corp.test''\<rparr>"
  have hyps: "get_dns_record (ap_db (sample_app [?old])) ?id = Inr ?old" "r_create_ptr ?old = False"
      "equal_fold (trim_space (r_value ?old)) (trim_space ''MAIL.test.'')" "''MAIL.test.'' \<noteq> ''mail.test.''"
      "\<not> db_fault (ap_db (sample_app [?old])) op key"
      "list_ex (\<lambda>z. z_id z = r_zone_id ?old) (db_zones (ap_db (sample_app [?old])))" for op key
    by (simp_all add: get_dns_record_def sample_app_def empty_db_def sample_record_def empty_record_def literal_trim literal_fold)
  from case_only_edit_duplicates [OF hyps(1,2) decode_dns_record_id_encode hyps(3,4,5,6), of willing_agent sample_admin sample_server]
  obtain resp s' where r: "update_record_steps willing_agent sample_admin sample_server ?id ''s'' ''corp.test'' ''CNAME'' ''www''
        ''MAIL.test.'' None (sample_app [?old]) = (Done 200 resp, s')" "ap_world s' = ap_world (sample_app [?old])"
      "?old \<in> set (db_records (ap_db s'))" "dr_record resp \<in> set (db_records (ap_db s'))" "r_id (dr_record resp) \<noteq> r_id ?old"
    by blast
  have "2 \<le> length (db_records (ap_db s'))"
    using r(3,4,5) by (cases "db_records (ap_db s')") (auto simp: Suc_le_eq)
  then show ?thesis using r(1,2) by (auto simp: sample_app_def)
qed

end
