(* ===== verification/ZL_Dhcp_Store.thy ===== *)
theory ZL_Dhcp_Store
  imports ZL_Store
begin

text \<open>
  The DHCP snapshot in the database: \<open>internal/repository/dhcp_sync.go\<close> and the DHCP statements of
  \<open>internal/repository/resources.go\<close>. Scopes, leases, reservations and exclusions are tables of
  \<open>db\<close>; deleting a scope deletes the rows below it (\<open>ON DELETE CASCADE\<close>). \<open>gen i\<close> is the identifier the
  database generates for the \<open>i\<close>-th row of a statement sequence. A synchronisation writes the rows
  one by one with \<open>ON CONFLICT DO UPDATE\<close> on their natural key and then deletes the rows it has not
  touched; that scheme is \<open>sync_table\<close>, its laws are the locale \<open>snapshot_table\<close>. The expiry of a lease is
  a time here; the text an agent sends is read when its answer is.
\<close>

subsection \<open>Synchronising a table\<close>

text \<open>The upserts return the identifiers of the rows they wrote.\<close>

fun put_rows :: "('r \<Rightarrow> 'k) \<Rightarrow> ('r \<Rightarrow> string) \<Rightarrow> ('r \<Rightarrow> 'r \<Rightarrow> 'r) \<Rightarrow> 'r list \<Rightarrow> 'r list \<Rightarrow> 'r list \<times> string list" where
  "put_rows key rid merge [] rows = (rows, [])"
| "put_rows key rid merge (r # rs) rows =
     (let rows1 = upsert_row (\<lambda>x. key x = key r) (\<lambda>x. merge x r) r rows;
          i = (case find_row (\<lambda>x. key x = key r) rows of Some x \<Rightarrow> rid x | None \<Rightarrow> rid r);
          (rows2, ids) = put_rows key rid merge rs rows1
      in (rows2, i # ids))"

definition sync_table ::
    "('r \<Rightarrow> 'k) \<Rightarrow> ('r \<Rightarrow> string) \<Rightarrow> ('r \<Rightarrow> 'r \<Rightarrow> 'r) \<Rightarrow> ('r \<Rightarrow> bool) \<Rightarrow> 'r list \<Rightarrow> 'r list \<Rightarrow> 'r list" where
  "sync_table key rid merge mine rs rows =
     (case put_rows key rid merge rs rows of
        (rows1, ids) \<Rightarrow> delete_rows (\<lambda>x. mine x \<and> rid x \<notin> set ids) rows1)"

lemma disjoint_insert_sub: "A \<subseteq> insert a B \<Longrightarrow> a \<notin> C \<Longrightarrow> C \<inter> B = {} \<Longrightarrow> C \<inter> A = {}"
  by blast

lemma image_of_unique_key:
  assumes "distinct (map key rows)" "x \<in> set rows"
  shows "f ` {y \<in> set rows. key y = key x} = {f x}"
proof -
  have "{y \<in> set rows. key y = key x} = {x}"
    using assms by (auto simp: distinct_map dest: inj_onD)
  then show ?thesis by simp
qed

lemma image_key_insert:
  "f ` {x \<in> A. key x \<in> insert k B} = f ` {x \<in> A. key x = k} \<union> f ` {x \<in> A. key x \<in> B}"
  by blast

locale snapshot_table =
  fixes key :: "'r \<Rightarrow> 'k" and rid :: "'r \<Rightarrow> string" and merge :: "'r \<Rightarrow> 'r \<Rightarrow> 'r"
  assumes merge_key: "key x = key r \<Longrightarrow> key (merge x r) = key r"
    and merge_rid: "key x = key r \<Longrightarrow> rid (merge x r) = rid x"
begin

lemma key_in_iff: "key r \<in> key ` set rows \<longleftrightarrow> list_ex (\<lambda>x. key x = key r) rows"
  by (auto simp: list_ex_iff image_iff) metis

lemma upsert_map_rid:
  "map rid (upsert_row (\<lambda>x. key x = key r) (\<lambda>x. merge x r) r rows) =
     (if key r \<in> key ` set rows then map rid rows else map rid rows @ [rid r])"
  unfolding key_in_iff upsert_row_def by (simp add: map_update_rows merge_rid)

lemma update_map_key: "map key (update_rows (\<lambda>x. key x = key r) (\<lambda>x. merge x r) rows) = map key rows"
  by (rule map_update_rows) (simp add: merge_key)

lemma upsert_map_key:
  "map key (upsert_row (\<lambda>x. key x = key r) (\<lambda>x. merge x r) r rows) =
     (if key r \<in> key ` set rows then map key rows else map key rows @ [key r])"
  unfolding key_in_iff upsert_row_def by (simp add: update_map_key)

lemma upsert_keys: "key ` set (upsert_row (\<lambda>x. key x = key r) (\<lambda>x. merge x r) r rows) = insert (key r) (key ` set rows)"
  using arg_cong [OF upsert_map_key, of set r rows] by (auto split: if_splits)

lemma upsert_rids: "rid ` set (upsert_row (\<lambda>x. key x = key r) (\<lambda>x. merge x r) r rows) \<subseteq> insert (rid r) (rid ` set rows)"
  using arg_cong [OF upsert_map_rid, of set r rows] by (auto split: if_splits)

lemma upsert_fresh:
  assumes "distinct (map rid (r # rs))" "rid ` set (r # rs) \<inter> rid ` set rows = {}"
  shows "rid ` set rs \<inter> rid ` set (upsert_row (\<lambda>x. key x = key r) (\<lambda>x. merge x r) r rows) = {}"
proof -
  have "rid r \<notin> rid ` set rs" "rid ` set rs \<inter> rid ` set rows = {}" using assms by auto
  with disjoint_insert_sub [OF upsert_rids] show ?thesis by blast
qed

lemma put_keys:
  assumes "put_rows key rid merge rs rows = (rows', ids)"
  shows "key ` set rows' = key ` set rs \<union> key ` set rows"
  using assms
proof (induction rs arbitrary: rows ids)
  case (Cons r rs)
  let ?rows = "upsert_row (\<lambda>x. key x = key r) (\<lambda>x. merge x r) r rows"
  obtain ids' where "put_rows key rid merge rs ?rows = (rows', ids')"
    using Cons.prems by (auto simp: Let_def split: prod.splits)
  from Cons.IH [OF this] show ?case by (simp add: upsert_keys)
qed simp

lemma put_distinct:
  assumes "put_rows key rid merge rs rows = (rows', ids)" "distinct (map key rows)"
    "distinct (map rid rows)" "distinct (map rid rs)" "rid ` set rs \<inter> rid ` set rows = {}"
  shows "distinct (map key rows') \<and> distinct (map rid rows')"
  using assms
proof (induction rs arbitrary: rows ids)
  case (Cons r rs)
  let ?rows = "upsert_row (\<lambda>x. key x = key r) (\<lambda>x. merge x r) r rows"
  obtain ids' where p: "put_rows key rid merge rs ?rows = (rows', ids')"
    using Cons.prems(1) by (auto simp: Let_def split: prod.splits)
  note disj = upsert_fresh [OF Cons.prems(4,5)]
  have "distinct (map key ?rows)"
    unfolding upsert_map_key using Cons.prems(2) by (auto simp: image_iff)
  moreover have "distinct (map rid ?rows)"
    unfolding upsert_map_rid using Cons.prems(3,5) by (auto simp: image_iff)
  ultimately show ?case using Cons.IH [OF p _ _ _ disj] Cons.prems(4) by simp
qed simp

text \<open>A row under a key already there keeps its identifier, whatever is written to it.\<close>

lemma put_keeps_rid:
  assumes "put_rows key rid merge rs rows = (rows', ids)" and "x \<in> set rows"
  shows "\<exists>x' \<in> set rows'. rid x' = rid x \<and> key x' = key x \<and> (key x \<notin> key ` set rs \<longrightarrow> x' = x)"
  using assms
proof (induction rs arbitrary: rows ids x)
  case (Cons r rs)
  let ?rows = "upsert_row (\<lambda>x. key x = key r) (\<lambda>x. merge x r) r rows"
  obtain ids' where p: "put_rows key rid merge rs ?rows = (rows', ids')"
    using Cons.prems(1) by (auto simp: Let_def split: prod.splits)
  let ?x = "if key x = key r then merge x r else x"
  have x: "?x \<in> set ?rows" "rid ?x = rid x" "key ?x = key x"
    using Cons.prems(2) merge_rid merge_key by (auto simp: upsert_row_def set_update_rows list_ex_iff)
  from Cons.IH [OF p x(1)] x(2,3) show ?case by (auto split: if_splits)
qed auto

lemma row_written:
  "\<exists>y \<in> set (upsert_row (\<lambda>x. key x = key r) (\<lambda>x. merge x r) r rows). key y = key r \<and>
     rid y = (case find_row (\<lambda>x. key x = key r) rows of Some x \<Rightarrow> rid x | None \<Rightarrow> rid r)"
proof (cases "find_row (\<lambda>x. key x = key r) rows")
  case None
  then have "r \<in> set (upsert_row (\<lambda>x. key x = key r) (\<lambda>x. merge x r) r rows)"
    by (auto simp: find_row_None upsert_row_def list_ex_iff)
  then show ?thesis using None by auto
next
  case (Some x)
  then have x: "x \<in> set rows" "key x = key r" by (auto dest: find_row_Some)
  then have "merge x r \<in> set (upsert_row (\<lambda>x. key x = key r) (\<lambda>x. merge x r) r rows)"
    by (auto simp: upsert_row_def set_update_rows list_ex_iff)
  then show ?thesis using Some merge_key [OF x(2)] merge_rid [OF x(2)] by auto
qed

text \<open>The identifiers the upserts return are those of the rows under the written keys.\<close>

lemma put_ids:
  assumes "put_rows key rid merge rs rows = (rows', ids)" "distinct (map key rows)"
    "distinct (map rid rows)" "distinct (map rid rs)" "rid ` set rs \<inter> rid ` set rows = {}"
  shows "set ids = rid ` {x \<in> set rows'. key x \<in> key ` set rs}"
  using assms
proof (induction rs arbitrary: rows ids)
  case (Cons r rs)
  let ?rows = "upsert_row (\<lambda>x. key x = key r) (\<lambda>x. merge x r) r rows"
  let ?i = "case find_row (\<lambda>x. key x = key r) rows of Some x \<Rightarrow> rid x | None \<Rightarrow> rid r"
  obtain ids' where p: "put_rows key rid merge rs ?rows = (rows', ids')" "ids = ?i # ids'"
    using Cons.prems(1) by (auto simp: Let_def split: prod.splits)
  note disj = upsert_fresh [OF Cons.prems(4,5)]
  have dk: "distinct (map key ?rows)"
    unfolding upsert_map_key using Cons.prems(2) by (auto simp: image_iff)
  have dr: "distinct (map rid ?rows)"
    unfolding upsert_map_rid using Cons.prems(3,5) by (auto simp: image_iff)
  have IH: "set ids' = rid ` {x \<in> set rows'. key x \<in> key ` set rs}"
    using Cons.IH [OF p(1) dk dr _ disj] Cons.prems(4) by simp
  from row_written obtain y where y: "y \<in> set ?rows" "key y = key r" "rid y = ?i" by blast
  from put_keeps_rid [OF p(1) y(1)] y obtain x' where x': "x' \<in> set rows'" "rid x' = ?i" "key x' = key r" by auto
  have dk': "distinct (map key rows')"
    using put_distinct [OF p(1) dk dr _ disj] Cons.prems(4) by simp
  have one: "rid ` {x \<in> set rows'. key x = key r} = {?i}"
    using image_of_unique_key [OF dk' x'(1), of rid] x'(2,3) by simp
  show ?case unfolding p(2) list.set image_insert image_key_insert one using IH by simp
qed simp

lemma put_other:
  assumes "put_rows key rid merge rs rows = (rows', ids)" "key x \<notin> key ` set rs"
  shows "x \<in> set rows' \<longleftrightarrow> x \<in> set rows"
  using assms
proof (induction rs arbitrary: rows ids)
  case (Cons r rs)
  let ?rows = "upsert_row (\<lambda>x. key x = key r) (\<lambda>x. merge x r) r rows"
  obtain ids' where p: "put_rows key rid merge rs ?rows = (rows', ids')"
    using Cons.prems(1) by (auto simp: Let_def split: prod.splits)
  have "x \<in> set ?rows \<longleftrightarrow> x \<in> set rows"
    using Cons.prems(2) merge_key by (auto simp: upsert_row_def set_update_rows)
  with Cons.IH [OF p] Cons.prems(2) show ?case by simp
qed simp

lemma sync_table_rows:
  assumes "distinct (map key rows)" "distinct (map rid rows)" "distinct (map rid rs)" "rid ` set rs \<inter> rid ` set rows = {}"
  obtains rows1 ids where "put_rows key rid merge rs rows = (rows1, ids)"
    "distinct (map key rows1)" "distinct (map rid rows1)"
    "set (sync_table key rid merge mine rs rows) = {x \<in> set rows1. mine x \<longrightarrow> key x \<in> key ` set rs}"
    "sync_table key rid merge mine rs rows = delete_rows (\<lambda>x. mine x \<and> rid x \<notin> set ids) rows1"
proof -
  obtain rows1 ids where p: "put_rows key rid merge rs rows = (rows1, ids)" by fastforce
  note ids = put_ids [OF p assms] and dist = put_distinct [OF p assms]
  have kept: "rid x \<in> set ids \<longleftrightarrow> key x \<in> key ` set rs" if "x \<in> set rows1" for x
    using that ids dist by (auto simp: distinct_map dest: inj_onD)
  have t: "sync_table key rid merge mine rs rows = delete_rows (\<lambda>x. mine x \<and> rid x \<notin> set ids) rows1"
    by (simp add: sync_table_def p)
  then have "set (sync_table key rid merge mine rs rows) = {x \<in> set rows1. mine x \<longrightarrow> key x \<in> key ` set rs}"
    using kept by auto
  with p t dist that show thesis by blast
qed

text \<open>After a synchronisation the rows of its owner are those sent, a row under a key that was there keeps its
  identifier, the rows of other owners are untouched, and keys and identifiers stay unique.\<close>

lemma owner_of_key:
  assumes "\<And>x r. key x = key r \<Longrightarrow> mine x = mine r" "list_all mine rs" "key x \<in> key ` set rs"
  shows "mine x"
proof -
  from assms(3) obtain r where r: "r \<in> set rs" "key x = key r" by auto
  from r(1) assms(2) have "mine r" by (simp add: list_all_iff)
  with assms(1) [OF r(2)] show ?thesis by simp
qed

lemma sync_table_keys:
  assumes "distinct (map key rows)" "distinct (map rid rows)" "distinct (map rid rs)" "rid ` set rs \<inter> rid ` set rows = {}"
    and m: "\<And>x r. key x = key r \<Longrightarrow> mine x = mine r" "list_all mine rs"
  shows "key ` {x \<in> set (sync_table key rid merge mine rs rows). mine x} = key ` set rs"
proof -
  obtain rows1 ids where t: "put_rows key rid merge rs rows = (rows1, ids)"
      "set (sync_table key rid merge mine rs rows) = {x \<in> set rows1. mine x \<longrightarrow> key x \<in> key ` set rs}"
    using sync_table_rows [OF assms(1-4), where mine = mine] .
  have keys: "key ` set rows1 = key ` set rs \<union> key ` set rows" by (rule put_keys [OF t(1)])
  have "k \<in> key ` {x \<in> set rows1. mine x \<and> key x \<in> key ` set rs}" if k: "k \<in> key ` set rs" for k
  proof -
    from k keys have "k \<in> key ` set rows1" by simp
    then obtain x where x: "x \<in> set rows1" "key x = k" by auto
    then have "mine x" using owner_of_key [OF m, of x] k by simp
    with x k show ?thesis by auto
  qed
  then show ?thesis unfolding t(2) by auto
qed

lemma sync_table_other:
  assumes "distinct (map key rows)" "distinct (map rid rows)" "distinct (map rid rs)" "rid ` set rs \<inter> rid ` set rows = {}"
    and m: "\<And>x r. key x = key r \<Longrightarrow> mine x = mine r" "list_all mine rs" and "\<not> mine y"
  shows "y \<in> set (sync_table key rid merge mine rs rows) \<longleftrightarrow> y \<in> set rows"
proof -
  obtain rows1 ids where t: "put_rows key rid merge rs rows = (rows1, ids)"
      "set (sync_table key rid merge mine rs rows) = {x \<in> set rows1. mine x \<longrightarrow> key x \<in> key ` set rs}"
    using sync_table_rows [OF assms(1-4), where mine = mine] .
  have "key y \<notin> key ` set rs" using owner_of_key [OF m, of y] assms(7) by blast
  with put_other [OF t(1)] t(2) assms(7) show ?thesis by simp
qed

lemma sync_table_ids:
  assumes "distinct (map key rows)" "distinct (map rid rows)" "distinct (map rid rs)" "rid ` set rs \<inter> rid ` set rows = {}"
    and x: "x \<in> set rows" "key x \<in> key ` set rs"
  shows "\<exists>x' \<in> set (sync_table key rid merge mine rs rows). key x' = key x \<and> rid x' = rid x"
proof -
  obtain rows1 ids where t: "put_rows key rid merge rs rows = (rows1, ids)"
      "set (sync_table key rid merge mine rs rows) = {x \<in> set rows1. mine x \<longrightarrow> key x \<in> key ` set rs}"
    using sync_table_rows [OF assms(1-4), where mine = mine] .
  from put_keeps_rid [OF t(1) x(1)] obtain x' where "x' \<in> set rows1" "rid x' = rid x" "key x' = key x" by blast
  with t(2) x(2) show ?thesis by auto
qed

lemma sync_table_distinct:
  assumes "distinct (map key rows)" "distinct (map rid rows)" "distinct (map rid rs)" "rid ` set rs \<inter> rid ` set rows = {}"
  shows "distinct (map key (sync_table key rid merge mine rs rows)) \<and>
     distinct (map rid (sync_table key rid merge mine rs rows))"
proof -
  obtain rows1 ids where "distinct (map key rows1)" "distinct (map rid rows1)"
      "sync_table key rid merge mine rs rows = delete_rows (\<lambda>x. mine x \<and> rid x \<notin> set ids) rows1"
    using sync_table_rows [OF assms, where mine = mine] .
  then show ?thesis by (simp add: distinct_map_delete)
qed

end

subsection \<open>Scopes\<close>

text \<open>\<open>normalizeScopeLeaseDuration\<close>: the lease duration in hours and in seconds; -1 seconds is an unlimited
  lease.\<close>

definition normalize_scope_lease :: "dhcp_scope \<Rightarrow> dhcp_scope" where
  "normalize_scope_lease s =
     (if sc_lease_seconds s = - 1 then s\<lparr>sc_lease_hours := 0\<rparr>
      else let s1 = (if sc_lease_seconds s \<le> 0 \<and> 0 < sc_lease_hours s
                     then s\<lparr>sc_lease_seconds := sc_lease_hours s * 3600\<rparr> else s);
               s2 = (if sc_lease_hours s1 \<le> 0 \<and> 0 < sc_lease_seconds s1
                     then s1\<lparr>sc_lease_hours := (sc_lease_seconds s1 + 3599) div 3600\<rparr> else s1);
               s3 = (if sc_lease_hours s2 \<le> 0 then s2\<lparr>sc_lease_hours := 24\<rparr> else s2)
        in if sc_lease_seconds s3 \<le> 0 then s3\<lparr>sc_lease_seconds := sc_lease_hours s3 * 3600\<rparr> else s3)"

text \<open>The columns are 32 bit integers.\<close>

definition int4_ok :: "int \<Rightarrow> bool" where
  "int4_ok v \<longleftrightarrow> - (2 ^ 31) \<le> v \<and> v < 2 ^ 31"

definition scope_fits :: "dhcp_scope \<Rightarrow> bool" where
  "scope_fits s \<longleftrightarrow> int4_ok (sc_lease_hours s) \<and> int4_ok (sc_lease_seconds s)"

definition list_scopes :: "db \<Rightarrow> store_error + dhcp_scope list" where
  "list_scopes d =
     (if db_fault d ''ListScopes'' [] then Inl DbError
      else Inr (map normalize_scope_lease (sort_key sc_name (db_scopes d))))"

definition get_scope :: "db \<Rightarrow> string \<Rightarrow> store_error + dhcp_scope" where
  "get_scope d i =
     (if db_fault d ''GetScope'' i then Inl DbError
      else case find_row (\<lambda>s. sc_id s = i) (db_scopes d) of
             None \<Rightarrow> Inl NotFound
           | Some s \<Rightarrow> Inr (normalize_scope_lease s))"

definition has_server :: "db \<Rightarrow> string \<Rightarrow> bool" where
  "has_server d sid \<longleftrightarrow> list_ex (\<lambda>s. sv_id s = sid) (db_servers d)"

definition same_external :: "dhcp_scope \<Rightarrow> dhcp_scope \<Rightarrow> bool" where
  "same_external a b \<longleftrightarrow> sc_external_id a \<noteq> [] \<and> sc_external_id a = sc_external_id b \<and> sc_server_id a = sc_server_id b"

definition create_scope :: "string \<Rightarrow> gotime \<Rightarrow> dhcp_scope \<Rightarrow> db \<Rightarrow> store_error + (dhcp_scope \<times> db)" where
  "create_scope nid now item d =
     (let s = normalize_scope_lease (if sc_state item = [] then item\<lparr>sc_state := ''Active''\<rparr> else item);
          row = s\<lparr>sc_id := nid, sc_last_synced_at := Some now, sc_sync_status := ''synced'', sc_last_error := []\<rparr>
      in if db_fault d ''CreateScope'' (sc_external_id s) \<or> \<not> has_server d (sc_server_id s) \<or> \<not> scope_fits s then Inl DbError
         else if list_ex (same_external row) (db_scopes d) then Inl UniqueViolation
         else Inr (s\<lparr>sc_id := nid\<rparr>, d\<lparr>db_scopes := db_scopes d @ [row]\<rparr>))"

definition update_scope :: "dhcp_scope \<Rightarrow> db \<Rightarrow> (store_error + dhcp_scope) \<times> db" where
  "update_scope item d =
     (let s = normalize_scope_lease item;
          upd = (\<lambda>x. x\<lparr>sc_name := sc_name s, sc_description := sc_description s, sc_subnet := sc_subnet s,
                   sc_default_gateway := sc_default_gateway s, sc_start_range := sc_start_range s,
                   sc_end_range := sc_end_range s, sc_lease_hours := sc_lease_hours s,
                   sc_lease_seconds := sc_lease_seconds s, sc_state := sc_state s, sc_external_id := sc_external_id s\<rparr>)
      in if db_fault d ''UpdateScope'' (sc_id s) \<or> \<not> scope_fits s then (Inl DbError, d)
         else case find_row (\<lambda>x. sc_id x = sc_id s) (db_scopes d) of
           None \<Rightarrow> (Inl NotFound, d)
         | Some old \<Rightarrow>
             if list_ex (\<lambda>x. sc_id x \<noteq> sc_id s \<and> same_external (upd old) x) (db_scopes d) then (Inl UniqueViolation, d)
             else let d1 = d\<lparr>db_scopes := update_rows (\<lambda>x. sc_id x = sc_id s) upd (db_scopes d)\<rparr>
               in (get_scope d1 (sc_id s), d1))"

definition toggle_scope :: "string \<Rightarrow> db \<Rightarrow> store_error + db" where
  "toggle_scope i d =
     (if db_fault d ''ToggleScope'' i then Inl DbError
      else if \<not> list_ex (\<lambda>x. sc_id x = i) (db_scopes d) then Inl NotFound
      else Inr (d\<lparr>db_scopes := update_rows (\<lambda>x. sc_id x = i)
             (\<lambda>x. x\<lparr>sc_state := (if sc_state x = ''Active'' then ''Inactive'' else ''Active'')\<rparr>) (db_scopes d)\<rparr>))"

definition delete_scopes_where :: "(dhcp_scope \<Rightarrow> bool) \<Rightarrow> db \<Rightarrow> db" where
  "delete_scopes_where p d =
     (let gone = map sc_id (filter p (db_scopes d)) in
      d\<lparr>db_scopes := delete_rows p (db_scopes d),
        db_exclusions := delete_rows (\<lambda>x. ex_scope_id x \<in> set gone) (db_exclusions d),
        db_leases := delete_rows (\<lambda>x. l_scope_id x \<in> set gone) (db_leases d),
        db_reservations := delete_rows (\<lambda>x. rv_scope_id x \<in> set gone) (db_reservations d)\<rparr>)"

definition delete_scope :: "string \<Rightarrow> db \<Rightarrow> store_error + db" where
  "delete_scope i d =
     (if db_fault d ''DeleteScope'' i then Inl DbError
      else if \<not> list_ex (\<lambda>x. sc_id x = i) (db_scopes d) then Inl NotFound
      else Inr (delete_scopes_where (\<lambda>x. sc_id x = i) d))"

definition delete_dhcp_scope_by_external_id :: "string \<Rightarrow> string \<Rightarrow> db \<Rightarrow> store_error + db" where
  "delete_dhcp_scope_by_external_id sid ext d =
     (if db_fault d ''DeleteScopeExternal'' ext then Inl DbError
      else Inr (delete_scopes_where (\<lambda>x. sc_server_id x = sid \<and> sc_external_id x = ext) d))"

subsection \<open>Exclusions, leases and reservations\<close>

definition exclusion_external_id :: "dhcp_exclusion \<Rightarrow> string" where
  "exclusion_external_id e =
     (if ex_external_id e \<noteq> [] then ex_external_id e else ex_start_ip e @ ''-'' @ ex_end_ip e)"

definition exclusion_key :: "dhcp_exclusion \<Rightarrow> string \<times> string \<times> string" where
  "exclusion_key e = (ex_scope_id e, ex_start_ip e, ex_end_ip e)"

definition lease_key :: "dhcp_lease \<Rightarrow> string \<times> string" where
  "lease_key l = (l_scope_id l, l_ip l)"

definition reservation_key :: "dhcp_reservation \<Rightarrow> string \<times> string" where
  "reservation_key r = (rv_scope_id r, rv_ip r)"

definition has_scope :: "db \<Rightarrow> string \<Rightarrow> bool" where
  "has_scope d i \<longleftrightarrow> list_ex (\<lambda>s. sc_id s = i) (db_scopes d)"

definition list_exclusions :: "db \<Rightarrow> store_error + dhcp_exclusion list" where
  "list_exclusions d =
     (if db_fault d ''ListExclusions'' [] then Inl DbError
      else Inr (sort_key (\<lambda>e. (ex_start_ip e, ex_end_ip e)) (db_exclusions d)))"

definition get_exclusion :: "db \<Rightarrow> string \<Rightarrow> store_error + dhcp_exclusion" where
  "get_exclusion d i =
     (if db_fault d ''GetExclusion'' i then Inl DbError
      else case find_row (\<lambda>e. ex_id e = i) (db_exclusions d) of None \<Rightarrow> Inl NotFound | Some e \<Rightarrow> Inr e)"

definition create_exclusion :: "string \<Rightarrow> gotime \<Rightarrow> dhcp_exclusion \<Rightarrow> db \<Rightarrow> store_error + (dhcp_exclusion \<times> db)" where
  "create_exclusion nid now item d =
     (let e = item\<lparr>ex_external_id := exclusion_external_id item\<rparr>;
          row = e\<lparr>ex_id := nid, ex_last_synced_at := Some now\<rparr>
      in if db_fault d ''CreateExclusion'' (ex_scope_id e) \<or> \<not> has_scope d (ex_scope_id e) then Inl DbError
         else case put_rows exclusion_key ex_id (\<lambda>x r. r\<lparr>ex_id := ex_id x\<rparr>) [row] (db_exclusions d) of
           (rows, ids) \<Rightarrow> Inr (e\<lparr>ex_id := hd ids\<rparr>, d\<lparr>db_exclusions := rows\<rparr>))"

definition delete_exclusion :: "string \<Rightarrow> db \<Rightarrow> store_error + db" where
  "delete_exclusion i d =
     (if db_fault d ''DeleteExclusion'' i then Inl DbError
      else if \<not> list_ex (\<lambda>e. ex_id e = i) (db_exclusions d) then Inl NotFound
      else Inr (d\<lparr>db_exclusions := delete_rows (\<lambda>e. ex_id e = i) (db_exclusions d)\<rparr>))"

definition list_leases :: "db \<Rightarrow> store_error + dhcp_lease list" where
  "list_leases d =
     (if db_fault d ''ListLeases'' [] then Inl DbError else Inr (sort_key l_ip (db_leases d)))"

definition get_lease :: "db \<Rightarrow> string \<Rightarrow> store_error + dhcp_lease" where
  "get_lease d i =
     (if db_fault d ''GetLease'' i then Inl DbError
      else case find_row (\<lambda>l. l_id l = i) (db_leases d) of None \<Rightarrow> Inl NotFound | Some l \<Rightarrow> Inr l)"

definition delete_lease :: "string \<Rightarrow> db \<Rightarrow> store_error + db" where
  "delete_lease i d =
     (if db_fault d ''DeleteLease'' i then Inl DbError
      else if \<not> list_ex (\<lambda>l. l_id l = i) (db_leases d) then Inl NotFound
      else Inr (d\<lparr>db_leases := delete_rows (\<lambda>l. l_id l = i) (db_leases d)\<rparr>))"

text \<open>The end of year 9999, the expiry of a reserved address.\<close>

definition far_future :: gotime where
  "far_future = 253402300799 * nanos_per_second"

definition update_leases_at :: "store_op \<Rightarrow> (dhcp_lease \<Rightarrow> dhcp_lease) \<Rightarrow> string \<Rightarrow> string \<Rightarrow> db \<Rightarrow> store_error + db" where
  "update_leases_at op f scid ip d =
     (if db_fault d op ip then Inl DbError
      else Inr (d\<lparr>db_leases := update_rows (\<lambda>l. l_scope_id l = scid \<and> l_ip l = ip) f (db_leases d)\<rparr>))"

definition mark_lease_reserved_inactive :: "string \<Rightarrow> string \<Rightarrow> db \<Rightarrow> store_error + db" where
  "mark_lease_reserved_inactive = update_leases_at ''MarkLeaseReserved''
     (\<lambda>l. l\<lparr>l_state := ''ReservedInactive'', l_expires_at := far_future\<rparr>)"

definition mark_lease_reserved_inactive_with_hostname :: "string \<Rightarrow> string \<Rightarrow> string \<Rightarrow> db \<Rightarrow> store_error + db" where
  "mark_lease_reserved_inactive_with_hostname scid ip host = update_leases_at ''MarkLeaseReservedHost''
     (\<lambda>l. l\<lparr>l_hostname := host, l_state := ''ReservedInactive'', l_expires_at := far_future\<rparr>) scid ip"

definition update_lease_hostname_by_scope_ip :: "string \<Rightarrow> string \<Rightarrow> string \<Rightarrow> db \<Rightarrow> store_error + db" where
  "update_lease_hostname_by_scope_ip scid ip host =
     update_leases_at ''UpdateLeaseHost'' (\<lambda>l. l\<lparr>l_hostname := host\<rparr>) scid ip"

definition delete_lease_by_scope_ip :: "string \<Rightarrow> string \<Rightarrow> db \<Rightarrow> store_error + db" where
  "delete_lease_by_scope_ip scid ip d =
     (if db_fault d ''DeleteLeaseAt'' ip then Inl DbError
      else Inr (d\<lparr>db_leases := delete_rows (\<lambda>l. l_scope_id l = scid \<and> l_ip l = ip) (db_leases d)\<rparr>))"

definition list_reservations :: "db \<Rightarrow> store_error + dhcp_reservation list" where
  "list_reservations d =
     (if db_fault d ''ListReservations'' [] then Inl DbError else Inr (sort_key rv_ip (db_reservations d)))"

definition get_reservation :: "db \<Rightarrow> string \<Rightarrow> store_error + dhcp_reservation" where
  "get_reservation d i =
     (if db_fault d ''GetReservation'' i then Inl DbError
      else case find_row (\<lambda>r. rv_id r = i) (db_reservations d) of None \<Rightarrow> Inl NotFound | Some r \<Rightarrow> Inr r)"

text \<open>\<open>CreateReservation\<close> leaves the external identifier to its default, the empty text.\<close>

definition create_reservation :: "string \<Rightarrow> dhcp_reservation \<Rightarrow> db \<Rightarrow> store_error + (dhcp_reservation \<times> db)" where
  "create_reservation nid item d =
     (if db_fault d ''CreateReservation'' (rv_ip item) \<or> \<not> has_scope d (rv_scope_id item) then Inl DbError
      else if list_ex (\<lambda>r. reservation_key r = reservation_key item) (db_reservations d) then Inl UniqueViolation
      else Inr (item\<lparr>rv_id := nid\<rparr>, d\<lparr>db_reservations := db_reservations d @
             [item\<lparr>rv_id := nid, rv_external_id := [], rv_last_synced_at := None\<rparr>]\<rparr>))"

definition update_reservation :: "dhcp_reservation \<Rightarrow> db \<Rightarrow> (store_error + dhcp_reservation) \<times> db" where
  "update_reservation item d =
     (if db_fault d ''UpdateReservation'' (rv_id item) then (Inl DbError, d)
      else case find_row (\<lambda>r. rv_id r = rv_id item) (db_reservations d) of
        None \<Rightarrow> (Inl NotFound, d)
      | Some old \<Rightarrow>
          if list_ex (\<lambda>r. rv_id r \<noteq> rv_id item \<and> rv_scope_id r = rv_scope_id old \<and> rv_ip r = rv_ip item) (db_reservations d)
          then (Inl UniqueViolation, d)
          else let d1 = d\<lparr>db_reservations := update_rows (\<lambda>r. rv_id r = rv_id item)
                 (\<lambda>r. r\<lparr>rv_ip := rv_ip item, rv_mac := rv_mac item, rv_name := rv_name item,
                   rv_description := rv_description item, rv_external_id := rv_external_id item\<rparr>) (db_reservations d)\<rparr>
            in (get_reservation d1 (rv_id item), d1))"

definition delete_reservation :: "string \<Rightarrow> db \<Rightarrow> store_error + db" where
  "delete_reservation i d =
     (if db_fault d ''DeleteReservation'' i then Inl DbError
      else if \<not> list_ex (\<lambda>r. rv_id r = i) (db_reservations d) then Inl NotFound
      else Inr (d\<lparr>db_reservations := delete_rows (\<lambda>r. rv_id r = i) (db_reservations d)\<rparr>))"

subsection \<open>Replacing the snapshot\<close>

text \<open>The row a sent scope becomes. The unique index covers only scopes with an external identifier, so one
  without is keyed by itself.\<close>

definition scope_key :: "dhcp_scope \<Rightarrow> string \<times> (string + string)" where
  "scope_key s = (sc_server_id s, if sc_external_id s = [] then Inl (sc_id s) else Inr (sc_external_id s))"

definition incoming_scope :: "(string \<Rightarrow> nat \<Rightarrow> string) \<Rightarrow> gotime \<Rightarrow> string \<Rightarrow> nat \<times> dhcp_scope \<Rightarrow> dhcp_scope" where
  "incoming_scope gen now sid e =
     (case e of (i, s) \<Rightarrow>
        (normalize_scope_lease (s\<lparr>sc_server_id := sid,
             sc_external_id := first_non_empty [sc_external_id s, sc_id s, sc_subnet s, sc_name s],
             sc_state := (if sc_state s = [] then ''Active'' else sc_state s)\<rparr>))
          \<lparr>sc_id := gen ''scope'' i, sc_last_synced_at := Some now, sc_sync_status := ''synced'', sc_last_error := []\<rparr>)"

definition replace_dhcp_scopes ::
    "(string \<Rightarrow> nat \<Rightarrow> string) \<Rightarrow> gotime \<Rightarrow> string \<Rightarrow> dhcp_scope list \<Rightarrow> db \<Rightarrow> store_error + db" where
  "replace_dhcp_scopes gen now sid scopes d =
     (let rows = map (incoming_scope gen now sid) (List.enumerate 0 scopes) in
      if db_fault d ''ReplaceScopes'' sid \<or> rows \<noteq> [] \<and> \<not> has_server d sid \<or> \<not> list_all scope_fits rows then Inl DbError
      else case put_rows scope_key sc_id (\<lambda>x r. r\<lparr>sc_id := sc_id x\<rparr>) rows (db_scopes d) of
        (rows1, ids) \<Rightarrow>
          Inr (delete_scopes_where (\<lambda>x. sc_server_id x = sid \<and> sc_id x \<notin> set ids) (d\<lparr>db_scopes := rows1\<rparr>)))"

definition incoming_exclusion ::
    "(string \<Rightarrow> nat \<Rightarrow> string) \<Rightarrow> gotime \<Rightarrow> string \<Rightarrow> nat \<times> dhcp_exclusion \<Rightarrow> dhcp_exclusion" where
  "incoming_exclusion gen now scid e =
     (case e of (i, x) \<Rightarrow> x\<lparr>ex_id := gen ''exclusion'' i, ex_scope_id := scid,
        ex_external_id := first_non_empty [ex_external_id x, exclusion_external_id x], ex_last_synced_at := Some now\<rparr>)"

definition incoming_lease ::
    "(string \<Rightarrow> nat \<Rightarrow> string) \<Rightarrow> gotime \<Rightarrow> string \<Rightarrow> nat \<times> dhcp_lease \<Rightarrow> dhcp_lease" where
  "incoming_lease gen now scid e =
     (case e of (i, x) \<Rightarrow> x\<lparr>l_id := gen ''lease'' i, l_scope_id := scid,
        l_state := first_non_empty [l_state x, ''Active''],
        l_external_id := first_non_empty [l_external_id x, l_id x, l_ip x], l_last_synced_at := Some now\<rparr>)"

definition incoming_reservation ::
    "(string \<Rightarrow> nat \<Rightarrow> string) \<Rightarrow> gotime \<Rightarrow> string \<Rightarrow> nat \<times> dhcp_reservation \<Rightarrow> dhcp_reservation" where
  "incoming_reservation gen now scid e =
     (case e of (i, x) \<Rightarrow> x\<lparr>rv_id := gen ''reservation'' i, rv_scope_id := scid,
        rv_external_id := first_non_empty [rv_external_id x, rv_id x, rv_ip x], rv_last_synced_at := Some now\<rparr>)"

text \<open>\<open>deleteStaleDHCPScopeRows\<close> is the deletion inside \<open>sync_table\<close>.\<close>

definition sync_scope_rows ::
    "(string \<Rightarrow> nat \<Rightarrow> string) \<Rightarrow> gotime \<Rightarrow> string \<Rightarrow> dhcp_exclusion list \<Rightarrow> dhcp_lease list \<Rightarrow> dhcp_reservation list \<Rightarrow>
     db \<Rightarrow> db" where
  "sync_scope_rows gen now scid exs ls rvs d =
     d\<lparr>db_exclusions := sync_table exclusion_key ex_id (\<lambda>x r. r\<lparr>ex_id := ex_id x\<rparr>) (\<lambda>x. ex_scope_id x = scid)
         (map (incoming_exclusion gen now scid) (List.enumerate 0 exs)) (db_exclusions d),
       db_leases := sync_table lease_key l_id (\<lambda>x r. r\<lparr>l_id := l_id x\<rparr>) (\<lambda>x. l_scope_id x = scid)
         (map (incoming_lease gen now scid) (List.enumerate 0 ls)) (db_leases d),
       db_reservations := sync_table reservation_key rv_id (\<lambda>x r. r\<lparr>rv_id := rv_id x\<rparr>) (\<lambda>x. rv_scope_id x = scid)
         (map (incoming_reservation gen now scid) (List.enumerate 0 rvs)) (db_reservations d)\<rparr>"

definition replace_dhcp_scope_snapshot ::
    "(string \<Rightarrow> nat \<Rightarrow> string) \<Rightarrow> gotime \<Rightarrow> string \<Rightarrow> dhcp_scope \<Rightarrow> dhcp_exclusion list \<Rightarrow> dhcp_lease list \<Rightarrow>
     dhcp_reservation list \<Rightarrow> db \<Rightarrow> store_error + db" where
  "replace_dhcp_scope_snapshot gen now sid scope exs ls rvs d =
     (let row = incoming_scope gen now sid (0, scope) in
      if db_fault d ''ReplaceScopeSnapshot'' (sc_external_id row) \<or> \<not> has_server d sid \<or> \<not> scope_fits row then Inl DbError
      else case put_rows scope_key sc_id (\<lambda>x r. r\<lparr>sc_id := sc_id x\<rparr>) [row] (db_scopes d) of
        (rows1, ids) \<Rightarrow> Inr (sync_scope_rows gen now (hd ids) exs ls rvs (d\<lparr>db_scopes := rows1\<rparr>)))"

subsection \<open>The tables keep their keys\<close>

interpretation scope_table: snapshot_table scope_key sc_id "\<lambda>x r. r\<lparr>sc_id := sc_id x\<rparr>"
  by unfold_locales (auto simp: scope_key_def split: if_splits)

interpretation exclusion_table: snapshot_table exclusion_key ex_id "\<lambda>x r. r\<lparr>ex_id := ex_id x\<rparr>"
  by unfold_locales (auto simp: exclusion_key_def)

interpretation lease_table: snapshot_table lease_key l_id "\<lambda>x r. r\<lparr>l_id := l_id x\<rparr>"
  by unfold_locales (auto simp: lease_key_def)

interpretation reservation_table: snapshot_table reservation_key rv_id "\<lambda>x r. r\<lparr>rv_id := rv_id x\<rparr>"
  by unfold_locales (auto simp: reservation_key_def)

text \<open>What the primary keys, unique indexes and foreign keys guarantee.\<close>

definition dhcp_keys_ok :: "db \<Rightarrow> bool" where
  "dhcp_keys_ok d \<longleftrightarrow>
     distinct (map scope_key (db_scopes d)) \<and> distinct (map sc_id (db_scopes d)) \<and>
     distinct (map exclusion_key (db_exclusions d)) \<and> distinct (map ex_id (db_exclusions d)) \<and>
     distinct (map lease_key (db_leases d)) \<and> distinct (map l_id (db_leases d)) \<and>
     distinct (map reservation_key (db_reservations d)) \<and> distinct (map rv_id (db_reservations d))"

definition dhcp_parents_ok :: "db \<Rightarrow> bool" where
  "dhcp_parents_ok d \<longleftrightarrow> list_all (\<lambda>x. has_scope d (ex_scope_id x)) (db_exclusions d) \<and>
     list_all (\<lambda>x. has_scope d (l_scope_id x)) (db_leases d) \<and>
     list_all (\<lambda>x. has_scope d (rv_scope_id x)) (db_reservations d)"

text \<open>Generated identifiers are new and differ from one another.\<close>

definition rows_fresh :: "(string \<Rightarrow> nat \<Rightarrow> string) \<Rightarrow> db \<Rightarrow> bool" where
  "rows_fresh gen d \<longleftrightarrow> (\<forall>t. inj (gen t)) \<and> (\<forall>t i. gen t i \<notin> ex_id ` set (db_exclusions d) \<and>
     gen t i \<notin> l_id ` set (db_leases d) \<and> gen t i \<notin> rv_id ` set (db_reservations d))"

definition gen_fresh :: "(string \<Rightarrow> nat \<Rightarrow> string) \<Rightarrow> db \<Rightarrow> bool" where
  "gen_fresh gen d \<longleftrightarrow> rows_fresh gen d \<and> (\<forall>t i. gen t i \<notin> sc_id ` set (db_scopes d))"

lemma incoming_fields [simp]:
  "sc_id (incoming_scope gen now sid e) = gen ''scope'' (fst e)" "sc_server_id (incoming_scope gen now sid e) = sid"
  "ex_id (incoming_exclusion gen now scid e1) = gen ''exclusion'' (fst e1)"
  "ex_scope_id (incoming_exclusion gen now scid e1) = scid"
  "ex_start_ip (incoming_exclusion gen now scid e1) = ex_start_ip (snd e1)"
  "ex_end_ip (incoming_exclusion gen now scid e1) = ex_end_ip (snd e1)"
  "l_id (incoming_lease gen now scid e2) = gen ''lease'' (fst e2)" "l_scope_id (incoming_lease gen now scid e2) = scid"
  "l_ip (incoming_lease gen now scid e2) = l_ip (snd e2)"
  "rv_id (incoming_reservation gen now scid e3) = gen ''reservation'' (fst e3)"
  "rv_scope_id (incoming_reservation gen now scid e3) = scid" "rv_ip (incoming_reservation gen now scid e3) = rv_ip (snd e3)"
  by (simp_all add: incoming_scope_def incoming_exclusion_def incoming_lease_def incoming_reservation_def
      normalize_scope_lease_def Let_def split: prod.split)

lemma gen_rows_fresh:
  assumes "inj g" "\<forall>i. g i \<notin> A" and "\<And>e. rid (f e) = g (fst e)"
  shows "distinct (map rid (map f (List.enumerate 0 xs)))" "rid ` set (map f (List.enumerate 0 xs)) \<inter> A = {}"
proof -
  have m: "map rid (map f (List.enumerate n xs)) = map g [n..<n + length xs]" for n
  proof (induction xs arbitrary: n)
    case (Cons x xs)
    then show ?case by (simp add: assms(3) upt_rec)
  qed simp
  show "distinct (map rid (map f (List.enumerate 0 xs)))"
    unfolding m distinct_map using inj_on_subset [OF assms(1)] by simp
  show "rid ` set (map f (List.enumerate 0 xs)) \<inter> A = {}"
    using assms(2,3) by auto
qed

lemma enumerate_image: "(\<lambda>e. h (snd e)) ` set (List.enumerate 0 xs) = h ` set xs"
  by (metis image_image list.set_map map_snd_enumerate)

context snapshot_table
begin

text \<open>A table synchronised with numbered rows whose identifiers are generated.\<close>

lemma sync_incoming:
  assumes "distinct (map key rows)" "distinct (map rid rows)" "inj g" "\<forall>i. g i \<notin> rid ` set rows"
    and "\<And>e. rid (f e) = g (fst e)" and "\<And>e. key (f e) = h (snd e)"
    and "\<And>x r. key x = key r \<Longrightarrow> mine x = mine r" and "\<And>e. mine (f e)"
  shows "key ` {x \<in> set (sync_table key rid merge mine (map f (List.enumerate 0 xs)) rows). mine x} = h ` set xs"
    and "\<not> mine y \<Longrightarrow> y \<in> set (sync_table key rid merge mine (map f (List.enumerate 0 xs)) rows) \<longleftrightarrow> y \<in> set rows"
    and "distinct (map key (sync_table key rid merge mine (map f (List.enumerate 0 xs)) rows)) \<and>
         distinct (map rid (sync_table key rid merge mine (map f (List.enumerate 0 xs)) rows))"
proof -
  have fresh: "distinct (map rid (map f (List.enumerate 0 xs)))" "rid ` set (map f (List.enumerate 0 xs)) \<inter> rid ` set rows = {}"
    using gen_rows_fresh [of g "rid ` set rows" rid f, OF assms(3,4,5)] by blast+
  have all: "list_all mine (map f (List.enumerate 0 xs))" using assms(8) by (simp add: list_all_iff)
  have "key ` set (map f (List.enumerate 0 xs)) = h ` set xs"
    using enumerate_image [of h xs] by (simp add: image_image assms(6))
  with sync_table_keys [OF assms(1,2) fresh assms(7) all]
  show "key ` {x \<in> set (sync_table key rid merge mine (map f (List.enumerate 0 xs)) rows). mine x} = h ` set xs" by simp
  show "y \<in> set (sync_table key rid merge mine (map f (List.enumerate 0 xs)) rows) \<longleftrightarrow> y \<in> set rows" if "\<not> mine y"
    using sync_table_other [OF assms(1,2) fresh assms(7) all that] .
  show "distinct (map key (sync_table key rid merge mine (map f (List.enumerate 0 xs)) rows)) \<and>
         distinct (map rid (sync_table key rid merge mine (map f (List.enumerate 0 xs)) rows))"
    using sync_table_distinct [OF assms(1,2) fresh] .
qed

end

lemma gen_freshD:
  assumes "rows_fresh gen d"
  shows "inj (gen t)" "\<forall>i. gen t i \<notin> ex_id ` set (db_exclusions d)"
    "\<forall>i. gen t i \<notin> l_id ` set (db_leases d)" "\<forall>i. gen t i \<notin> rv_id ` set (db_reservations d)"
  using assms unfolding rows_fresh_def by blast+

lemma dhcp_keys_okD:
  assumes "dhcp_keys_ok d"
  shows "distinct (map scope_key (db_scopes d))" "distinct (map sc_id (db_scopes d))"
    "distinct (map exclusion_key (db_exclusions d))" "distinct (map ex_id (db_exclusions d))"
    "distinct (map lease_key (db_leases d))" "distinct (map l_id (db_leases d))"
    "distinct (map reservation_key (db_reservations d))" "distinct (map rv_id (db_reservations d))"
  using assms unfolding dhcp_keys_ok_def by blast+

lemmas sync_exclusions = exclusion_table.sync_incoming
  [where mine = "\<lambda>x. ex_scope_id x = scid" and f = "incoming_exclusion gen now scid" and
   h = "\<lambda>x. (scid, ex_start_ip x, ex_end_ip x)" for scid gen now]

lemmas sync_leases = lease_table.sync_incoming
  [where mine = "\<lambda>x. l_scope_id x = scid" and f = "incoming_lease gen now scid" and h = "\<lambda>x. (scid, l_ip x)" for scid gen now]

lemmas sync_reservations = reservation_table.sync_incoming
  [where mine = "\<lambda>x. rv_scope_id x = scid" and f = "incoming_reservation gen now scid" and h = "\<lambda>x. (scid, rv_ip x)" for scid gen now]

lemma sync_scope_rows_content:
  assumes "dhcp_keys_ok d" "rows_fresh gen d"
  shows "exclusion_key ` {x \<in> set (db_exclusions (sync_scope_rows gen now scid exs ls rvs d)). ex_scope_id x = scid} =
       (\<lambda>x. (scid, ex_start_ip x, ex_end_ip x)) ` set exs"
    "lease_key ` {x \<in> set (db_leases (sync_scope_rows gen now scid exs ls rvs d)). l_scope_id x = scid} =
       (\<lambda>x. (scid, l_ip x)) ` set ls"
    "reservation_key ` {x \<in> set (db_reservations (sync_scope_rows gen now scid exs ls rvs d)). rv_scope_id x = scid} =
       (\<lambda>x. (scid, rv_ip x)) ` set rvs"
proof -
  note k = dhcp_keys_okD [OF assms(1)] and g = gen_freshD [OF assms(2)]
  show "exclusion_key ` {x \<in> set (db_exclusions (sync_scope_rows gen now scid exs ls rvs d)). ex_scope_id x = scid} =
       (\<lambda>x. (scid, ex_start_ip x, ex_end_ip x)) ` set exs"
    using sync_exclusions(1) [OF k(3,4) g(1,2)] by (simp add: sync_scope_rows_def exclusion_key_def)
  show "lease_key ` {x \<in> set (db_leases (sync_scope_rows gen now scid exs ls rvs d)). l_scope_id x = scid} =
       (\<lambda>x. (scid, l_ip x)) ` set ls"
    using sync_leases(1) [OF k(5,6) g(1,3)] by (simp add: sync_scope_rows_def lease_key_def)
  show "reservation_key ` {x \<in> set (db_reservations (sync_scope_rows gen now scid exs ls rvs d)). rv_scope_id x = scid} =
       (\<lambda>x. (scid, rv_ip x)) ` set rvs"
    using sync_reservations(1) [OF k(7,8) g(1,4)] by (simp add: sync_scope_rows_def reservation_key_def)
qed

lemma sync_scope_rows_other:
  assumes "dhcp_keys_ok d" "rows_fresh gen d"
  shows "ex_scope_id e \<noteq> scid \<Longrightarrow> e \<in> set (db_exclusions (sync_scope_rows gen now scid exs ls rvs d)) \<longleftrightarrow> e \<in> set (db_exclusions d)"
    "l_scope_id l \<noteq> scid \<Longrightarrow> l \<in> set (db_leases (sync_scope_rows gen now scid exs ls rvs d)) \<longleftrightarrow> l \<in> set (db_leases d)"
    "rv_scope_id r \<noteq> scid \<Longrightarrow> r \<in> set (db_reservations (sync_scope_rows gen now scid exs ls rvs d)) \<longleftrightarrow> r \<in> set (db_reservations d)"
proof -
  note k = dhcp_keys_okD [OF assms(1)] and g = gen_freshD [OF assms(2)]
  show "ex_scope_id e \<noteq> scid \<Longrightarrow> e \<in> set (db_exclusions (sync_scope_rows gen now scid exs ls rvs d)) \<longleftrightarrow> e \<in> set (db_exclusions d)"
    using sync_exclusions(2) [OF k(3,4) g(1,2)] by (simp add: sync_scope_rows_def exclusion_key_def)
  show "l_scope_id l \<noteq> scid \<Longrightarrow> l \<in> set (db_leases (sync_scope_rows gen now scid exs ls rvs d)) \<longleftrightarrow> l \<in> set (db_leases d)"
    using sync_leases(2) [OF k(5,6) g(1,3)] by (simp add: sync_scope_rows_def lease_key_def)
  show "rv_scope_id r \<noteq> scid \<Longrightarrow> r \<in> set (db_reservations (sync_scope_rows gen now scid exs ls rvs d)) \<longleftrightarrow> r \<in> set (db_reservations d)"
    using sync_reservations(2) [OF k(7,8) g(1,4)] by (simp add: sync_scope_rows_def reservation_key_def)
qed

lemma sync_scope_rows_keys:
  assumes "dhcp_keys_ok d" "rows_fresh gen d"
  shows "dhcp_keys_ok (sync_scope_rows gen now scid exs ls rvs d)"
proof -
  note k = dhcp_keys_okD [OF assms(1)] and g = gen_freshD [OF assms(2)]
  show ?thesis
    using k(1,2) sync_exclusions(3) [OF k(3,4) g(1,2)] sync_leases(3) [OF k(5,6) g(1,3)] sync_reservations(3) [OF k(7,8) g(1,4)]
    by (simp add: dhcp_keys_ok_def sync_scope_rows_def exclusion_key_def lease_key_def reservation_key_def)
qed

text \<open>The upsert of one scope: what \<open>put_rows\<close> does on a list of one row.\<close>

lemma put_scope_row:
  assumes "dhcp_keys_ok d" "gen_fresh gen d"
    and "put_rows scope_key sc_id (\<lambda>x r. r\<lparr>sc_id := sc_id x\<rparr>) [incoming_scope gen now sid (0, scope)] (db_scopes d) = (rows1, ids)"
  shows "dhcp_keys_ok (d\<lparr>db_scopes := rows1\<rparr>)"
    and "\<exists>s \<in> set rows1. sc_id s = hd ids \<and> s = (incoming_scope gen now sid (0, scope))\<lparr>sc_id := sc_id s\<rparr> \<and>
       (\<forall>s0 \<in> set (db_scopes d). scope_key s0 = scope_key (incoming_scope gen now sid (0, scope)) \<longrightarrow> sc_id s0 = sc_id s)"
proof -
  let ?r = "incoming_scope gen now sid (0, scope)"
  note k = dhcp_keys_okD [OF assms(1)]
  have new: "sc_id ?r \<notin> sc_id ` set (db_scopes d)" using assms(2) by (simp add: gen_fresh_def)
  have "distinct (map scope_key rows1) \<and> distinct (map sc_id rows1)"
    using scope_table.put_distinct [OF assms(3) k(1,2)] new by simp
  then show "dhcp_keys_ok (d\<lparr>db_scopes := rows1\<rparr>)" using k by (simp add: dhcp_keys_ok_def)
  have rows1: "rows1 = upsert_row (\<lambda>x. scope_key x = scope_key ?r) (\<lambda>x. ?r\<lparr>sc_id := sc_id x\<rparr>) ?r (db_scopes d)"
      and ids: "hd ids = (case find_row (\<lambda>x. scope_key x = scope_key ?r) (db_scopes d) of Some x \<Rightarrow> sc_id x | None \<Rightarrow> sc_id ?r)"
    using assms(3) by (auto simp: Let_def)
  show "\<exists>s \<in> set rows1. sc_id s = hd ids \<and> s = ?r\<lparr>sc_id := sc_id s\<rparr> \<and>
       (\<forall>s0 \<in> set (db_scopes d). scope_key s0 = scope_key ?r \<longrightarrow> sc_id s0 = sc_id s)"
  proof (cases "find_row (\<lambda>x. scope_key x = scope_key ?r) (db_scopes d)")
    case None
    then have "?r \<in> set rows1" "\<forall>s0 \<in> set (db_scopes d). scope_key s0 \<noteq> scope_key ?r"
      unfolding rows1 by (auto simp: find_row_None upsert_row_def list_ex_iff)
    then show ?thesis using None ids by (intro bexI [of _ ?r]) auto
  next
    case (Some x)
    then have x: "x \<in> set (db_scopes d)" "scope_key x = scope_key ?r" by (auto dest: find_row_Some)
    then have "?r\<lparr>sc_id := sc_id x\<rparr> \<in> set rows1"
      unfolding rows1 by (auto simp: upsert_row_def list_ex_iff set_update_rows)
    moreover have "\<forall>s0 \<in> set (db_scopes d). scope_key s0 = scope_key ?r \<longrightarrow> sc_id s0 = sc_id x"
      using x k(1) by (metis distinct_map inj_onD)
    ultimately show ?thesis using Some ids by (intro bexI [of _ "?r\<lparr>sc_id := sc_id x\<rparr>"]) auto
  qed
qed

lemma snapshot_rows_replaced:
  assumes "dhcp_keys_ok d" "gen_fresh gen d"
    and "replace_dhcp_scope_snapshot gen now sid scope exs ls rvs d = Inr d'"
  shows "dhcp_keys_ok d' \<and> (\<exists>s \<in> set (db_scopes d'). s = (incoming_scope gen now sid (0, scope))\<lparr>sc_id := sc_id s\<rparr> \<and>
     (\<forall>s0 \<in> set (db_scopes d). scope_key s0 = scope_key (incoming_scope gen now sid (0, scope)) \<longrightarrow> sc_id s0 = sc_id s) \<and>
     exclusion_key ` {x \<in> set (db_exclusions d'). ex_scope_id x = sc_id s} = (\<lambda>x. (sc_id s, ex_start_ip x, ex_end_ip x)) ` set exs \<and>
     lease_key ` {x \<in> set (db_leases d'). l_scope_id x = sc_id s} = (\<lambda>x. (sc_id s, l_ip x)) ` set ls \<and>
     reservation_key ` {x \<in> set (db_reservations d'). rv_scope_id x = sc_id s} = (\<lambda>x. (sc_id s, rv_ip x)) ` set rvs \<and>
     (\<forall>x. ex_scope_id x \<noteq> sc_id s \<longrightarrow> x \<in> set (db_exclusions d') \<longleftrightarrow> x \<in> set (db_exclusions d)) \<and>
     (\<forall>x. l_scope_id x \<noteq> sc_id s \<longrightarrow> x \<in> set (db_leases d') \<longleftrightarrow> x \<in> set (db_leases d)) \<and>
     (\<forall>x. rv_scope_id x \<noteq> sc_id s \<longrightarrow> x \<in> set (db_reservations d') \<longleftrightarrow> x \<in> set (db_reservations d)))"
proof -
  let ?r = "incoming_scope gen now sid (0, scope)"
  obtain rows1 ids where p: "put_rows scope_key sc_id (\<lambda>x r. r\<lparr>sc_id := sc_id x\<rparr>) [?r] (db_scopes d) = (rows1, ids)"
    by (rule prod.exhaust)
  let ?d = "d\<lparr>db_scopes := rows1\<rparr>"
  have d': "d' = sync_scope_rows gen now (hd ids) exs ls rvs ?d"
    using assms(3) p unfolding replace_dhcp_scope_snapshot_def Let_def by (auto split: if_splits)
  have ok: "dhcp_keys_ok ?d" by (rule put_scope_row(1) [OF assms(1,2) p])
  obtain s where s: "s \<in> set rows1" "sc_id s = hd ids" "s = ?r\<lparr>sc_id := sc_id s\<rparr>"
      "\<forall>s0 \<in> set (db_scopes d). scope_key s0 = scope_key ?r \<longrightarrow> sc_id s0 = sc_id s"
    using put_scope_row(2) [OF assms(1,2) p] by blast
  have fresh: "rows_fresh gen ?d" using assms(2) by (simp add: gen_fresh_def rows_fresh_def)
  note content = sync_scope_rows_content [OF ok fresh, where scid = "hd ids" and now = now and exs = exs and ls = ls and rvs = rvs, folded d']
    and other = sync_scope_rows_other [OF ok fresh, where scid = "hd ids" and now = now and exs = exs and ls = ls and rvs = rvs, folded d']
  have rest: "db_scopes d' = rows1" "dhcp_keys_ok d'"
    using sync_scope_rows_keys [OF ok fresh, where scid = "hd ids" and now = now and exs = exs and ls = ls and rvs = rvs, folded d'] by (auto simp: d' sync_scope_rows_def)
  show ?thesis
    using s rest content other by (intro conjI bexI [of _ s]) simp_all
qed

text \<open>Replacing the snapshot of a scope is all or nothing, and when it commits the scope is stored as sent
  and counts as synced, under the identifier it had before if it was known; below it there are exactly
  the exclusions, leases and reservations that were sent, the rows of every other scope are as they
  were, and all keys stay unique.\<close>

theorem scope_snapshot_replaced:
  assumes "dhcp_keys_ok d" "gen_fresh gen d"
    and "replace_dhcp_scope_snapshot gen now sid scope exs ls rvs d = Inr d'"
  shows "dhcp_keys_ok d' \<and> (\<exists>s \<in> set (db_scopes d'). s = (incoming_scope gen now sid (0, scope))\<lparr>sc_id := sc_id s\<rparr> \<and>
     (\<forall>s0 \<in> set (db_scopes d). scope_key s0 = scope_key (incoming_scope gen now sid (0, scope)) \<longrightarrow> sc_id s0 = sc_id s) \<and>
     exclusion_key ` {x \<in> set (db_exclusions d'). ex_scope_id x = sc_id s} = (\<lambda>x. (sc_id s, ex_start_ip x, ex_end_ip x)) ` set exs \<and>
     lease_key ` {x \<in> set (db_leases d'). l_scope_id x = sc_id s} = (\<lambda>x. (sc_id s, l_ip x)) ` set ls \<and>
     reservation_key ` {x \<in> set (db_reservations d'). rv_scope_id x = sc_id s} = (\<lambda>x. (sc_id s, rv_ip x)) ` set rvs \<and>
     (\<forall>x. ex_scope_id x \<noteq> sc_id s \<longrightarrow> x \<in> set (db_exclusions d') \<longleftrightarrow> x \<in> set (db_exclusions d)) \<and>
     (\<forall>x. l_scope_id x \<noteq> sc_id s \<longrightarrow> x \<in> set (db_leases d') \<longleftrightarrow> x \<in> set (db_leases d)) \<and>
     (\<forall>x. rv_scope_id x \<noteq> sc_id s \<longrightarrow> x \<in> set (db_reservations d') \<longleftrightarrow> x \<in> set (db_reservations d)))"
  by (rule snapshot_rows_replaced [OF assms])

lemma normalize_keeps [simp]:
  "sc_external_id (normalize_scope_lease s) = sc_external_id s" "sc_server_id (normalize_scope_lease s) = sc_server_id s"
  by (simp_all add: normalize_scope_lease_def Let_def)

lemma incoming_external: "sc_external_id (incoming_scope gen now sid e) =
    first_non_empty [sc_external_id (snd e), sc_id (snd e), sc_subnet (snd e), sc_name (snd e)]"
  by (simp add: incoming_scope_def split: prod.split)

lemma incoming_scope_key:
  "first_non_empty [sc_external_id (snd e), sc_id (snd e), sc_subnet (snd e), sc_name (snd e)] \<noteq> [] \<Longrightarrow>
   scope_key (incoming_scope gen now sid e) =
    (sid, Inr (first_non_empty [sc_external_id (snd e), sc_id (snd e), sc_subnet (snd e), sc_name (snd e)]))"
  unfolding scope_key_def incoming_external by simp

lemma not_in_image: "i \<notin> f ` {x \<in> A. p x} \<longleftrightarrow> (\<forall>x \<in> A. f x = i \<longrightarrow> \<not> p x)"
  by blast

lemma delete_scopes_tables:
  assumes "distinct (map sc_id (db_scopes d))"
  shows "has_scope (delete_scopes_where p d) i \<longleftrightarrow> (\<exists>s \<in> set (db_scopes d). sc_id s = i \<and> \<not> p s)"
    "l \<in> set (db_leases (delete_scopes_where p d)) \<longleftrightarrow> l \<in> set (db_leases d) \<and> (\<forall>s \<in> set (db_scopes d). sc_id s = l_scope_id l \<longrightarrow> \<not> p s)"
    "e \<in> set (db_exclusions (delete_scopes_where p d)) \<longleftrightarrow> e \<in> set (db_exclusions d) \<and> (\<forall>s \<in> set (db_scopes d). sc_id s = ex_scope_id e \<longrightarrow> \<not> p s)"
    "r \<in> set (db_reservations (delete_scopes_where p d)) \<longleftrightarrow> r \<in> set (db_reservations d) \<and> (\<forall>s \<in> set (db_scopes d). sc_id s = rv_scope_id r \<longrightarrow> \<not> p s)"
  by (auto simp: delete_scopes_where_def has_scope_def list_ex_iff Let_def not_in_image)

lemma delete_scopes_parents:
  assumes "dhcp_parents_ok d" "distinct (map sc_id (db_scopes d))"
  shows "dhcp_parents_ok (delete_scopes_where p d)"
proof -
  have "has_scope (delete_scopes_where p d) i" if "has_scope d i" "\<forall>s \<in> set (db_scopes d). sc_id s = i \<longrightarrow> \<not> p s" for i
    using that unfolding delete_scopes_tables [OF assms(2)] by (auto simp: has_scope_def list_ex_iff)
  then show ?thesis
    using assms(1) unfolding dhcp_parents_ok_def list_all_iff Ball_def delete_scopes_tables(2-4) [OF assms(2)] by blast
qed

lemma delete_scopes_keys: "dhcp_keys_ok d \<Longrightarrow> dhcp_keys_ok (delete_scopes_where p d)"
  by (simp add: dhcp_keys_ok_def delete_scopes_where_def Let_def distinct_map_delete)

text \<open>Replacing the scopes of a server: afterwards they are exactly the ones that were sent, a scope that was
  known keeps its identifier and with it its exclusions, leases and reservations, the scopes of other
  servers are as they were, the rows below vanished scopes are gone with them, and keys and foreign
  keys still hold.\<close>

theorem scopes_replaced:
  assumes "dhcp_keys_ok d" "dhcp_parents_ok d" "gen_fresh gen d"
    and "\<forall>s \<in> set scopes. first_non_empty [sc_external_id s, sc_id s, sc_subnet s, sc_name s] \<noteq> []"
    and "replace_dhcp_scopes gen now sid scopes d = Inr d'"
  shows "scope_key ` {s \<in> set (db_scopes d'). sc_server_id s = sid} =
       (\<lambda>s. (sid, Inr (first_non_empty [sc_external_id s, sc_id s, sc_subnet s, sc_name s]))) ` set scopes \<and>
     (\<forall>s \<in> set (db_scopes d). \<forall>s' \<in> set (db_scopes d'). scope_key s' = scope_key s \<longrightarrow> sc_id s' = sc_id s) \<and>
     (\<forall>s. sc_server_id s \<noteq> sid \<longrightarrow> (s \<in> set (db_scopes d') \<longleftrightarrow> s \<in> set (db_scopes d))) \<and>
     (\<forall>l. l \<in> set (db_leases d') \<longleftrightarrow> l \<in> set (db_leases d) \<and> has_scope d' (l_scope_id l)) \<and>
     dhcp_keys_ok d' \<and> dhcp_parents_ok d'"
proof -
  let ?m = "\<lambda>x r. r\<lparr>sc_id := sc_id x\<rparr> :: dhcp_scope" and ?mine = "\<lambda>x. sc_server_id x = sid"
  let ?f = "incoming_scope gen now sid"
  let ?rows = "map ?f (List.enumerate 0 scopes)"
  let ?h = "\<lambda>s. (sid, Inr (first_non_empty [sc_external_id s, sc_id s, sc_subnet s, sc_name s])) :: string \<times> (string + string)"
  note k = dhcp_keys_okD [OF assms(1)]
  obtain rows1 ids where p: "put_rows scope_key sc_id ?m ?rows (db_scopes d) = (rows1, ids)" by (rule prod.exhaust)
  let ?del = "\<lambda>x. sc_server_id x = sid \<and> sc_id x \<notin> set ids" and ?d = "d\<lparr>db_scopes := rows1\<rparr>"
  have d': "d' = delete_scopes_where ?del ?d"
    using assms(5) p unfolding replace_dhcp_scopes_def Let_def by (auto split: if_splits)
  have inj: "inj (gen ''scope'')" "\<forall>i. gen ''scope'' i \<notin> sc_id ` set (db_scopes d)"
    using assms(3) by (auto simp: gen_fresh_def rows_fresh_def)
  have fresh: "distinct (map sc_id ?rows)" "sc_id ` set ?rows \<inter> sc_id ` set (db_scopes d) = {}"
    using gen_rows_fresh [of "gen ''scope''" "sc_id ` set (db_scopes d)" sc_id ?f, OF inj] by simp_all
  have mine: "?mine x = ?mine r" if "scope_key x = scope_key r" for x r
    using that by (simp add: scope_key_def)
  have all: "list_all ?mine ?rows" by (simp add: list_all_iff)
  have scopes: "db_scopes d' = sync_table scope_key sc_id ?m ?mine ?rows (db_scopes d)"
    by (simp add: d' delete_scopes_where_def sync_table_def p Let_def)
  have dist: "distinct (map scope_key rows1)" "distinct (map sc_id rows1)"
    using scope_table.put_distinct [OF p k(1,2) fresh] by simp_all
  have keys1: "dhcp_keys_ok ?d" using k dist by (simp add: dhcp_keys_ok_def)
  have keep: "has_scope ?d i" if i: "has_scope d i" for i
  proof -
    from i obtain s where s: "s \<in> set (db_scopes d)" "sc_id s = i" by (auto simp: has_scope_def list_ex_iff)
    from scope_table.put_keeps_rid [OF p s(1)] s(2) show ?thesis by (auto simp: has_scope_def list_ex_iff)
  qed
  have parents1: "dhcp_parents_ok ?d"
    using assms(2) keep by (auto simp: dhcp_parents_ok_def list_all_iff)
  have sent: "scope_key ` set ?rows = ?h ` set scopes"
  proof -
    have "scope_key (?f e) = ?h (snd e)" if "e \<in> set (List.enumerate 0 scopes)" for e
    proof -
      have "snd e \<in> set scopes" using that by (metis image_eqI list.set_map map_snd_enumerate)
      with assms(4) incoming_scope_key show ?thesis by blast
    qed
    then have "scope_key ` set ?rows = (\<lambda>e. ?h (snd e)) ` set (List.enumerate 0 scopes)" by (simp add: image_image)
    then show ?thesis using enumerate_image [of ?h scopes] by simp
  qed
  have own: "scope_key ` {s \<in> set (db_scopes d'). ?mine s} = ?h ` set scopes"
    unfolding scopes using scope_table.sync_table_keys [OF k(1,2) fresh mine all] sent by simp
  have ids: "sc_id s' = sc_id s" if s: "s \<in> set (db_scopes d)" "s' \<in> set (db_scopes d')" "scope_key s' = scope_key s" for s s'
  proof -
    have s': "s' \<in> set rows1" using s(2) by (simp add: d' delete_scopes_where_def Let_def)
    from scope_table.put_keeps_rid [OF p s(1)] obtain x where x: "x \<in> set rows1" "sc_id x = sc_id s" "scope_key x = scope_key s" by blast
    with s' s(3) dist(1) have "x = s'" by (metis distinct_map inj_onD)
    with x show ?thesis by simp
  qed
  have other: "s \<in> set (db_scopes d') \<longleftrightarrow> s \<in> set (db_scopes d)" if "\<not> ?mine s" for s
    unfolding scopes by (rule scope_table.sync_table_other [OF k(1,2) fresh mine all that])
  have leases: "l \<in> set (db_leases d') \<longleftrightarrow> l \<in> set (db_leases d) \<and> has_scope d' (l_scope_id l)" for l
  proof -
    have u: "s = t" if "s \<in> set rows1" "t \<in> set rows1" "sc_id s = sc_id t" for s t
      using that dist(2) by (metis distinct_map inj_onD)
    have "has_scope ?d (l_scope_id l)" if "l \<in> set (db_leases d)"
      using that parents1 by (simp add: dhcp_parents_ok_def list_all_iff)
    moreover have "(\<exists>s \<in> set rows1. sc_id s = l_scope_id l \<and> \<not> ?del s) \<longleftrightarrow> (\<forall>s \<in> set rows1. sc_id s = l_scope_id l \<longrightarrow> \<not> ?del s)"
      if "has_scope ?d (l_scope_id l)"
    proof -
      from that obtain t where t: "t \<in> set rows1" "sc_id t = l_scope_id l" by (auto simp: has_scope_def list_ex_iff)
      then have "s = t" if "s \<in> set rows1" "sc_id s = l_scope_id l" for s using u [OF that(1) t(1)] that t by simp
      with t show ?thesis by blast
    qed
    moreover have "has_scope d' (l_scope_id l) \<longleftrightarrow> (\<exists>s \<in> set rows1. sc_id s = l_scope_id l \<and> \<not> ?del s)"
      "l \<in> set (db_leases d') \<longleftrightarrow> l \<in> set (db_leases d) \<and> (\<forall>s \<in> set rows1. sc_id s = l_scope_id l \<longrightarrow> \<not> ?del s)"
      unfolding d' using delete_scopes_tables(1,2) [of ?d, where p = ?del] dist(2) by simp_all
    ultimately show ?thesis by argo
  qed
  show ?thesis
    using own ids other leases delete_scopes_keys [OF keys1] delete_scopes_parents [OF parents1] dist(2) d'
    by (intro conjI ballI allI impI) simp_all
qed

text \<open>Lease durations: the normalised scope has either an unlimited lease (-1 seconds, 0 hours) or both
  durations positive; a duration given in one unit only determines the other, whole hours rounded up;
  normalising twice is normalising once.\<close>

theorem scope_lease_normalised:
  "(let n = normalize_scope_lease s in
     (if sc_lease_seconds s = - 1 then sc_lease_seconds n = - 1 \<and> sc_lease_hours n = 0
      else 0 < sc_lease_seconds n \<and> 0 < sc_lease_hours n) \<and>
     normalize_scope_lease n = n) \<and>
   (normalize_scope_lease (s\<lparr>sc_lease_hours := h, sc_lease_seconds := 0\<rparr>) =
      s\<lparr>sc_lease_hours := (if 0 < h then h else 24), sc_lease_seconds := (if 0 < h then h else 24) * 3600\<rparr>) \<and>
   (normalize_scope_lease (s\<lparr>sc_lease_hours := 0, sc_lease_seconds := int n\<rparr>) =
      s\<lparr>sc_lease_hours := (if n = 0 then 24 else int ((n + 3599) div 3600)), sc_lease_seconds := (if n = 0 then 86400 else int n)\<rparr>)"
  by (auto simp: normalize_scope_lease_def Let_def zdiv_int)

subsection \<open>A concrete snapshot\<close>

definition sample_gen :: "string \<Rightarrow> nat \<Rightarrow> string" where
  "sample_gen t i = ''new-'' @ t @ itoa i"

definition sample_scope :: "string \<Rightarrow> string \<Rightarrow> string \<Rightarrow> dhcp_scope" where
  "sample_scope i sid ext = \<lparr>sc_id = i, sc_name = ''lan'', sc_description = [], sc_subnet = ''10.0.0.0'',
     sc_default_gateway = [], sc_start_range = ''10.0.0.10'', sc_end_range = ''10.0.0.99'', sc_lease_hours = 8,
     sc_lease_seconds = 28800, sc_state = ''Active'', sc_server_id = sid, sc_external_id = ext,
     sc_last_synced_at = None, sc_sync_status = ''synced'', sc_last_error = []\<rparr>"

definition sample_lease :: "string \<Rightarrow> string \<Rightarrow> string \<Rightarrow> dhcp_lease" where
  "sample_lease i scid ip = \<lparr>l_id = i, l_scope_id = scid, l_ip = ip, l_mac = ''m'', l_hostname = ''h'', l_state = ''Active'',
     l_expires_at = 0, l_external_id = ip, l_last_synced_at = None\<rparr>"

definition dhcp_db :: db where
  "dhcp_db = empty_db\<lparr>db_servers := [\<lparr>sv_id = ''s'', sv_name = ''dc1'', sv_host = ''dc1'', sv_role = ''DHCP'',
       sv_agent_url = ''https://dc1'', sv_api_key = ''k'', sv_tls_insecure = False, sv_status = ''Online'',
       sv_failure_count = 0, sv_last_checked = 0\<rparr>],
     db_scopes := [sample_scope ''1'' ''s'' ''10.0.0.0'', sample_scope ''2'' ''s'' ''10.0.1.0'', sample_scope ''3'' ''t'' ''10.0.0.0''],
     db_leases := [sample_lease ''a'' ''1'' ''10.0.0.11'', sample_lease ''b'' ''2'' ''10.0.1.11'']\<rparr>"

lemmas dhcp_sample_simps = dhcp_db_def empty_db_def sample_scope_def sample_lease_def

lemma sample_gen_fresh: "gen_fresh sample_gen dhcp_db"
  by (auto simp: gen_fresh_def rows_fresh_def sample_gen_def inj_def dhcp_sample_simps)

lemma dhcp_db_ok: "dhcp_keys_ok dhcp_db" "dhcp_parents_ok dhcp_db"
  by (simp_all add: dhcp_keys_ok_def dhcp_parents_ok_def scope_key_def lease_key_def has_scope_def dhcp_sample_simps)

lemma sample_external: "first_non_empty [''10.0.0.0'', i, a, b] = ''10.0.0.0''"
proof -
  have "trim_space ''10.0.0.0'' = ''10.0.0.0''" by (rule trim_space_graph) (simp add: graph_ends_def char_code_def)
  then show ?thesis by simp
qed

lemma sample_incoming: "scope_fits (incoming_scope gen now ''s'' (n, sample_scope i sid ''10.0.0.0''))"
    "has_server dhcp_db ''s''" "\<not> db_fault dhcp_db op key"
  by (simp_all add: incoming_scope_def normalize_scope_lease_def scope_fits_def int4_ok_def has_server_def dhcp_sample_simps)

theorem scope_snapshot_replaced_witness:
  "\<exists>d' s. replace_dhcp_scope_snapshot sample_gen 5 ''s'' (sample_scope [] [] ''10.0.0.0'') []
       [sample_lease [] [] ''10.0.0.12''] [] dhcp_db = Inr d' \<and> s \<in> set (db_scopes d') \<and> sc_id s = ''1'' \<and>
     l_ip ` {x \<in> set (db_leases d'). l_scope_id x = ''1''} = {''10.0.0.12''} \<and> sample_lease ''b'' ''2'' ''10.0.1.11'' \<in> set (db_leases d')"
proof -
  let ?sc = "sample_scope [] [] ''10.0.0.0''" and ?ls = "[sample_lease [] [] ''10.0.0.12'']"
  obtain d' where r: "replace_dhcp_scope_snapshot sample_gen 5 ''s'' ?sc [] ?ls [] dhcp_db = Inr d'"
    using sample_incoming by (simp add: replace_dhcp_scope_snapshot_def Let_def split: prod.split)
  from scope_snapshot_replaced [OF dhcp_db_ok(1) sample_gen_fresh r] obtain s where
    s: "s \<in> set (db_scopes d')"
      "\<forall>s0 \<in> set (db_scopes dhcp_db). scope_key s0 = scope_key (incoming_scope sample_gen 5 ''s'' (0, ?sc)) \<longrightarrow> sc_id s0 = sc_id s"
      "lease_key ` {x \<in> set (db_leases d'). l_scope_id x = sc_id s} = (\<lambda>x. (sc_id s, l_ip x)) ` set ?ls"
      "\<forall>x. l_scope_id x \<noteq> sc_id s \<longrightarrow> x \<in> set (db_leases d') \<longleftrightarrow> x \<in> set (db_leases dhcp_db)"
    by (elim conjE bexE) (rule that; assumption)
  have key: "scope_key (incoming_scope sample_gen 5 ''s'' (0, ?sc)) = (''s'', Inr ''10.0.0.0'')"
    using incoming_scope_key [of "(0, ?sc)" sample_gen 5 "''s''"] sample_external by (simp add: sample_scope_def)
  have id: "sc_id s = ''1''" using s(2) unfolding key by (simp add: dhcp_sample_simps scope_key_def)
  have "snd ` lease_key ` {x \<in> set (db_leases d'). l_scope_id x = ''1''} = {''10.0.0.12''}"
    using s(3) id by (simp add: sample_lease_def)
  then have ips: "l_ip ` {x \<in> set (db_leases d'). l_scope_id x = ''1''} = {''10.0.0.12''}"
    by (simp add: image_image lease_key_def)
  have "sample_lease ''b'' ''2'' ''10.0.1.11'' \<in> set (db_leases d')"
    using s(4) id by (simp add: dhcp_sample_simps)
  with r s(1) id ips show ?thesis by blast
qed

theorem scopes_replaced_witness:
  "\<exists>d'. replace_dhcp_scopes sample_gen 5 ''s'' [sample_scope [] [] ''10.0.0.0''] dhcp_db = Inr d' \<and>
     sample_lease ''b'' ''2'' ''10.0.1.11'' \<notin> set (db_leases d') \<and> sample_scope ''3'' ''t'' ''10.0.0.0'' \<in> set (db_scopes d')"
proof -
  let ?scs = "[sample_scope [] [] ''10.0.0.0'']"
  obtain d' where r: "replace_dhcp_scopes sample_gen 5 ''s'' ?scs dhcp_db = Inr d'"
    using sample_incoming by (simp add: replace_dhcp_scopes_def Let_def split: prod.split)
  have ext: "\<forall>s \<in> set ?scs. first_non_empty [sc_external_id s, sc_id s, sc_subnet s, sc_name s] \<noteq> []"
    using sample_external by (simp add: sample_scope_def)
  from scopes_replaced [OF dhcp_db_ok sample_gen_fresh ext r] have t:
      "scope_key ` {s \<in> set (db_scopes d'). sc_server_id s = ''s''} =
         (\<lambda>s. (''s'', Inr (first_non_empty [sc_external_id s, sc_id s, sc_subnet s, sc_name s]))) ` set ?scs"
      "\<forall>s \<in> set (db_scopes dhcp_db). \<forall>s' \<in> set (db_scopes d'). scope_key s' = scope_key s \<longrightarrow> sc_id s' = sc_id s"
      "\<forall>s. sc_server_id s \<noteq> ''s'' \<longrightarrow> (s \<in> set (db_scopes d') \<longleftrightarrow> s \<in> set (db_scopes dhcp_db))"
      "\<forall>l. l \<in> set (db_leases d') \<longleftrightarrow> l \<in> set (db_leases dhcp_db) \<and> has_scope d' (l_scope_id l)"
    by - (elim conjE, assumption)+
  have own: "scope_key ` {s \<in> set (db_scopes d'). sc_server_id s = ''s''} = {(''s'', Inr ''10.0.0.0'')}"
    using t(1) sample_external by (simp add: sample_scope_def)
  have ids: "\<forall>s' \<in> set (db_scopes d'). scope_key s' = (''s'', Inr ''10.0.0.0'') \<longrightarrow> sc_id s' = ''1''"
    using t(2) by (simp add: dhcp_sample_simps scope_key_def)
  have other: "\<forall>s. sc_server_id s \<noteq> ''s'' \<longrightarrow> (s \<in> set (db_scopes d') \<longleftrightarrow> s \<in> set (db_scopes dhcp_db))" using t(3) .
  have "sc_id s \<noteq> ''2''" if s: "s \<in> set (db_scopes d')" for s
  proof (cases "sc_server_id s = ''s''")
    case True
    then have "scope_key s \<in> {(''s'', Inr ''10.0.0.0'')}" using s own by blast
    with ids s show ?thesis by auto
  next
    case False
    with other s show ?thesis by (auto simp: dhcp_sample_simps)
  qed
  then have "\<not> has_scope d' ''2''" by (auto simp: has_scope_def list_ex_iff)
  with t(4) have "sample_lease ''b'' ''2'' ''10.0.1.11'' \<notin> set (db_leases d')" by (auto simp: sample_lease_def)
  moreover have "sample_scope ''3'' ''t'' ''10.0.0.0'' \<in> set (db_scopes d')"
    using other by (simp add: dhcp_sample_simps)
  ultimately show ?thesis using r by blast
qed

end
