(* ===== verification/ZL_Tasks.thy ===== *)
theory ZL_Tasks
  imports ZL_App
begin

text \<open>
  Refresh tasks, notifications and log retention: \<open>internal/repository/refresh.go\<close>,
  \<open>notification_center.go\<close> and \<open>retention.go\<close>, the notification center of the router
  (\<open>api/router/notification_center.go\<close>, \<open>notification_events.go\<close>) with its cached unread count, and the
  refresh requests (\<open>api/router/refresh.go\<close>). Payloads and metadata are JSON texts. A method that
  selects and then inserts is one step, as it is when no second one runs between its statements.
\<close>

subsection \<open>Refresh tasks\<close>

definition create_refresh_task ::
    "string \<Rightarrow> gotime \<Rightarrow> string \<Rightarrow> string \<Rightarrow> string \<Rightarrow> db \<Rightarrow> store_error + (refresh_task \<times> db)" where
  "create_refresh_task nid now ty payload by d =
     (let t = \<lparr>t_id = nid, t_type = ty, t_status = ''queued'', t_payload = payload, t_created_by = by,
            t_created_at = now, t_updated_at = now, t_finished_at = None\<rparr>
      in if db_fault d ''CreateTask'' ty \<or> by \<noteq> [] \<and> \<not> list_ex (\<lambda>u. ur_id u = by) (db_users d) then Inl DbError
         else Inr (t, d\<lparr>db_tasks := db_tasks d @ [t]\<rparr>))"

text \<open>\<open>ORDER BY created_at DESC\<close>; among equal times the order is open, here the later row first.\<close>

definition newest_first :: "('r \<Rightarrow> gotime) \<Rightarrow> 'r list \<Rightarrow> 'r list" where
  "newest_first f rs = rev (sort_key f rs)"

definition list_refresh_tasks :: "int \<Rightarrow> db \<Rightarrow> store_error + refresh_task list" where
  "list_refresh_tasks limit d =
     (if db_fault d ''ListTasks'' [] then Inl DbError
      else Inr (take (nat (if limit \<le> 0 then 30 else limit)) (newest_first t_created_at (db_tasks d))))"

definition list_all_refresh_tasks :: "db \<Rightarrow> store_error + refresh_task list" where
  "list_all_refresh_tasks d =
     (if db_fault d ''ListTasks'' [] then Inl DbError else Inr (newest_first t_created_at (db_tasks d)))"

definition update_refresh_task :: "gotime \<Rightarrow> string \<Rightarrow> string \<Rightarrow> string \<Rightarrow> db \<Rightarrow> store_error + db" where
  "update_refresh_task now i status payload d =
     (if db_fault d ''UpdateTask'' i then Inl DbError
      else if \<not> list_ex (\<lambda>t. t_id t = i) (db_tasks d) then Inl NotFound
      else Inr (d\<lparr>db_tasks := update_rows (\<lambda>t. t_id t = i)
             (\<lambda>t. t\<lparr>t_status := status, t_payload := payload, t_updated_at := now,
                t_finished_at := (if status = ''completed'' \<or> status = ''failed'' then Some now else t_finished_at t)\<rparr>)
             (db_tasks d)\<rparr>))"

definition delete_refresh_task :: "string \<Rightarrow> db \<Rightarrow> store_error + db" where
  "delete_refresh_task i d =
     (if db_fault d ''DeleteTask'' i then Inl DbError
      else if \<not> list_ex (\<lambda>t. t_id t = i) (db_tasks d) then Inl NotFound
      else Inr (d\<lparr>db_tasks := delete_rows (\<lambda>t. t_id t = i) (db_tasks d)\<rparr>))"

subsection \<open>Notifications\<close>

definition is_unread :: "notification \<Rightarrow> bool" where
  "is_unread n \<longleftrightarrow> n_read_at n = None \<and> n_dismissed_at n = None"

definition from_source :: "string \<Rightarrow> string \<Rightarrow> notification \<Rightarrow> bool" where
  "from_source ty i n \<longleftrightarrow> n_source_type n = ty \<and> n_source_id n = i"

record new_notification =
  nn_level :: string
  nn_title :: string
  nn_message :: string
  nn_source_type :: string
  nn_source_id :: string
  nn_metadata :: string

definition create_notification ::
    "string \<Rightarrow> gotime \<Rightarrow> new_notification \<Rightarrow> db \<Rightarrow> store_error + (notification \<times> db)" where
  "create_notification nid now q d =
     (let n = \<lparr>n_id = nid, n_level = nn_level q, n_title = nn_title q, n_message = nn_message q,
            n_source_type = nn_source_type q, n_source_id = nn_source_id q, n_metadata = nn_metadata q,
            n_read_at = None, n_dismissed_at = None, n_created_at = now, n_updated_at = now\<rparr>
      in if db_fault d ''CreateNotification'' (nn_source_id q) then Inl DbError
         else Inr (n, d\<lparr>db_notifications := db_notifications d @ [n]\<rparr>))"

text \<open>The second component says whether a notification was created.\<close>

definition create_notification_if_unread_missing ::
    "string \<Rightarrow> gotime \<Rightarrow> new_notification \<Rightarrow> db \<Rightarrow> store_error + (string \<times> bool \<times> db)" where
  "create_notification_if_unread_missing nid now q d =
     (if db_fault d ''FindUnread'' (nn_source_id q) then Inl DbError
      else case find_row (\<lambda>n. from_source (nn_source_type q) (nn_source_id q) n \<and> is_unread n) (db_notifications d) of
        Some n \<Rightarrow> Inr (n_id n, False, d)
      | None \<Rightarrow> (case create_notification nid now q d of
          Inl e \<Rightarrow> Inl e
        | Inr (n, d') \<Rightarrow> Inr (n_id n, True, d')))"

definition listed :: "notification \<Rightarrow> bool" where
  "listed n \<longleftrightarrow> n_dismissed_at n = None \<and> n_source_type n \<noteq> ''refresh_task''"

definition list_notifications :: "int \<Rightarrow> db \<Rightarrow> store_error + (notification list \<times> nat)" where
  "list_notifications limit d =
     (if db_fault d ''ListNotifications'' [] then Inl DbError
      else Inr (take (nat (if limit \<le> 0 \<or> 100 < limit then 20 else limit))
                  (newest_first n_created_at (filter listed (db_notifications d))),
                count_rows listed (db_notifications d)))"

definition unread_total :: "db \<Rightarrow> nat" where
  "unread_total d = count_rows (\<lambda>n. is_unread n \<and> n_source_type n \<noteq> ''refresh_task'') (db_notifications d)"

definition count_unread_notifications :: "db \<Rightarrow> store_error + nat" where
  "count_unread_notifications d = (if db_fault d ''CountUnread'' [] then Inl DbError else Inr (unread_total d))"

definition read_now :: "gotime \<Rightarrow> notification \<Rightarrow> notification" where
  "read_now now n = n\<lparr>n_read_at := (case n_read_at n of None \<Rightarrow> Some now | Some t \<Rightarrow> Some t), n_updated_at := now\<rparr>"

definition dismissed_now :: "gotime \<Rightarrow> notification \<Rightarrow> notification" where
  "dismissed_now now n = (read_now now n)\<lparr>n_dismissed_at := Some now\<rparr>"

definition mark_notification_read :: "gotime \<Rightarrow> string \<Rightarrow> db \<Rightarrow> store_error + db" where
  "mark_notification_read now i d =
     (if db_fault d ''MarkRead'' i then Inl DbError
      else if \<not> list_ex (\<lambda>n. n_id n = i \<and> n_dismissed_at n = None) (db_notifications d) then Inl NotFound
      else Inr (d\<lparr>db_notifications :=
             update_rows (\<lambda>n. n_id n = i \<and> n_dismissed_at n = None) (read_now now) (db_notifications d)\<rparr>))"

definition mark_all_notifications_read :: "gotime \<Rightarrow> db \<Rightarrow> store_error + db" where
  "mark_all_notifications_read now d =
     (if db_fault d ''MarkAllRead'' [] then Inl DbError
      else Inr (d\<lparr>db_notifications := update_rows (\<lambda>n. n_dismissed_at n = None) (read_now now) (db_notifications d)\<rparr>))"

definition dismiss_notifications :: "gotime \<Rightarrow> db \<Rightarrow> store_error + db" where
  "dismiss_notifications now d =
     (if db_fault d ''Dismiss'' [] then Inl DbError
      else Inr (d\<lparr>db_notifications := update_rows (\<lambda>n. n_dismissed_at n = None) (dismissed_now now) (db_notifications d)\<rparr>))"

definition dismiss_notifications_by_source :: "gotime \<Rightarrow> string \<Rightarrow> string \<Rightarrow> db \<Rightarrow> store_error + db" where
  "dismiss_notifications_by_source now ty i d =
     (if db_fault d ''DismissSource'' i then Inl DbError
      else Inr (d\<lparr>db_notifications :=
             update_rows (\<lambda>n. from_source ty i n \<and> n_dismissed_at n = None) (dismissed_now now) (db_notifications d)\<rparr>))"

subsection \<open>Log retention\<close>

text \<open>One transaction over the three logs.\<close>

definition delete_log_records_before :: "gotime \<Rightarrow> db \<Rightarrow> store_error + db" where
  "delete_log_records_before before d =
     (if db_fault d ''DeleteLogs'' [] then Inl DbError
      else Inr (d\<lparr>db_tasks := delete_rows (\<lambda>t. t_created_at t < before) (db_tasks d),
             db_audit := delete_rows (\<lambda>a. a_ts a < before) (db_audit d),
             db_notifications := delete_rows (\<lambda>n. n_created_at n < before) (db_notifications d)\<rparr>))"

definition cleanup_old_logs :: "gotime \<Rightarrow> int \<Rightarrow> db \<Rightarrow> db" where
  "cleanup_old_logs now retention_days d =
     drop_err d (delete_log_records_before (now - retention_days * 24 * minutes 60) d)"

subsection \<open>The cached unread count\<close>

definition unread_key :: string where
  "unread_key = ''zonelease:runtime:notifications:unread-count''"

definition invalidate_unread :: "'w app \<Rightarrow> 'w app" where
  "invalidate_unread s = s\<lparr>ap_redis := snd (rt_delete unread_key (ap_redis s))\<rparr>"

definition cache_unread :: "nat \<Rightarrow> 'w app \<Rightarrow> 'w app" where
  "cache_unread n s = s\<lparr>ap_redis := snd (rt_set_int unread_key n (minutes 1) (ap_redis s))\<rparr>"

definition notifications_handler ::
    "caller \<Rightarrow> int \<Rightarrow> 'w app \<Rightarrow> (notification list \<times> nat) response \<times> 'w app" where
  "notifications_handler c limit = ensure_permission c ''notifications.read'' (\<lambda>s.
     case list_notifications limit (ap_db s) of
       Inl e \<Rightarrow> (Fail 500 ''list_notifications_failed'', s)
     | Inr r \<Rightarrow> (Done 200 r, s))"

definition unread_notification_count_handler :: "caller \<Rightarrow> 'w app \<Rightarrow> nat response \<times> 'w app" where
  "unread_notification_count_handler c = ensure_permission c ''notifications.read'' (\<lambda>s.
     case rt_get_int unread_key (ap_redis s) of
       Inr (Some n) \<Rightarrow> (Done 200 n, s)
     | _ \<Rightarrow> (case count_unread_notifications (ap_db s) of
         Inl e \<Rightarrow> (Fail 500 ''count_notifications_failed'', s)
       | Inr n \<Rightarrow> (Done 200 n, cache_unread n s)))"

definition mark_all_read_handler :: "caller \<Rightarrow> 'w app \<Rightarrow> unit response \<times> 'w app" where
  "mark_all_read_handler c = ensure_permission c ''notifications.manage'' (\<lambda>s.
     case mark_all_notifications_read (ca_now c) (ap_db s) of
       Inl e \<Rightarrow> (Fail 500 ''mark_notifications_read_failed'', s)
     | Inr d \<Rightarrow> (Done 200 (), app_audit c ''notifications.read_all'' ''notifications'' ''System''
           [(''target'', ''notifications'')] (invalidate_unread (s\<lparr>ap_db := d\<rparr>))))"

definition clear_notifications_handler :: "caller \<Rightarrow> 'w app \<Rightarrow> unit response \<times> 'w app" where
  "clear_notifications_handler c = ensure_permission c ''notifications.manage'' (\<lambda>s.
     case dismiss_notifications (ca_now c) (ap_db s) of
       Inl e \<Rightarrow> (Fail 500 ''clear_notifications_failed'', s)
     | Inr d \<Rightarrow> (Done 200 (), app_audit c ''notifications.clear'' ''notifications'' ''System''
           [(''target'', ''notifications'')] (invalidate_unread (s\<lparr>ap_db := d\<rparr>))))"

definition mark_notification_read_handler :: "caller \<Rightarrow> string \<Rightarrow> 'w app \<Rightarrow> unit response \<times> 'w app" where
  "mark_notification_read_handler c path = ensure_permission c ''notifications.manage'' (\<lambda>s.
     let i = path_id path ''/api/notifications/'' in
     if i = [] then (Fail 404 ''notification_not_found'', s)
     else case mark_notification_read (ca_now c) i (ap_db s) of
       Inl e \<Rightarrow> (Fail (status_from_err e) ''notification_not_found'', s)
     | Inr d \<Rightarrow> (Done 200 (), app_audit c ''notifications.read'' i ''System''
           [(''notification'', i)] (invalidate_unread (s\<lparr>ap_db := d\<rparr>))))"

text \<open>\<open>createUnreadDedupedNotification\<close> and the invalidation after it: on an error neither happens.\<close>

definition notify_unread :: "string \<Rightarrow> gotime \<Rightarrow> new_notification \<Rightarrow> 'w app \<Rightarrow> 'w app" where
  "notify_unread nid now q s =
     (case create_notification_if_unread_missing nid now q (ap_db s) of
        Inl e \<Rightarrow> s
      | Inr (i, created, d) \<Rightarrow> invalidate_unread (s\<lparr>ap_db := d\<rparr>))"

definition clear_source :: "gotime \<Rightarrow> string \<Rightarrow> string \<Rightarrow> 'w app \<Rightarrow> 'w app" where
  "clear_source now ty i s =
     (case dismiss_notifications_by_source now ty i (ap_db s) of
        Inl e \<Rightarrow> s
      | Inr d \<Rightarrow> invalidate_unread (s\<lparr>ap_db := d\<rparr>))"

text \<open>Titles and messages are codes for the Chinese texts of the source; the metadata text is an argument.\<close>

definition platform_service_title :: "string \<Rightarrow> string" where
  "platform_service_title i =
     (if i = ''postgresql'' then ''postgresql_unavailable'' else if i = ''redis'' then ''redis_unavailable''
      else ''platform_service_unavailable'')"

definition platform_service_message :: "string \<Rightarrow> string" where
  "platform_service_message i =
     (if i = ''postgresql'' then ''check the database service'' else if i = ''redis'' then ''check the cache and event channel''
      else ''check the service'')"

definition notify_platform_service_issue :: "string \<Rightarrow> gotime \<Rightarrow> string \<Rightarrow> string \<Rightarrow> 'w app \<Rightarrow> 'w app" where
  "notify_platform_service_issue nid now service meta s =
     (let i = trim_space service in
      if i = [] then s
      else notify_unread nid now \<lparr>nn_level = ''critical'', nn_title = platform_service_title i,
        nn_message = platform_service_message i, nn_source_type = ''platform_service'', nn_source_id = i,
        nn_metadata = meta\<rparr> s)"

definition clear_platform_service_notification :: "gotime \<Rightarrow> string \<Rightarrow> 'w app \<Rightarrow> 'w app" where
  "clear_platform_service_notification now service s =
     (let i = trim_space service in if i = [] then s else clear_source now ''platform_service'' i s)"

text \<open>The router falls back to the host as it is, the synchronisation service to the trimmed host.\<close>

definition agent_display_name :: "(string \<Rightarrow> string) \<Rightarrow> server \<Rightarrow> string" where
  "agent_display_name clean srv =
     (if trim_space (sv_name srv) \<noteq> [] then trim_space (sv_name srv)
      else if clean (sv_host srv) \<noteq> [] then clean (sv_host srv) else sv_id srv)"

definition agent_offline_notice :: "string \<Rightarrow> string \<Rightarrow> server \<Rightarrow> new_notification" where
  "agent_offline_notice name meta srv = \<lparr>nn_level = ''critical'', nn_title = ''agent_offline'',
     nn_message = name @ '' failed its health check'', nn_source_type = ''agent_health'', nn_source_id = sv_id srv,
     nn_metadata = meta\<rparr>"

definition notify_agent_offline :: "string \<Rightarrow> gotime \<Rightarrow> server \<Rightarrow> string \<Rightarrow> 'w app \<Rightarrow> 'w app" where
  "notify_agent_offline nid now srv meta s =
     (if trim_space (sv_id srv) = [] then s
      else notify_unread nid now (agent_offline_notice (agent_display_name (\<lambda>h. h) srv) meta srv) s)"

definition clear_agent_offline_notification :: "gotime \<Rightarrow> server \<Rightarrow> 'w app \<Rightarrow> 'w app" where
  "clear_agent_offline_notification now srv s =
     (if trim_space (sv_id srv) = [] then s else clear_source now ''agent_health'' (sv_id srv) s)"

subsection \<open>Runs of the notification center\<close>

datatype notice_op =
    Notify string gotime new_notification
  | ClearSource gotime string string
  | MarkAll caller
  | ClearAll caller
  | MarkOne caller string
  | CountUnread caller
  | Pass gotime

fun notice_step :: "notice_op \<Rightarrow> 'w app \<Rightarrow> 'w app" where
  "notice_step (Notify nid now q) s = notify_unread nid now q s"
| "notice_step (ClearSource now ty i) s = clear_source now ty i s"
| "notice_step (MarkAll c) s = snd (mark_all_read_handler c s)"
| "notice_step (ClearAll c) s = snd (clear_notifications_handler c s)"
| "notice_step (MarkOne c path) s = snd (mark_notification_read_handler c path s)"
| "notice_step (CountUnread c) s = snd (unread_notification_count_handler c s)"
| "notice_step (Pass dt) s = s\<lparr>ap_redis := (ap_redis s)\<lparr>rd_now := rd_now (ap_redis s) + dt\<rparr>\<rparr>"

fun passes_forward :: "notice_op \<Rightarrow> bool" where
  "passes_forward (Pass dt) = (0 \<le> dt)"
| "passes_forward _ = True"

definition cache_coherent :: "'w app \<Rightarrow> bool" where
  "cache_coherent s \<longleftrightarrow> (\<forall>n. rt_get_int unread_key (ap_redis s) = Inr (Some n) \<longrightarrow> n = unread_total (ap_db s))"

definition one_unread :: "db \<Rightarrow> bool" where
  "one_unread d \<longleftrightarrow> (\<forall>ty i. count_rows (\<lambda>n. from_source ty i n \<and> is_unread n) (db_notifications d) \<le> 1)"

lemma invalidate_coherent: "\<not> rd_fault (ap_redis s) ''DEL'' unread_key \<Longrightarrow> cache_coherent (invalidate_unread s)"
  by (simp add: cache_coherent_def invalidate_unread_def rt_delete_def rt_get_int_def rt_get_def live_def redis_del_def)

lemma invalidate_keeps [simp]: "ap_db (invalidate_unread s) = ap_db s"
  "rd_fault (ap_redis (invalidate_unread s)) = rd_fault (ap_redis s)"
  by (simp_all add: invalidate_unread_def rt_delete_def redis_del_def)

lemma audit_notifications [simp]: "db_notifications (audit c a t m r md d) = db_notifications d"
  by (simp add: audit_def write_audit_def drop_err_def)

lemma app_audit_coherent [simp]: "cache_coherent (app_audit c a t m md s) \<longleftrightarrow> cache_coherent s"
  "db_notifications (ap_db (app_audit c a t m md s)) = db_notifications (ap_db s)"
  "ap_redis (app_audit c a t m md s) = ap_redis s"
  by (simp_all add: cache_coherent_def app_audit_def unread_total_def)

lemma cached_count: "rt_get_int unread_key (snd (rt_set_int unread_key n ttl r)) = Inr (Some m) \<Longrightarrow>
    \<not> rd_fault r ''SET'' unread_key \<Longrightarrow> m = n"
  by (auto simp: rt_set_int_def rt_set_def rt_get_int_def rt_get_def live_def redis_set_def parse_count_def
      split: if_splits option.splits)

lemma cache_unread_coherent:
  assumes "cache_coherent s" "n = unread_total (ap_db s)"
  shows "cache_coherent (cache_unread n s)"
proof (cases "rd_fault (ap_redis s) ''SET'' unread_key")
  case True
  then show ?thesis using assms(1) by (simp add: cache_coherent_def cache_unread_def rt_set_int_def rt_set_def)
next
  case False
  then show ?thesis using cached_count assms(2) by (auto simp: cache_coherent_def cache_unread_def)
qed

lemma later_coherent:
  assumes "cache_coherent s" "0 \<le> dt"
  shows "cache_coherent (s\<lparr>ap_redis := (ap_redis s)\<lparr>rd_now := rd_now (ap_redis s) + dt\<rparr>\<rparr>)"
proof -
  let ?r = "ap_redis s" and ?r' = "(ap_redis s)\<lparr>rd_now := rd_now (ap_redis s) + dt\<rparr>"
  have "live ?r' k = Some v \<Longrightarrow> live ?r k = Some v" for k v
    using assms(2) by (auto simp: live_def split: option.splits if_splits)
  then have "rt_get_int unread_key ?r' = Inr (Some n) \<Longrightarrow> rt_get_int unread_key ?r = Inr (Some n)" for n
    by (auto simp: rt_get_int_def rt_get_def split: if_splits option.splits)
  with assms(1) show ?thesis by (auto simp: cache_coherent_def)
qed

lemma step_coherent:
  assumes "cache_coherent s" "\<not> rd_fault (ap_redis s) ''DEL'' unread_key" "passes_forward op"
  shows "cache_coherent (notice_step op s)"
proof (cases op)
  case (Notify nid now q)
  then show ?thesis using assms
    by (auto simp: notify_unread_def intro: invalidate_coherent split: sum.split)
next
  case (ClearSource now ty i)
  then show ?thesis using assms by (auto simp: clear_source_def intro: invalidate_coherent split: sum.split)
next
  case (MarkAll c)
  then show ?thesis using assms
    by (auto simp: mark_all_read_handler_def ensure_permission_def intro: invalidate_coherent split: sum.split)
next
  case (ClearAll c)
  then show ?thesis using assms
    by (auto simp: clear_notifications_handler_def ensure_permission_def intro: invalidate_coherent split: sum.split)
next
  case (MarkOne c path)
  then show ?thesis using assms
    by (auto simp: mark_notification_read_handler_def ensure_permission_def Let_def intro: invalidate_coherent split: sum.split)
next
  case (CountUnread c)
  then show ?thesis using assms(1) cache_unread_coherent
    by (auto simp: unread_notification_count_handler_def ensure_permission_def count_unread_notifications_def
        split: sum.split option.split)
next
  case (Pass dt)
  then show ?thesis using assms(1,3) later_coherent by simp
qed

lemma step_fault: "rd_fault (ap_redis (notice_step op s)) = rd_fault (ap_redis s)"
  by (cases op)
     (auto simp: notify_unread_def clear_source_def mark_all_read_handler_def clear_notifications_handler_def
        mark_notification_read_handler_def unread_notification_count_handler_def ensure_permission_def Let_def
        cache_unread_def rt_set_int_def rt_set_def redis_set_def
        split: sum.splits option.splits prod.splits)

lemma count_rows_update_le:
  assumes "\<And>r. p (if q r then f r else r) \<Longrightarrow> p r"
  shows "count_rows p (update_rows q f rs) \<le> count_rows p rs"
proof (induction rs)
  case (Cons r rs)
  let ?g = "\<lambda>r. if q r then f r else r"
  have "p (?g r) \<longrightarrow> p r" using assms [of r] by blast
  with Cons.IH show ?case
    unfolding count_rows_def update_rows_def by (cases "p (?g r)"; cases "p r") simp_all
qed (simp add: count_rows_def update_rows_def)

lemma one_unread_update:
  assumes "one_unread d" and "\<And>n. is_unread (f n) \<Longrightarrow> False" and "\<And>n ty i. from_source ty i (f n) = from_source ty i n"
  shows "one_unread (d\<lparr>db_notifications := update_rows q f (db_notifications d)\<rparr>)"
  unfolding one_unread_def
proof (intro allI)
  fix ty i
  have "count_rows (\<lambda>n. from_source ty i n \<and> is_unread n) (update_rows q f (db_notifications d)) \<le>
      count_rows (\<lambda>n. from_source ty i n \<and> is_unread n) (db_notifications d)"
    by (rule count_rows_update_le) (use assms(2) in \<open>auto split: if_splits\<close>)
  with assms(1) show "count_rows (\<lambda>n. from_source ty i n \<and> is_unread n)
      (db_notifications (d\<lparr>db_notifications := update_rows q f (db_notifications d)\<rparr>)) \<le> 1"
    by (simp add: one_unread_def) (meson le_trans)
qed

lemma read_not_unread [simp]: "\<not> is_unread (read_now now n)" "\<not> is_unread (dismissed_now now n)"
  by (auto simp: is_unread_def read_now_def dismissed_now_def split: option.splits)

lemma read_source [simp]: "from_source ty i (read_now now n) = from_source ty i n"
  "from_source ty i (dismissed_now now n) = from_source ty i n"
  by (simp_all add: from_source_def read_now_def dismissed_now_def)

lemma one_unread_create:
  assumes "one_unread d" "create_notification_if_unread_missing nid now q d = Inr (i, created, d')"
  shows "one_unread d'"
proof (cases created)
  case False
  then show ?thesis using assms
    by (auto simp: create_notification_if_unread_missing_def split: if_splits option.splits sum.splits)
next
  case True
  then obtain n where n: "d' = d\<lparr>db_notifications := db_notifications d @ [n]\<rparr>"
      "n_source_type n = nn_source_type q" "n_source_id n = nn_source_id q"
      "find_row (\<lambda>n. from_source (nn_source_type q) (nn_source_id q) n \<and> is_unread n) (db_notifications d) = None"
    using assms(2)
    by (auto simp: create_notification_if_unread_missing_def create_notification_def Let_def
        split: if_splits option.splits sum.splits)
  show ?thesis unfolding one_unread_def
  proof (intro allI)
    fix ty i
    have "count_rows (\<lambda>n. from_source (nn_source_type q) (nn_source_id q) n \<and> is_unread n) (db_notifications d) = 0"
      using n(4) by (simp add: find_row_None)
    moreover have "count_rows (\<lambda>n. from_source ty i n \<and> is_unread n) (db_notifications d) \<le> 1"
      using assms(1) by (simp add: one_unread_def)
    ultimately show "count_rows (\<lambda>n. from_source ty i n \<and> is_unread n) (db_notifications d') \<le> 1"
      using n(1,2,3) by (cases "from_source ty i n") (auto simp: count_rows_def from_source_def)
  qed
qed

lemma one_unread_cong: "db_notifications d' = db_notifications d \<Longrightarrow> one_unread d' = one_unread d"
  by (simp add: one_unread_def)

lemma step_one_unread:
  assumes "one_unread (ap_db s)"
  shows "one_unread (ap_db (notice_step op s))"
  using assms
  by (cases op)
     (auto simp: notify_unread_def clear_source_def mark_all_read_handler_def clear_notifications_handler_def
        mark_notification_read_handler_def unread_notification_count_handler_def ensure_permission_def Let_def
        cache_unread_def mark_all_notifications_read_def dismiss_notifications_def mark_notification_read_def
        dismiss_notifications_by_source_def
        split: sum.splits option.splits prod.splits if_splits
        intro: one_unread_create one_unread_update
        cong: one_unread_cong)

lemma run_coherent:
  assumes "cache_coherent s" "one_unread (ap_db s)" "\<not> rd_fault (ap_redis s) ''DEL'' unread_key" "list_all passes_forward ops"
  shows "cache_coherent (fold notice_step ops s) \<and> one_unread (ap_db (fold notice_step ops s))"
  using assms
proof (induction ops arbitrary: s)
  case (Cons op ops)
  then show ?case using step_coherent [of s op] step_one_unread [of s op] step_fault [of op s] by simp
qed simp

lemma counted:
  assumes "cache_coherent s" "fst (unread_notification_count_handler c s) = Done code n"
  shows "n = unread_total (ap_db s)"
  using assms
  by (auto simp: unread_notification_count_handler_def ensure_permission_def cache_coherent_def
      count_unread_notifications_def split: if_splits sum.splits option.splits)


definition quiet_app :: "nat app" where
  "quiet_app = \<lparr>ap_db = empty_db, ap_redis = empty_redis, ap_sched = new_scheduler, ap_world = 0\<rparr>"

definition sample_notice :: new_notification where
  "sample_notice = \<lparr>nn_level = ''critical'', nn_title = ''t'', nn_message = ''m'', nn_source_type = ''agent_health'',
     nn_source_id = ''s'', nn_metadata = ''{}''\<rparr>"


end
