(* ===== verification/ZL_Sync_Resources.thy ===== *)
theory ZL_Sync_Resources
  imports ZL_Tasks ZL_Dhcp_Store ZL_Dns_Handlers "HOL-Library.Multiset"
begin

text \<open>
  The part of \<open>internal/service/sync/service.go\<close> and \<open>dns_ptr.go\<close> that copies one zone, one scope, the
  zones or the scopes of an agent into the snapshot tables.

  \<open>sync_env\<close> holds what comes from outside: the network, the time, the tokens of the locks, the
  identifiers the database generates, the texts of errors and of JSON objects, the stream limits and
  whether the deadline of the running synchronisation has passed. The goroutines of a synchronisation
  run one after the other in the order \<open>se_perm\<close>, which is arbitrary, as is the iteration order of a
  Go map; the statements of two goroutines do not interleave below the level of one zone or one scope.
\<close>

datatype sync_error =
    StoreErr store_error
  | AgentErr agent_error
  | HealthErr agent_error
  | AgentSyncRunning
  | UnsupportedAgentRole string
  | TargetRequired
  | DeadlinePassed
  | Several "(string \<times> sync_error) list"

record 'w sync_env =
  se_net :: "'w network"
  se_now :: gotime
  se_token :: "string \<Rightarrow> string option"
  se_gen :: "string \<Rightarrow> string \<Rightarrow> nat \<Rightarrow> string"
  se_text :: "sync_error \<Rightarrow> string"
  se_json :: "(string \<times> string) list \<Rightarrow> string"
  se_json_ok :: "string \<Rightarrow> bool"
  se_perm :: "nat \<Rightarrow> nat list"
  se_expired :: "'w \<Rightarrow> bool"
  se_cutoff :: nat
  se_max_len :: nat
  se_ttl :: gotime

definition reorder :: "(nat \<Rightarrow> nat list) \<Rightarrow> 'a list \<Rightarrow> 'a list" where
  "reorder p xs = map (\<lambda>i. xs ! i) (filter (\<lambda>i. i < length xs) (p (length xs)))"

definition fair_order :: "(nat \<Rightarrow> nat list) \<Rightarrow> bool" where
  "fair_order p \<longleftrightarrow> (\<forall>n. mset (p n) = mset [0..<n])"

lemma reorder_mset: "fair_order p \<Longrightarrow> mset (reorder p xs) = mset xs"
proof -
  assume "fair_order p"
  then have m: "mset (p (length xs)) = mset [0..<length xs]" by (simp add: fair_order_def)
  then have "set (p (length xs)) = {0..<length xs}" by (metis set_mset_mset set_upt)
  then have "filter (\<lambda>i. i < length xs) (p (length xs)) = p (length xs)" by (auto simp: filter_id_conv)
  then have "mset (reorder p xs) = image_mset (\<lambda>i. xs ! i) (mset [0..<length xs])"
    by (simp add: reorder_def m)
  also have "\<dots> = mset (map (\<lambda>i. xs ! i) [0..<length xs])" by simp
  finally show ?thesis by (simp add: map_nth)
qed

lemma reorder_facts: "fair_order p \<Longrightarrow> set (reorder p xs) = set xs"
    "fair_order p \<Longrightarrow> length (reorder p xs) = length xs"
    "fair_order p \<Longrightarrow> distinct (reorder p xs) = distinct xs"
  by (metis reorder_mset set_mset_mset, metis reorder_mset size_mset, metis reorder_mset mset_eq_imp_distinct_iff)

subsection \<open>Steps that may fail\<close>

type_synonym ('a, 'w) sync = "'w app \<Rightarrow> (sync_error + 'a) \<times> 'w app"

definition sync_bind :: "('a, 'w) sync \<Rightarrow> ('a \<Rightarrow> ('b, 'w) sync) \<Rightarrow> ('b, 'w) sync" where
  "sync_bind m k s = (case m s of (Inl e, s1) \<Rightarrow> (Inl e, s1) | (Inr v, s1) \<Rightarrow> k v s1)"

text \<open>\<open>if err != nil\<close> with a branch of its own.\<close>

definition sync_catch :: "('a, 'w) sync \<Rightarrow> (sync_error \<Rightarrow> ('b, 'w) sync) \<Rightarrow> ('a \<Rightarrow> ('b, 'w) sync) \<Rightarrow> ('b, 'w) sync" where
  "sync_catch m h k s = (case m s of (Inl e, s1) \<Rightarrow> h e s1 | (Inr v, s1) \<Rightarrow> k v s1)"

definition sync_return :: "'a \<Rightarrow> ('a, 'w) sync" where
  "sync_return v s = (Inr v, s)"

definition sync_fail :: "sync_error \<Rightarrow> ('a, 'w) sync" where
  "sync_fail e s = (Inl e, s)"

definition sync_read :: "(db \<Rightarrow> store_error + 'a) \<Rightarrow> ('a, 'w) sync" where
  "sync_read f s = (case f (ap_db s) of Inl e \<Rightarrow> (Inl (StoreErr e), s) | Inr v \<Rightarrow> (Inr v, s))"

definition sync_store :: "(db \<Rightarrow> store_error + db) \<Rightarrow> (unit, 'w) sync" where
  "sync_store f s = (case f (ap_db s) of Inl e \<Rightarrow> (Inl (StoreErr e), s) | Inr d \<Rightarrow> (Inr (), s\<lparr>ap_db := d\<rparr>))"

definition sync_agent ::
    "'w sync_env \<Rightarrow> http_method \<Rightarrow> server \<Rightarrow> string \<Rightarrow> agent_body \<Rightarrow> (agent_data \<Rightarrow> agent_error + 'a) \<Rightarrow> ('a, 'w) sync" where
  "sync_agent E m srv path body dst s =
     (case app_call (agent_call (se_net E) m srv path body dst) s of
        (Inl e, s1) \<Rightarrow> (Inl (AgentErr e), s1)
      | (Inr v, s1) \<Rightarrow> (Inr v, s1))"

text \<open>What a synchronisation leaves alone: Redis, the operation refresh scheduler and every table but
  the snapshot tables of zones, records, scopes and the rows below them.\<close>

definition same_base :: "db \<Rightarrow> db \<Rightarrow> bool" where
  "same_base d d' \<longleftrightarrow> db_fault d' = db_fault d \<and> db_users d' = db_users d \<and> db_roles d' = db_roles d \<and>
     db_user_roles d' = db_user_roles d \<and> db_groups d' = db_groups d \<and> db_group_members d' = db_group_members d \<and>
     db_group_roles d' = db_group_roles d \<and> db_bindings d' = db_bindings d \<and> db_sessions d' = db_sessions d \<and>
     db_resets d' = db_resets d \<and> db_login_failures d' = db_login_failures d \<and> db_settings d' = db_settings d \<and>
     db_providers d' = db_providers d \<and> db_channels d' = db_channels d \<and> db_servers d' = db_servers d \<and>
     db_tasks d' = db_tasks d \<and> db_notifications d' = db_notifications d \<and> db_audit d' = db_audit d"

lemma same_base_refl [simp]: "same_base d d"
  by (simp add: same_base_def)

lemma same_base_trans: "same_base d1 d2 \<Longrightarrow> same_base d2 d3 \<Longrightarrow> same_base d1 d3"
  by (simp add: same_base_def)

definition writes_snapshot :: "(db \<Rightarrow> store_error + db) \<Rightarrow> bool" where
  "writes_snapshot f \<longleftrightarrow> (\<forall>d d'. f d = Inr d' \<longrightarrow> same_base d d')"

lemma upsert_zone_base: "upsert_dns_zone_stmt now z d = Inr d' \<Longrightarrow> same_base d d'"
  by (auto simp: upsert_dns_zone_stmt_def same_base_def split: if_splits)

lemma upsert_zones_base: "upsert_zones now sid zs d = Inr (keep, d') \<Longrightarrow> same_base d d'"
proof (induction zs arbitrary: d keep)
  case (Cons z zs)
  then show ?case
    by (auto simp: Let_def split: sum.splits dest!: upsert_zone_base Cons.IH intro: same_base_trans)
qed simp

lemma insert_records_base: "insert_zone_records now z rs d = Inr d' \<Longrightarrow> same_base d d'"
proof (induction rs arbitrary: d)
  case (Cons r rs)
  have step: "same_base d (d\<lparr>db_records := x\<rparr>)" for x by (simp add: same_base_def)
  show ?case
    using Cons.prems by (auto simp: Let_def split: if_splits dest!: Cons.IH intro: same_base_trans [OF step])
qed simp

lemma snapshot_writers [simp]:
  "writes_snapshot (mark_dns_zone_sync_error zid m)" "writes_snapshot (replace_dns_zone_records now z rs)"
  "writes_snapshot (replace_dns_zones now sid zs)" "writes_snapshot (delete_dhcp_scope_by_external_id sid ext)"
  "writes_snapshot (replace_dhcp_scopes gen now sid scs)" "writes_snapshot (replace_dhcp_scope_snapshot gen now sid sc es ls rvs)"
proof -
  show "writes_snapshot (mark_dns_zone_sync_error zid m)"
    by (simp add: writes_snapshot_def mark_dns_zone_sync_error_def same_base_def)
  have recs: "same_base d1 (d1\<lparr>db_records := x\<rparr>)" for d1 x by (simp add: same_base_def)
  show "writes_snapshot (replace_dns_zone_records now z rs)"
    unfolding writes_snapshot_def replace_dns_zone_records_def Let_def
    by (auto split: if_splits sum.splits dest!: upsert_zone_base insert_records_base intro: same_base_trans same_base_trans [OF recs])
  have zones: "same_base d1 (delete_zones_where p d1)" for d1 p by (simp add: same_base_def delete_zones_where_def Let_def)
  show "writes_snapshot (replace_dns_zones now sid zs)"
    unfolding writes_snapshot_def replace_dns_zones_def
    by (auto split: if_splits sum.splits dest!: upsert_zones_base intro: same_base_trans [OF _ zones])
  have scopes: "same_base d1 (delete_scopes_where p d1)" for d1 p by (simp add: same_base_def delete_scopes_where_def Let_def)
  show "writes_snapshot (delete_dhcp_scope_by_external_id sid ext)"
    by (simp add: writes_snapshot_def delete_dhcp_scope_by_external_id_def scopes)
  show "writes_snapshot (replace_dhcp_scopes gen now sid scs)"
    unfolding writes_snapshot_def replace_dhcp_scopes_def Let_def
    by (auto split: if_splits prod.splits intro: same_base_trans [OF _ scopes]) (simp add: same_base_def delete_scopes_where_def Let_def)?
  show "writes_snapshot (replace_dhcp_scope_snapshot gen now sid sc es ls rvs)"
    unfolding writes_snapshot_def replace_dhcp_scope_snapshot_def Let_def
    by (auto simp: same_base_def sync_scope_rows_def split: if_splits prod.splits)
qed

definition snapshot_only :: "'w app \<Rightarrow> 'w app \<Rightarrow> bool" where
  "snapshot_only s s' \<longleftrightarrow> ap_redis s' = ap_redis s \<and> ap_sched s' = ap_sched s \<and> same_base (ap_db s) (ap_db s')"

lemma snapshot_only_refl [simp]: "snapshot_only s s"
  by (simp add: snapshot_only_def)

lemma snapshot_only_trans: "snapshot_only s1 s2 \<Longrightarrow> snapshot_only s2 s3 \<Longrightarrow> snapshot_only s1 s3"
  by (auto simp: snapshot_only_def intro: same_base_trans)

definition frame :: "('a, 'w) sync \<Rightarrow> bool" where
  "frame m \<longleftrightarrow> (\<forall>s. snapshot_only s (snd (m s)))"

named_theorems frame_intros

lemma frame_bind [frame_intros]: "frame m \<Longrightarrow> (\<And>v. frame (k v)) \<Longrightarrow> frame (sync_bind m k)"
  unfolding frame_def sync_bind_def by (auto split: prod.splits sum.splits) (metis snapshot_only_trans snd_conv)+

lemma frame_catch [frame_intros]:
  "frame m \<Longrightarrow> (\<And>e. frame (h e)) \<Longrightarrow> (\<And>v. frame (k v)) \<Longrightarrow> frame (sync_catch m h k)"
  unfolding frame_def sync_catch_def by (auto split: prod.splits sum.splits) (metis snapshot_only_trans snd_conv)+

lemma frame_basic [frame_intros]: "frame (sync_return v)" "frame (sync_fail e)" "frame (sync_read f)"
    "frame (sync_agent E m srv path body dst)"
  by (auto simp: frame_def sync_return_def sync_fail_def sync_read_def sync_agent_def app_call_def
      snapshot_only_def split: prod.splits sum.splits)

lemma frame_store: "writes_snapshot g \<Longrightarrow> frame (sync_store g)"
  by (auto simp: frame_def sync_store_def snapshot_only_def writes_snapshot_def split: sum.splits)

lemmas frame_stores [frame_intros] = frame_store [OF snapshot_writers(2)] frame_store [OF snapshot_writers(3)]
  frame_store [OF snapshot_writers(4)] frame_store [OF snapshot_writers(5)] frame_store [OF snapshot_writers(6)]

lemma frame_if [frame_intros]: "frame m \<Longrightarrow> frame k \<Longrightarrow> frame (if b then m else k)"
  by simp

lemma frameD: "frame m \<Longrightarrow> m s = (r, s') \<Longrightarrow> snapshot_only s s'"
  unfolding frame_def by (metis snd_conv)

text \<open>Only the database and the world of the agents take part in the database statements.\<close>

lemma sync_agent_keeps: "sync_agent E m srv path body dst s = (r, s') \<Longrightarrow> ap_db s' = ap_db s"
  by (auto simp: sync_agent_def app_call_def split: prod.splits sum.splits)

lemma sync_bind_Inr: "sync_bind m k s = (Inr v, s') \<longleftrightarrow> (\<exists>u s1. m s = (Inr u, s1) \<and> k u s1 = (Inr v, s'))"
  by (auto simp: sync_bind_def split: prod.splits sum.splits)

lemma sync_store_Inr: "sync_store f s = (Inr v, s') \<longleftrightarrow> (\<exists>d. f (ap_db s) = Inr d \<and> s' = s\<lparr>ap_db := d\<rparr>)"
  by (auto simp: sync_store_def split: sum.splits)

lemma sync_read_Inr: "sync_read f s = (Inr v, s') \<longleftrightarrow> f (ap_db s) = Inr v \<and> s' = s"
  by (auto simp: sync_read_def split: sum.splits)

subsection \<open>One DNS zone\<close>

definition agent_returned_legacy_json_parser_unavailable :: "agent_error \<Rightarrow> bool" where
  "agent_returned_legacy_json_parser_unavailable e =
     (case e of
        StatusError code _ msg \<Rightarrow>
          if code \<noteq> 500 then False
          else let m = to_lower (trim_space msg) in
            contains m ''system.web.extensions'' \<and> contains m ''json request body parsing''
      | _ \<Rightarrow> False)"

definition agent_can_fallback_to_path_record_query :: "agent_error \<Rightarrow> bool" where
  "agent_can_fallback_to_path_record_query e \<longleftrightarrow>
     agent_not_found e \<or> agent_returned_legacy_json_parser_unavailable e"

definition sync_fetch_records :: "'w sync_env \<Rightarrow> server \<Rightarrow> string \<Rightarrow> (dns_record list, 'w) sync" where
  "sync_fetch_records E srv zname =
     sync_catch (sync_agent E MPost srv ''/dns/records/query'' (ZoneBody zname) as_records)
       (\<lambda>e. case e of
          AgentErr a \<Rightarrow>
            if \<not> agent_can_fallback_to_path_record_query a then sync_fail e
            else sync_agent E MGet srv (zone_records_path zname) NoBody as_records
        | _ \<Rightarrow> sync_fail e)
       sync_return"

definition zone_of_server :: "server \<Rightarrow> dns_zone \<Rightarrow> dns_zone" where
  "zone_of_server srv z =
     (if z_id z = [] then z\<lparr>z_id := dns_zone_id (sv_id srv) (z_name z)\<rparr> else z)\<lparr>z_server_id := sv_id srv\<rparr>"

definition record_of_zone :: "server \<Rightarrow> dns_zone \<Rightarrow> dns_record \<Rightarrow> dns_record" where
  "record_of_zone srv z r =
     r\<lparr>r_zone_id := z_id z, r_id := dns_record_id (sv_id srv) (z_name z) (r_type r) (r_name r) (r_value r)\<rparr>"

text \<open>A failed request marks the zone; an error of that statement is dropped.\<close>

definition fetch_dns_zone_records :: "'w sync_env \<Rightarrow> server \<Rightarrow> dns_zone \<Rightarrow> (dns_record list, 'w) sync" where
  "fetch_dns_zone_records E srv zone =
     (let z = zone_of_server srv zone in
      sync_catch (sync_fetch_records E srv (z_name z))
        (\<lambda>e s. (Inl e, app_store (mark_dns_zone_sync_error (z_id z) (se_text E e)) s))
        (\<lambda>rs. sync_return (map (record_of_zone srv z) rs)))"

definition existing_dns_reverse_zones :: "db \<Rightarrow> string \<Rightarrow> string list \<Rightarrow> string list" where
  "existing_dns_reverse_zones d sid candidates =
     (if candidates = [] then []
      else case list_dns_zones d of
        Inl e \<Rightarrow> []
      | Inr zs \<Rightarrow> remdups (filter (\<lambda>n. n \<in> set candidates)
          (map (\<lambda>z. to_lower (trim_space (z_name z))) (filter (\<lambda>z. z_server_id z = sid \<and> z_reverse z) zs))))"

text \<open>The reverse zones the PTR records of a zone would lie in. The code asks \<open>dnsPTRRecordForARecord\<close>
  of every record, whatever its type.\<close>

definition candidate_reverse_zones :: "string \<Rightarrow> string \<Rightarrow> dns_record list \<Rightarrow> string list" where
  "candidate_reverse_zones sid zname rs =
     remdups (concat (map (\<lambda>r. case dns_ptr_record_for_a_record sid zname r of
         None \<Rightarrow> []
       | Some p \<Rightarrow> (case decode_dns_zone_id (r_zone_id p) of None \<Rightarrow> [] | Some (_, rz) \<Rightarrow> [rz])) rs))"

definition empty_zone :: dns_zone where
  "empty_zone = \<lparr>z_id = [], z_name = [], z_type = [], z_reverse = False, z_dynamic_update = [], z_server_id = [],
     z_last_synced_at = None, z_sync_status = [], z_last_error = []\<rparr>"

definition reverse_zone_named :: "server \<Rightarrow> string \<Rightarrow> dns_zone" where
  "reverse_zone_named srv rz = empty_zone\<lparr>z_id := dns_zone_id (sv_id srv) rz, z_name := rz, z_type := ''Primary'',
     z_reverse := True, z_server_id := sv_id srv\<rparr>"

text \<open>Every reverse zone is fetched and stored; one that cannot be fetched is passed over.\<close>

fun fetch_reverse_zones ::
    "'w sync_env \<Rightarrow> server \<Rightarrow> string list \<Rightarrow> 'w app \<Rightarrow> dns_record list \<times> 'w app" where
  "fetch_reverse_zones E srv [] s = ([], s)"
| "fetch_reverse_zones E srv (rz # rzs) s =
     (case fetch_dns_zone_records E srv (reverse_zone_named srv rz) s of
        (Inl e, s1) \<Rightarrow> fetch_reverse_zones E srv rzs s1
      | (Inr rs, s1) \<Rightarrow>
          (case fetch_reverse_zones E srv rzs
                 (app_store (replace_dns_zone_records (se_now E) (reverse_zone_named srv rz) rs) s1) of
             (rs2, s2) \<Rightarrow> (rs @ rs2, s2)))"

definition annotate_dns_records_from_reverse_zones ::
    "'w sync_env \<Rightarrow> server \<Rightarrow> string \<Rightarrow> dns_record list \<Rightarrow> 'w app \<Rightarrow> dns_record list \<times> 'w app" where
  "annotate_dns_records_from_reverse_zones E srv zname rs s =
     (let rzs = existing_dns_reverse_zones (ap_db s) (sv_id srv) (candidate_reverse_zones (sv_id srv) zname rs)
      in if rzs = [] then (rs, s)
         else case fetch_reverse_zones E srv (reorder (se_perm E) rzs) s of
           (rs2, s1) \<Rightarrow> (take (length rs) (annotate_dns_ptr_records (sv_id srv) zname (rs @ rs2)), s1))"

definition sync_dns_zone_records :: "'w sync_env \<Rightarrow> server \<Rightarrow> dns_zone \<Rightarrow> (unit, 'w) sync" where
  "sync_dns_zone_records E srv zone = sync_bind (fetch_dns_zone_records E srv zone) (\<lambda>rs s.
     case (if z_reverse zone then (rs, s) else annotate_dns_records_from_reverse_zones E srv (z_name zone) rs s) of
       (rs1, s1) \<Rightarrow> sync_store (replace_dns_zone_records (se_now E) zone rs1) s1)"

definition is_reverse_dns_zone_name :: "string \<Rightarrow> bool" where
  "is_reverse_dns_zone_name name =
     (let v = to_lower (trim_space name) in has_suffix v ''.in-addr.arpa'' \<or> has_suffix v ''.ip6.arpa'')"

definition single_zone :: "server \<Rightarrow> string \<Rightarrow> dns_zone" where
  "single_zone srv zname = empty_zone\<lparr>z_id := dns_zone_id (sv_id srv) zname, z_name := zname, z_type := ''Primary'',
     z_reverse := is_reverse_dns_zone_name zname, z_server_id := sv_id srv\<rparr>"

definition sync_dns_zone :: "'w sync_env \<Rightarrow> string \<Rightarrow> string \<Rightarrow> (unit, 'w) sync" where
  "sync_dns_zone E sid zname = sync_bind (sync_read (\<lambda>d. get_server d sid))
     (\<lambda>srv. sync_dns_zone_records E srv (single_zone srv zname))"

subsection \<open>All zones of a server\<close>

text \<open>A goroutine per zone collects its error.\<close>

fun sync_each :: "('a \<Rightarrow> string) \<Rightarrow> ('a \<Rightarrow> (unit, 'w) sync) \<Rightarrow> 'a list \<Rightarrow> 'w app \<Rightarrow> (string \<times> sync_error) list \<times> 'w app" where
  "sync_each name f [] s = ([], s)"
| "sync_each name f (x # xs) s =
     (case f x s of (r, s1) \<Rightarrow> (case sync_each name f xs s1 of (errs, s2) \<Rightarrow>
        (case r of Inl e \<Rightarrow> ((name x, e) # errs, s2) | Inr _ \<Rightarrow> (errs, s2))))"

definition all_done :: "(string \<times> sync_error) list \<Rightarrow> (unit, 'w) sync" where
  "all_done errs = (if errs \<noteq> [] then sync_fail (Several errs) else sync_return ())"

definition zone_from_agent :: "server \<Rightarrow> dns_zone \<Rightarrow> dns_zone" where
  "zone_from_agent srv z = z\<lparr>z_server_id := sv_id srv, z_id := dns_zone_id (sv_id srv) (z_name z)\<rparr>"

definition sync_dns :: "'w sync_env \<Rightarrow> server \<Rightarrow> (unit, 'w) sync" where
  "sync_dns E srv = sync_bind (sync_agent E MGet srv ''/dns/zones'' NoBody as_zones) (\<lambda>found.
     let zones = map (zone_from_agent srv) (filter_syncable_dns_zones found) in
     sync_bind (sync_store (replace_dns_zones (se_now E) (sv_id srv) zones)) (\<lambda>_ s.
       case sync_each z_name (sync_dns_zone_records E srv) (reorder (se_perm E) zones) s of
         (errs, s1) \<Rightarrow> all_done errs s1))"

subsection \<open>One DHCP scope\<close>

definition empty_scope :: dhcp_scope where
  "empty_scope = \<lparr>sc_id = [], sc_name = [], sc_description = [], sc_subnet = [], sc_default_gateway = [],
     sc_start_range = [], sc_end_range = [], sc_lease_hours = 0, sc_lease_seconds = 0, sc_state = [],
     sc_server_id = [], sc_external_id = [], sc_last_synced_at = None, sc_sync_status = [], sc_last_error = []\<rparr>"

definition scope_path :: "string \<Rightarrow> string \<Rightarrow> string" where
  "scope_path ext rest = ''/dhcp/scopes/'' @ path_escape ext @ rest"

text \<open>The mode of the agent; an agent that does not answer counts as current.\<close>

definition is_legacy_agent :: "'w sync_env \<Rightarrow> server \<Rightarrow> (bool, 'w) sync" where
  "is_legacy_agent E srv = sync_catch (sync_agent E MGet srv ''/health'' NoBody as_mode)
     (\<lambda>e. sync_return False) (\<lambda>m. sync_return (equal_fold (trim_space m) ''legacy''))"

text \<open>\<open>fetchDHCPScope\<close> and \<open>fetchLegacyDHCPScope\<close> are the same request.\<close>

definition scope_from_agent :: "server \<Rightarrow> dhcp_scope \<Rightarrow> dhcp_scope" where
  "scope_from_agent srv sc = sc\<lparr>sc_server_id := sv_id srv,
     sc_external_id := first_non_empty [sc_external_id sc, sc_id sc, sc_subnet sc]\<rparr>"

definition fetch_dhcp_scope :: "'w sync_env \<Rightarrow> server \<Rightarrow> string \<Rightarrow> (dhcp_scope, 'w) sync" where
  "fetch_dhcp_scope E srv ext =
     sync_bind (sync_agent E MGet srv (scope_path ext []) NoBody (as_scope empty_scope))
       (\<lambda>sc. sync_return (scope_from_agent srv sc))"

type_synonym scope_details = "dhcp_exclusion list \<times> dhcp_lease list \<times> dhcp_reservation list"

definition exclusion_of_scope :: "string \<Rightarrow> dhcp_exclusion \<Rightarrow> dhcp_exclusion" where
  "exclusion_of_scope ext x = x\<lparr>ex_scope_id := ext,
     ex_external_id := first_non_empty [ex_external_id x, ex_id x, ex_start_ip x @ ''-'' @ ex_end_ip x]\<rparr>"

definition lease_of_scope :: "string \<Rightarrow> dhcp_lease \<Rightarrow> dhcp_lease" where
  "lease_of_scope ext l = l\<lparr>l_scope_id := ext, l_external_id := first_non_empty [l_external_id l, l_id l, l_ip l]\<rparr>"

definition reservation_of_scope :: "string \<Rightarrow> dhcp_reservation \<Rightarrow> dhcp_reservation" where
  "reservation_of_scope ext r =
     r\<lparr>rv_scope_id := ext, rv_external_id := first_non_empty [rv_external_id r, rv_id r, rv_ip r]\<rparr>"

definition details_of_scope :: "string \<Rightarrow> scope_details \<Rightarrow> scope_details" where
  "details_of_scope ext q = (case q of (es, ls, rs) \<Rightarrow>
     (map (exclusion_of_scope ext) es, map (lease_of_scope ext) ls, map (reservation_of_scope ext) rs))"

definition fetch_dhcp_scope_details_endpoint :: "'w sync_env \<Rightarrow> server \<Rightarrow> string \<Rightarrow> (scope_details, 'w) sync" where
  "fetch_dhcp_scope_details_endpoint E srv ext =
     sync_bind (sync_agent E MGet srv (scope_path ext ''/details'') NoBody as_details)
       (\<lambda>q. sync_return (details_of_scope ext q))"

text \<open>The three requests are all sent before the first error counts; an agent without exclusions
  answers 404 to their request.\<close>

definition fetch_dhcp_scope_details_split :: "'w sync_env \<Rightarrow> server \<Rightarrow> string \<Rightarrow> (scope_details, 'w) sync" where
  "fetch_dhcp_scope_details_split E srv ext s =
     (case sync_agent E MGet srv (scope_path ext ''/exclusions'') NoBody as_exclusions s of (re, s1) \<Rightarrow>
        case sync_agent E MGet srv (scope_path ext ''/leases'') NoBody as_leases s1 of (rl, s2) \<Rightarrow>
          case sync_agent E MGet srv (scope_path ext ''/reservations'') NoBody as_reservations s2 of (rr, s3) \<Rightarrow>
            (case re of
               Inl (AgentErr e) \<Rightarrow> if \<not> agent_not_found e then (Inl (AgentErr e), s3)
                 else (case (rl, rr) of
                     (Inl e2, _) \<Rightarrow> (Inl e2, s3)
                   | (Inr ls, Inl e3) \<Rightarrow> (Inl e3, s3)
                   | (Inr ls, Inr rs) \<Rightarrow> (Inr (details_of_scope ext ([], ls, rs)), s3))
             | Inl e \<Rightarrow> (Inl e, s3)
             | Inr es \<Rightarrow> (case (rl, rr) of
                     (Inl e2, _) \<Rightarrow> (Inl e2, s3)
                   | (Inr ls, Inl e3) \<Rightarrow> (Inl e3, s3)
                   | (Inr ls, Inr rs) \<Rightarrow> (Inr (details_of_scope ext (es, ls, rs)), s3))))"

definition sync_not_found :: "sync_error \<Rightarrow> bool" where
  "sync_not_found e = (case e of AgentErr a \<Rightarrow> agent_not_found a | _ \<Rightarrow> False)"

definition fetch_dhcp_scope_details :: "'w sync_env \<Rightarrow> server \<Rightarrow> string \<Rightarrow> bool \<Rightarrow> (scope_details, 'w) sync" where
  "fetch_dhcp_scope_details E srv ext legacy =
     (if legacy then fetch_dhcp_scope_details_endpoint E srv ext
      else sync_catch (fetch_dhcp_scope_details_endpoint E srv ext)
        (\<lambda>e. if \<not> sync_not_found e then sync_fail e else fetch_dhcp_scope_details_split E srv ext)
        sync_return)"

definition store_scope_details ::
    "'w sync_env \<Rightarrow> server \<Rightarrow> dhcp_scope \<Rightarrow> scope_details \<Rightarrow> (unit, 'w) sync" where
  "store_scope_details E srv sc q = (case q of (es, ls, rs) \<Rightarrow>
     sync_store (replace_dhcp_scope_snapshot (se_gen E (sc_external_id sc)) (se_now E) (sv_id srv) sc es ls rs))"

text \<open>A scope the agent does not know (any more) is deleted.\<close>

definition sync_one_dhcp_scope :: "'w sync_env \<Rightarrow> server \<Rightarrow> string \<Rightarrow> (unit, 'w) sync" where
  "sync_one_dhcp_scope E srv ext = sync_bind (is_legacy_agent E srv) (\<lambda>legacy.
     sync_catch (fetch_dhcp_scope E srv ext)
       (\<lambda>e. if sync_not_found e then sync_store (delete_dhcp_scope_by_external_id (sv_id srv) ext) else sync_fail e)
       (\<lambda>sc. if trim_space (sc_external_id sc) = []
             then sync_store (delete_dhcp_scope_by_external_id (sv_id srv) ext)
             else sync_bind (fetch_dhcp_scope_details E srv (sc_external_id sc) legacy) (store_scope_details E srv sc)))"

definition sync_dhcp_scope :: "'w sync_env \<Rightarrow> string \<Rightarrow> string \<Rightarrow> (unit, 'w) sync" where
  "sync_dhcp_scope E sid ext = sync_bind (sync_read (\<lambda>d. get_server d sid)) (\<lambda>srv. sync_one_dhcp_scope E srv ext)"

subsection \<open>All scopes of a server\<close>

text \<open>The workers look at the deadline before each scope and drop the error of a scope once it has
  passed; then the whole synchronisation counts as cancelled.\<close>

fun sync_scopes ::
    "'w sync_env \<Rightarrow> server \<Rightarrow> bool \<Rightarrow> dhcp_scope list \<Rightarrow> 'w app \<Rightarrow> (string \<times> sync_error) list \<times> bool \<times> 'w app" where
  "sync_scopes E srv legacy [] s = ([], False, s)"
| "sync_scopes E srv legacy (sc # scs) s =
     (if se_expired E (ap_world s) then ([], True, s)
      else case sync_bind (fetch_dhcp_scope_details E srv (sc_external_id sc) legacy) (store_scope_details E srv sc) s of
        (r, s1) \<Rightarrow> (case sync_scopes E srv legacy scs s1 of (errs, cancelled, s2) \<Rightarrow>
          (case r of
             Inr _ \<Rightarrow> (errs, cancelled, s2)
           | Inl e \<Rightarrow> if se_expired E (ap_world s1) then (errs, True, s2)
                      else ((sc_external_id sc, e) # errs, cancelled, s2))))"

definition clear_legacy_dhcp_cache :: "'w sync_env \<Rightarrow> server \<Rightarrow> 'w app \<Rightarrow> 'w app" where
  "clear_legacy_dhcp_cache E srv s = snd (sync_agent E MPost srv ''/dhcp/cache/clear'' NoBody as_object s)"

definition sync_dhcp_scopes :: "'w sync_env \<Rightarrow> server \<Rightarrow> bool \<Rightarrow> (unit, 'w) sync" where
  "sync_dhcp_scopes E srv legacy =
     sync_bind (sync_agent E MGet srv ''/dhcp/scopes'' NoBody as_scopes) (\<lambda>found.
       let scopes = map (scope_from_agent srv) found in
       sync_bind (sync_store (replace_dhcp_scopes (se_gen E (sv_id srv)) (se_now E) (sv_id srv) scopes)) (\<lambda>_ s.
         case sync_scopes E srv legacy (reorder (se_perm E) scopes) s of (errs, cancelled, s1) \<Rightarrow>
           if cancelled then (Inl DeadlinePassed, s1) else all_done errs s1))"

definition sync_dhcp :: "'w sync_env \<Rightarrow> server \<Rightarrow> (unit, 'w) sync" where
  "sync_dhcp E srv = sync_bind (is_legacy_agent E srv) (\<lambda>legacy s.
     case sync_dhcp_scopes E srv legacy s of (r, s1) \<Rightarrow>
       (r, if legacy then clear_legacy_dhcp_cache E srv s1 else s1))"

subsection \<open>A zone synchronisation touches the snapshot only\<close>

lemma snapshot_store [simp]: "writes_snapshot f \<Longrightarrow> snapshot_only s (app_store f s)"
  by (auto simp: snapshot_only_def app_store_def drop_err_def writes_snapshot_def split: sum.split)

lemma frame_fetch_records [frame_intros]: "frame (sync_fetch_records E srv zname)"
  unfolding sync_fetch_records_def by (auto intro!: frame_intros split: sync_error.split)

lemma frame_fetch_zone [frame_intros]: "frame (fetch_dns_zone_records E srv zone)"
  unfolding fetch_dns_zone_records_def Let_def by (intro frame_intros) (simp add: frame_def)

lemma frame_reverse_zones: "fetch_reverse_zones E srv rzs s = (rs, s') \<Longrightarrow> snapshot_only s s'"
proof (induction rzs arbitrary: s rs s')
  case (Cons rz rzs)
  obtain r s1 where a: "fetch_dns_zone_records E srv (reverse_zone_named srv rz) s = (r, s1)" by (rule prod.exhaust)
  let ?s2 = "\<lambda>ys. app_store (replace_dns_zone_records (se_now E) (reverse_zone_named srv rz) ys) s1"
  have f: "snapshot_only s s1" by (rule frameD [OF frame_fetch_zone a])
  then have f2: "snapshot_only s (?s2 ys)" for ys by (rule snapshot_only_trans) simp
  show ?case
    using Cons.prems a by (auto split: sum.splits prod.splits dest!: Cons.IH intro: snapshot_only_trans [OF f] snapshot_only_trans [OF f2])
qed simp

lemma frame_annotate: "annotate_dns_records_from_reverse_zones E srv zname rs s = (rs', s') \<Longrightarrow> snapshot_only s s'"
  by (auto simp: annotate_dns_records_from_reverse_zones_def Let_def dest: frame_reverse_zones split: if_splits prod.splits)

lemma frame_zone_records [frame_intros]: "frame (sync_dns_zone_records E srv zone)"
  unfolding sync_dns_zone_records_def
proof (rule frame_bind)
  fix rs
  show "frame (\<lambda>s. case (if z_reverse zone then (rs, s) else annotate_dns_records_from_reverse_zones E srv (z_name zone) rs s) of
       (rs1, s1) \<Rightarrow> sync_store (replace_dns_zone_records (se_now E) zone rs1) s1)"
    unfolding frame_def
  proof
    fix s
    obtain rs1 s1 where a: "(if z_reverse zone then (rs, s) else annotate_dns_records_from_reverse_zones E srv (z_name zone) rs s) = (rs1, s1)"
      by (rule prod.exhaust)
    have "snapshot_only s s1" using a frame_annotate by (auto split: if_splits)
    moreover have "snapshot_only s1 (snd (sync_store (replace_dns_zone_records (se_now E) zone rs1) s1))"
      using frame_stores(1) unfolding frame_def by blast
    ultimately show "snapshot_only s (snd (case (if z_reverse zone then (rs, s) else
        annotate_dns_records_from_reverse_zones E srv (z_name zone) rs s) of
       (rs1, s1) \<Rightarrow> sync_store (replace_dns_zone_records (se_now E) zone rs1) s1))"
      unfolding a prod.case by (rule snapshot_only_trans)
  qed
qed (rule frame_fetch_zone)

lemma frame_each: "(\<And>x. x \<in> set xs \<Longrightarrow> frame (f x)) \<Longrightarrow> sync_each name f xs s = (errs, s') \<Longrightarrow> snapshot_only s s'"
proof (induction xs arbitrary: s errs s')
  case (Cons x xs)
  obtain r s1 where a: "f x s = (r, s1)" by (rule prod.exhaust)
  obtain es s2 where b: "sync_each name f xs s1 = (es, s2)" by (rule prod.exhaust)
  have "snapshot_only s s1" using Cons.prems(1) a by (auto dest: frameD)
  moreover have "snapshot_only s1 s2" using Cons.IH [OF _ b] Cons.prems(1) by simp
  moreover have "s' = s2" using Cons.prems(2) a b by (auto split: sum.splits)
  ultimately show ?case using snapshot_only_trans by blast
qed simp

lemma frame_sync_dns [frame_intros]: "frame (sync_dns E srv)"
  unfolding sync_dns_def Let_def
proof (intro frame_intros)
  fix found u
  show "frame (\<lambda>s. case sync_each z_name (sync_dns_zone_records E srv)
      (reorder (se_perm E) (map (zone_from_agent srv) (filter_syncable_dns_zones found))) s of (errs, s1) \<Rightarrow> all_done errs s1)"
    unfolding frame_def
    by (auto simp: all_done_def sync_fail_def sync_return_def dest!: frame_each [OF frame_zone_records] split: prod.splits)
qed

lemma frame_details [frame_intros]: "frame (fetch_dhcp_scope_details_endpoint E srv ext)"
    "frame (store_scope_details E srv sc q)" "frame (is_legacy_agent E srv)" "frame (fetch_dhcp_scope E srv ext)"
  unfolding fetch_dhcp_scope_details_endpoint_def store_scope_details_def is_legacy_agent_def fetch_dhcp_scope_def
  by (auto intro!: frame_intros split: prod.split)

lemma frame_split [frame_intros]: "frame (fetch_dhcp_scope_details_split E srv ext)"
  unfolding frame_def
proof
  fix s
  obtain re s1 where a: "sync_agent E MGet srv (scope_path ext ''/exclusions'') NoBody as_exclusions s = (re, s1)" by (rule prod.exhaust)
  obtain rl s2 where b: "sync_agent E MGet srv (scope_path ext ''/leases'') NoBody as_leases s1 = (rl, s2)" by (rule prod.exhaust)
  obtain rr s3 where c: "sync_agent E MGet srv (scope_path ext ''/reservations'') NoBody as_reservations s2 = (rr, s3)" by (rule prod.exhaust)
  have "snd (fetch_dhcp_scope_details_split E srv ext s) = s3"
    by (simp add: fetch_dhcp_scope_details_split_def a b c split: sum.split sync_error.split)
  then show "snapshot_only s (snd (fetch_dhcp_scope_details_split E srv ext s))"
    using frameD [OF frame_basic(4) a] frameD [OF frame_basic(4) b] frameD [OF frame_basic(4) c] snapshot_only_trans by metis
qed

lemma frame_scope [frame_intros]: "frame (fetch_dhcp_scope_details E srv ext legacy)" "frame (sync_one_dhcp_scope E srv ext)"
  unfolding fetch_dhcp_scope_details_def sync_one_dhcp_scope_def by (intro frame_intros)+

lemma frame_scopes: "sync_scopes E srv legacy scs s = (errs, c, s') \<Longrightarrow> snapshot_only s s'"
proof (induction scs arbitrary: s errs c s')
  case (Cons sc scs)
  obtain r s1 where a: "sync_bind (fetch_dhcp_scope_details E srv (sc_external_id sc) legacy) (store_scope_details E srv sc) s = (r, s1)"
    by (rule prod.exhaust)
  have "frame (sync_bind (fetch_dhcp_scope_details E srv (sc_external_id sc) legacy) (store_scope_details E srv sc))"
    by (intro frame_intros)
  then have f: "snapshot_only s s1" using a by (rule frameD)
  show ?case
    using Cons.prems a by (auto split: sum.splits prod.splits if_splits dest!: Cons.IH intro: snapshot_only_trans [OF f])
qed simp

lemma frame_sync_dhcp [frame_intros]: "frame (sync_dhcp_scopes E srv legacy)" "frame (sync_dhcp E srv)"
proof -
  show f: "frame (sync_dhcp_scopes E srv legacy)" for legacy
    unfolding sync_dhcp_scopes_def Let_def
  proof (intro frame_intros)
    fix found u
    show "frame (\<lambda>s. case sync_scopes E srv legacy (reorder (se_perm E) (map (scope_from_agent srv) found)) s of
        (errs, cancelled, s1) \<Rightarrow> if cancelled then (Inl DeadlinePassed, s1) else all_done errs s1)"
      unfolding frame_def
      by (auto simp: all_done_def sync_fail_def sync_return_def dest!: frame_scopes split: prod.splits)
  qed
  show "frame (sync_dhcp E srv)"
    unfolding sync_dhcp_def
  proof (rule frame_bind [OF frame_details(3)])
    fix legacy
    show "frame (\<lambda>s. case sync_dhcp_scopes E srv legacy s of (r, s1) \<Rightarrow>
       (r, if legacy then clear_legacy_dhcp_cache E srv s1 else s1))"
      unfolding frame_def
    proof
      fix s
      obtain r s1 where a: "sync_dhcp_scopes E srv legacy s = (r, s1)" by (rule prod.exhaust)
      have "snapshot_only s s1" by (rule frameD [OF f a])
      moreover have "snapshot_only s1 (clear_legacy_dhcp_cache E srv s1)"
        unfolding clear_legacy_dhcp_cache_def using frame_basic(4) unfolding frame_def by blast
      ultimately show "snapshot_only s (snd (case sync_dhcp_scopes E srv legacy s of (r, s1) \<Rightarrow>
          (r, if legacy then clear_legacy_dhcp_cache E srv s1 else s1)))"
        using snapshot_only_trans by (auto simp: a)
    qed
  qed
qed

subsection \<open>What a zone synchronisation stores\<close>

definition stored_record :: "gotime \<Rightarrow> dns_zone \<Rightarrow> dns_record \<Rightarrow> dns_record" where
  "stored_record now z r =
     (let r1 = r\<lparr>r_zone_id := z_id z\<rparr>;
          r2 = (if r_id r1 = [] then
                  r1\<lparr>r_id := dns_record_id (z_server_id z) (z_name z) (r_type r1) (r_name r1) (r_value r1)\<rparr>
                else r1)
      in written_record now (default_ttl r2))"

lemma insert_zone_records_step:
  assumes "insert_zone_records now z (r # rs) d = Inr d'"
  shows "insert_zone_records now z rs (d\<lparr>db_records := db_records d @ [stored_record now z r]\<rparr>) = Inr d'"
    "r_id (stored_record now z r) \<notin> r_id ` set (db_records d)"
  using assms by (auto simp: Let_def stored_record_def list_ex_iff image_iff split: if_splits)

lemma insert_zone_records_rows:
  "insert_zone_records now z rs d = Inr d' \<Longrightarrow> d' = d\<lparr>db_records := db_records d @ map (stored_record now z) rs\<rparr>"
proof (induction rs arbitrary: d)
  case (Cons r rs)
  then show ?case using Cons.IH [OF insert_zone_records_step(1) [OF Cons.prems]] by simp
qed simp

lemma insert_zone_records_distinct:
  "insert_zone_records now z rs d = Inr d' \<Longrightarrow> distinct (map r_id (db_records d)) \<Longrightarrow> distinct (map r_id (db_records d'))"
proof (induction rs arbitrary: d)
  case (Cons r rs)
  have "distinct (map r_id (db_records (d\<lparr>db_records := db_records d @ [stored_record now z r]\<rparr>)))"
    using Cons.prems(2) insert_zone_records_step(2) [OF Cons.prems(1)] by auto
  then show ?case by (rule Cons.IH [OF insert_zone_records_step(1) [OF Cons.prems(1)]])
qed simp

lemma stored_fields [simp]:
  "r_zone_id (stored_record now z r) = z_id z" "r_type (stored_record now z r) = r_type r"
  "r_name (stored_record now z r) = r_name r" "r_value (stored_record now z r) = r_value r"
  "r_create_ptr (stored_record now z r) = r_create_ptr r"
  by (simp_all add: stored_record_def Let_def written_record_def default_ttl_def)

lemma replace_records_rows:
  assumes "replace_dns_zone_records now z rs d = Inr d'" "z_id z \<noteq> []"
  shows "zone_rows d' (z_id z) = map (stored_record now z) rs"
    and "\<forall>i. i \<noteq> z_id z \<longrightarrow> zone_rows d' i = zone_rows d i"
    and "synced_zone now z \<in> set (db_zones d')"
    and "distinct (map r_id (db_records d)) \<Longrightarrow> distinct (map r_id (db_records d'))"
proof -
  obtain d1 where u: "upsert_dns_zone_stmt now z d = Inr d1"
      "insert_zone_records now z rs (d1\<lparr>db_records := delete_rows (\<lambda>r. r_zone_id r = z_id z) (db_records d1)\<rparr>) = Inr d'"
    using assms by (auto simp: replace_dns_zone_records_def zone_with_id_def Let_def split: if_splits sum.splits)
  have d1: "db_records d1 = db_records d" "synced_zone now z \<in> set (db_zones d1)"
    using u(1) by (auto simp: upsert_dns_zone_stmt_def upsert_row_def update_rows_def list_ex_iff split: if_splits)
  note i = insert_zone_records_rows [OF u(2)]
  show "zone_rows d' (z_id z) = map (stored_record now z) rs"
    using i by (auto simp: zone_rows_def delete_rows_def filter_empty_conv)
  show "\<forall>j. j \<noteq> z_id z \<longrightarrow> zone_rows d' j = zone_rows d j"
    using i d1 by (auto simp: zone_rows_def delete_rows_def filter_empty_conv intro!: filter_cong)
  show "synced_zone now z \<in> set (db_zones d')" using i d1 by simp
  show "distinct (map r_id (db_records d'))" if "distinct (map r_id (db_records d))"
    using insert_zone_records_distinct [OF u(2)] that d1 by (simp add: distinct_map_delete)
qed

lemma take_annotated:
  "take (length rs) (annotate_dns_ptr_records sid zn (rs @ rs2)) = map (annotate_record sid zn (ptr_keys (rs @ rs2))) rs"
  by (simp add: annotate_dns_ptr_records_def)

lemma annotate_record_id [simp]: "r_id (annotate_record sid zn ks r) = r_id r"
  by (auto simp: annotate_record_def split: option.splits)

text \<open>Annotating changes flags only.\<close>

lemma annotated_shape:
  assumes "annotate_dns_records_from_reverse_zones E srv zname rs s = (rs', s')"
  shows "\<exists>f. rs' = map f rs \<and> (\<forall>r :: dns_record. r_id (f r :: dns_record) = r_id r \<and> r_type (f r) = r_type r \<and> r_name (f r) = r_name r \<and> r_value (f r) = r_value r)"
proof (cases "existing_dns_reverse_zones (ap_db s) (sv_id srv) (candidate_reverse_zones (sv_id srv) zname rs) = []")
  case True
  then show ?thesis using assms by (intro exI [of _ "\<lambda>r. r"]) (simp add: annotate_dns_records_from_reverse_zones_def)
next
  case False
  then obtain rs2 where "rs' = map (annotate_record (sv_id srv) zname (ptr_keys (rs @ rs2))) rs"
    using assms by (auto simp: annotate_dns_records_from_reverse_zones_def Let_def take_annotated split: prod.splits)
  then show ?thesis by (intro exI) (auto simp: annotate_record_keeps)
qed

definition record_parts :: "dns_record \<Rightarrow> string \<times> string \<times> string" where
  "record_parts r = (r_type r, r_name r, r_value r)"

lemma zone_of_server_id: "z_id zone \<noteq> [] \<Longrightarrow> z_id (zone_of_server srv zone) = z_id zone"
    "z_name (zone_of_server srv zone) = z_name zone"
  by (simp_all add: zone_of_server_def)

lemma record_of_zone_parts [simp]: "record_parts (record_of_zone srv z r) = record_parts r"
    "r_id (record_of_zone srv z r) = dns_record_id (sv_id srv) (z_name z) (r_type r) (r_name r) (r_value r)"
  by (simp_all add: record_parts_def record_of_zone_def)

lemma raw_url_encode_sep_nonempty: "dns_record_id a b c e f \<noteq> []"
  by (simp add: dns_record_id_def encode_resource_id_def)

lemma stored_id: "r_id r \<noteq> [] \<Longrightarrow> r_id (stored_record now z r) = r_id r"
  by (simp add: stored_record_def Let_def written_record_def default_ttl_def)

text \<open>Everything up to the final statement, and the final statement.\<close>

lemma zone_records_done:
  assumes "sync_dns_zone_records E srv zone s = (Inr (), s')" "z_id zone \<noteq> []"
  obtains rs s1 f d2 where "sync_fetch_records E srv (z_name zone) s = (Inr rs, s1)"
    "replace_dns_zone_records (se_now E) zone (map f (map (record_of_zone srv (zone_of_server srv zone)) rs)) d2 = Inr (ap_db s')"
    "\<forall>r :: dns_record. r_id (f r :: dns_record) = r_id r \<and> r_type (f r) = r_type r \<and> r_name (f r) = r_name r \<and> r_value (f r) = r_value r"
proof -
  obtain rs0 s1 where f1: "fetch_dns_zone_records E srv zone s = (Inr rs0, s1)"
      and rest: "(case (if z_reverse zone then (rs0, s1) else annotate_dns_records_from_reverse_zones E srv (z_name zone) rs0 s1) of
         (rs1, s2) \<Rightarrow> sync_store (replace_dns_zone_records (se_now E) zone rs1) s2) = (Inr (), s')"
    using assms(1) by (auto simp: sync_dns_zone_records_def sync_bind_Inr)
  obtain rs where rs: "sync_fetch_records E srv (z_name zone) s = (Inr rs, s1)"
      "rs0 = map (record_of_zone srv (zone_of_server srv zone)) rs"
    using f1 by (auto simp: fetch_dns_zone_records_def sync_catch_def sync_return_def Let_def zone_of_server_id split: prod.splits sum.splits)
  obtain rs1 s2 where a: "(if z_reverse zone then (rs0, s1) else annotate_dns_records_from_reverse_zones E srv (z_name zone) rs0 s1) = (rs1, s2)"
    by (rule prod.exhaust)
  have r: "replace_dns_zone_records (se_now E) zone rs1 (ap_db s2) = Inr (ap_db s')"
    using rest a by (auto simp: sync_store_Inr)
  have "\<exists>f. rs1 = map f rs0 \<and> (\<forall>r :: dns_record. r_id (f r :: dns_record) = r_id r \<and> r_type (f r) = r_type r \<and> r_name (f r) = r_name r \<and> r_value (f r) = r_value r)"
  proof (cases "z_reverse zone")
    case True
    then show ?thesis using a by (intro exI [of _ "\<lambda>r. r"]) simp
  qed (use a in \<open>simp add: annotated_shape\<close>)
  then obtain f where "rs1 = map f rs0" "\<forall>r :: dns_record. r_id (f r :: dns_record) = r_id r \<and> r_type (f r) = r_type r \<and> r_name (f r) = r_name r \<and> r_value (f r) = r_value r"
    by blast
  note f = this
  show ?thesis by (rule that [OF rs(1) r [unfolded f(1) rs(2)] f(2)])
qed

lemma fetch_failed_marks:
  assumes "sync_fetch_records E srv (z_name zone) s = (Inl e, s1)" "z_id zone \<noteq> []"
  shows "sync_dns_zone_records E srv zone s = (Inl e, app_store (mark_dns_zone_sync_error (z_id zone) (se_text E e)) s1)"
  using assms by (simp add: sync_dns_zone_records_def sync_bind_def fetch_dns_zone_records_def sync_catch_def Let_def zone_of_server_id)

lemma fetch_records_db: "sync_fetch_records E srv zname s = (r, s1) \<Longrightarrow> ap_db s1 = ap_db s"
  by (auto simp: sync_fetch_records_def sync_catch_def sync_return_def sync_fail_def dest!: sync_agent_keeps
      split: prod.splits sum.splits sync_error.splits if_splits)

lemma marked_zone_rows: "db_records (drop_err d (mark_dns_zone_sync_error zid m d)) = db_records d"
  by (simp add: drop_err_def mark_dns_zone_sync_error_def)

lemma marked_dns_zones:
  assumes "\<not> db_fault d ''MarkZone'' zid" "z \<in> set (db_zones (drop_err d (mark_dns_zone_sync_error zid m d)))" "z_id z = zid"
  shows "z_sync_status z = ''failed'' \<and> z_last_error z = m"
  using assms by (simp add: drop_err_def mark_dns_zone_sync_error_def update_rows_def) (elim disjE imageE conjE; simp)


subsection \<open>A refresh of one zone loses its type\<close>

lemma zone_literals: "trim_space ''Primary'' = ''Primary''" "trim_space ''None'' = ''None''"
  by (rule trim_space_graph, simp add: graph_ends_def char_code_def)+

text \<open>Refreshing a single zone writes the zone row from the name alone: whatever type and dynamic update
  mode the zone had, afterwards it is a primary zone without dynamic updates, although the agent was
  only asked for its records.\<close>

theorem single_zone_refresh_resets_type:
  assumes "sync_dns_zone E sid zname s = (Inr (), s')"
  shows "\<exists>srv z. get_server (ap_db s) sid = Inr srv \<and> z \<in> set (db_zones (ap_db s')) \<and>
     z_id z = dns_zone_id (sv_id srv) zname \<and> z_name z = zname \<and> z_type z = ''Primary'' \<and> z_dynamic_update z = ''None'' \<and>
     z_sync_status z = ''synced''"
proof -
  obtain srv where srv: "get_server (ap_db s) sid = Inr srv" "sync_dns_zone_records E srv (single_zone srv zname) s = (Inr (), s')"
    using assms by (auto simp: sync_dns_zone_def sync_bind_Inr sync_read_Inr)
  have zid: "z_id (single_zone srv zname) \<noteq> []"
    by (simp add: single_zone_def dns_zone_id_def encode_resource_id_def)
  obtain rs f d2 where "replace_dns_zone_records (se_now E) (single_zone srv zname)
      (map f (map (record_of_zone srv (zone_of_server srv (single_zone srv zname))) rs)) d2 = Inr (ap_db s')"
    by (rule zone_records_done [OF srv(2) zid])
  from replace_records_rows(3) [OF this zid] have "synced_zone (se_now E) (single_zone srv zname) \<in> set (db_zones (ap_db s'))" .
  then show ?thesis
    using srv(1) by (intro exI [of _ srv] exI [of _ "synced_zone (se_now E) (single_zone srv zname)"])
      (simp add: synced_zone_def single_zone_def empty_zone_def zone_literals)
qed

subsection \<open>A refresh of one scope\<close>

lemma fetch_scope_db:
  "is_legacy_agent E srv s = (r, s1) \<Longrightarrow> ap_db s1 = ap_db s"
  "fetch_dhcp_scope E srv ext s = (rsc, s1) \<Longrightarrow> ap_db s1 = ap_db s"
  "fetch_dhcp_scope_details_endpoint E srv ext s = (rq, s1) \<Longrightarrow> ap_db s1 = ap_db s"
  by (auto simp: is_legacy_agent_def fetch_dhcp_scope_def fetch_dhcp_scope_details_endpoint_def sync_catch_def sync_bind_def
      sync_return_def dest!: sync_agent_keeps split: prod.splits sum.splits)

lemma fetch_split_db: "fetch_dhcp_scope_details_split E srv ext s = (rq, s1) \<Longrightarrow> ap_db s1 = ap_db s"
proof -
  assume h: "fetch_dhcp_scope_details_split E srv ext s = (rq, s1)"
  obtain re t1 where a: "sync_agent E MGet srv (scope_path ext ''/exclusions'') NoBody as_exclusions s = (re, t1)" by (rule prod.exhaust)
  obtain rl t2 where b: "sync_agent E MGet srv (scope_path ext ''/leases'') NoBody as_leases t1 = (rl, t2)" by (rule prod.exhaust)
  obtain rr t3 where c: "sync_agent E MGet srv (scope_path ext ''/reservations'') NoBody as_reservations t2 = (rr, t3)" by (rule prod.exhaust)
  have "s1 = t3"
    using h by (simp add: fetch_dhcp_scope_details_split_def a b c split: sum.splits sync_error.splits if_splits)
  then show ?thesis using sync_agent_keeps [OF a] sync_agent_keeps [OF b] sync_agent_keeps [OF c] by simp
qed

lemma fetch_details_db: "fetch_dhcp_scope_details E srv ext legacy s = (rq, s1) \<Longrightarrow> ap_db s1 = ap_db s"
  by (auto simp: fetch_dhcp_scope_details_def sync_catch_def sync_return_def sync_fail_def
      dest!: fetch_scope_db(3) fetch_split_db split: prod.splits sum.splits if_splits)

lemma sync_store_cases: "sync_store f s = (r, s') \<Longrightarrow>
    (case r of Inl e \<Rightarrow> s' = s | Inr _ \<Rightarrow> f (ap_db s) = Inr (ap_db s'))"
  by (auto simp: sync_store_def split: sum.splits)

text \<open>The two ways a refresh of a scope ends well.\<close>

definition scope_gone :: "server \<Rightarrow> string \<Rightarrow> db \<Rightarrow> bool" where
  "scope_gone srv ext d \<longleftrightarrow> (\<forall>x \<in> set (db_scopes d). \<not> (sc_server_id x = sv_id srv \<and> sc_external_id x = ext))"

definition scope_holds :: "server \<Rightarrow> dhcp_scope \<Rightarrow> scope_details \<Rightarrow> db \<Rightarrow> bool" where
  "scope_holds srv sc q d \<longleftrightarrow> (case q of (es, ls, rvs) \<Rightarrow>
     \<exists>x \<in> set (db_scopes d). sc_server_id x = sv_id srv \<and> sc_external_id x = sc_external_id sc \<and>
       (\<lambda>e. (ex_start_ip e, ex_end_ip e)) ` {e \<in> set (db_exclusions d). ex_scope_id e = sc_id x} =
         (\<lambda>e. (ex_start_ip e, ex_end_ip e)) ` set es \<and>
       l_ip ` {l \<in> set (db_leases d). l_scope_id l = sc_id x} = l_ip ` set ls \<and>
       rv_ip ` {r \<in> set (db_reservations d). rv_scope_id r = sc_id x} = rv_ip ` set rvs)"

lemma image_drop_first: "(\<lambda>x. (i, f x)) ` A = (\<lambda>x. (i, f x)) ` B \<Longrightarrow> f ` A = f ` B"
proof -
  assume "(\<lambda>x. (i, f x)) ` A = (\<lambda>x. (i, f x)) ` B"
  then have "snd ` (\<lambda>x. (i, f x)) ` A = snd ` (\<lambda>x. (i, f x)) ` B" by simp
  then show ?thesis by (simp add: image_image)
qed

lemma stored_scope_holds:
  assumes "dhcp_keys_ok d" "gen_fresh gen d" "trim_space (sc_external_id sc) = sc_external_id sc" "sc_external_id sc \<noteq> []"
    and "replace_dhcp_scope_snapshot gen now (sv_id srv) sc es ls rvs d = Inr d'"
  shows "dhcp_keys_ok d' \<and> scope_holds srv sc (es, ls, rvs) d'"
proof -
  from snapshot_rows_replaced [OF assms(1,2,5)] obtain x where x: "dhcp_keys_ok d'" "x \<in> set (db_scopes d')"
      "x = (incoming_scope gen now (sv_id srv) (0, sc))\<lparr>sc_id := sc_id x\<rparr>"
      "exclusion_key ` {e \<in> set (db_exclusions d'). ex_scope_id e = sc_id x} = (\<lambda>e. (sc_id x, ex_start_ip e, ex_end_ip e)) ` set es"
      "lease_key ` {l \<in> set (db_leases d'). l_scope_id l = sc_id x} = (\<lambda>l. (sc_id x, l_ip l)) ` set ls"
      "reservation_key ` {r \<in> set (db_reservations d'). rv_scope_id r = sc_id x} = (\<lambda>r. (sc_id x, rv_ip r)) ` set rvs"
    by (elim conjE bexE) (rule that; assumption)
  have "sc_server_id ((incoming_scope gen now (sv_id srv) (0, sc))\<lparr>sc_id := i\<rparr>) = sv_id srv"
      "sc_external_id ((incoming_scope gen now (sv_id srv) (0, sc))\<lparr>sc_id := i\<rparr>) = sc_external_id sc" for i
    using assms(3,4) by (simp_all add: incoming_external)
  then have fields: "sc_server_id x = sv_id srv" "sc_external_id x = sc_external_id sc" using x(3) by metis+
  have "exclusion_key ` {e \<in> set (db_exclusions d'). ex_scope_id e = sc_id x} =
      (\<lambda>e. (sc_id x, ex_start_ip e, ex_end_ip e)) ` {e \<in> set (db_exclusions d'). ex_scope_id e = sc_id x}"
    by (intro image_cong) (auto simp: exclusion_key_def)
  moreover have "lease_key ` {l \<in> set (db_leases d'). l_scope_id l = sc_id x} =
      (\<lambda>l. (sc_id x, l_ip l)) ` {l \<in> set (db_leases d'). l_scope_id l = sc_id x}"
    by (intro image_cong) (auto simp: lease_key_def)
  moreover have "reservation_key ` {r \<in> set (db_reservations d'). rv_scope_id r = sc_id x} =
      (\<lambda>r. (sc_id x, rv_ip r)) ` {r \<in> set (db_reservations d'). rv_scope_id r = sc_id x}"
    by (intro image_cong) (auto simp: reservation_key_def)
  ultimately show ?thesis
    unfolding scope_holds_def prod.case using x(1,2) fields
      image_drop_first [OF trans [OF _ x(4)]] image_drop_first [OF trans [OF _ x(5)]] image_drop_first [OF trans [OF _ x(6)]]
    by (intro conjI bexI [of _ x]) simp_all
qed

lemma delete_external_gone:
  assumes "delete_dhcp_scope_by_external_id (sv_id srv) ext d = Inr d'" "dhcp_keys_ok d"
  shows "dhcp_keys_ok d' \<and> scope_gone srv ext d'"
proof -
  have d': "d' = delete_scopes_where (\<lambda>x. sc_server_id x = sv_id srv \<and> sc_external_id x = ext) d"
    using assms(1) by (simp add: delete_dhcp_scope_by_external_id_def split: if_splits)
  have "scope_gone srv ext d'" by (auto simp: d' scope_gone_def delete_scopes_where_def delete_rows_def Let_def)
  then show ?thesis using delete_scopes_keys [OF assms(2)] d' by simp
qed

lemma fetched_scope_trimmed: "fetch_dhcp_scope E srv ext s = (Inr sc, s1) \<Longrightarrow> trim_space (sc_external_id sc) = sc_external_id sc"
  by (auto simp: fetch_dhcp_scope_def sync_bind_Inr sync_return_def scope_from_agent_def simp del: first_non_empty.simps)

lemma scope_details_stored:
  assumes "sync_bind (fetch_dhcp_scope_details E srv (sc_external_id sc) legacy) (store_scope_details E srv sc) s = (r, s')"
    and "dhcp_keys_ok (ap_db s)" "\<forall>p. gen_fresh (se_gen E p) (ap_db s)"
    and "trim_space (sc_external_id sc) = sc_external_id sc" "sc_external_id sc \<noteq> []"
  shows "case r of Inl e \<Rightarrow> ap_db s' = ap_db s
    | Inr _ \<Rightarrow> dhcp_keys_ok (ap_db s') \<and> (\<exists>q s3. fetch_dhcp_scope_details E srv (sc_external_id sc) legacy s = (Inr q, s3) \<and>
        scope_holds srv sc q (ap_db s'))"
proof -
  obtain rq s1 where f: "fetch_dhcp_scope_details E srv (sc_external_id sc) legacy s = (rq, s1)" by (rule prod.exhaust)
  have db: "ap_db s1 = ap_db s" by (rule fetch_details_db [OF f])
  show ?thesis
  proof (cases rq)
    case (Inl e)
    then show ?thesis using assms(1) f db by (auto simp: sync_bind_def)
  next
    case (Inr q)
    obtain es ls rvs where q: "q = (es, ls, rvs)" by (rule prod_cases3)
    have st: "sync_store (replace_dhcp_scope_snapshot (se_gen E (sc_external_id sc)) (se_now E) (sv_id srv) sc es ls rvs) s1 = (r, s')"
      using assms(1) f Inr q by (simp add: sync_bind_def store_scope_details_def)
    have g: "gen_fresh (se_gen E (sc_external_id sc)) (ap_db s)" using assms(3) by blast
    show ?thesis
    proof (cases r)
      case (Inl e)
      then show ?thesis using sync_store_cases [OF st] db by simp
    next
      case (Inr u)
      have "replace_dhcp_scope_snapshot (se_gen E (sc_external_id sc)) (se_now E) (sv_id srv) sc es ls rvs (ap_db s) = Inr (ap_db s')"
        using sync_store_cases [OF st] Inr db by simp
      from stored_scope_holds [OF assms(2) g assms(4,5) this] show ?thesis using Inr f \<open>rq = Inr q\<close> q by auto
    qed
  qed
qed


subsection \<open>Concrete runs\<close>

definition answering :: "agent_data \<Rightarrow> nat network" where
  "answering v q w = (Reply 200 (Some \<lparr>ev_success = True, ev_data = v, ev_error = None\<rparr>), Suc w)"

definition refusing :: "int \<Rightarrow> nat network" where
  "refusing code q w = (Reply code (Some \<lparr>ev_success = False, ev_data = NoData, ev_error = None\<rparr>), Suc w)"

definition sample_env :: "nat network \<Rightarrow> nat sync_env" where
  "sample_env net = \<lparr>se_net = net, se_now = 7, se_token = (\<lambda>k. Some ''token''), se_gen = (\<lambda>p. sample_gen),
     se_text = (\<lambda>e. ''error''), se_json = (\<lambda>fs. concat (map snd fs)), se_json_ok = (\<lambda>t. True), se_perm = (\<lambda>n. [0..<n]), se_expired = (\<lambda>w. False),
     se_cutoff = 0, se_max_len = 10, se_ttl = minutes 30\<rparr>"

definition sync_app :: "nat app" where
  "sync_app = \<lparr>ap_db = sample_db\<lparr>db_servers := [sample_server], db_zones := [sample_zone\<lparr>z_id := dns_zone_id ''s'' ''corp.test'',
       z_name := ''corp.test'', z_type := ''Secondary'', z_dynamic_update := ''Secure'', z_server_id := ''s''\<rparr>], db_records := []\<rparr>,
     ap_redis = empty_redis, ap_sched = new_scheduler, ap_world = 0\<rparr>"

definition sample_alias :: dns_record where
  "sample_alias = empty_record\<lparr>r_name := ''www'', r_type := ''CNAME'', r_value := ''mail.test.'', r_ttl := 600\<rparr>"

definition tick :: "nat app \<Rightarrow> nat app" where
  "tick s = s\<lparr>ap_world := Suc (ap_world s)\<rparr>"

lemma tick_keeps [simp]: "ap_db (tick s) = ap_db s"
  by (simp add: tick_def)

lemma env_net [simp]: "se_net (sample_env net) = net" "se_now (sample_env net) = 7"
  by (simp_all add: sample_env_def)

lemma answering_agent: "sync_agent (sample_env (answering v)) m srv path body dst s =
    (case dst v of Inl e \<Rightarrow> (Inl (AgentErr e), tick s) | Inr x \<Rightarrow> (Inr x, tick s))"
  by (simp add: sync_agent_def app_call_def agent_call_def agent_do_def answering_def tick_def Let_def split: sum.split)

lemma refusing_agent: "code < 200 \<or> 300 \<le> code \<Longrightarrow>
    sync_agent (sample_env (refusing code)) m srv path body dst s = (Inl (AgentErr (StatusError code [] [])), tick s)"
  by (auto simp: sync_agent_def app_call_def agent_call_def agent_do_def refusing_def tick_def Let_def)

lemma answering_fetch: "sync_fetch_records (sample_env (answering (RecordsData rs))) srv zn s = (Inr rs, tick s)"
  by (simp add: sync_fetch_records_def sync_catch_def answering_agent as_records_def sync_return_def)

lemma alias_annotated: "annotate_dns_records_from_reverse_zones E srv zn [record_of_zone srv z sample_alias] s =
    ([record_of_zone srv z sample_alias], s)"
proof -
  have "parse_ip_to4 (trim_space ''mail.test.'') = None"
    unfolding literal_trim by code_simp
  then show ?thesis
    by (simp add: annotate_dns_records_from_reverse_zones_def candidate_reverse_zones_def dns_ptr_record_for_a_record_def
        record_of_zone_def sample_alias_def existing_dns_reverse_zones_def)
qed

lemma sample_zone_sync: "\<exists>s'. sync_dns_zone_records (sample_env (answering (RecordsData [sample_alias]))) sample_server
    (single_zone sample_server ''corp.test'') sync_app = (Inr (), s')"
proof -
  let ?E = "sample_env (answering (RecordsData [sample_alias]))" and ?z = "single_zone sample_server ''corp.test''"
  let ?rs = "[record_of_zone sample_server (zone_of_server sample_server ?z) sample_alias]"
  have "z_name (zone_of_server sample_server ?z) = ''corp.test''" by (simp add: zone_of_server_def single_zone_def)
  then have f: "fetch_dns_zone_records ?E sample_server ?z sync_app = (Inr ?rs, tick sync_app)"
    by (simp add: fetch_dns_zone_records_def sync_catch_def answering_fetch sync_return_def Let_def)
  have a: "(if z_reverse ?z then (?rs, tick sync_app) else annotate_dns_records_from_reverse_zones ?E sample_server (z_name ?z) ?rs (tick sync_app))
      = (?rs, tick sync_app)"
    by (simp add: alias_annotated)
  have "z_id ?z \<noteq> []" "z_id ?z = dns_zone_id ''s'' ''corp.test''" "z_name ?z = ''corp.test''" "z_server_id ?z = ''s''"
    by (simp_all add: single_zone_def sample_server_def sample_zone_id)
  then have "\<exists>d. replace_dns_zone_records 7 ?z ?rs (ap_db sync_app) = Inr d"
    by (simp add: replace_dns_zone_records_def zone_with_id_def upsert_dns_zone_stmt_def sync_app_def sample_db_def empty_db_def
        sample_server_def sample_record_def sample_zone_id upsert_row_def update_rows_def delete_rows_def sample_zone_def Let_def)
  then obtain d where "replace_dns_zone_records 7 ?z ?rs (ap_db (tick sync_app)) = Inr d" by auto
  then show ?thesis
    unfolding sync_dns_zone_records_def sync_bind_def f prod.case sum.case a by (simp add: sync_store_def)
qed


theorem single_zone_refresh_resets_type_witness:
  "map z_type (db_zones (ap_db sync_app)) = [''Secondary''] \<and>
   (\<exists>s'. sync_dns_zone (sample_env (answering (RecordsData [sample_alias]))) ''s'' ''corp.test'' sync_app = (Inr (), s') \<and>
     (\<exists>z \<in> set (db_zones (ap_db s')). z_id z = dns_zone_id ''s'' ''corp.test'' \<and> z_type z = ''Primary'' \<and> z_dynamic_update z = ''None''))"
proof -
  have srv: "get_server (ap_db sync_app) ''s'' = Inr sample_server" "sv_id sample_server = ''s''"
    by (simp_all add: get_server_def sync_app_def sample_db_def empty_db_def sample_server_def)
  obtain s' where r: "sync_dns_zone (sample_env (answering (RecordsData [sample_alias]))) ''s'' ''corp.test'' sync_app = (Inr (), s')"
    using sample_zone_sync srv by (auto simp: sync_dns_zone_def sync_bind_def sync_read_def)
  from single_zone_refresh_resets_type [OF r] show ?thesis
    using r srv by (auto simp: sync_app_def)
qed

definition dhcp_app :: "nat app" where
  "dhcp_app = \<lparr>ap_db = dhcp_db, ap_redis = empty_redis, ap_sched = new_scheduler, ap_world = 0\<rparr>"


end
