(* ===== verification/ZL_Sync.thy ===== *)
theory ZL_Sync
  imports ZL_Sync_Resources
begin

text \<open>
  The synchronisation service of \<open>internal/service/sync/service.go\<close>: health checks, the synchronisation
  of a server under its lock, refresh tasks and the schedule. Messages shown to the user are codes;
  the texts of JSON objects and errors come from \<open>se_json\<close> and \<open>se_text\<close>.
\<close>

subsection \<open>Events and caches\<close>

definition publish_with_payload ::
    "'w sync_env \<Rightarrow> string \<Rightarrow> string \<Rightarrow> string \<Rightarrow> string \<Rightarrow> (string \<times> string) list \<Rightarrow> 'w app \<Rightarrow> 'w app" where
  "publish_with_payload E ty task status message payload s =
     s\<lparr>ap_redis := snd (publish_refresh (se_cutoff E) (se_max_len E) (se_ttl E)
         (se_json E ([(''type'', ty), (''taskId'', task), (''status'', status), (''message'', message)] @ payload))
         (ap_redis s))\<rparr>"

definition publish :: "'w sync_env \<Rightarrow> string \<Rightarrow> string \<Rightarrow> string \<Rightarrow> string \<Rightarrow> 'w app \<Rightarrow> 'w app" where
  "publish E ty task status message = publish_with_payload E ty task status message []"

definition agent_health_runtime_key :: "string \<Rightarrow> string" where
  "agent_health_runtime_key sid = ''zonelease:runtime:agent-health:'' @ trim_space sid"

definition refresh_task_runtime_key :: "string \<Rightarrow> string" where
  "refresh_task_runtime_key task = ''zonelease:runtime:refresh-task:'' @ trim_space task"

text \<open>The duration of the check and its time are part of what \<open>se_json\<close> adds.\<close>

definition int_text :: "int \<Rightarrow> string" where
  "int_text i = (if i < 0 then ''-'' @ itoa (nat (- i)) else itoa (nat i))"

definition cache_agent_health :: "'w sync_env \<Rightarrow> server \<Rightarrow> string \<Rightarrow> string \<Rightarrow> int \<Rightarrow> 'w app \<Rightarrow> 'w app" where
  "cache_agent_health E srv status detail failures s =
     (if trim_space (sv_id srv) = [] then s
      else s\<lparr>ap_redis := snd (rt_set (agent_health_runtime_key (sv_id srv))
             (se_json E [(''serverId'', sv_id srv), (''serverName'', sv_name srv), (''status'', status),
                (''error'', detail), (''failureCount'', int_text failures)])
             (minutes 30) (ap_redis s))\<rparr>)"

definition service_notify_agent_offline :: "'w sync_env \<Rightarrow> server \<Rightarrow> string \<Rightarrow> 'w app \<Rightarrow> 'w app" where
  "service_notify_agent_offline E srv detail s =
     (if trim_space (sv_id srv) = [] then s
      else let name = agent_display_name trim_space srv in
        notify_unread (se_gen E (sv_id srv) ''notification'' (length (db_notifications (ap_db s)))) (se_now E)
          (agent_offline_notice name
            (se_json E [(''server'', name), (''serverId'', sv_id srv), (''status'', ''Offline''), (''error'', detail)]) srv) s)"

definition app_try_lock :: "'w sync_env \<Rightarrow> string \<Rightarrow> gotime \<Rightarrow> 'w app \<Rightarrow> try_result \<times> 'w app" where
  "app_try_lock E key ttl s =
     (case try_lock (se_token E key) key ttl (ap_redis s) of (r, rd) \<Rightarrow> (r, s\<lparr>ap_redis := rd\<rparr>))"

definition app_unlock :: "lock \<Rightarrow> 'w app \<Rightarrow> 'w app" where
  "app_unlock l s = s\<lparr>ap_redis := snd (unlock l (ap_redis s))\<rparr>"

text \<open>A lock that cannot be taken for an error does not stop the work; one that is held elsewhere does.\<close>

definition under_lock ::
    "'w sync_env \<Rightarrow> string \<Rightarrow> gotime \<Rightarrow> ('w app \<Rightarrow> 'a \<times> 'w app) \<Rightarrow> ('w app \<Rightarrow> 'a \<times> 'w app) \<Rightarrow> 'w app \<Rightarrow> 'a \<times> 'w app" where
  "under_lock E key ttl work busy s =
     (case app_try_lock E key ttl s of
        (TryBusy, s1) \<Rightarrow> busy s1
      | (TryError, s1) \<Rightarrow> work s1
      | (TryTaken l, s1) \<Rightarrow> (case work s1 of (r, s2) \<Rightarrow> (r, app_unlock l s2)))"

subsection \<open>Health checks\<close>

definition min_positive :: "int \<Rightarrow> int \<Rightarrow> int" where
  "min_positive v limit = (let v1 = (if v \<le> 0 then 1 else v) in if 0 < limit \<and> limit < v1 then limit else v1)"

definition max_positive :: "int \<Rightarrow> int \<Rightarrow> int" where
  "max_positive v fallback = (if 0 < v then v else fallback)"

text \<open>What follows the answer of the agent.\<close>

definition record_health :: "'w sync_env \<Rightarrow> runtime_limits \<Rightarrow> server \<Rightarrow> (agent_error + unit) \<Rightarrow> 'w app \<Rightarrow> 'w app" where
  "record_health E limits srv h s =
     (let status = (case h of Inl e \<Rightarrow> ''Offline'' | Inr _ \<Rightarrow> ''Online'');
          detail = (case h of Inl e \<Rightarrow> se_text E (AgentErr e) | Inr _ \<Rightarrow> [])
      in case update_server_health (ap_db s) (sv_id srv) status (rl_agent_offline_failure_count limits) (se_now E) of
           Inl e \<Rightarrow> s
         | Inr (hu, d) \<Rightarrow>
             (let s1 = cache_agent_health E srv status detail (hu_failures hu) (s\<lparr>ap_db := d\<rparr>) in
              if hu_status hu = ''Online'' then clear_source (se_now E) ''agent_health'' (sv_id srv) s1
              else if became_offline hu then service_notify_agent_offline E srv detail s1
              else s1))"

definition check_server_health :: "'w sync_env \<Rightarrow> runtime_limits \<Rightarrow> server \<Rightarrow> 'w app \<Rightarrow> 'w app" where
  "check_server_health E limits srv s =
     (case app_call (agent_health (se_net E) srv) s of (h, s1) \<Rightarrow> record_health E limits srv h s1)"

text \<open>The workers take the servers in any order.\<close>

definition check_server_health_batch :: "'w sync_env \<Rightarrow> server list \<Rightarrow> runtime_limits \<Rightarrow> 'w app \<Rightarrow> 'w app" where
  "check_server_health_batch E srvs limits s =
     (if min_positive (rl_agent_health_concurrency limits) (int (length srvs)) \<le> 1
      then fold (check_server_health E limits) srvs s
      else fold (check_server_health E limits) (reorder (se_perm E) srvs) s)"

definition health_targets :: "'w sync_env \<Rightarrow> redis \<Rightarrow> server list \<Rightarrow> server list" where
  "health_targets E r srvs =
     filter (\<lambda>srv. trim_space (sv_agent_url srv) \<noteq> [] \<and> \<not> is_agent_sync_running (se_json_ok E) (sv_id srv) r) srvs"

definition agent_health_check_lock_key :: string where
  "agent_health_check_lock_key = ''zonelease:lock:agent-health-check''"

definition check_all_server_health :: "'w sync_env \<Rightarrow> 'w app \<Rightarrow> 'w app" where
  "check_all_server_health E s =
     (case list_servers (ap_db s) of
        Inl e \<Rightarrow> s
      | Inr srvs \<Rightarrow>
          (let limits = runtime_limits_of (ap_db s);
               targets = health_targets E (ap_redis s) srvs;
               ttl = rl_agent_connection_timeout limits * max_positive (int (length targets)) 1 + minutes 1
           in snd (under_lock E agent_health_check_lock_key ttl
                (\<lambda>s1. let s2 = check_server_health_batch E targets limits s1 in
                   ((), if targets \<noteq> [] then publish E ''runtime.updated'' [] ''success'' ''runtime_updated'' s2 else s2))
                (\<lambda>s1. ((), s1)) s)))"

subsection \<open>Synchronising a server\<close>

record server_target =
  st_server_id :: string
  st_server_name :: string
  st_skip_health_check :: bool

definition skip_server_health_check :: "server_target option \<Rightarrow> bool" where
  "skip_server_health_check t = (case t of None \<Rightarrow> False | Some x \<Rightarrow> st_skip_health_check x)"

definition is_manual_server_sync :: "server_target option \<Rightarrow> bool" where
  "is_manual_server_sync t = (case t of None \<Rightarrow> False | Some x \<Rightarrow> \<not> st_skip_health_check x)"

definition is_dns_server :: "server \<Rightarrow> bool" where
  "is_dns_server srv \<longleftrightarrow> to_lower (trim_space (sv_role srv)) = ''dns''"

definition is_dhcp_server :: "server \<Rightarrow> bool" where
  "is_dhcp_server srv \<longleftrightarrow> to_lower (trim_space (sv_role srv)) = ''dhcp''"

text \<open>An agent that fails its check: a synchronisation the user asked for puts it offline at once and
  reports it, also when it was offline already.\<close>

definition sync_health_failed ::
    "'w sync_env \<Rightarrow> runtime_limits \<Rightarrow> server_target option \<Rightarrow> server \<Rightarrow> agent_error \<Rightarrow> 'w app \<Rightarrow> 'w app" where
  "sync_health_failed E limits target srv e s =
     (let detail = se_text E (HealthErr e);
          limit = (if is_manual_server_sync target then 1 else rl_agent_offline_failure_count limits)
      in case update_server_health (ap_db s) (sv_id srv) ''Offline'' limit (se_now E) of
           Inl err \<Rightarrow> s
         | Inr (hu, d) \<Rightarrow>
             (let s1 = cache_agent_health E srv ''Offline'' detail (hu_failures hu) (s\<lparr>ap_db := d\<rparr>) in
              if became_offline hu \<or> is_manual_server_sync target
              then publish E ''runtime.updated'' [] ''success'' ''runtime_updated'' (service_notify_agent_offline E srv detail s1)
              else s1))"

definition mark_server_online :: "'w sync_env \<Rightarrow> runtime_limits \<Rightarrow> server \<Rightarrow> 'w app \<Rightarrow> 'w app" where
  "mark_server_online E limits srv s =
     (let s1 = (case update_server_health (ap_db s) (sv_id srv) ''Online'' (rl_agent_offline_failure_count limits) (se_now E) of
                  Inl e \<Rightarrow> s
                | Inr (hu, d) \<Rightarrow> cache_agent_health E srv ''Online'' [] (hu_failures hu) (s\<lparr>ap_db := d\<rparr>))
      in clear_source (se_now E) ''agent_health'' (sv_id srv) s1)"

definition sync_role :: "string \<Rightarrow> bool \<Rightarrow> (unit, 'w) sync \<Rightarrow> 'w app \<Rightarrow> (string \<times> sync_error) list \<times> 'w app" where
  "sync_role name on m s =
     (if on then (case m s of (Inl e, s1) \<Rightarrow> ([(name, e)], s1) | (Inr _, s1) \<Rightarrow> ([], s1)) else ([], s))"

definition sync_roles :: "'w sync_env \<Rightarrow> server \<Rightarrow> (unit, 'w) sync" where
  "sync_roles E srv s =
     (if \<not> is_dns_server srv \<and> \<not> is_dhcp_server srv then (Inl (UnsupportedAgentRole (trim_space (sv_role srv))), s)
      else case sync_role ''dns'' (is_dns_server srv) (sync_dns E srv) s of (es1, s1) \<Rightarrow>
        case sync_role ''dhcp'' (is_dhcp_server srv) (sync_dhcp E srv) s1 of (es2, s2) \<Rightarrow> all_done (es1 @ es2) s2)"

definition sync_server_locked ::
    "'w sync_env \<Rightarrow> runtime_limits \<Rightarrow> server_target option \<Rightarrow> server \<Rightarrow> (unit, 'w) sync" where
  "sync_server_locked E limits target srv s =
     (if skip_server_health_check target then sync_roles E srv (mark_server_online E limits srv s)
      else case app_call (agent_health (se_net E) srv) s of
        (Inl e, s1) \<Rightarrow> (Inl (HealthErr e), sync_health_failed E limits target srv e s1)
      | (Inr _, s1) \<Rightarrow> sync_roles E srv (mark_server_online E limits srv s1))"

definition running_payload :: "'w sync_env \<Rightarrow> server \<Rightarrow> string" where
  "running_payload E srv = se_json E [(''serverId'', sv_id srv), (''serverName'', sv_name srv)]"

text \<open>The mark is set under the lock and cleared before the lock is released.\<close>

definition sync_server_marked ::
    "'w sync_env \<Rightarrow> runtime_limits \<Rightarrow> server_target option \<Rightarrow> server \<Rightarrow> (unit, 'w) sync" where
  "sync_server_marked E limits target srv s =
     (case sync_server_locked E limits target srv
             (s\<lparr>ap_redis := mark_agent_sync_running (running_payload E srv) srv (agent_sync_execution_ttl limits) (ap_redis s)\<rparr>) of
        (r, s1) \<Rightarrow> (r, s1\<lparr>ap_redis := clear_agent_sync_running (sv_id srv) (ap_redis s1)\<rparr>))"

definition sync_server_with_limits ::
    "'w sync_env \<Rightarrow> runtime_limits \<Rightarrow> server_target option \<Rightarrow> server \<Rightarrow> (unit, 'w) sync" where
  "sync_server_with_limits E limits target srv =
     under_lock E (agent_sync_lock_key (sv_id srv)) (agent_sync_execution_ttl limits)
       (sync_server_marked E limits target srv) (sync_fail AgentSyncRunning)"

definition sync_server_target :: "'w sync_env \<Rightarrow> server_target option \<Rightarrow> server \<Rightarrow> (unit, 'w) sync" where
  "sync_server_target E target srv s = sync_server_with_limits E (runtime_limits_of (ap_db s)) target srv s"

definition sync_server :: "'w sync_env \<Rightarrow> server \<Rightarrow> (unit, 'w) sync" where
  "sync_server E = sync_server_target E None"

definition mark_agent_sync_queued :: "'w sync_env \<Rightarrow> server \<Rightarrow> 'w app \<Rightarrow> 'w app" where
  "mark_agent_sync_queued E srv s = s\<lparr>ap_redis := mark_agent_sync_running (running_payload E srv) srv
     (agent_sync_execution_ttl (runtime_limits_of (ap_db s))) (ap_redis s)\<rparr>"

subsection \<open>All servers\<close>

record agent_result =
  ar_id :: string
  ar_name :: string
  ar_status :: string
  ar_error :: string
  ar_warn :: string

record refresh_progress =
  pg_message :: string
  pg_total :: nat
  pg_started :: nat
  pg_synced :: nat
  pg_skipped :: nat
  pg_failed :: nat
  pg_results :: "agent_result list"
  pg_errors :: "string list"

definition refresh_progress_message :: "refresh_progress \<Rightarrow> string" where
  "refresh_progress_message p =
     (if pg_total p = 0 then ''no agents to refresh''
      else ''refreshed '' @ itoa (pg_synced p) @ ''/'' @ itoa (pg_total p) @ '', failed '' @ itoa (pg_failed p) @
        (if 0 < pg_skipped p then '', skipped '' @ itoa (pg_skipped p) else []))"

definition refresh_progress_warn :: "agent_result list \<Rightarrow> string" where
  "refresh_progress_warn rs = join_with ''; '' (filter (\<lambda>w. trim_space w \<noteq> []) (map ar_warn rs))"

definition result_fields :: "agent_result \<Rightarrow> (string \<times> string) list" where
  "result_fields r = [(''id'', ar_id r), (''name'', ar_name r), (''status'', ar_status r)] @
     (if ar_error r = [] then [] else [(''error'', ar_error r)]) @ (if ar_warn r = [] then [] else [(''warn'', ar_warn r)])"

text \<open>The fields of \<open>refreshProgressPayload\<close>; the times are part of what \<open>se_json\<close> adds.\<close>

definition progress_fields ::
    "'w sync_env \<Rightarrow> string \<Rightarrow> agent_result option \<Rightarrow> refresh_progress \<Rightarrow> (string \<times> string) list" where
  "progress_fields E current event p =
     [(''message'', pg_message p), (''warn'', refresh_progress_warn (pg_results p)), (''totalAgents'', itoa (pg_total p)),
      (''startedAgents'', itoa (pg_started p)), (''syncedAgents'', itoa (pg_synced p)), (''skippedAgents'', itoa (pg_skipped p)),
      (''failedAgents'', itoa (pg_failed p)), (''resourceType'', ''runtime''), (''currentAgent'', current),
      (''agentResults'', concat (map (\<lambda>r. se_json E (result_fields r)) (pg_results p)))] @
     (case event of None \<Rightarrow> [] | Some r \<Rightarrow> [(''agentEvent'', se_json E (result_fields r))]) @
     (if pg_errors p = [] then [] else [(''error'', join_with ''; '' (pg_errors p))])"

text \<open>\<open>updateRefreshTask\<close> of the service: table and cache, errors are only logged.\<close>

definition record_task :: "'w sync_env \<Rightarrow> string \<Rightarrow> string \<Rightarrow> string \<Rightarrow> 'w app \<Rightarrow> 'w app" where
  "record_task E task status payload s =
     (let s1 = app_store (update_refresh_task (se_now E) task status payload) s in
      s1\<lparr>ap_redis := snd (rt_set (refresh_task_runtime_key task)
           (se_json E [(''status'', status), (''payload'', payload)]) refresh_task_runtime_ttl (ap_redis s1))\<rparr>)"

definition publish_progress ::
    "'w sync_env \<Rightarrow> string \<Rightarrow> string \<Rightarrow> string \<Rightarrow> agent_result option \<Rightarrow> bool \<Rightarrow> refresh_progress \<Rightarrow> 'w app \<Rightarrow> 'w app" where
  "publish_progress E task ty current event with_event p s =
     (if task = [] \<or> ty = [] then s
      else let payload = se_json E (progress_fields E current event (p\<lparr>pg_message := ''refresh_running'', pg_errors := []\<rparr>));
               s1 = record_task E task ''running'' payload s
        in if with_event then publish_with_payload E ty task ''progress'' ''refresh_running'' [(''payload'', payload)] s1 else s1)"

definition should_sync_server_for_task :: "string \<Rightarrow> server \<Rightarrow> bool" where
  "should_sync_server_for_task ty srv =
     (if ty = ''runtime.refresh.dns.all'' then is_dns_server srv
      else if ty = ''runtime.refresh.dhcp.all'' then is_dhcp_server srv
      else True)"

text \<open>What the goroutine of one server reports.\<close>

definition agent_outcome :: "'w sync_env \<Rightarrow> server \<Rightarrow> (sync_error + unit) \<Rightarrow> refresh_progress \<Rightarrow> agent_result \<times> refresh_progress" where
  "agent_outcome E srv r p =
     (let res = \<lparr>ar_id = sv_id srv, ar_name = sv_name srv, ar_status = ''completed'', ar_error = [], ar_warn = []\<rparr> in
      case r of
        Inr _ \<Rightarrow> (res, p\<lparr>pg_synced := pg_synced p + 1, pg_results := pg_results p @ [res]\<rparr>)
      | Inl AgentSyncRunning \<Rightarrow>
          (let res1 = res\<lparr>ar_status := ''skipped'', ar_warn := sv_name srv @ '' is being synchronised already''\<rparr>
           in (res1, p\<lparr>pg_skipped := pg_skipped p + 1, pg_results := pg_results p @ [res1]\<rparr>))
      | Inl e \<Rightarrow>
          (let res1 = res\<lparr>ar_status := ''failed'', ar_error := se_text E e\<rparr>
           in (res1, p\<lparr>pg_failed := pg_failed p + 1, pg_results := pg_results p @ [res1],
                 pg_errors := pg_errors p @ [sv_name srv @ '': '' @ se_text E e]\<rparr>)))"

definition sync_one_agent :: "'w sync_env \<Rightarrow> string \<Rightarrow> string \<Rightarrow> server \<Rightarrow> refresh_progress \<times> 'w app \<Rightarrow> refresh_progress \<times> 'w app" where
  "sync_one_agent E task ty srv q = (case q of (p, s) \<Rightarrow>
     let p1 = p\<lparr>pg_started := pg_started p + 1\<rparr>;
         s1 = publish_progress E task ty (sv_name srv)
           (Some \<lparr>ar_id = sv_id srv, ar_name = sv_name srv, ar_status = ''running'', ar_error = [], ar_warn = []\<rparr>) True p1 s
     in case sync_server E srv s1 of (r, s2) \<Rightarrow>
       case agent_outcome E srv r p1 of (res, p2) \<Rightarrow> (p2, publish_progress E task ty [] (Some res) True p2 s2))"

definition no_progress :: "nat \<Rightarrow> refresh_progress" where
  "no_progress n = \<lparr>pg_message = [], pg_total = n, pg_started = 0, pg_synced = 0, pg_skipped = 0, pg_failed = 0,
     pg_results = [], pg_errors = []\<rparr>"

definition sync_targets :: "string \<Rightarrow> server list \<Rightarrow> server list" where
  "sync_targets ty srvs = filter (\<lambda>srv. trim_space (sv_agent_url srv) \<noteq> [] \<and> should_sync_server_for_task ty srv) srvs"

text \<open>The result carries the progress; its error is the list of the messages.\<close>

definition sync_all :: "'w sync_env \<Rightarrow> string \<Rightarrow> string \<Rightarrow> 'w app \<Rightarrow> (refresh_progress option \<times> bool) \<times> 'w app" where
  "sync_all E task ty s =
     (case list_servers (ap_db s) of
        Inl e \<Rightarrow> ((None, False), s)
      | Inr srvs \<Rightarrow>
          (let targets = sync_targets ty srvs;
               p0 = no_progress (length targets)
           in case fold (sync_one_agent E task ty) (reorder (se_perm E) targets)
                     (p0, publish_progress E task ty [] None False p0 s) of
             (p, s1) \<Rightarrow> ((Some (p\<lparr>pg_message := refresh_progress_message p\<rparr>), pg_errors p = []), s1)))"

subsection \<open>Refresh tasks\<close>

record zone_target =
  zt_server_id :: string
  zt_server_name :: string
  zt_zone_id :: string
  zt_zone_name :: string

record scope_target =
  ct_server_id :: string
  ct_server_name :: string
  ct_scope_id :: string
  ct_external_id :: string
  ct_scope_name :: string

datatype refresh_target = NoTarget | OnServer server_target | OnZone zone_target | OnScope scope_target

definition refresh_task_lock_key :: "string \<Rightarrow> refresh_target \<Rightarrow> string" where
  "refresh_task_lock_key ty t =
     (if ty = ''runtime.refresh.all'' then ''zonelease:lock:refresh:all''
      else if ty = ''runtime.refresh.dns.all'' then ''zonelease:lock:refresh:dns-all''
      else if ty = ''runtime.refresh.dhcp.all'' then ''zonelease:lock:refresh:dhcp-all''
      else if ty = ''runtime.refresh.server'' then
        (case t of
           OnServer x \<Rightarrow> if trim_space (st_server_id x) = [] then []
             else ''zonelease:lock:refresh:server:'' @ trim_space (st_server_id x)
         | _ \<Rightarrow> [])
      else if ty = ''runtime.refresh.dns.zone'' then
        (case t of
           OnZone x \<Rightarrow> if trim_space (zt_server_id x) = [] \<or> trim_space (zt_zone_name x) = [] then []
             else ''zonelease:lock:refresh:dns-zone:'' @ trim_space (zt_server_id x) @ '':'' @ to_lower (trim_space (zt_zone_name x))
         | _ \<Rightarrow> [])
      else if ty = ''runtime.refresh.dhcp.scope'' then
        (case t of
           OnScope x \<Rightarrow> if trim_space (ct_server_id x) = [] \<or> trim_space (ct_external_id x) = [] then []
             else ''zonelease:lock:refresh:dhcp-scope:'' @ trim_space (ct_server_id x) @ '':'' @ trim_space (ct_external_id x)
         | _ \<Rightarrow> [])
      else [])"

definition resource_fields :: "string \<Rightarrow> string \<Rightarrow> string \<Rightarrow> string \<Rightarrow> string \<Rightarrow> (string \<times> string) list" where
  "resource_fields kind rid name sid sname =
     [(''resourceType'', kind), (''resourceId'', rid), (''resourceName'', name), (''serverId'', sid)] @
     (if trim_space sname \<noteq> [] then [(''serverName'', sname)] else [])"

definition refresh_task_payload :: "string \<Rightarrow> refresh_target \<Rightarrow> string \<Rightarrow> string \<Rightarrow> (string \<times> string) list" where
  "refresh_task_payload ty t message error =
     [(''message'', message)] @
     (case t of
        OnServer x \<Rightarrow> if ty = ''runtime.refresh.server''
          then resource_fields ''server'' (st_server_id x) (st_server_name x) (st_server_id x) (st_server_name x) else []
      | OnZone x \<Rightarrow> if ty = ''runtime.refresh.dns.zone''
          then resource_fields ''dns.zone'' (zt_zone_id x) (zt_zone_name x) (zt_server_id x) (zt_server_name x) else []
      | OnScope x \<Rightarrow> if ty = ''runtime.refresh.dhcp.scope''
          then resource_fields ''dhcp.scope'' (ct_scope_id x) (ct_scope_name x) (ct_server_id x) (ct_server_name x) else []
      | NoTarget \<Rightarrow> []) @
     (if error \<noteq> [] then [(''error'', error)] else [])"

text \<open>The work of a task: its error text if it failed, the progress if it covered all servers, and
  the target with the name of its server filled in.\<close>

definition server_name_or :: "db \<Rightarrow> string \<Rightarrow> string \<Rightarrow> string" where
  "server_name_or d sid old = (case get_server d sid of Inl e \<Rightarrow> old | Inr srv \<Rightarrow> sv_name srv)"

definition error_text :: "'w sync_env \<Rightarrow> (sync_error + 'a) \<Rightarrow> string option" where
  "error_text E r = (case r of Inl e \<Rightarrow> Some (se_text E e) | Inr _ \<Rightarrow> None)"

definition task_work ::
    "'w sync_env \<Rightarrow> string \<Rightarrow> string \<Rightarrow> refresh_target \<Rightarrow> 'w app \<Rightarrow>
     string option \<times> refresh_progress option \<times> refresh_target \<times> 'w app" where
  "task_work E task ty t s =
     (if ty = ''runtime.refresh.server'' then
        (case t of
           OnServer x \<Rightarrow>
             (case get_server (ap_db s) (st_server_id x) of
                Inl e \<Rightarrow> (Some (se_text E (StoreErr e)), None, t, s)
              | Inr srv \<Rightarrow>
                  (let x1 = x\<lparr>st_server_name := sv_name srv\<rparr> in
                   case sync_server_target E (Some x1) srv s of (r, s1) \<Rightarrow> (error_text E r, None, OnServer x1, s1)))
         | _ \<Rightarrow> (Some (se_text E TargetRequired), None, t, s))
      else if ty = ''runtime.refresh.dns.zone'' then
        (case t of
           OnZone x \<Rightarrow>
             (let x1 = x\<lparr>zt_server_name := server_name_or (ap_db s) (zt_server_id x) (zt_server_name x)\<rparr> in
              case sync_dns_zone E (zt_server_id x) (zt_zone_name x) s of (r, s1) \<Rightarrow> (error_text E r, None, OnZone x1, s1))
         | _ \<Rightarrow> (Some (se_text E TargetRequired), None, t, s))
      else if ty = ''runtime.refresh.dhcp.scope'' then
        (case t of
           OnScope x \<Rightarrow>
             (let x1 = x\<lparr>ct_server_name := server_name_or (ap_db s) (ct_server_id x) (ct_server_name x)\<rparr> in
              case sync_dhcp_scope E (ct_server_id x) (ct_external_id x) s of (r, s1) \<Rightarrow> (error_text E r, None, OnScope x1, s1))
         | _ \<Rightarrow> (Some (se_text E TargetRequired), None, t, s))
      else
        (case sync_all E task ty s of
           ((None, ok), s1) \<Rightarrow> (Some (se_text E (StoreErr DbError)), None, t, s1)
         | ((Some p, ok), s1) \<Rightarrow> (if ok then None else Some (join_with ''; '' (pg_errors p)), Some p, t, s1)))"

definition finish_task ::
    "'w sync_env \<Rightarrow> string \<Rightarrow> string \<Rightarrow> string option \<times> refresh_progress option \<times> refresh_target \<times> 'w app \<Rightarrow> 'w app" where
  "finish_task E task ty q = (case q of (err, progress, t, s) \<Rightarrow>
     let status = (case err of None \<Rightarrow> ''completed'' | Some m \<Rightarrow> ''failed'');
         event = (case err of None \<Rightarrow> ''success'' | Some m \<Rightarrow> ''failed'');
         message = (case err of None \<Rightarrow> ''refresh_completed'' | Some m \<Rightarrow> ''refresh_failed'');
         payload = (case progress of
             None \<Rightarrow> se_json E (refresh_task_payload ty t message (case err of None \<Rightarrow> [] | Some m \<Rightarrow> m))
           | Some p \<Rightarrow> se_json E (progress_fields E [] None p));
         s1 = record_task E task status payload s;
         s2 = (case progress of
             None \<Rightarrow> publish E ty task event message s1
           | Some p \<Rightarrow> publish_with_payload E ty task event message [(''payload'', payload)] s1)
     in if err = None then publish E ''runtime.updated'' task ''success'' ''runtime_updated'' s2 else s2)"

definition run_task :: "'w sync_env \<Rightarrow> string \<Rightarrow> string \<Rightarrow> refresh_target \<Rightarrow> 'w app \<Rightarrow> 'w app" where
  "run_task E task ty t s =
     (let s1 = publish E ty task ''running'' ''refresh_running''
            (record_task E task ''running'' (se_json E (refresh_task_payload ty t ''refresh_running'' [])) s)
      in finish_task E task ty (task_work E task ty t s1))"

text \<open>A task whose lock is held is a duplicate: it is deleted.\<close>

definition skip_duplicate_task :: "'w sync_env \<Rightarrow> string \<Rightarrow> string \<Rightarrow> 'w app \<Rightarrow> 'w app" where
  "skip_duplicate_task E task ty s =
     publish E ty task ''failed''
       (if ty = ''runtime.refresh.server'' then ''agent_sync_running'' else ''duplicate_refresh_skipped'')
       (app_store (delete_refresh_task task) s)"

definition run_refresh_task :: "'w sync_env \<Rightarrow> string \<Rightarrow> string \<Rightarrow> refresh_target \<Rightarrow> 'w app \<Rightarrow> 'w app" where
  "run_refresh_task E task ty t s =
     (let key = refresh_task_lock_key ty t in
      if key = [] then run_task E task ty t s
      else snd (under_lock E key (refresh_task_lock_ttl (ap_db s))
             (\<lambda>s1. ((), run_task E task ty t s1)) (\<lambda>s1. ((), skip_duplicate_task E task ty s1)) s))"

subsection \<open>The schedule\<close>

text \<open>Times are nanoseconds since the epoch; \<open>midnight\<close> is the start of the local day of \<open>now\<close>.\<close>

definition next_scheduled_role_refresh_delay :: "gotime \<Rightarrow> gotime \<Rightarrow> gotime \<Rightarrow> gotime" where
  "next_scheduled_role_refresh_delay midnight now interval =
     (if interval \<le> 0 then 0
      else let secs = interval div nanos_per_second in
        if secs \<le> 0 then interval
        else let day = 86400;
                 elapsed = (if secs mod day = 0 then (now - midnight) div nanos_per_second
                            else if day mod secs = 0 then (now - midnight) div nanos_per_second
                            else unix_seconds now);
                 remaining = secs - elapsed mod secs
          in seconds (if remaining \<le> 0 then secs else remaining))"

text \<open>One round of \<open>startScheduledRoleRefresh\<close>, after its timer has fired.\<close>

definition scheduled_role_refresh ::
    "'w sync_env \<Rightarrow> string \<Rightarrow> string \<Rightarrow> string \<Rightarrow> 'w app \<Rightarrow> 'w app" where
  "scheduled_role_refresh E nid ty lock_key s =
     snd (under_lock E lock_key (refresh_task_lock_ttl (ap_db s))
       (\<lambda>s1. case create_refresh_task nid (se_now E) ty (se_json E [(''message'', ''scheduled_refresh_queued'')]) [] (ap_db s1) of
           Inl e \<Rightarrow> ((), s1)
         | Inr (task, d) \<Rightarrow> ((), run_refresh_task E (t_id task) ty NoTarget
             (publish E ty (t_id task) ''queued'' ''scheduled_refresh_queued'' (s1\<lparr>ap_db := d\<rparr>))))
       (\<lambda>s1. ((), s1)) s)"

subsection \<open>Which keys and faults a step leaves alone\<close>

definition touches :: "string set \<Rightarrow> 'w app \<Rightarrow> 'w app \<Rightarrow> bool" where
  "touches K s s' \<longleftrightarrow> db_fault (ap_db s') = db_fault (ap_db s) \<and> rd_fault (ap_redis s') = rd_fault (ap_redis s) \<and>
     rd_now (ap_redis s') = rd_now (ap_redis s) \<and> (\<forall>k. k \<notin> K \<longrightarrow> rd_keys (ap_redis s') k = rd_keys (ap_redis s) k)"

named_theorems touches_intros

lemma touches_refl [touches_intros]: "touches K s s"
  by (simp add: touches_def)

lemma touches_trans: "touches K s1 s2 \<Longrightarrow> touches K s2 s3 \<Longrightarrow> touches K s1 s3"
  by (simp add: touches_def)

lemma touches_mono: "touches K s s' \<Longrightarrow> K \<subseteq> L \<Longrightarrow> touches L s s'"
  unfolding touches_def by blast

lemma touches_redis: "rd_fault r = rd_fault (ap_redis s) \<Longrightarrow> rd_now r = rd_now (ap_redis s) \<Longrightarrow>
    (\<forall>k. k \<notin> K \<longrightarrow> rd_keys r k = rd_keys (ap_redis s) k) \<Longrightarrow> touches K s (s\<lparr>ap_redis := r\<rparr>)"
  by (simp add: touches_def)

lemma touches_db: "db_fault d = db_fault (ap_db s) \<Longrightarrow> touches K s (s\<lparr>ap_db := d\<rparr>)"
  by (simp add: touches_def)

lemma touches_world: "touches K s (s\<lparr>ap_world := w\<rparr>)"
  by (simp add: touches_def)

lemma touches_snapshot: "snapshot_only s s' \<Longrightarrow> touches K s s'"
  by (simp add: touches_def snapshot_only_def same_base_def)

definition last_key :: string where
  "last_key = ''zonelease:refresh:last''"

lemma set_shape: "rd_fault (snd (rt_set k v ttl r)) = rd_fault r" "rd_now (snd (rt_set k v ttl r)) = rd_now r"
    "k' \<noteq> k \<Longrightarrow> rd_keys (snd (rt_set k v ttl r)) k' = rd_keys r k'"
  by (simp_all add: rt_set_def redis_set_def)

lemma delete_shape: "rd_fault (snd (rt_delete k r)) = rd_fault r" "rd_now (snd (rt_delete k r)) = rd_now r"
    "k' \<noteq> k \<Longrightarrow> rd_keys (snd (rt_delete k r)) k' = rd_keys r k'"
  by (simp_all add: rt_delete_def redis_del_def)

lemma publish_shape: "rd_fault (snd (publish_refresh c m ttl e r)) = rd_fault r" "rd_now (snd (publish_refresh c m ttl e r)) = rd_now r"
    "k \<noteq> last_key \<Longrightarrow> rd_keys (snd (publish_refresh c m ttl e r)) k = rd_keys r k"
  by (simp_all add: publish_refresh_def redis_set_def redis_xadd_def last_key_def Let_def)

lemma touches_publish [touches_intros]: "last_key \<in> K \<Longrightarrow> touches K s (publish_with_payload E ty task status message payload s)"
    "last_key \<in> K \<Longrightarrow> touches K s (publish E ty task status message s)"
  unfolding publish_def publish_with_payload_def by (intro touches_redis publish_shape allI impI; blast)+

lemma touches_set: "k \<in> K \<Longrightarrow> touches K s (s\<lparr>ap_redis := snd (rt_set k v ttl (ap_redis s))\<rparr>)"
  by (intro touches_redis set_shape allI impI) blast

lemma touches_delete: "k \<in> K \<Longrightarrow> touches K s (s\<lparr>ap_redis := snd (rt_delete k (ap_redis s))\<rparr>)"
  by (intro touches_redis delete_shape allI impI) blast

lemma touches_health_cache [touches_intros]: "agent_health_runtime_key (sv_id srv) \<in> K \<Longrightarrow>
    touches K s (cache_agent_health E srv status detail n s)"
  unfolding cache_agent_health_def by (simp add: touches_refl touches_set)

lemma touches_invalidate: "unread_key \<in> K \<Longrightarrow> touches K s (invalidate_unread s)"
  unfolding invalidate_unread_def by (rule touches_delete)

lemma touches_clear [touches_intros]: "unread_key \<in> K \<Longrightarrow> touches K s (clear_source now ty i s)"
  by (auto simp: clear_source_def dismiss_notifications_by_source_def intro!: touches_refl
      touches_trans [OF touches_db touches_invalidate])

lemma touches_notify [touches_intros]: "unread_key \<in> K \<Longrightarrow> touches K s (notify_unread nid now q s)"
  by (auto simp: notify_unread_def create_notification_if_unread_missing_def create_notification_def Let_def
      split: sum.splits option.splits if_splits intro!: touches_refl touches_invalidate touches_trans [OF touches_db touches_invalidate])

lemma touches_offline [touches_intros]: "unread_key \<in> K \<Longrightarrow> touches K s (service_notify_agent_offline E srv detail s)"
  by (simp add: service_notify_agent_offline_def touches_refl touches_notify Let_def)

lemma health_update_fault: "update_server_health d sid status limit now = Inr (hu, d') \<Longrightarrow> db_fault d' = db_fault d"
  by (auto simp: update_server_health_def Let_def split: if_splits option.splits)

lemma touches_record_task [touches_intros]: "refresh_task_runtime_key task \<in> K \<Longrightarrow> touches K s (record_task E task status payload s)"
proof -
  assume k: "refresh_task_runtime_key task \<in> K"
  have "db_fault (drop_err (ap_db s) (update_refresh_task (se_now E) task status payload (ap_db s))) = db_fault (ap_db s)"
    by (simp add: drop_err_def update_refresh_task_def)
  then have "touches K s (app_store (update_refresh_task (se_now E) task status payload) s)"
    unfolding app_store_def by (rule touches_db)
  then show ?thesis
    unfolding record_task_def Let_def by (rule touches_trans) (rule touches_set [OF k])
qed

lemma touches_call: "app_call f s = (r, s') \<Longrightarrow> touches K s s'"
  by (auto simp: app_call_def touches_world split: prod.splits)

lemma touches_under_lock:
  assumes "\<And>s1 r s2. work s1 = (r, s2) \<Longrightarrow> touches K s1 s2" "\<And>s1 r s2. busy s1 = (r, s2) \<Longrightarrow> touches K s1 s2" "key \<in> K"
    and "under_lock E key ttl work busy s = (r, s')"
  shows "touches K s s'"
proof -
  obtain q s1 where t: "app_try_lock E key ttl s = (q, s1)" by (rule prod.exhaust)
  have lock: "touches K s s1"
    using t assms(3) by (auto simp: app_try_lock_def try_lock_def redis_set_def Let_def
        split: option.splits if_splits prod.splits intro!: touches_refl touches_redis)
  have release: "touches K s2 (app_unlock l s2)" if "lk_key l = key" for l s2
    using that assms(3) by (auto simp: app_unlock_def unlock_def redis_del_def intro!: touches_refl touches_redis)
  show ?thesis
  proof (cases q)
    case (TryTaken l)
    have l: "lk_key l = key"
      using t TryTaken by (auto simp: app_try_lock_def try_lock_def Let_def split: option.splits if_splits prod.splits)
    obtain r2 s2 where w: "work s1 = (r2, s2)" by (rule prod.exhaust)
    then have "s' = app_unlock l s2" using assms(4) t TryTaken by (simp add: under_lock_def)
    then show ?thesis using touches_trans [OF lock touches_trans [OF assms(1) [OF w] release [OF l]]] by simp
  qed (use assms(1,2,4) t touches_trans [OF lock] in \<open>auto simp: under_lock_def\<close>)
qed

definition server_keys :: "string \<Rightarrow> string set" where
  "server_keys sid = {last_key, unread_key, agent_health_runtime_key sid, agent_sync_runtime_key sid, agent_sync_lock_key sid}"

lemma server_keys_in [simp]: "last_key \<in> server_keys sid" "unread_key \<in> server_keys sid"
    "agent_health_runtime_key sid \<in> server_keys sid" "agent_sync_runtime_key sid \<in> server_keys sid" "agent_sync_lock_key sid \<in> server_keys sid"
  by (simp_all add: server_keys_def)

definition body_keys :: "string \<Rightarrow> string set" where
  "body_keys sid = {last_key, unread_key, agent_health_runtime_key sid}"

lemma body_keys_in [simp]: "last_key \<in> body_keys sid" "unread_key \<in> body_keys sid" "agent_health_runtime_key sid \<in> body_keys sid"
  by (simp_all add: body_keys_def)

lemma lock_key_apart: "agent_sync_lock_key sid \<notin> body_keys sid'" "agent_sync_runtime_key sid \<notin> body_keys sid'"
    "agent_sync_lock_key sid \<noteq> agent_sync_runtime_key sid'"
  by (simp_all add: body_keys_def agent_sync_lock_key_def agent_sync_runtime_key_def last_key_def unread_key_def
      agent_health_runtime_key_def)

lemma touches_health_failed: "touches (body_keys (sv_id srv)) s (sync_health_failed E limits target srv e s)"
proof -
  have d: "touches (body_keys (sv_id srv)) s (s\<lparr>ap_db := d\<rparr>)"
    if "update_server_health (ap_db s) sid st limit now = Inr (hu, d)" for sid st limit now hu d
    by (rule touches_db) (rule health_update_fault [OF that])
  show ?thesis
    unfolding sync_health_failed_def Let_def
    by (auto split: sum.split intro!: touches_intros touches_trans [OF d touches_health_cache]
        touches_trans [OF touches_trans [OF touches_trans [OF d touches_health_cache] touches_offline] touches_publish(2)])
qed

lemma touches_online: "touches (body_keys (sv_id srv)) s (mark_server_online E limits srv s)"
proof -
  have d: "touches (body_keys (sv_id srv)) s (s\<lparr>ap_db := d\<rparr>)"
    if "update_server_health (ap_db s) sid st limit now = Inr (hu, d)" for sid st limit now hu d
    by (rule touches_db) (rule health_update_fault [OF that])
  show ?thesis
    unfolding mark_server_online_def Let_def
    by (auto split: sum.split intro!: touches_intros touches_trans [OF touches_trans [OF d touches_health_cache] touches_clear])
qed

lemma frame_touches: "frame m \<Longrightarrow> m s = (r, s') \<Longrightarrow> touches K s s'"
  by (rule touches_snapshot) (rule frameD)

lemma touches_roles: "sync_roles E srv s = (r, s') \<Longrightarrow> touches K s s'"
proof -
  assume h: "sync_roles E srv s = (r, s')"
  have role: "touches K s1 s2" if "sync_role n on m s1 = (es, s2)" "frame m" for n on and m :: "(unit, 'w) sync" and s1 s2 es
    using that by (auto simp: sync_role_def touches_refl split: if_splits prod.splits sum.splits intro: frame_touches)
  show ?thesis
    using h by (auto simp: sync_roles_def all_done_def sync_fail_def sync_return_def touches_refl split: if_splits prod.splits
        intro: touches_trans [OF role role] frame_sync_dns frame_sync_dhcp)
qed

lemma touches_locked: "sync_server_locked E limits target srv s = (r, s') \<Longrightarrow> touches (body_keys (sv_id srv)) s s'"
  by (auto simp: sync_server_locked_def split: if_splits prod.splits sum.splits dest!: touches_call touches_roles
      intro: touches_trans touches_online touches_health_failed touches_trans [OF touches_online])

lemma touches_marked: "sync_server_marked E limits target srv s = (r, s') \<Longrightarrow> touches (server_keys (sv_id srv)) s s'"
proof -
  assume h: "sync_server_marked E limits target srv s = (r, s')"
  let ?s0 = "s\<lparr>ap_redis := mark_agent_sync_running (running_payload E srv) srv (agent_sync_execution_ttl limits) (ap_redis s)\<rparr>"
  obtain s1 where b: "sync_server_locked E limits target srv ?s0 = (r, s1)"
      and s': "s' = s1\<lparr>ap_redis := clear_agent_sync_running (sv_id srv) (ap_redis s1)\<rparr>"
    using h by (auto simp: sync_server_marked_def split: prod.splits)
  have "body_keys (sv_id srv) \<subseteq> server_keys (sv_id srv)" by (auto simp: body_keys_def server_keys_def)
  then have body: "touches (server_keys (sv_id srv)) ?s0 s1" by (rule touches_mono [OF touches_locked [OF b]])
  have mark: "touches (server_keys (sv_id srv)) s ?s0"
    by (rule touches_redis) (auto simp: mark_agent_sync_running_def set_shape server_keys_def)
  have clear: "touches (server_keys (sv_id srv)) s1 s'"
    unfolding s' by (rule touches_redis) (auto simp: clear_agent_sync_running_def delete_shape server_keys_def)
  show ?thesis by (rule touches_trans [OF touches_trans [OF mark body] clear])
qed

lemma touches_sync_server: "sync_server_with_limits E limits target srv s = (r, s') \<Longrightarrow> touches (server_keys (sv_id srv)) s s'"
  unfolding sync_server_with_limits_def
  by (erule touches_under_lock [rotated 3]) (auto simp: sync_fail_def intro: touches_marked touches_refl)

lemma touches_live: "touches K s s' \<Longrightarrow> k \<notin> K \<Longrightarrow> live (ap_redis s') k = live (ap_redis s) k"
  by (auto simp: touches_def live_def split: option.splits)

lemma cleared_live: "k \<noteq> agent_sync_runtime_key sid \<Longrightarrow> live (clear_agent_sync_running sid r) k = live r k"
  by (auto simp: clear_agent_sync_running_def rt_delete_def redis_del_def live_def split: option.splits)

text \<open>C13. The synchronisation of a server runs under its lock: while another holder has the lock, the attempt
  ends at once with \<open>errAgentSyncRunning\<close> and changes nothing, not even the world of the agents;
  otherwise, however the synchronisation ends, afterwards the lock is free again and the server no
  longer counts as being synchronised.\<close>

theorem agent_sync_lock:
  assumes "sync_server_with_limits E limits target srv s = (r, s')"
    and "se_token E (agent_sync_lock_key (sv_id srv)) = Some tok" "tok \<noteq> []"
    and "\<not> rd_fault (ap_redis s) ''SETNX'' (agent_sync_lock_key (sv_id srv))"
    and "\<not> rd_fault (ap_redis s) ''EVAL'' (agent_sync_lock_key (sv_id srv))"
    and "\<not> rd_fault (ap_redis s) ''DEL'' (agent_sync_runtime_key (sv_id srv))"
  shows "if live (ap_redis s) (agent_sync_lock_key (sv_id srv)) \<noteq> None then r = Inl AgentSyncRunning \<and> s' = s
    else live (ap_redis s') (agent_sync_lock_key (sv_id srv)) = None \<and>
      \<not> is_agent_sync_running json_ok (sv_id srv) (ap_redis s')"
proof -
  let ?k = "agent_sync_lock_key (sv_id srv)" and ?ttl = "agent_sync_execution_ttl limits"
  show ?thesis
  proof (cases "live (ap_redis s) ?k")
    case (Some v)
    then show ?thesis
      using assms(1,2,4) by (simp add: sync_server_with_limits_def under_lock_def app_try_lock_def try_lock_def sync_fail_def Let_def)
  next
    case None
    let ?ttl1 = "if ?ttl \<le> 0 then minutes 1 else ?ttl"
    let ?l = "\<lparr>lk_key = ?k, lk_token = tok\<rparr>" and ?s1 = "s\<lparr>ap_redis := redis_set ?k tok ?ttl1 (ap_redis s)\<rparr>"
    let ?s2 = "?s1\<lparr>ap_redis := mark_agent_sync_running (running_payload E srv) srv ?ttl (ap_redis ?s1)\<rparr>"
    obtain s3 where body: "sync_server_locked E limits target srv ?s2 = (r, s3)"
        and s': "s' = app_unlock ?l (s3\<lparr>ap_redis := clear_agent_sync_running (sv_id srv) (ap_redis s3)\<rparr>)"
      using assms(1,2,4) None by (auto simp: sync_server_with_limits_def under_lock_def app_try_lock_def try_lock_def
          sync_server_marked_def Let_def split: prod.splits)
    note b = touches_locked [OF body]
    have faults: "rd_fault (ap_redis s3) = rd_fault (ap_redis s)" "rd_now (ap_redis s3) = rd_now (ap_redis s)"
      using b by (simp_all add: touches_def mark_agent_sync_running_def set_shape redis_set_def)
    have "rd_keys (ap_redis s3) ?k = rd_keys (ap_redis ?s2) ?k"
      using b lock_key_apart(1) by (simp add: touches_def)
    also have "\<dots> = Some (tok, Some (rd_now (ap_redis s) + ?ttl1))"
      using lock_key_apart(3) by (simp add: mark_agent_sync_running_def rt_set_def redis_set_def expiry_def minutes_def seconds_def nanos_per_second_def)
    finally have held: "live (ap_redis s3) ?k = Some tok"
      using faults by (simp add: live_def minutes_def seconds_def nanos_per_second_def)
    let ?r4 = "clear_agent_sync_running (sv_id srv) (ap_redis s3)"
    have r4: "live ?r4 ?k = Some tok" "rd_fault ?r4 = rd_fault (ap_redis s)"
      using held faults cleared_live [OF lock_key_apart(3)] by (simp_all add: clear_agent_sync_running_def delete_shape)
    have k: "?k \<noteq> []" by (simp add: agent_sync_lock_key_def)
    have r': "ap_redis s' = redis_del ?k ?r4"
      using s' r4 k assms(3,5) by (simp add: app_unlock_def unlock_def)
    have "\<not> is_agent_sync_running json_ok (sv_id srv) (ap_redis s')"
    proof (cases "trim_space (sv_id srv) = []")
      case False
      have "live (ap_redis s') (agent_sync_runtime_key (sv_id srv)) = None"
        unfolding r' using False assms(6) faults lock_key_apart(3)
        by (simp add: clear_agent_sync_running_def rt_delete_def redis_del_def live_def)
      then show ?thesis by (simp add: is_agent_sync_running_def rt_get_json_def rt_get_def)
    qed (simp add: is_agent_sync_running_def)
    moreover have "live (ap_redis s') ?k = None" unfolding r' by (simp add: redis_del_def live_def)
    ultimately show ?thesis using None by simp
  qed
qed

subsection \<open>A refresh task comes to an end\<close>

definition refresh_keys :: "string set" where
  "refresh_keys = {k. has_prefix k ''zonelease:runtime:'' \<or> has_prefix k ''zonelease:lock:'' \<or> k = last_key}"

lemma refresh_keys_in [simp]: "last_key \<in> refresh_keys" "unread_key \<in> refresh_keys"
    "agent_health_runtime_key sid \<in> refresh_keys" "agent_sync_runtime_key sid \<in> refresh_keys"
    "agent_sync_lock_key sid \<in> refresh_keys" "refresh_task_runtime_key task \<in> refresh_keys"
  by (simp_all add: refresh_keys_def unread_key_def agent_health_runtime_key_def agent_sync_runtime_key_def
      agent_sync_lock_key_def refresh_task_runtime_key_def has_prefix_def)

lemma touches_sync_target: "sync_server_target E target srv s = (r, s') \<Longrightarrow> touches refresh_keys s s'"
  unfolding sync_server_target_def by (drule touches_sync_server) (auto elim!: touches_mono simp: server_keys_def)

lemma touches_progress: "touches refresh_keys s (publish_progress E task ty cur ev w p s)"
  by (auto simp: publish_progress_def Let_def intro!: touches_intros touches_trans [OF touches_record_task touches_publish(1)])

lemma touches_one_agent: "sync_one_agent E task ty srv (p, s) = (p', s') \<Longrightarrow> touches refresh_keys s s'"
  by (auto simp: sync_one_agent_def sync_server_def Let_def split: prod.splits dest!: touches_sync_target
      intro: touches_trans [OF touches_trans [OF touches_progress] touches_progress])

lemma touches_agents: "fold (sync_one_agent E task ty) srvs (p, s) = (p', s') \<Longrightarrow> touches refresh_keys s s'"
proof (induction srvs arbitrary: p s)
  case Nil
  then show ?case by (simp add: touches_refl)
next
  case (Cons srv srvs)
  obtain p1 s1 where "sync_one_agent E task ty srv (p, s) = (p1, s1)" by (rule prod.exhaust)
  then show ?case using Cons touches_one_agent touches_trans by fastforce
qed

lemma touches_sync_all: "sync_all E task ty s = (q, s') \<Longrightarrow> touches refresh_keys s s'"
  by (auto simp: sync_all_def Let_def touches_refl split: sum.splits prod.splits dest!: touches_agents
      intro: touches_trans [OF touches_progress])

lemma frame_zone_target: "frame (sync_dns_zone E sid zname)" "frame (sync_dhcp_scope E sid ext)"
  unfolding sync_dns_zone_def sync_dhcp_scope_def by (intro frame_intros)+

lemma touches_work: "task_work E task ty t s = (err, pr, t', s') \<Longrightarrow> touches refresh_keys s s'"
  by (auto simp: task_work_def Let_def touches_refl split: if_splits refresh_target.splits sum.splits prod.splits option.splits
      dest: touches_sync_target touches_sync_all frame_touches [OF frame_zone_target(1)] frame_touches [OF frame_zone_target(2)])

lemma tasks_after_record:
  assumes "\<not> db_fault (ap_db s) ''UpdateTask'' task"
  shows "\<forall>x \<in> set (db_tasks (ap_db (record_task E task status payload s))). t_id x = task \<longrightarrow> t_status x = status"
  using assms by (auto simp: record_task_def app_store_def update_refresh_task_def drop_err_def update_rows_def list_ex_iff Let_def)

lemma tasks_of_publish [simp]: "ap_db (publish_with_payload E ty task st m pl s) = ap_db s" "ap_db (publish E ty task st m s) = ap_db s"
    "ap_db (app_unlock l s) = ap_db s"
  by (simp_all add: publish_with_payload_def publish_def app_unlock_def)

lemma finished_tasks:
  assumes "\<not> db_fault (ap_db s) ''UpdateTask'' task"
  shows "\<forall>x \<in> set (db_tasks (ap_db (finish_task E task ty (err, pr, t, s)))). t_id x = task \<longrightarrow>
     t_status x = (if err = None then ''completed'' else ''failed'')"
  using tasks_after_record [OF assms]
  by (auto simp: finish_task_def Let_def split: option.split)

text \<open>C14. A refresh task that has been run is settled: whatever the agents and the statements of the
  synchronisation answered, no task row under its identifier is queued or running any more; it is
  completed or failed, or, when its lock was held, gone.\<close>

theorem refresh_task_settles:
  assumes "\<not> db_fault (ap_db s) ''UpdateTask'' task" "\<not> db_fault (ap_db s) ''DeleteTask'' task"
    and "x \<in> set (db_tasks (ap_db (run_refresh_task E task ty t s)))" "t_id x = task"
  shows "t_status x \<in> {''completed'', ''failed''}"
proof -
  have ran: "t_status x \<in> {''completed'', ''failed''}"
    if "db_fault (ap_db s1) = db_fault (ap_db s)" "x \<in> set (db_tasks (ap_db (run_task E task ty t s1)))" for s1
  proof -
    let ?s2 = "publish E ty task ''running'' ''refresh_running''
        (record_task E task ''running'' (se_json E (refresh_task_payload ty t ''refresh_running'' [])) s1)"
    obtain err pr t' s3 where w: "task_work E task ty t ?s2 = (err, pr, t', s3)" by (metis prod_cases4)
    have "touches refresh_keys s1 ?s2"
      by (rule touches_trans [OF touches_record_task touches_publish(2)]) simp_all
    from touches_trans [OF this touches_work [OF w]] have "\<not> db_fault (ap_db s3) ''UpdateTask'' task"
      using assms(1) that(1) by (simp add: touches_def)
    from finished_tasks [OF this] show ?thesis using that(2) assms(4) w by (auto simp: run_task_def split: if_splits)
  qed
  show ?thesis
  proof (cases "refresh_task_lock_key ty t = []")
    case True
    then show ?thesis using ran [of s] assms(3) by (simp add: run_refresh_task_def)
  next
    case False
    let ?k = "refresh_task_lock_key ty t"
    obtain q s1 where l: "app_try_lock E ?k (refresh_task_lock_ttl (ap_db s)) s = (q, s1)" by (rule prod.exhaust)
    then have db: "ap_db s1 = ap_db s" by (auto simp: app_try_lock_def split: prod.splits)
    show ?thesis
    proof (cases q)
      case TryBusy
      then have "x \<in> set (db_tasks (drop_err (ap_db s) (delete_refresh_task task (ap_db s))))"
        using assms(3) l db False by (simp add: run_refresh_task_def under_lock_def skip_duplicate_task_def app_store_def Let_def)
      then show ?thesis using assms(2,4)
        by (auto simp: delete_refresh_task_def drop_err_def delete_rows_def list_ex_iff split: if_splits)
    qed (use ran [of s1] assms(3) l db False in \<open>simp_all add: run_refresh_task_def under_lock_def Let_def\<close>)
  qed
qed

subsection \<open>A refresh of all servers\<close>

definition progress_ok :: "refresh_progress \<Rightarrow> bool" where
  "progress_ok p \<longleftrightarrow> pg_started p = pg_synced p + pg_skipped p + pg_failed p \<and> length (pg_results p) = pg_started p \<and>
     length (pg_errors p) = pg_failed p"

lemma outcome_progress:
  assumes "agent_outcome E srv r (p\<lparr>pg_started := pg_started p + 1\<rparr>) = (res, p')" "progress_ok p"
  shows "progress_ok p' \<and> pg_started p' = Suc (pg_started p) \<and> pg_total p' = pg_total p \<and>
    map ar_id (pg_results p') = map ar_id (pg_results p) @ [sv_id srv]"
  using assms by (auto simp: agent_outcome_def progress_ok_def Let_def split: sum.splits sync_error.splits)

lemma one_agent_progress:
  assumes "sync_one_agent E task ty srv (p, s) = (p', s')" "progress_ok p"
  shows "progress_ok p' \<and> pg_started p' = Suc (pg_started p) \<and> pg_total p' = pg_total p \<and>
    map ar_id (pg_results p') = map ar_id (pg_results p) @ [sv_id srv]"
proof -
  obtain r res where "agent_outcome E srv r (p\<lparr>pg_started := pg_started p + 1\<rparr>) = (res, p')"
    using assms(1) by (auto simp: sync_one_agent_def Let_def split: prod.splits)
  from outcome_progress [OF this assms(2)] show ?thesis .
qed

lemma agents_progress:
  "fold (sync_one_agent E task ty) srvs (p, s) = (p', s') \<Longrightarrow> progress_ok p \<Longrightarrow>
     progress_ok p' \<and> pg_started p' = pg_started p + length srvs \<and> pg_total p' = pg_total p \<and>
     map ar_id (pg_results p') = map ar_id (pg_results p) @ map sv_id srvs"
proof (induction srvs arbitrary: p s)
  case (Cons srv srvs)
  obtain p1 s1 where o: "sync_one_agent E task ty srv (p, s) = (p1, s1)" by (rule prod.exhaust)
  note st = one_agent_progress [OF o Cons.prems(2)]
  have "fold (sync_one_agent E task ty) srvs (p1, s1) = (p', s')" using Cons.prems(1) o by simp
  from Cons.IH [OF this] st show ?case by simp
qed simp

text \<open>A refresh of all servers reports on each of its targets exactly once, in whatever order they are
  taken: the started agents are all of them, each is counted as synchronised, skipped or failed, and
  the refresh succeeds exactly if none failed.\<close>

theorem sync_all_reports_every_agent:
  assumes "sync_all E task ty s = ((Some p, ok), s')" "fair_order (se_perm E)"
  shows "\<exists>srvs. list_servers (ap_db s) = Inr srvs \<and> pg_total p = length (sync_targets ty srvs) \<and> pg_started p = pg_total p \<and>
     pg_synced p + pg_skipped p + pg_failed p = pg_total p \<and>
     mset (map ar_id (pg_results p)) = mset (map sv_id (sync_targets ty srvs)) \<and> (ok \<longleftrightarrow> pg_failed p = 0)"
proof -
  obtain srvs where l: "list_servers (ap_db s) = Inr srvs"
    using assms(1) by (auto simp: sync_all_def split: sum.splits)
  let ?ts = "sync_targets ty srvs"
  let ?p0 = "no_progress (length ?ts)"
  obtain q s1 where f: "fold (sync_one_agent E task ty) (reorder (se_perm E) ?ts) (?p0, publish_progress E task ty [] None False ?p0 s) = (q, s1)"
    by (rule prod.exhaust)
  have p: "p = q\<lparr>pg_message := refresh_progress_message q\<rparr>" "ok = (pg_errors q = [])"
    using assms(1) l f by (simp_all add: sync_all_def Let_def)
  have "progress_ok ?p0" by (simp add: progress_ok_def no_progress_def)
  note q = agents_progress [OF f this]
  have "mset (map ar_id (pg_results q)) = image_mset sv_id (mset (reorder (se_perm E) ?ts))"
    using q by (simp add: no_progress_def)
  also have "\<dots> = mset (map sv_id ?ts)" by (simp add: reorder_mset [OF assms(2)])
  finally have m: "mset (map ar_id (pg_results q)) = mset (map sv_id ?ts)" .
  show ?thesis
    using l p q m reorder_facts(2) [OF assms(2), of ?ts] by (auto simp: progress_ok_def no_progress_def)
qed

subsection \<open>The schedule\<close>

lemma dvd_next_multiple: "(m :: int) dvd (e + (m - e mod m))"
proof -
  have "e + (m - e mod m) = (e - e mod m) + m" by simp
  then show ?thesis by (metis dvd_add dvd_minus_mod dvd_refl)
qed

text \<open>The next run of a schedule lies after now and at most one interval away, and for intervals of at least
  a second it falls on a multiple of the interval: counted from local midnight when the interval
  divides a day or is a number of days, from the epoch otherwise.\<close>

theorem next_refresh_on_grid:
  assumes "0 < interval"
  shows "let delay = next_scheduled_role_refresh_delay midnight now interval; secs = interval div nanos_per_second;
          base = (if secs mod 86400 = 0 \<or> 86400 mod secs = 0 then midnight else 0)
     in 0 < delay \<and> delay \<le> interval \<and>
        (0 < secs \<longrightarrow> secs dvd ((now - base) div nanos_per_second + delay div nanos_per_second))"
proof (cases "interval div nanos_per_second \<le> 0")
  case True
  then show ?thesis using assms by (simp add: next_scheduled_role_refresh_delay_def)
next
  case False
  define secs where "secs = interval div nanos_per_second"
  define base where "base = (if secs mod 86400 = 0 \<or> 86400 mod secs = 0 then midnight else 0)"
  define e where "e = (now - base) div nanos_per_second"
  have pos: "0 < secs" using False by (simp add: secs_def)
  then have m: "0 \<le> e mod secs" "e mod secs < secs" by simp_all
  have elapsed: "(if secs mod 86400 = 0 then (now - midnight) div nanos_per_second
      else if 86400 mod secs = 0 then (now - midnight) div nanos_per_second else unix_seconds now) = e"
    by (simp only: e_def base_def unix_seconds_def split: if_split) simp
  have d: "next_scheduled_role_refresh_delay midnight now interval = (secs - e mod secs) * nanos_per_second"
    unfolding next_scheduled_role_refresh_delay_def Let_def secs_def [symmetric] elapsed seconds_def
    using assms pos m by (simp only: if_False if_True not_le split: if_split) linarith
  have "(secs - e mod secs) * nanos_per_second \<le> secs * nanos_per_second"
    using m(1) by (intro mult_right_mono) (simp_all add: nanos_per_second_def)
  also have "\<dots> \<le> interval"
    unfolding secs_def using div_mult_mod_eq [of interval nanos_per_second] by (simp add: nanos_per_second_def)
  finally have le: "(secs - e mod secs) * nanos_per_second \<le> interval" .
  have gt: "0 < (secs - e mod secs) * nanos_per_second" using m(2) by (simp add: nanos_per_second_def)
  have "(secs - e mod secs) * nanos_per_second div nanos_per_second = secs - e mod secs"
    by (simp add: nanos_per_second_def)
  then have "secs dvd (e + (secs - e mod secs) * nanos_per_second div nanos_per_second)"
    by (simp only: dvd_next_multiple)
  then show ?thesis
    unfolding Let_def secs_def [symmetric] base_def [symmetric] e_def [symmetric] d using le gt by blast
qed

subsection \<open>The health of a server\<close>

text \<open>Successive checks and what the agent answered to each.\<close>

fun health_checks ::
    "'w sync_env \<Rightarrow> runtime_limits \<Rightarrow> server \<Rightarrow> nat \<Rightarrow> 'w app \<Rightarrow> bool list \<times> 'w app" where
  "health_checks E limits srv 0 s = ([], s)"
| "health_checks E limits srv (Suc n) s =
     (case health_checks E limits srv n s of (hs, s1) \<Rightarrow>
        (hs @ [case fst (app_call (agent_health (se_net E) srv) s1) of Inl e \<Rightarrow> False | Inr _ \<Rightarrow> True],
         check_server_health E limits srv s1))"

definition failures_in_a_row :: "bool list \<Rightarrow> nat" where
  "failures_in_a_row hs = length (takeWhile Not (rev hs))"

definition server_row :: "db \<Rightarrow> string \<Rightarrow> server option" where
  "server_row d sid = find_row (\<lambda>x. sv_id x = sid) (db_servers d)"

definition unread_offline :: "db \<Rightarrow> string \<Rightarrow> nat" where
  "unread_offline d sid = count_rows (\<lambda>n. from_source ''agent_health'' sid n \<and> is_unread n) (db_notifications d)"

text \<open>The statements the checks of a server rely on work.\<close>

definition health_store_works :: "db \<Rightarrow> string \<Rightarrow> bool" where
  "health_store_works d sid \<longleftrightarrow> \<not> db_fault d ''UpdateHealth'' sid \<and> \<not> db_fault d ''DismissSource'' sid \<and>
     \<not> db_fault d ''FindUnread'' sid \<and> \<not> db_fault d ''CreateNotification'' sid"

definition health_inv :: "int \<Rightarrow> string \<Rightarrow> int \<Rightarrow> db \<Rightarrow> bool" where
  "health_inv limit sid k d \<longleftrightarrow> health_store_works d sid \<and>
     (\<exists>row. server_row d sid = Some row \<and> sv_failure_count row = k \<and>
        sv_status row = (if limit \<le> k then ''Offline'' else ''Online'')) \<and>
     unread_offline d sid = (if limit \<le> k then 1 else 0)"

lemma health_cache_db [simp]: "ap_db (cache_agent_health E srv st detail n s) = ap_db s"
  by (simp add: cache_agent_health_def)

lemma unread_after_clear:
  assumes "\<not> db_fault (ap_db s) ''DismissSource'' sid"
  shows "unread_offline (ap_db (clear_source now ''agent_health'' sid s)) sid = 0"
    "db_servers (ap_db (clear_source now ''agent_health'' sid s)) = db_servers (ap_db s)"
    "db_fault (ap_db (clear_source now ''agent_health'' sid s)) = db_fault (ap_db s)"
  using assms by (auto simp: clear_source_def dismiss_notifications_by_source_def unread_offline_def set_update_rows is_unread_def
      dismissed_now_def split: if_splits)

lemma unread_after_notify:
  assumes "\<not> db_fault (ap_db s) ''FindUnread'' (sv_id srv)" "\<not> db_fault (ap_db s) ''CreateNotification'' (sv_id srv)"
    and "trim_space (sv_id srv) \<noteq> []" "unread_offline (ap_db s) (sv_id srv) = 0"
  shows "unread_offline (ap_db (service_notify_agent_offline E srv detail s)) (sv_id srv) = 1"
    "db_servers (ap_db (service_notify_agent_offline E srv detail s)) = db_servers (ap_db s)"
    "db_fault (ap_db (service_notify_agent_offline E srv detail s)) = db_fault (ap_db s)"
proof -
  have none: "find_row (\<lambda>n. from_source ''agent_health'' (sv_id srv) n \<and> is_unread n) (db_notifications (ap_db s)) = None"
    using assms(4) by (simp add: unread_offline_def find_row_None)
  show "unread_offline (ap_db (service_notify_agent_offline E srv detail s)) (sv_id srv) = 1"
    using assms none by (auto simp: service_notify_agent_offline_def notify_unread_def create_notification_if_unread_missing_def
        create_notification_def agent_offline_notice_def unread_offline_def count_rows_def from_source_def is_unread_def Let_def
        filter_empty_conv)
  show "db_servers (ap_db (service_notify_agent_offline E srv detail s)) = db_servers (ap_db s)"
    "db_fault (ap_db (service_notify_agent_offline E srv detail s)) = db_fault (ap_db s)"
    using assms none by (auto simp: service_notify_agent_offline_def notify_unread_def create_notification_if_unread_missing_def
        create_notification_def agent_offline_notice_def Let_def)
qed

definition next_failures :: "bool \<Rightarrow> int \<Rightarrow> int" where
  "next_failures ok k = (if ok then 0 else k + 1)"

definition health_word :: "int \<Rightarrow> int \<Rightarrow> string" where
  "health_word limit k = (if limit \<le> k then ''Offline'' else ''Online'')"

lemma health_updated:
  assumes "server_row d sid = Some row" "sv_failure_count row = k" "sv_status row = health_word limit k" "0 < limit" "0 \<le> k"
    and "\<not> db_fault d ''UpdateHealth'' sid" "k1 = next_failures ok k"
  obtains d' row' where "update_server_health d sid (if ok then ''Online'' else ''Offline'') limit now =
      Inr (\<lparr>hu_previous = health_word limit k, hu_status = health_word limit k1, hu_failures = k1\<rparr>, d')"
    "db_fault d' = db_fault d" "db_notifications d' = db_notifications d"
    "server_row d' sid = Some row'" "sv_failure_count row' = k1" "sv_status row' = health_word limit k1"
proof -
  let ?st = "if ok then ''Online'' else ''Offline''" and ?row = "health_row (if ok then ''Online'' else ''Offline'') limit now row"
  let ?d = "d\<lparr>db_servers := update_rows (\<lambda>x. sv_id x = sid) (health_row ?st limit now) (db_servers d)\<rparr>"
  have keep: "sv_id (health_row st l t x) = sv_id x" for st l t x by (simp add: health_row_def)
  have row: "sv_failure_count ?row = k1" "sv_status ?row = health_word limit k1"
    using assms by (auto simp: health_row_def next_failures_def health_word_def)
  have found: "server_row ?d sid = Some ?row"
    using assms(1) by (simp add: server_row_def find_row_update_hit keep)
  have "update_server_health d sid ?st limit now =
      Inr (\<lparr>hu_previous = health_word limit k, hu_status = health_word limit k1, hu_failures = k1\<rparr>, ?d)"
    using assms(1,3,4,6) row by (simp add: update_server_health_def server_row_def Let_def)
  with found row show ?thesis by (intro that [of ?d ?row]) simp_all
qed

lemma record_health_inv:
  assumes "health_inv limit (sv_id srv) k (ap_db s)" "rl_agent_offline_failure_count limits = limit" "0 < limit" "0 \<le> k"
    and "trim_space (sv_id srv) \<noteq> []" "ok = (case h of Inl e \<Rightarrow> False | Inr _ \<Rightarrow> True)"
  shows "health_inv limit (sv_id srv) (next_failures ok k) (ap_db (record_health E limits srv h s))"
proof -
  let ?id = "sv_id srv" and ?k = "next_failures ok k"
  have works: "health_store_works (ap_db s) ?id" and count: "unread_offline (ap_db s) ?id = (if limit \<le> k then 1 else 0)"
    using assms(1) by (simp_all add: health_inv_def)
  obtain row where row: "server_row (ap_db s) ?id = Some row" "sv_failure_count row = k" "sv_status row = health_word limit k"
    using assms(1) by (auto simp: health_inv_def health_word_def)
  have noUpdate: "\<not> db_fault (ap_db s) ''UpdateHealth'' ?id" using works by (simp add: health_store_works_def)
  obtain d' row' where u: "update_server_health (ap_db s) ?id (if ok then ''Online'' else ''Offline'') limit (se_now E) =
      Inr (\<lparr>hu_previous = health_word limit k, hu_status = health_word limit ?k, hu_failures = ?k\<rparr>, d')"
    "db_fault d' = db_fault (ap_db s)" "db_notifications d' = db_notifications (ap_db s)"
    "server_row d' ?id = Some row'" "sv_failure_count row' = ?k" "sv_status row' = health_word limit ?k"
    by (rule health_updated [OF row assms(3,4) noUpdate refl])
  have status: "(case h of Inl e \<Rightarrow> ''Offline'' | Inr _ \<Rightarrow> ''Online'') = (if ok then ''Online'' else ''Offline'')"
    using assms(6) by (cases h) simp_all
  define detail where "detail = (case h of Inl e \<Rightarrow> se_text E (AgentErr e) | Inr _ \<Rightarrow> [])"
  define s1 where "s1 = cache_agent_health E srv (if ok then ''Online'' else ''Offline'') detail ?k (s\<lparr>ap_db := d'\<rparr>)"
  have s1: "ap_db s1 = d'" by (simp add: s1_def)
  have w1: "health_store_works d' ?id" using works u(2) by (simp add: health_store_works_def)
  have count1: "unread_offline d' ?id = (if limit \<le> k then 1 else 0)" using count u(3) by (simp add: unread_offline_def)
  have run: "record_health E limits srv h s =
      (if health_word limit ?k = ''Online'' then clear_source (se_now E) ''agent_health'' ?id s1
       else if health_word limit k \<noteq> ''Offline'' then service_notify_agent_offline E srv detail s1 else s1)"
    unfolding record_health_def Let_def status assms(2) detail_def [symmetric] u(1) sum.case prod.case
    by (simp add: became_offline_def s1_def health_word_def)
  have inv: "health_inv limit ?id ?k (ap_db t)"
    if "db_servers (ap_db t) = db_servers d'" "db_fault (ap_db t) = db_fault d'"
      "unread_offline (ap_db t) ?id = (if limit \<le> ?k then 1 else 0)" for t :: "'a app"
    using that u(4-6) w1 by (auto simp: health_inv_def health_store_works_def server_row_def health_word_def)
  show ?thesis
  proof (cases "limit \<le> ?k")
    case False
    have "\<not> db_fault (ap_db s1) ''DismissSource'' ?id" using w1 s1 by (simp add: health_store_works_def)
    from unread_after_clear [OF this] show ?thesis
      using False s1 by (simp add: run health_word_def) (intro inv; simp)
  next
    case True
    show ?thesis
    proof (cases "limit \<le> k")
      case False
      have "unread_offline (ap_db s1) ?id = 0" "\<not> db_fault (ap_db s1) ''FindUnread'' ?id" "\<not> db_fault (ap_db s1) ''CreateNotification'' ?id"
        using count1 False w1 s1 by (simp_all add: health_store_works_def)
      from unread_after_notify [OF this(2,3) assms(5) this(1)] show ?thesis
        using True False s1 by (simp add: run health_word_def) (intro inv; simp)
    next
      case old: True
      have "health_inv limit ?id ?k (ap_db s1)" by (rule inv) (simp_all add: s1 count1 old True)
      then show ?thesis using True old by (simp add: run health_word_def)
    qed
  qed
qed

text \<open>C12. Health checks put a server offline exactly after the configured number of failures in a row: after any
  sequence of checks of a server that was online, its failure count is the number of failed checks
  since the last answer, it is offline if and only if that number has reached the limit, and there is
  one unread notification about it while it is offline and none while it is online.\<close>

theorem offline_after_failures_in_a_row:
  assumes "health_inv limit (sv_id srv) 0 (ap_db s)" "rl_agent_offline_failure_count limits = limit" "0 < limit"
    and "trim_space (sv_id srv) \<noteq> []" "health_checks E limits srv n s = (hs, s')"
  shows "\<exists>row. server_row (ap_db s') (sv_id srv) = Some row \<and> sv_failure_count row = int (failures_in_a_row hs) \<and>
     (sv_status row = ''Offline'' \<longleftrightarrow> limit \<le> int (failures_in_a_row hs)) \<and>
     unread_offline (ap_db s') (sv_id srv) = (if sv_status row = ''Offline'' then 1 else 0)"
proof -
  have "health_inv limit (sv_id srv) (int (failures_in_a_row hs)) (ap_db s')"
    using assms(5)
  proof (induction n arbitrary: hs s')
    case 0
    then show ?case using assms(1) by (simp add: failures_in_a_row_def)
  next
    case (Suc n)
    obtain gs s1 where g: "health_checks E limits srv n s = (gs, s1)" by (rule prod.exhaust)
    obtain h s2 where c: "app_call (agent_health (se_net E) srv) s1 = (h, s2)" by (rule prod.exhaust)
    let ?ok = "case h of Inl e \<Rightarrow> False | Inr _ \<Rightarrow> True"
    have hs: "hs = gs @ [?ok]" "s' = record_health E limits srv h s2"
      using Suc.prems g c by (simp_all add: check_server_health_def)
    have "ap_db s2 = ap_db s1" using c by (auto simp: app_call_def split: prod.splits)
    then have "health_inv limit (sv_id srv) (int (failures_in_a_row gs)) (ap_db s2)" using Suc.IH [OF g] by simp
    from record_health_inv [OF this assms(2,3) _ assms(4) refl] have "health_inv limit (sv_id srv)
        (next_failures ?ok (int (failures_in_a_row gs))) (ap_db s')" unfolding hs(2) by simp
    moreover have "int (failures_in_a_row hs) = next_failures ?ok (int (failures_in_a_row gs))"
      unfolding hs(1) by (simp add: failures_in_a_row_def next_failures_def)
    ultimately show ?case by simp
  qed
  then obtain row where "server_row (ap_db s') (sv_id srv) = Some row" "sv_failure_count row = int (failures_in_a_row hs)"
      "sv_status row = (if limit \<le> int (failures_in_a_row hs) then ''Offline'' else ''Online'')"
      "unread_offline (ap_db s') (sv_id srv) = (if limit \<le> int (failures_in_a_row hs) then 1 else 0)"
    unfolding health_inv_def by blast
  then show ?thesis by (intro exI [of _ row]) simp
qed

subsection \<open>Concrete runs\<close>

theorem agent_sync_lock_witness:
  "live (ap_redis (snd (sync_server_with_limits (sample_env (answering NoData)) (limits_of default_base_config) None sample_server sync_app)))
     (agent_sync_lock_key ''s'') = None"
proof -
  let ?E = "sample_env (answering NoData)"
  obtain r s' where r: "sync_server_with_limits ?E (limits_of default_base_config) None sample_server sync_app = (r, s')"
    by (rule prod.exhaust)
  have e: "se_token ?E k = Some ''token''" "\<not> rd_fault (ap_redis sync_app) c k" "live (ap_redis sync_app) k = None" for c k
    by (simp_all add: sample_env_def sync_app_def empty_redis_def live_def)
  have "sv_id sample_server = ''s''" by (simp add: sample_server_def)
  then show ?thesis using agent_sync_lock [OF r e(1) _ e(2) e(2) e(2)] e(3) r by simp
qed

definition queued_task :: refresh_task where
  "queued_task = \<lparr>t_id = ''t'', t_type = ''runtime.refresh.dns.zone'', t_status = ''queued'', t_payload = ''{}'', t_created_by = [],
     t_created_at = 0, t_updated_at = 0, t_finished_at = None\<rparr>"

definition task_app :: "nat app" where
  "task_app = sync_app\<lparr>ap_db := (ap_db sync_app)\<lparr>db_tasks := [queued_task]\<rparr>\<rparr>"

theorem refresh_task_settles_witness:
  "let s' = run_refresh_task (sample_env (answering NoData)) ''t'' ''runtime.refresh.dns.zone'' NoTarget task_app in
     length (db_tasks (ap_db s')) = 1 \<and> t_status (hd (db_tasks (ap_db s'))) \<in> {''completed'', ''failed''}"
proof -
  let ?E = "sample_env (answering NoData)" and ?ty = "''runtime.refresh.dns.zone''"
  let ?s' = "run_refresh_task ?E ''t'' ?ty NoTarget task_app"
  have works: "\<not> db_fault (ap_db task_app) op k" for op k by (simp add: task_app_def sync_app_def sample_db_def empty_db_def)
  have ids: "map t_id (db_tasks (ap_db (record_task ?E ''t'' st pl s))) = map t_id (db_tasks (ap_db s))" for st pl s
    by (auto simp: record_task_def app_store_def update_refresh_task_def drop_err_def Let_def map_update_rows)
  have "map t_id (db_tasks (ap_db ?s')) = [''t'']"
    by (simp add: run_refresh_task_def refresh_task_lock_key_def run_task_def task_work_def finish_task_def ids Let_def)
      (simp add: task_app_def queued_task_def)
  then obtain x where x: "db_tasks (ap_db ?s') = [x]" "t_id x = ''t''" by auto
  then have "x \<in> set (db_tasks (ap_db ?s'))" by simp
  from refresh_task_settles [OF works works this x(2)] x(1) show ?thesis by (simp add: Let_def)
qed

lemma fair_sample: "fair_order (se_perm (sample_env net))"
  by (simp add: sample_env_def fair_order_def)

theorem sync_all_reports_every_agent_witness:
  "\<exists>p ok s'. sync_all (sample_env (answering NoData)) ''t'' ''runtime.refresh.all'' sync_app = ((Some p, ok), s') \<and>
     pg_total p = 1 \<and> pg_synced p + pg_skipped p + pg_failed p = 1"
proof -
  let ?E = "sample_env (answering NoData)" and ?ty = "''runtime.refresh.all''"
  have l: "list_servers (ap_db sync_app) = Inr [sample_server]"
    by (simp add: list_servers_def sync_app_def sample_db_def empty_db_def)
  have url: "trim_space ''https://dc1'' = ''https://dc1''" by (rule trim_space_graph) (simp add: graph_ends_def char_code_def)
  have ts: "sync_targets ?ty [sample_server] = [sample_server]"
    by (simp add: sync_targets_def should_sync_server_for_task_def sample_server_def url)
  obtain p ok s' where r: "sync_all ?E ''t'' ?ty sync_app = ((Some p, ok), s')"
    using l by (fastforce simp: sync_all_def Let_def split: prod.splits)
  from sync_all_reports_every_agent [OF r fair_sample] have "pg_total p = 1" "pg_synced p + pg_skipped p + pg_failed p = pg_total p"
    using l ts by auto
  then show ?thesis using r by auto
qed

theorem next_refresh_on_grid_witness:
  "0 < next_scheduled_role_refresh_delay 0 (seconds 3600) (seconds 21600) \<and>
   21600 dvd (seconds 3600 div nanos_per_second + next_scheduled_role_refresh_delay 0 (seconds 3600) (seconds 21600) div nanos_per_second)"
proof -
  have i: "0 < seconds 21600" "seconds 21600 div nanos_per_second = 21600" by (simp_all add: seconds_def nanos_per_second_def)
  show ?thesis using next_refresh_on_grid [OF i(1), of 0 "seconds 3600"] unfolding i(2) Let_def by simp
qed

theorem offline_after_failures_in_a_row_witness:
  "\<exists>s'. health_checks (sample_env (refusing 500)) (limits_of (default_base_config\<lparr>bc_offline_failure_count := 2\<rparr>)) sample_server 2 sync_app
       = ([False, False], s') \<and> map_option sv_status (server_row (ap_db s') ''s'') = Some ''Offline'' \<and> unread_offline (ap_db s') ''s'' = 1"
proof -
  let ?E = "sample_env (refusing 500)" and ?l = "limits_of (default_base_config\<lparr>bc_offline_failure_count := 2\<rparr>)"
  have sid: "sv_id sample_server = ''s''" "trim_space (sv_id sample_server) \<noteq> []"
    using trim_space_graph [of "''s''"] by (simp_all add: sample_server_def graph_ends_def char_code_def)
  have inv: "health_inv 2 (sv_id sample_server) 0 (ap_db sync_app)"
    by (simp add: health_inv_def health_store_works_def server_row_def unread_offline_def sync_app_def sample_db_def empty_db_def
        sample_server_def)
  have lim: "rl_agent_offline_failure_count ?l = 2" by (simp add: limits_of_def)
  have fails: "fst (app_call (agent_health (se_net ?E) srv) s) = Inl (StatusError 500 [] [])" for srv s
    by (simp add: app_call_def agent_health_def agent_call_def agent_do_def refusing_def Let_def)
  obtain hs s' where r: "health_checks ?E ?l sample_server 2 sync_app = (hs, s')" by (rule prod.exhaust)
  have hs: "hs = [False, False]"
    using r fails by (auto simp: numeral_2_eq_2 simp del: env_net split: prod.splits)
  from offline_after_failures_in_a_row [OF inv lim _ sid(2) r] obtain row where
      "server_row (ap_db s') ''s'' = Some row" "sv_status row = ''Offline''" "unread_offline (ap_db s') ''s'' = 1"
    unfolding hs sid(1) by (auto simp: failures_in_a_row_def)
  then show ?thesis using r hs by simp
qed

end
