(* ===== verification/ZL_Scope_Rules.thy ===== *)
theory ZL_Scope_Rules
  imports ZL_IP ZL_Dhcp_Store "HOL-Library.Word"
begin

unbundle bit_operations_syntax

text \<open>
  The rules of \<open>api/router/resources.go\<close> and \<open>resources_dhcp_update.go\<close> on zone names, scope
  identifiers, lease durations and default gateways. An IPv4 address is the four bytes
  \<open>net.IP.To4\<close> gives, a \<open>uint32\<close> a \<open>32 word\<close>.
\<close>

subsection \<open>Names and identifiers\<close>

definition normalize_dns_zone_name :: "string \<Rightarrow> bool \<Rightarrow> string" where
  "normalize_dns_zone_name name reverse =
     (let n = trim_char (CHR ''.'') (trim_space name) in
      if \<not> reverse then n
      else if has_suffix (to_lower n) ''.in-addr.arpa'' \<or> has_suffix (to_lower n) ''.ip6.arpa'' then n
      else n @ ''.in-addr.arpa'')"

fun dhcp_external_id :: "string list \<Rightarrow> string" where
  "dhcp_external_id [] = []"
| "dhcp_external_id (v # vs) =
     (let t = trim_space v in
      if t = [] then dhcp_external_id vs
      else if CHR ''/'' \<in> set t then hd (split_on (CHR ''/'') t)
      else t)"

text \<open>The identifier an agent knows the scope under.\<close>

definition scope_external_id :: "dhcp_scope \<Rightarrow> string" where
  "scope_external_id sc = dhcp_external_id [sc_external_id sc, sc_subnet sc, sc_id sc]"

subsection \<open>Lease durations and edits\<close>

definition normalize_dhcp_scope_lease_duration :: "dhcp_scope \<Rightarrow> dhcp_scope" where
  "normalize_dhcp_scope_lease_duration s =
     (if sc_lease_seconds s = - 1 then s\<lparr>sc_lease_hours := 0\<rparr>
      else let s1 = (if sc_lease_seconds s \<le> 0 \<and> 0 < sc_lease_hours s
                     then s\<lparr>sc_lease_seconds := sc_lease_hours s * 3600\<rparr> else s);
               s2 = (if sc_lease_hours s1 \<le> 0 \<and> 0 < sc_lease_seconds s1
                     then s1\<lparr>sc_lease_hours := (sc_lease_seconds s1 + 3599) div 3600\<rparr> else s1);
               s3 = (if sc_lease_hours s2 \<le> 0 then s2\<lparr>sc_lease_hours := 24\<rparr> else s2)
        in if sc_lease_seconds s3 \<le> 0 then s3\<lparr>sc_lease_seconds := sc_lease_hours s3 * 3600\<rparr> else s3)"

text \<open>The router and the repository have the same rule.\<close>

lemma lease_rules_agree: "normalize_dhcp_scope_lease_duration = normalize_scope_lease"
  by (simp add: fun_eq_iff normalize_dhcp_scope_lease_duration_def normalize_scope_lease_def Let_def)

definition dhcp_scope_changed_fields :: "dhcp_scope \<Rightarrow> dhcp_scope \<Rightarrow> string list" where
  "dhcp_scope_changed_fields old new =
     (let differs = (\<lambda>f :: dhcp_scope \<Rightarrow> string. trim_space (f old) \<noteq> trim_space (f new)) in
      (if differs sc_name then [''name''] else []) @
      (if differs sc_description then [''description''] else []) @
      (if differs sc_default_gateway then [''gateway''] else []) @
      (if sc_lease_seconds old \<noteq> sc_lease_seconds new then [''lease''] else []) @
      (if differs sc_start_range \<or> differs sc_end_range then [''range''] else []) @
      (if differs sc_state then [''state''] else []))"

subsection \<open>Default gateways\<close>

type_synonym ipv4 = "8 word list"

definition to4_bytes :: "string \<Rightarrow> ipv4 option" where
  "to4_bytes s = map_option (map of_nat) (parse_ip_to4 s)"

text \<open>\<open>net.CIDRMask(ones, 32)\<close>, byte by byte, and \<open>IP.Mask\<close>.\<close>

fun cidr_bytes :: "nat \<Rightarrow> nat \<Rightarrow> ipv4" where
  "cidr_bytes n 0 = []"
| "cidr_bytes n (Suc k) =
     (if 8 \<le> n then 255 # cidr_bytes (n - 8) k else NOT (drop_bit n 255) # cidr_bytes 0 k)"

definition ip_mask :: "ipv4 \<Rightarrow> ipv4 \<Rightarrow> ipv4" where
  "ip_mask m ip = map2 (\<lambda>a b. a AND b) ip m"

text \<open>\<open>binary.BigEndian.Uint32\<close>.\<close>

definition be_uint32 :: "ipv4 \<Rightarrow> 32 word" where
  "be_uint32 b = ucast (b ! 3) OR push_bit 8 (ucast (b ! 2)) OR push_bit 16 (ucast (b ! 1)) OR push_bit 24 (ucast (b ! 0))"

text \<open>\<open>fmt.Sscanf(s, "%d", &n)\<close> on a text without surrounding space: an optional sign and digits;
  what follows them is not looked at.\<close>

definition scan_int :: "string \<Rightarrow> int option" where
  "scan_int s =
     (let (neg, rest) = (case s of [] \<Rightarrow> (False, [])
          | c # cs \<Rightarrow> if c = CHR ''-'' then (True, cs) else if c = CHR ''+'' then (False, cs) else (False, s));
          ds = takeWhile is_digit rest;
          v = (if neg then - int (digits_value ds) else int (digits_value ds))
      in if ds = [] \<or> v < - (2 ^ 63) \<or> 2 ^ 63 \<le> v then None else Some v)"

datatype gateway_error = GatewayMissing | GatewayNotIpv4 | SubnetInvalid | GatewayOutside | GatewayReserved

definition parse_dhcp_scope_subnet :: "string \<Rightarrow> gateway_error + (ipv4 \<times> ipv4)" where
  "parse_dhcp_scope_subnet subnet =
     (case split_on (CHR ''/'') (trim_space subnet) of
        [a, m] \<Rightarrow>
          (case to4_bytes (trim_space a) of
             None \<Rightarrow> Inl SubnetInvalid
           | Some ip \<Rightarrow>
               if trim_space m = [] then Inl SubnetInvalid
               else case scan_int (trim_space m) of
                 None \<Rightarrow> Inl SubnetInvalid
               | Some p \<Rightarrow> if p < 0 \<or> 32 < p then Inl SubnetInvalid else Inr (ip, cidr_bytes (nat p) 4))
      | _ \<Rightarrow> Inl SubnetInvalid)"

definition validate_dhcp_scope_default_gateway :: "string \<Rightarrow> string \<Rightarrow> gateway_error option" where
  "validate_dhcp_scope_default_gateway subnet gateway =
     (let gw = trim_space gateway in
      if gw = [] then Some GatewayMissing
      else case to4_bytes gw of
        None \<Rightarrow> Some GatewayNotIpv4
      | Some ip \<Rightarrow>
          (case parse_dhcp_scope_subnet subnet of
             Inl e \<Rightarrow> Some e
           | Inr (net, m) \<Rightarrow>
               (let network = ip_mask m net in
                if ip_mask m ip \<noteq> network then Some GatewayOutside
                else let n = be_uint32 network; g = be_uint32 ip; b = n OR NOT (be_uint32 m) in
                  if g = n \<or> g = b then Some GatewayReserved else None)))"

subsection \<open>Bytes and numbers\<close>

lemma be_uint32_bit:
  assumes "length b = 4" and "n < 32"
  shows "bit (be_uint32 b) n \<longleftrightarrow> bit (b ! (3 - n div 8)) (n mod 8)"
proof -
  have "n div 8 \<in> {0, 1, 2, 3}" using assms(2) by auto
  then have "n \<in> {0..<8} \<union> {8..<16} \<union> {16..<24} \<union> {24..<32}" using assms(2) by auto
  then show ?thesis
  proof (elim UnE)
    assume "n \<in> {0..<8}" then show ?thesis by (auto simp: be_uint32_def bit_simps)
  next
    assume n: "n \<in> {8..<16}" then have "n div 8 = 1" "n mod 8 = n - 8" by (auto simp: mod_if)
    with n show ?thesis by (auto simp: be_uint32_def bit_simps dest: bit_imp_le_length)
  next
    assume n: "n \<in> {16..<24}" then have "n div 8 = 2" "n mod 8 = n - 16" by (auto simp: mod_if)
    with n show ?thesis by (auto simp: be_uint32_def bit_simps dest: bit_imp_le_length)
  next
    assume n: "n \<in> {24..<32}" then have "n div 8 = 3" "n mod 8 = n - 24" by (auto simp: mod_if)
    with n show ?thesis by (auto simp: be_uint32_def bit_simps dest: bit_imp_le_length)
  qed
qed

lemma be_uint32_inject:
  assumes "length a = 4" "length b = 4"
  shows "be_uint32 a = be_uint32 b \<longleftrightarrow> a = b"
proof
  assume eq: "be_uint32 a = be_uint32 b"
  have "a ! i = b ! i" if "i < 4" for i
  proof (rule bit_word_eqI)
    fix n assume "n < LENGTH(8)"
    with that have k: "(3 - i) * 8 + n < 32" "((3 - i) * 8 + n) div 8 = 3 - i" "((3 - i) * 8 + n) mod 8 = n" "3 - (3 - i) = i"
      by auto
    from be_uint32_bit [OF assms(1) k(1)] be_uint32_bit [OF assms(2) k(1)] eq
    show "bit (a ! i) n \<longleftrightarrow> bit (b ! i) n" by (simp only: k)
  qed
  with assms show "a = b" by (simp add: list_eq_iff_nth_eq)
qed simp

lemma be_uint32_mask:
  assumes "length a = 4" "length m = 4"
  shows "be_uint32 (ip_mask m a) = be_uint32 a AND be_uint32 m"
proof (rule bit_word_eqI)
  fix n assume "n < LENGTH(32)"
  then have n: "n < 32" "n div 8 \<le> 3" by auto
  then show "bit (be_uint32 (ip_mask m a)) n \<longleftrightarrow> bit (be_uint32 a AND be_uint32 m) n"
    using assms by (simp add: be_uint32_bit ip_mask_def bit_and_iff)
qed

lemma length_cidr_bytes [simp]: "length (cidr_bytes n k) = k"
  by (induction k arbitrary: n) auto

lemma be_uint32_cidr: "p \<le> 32 \<Longrightarrow> be_uint32 (cidr_bytes p 4) = NOT (mask (32 - p))"
proof -
  assume "p \<le> 32"
  then have "p \<in> set [0..<33]" by simp
  moreover have "list_all (\<lambda>p. be_uint32 (cidr_bytes p 4) = NOT (mask (32 - p))) [0..<33]"
    by code_simp
  ultimately show ?thesis by (simp only: list_all_iff)
qed

lemma parse_ip_to4_length: "parse_ip_to4 s = Some xs \<Longrightarrow> length xs = 4"
  by (auto simp: parse_ip_to4_def ip_to4_def bind_eq_Some_conv split: if_splits)

lemma to4_bytes_length: "to4_bytes s = Some b \<Longrightarrow> length b = 4"
  by (auto simp: to4_bytes_def dest: parse_ip_to4_length)

lemma unat_low_cleared:
  fixes w :: "32 word"
  shows "unat (w AND NOT (mask h)) = unat w div 2 ^ h * 2 ^ h"
proof -
  have "unat (w AND NOT (mask h)) = push_bit h (drop_bit h (unat w))"
    by (rule bit_eqI) (auto simp: bit_unsigned_iff bit_simps dest: bit_imp_le_length)
  then show ?thesis by (simp add: push_bit_eq_mult drop_bit_eq_div)
qed

lemma unat_low_filled:
  fixes w :: "32 word"
  assumes "h \<le> 32"
  shows "unat ((w AND NOT (mask h)) OR mask h) = unat w div 2 ^ h * 2 ^ h + (2 ^ h - 1)"
proof -
  have "unat ((w AND NOT (mask h)) OR mask h) = push_bit h (drop_bit h (unat w)) OR mask h"
    by (rule bit_eqI) (use assms in \<open>auto simp: bit_unsigned_iff bit_simps dest: bit_imp_le_length\<close>)
  also have "\<dots> = push_bit h (drop_bit h (unat w)) + mask h"
    by (rule disjunctive_add [symmetric]) (auto simp: bit_simps)
  finally show ?thesis by (simp add: push_bit_eq_mult drop_bit_eq_div mask_eq_exp_minus_1)
qed

lemma between_bounds:
  fixes g b d :: nat
  assumes "0 < d"
  shows "g div d = b div d \<and> g \<noteq> b div d * d \<and> g \<noteq> b div d * d + (d - 1) \<longleftrightarrow>
    b div d * d < g \<and> g < b div d * d + (d - 1)"
proof
  assume l: "g div d = b div d \<and> g \<noteq> b div d * d \<and> g \<noteq> b div d * d + (d - 1)"
  have "g = g div d * d + g mod d" "g mod d < d" using assms by simp_all
  with l have "g = b div d * d + g mod d" "g mod d < d" by simp_all
  with l show "b div d * d < g \<and> g < b div d * d + (d - 1)" by linarith
next
  assume r: "b div d * d < g \<and> g < b div d * d + (d - 1)"
  then have "b div d * d \<le> g" "g < b div d * d + d" by linarith+
  then have "b div d * d \<le> g" "g < Suc (b div d) * d" by simp_all
  then have "g div d = b div d" using assms by (simp add: div_nat_eqI mult.commute)
  with r show "g div d = b div d \<and> g \<noteq> b div d * d \<and> g \<noteq> b div d * d + (d - 1)" by simp
qed

lemma cleared_eq_iff:
  "(a :: nat) div 2 ^ h * 2 ^ h = b div 2 ^ h * 2 ^ h \<longleftrightarrow> a div 2 ^ h = b div 2 ^ h"
  by simp

text \<open>The three tests of the code, on bytes and words, as one range of numbers.\<close>

lemma gateway_tests:
  assumes "length net = 4" "length ip = 4" "p \<le> 32"
  defines "m \<equiv> cidr_bytes p 4" and "lo \<equiv> unat (be_uint32 net) div 2 ^ (32 - p) * 2 ^ (32 - p)"
  shows "ip_mask m ip = ip_mask m net \<and> be_uint32 ip \<noteq> be_uint32 (ip_mask m net) \<and>
      be_uint32 ip \<noteq> (be_uint32 (ip_mask m net) OR NOT (be_uint32 m)) \<longleftrightarrow>
    lo < unat (be_uint32 ip) \<and> unat (be_uint32 ip) < lo + (2 ^ (32 - p) - 1)"
proof -
  have len: "length (ip_mask m ip) = 4" "length (ip_mask m net) = 4" "length m = 4"
    using assms(1,2) by (simp_all add: m_def ip_mask_def)
  have mask: "be_uint32 (ip_mask m ip) = be_uint32 ip AND NOT (mask (32 - p))"
    "be_uint32 (ip_mask m net) = be_uint32 net AND NOT (mask (32 - p))"
    "be_uint32 m = NOT (mask (32 - p))"
    using assms(1-3) len(3) by (simp_all add: be_uint32_mask be_uint32_cidr m_def)
  have "ip_mask m ip = ip_mask m net \<longleftrightarrow> unat (be_uint32 ip) div 2 ^ (32 - p) = unat (be_uint32 net) div 2 ^ (32 - p)"
    unfolding be_uint32_inject [OF len(1,2), symmetric] mask word_unat_eq_iff unat_low_cleared by simp
  moreover have "be_uint32 ip = be_uint32 (ip_mask m net) \<longleftrightarrow> unat (be_uint32 ip) = lo"
    unfolding mask word_unat_eq_iff unat_low_cleared lo_def ..
  moreover have "be_uint32 ip = (be_uint32 (ip_mask m net) OR NOT (be_uint32 m)) \<longleftrightarrow>
      unat (be_uint32 ip) = lo + (2 ^ (32 - p) - 1)"
    unfolding mask word_unat_eq_iff bit.double_compl lo_def by (subst unat_low_filled) simp_all
  ultimately show ?thesis
    unfolding lo_def using between_bounds [of "2 ^ (32 - p)" "unat (be_uint32 ip)" "unat (be_uint32 net)"] by simp
qed

lemma parsed_subnet:
  "parse_dhcp_scope_subnet subnet = Inr (net, m) \<Longrightarrow> \<exists>p. p \<le> 32 \<and> m = cidr_bytes p 4 \<and> length net = 4"
  by (auto simp: parse_dhcp_scope_subnet_def split: list.splits option.splits if_splits dest: to4_bytes_length
      intro!: exI [of _ "nat _"])

text \<open>C17. A default gateway is accepted exactly when the subnet parses to a network and a prefix length
  p and the gateway is an IPv4 address strictly between the first address of the network and its last,
  as numbers: so it is inside the subnet and neither its network nor its broadcast address, and a
  subnet of 31 or 32 bits has no gateway.\<close>

theorem default_gateway_in_subnet:
  "validate_dhcp_scope_default_gateway subnet gateway = None \<longleftrightarrow>
   (\<exists>ip net p lo. to4_bytes (trim_space gateway) = Some ip \<and>
      parse_dhcp_scope_subnet subnet = Inr (net, cidr_bytes p 4) \<and> p \<le> 32 \<and>
      lo = unat (be_uint32 net) div 2 ^ (32 - p) * 2 ^ (32 - p) \<and>
      lo < unat (be_uint32 ip) \<and> unat (be_uint32 ip) < lo + (2 ^ (32 - p) - 1))" (is "?code \<longleftrightarrow> ?range")
proof
  assume ?code
  then obtain ip net m where w: "to4_bytes (trim_space gateway) = Some ip"
      "parse_dhcp_scope_subnet subnet = Inr (net, m)" "ip_mask m ip = ip_mask m net"
      "be_uint32 ip \<noteq> be_uint32 (ip_mask m net)" "be_uint32 ip \<noteq> (be_uint32 (ip_mask m net) OR NOT (be_uint32 m))"
    by (auto simp: validate_dhcp_scope_default_gateway_def Let_def split: if_splits option.splits sum.splits)
  from parsed_subnet [OF w(2)] obtain p where p: "p \<le> 32" "m = cidr_bytes p 4" "length net = 4" by blast
  from gateway_tests [OF p(3) to4_bytes_length [OF w(1)] p(1)] w p show ?range by blast
next
  assume ?range
  then obtain ip net p where w: "to4_bytes (trim_space gateway) = Some ip"
      "parse_dhcp_scope_subnet subnet = Inr (net, cidr_bytes p 4)" "p \<le> 32"
      "unat (be_uint32 net) div 2 ^ (32 - p) * 2 ^ (32 - p) < unat (be_uint32 ip)"
      "unat (be_uint32 ip) < unat (be_uint32 net) div 2 ^ (32 - p) * 2 ^ (32 - p) + (2 ^ (32 - p) - 1)"
    by blast
  have len: "length net = 4" using parsed_subnet [OF w(2)] by blast
  have "trim_space gateway \<noteq> []"
    using w(1) by (auto simp: to4_bytes_def parse_ip_to4_def parse_ip_def)
  with gateway_tests [OF len to4_bytes_length [OF w(1)] w(3)] w show ?code
    by (simp add: validate_dhcp_scope_default_gateway_def Let_def)
qed

text \<open>Some subnets, among them one whose prefix length has garbage after it.\<close>

lemma sample_trims:
  "trim_space ''10.0.0.0/24'' = ''10.0.0.0/24''" "trim_space ''10.0.0.0/24abc'' = ''10.0.0.0/24abc''"
  "trim_space ''10.0.0.0'' = ''10.0.0.0''" "trim_space ''10.0.0.1'' = ''10.0.0.1''"
  "trim_space ''10.0.0.255'' = ''10.0.0.255''" "trim_space ''24'' = ''24''" "trim_space ''24abc'' = ''24abc''"
  by (rule trim_space_graph; code_simp)+

lemma sample_parts:
  "split_on (CHR ''/'') ''10.0.0.0/24'' = [''10.0.0.0'', ''24'']" "split_on (CHR ''/'') ''10.0.0.0/24abc'' = [''10.0.0.0'', ''24abc'']"
  "to4_bytes ''10.0.0.0'' = Some [10, 0, 0, 0]" "to4_bytes ''10.0.0.1'' = Some [10, 0, 0, 1]"
  "to4_bytes ''10.0.0.255'' = Some [10, 0, 0, 255]" "scan_int ''24'' = Some 24" "scan_int ''24abc'' = Some 24"
  "cidr_bytes 24 4 = [255, 255, 255, 0]"
  by code_simp+

lemma sample_subnets:
  "parse_dhcp_scope_subnet ''10.0.0.0/24'' = Inr ([10, 0, 0, 0], [255, 255, 255, 0])"
  "parse_dhcp_scope_subnet ''10.0.0.0/24abc'' = Inr ([10, 0, 0, 0], [255, 255, 255, 0])"
  by (simp_all add: parse_dhcp_scope_subnet_def sample_trims sample_parts del: cidr_bytes.simps)

lemma default_gateway_samples:
  "validate_dhcp_scope_default_gateway ''10.0.0.0/24'' ''10.0.0.1'' = None"
  "validate_dhcp_scope_default_gateway ''10.0.0.0/24'' ''10.0.0.255'' = Some GatewayReserved"
  by (simp_all add: validate_dhcp_scope_default_gateway_def sample_trims sample_parts sample_subnets ip_mask_def be_uint32_def)

end
