(* ===== verification/ZL_Refresh_Handlers.thy ===== *)
theory ZL_Refresh_Handlers
  imports ZL_Sync
begin

text \<open>
  Queueing refresh tasks: the \<open>enqueue\<close> functions of \<open>api/router/resources.go\<close>, what the operation refresh
  scheduler does when a timer expires (\<open>fire\<close> of \<open>operation_refresh.go\<close>), and the requests of
  \<open>api/router/refresh.go\<close>. The code runs a queued task in a goroutine of its own: here a queued task is
  the \<open>refresh_job\<close> that goroutine gets, and running it is \<open>run_refresh_task\<close>.
\<close>

record refresh_job =
  rj_task :: refresh_task
  rj_target :: refresh_target

datatype enqueue_error = LockUnavailable | TargetRunning | EnqueueFailed store_error

subsection \<open>Queueing\<close>

definition is_refresh_target_running :: "string \<Rightarrow> refresh_target \<Rightarrow> redis \<Rightarrow> unit + bool" where
  "is_refresh_target_running ty target r =
     (let key = refresh_task_lock_key ty target in if key = [] then Inr False else rt_exists key r)"

text \<open>The payload of a queued task.\<close>

definition queued_fields :: "string \<Rightarrow> string \<Rightarrow> string \<Rightarrow> string \<Rightarrow> string \<Rightarrow> string \<Rightarrow> (string \<times> string) list" where
  "queued_fields message kind rid name sid sname =
     [(''message'', message), (''resourceType'', kind), (''resourceId'', rid), (''resourceName'', name),
      (''serverId'', sid), (''serverName'', sname)]"

text \<open>The common end: refuse a target that is being refreshed, store the task, announce it.\<close>

definition queue_task ::
    "'w sync_env \<Rightarrow> string \<Rightarrow> gotime \<Rightarrow> string \<Rightarrow> refresh_target \<Rightarrow> string \<Rightarrow> (string \<times> string) list \<Rightarrow> string \<Rightarrow>
     ('w app \<Rightarrow> 'w app) \<Rightarrow> 'w app \<Rightarrow> (enqueue_error + refresh_job) \<times> 'w app" where
  "queue_task E nid now ty target message payload by on_fail s =
     (case is_refresh_target_running ty target (ap_redis s) of
        Inl e \<Rightarrow> (Inl LockUnavailable, s)
      | Inr True \<Rightarrow> (Inl TargetRunning, s)
      | Inr False \<Rightarrow>
          (case create_refresh_task nid now ty (se_json E payload) by (ap_db s) of
             Inl e \<Rightarrow> (Inl (EnqueueFailed e), on_fail s)
           | Inr (task, d) \<Rightarrow>
               (Inr \<lparr>rj_task = task, rj_target = target\<rparr>, publish E ty (t_id task) ''queued'' message (s\<lparr>ap_db := d\<rparr>))))"

definition enqueue_zone_refresh ::
    "'w sync_env \<Rightarrow> string \<Rightarrow> gotime \<Rightarrow> string \<Rightarrow> string \<Rightarrow> string \<Rightarrow> string \<Rightarrow> 'w app \<Rightarrow>
     (enqueue_error + refresh_job) \<times> 'w app" where
  "enqueue_zone_refresh E nid now sid zid zname by s =
     (case (if trim_space zid \<noteq> [] then
              (case get_dns_zone (ap_db s) zid of Inl e \<Rightarrow> Inl e | Inr z \<Rightarrow> Inr (z_server_id z, z_id z, z_name z))
            else Inr (sid, zid, zname)) of
        Inl e \<Rightarrow> (Inl (EnqueueFailed e), s)
      | Inr (sid1, zid1, zname1) \<Rightarrow>
          queue_task E nid now ''runtime.refresh.dns.zone''
            (OnZone \<lparr>zt_server_id = sid1, zt_server_name = server_name_or (ap_db s) sid1 [], zt_zone_id = zid1,
               zt_zone_name = zname1\<rparr>) ''zone_refresh_queued''
            (queued_fields ''zone_refresh_queued'' ''dns.zone'' zid1 zname1 sid1 (server_name_or (ap_db s) sid1 [])) by id s)"

definition enqueue_dhcp_scope_refresh ::
    "'w sync_env \<Rightarrow> string \<Rightarrow> gotime \<Rightarrow> string \<Rightarrow> string \<Rightarrow> string \<Rightarrow> string \<Rightarrow> string \<Rightarrow> 'w app \<Rightarrow>
     (enqueue_error + refresh_job) \<times> 'w app" where
  "enqueue_dhcp_scope_refresh E nid now sid scid ext sname by s =
     queue_task E nid now ''runtime.refresh.dhcp.scope''
       (OnScope \<lparr>ct_server_id = sid, ct_server_name = server_name_or (ap_db s) sid [], ct_scope_id = scid,
          ct_external_id = ext, ct_scope_name = sname\<rparr>) ''scope_refresh_queued''
       (queued_fields ''scope_refresh_queued'' ''dhcp.scope'' scid sname sid (server_name_or (ap_db s) sid [])) by
       (publish E ''runtime.updated'' [] ''success'' ''runtime_updated'') s"

text \<open>The synchronisation of one agent is queued without looking at its lock; the agent is marked as being
  synchronised at once.\<close>

definition enqueue_server_refresh ::
    "'w sync_env \<Rightarrow> string \<Rightarrow> gotime \<Rightarrow> string \<Rightarrow> string \<Rightarrow> string \<Rightarrow> bool \<Rightarrow> 'w app \<Rightarrow>
     (enqueue_error + refresh_job) \<times> 'w app" where
  "enqueue_server_refresh E nid now sid sname by skip_health s =
     (let ty = ''runtime.refresh.server'';
          target = OnServer \<lparr>st_server_id = sid, st_server_name = sname, st_skip_health_check = skip_health\<rparr>
      in case create_refresh_task nid now ty (se_json E
             (queued_fields ''agent_sync_queued'' ''server'' sid sname sid sname)) by (ap_db s) of
           Inl e \<Rightarrow> (Inl (EnqueueFailed e), s)
         | Inr (task, d) \<Rightarrow>
             (let s1 = s\<lparr>ap_db := d\<rparr>;
                  s2 = (case get_server d sid of Inl e \<Rightarrow> s1 | Inr srv \<Rightarrow> mark_agent_sync_queued E srv s1)
              in (Inr \<lparr>rj_task = task, rj_target = target\<rparr>, publish E ty (t_id task) ''queued'' ''agent_sync_queued'' s2)))"

definition run_job :: "'w sync_env \<Rightarrow> refresh_job \<Rightarrow> 'w app \<Rightarrow> 'w app" where
  "run_job E j = run_refresh_task E (t_id (rj_task j)) (t_type (rj_task j)) (rj_target j)"

subsection \<open>An expired timer\<close>

definition operation_refresh_lock_key :: "string \<Rightarrow> string" where
  "operation_refresh_lock_key key = ''zonelease:lock:operation-refresh:'' @ key"

definition request_refresh ::
    "'w sync_env \<Rightarrow> string \<Rightarrow> gotime \<Rightarrow> refresh_request option \<Rightarrow> 'w app \<Rightarrow> refresh_job option \<times> 'w app" where
  "request_refresh E nid now q s =
     (case q of
        None \<Rightarrow> (None, s)
      | Some (ZoneRefresh sid zid zname) \<Rightarrow>
          (case enqueue_zone_refresh E nid now sid zid zname [] s of
             (Inl e, s1) \<Rightarrow> (None, s1) | (Inr j, s1) \<Rightarrow> (Some j, s1))
      | Some (ScopeRefresh sid scid ext sname) \<Rightarrow>
          (case enqueue_dhcp_scope_refresh E nid now sid scid ext sname [] s of
             (Inl e, s1) \<Rightarrow> (None, s1) | (Inr j, s1) \<Rightarrow> (Some j, s1)))"

definition fire :: "'w sync_env \<Rightarrow> string \<Rightarrow> gotime \<Rightarrow> op_timer \<Rightarrow> 'w app \<Rightarrow> refresh_job option \<times> 'w app" where
  "fire E nid now p s =
     (case op_fire (operation_refresh_delay (ap_db s)) p (ap_sched s) of
        (sched, False) \<Rightarrow> (None, s\<lparr>ap_sched := sched\<rparr>)
      | (sched, True) \<Rightarrow>
          under_lock E (operation_refresh_lock_key (tm_key p)) (operation_refresh_delay (ap_db s) + minutes 1)
            (\<lambda>s1. request_refresh E nid now
               (fire_request LockTaken (is_agent_sync_running (se_json_ok E) (ot_server_id (tm_target p)) (ap_redis s1))
                  (tm_target p)) s1)
            (\<lambda>s1. (None, s1)) (s\<lparr>ap_sched := sched\<rparr>))"

subsection \<open>Requests\<close>

definition is_supported_refresh_type :: "string \<Rightarrow> bool" where
  "is_supported_refresh_type ty \<longleftrightarrow>
     ty \<in> {''runtime.refresh.all'', ''runtime.refresh.dns.all'', ''runtime.refresh.dhcp.all''}"

text \<open>A lock that cannot be asked for does not stop the request.\<close>

definition create_refresh_handler ::
    "'w sync_env \<Rightarrow> caller \<Rightarrow> string \<Rightarrow> string option \<Rightarrow> 'w app \<Rightarrow> refresh_job response \<times> 'w app" where
  "create_refresh_handler E c nid req = ensure_permission c ''refresh.manage'' (\<lambda>s.
     case req of
       None \<Rightarrow> (Fail 400 ''invalid_request'', s)
     | Some raw \<Rightarrow>
         (let ty = (if raw = [] then ''runtime.refresh.all'' else raw) in
          if \<not> is_supported_refresh_type ty then (Fail 400 ''invalid_refresh_type'', s)
          else if is_refresh_target_running ty NoTarget (ap_redis s) = Inr True then (Fail 409 ''refresh_running'', s)
          else case create_refresh_task nid (ca_now c) ty (se_json E [(''message'', ''refresh_created'')])
                 (u_id (ca_user c)) (ap_db s) of
            Inl e \<Rightarrow> (Fail 500 ''refresh_failed'', s)
          | Inr (task, d) \<Rightarrow>
              (Done 202 \<lparr>rj_task = task, rj_target = NoTarget\<rparr>,
               app_audit c ''Queued refresh'' ty ''System'' [(''task'', t_id task), (''type'', ty)]
                 (publish E ''runtime.refresh.all'' (t_id task) ''queued'' ''refresh_queued'' (s\<lparr>ap_db := d\<rparr>)))))"

text \<open>\<open>strconv.Atoi\<close>.\<close>

definition atoi :: "string \<Rightarrow> int option" where
  "atoi s =
     (let (neg, ds) = (case s of [] \<Rightarrow> (False, [])
          | c # cs \<Rightarrow> if c = CHR ''-'' then (True, cs) else if c = CHR ''+'' then (False, cs) else (False, s));
          v = (if neg then - int (digits_value ds) else int (digits_value ds))
      in if ds = [] \<or> \<not> list_all is_digit ds \<or> v < - (2 ^ 63) \<or> 2 ^ 63 \<le> v then None else Some v)"

text \<open>An unfinished task shows the status and payload of its runtime entry, when there is one; \<open>entry\<close> decodes
  the entry to its two fields.\<close>

definition attach_refresh_task_runtime ::
    "(string \<Rightarrow> (string \<times> string) option) \<Rightarrow> redis \<Rightarrow> refresh_task \<Rightarrow> refresh_task" where
  "attach_refresh_task_runtime entry r t =
     (if t_id t = [] \<or> t_status t \<noteq> ''queued'' \<and> t_status t \<noteq> ''running'' then t
      else case rt_get (''zonelease:runtime:refresh-task:'' @ t_id t) r of
        Inr (Some raw) \<Rightarrow>
          (case entry raw of
             None \<Rightarrow> t
           | Some (status, payload) \<Rightarrow>
               t\<lparr>t_status := (if status \<noteq> [] then status else t_status t),
                 t_payload := (if payload \<noteq> [] then payload else t_payload t)\<rparr>)
      | _ \<Rightarrow> t)"

definition refresh_tasks_handler ::
    "(string \<Rightarrow> (string \<times> string) option) \<Rightarrow> caller \<Rightarrow> string \<Rightarrow> 'w app \<Rightarrow> refresh_task list response \<times> 'w app" where
  "refresh_tasks_handler entry c raw = ensure_permission c ''audit.read'' (\<lambda>s.
     let answer = (\<lambda>q. case q of
           Inl e \<Rightarrow> (Fail 500 ''refresh_tasks_failed'', s)
         | Inr ts \<Rightarrow> (Done 200 (map (attach_refresh_task_runtime entry (ap_redis s)) ts), s))
     in if raw = ''all'' then answer (list_all_refresh_tasks (ap_db s))
        else if raw = [] then answer (list_refresh_tasks 30 (ap_db s))
        else case atoi raw of
          None \<Rightarrow> (Fail 400 ''invalid_limit'', s)
        | Some n \<Rightarrow> if n \<le> 0 then (Fail 400 ''invalid_limit'', s) else answer (list_refresh_tasks n (ap_db s)))"

text \<open>The events a new listener gets first; \<open>type_of\<close> is the \<open>type\<close> of the JSON text, empty if it has none.\<close>

definition refresh_event_type :: "(string \<Rightarrow> string) \<Rightarrow> string \<Rightarrow> string" where
  "refresh_event_type type_of payload = (if type_of payload = [] then ''runtime.updated'' else type_of payload)"

definition event_text :: "string \<Rightarrow> string \<Rightarrow> string" where
  "event_text ty text = ''event: '' @ ty @ [char_of (10 :: nat)] @ ''data: '' @ text @ [char_of (10 :: nat), char_of (10 :: nat)]"

definition events_preamble :: "(string \<Rightarrow> string) \<Rightarrow> redis \<Rightarrow> string" where
  "events_preamble type_of r =
     event_text ''connected'' ''{}'' @
     (case recent_refresh_events 20 r of
        Inl e \<Rightarrow> []
      | Inr es \<Rightarrow> concat (map (\<lambda>raw. event_text (refresh_event_type type_of raw) raw) es))"

text \<open>The refresh of one zone, \<open>zoneAction\<close>.\<close>

definition zone_action_handler ::
    "'w sync_env \<Rightarrow> caller \<Rightarrow> string \<Rightarrow> string \<Rightarrow> 'w app \<Rightarrow> refresh_job response \<times> 'w app" where
  "zone_action_handler E c nid path = ensure_permission c ''dns.manage'' (\<lambda>s.
     case path_id_action path ''/api/dns/zones/'' of (zid, action) \<Rightarrow>
     if zid = [] \<or> action \<noteq> ''refresh'' then (Fail 404 ''not_found'', s)
     else case get_dns_zone (ap_db s) zid of
       Inl e \<Rightarrow> (Fail (status_from_err e) ''zone_not_found'', s)
     | Inr z \<Rightarrow>
         (case get_server (ap_db s) (z_server_id z) of
            Inl e \<Rightarrow> (Fail 404 ''server_not_found'', s)
          | Inr srv \<Rightarrow> ensure_agent_not_syncing (se_json_ok E) (sv_id srv) (\<lambda>s.
              case enqueue_zone_refresh E nid (ca_now c) (z_server_id z) (z_id z) (z_name z) (u_id (ca_user c)) s of
                (Inl TargetRunning, s1) \<Rightarrow> (Fail 409 ''refresh_target_running'', s1)
              | (Inl LockUnavailable, s1) \<Rightarrow> (Fail 503 ''runtime_lock_unavailable'', s1)
              | (Inl (EnqueueFailed e), s1) \<Rightarrow> (Fail 500 ''refresh_zone_failed'', s1)
              | (Inr j, s1) \<Rightarrow>
                  (Done 202 j, app_audit c ''Queued DNS zone refresh'' (z_name z) ''DNS''
                     (dns_audit_metadata srv (z_id z) (z_name z) []) s1)) s))"

subsection \<open>What queueing guarantees\<close>

lemma running_shape:
  "is_refresh_target_running ty target r = Inr b \<Longrightarrow>
   b \<longleftrightarrow> refresh_task_lock_key ty target \<noteq> [] \<and> live r (refresh_task_lock_key ty target) \<noteq> None"
  by (auto simp: is_refresh_target_running_def rt_exists_def Let_def split: if_splits)

lemma create_task_shape:
  "create_refresh_task nid now ty payload by d = Inr (t, d') \<Longrightarrow>
   d' = d\<lparr>db_tasks := db_tasks d @ [t]\<rparr> \<and> t_status t = ''queued'' \<and> t_type t = ty \<and> t_id t = nid"
  by (auto simp: create_refresh_task_def Let_def split: if_splits)

text \<open>A job that was queued: its task is the only change of the database, and its target was not being
  refreshed.\<close>

definition queued :: "'w app \<Rightarrow> refresh_job \<Rightarrow> 'w app \<Rightarrow> bool" where
  "queued s j s' \<longleftrightarrow> ap_db s' = (ap_db s)\<lparr>db_tasks := db_tasks (ap_db s) @ [rj_task j]\<rparr> \<and>
     t_status (rj_task j) = ''queued'' \<and>
     (refresh_task_lock_key (t_type (rj_task j)) (rj_target j) = [] \<or>
      live (ap_redis s) (refresh_task_lock_key (t_type (rj_task j)) (rj_target j)) = None)"

lemma queue_task_Inr:
  assumes "queue_task E nid now ty target message payload by on_fail s = (Inr j, s')"
  shows "queued s j s'" "rj_target j = target" "t_type (rj_task j) = ty" "ap_sched s' = ap_sched s"
  using assms unfolding queue_task_def queued_def
  by (auto split: sum.splits bool.splits prod.splits dest!: create_task_shape dest: running_shape
      simp: publish_def publish_with_payload_def)

lemma queue_task_Inl:
  assumes "queue_task E nid now ty target message payload by on_fail s = (Inl e, s')"
    and "\<And>s. ap_db (on_fail s) = ap_db s" "\<And>s. ap_sched (on_fail s) = ap_sched s"
  shows "ap_db s' = ap_db s" "ap_sched s' = ap_sched s"
  using assms unfolding queue_task_def by (auto split: sum.splits bool.splits prod.splits)

lemma publish_keeps [simp]: "ap_sched (publish E ty task st m s) = ap_sched s"
  by (simp add: publish_def publish_with_payload_def)

lemma zone_queue:
  "enqueue_zone_refresh E nid now sid zid zname by s = (Inr j, s') \<Longrightarrow>
     queued s j s' \<and> ap_sched s' = ap_sched s \<and> t_type (rj_task j) = ''runtime.refresh.dns.zone'' \<and>
     (\<exists>x. rj_target j = OnZone x \<and>
        (if trim_space zid = [] then zt_server_id x = sid \<and> zt_zone_name x = zname
         else \<exists>z. get_dns_zone (ap_db s) zid = Inr z \<and> zt_server_id x = z_server_id z \<and> zt_zone_name x = z_name z))"
  "enqueue_zone_refresh E nid now sid zid zname by s = (Inl e, s') \<Longrightarrow> ap_db s' = ap_db s \<and> ap_sched s' = ap_sched s"
  unfolding enqueue_zone_refresh_def
  by (auto split: sum.splits if_splits prod.splits dest: queue_task_Inr queue_task_Inl)

lemma scope_queue:
  "enqueue_dhcp_scope_refresh E nid now sid scid ext sname by s = (Inr j, s') \<Longrightarrow>
     queued s j s' \<and> ap_sched s' = ap_sched s \<and> t_type (rj_task j) = ''runtime.refresh.dhcp.scope'' \<and>
     (\<exists>x. rj_target j = OnScope x \<and> ct_server_id x = sid \<and> ct_external_id x = ext)"
  "enqueue_dhcp_scope_refresh E nid now sid scid ext sname by s = (Inl e, s') \<Longrightarrow> ap_db s' = ap_db s \<and> ap_sched s' = ap_sched s"
  unfolding enqueue_dhcp_scope_refresh_def
  by (auto dest: queue_task_Inr queue_task_Inl)

lemma lock_keys_apart:
  "refresh_task_lock_key ty t \<noteq> operation_refresh_lock_key k" "agent_sync_runtime_key sid \<noteq> operation_refresh_lock_key k"
  by (auto simp: refresh_task_lock_key_def operation_refresh_lock_key_def agent_sync_runtime_key_def
      split: refresh_target.split if_splits)

text \<open>Taking and releasing the lock of an expired timer changes only its own key.\<close>

lemma try_lock_shape:
  assumes "app_try_lock E key ttl s = (q, s1)"
  shows "ap_db s1 = ap_db s" "ap_sched s1 = ap_sched s" "k \<noteq> key \<Longrightarrow> live (ap_redis s1) k = live (ap_redis s) k"
    "rd_fault (ap_redis s1) = rd_fault (ap_redis s)"
  using assms by (auto simp: app_try_lock_def try_lock_def redis_set_def live_def Let_def
      split: prod.splits option.splits if_splits)

lemma syncing_cong:
  "live r1 (agent_sync_runtime_key sid) = live r (agent_sync_runtime_key sid) \<Longrightarrow> rd_fault r1 = rd_fault r \<Longrightarrow>
   is_agent_sync_running json_ok sid r1 = is_agent_sync_running json_ok sid r"
  by (simp add: is_agent_sync_running_def rt_get_json_def rt_get_def)

lemma unlock_keeps [simp]: "ap_sched (app_unlock l s) = ap_sched s"
  by (simp add: app_unlock_def)

text \<open>What the job of an expired timer refreshes.\<close>

definition refreshes :: "db \<Rightarrow> op_target \<Rightarrow> refresh_target \<Rightarrow> bool" where
  "refreshes d t target \<longleftrightarrow>
     (case target of
        OnZone x \<Rightarrow> ot_kind t = DnsZoneKind \<and>
          (if trim_space (ot_zone_id t) = [] then zt_server_id x = ot_server_id t \<and> zt_zone_name x = ot_zone_name t
           else \<exists>z. get_dns_zone d (ot_zone_id t) = Inr z \<and> zt_server_id x = z_server_id z \<and> zt_zone_name x = z_name z)
      | OnScope x \<Rightarrow> ot_kind t = DhcpScopeKind \<and> ct_server_id x = ot_server_id t \<and> ct_external_id x = ot_scope_external_id t
      | _ \<Rightarrow> False)"

lemma requested:
  assumes "request_refresh E nid now (fire_request LockTaken syncing t) s = (j, s')"
  shows "case j of
      None \<Rightarrow> ap_db s' = ap_db s \<and> ap_sched s' = ap_sched s
    | Some x \<Rightarrow> queued s x s' \<and> ap_sched s' = ap_sched s \<and> \<not> syncing \<and> refreshes (ap_db s) t (rj_target x)"
  using assms unfolding request_refresh_def fire_request_def refreshes_def
  by (auto split: if_splits op_kind.splits sum.splits prod.splits dest!: zone_queue scope_queue)

text \<open>C18. An expired timer queues at most one refresh and changes nothing else in the database: it queues
  only when no operation is open on the target, whose entry it removes, when the agent is not being
  synchronised and the target is not being refreshed already, and the refresh is the one of the target.\<close>

theorem expired_timer_queues_at_most_one:
  "case fire E nid now p s of
      (None, s') \<Rightarrow> ap_db s' = ap_db s
    | (Some x, s') \<Rightarrow> ap_db s' = (ap_db s)\<lparr>db_tasks := db_tasks (ap_db s) @ [rj_task x]\<rparr> \<and> t_status (rj_task x) = ''queued'' \<and>
        active_of (ap_sched s) (tm_key p) = 0 \<and> sd_targets (ap_sched s') (tm_key p) = None \<and>
        \<not> is_agent_sync_running (se_json_ok E) (ot_server_id (tm_target p)) (ap_redis s) \<and>
        (refresh_task_lock_key (t_type (rj_task x)) (rj_target x) = [] \<or>
         live (ap_redis s) (refresh_task_lock_key (t_type (rj_task x)) (rj_target x)) = None) \<and>
        refreshes (ap_db s) (tm_target p) (rj_target x)"
proof -
  let ?lk = "operation_refresh_lock_key (tm_key p)" and ?d = "operation_refresh_delay (ap_db s)"
  obtain j s' where run: "fire E nid now p s = (j, s')" by (rule prod.exhaust)
  obtain sched go where f: "op_fire ?d p (ap_sched s) = (sched, go)" by (rule prod.exhaust)
  show ?thesis
  proof (cases go)
    case False
    then show ?thesis using run f by (auto simp: fire_def)
  next
    case True
    have idle: "active_of (ap_sched s) (tm_key p) = 0" "sd_targets sched (tm_key p) = None"
      using f True by (auto simp: op_fire_def active_of_def split: option.splits if_splits)
    let ?s0 = "s\<lparr>ap_sched := sched\<rparr>"
    obtain q s1 where l: "app_try_lock E ?lk (?d + minutes 1) ?s0 = (q, s1)" by (rule prod.exhaust)
    note lock = try_lock_shape [OF l]
    let ?sync = "is_agent_sync_running (se_json_ok E) (ot_server_id (tm_target p)) (ap_redis s1)"
    have sync: "?sync = is_agent_sync_running (se_json_ok E) (ot_server_id (tm_target p)) (ap_redis s)"
      by (rule syncing_cong) (use lock lock_keys_apart in auto)
    obtain j1 s2 where r: "request_refresh E nid now (fire_request LockTaken ?sync (tm_target p)) s1 = (j1, s2)"
      by (rule prod.exhaust)
    have "(q = TryBusy \<and> j = None \<and> s' = s1) \<or> (j = j1 \<and> ap_db s' = ap_db s2 \<and> ap_sched s' = ap_sched s2)"
      using run f True l r by (cases q) (auto simp: fire_def under_lock_def)
    then show ?thesis
      using requested [OF r] lock idle sync lock_keys_apart(1) by (auto simp: queued_def run split: option.splits)
  qed
qed

lemma queue_task_free:
  assumes "is_refresh_target_running ty target (ap_redis s) = Inr False" "\<not> db_fault (ap_db s) ''CreateTask'' ty"
  obtains j s' where "queue_task E nid now ty target message payload [] on_fail s = (Inr j, s')" "touches {last_key} s s'"
proof -
  obtain t d where c: "create_refresh_task nid now ty (se_json E payload) [] (ap_db s) = Inr (t, d)"
    using assms(2) by (simp add: create_refresh_task_def Let_def)
  from create_task_shape [OF c] have d: "db_fault d = db_fault (ap_db s)" by simp
  have "touches {last_key} s (publish E ty (t_id t) ''queued'' message (s\<lparr>ap_db := d\<rparr>))"
    by (rule touches_trans [OF touches_db [where d = d]]) (simp_all add: d touches_publish)
  then show ?thesis using that assms(1) c by (simp add: queue_task_def)
qed

lemma target_free:
  "\<not> rd_fault r ''EXISTS'' (refresh_task_lock_key ty t) \<Longrightarrow>
   refresh_task_lock_key ty t = [] \<or> live r (refresh_task_lock_key ty t) = None \<Longrightarrow>
   is_refresh_target_running ty t r = Inr False"
  by (auto simp: is_refresh_target_running_def rt_exists_def Let_def)

lemma live_untouched: "touches K s s' \<Longrightarrow> k \<notin> K \<Longrightarrow> live (ap_redis s') k = live (ap_redis s) k"
  unfolding touches_def live_def by (elim conjE) (simp split: option.split)

text \<open>C19. An expired timer of a zone without open operations queues the refresh: when Redis and the task
  statement work, no other instance holds the lock of the timer, the agent is not being synchronised
  and the zone is not being refreshed, there is a job for the zone as the database has it, and the
  lock is free again.\<close>

theorem due_zone_refresh_is_queued:
  assumes "op_fire (operation_refresh_delay (ap_db s)) p (ap_sched s) = (sched, True)"
    and "ot_kind (tm_target p) = DnsZoneKind" "trim_space (ot_zone_id (tm_target p)) \<noteq> []"
    and "get_dns_zone (ap_db s) (ot_zone_id (tm_target p)) = Inr z"
    and "\<not> db_fault (ap_db s) ''CreateTask'' ''runtime.refresh.dns.zone''" "\<forall>c k. \<not> rd_fault (ap_redis s) c k"
    and "se_token E (operation_refresh_lock_key (tm_key p)) = Some tok" "tok \<noteq> []"
    and "live (ap_redis s) (operation_refresh_lock_key (tm_key p)) = None"
    and "\<not> is_agent_sync_running (se_json_ok E) (ot_server_id (tm_target p)) (ap_redis s)"
    and "\<forall>x. zt_server_id x = z_server_id z \<and> zt_zone_name x = z_name z \<longrightarrow>
           live (ap_redis s) (refresh_task_lock_key ''runtime.refresh.dns.zone'' (OnZone x)) = None"
  shows "\<exists>j s' x. fire E nid now p s = (Some j, s') \<and> rj_target j = OnZone x \<and> zt_server_id x = z_server_id z \<and>
     zt_zone_name x = z_name z \<and> live (ap_redis s') (operation_refresh_lock_key (tm_key p)) = None"
proof -
  let ?k = "operation_refresh_lock_key (tm_key p)" and ?ty = "''runtime.refresh.dns.zone''"
  let ?r = "redis_set ?k tok (if operation_refresh_delay (ap_db s) + minutes 1 \<le> 0 then minutes 1
      else operation_refresh_delay (ap_db s) + minutes 1) (ap_redis s)"
  let ?s1 = "s\<lparr>ap_sched := sched, ap_redis := ?r\<rparr>"
  let ?x = "\<lparr>zt_server_id = z_server_id z, zt_server_name = server_name_or (ap_db s) (z_server_id z) [],
      zt_zone_id = z_id z, zt_zone_name = z_name z\<rparr>"
  have l: "app_try_lock E ?k (operation_refresh_delay (ap_db s) + minutes 1) (s\<lparr>ap_sched := sched\<rparr>)
      = (TryTaken \<lparr>lk_key = ?k, lk_token = tok\<rparr>, ?s1)"
    using assms(6-9) by (simp add: app_try_lock_def try_lock_def Let_def)
  note shape = try_lock_shape [OF l]
  have held: "live ?r ?k = Some tok" "rd_fault ?r = rd_fault (ap_redis s)"
    using minutes_pos [of 1] by (auto simp: live_def redis_set_def expiry_def)
  have sync: "is_agent_sync_running (se_json_ok E) (ot_server_id (tm_target p)) (ap_redis ?s1) = False"
    using syncing_cong [of ?r "ot_server_id (tm_target p)" "ap_redis s" "se_json_ok E"] shape(3) [of "agent_sync_runtime_key (ot_server_id (tm_target p))"]
      lock_keys_apart(2) held(2) assms(10) by simp
  have free: "is_refresh_target_running ?ty (OnZone ?x) (ap_redis ?s1) = Inr False"
  proof (rule target_free)
    have "live ?r (refresh_task_lock_key ?ty (OnZone ?x)) = live (ap_redis s) (refresh_task_lock_key ?ty (OnZone ?x))"
      using shape(3) [OF lock_keys_apart(1)] by simp
    then show "refresh_task_lock_key ?ty (OnZone ?x) = [] \<or> live (ap_redis ?s1) (refresh_task_lock_key ?ty (OnZone ?x)) = None"
      using assms(11) by simp
  qed (use assms(6) held(2) in simp)
  obtain j s2 where q: "enqueue_zone_refresh E nid now (ot_server_id (tm_target p)) (ot_zone_id (tm_target p))
      (ot_zone_name (tm_target p)) [] ?s1 = (Inr j, s2)" "touches {last_key} ?s1 s2" "rj_target j = OnZone ?x"
  proof -
    have db: "\<not> db_fault (ap_db ?s1) ''CreateTask'' ?ty" using assms(5) by simp
    show ?thesis
      by (rule queue_task_free [OF free db, where E = E and nid = nid and now = now and message = "''zone_refresh_queued''"
            and on_fail = id and payload = "queued_fields ''zone_refresh_queued'' ''dns.zone'' (z_id z)
              (z_name z) (z_server_id z) (server_name_or (ap_db s) (z_server_id z) [])"])
        (rule that, use assms(3,4) in \<open>auto simp: enqueue_zone_refresh_def dest: queue_task_Inr(2)\<close>)
  qed
  have "live (ap_redis s2) ?k = Some tok"
    using live_untouched [OF q(2), of ?k] held(1) by (simp add: operation_refresh_lock_key_def last_key_def)
  moreover have "rd_fault (ap_redis s2) = rd_fault (ap_redis s)" using q(2) held(2) by (simp add: touches_def)
  ultimately have "live (ap_redis (app_unlock \<lparr>lk_key = ?k, lk_token = tok\<rparr> s2)) ?k = None"
    using assms(6,8) by (simp add: app_unlock_def unlock_def redis_del_def live_def operation_refresh_lock_key_def)
  moreover have "fire E nid now p s = (Some j, app_unlock \<lparr>lk_key = ?k, lk_token = tok\<rparr> s2)"
    using assms(1,2) l sync q(1) by (simp add: fire_def under_lock_def fire_request_def request_refresh_def)
  ultimately show ?thesis using q(3) by auto
qed


subsection \<open>Witnesses\<close>

definition due_timer :: op_timer where
  "due_timer = \<lparr>tm_id = 0, tm_key = ''dns.zone:s:corp.test'',
     tm_target = dns_zone_refresh_target ''s'' (dns_zone_id ''s'' ''corp.test'') ''corp.test'', tm_delay = 0\<rparr>"

definition due_app :: "nat app" where
  "due_app = sync_app\<lparr>ap_sched := new_scheduler\<lparr>sd_targets := [tm_key due_timer \<mapsto>
     \<lparr>os_target = tm_target due_timer, os_active = 0, os_dirty = True, os_timer = Some 0\<rparr>]\<rparr>\<rparr>"

lemma no_faults: "\<not> db_fault (ap_db sync_app) op k" "\<not> rd_fault (ap_redis sync_app) c k" "live (ap_redis sync_app) k = None"
    "rd_now (ap_redis sync_app) = 0"
  by (simp_all add: sync_app_def sample_db_def empty_db_def empty_redis_def live_def)

lemma due_parts: "ap_db due_app = ap_db sync_app" "ap_redis due_app = ap_redis sync_app"
  by (simp_all add: due_app_def)

theorem due_zone_refresh_is_queued_witness:
  "\<exists>j s'. fire (sample_env (answering NoData)) ''t'' 7 due_timer due_app = (Some j, s') \<and>
     (\<exists>x. rj_target j = OnZone x \<and> zt_zone_name x = ''corp.test'')"
proof -
  let ?E = "sample_env (answering NoData)"
  let ?z = "sample_zone\<lparr>z_id := dns_zone_id ''s'' ''corp.test'', z_name := ''corp.test'', z_type := ''Secondary'',
      z_dynamic_update := ''Secure'', z_server_id := ''s''\<rparr>"
  have f: "\<exists>sched. op_fire d due_timer (ap_sched due_app) = (sched, True)" for d
    by (simp add: op_fire_def due_app_def)
  then obtain sched where f: "op_fire (operation_refresh_delay (ap_db due_app)) due_timer (ap_sched due_app) = (sched, True)"
    by blast
  have t: "ot_kind (tm_target due_timer) = DnsZoneKind" "ot_zone_id (tm_target due_timer) = dns_zone_id ''s'' ''corp.test''"
    by (simp_all add: due_timer_def dns_zone_refresh_target_def)
  have zid: "trim_space (ot_zone_id (tm_target due_timer)) \<noteq> []"
    unfolding t sample_zone_id_trim by (simp add: sample_zone_id)
  have z: "get_dns_zone (ap_db due_app) (ot_zone_id (tm_target due_timer)) = Inr ?z"
    unfolding t due_parts by (simp add: get_dns_zone_def no_faults) (simp add: sync_app_def find_row_def)
  have idle: "\<not> is_agent_sync_running j i (ap_redis sync_app)" for j i
    by (simp add: is_agent_sync_running_def rt_get_json_def rt_get_def no_faults)
  have tok: "se_token ?E k = Some ''token''" for k by (simp add: sample_env_def)
  obtain j s' x where "fire ?E ''t'' 7 due_timer due_app = (Some j, s')" "rj_target j = OnZone x" "zt_zone_name x = z_name ?z"
    using due_zone_refresh_is_queued [OF f t(1) zid z, of ?E "''token''" "''t''" 7]
    by (auto simp: due_parts no_faults idle tok)
  then show ?thesis by auto
qed


end
