(* ===== verification/ZL_Dhcp_Handlers.thy ===== *)
theory ZL_Dhcp_Handlers
  imports ZL_Scope_Rules ZL_Refresh_Handlers
begin

text \<open>
  The requests that change a DHCP scope, lease, reservation or exclusion: \<open>api/router/resources.go\<close>,
  \<open>resources_dhcp_update.go\<close>, \<open>resources_dhcp_exclusions.go\<close>. The agent is changed first; only then the
  snapshot follows and the scope is marked for a refresh. When the agent fails the scope is marked
  too and the answer is 502. \<open>E\<close> is the environment of theory \<open>ZL_Sync_Resources\<close>, \<open>nid\<close> the identifier
  the database generates for a new row.
\<close>

subsection \<open>Common steps\<close>

definition zero_scope :: dhcp_scope where
  "zero_scope = \<lparr>sc_id = [], sc_name = [], sc_description = [], sc_subnet = [], sc_default_gateway = [],
     sc_start_range = [], sc_end_range = [], sc_lease_hours = 0, sc_lease_seconds = 0, sc_state = [],
     sc_server_id = [], sc_external_id = [], sc_last_synced_at = None, sc_sync_status = [], sc_last_error = []\<rparr>"

definition zero_exclusion :: dhcp_exclusion where
  "zero_exclusion = \<lparr>ex_id = [], ex_scope_id = [], ex_start_ip = [], ex_end_ip = [], ex_external_id = [],
     ex_last_synced_at = None\<rparr>"

definition zero_reservation :: dhcp_reservation where
  "zero_reservation = \<lparr>rv_id = [], rv_scope_id = [], rv_ip = [], rv_mac = [], rv_name = [], rv_description = [],
     rv_external_id = [], rv_last_synced_at = None\<rparr>"

text \<open>The scope, its server and \<open>ensureAgentNotSyncing\<close>, in front of the rest of a handler.\<close>

definition with_scope ::
    "'w sync_env \<Rightarrow> string \<Rightarrow> (dhcp_scope \<Rightarrow> server \<Rightarrow> 'w app \<Rightarrow> 'a response \<times> 'w app) \<Rightarrow> 'w app \<Rightarrow> 'a response \<times> 'w app" where
  "with_scope E scid k s =
     (case get_scope (ap_db s) scid of
        Inl e \<Rightarrow> (Fail (status_from_err e) ''scope_not_found'', s)
      | Inr sc \<Rightarrow>
          (case get_server (ap_db s) (sc_server_id sc) of
             Inl e \<Rightarrow> (Fail 404 ''server_not_found'', s)
           | Inr srv \<Rightarrow> ensure_agent_not_syncing (se_json_ok E) (sv_id srv) (k sc srv) s))"

definition scope_op_target :: "server \<Rightarrow> dhcp_scope \<Rightarrow> op_target" where
  "scope_op_target srv sc = dhcp_scope_refresh_target (sv_id srv) (sc_id sc) (scope_external_id sc) (sc_name sc)"

text \<open>A call on the agent whose failure marks the scope (\<open>markDHCPScopeDirtyAfterAgentFailure\<close>).\<close>

definition agent_or_mark ::
    "op_target \<Rightarrow> string \<Rightarrow> ('w \<Rightarrow> (agent_error + 'b) \<times> 'w) \<Rightarrow> ('b \<Rightarrow> 'w app \<Rightarrow> 'a response \<times> 'w app) \<Rightarrow>
     'w app \<Rightarrow> 'a response \<times> 'w app" where
  "agent_or_mark t msg call k s =
     (case app_call call s of
        (Inl e, s1) \<Rightarrow> (Fail 502 msg, app_mark t s1)
      | (Inr v, s1) \<Rightarrow> k v s1)"

definition scopes_path :: "string \<Rightarrow> string" where
  "scopes_path ext = ''/dhcp/scopes/'' @ path_escape ext"

text \<open>What ends a successful request: the audit entry, then the mark.\<close>

definition audit_scope ::
    "caller \<Rightarrow> string \<Rightarrow> string \<Rightarrow> server \<Rightarrow> string \<Rightarrow> string \<Rightarrow> metadata \<Rightarrow> 'w app \<Rightarrow> 'w app" where
  "audit_scope c action target srv scid sname m =
     app_audit c action target ''DHCP'' (dhcp_scope_audit_metadata srv scid sname m)"

subsection \<open>Scopes\<close>

definition create_scope_steps ::
    "'w sync_env \<Rightarrow> caller \<Rightarrow> string \<Rightarrow> server \<Rightarrow> dhcp_scope \<Rightarrow> 'w app \<Rightarrow> dhcp_scope response \<times> 'w app" where
  "create_scope_steps E c nid srv body s =
     (case app_call (agent_call (se_net E) MPost srv ''/dhcp/scopes'' (ScopeBody body) as_object) s of
        (Inl e, s1) \<Rightarrow> (Fail 502 ''agent_create_scope_failed'', s1)
      | (Inr _, s1) \<Rightarrow>
          (let (body1, s2) = (case create_scope nid (ca_now c) body (ap_db s1) of
                 Inl e \<Rightarrow> (body, s1)
               | Inr (item, d) \<Rightarrow> (body\<lparr>sc_id := sc_id item\<rparr>, s1\<lparr>ap_db := d\<rparr>));
               s3 = audit_scope c ''Created DHCP scope'' (sc_name body1) srv (sc_id body1) (sc_name body1)
                      [(''subnet'', sc_subnet body1), (''rangeStart'', sc_start_range body1),
                       (''rangeEnd'', sc_end_range body1)] s2
           in (Done 201 body1,
               app_mark (dhcp_scope_refresh_target (sv_id srv) (sc_id body1) (sc_external_id body1) (sc_name body1)) s3)))"

definition create_scope_handler ::
    "'w sync_env \<Rightarrow> caller \<Rightarrow> string \<Rightarrow> dhcp_scope option \<Rightarrow> 'w app \<Rightarrow> dhcp_scope response \<times> 'w app" where
  "create_scope_handler E c nid req = ensure_permission c ''dhcp.manage'' (\<lambda>s.
     case req of
       None \<Rightarrow> (Fail 400 ''invalid_request'', s)
     | Some body \<Rightarrow>
         if trim_space (sc_name body) = [] \<or> trim_space (sc_subnet body) = [] \<or> trim_space (sc_server_id body) = []
         then (Fail 400 ''invalid_scope'', s)
         else case get_server (ap_db s) (sc_server_id body) of
           Inl e \<Rightarrow> (Fail 404 ''server_not_found'', s)
         | Inr srv \<Rightarrow> ensure_agent_not_syncing (se_json_ok E) (sv_id srv) (\<lambda>s.
             let ext = dhcp_external_id [sc_external_id body, sc_id body, sc_subnet body];
                 body1 = body\<lparr>sc_external_id := ext, sc_id := ext, sc_server_id := sv_id srv\<rparr>
             in if validate_dhcp_scope_default_gateway (sc_subnet body1) (sc_default_gateway body1) \<noteq> None
                then (Fail 400 ''invalid_default_gateway'', s)
                else let body2 = normalize_dhcp_scope_lease_duration body1 in
                  with_operation (dhcp_scope_refresh_target (sv_id srv) [] ext (sc_name body2))
                    (create_scope_steps E c nid srv body2) s) s)"

definition toggle_scope_steps ::
    "'w sync_env \<Rightarrow> caller \<Rightarrow> string \<Rightarrow> dhcp_scope \<Rightarrow> server \<Rightarrow> 'w app \<Rightarrow> refresh_job option response \<times> 'w app" where
  "toggle_scope_steps E c scid sc srv =
     (let t = scope_op_target srv sc;
          action = (if \<not> equal_fold (sc_state sc) ''Active'' then ''activate'' else ''deactivate'')
      in with_operation t
        (agent_or_mark t ''agent_toggle_scope_failed''
          (agent_call (se_net E) MPost srv (scopes_path (scope_external_id sc) @ ''/'' @ action) NoBody as_object)
          (\<lambda>_ s1. (Done 200 None,
             app_mark t (audit_scope c ''Toggled DHCP scope'' (sc_name sc) srv (sc_id sc) (sc_name sc)
               [(''action'', action)] (app_store (toggle_scope scid) s1))))))"

definition scope_action_handler ::
    "'w sync_env \<Rightarrow> caller \<Rightarrow> string \<Rightarrow> string \<Rightarrow> 'w app \<Rightarrow> refresh_job option response \<times> 'w app" where
  "scope_action_handler E c nid path = ensure_permission c ''dhcp.manage'' (\<lambda>s.
     case path_id_action path ''/api/dhcp/scopes/'' of (scid, action) \<Rightarrow>
     if scid = [] \<or> action \<noteq> ''toggle'' \<and> action \<noteq> ''refresh'' then (Fail 404 ''not_found'', s)
     else with_scope E scid (\<lambda>sc srv s.
       if action = ''refresh'' then
         (case enqueue_dhcp_scope_refresh E nid (ca_now c) (sv_id srv) (sc_id sc) (scope_external_id sc) (sc_name sc)
                 (u_id (ca_user c)) s of
            (Inl TargetRunning, s1) \<Rightarrow> (Fail 409 ''refresh_target_running'', s1)
          | (Inl LockUnavailable, s1) \<Rightarrow> (Fail 503 ''runtime_lock_unavailable'', s1)
          | (Inl (EnqueueFailed e), s1) \<Rightarrow> (Fail 500 ''refresh_scope_failed'', s1)
          | (Inr j, s1) \<Rightarrow>
              (Done 202 (Some j), audit_scope c ''Queued DHCP scope refresh'' (sc_name sc) srv (sc_id sc) (sc_name sc) [] s1))
       else toggle_scope_steps E c scid sc srv s) s)"

definition delete_scope_handler ::
    "'w sync_env \<Rightarrow> caller \<Rightarrow> string \<Rightarrow> 'w app \<Rightarrow> unit response \<times> 'w app" where
  "delete_scope_handler E c path = ensure_permission c ''dhcp.manage'' (\<lambda>s.
     let scid = path_id path ''/api/dhcp/scopes/'' in
     if scid = [] then (Fail 404 ''not_found'', s)
     else with_scope E scid (\<lambda>sc srv.
       let t = scope_op_target srv sc in
       with_operation t
         (agent_or_mark t ''agent_delete_scope_failed''
           (agent_call (se_net E) MDelete srv (scopes_path (scope_external_id sc)) NoBody as_object)
           (\<lambda>_ s1. case delete_scope scid (ap_db s1) of
              Inl e \<Rightarrow> (Fail (status_from_err e) ''delete_scope_failed'', s1)
            | Inr d \<Rightarrow>
                (let s2 = audit_scope c ''Deleted DHCP scope'' (sc_name sc) srv (sc_id sc) (sc_name sc)
                       [(''subnet'', sc_subnet sc)] (s1\<lparr>ap_db := d\<rparr>)
                 in (Done 200 (), publish E ''runtime.updated'' [] ''success'' ''runtime_updated'' s2))))) s)"

text \<open>What an update sends: the fields of the request, completed with the stored ones.\<close>

definition updated_scope :: "server \<Rightarrow> dhcp_scope \<Rightarrow> dhcp_scope \<Rightarrow> dhcp_scope" where
  "updated_scope srv old body =
     (let keep = (\<lambda>new cur :: string. if trim_space new = [] then cur else new);
          ext = scope_external_id old
      in body\<lparr>sc_id := ext, sc_external_id := ext, sc_server_id := sv_id srv, sc_subnet := sc_subnet old,
           sc_start_range := keep (sc_start_range body) (sc_start_range old),
           sc_end_range := keep (sc_end_range body) (sc_end_range old),
           sc_state := keep (sc_state body) (sc_state old)\<rparr>)"

definition update_scope_steps ::
    "'w sync_env \<Rightarrow> caller \<Rightarrow> server \<Rightarrow> dhcp_scope \<Rightarrow> dhcp_scope \<Rightarrow> op_target \<Rightarrow> 'w app \<Rightarrow> dhcp_scope response \<times> 'w app" where
  "update_scope_steps E c srv old body t =
     agent_or_mark t ''agent_update_scope_failed''
       (agent_call (se_net E) MPut srv (scopes_path (scope_external_id old))
         (ScopeUpdate body (sc_start_range old) (sc_end_range old) (dhcp_scope_changed_fields old body))
         (as_scope zero_scope))
       (\<lambda>_ s1.
          let body1 = body\<lparr>sc_id := sc_id old, sc_external_id := scope_external_id old, sc_server_id := sv_id srv\<rparr>;
              (body2, s2) = (case update_scope body1 (ap_db s1) of
                  (Inl e, d) \<Rightarrow> (body1, s1\<lparr>ap_db := d\<rparr>)
                | (Inr u, d) \<Rightarrow> (u, s1\<lparr>ap_db := d\<rparr>));
              s3 = audit_scope c ''Updated DHCP scope'' (sc_name body2) srv (sc_id body2) (sc_name body2)
                     [(''subnet'', sc_subnet body2), (''rangeStart'', sc_start_range body2),
                      (''rangeEnd'', sc_end_range body2)] s2
          in (Done 200 body2, app_mark t s3))"

definition update_scope_handler ::
    "'w sync_env \<Rightarrow> caller \<Rightarrow> string \<Rightarrow> dhcp_scope option \<Rightarrow> 'w app \<Rightarrow> dhcp_scope response \<times> 'w app" where
  "update_scope_handler E c path req = ensure_permission c ''dhcp.manage'' (\<lambda>s.
     let scid = path_id path ''/api/dhcp/scopes/'' in
     if scid = [] then (Fail 404 ''not_found'', s)
     else case get_scope (ap_db s) scid of
       Inl e \<Rightarrow> (Fail (status_from_err e) ''scope_not_found'', s)
     | Inr old \<Rightarrow>
         (case req of
            None \<Rightarrow> (Fail 400 ''invalid_request'', s)
          | Some body \<Rightarrow>
              if trim_space (sc_name body) = [] then (Fail 400 ''invalid_scope'', s)
              else case get_server (ap_db s) (sc_server_id old) of
                Inl e \<Rightarrow> (Fail 404 ''server_not_found'', s)
              | Inr srv \<Rightarrow> ensure_agent_not_syncing (se_json_ok E) (sv_id srv) (\<lambda>s.
                  let body1 = updated_scope srv old body in
                  if validate_dhcp_scope_default_gateway (sc_subnet body1) (sc_default_gateway body1) \<noteq> None
                  then (Fail 400 ''invalid_default_gateway'', s)
                  else let body2 = normalize_dhcp_scope_lease_duration body1 in
                    if dhcp_scope_changed_fields old body2 = [] then (Done 200 old, s)
                    else let t = dhcp_scope_refresh_target (sv_id srv) (sc_id old) (scope_external_id old) (sc_name body2)
                      in with_operation t (update_scope_steps E c srv old body2 t) s) s))"

subsection \<open>Leases and reservations\<close>

text \<open>Releasing by the newer path, or on 404 by the older one.\<close>

definition call_or_older ::
    "'w sync_env \<Rightarrow> server \<Rightarrow> string \<Rightarrow> agent_body \<Rightarrow> string \<Rightarrow> 'w \<Rightarrow> (agent_error + unit) \<times> 'w" where
  "call_or_older E srv path body older w =
     (case agent_call (se_net E) MPost srv path body as_object w of
        (Inr v, w1) \<Rightarrow> (Inr v, w1)
      | (Inl e, w1) \<Rightarrow>
          if \<not> agent_not_found e then (Inl e, w1)
          else agent_call (se_net E) MDelete srv older NoBody as_object w1)"

definition delete_lease_handler ::
    "'w sync_env \<Rightarrow> caller \<Rightarrow> string \<Rightarrow> 'w app \<Rightarrow> unit response \<times> 'w app" where
  "delete_lease_handler E c path = ensure_permission c ''dhcp.manage'' (\<lambda>s.
     let i = path_id path ''/api/dhcp/leases/'' in
     if i = [] then (Fail 404 ''not_found'', s)
     else case get_lease (ap_db s) i of
       Inl e \<Rightarrow> (Fail (status_from_err e) ''lease_not_found'', s)
     | Inr l \<Rightarrow> with_scope E (l_scope_id l) (\<lambda>sc srv.
         let t = scope_op_target srv sc; ext = scope_external_id sc in
         with_operation t
           (agent_or_mark t ''agent_delete_lease_failed''
             (call_or_older E srv ''/dhcp/leases/release'' (LeaseRelease ext (l_ip l))
                (scopes_path ext @ ''/leases/'' @ path_escape (l_ip l)))
             (\<lambda>_ s1. (Done 200 (),
                app_mark t (audit_scope c ''Released DHCP lease'' (l_ip l) srv (sc_id sc) (sc_name sc)
                  [(''ip'', l_ip l), (''mac'', l_mac l), (''hostname'', l_hostname l)]
                  (app_store (delete_lease i) s1)))))) s)"

definition create_reservation_steps ::
    "'w sync_env \<Rightarrow> caller \<Rightarrow> string \<Rightarrow> dhcp_reservation \<Rightarrow> dhcp_scope \<Rightarrow> server \<Rightarrow> 'w app \<Rightarrow>
     dhcp_reservation response \<times> 'w app" where
  "create_reservation_steps E c nid body sc srv =
     (let t = scope_op_target srv sc; ext = scope_external_id sc in
      with_operation t
        (agent_or_mark t ''agent_create_reservation_failed''
          (agent_call (se_net E) MPost srv ''/dhcp/reservations'' (ReservationBody (body\<lparr>rv_scope_id := ext\<rparr>))
             (as_reservation zero_reservation))
          (\<lambda>ar s1.
             let body1 = (if trim_space (rv_ip ar) \<noteq> []
                   then body\<lparr>rv_ip := rv_ip ar, rv_mac := rv_mac ar, rv_name := rv_name ar,
                          rv_description := rv_description ar\<rparr> else body);
                 body2 = body1\<lparr>rv_scope_id := sc_id sc\<rparr>
             in case create_reservation nid body2 (ap_db s1) of
                  Inl e \<Rightarrow> (Fail (status_from_err e) ''create_reservation_snapshot_failed'', s1)
                | Inr (item, d) \<Rightarrow>
                    (let body3 = body2\<lparr>rv_id := rv_id item\<rparr>; s2 = s1\<lparr>ap_db := d\<rparr> in
                     case mark_lease_reserved_inactive_with_hostname (sc_id sc) (rv_ip body3) (rv_name body3) d of
                       Inl e \<Rightarrow> (Fail 500 ''update_lease_snapshot_failed'', s2)
                     | Inr d1 \<Rightarrow>
                         (Done 201 body3,
                          app_mark t (audit_scope c ''Created DHCP reservation'' (rv_ip body3) srv (sc_id sc) (sc_name sc)
                            [(''ip'', rv_ip body3), (''mac'', rv_mac body3), (''name'', rv_name body3)]
                            (s2\<lparr>ap_db := d1\<rparr>)))))))"

definition create_reservation_handler ::
    "'w sync_env \<Rightarrow> caller \<Rightarrow> string \<Rightarrow> dhcp_reservation option \<Rightarrow> 'w app \<Rightarrow> dhcp_reservation response \<times> 'w app" where
  "create_reservation_handler E c nid req = ensure_permission c ''dhcp.manage'' (\<lambda>s.
     case req of
       None \<Rightarrow> (Fail 400 ''invalid_request'', s)
     | Some body \<Rightarrow>
         if trim_space (rv_scope_id body) = [] \<or> trim_space (rv_ip body) = [] \<or> trim_space (rv_mac body) = []
         then (Fail 400 ''invalid_reservation'', s)
         else with_scope E (rv_scope_id body) (create_reservation_steps E c nid body) s)"

definition delete_reservation_handler ::
    "'w sync_env \<Rightarrow> caller \<Rightarrow> string \<Rightarrow> 'w app \<Rightarrow> unit response \<times> 'w app" where
  "delete_reservation_handler E c path = ensure_permission c ''dhcp.manage'' (\<lambda>s.
     let i = path_id path ''/api/dhcp/reservations/'' in
     if i = [] then (Fail 404 ''not_found'', s)
     else case get_reservation (ap_db s) i of
       Inl e \<Rightarrow> (Fail (status_from_err e) ''reservation_not_found'', s)
     | Inr rv \<Rightarrow> with_scope E (rv_scope_id rv) (\<lambda>sc srv.
         let t = scope_op_target srv sc; ext = scope_external_id sc in
         with_operation t
           (agent_or_mark t ''agent_delete_reservation_failed''
             (call_or_older E srv ''/dhcp/reservations/delete'' (ReservationDelete ext (rv_ip rv) (rv_mac rv))
                (''/dhcp/reservations/'' @ path_escape ext @ ''/'' @ path_escape (rv_ip rv)))
             (\<lambda>_ s1. (Done 200 (),
                app_mark t (audit_scope c ''Deleted DHCP reservation'' (rv_ip rv) srv (sc_id sc) (sc_name sc)
                  [(''ip'', rv_ip rv), (''mac'', rv_mac rv), (''name'', rv_name rv)]
                  (app_store (delete_lease_by_scope_ip (sc_id sc) (rv_ip rv))
                    (app_store (delete_reservation i) s1))))))) s)"

text \<open>An update keeps the address and the hardware address.\<close>

definition updated_reservation :: "string \<Rightarrow> dhcp_reservation \<Rightarrow> dhcp_reservation \<Rightarrow> dhcp_reservation" where
  "updated_reservation ext old body =
     body\<lparr>rv_id := rv_id old, rv_scope_id := ext, rv_ip := rv_ip old, rv_mac := rv_mac old,
        rv_external_id := (if trim_space (rv_external_id body) = [] then rv_ip old else rv_external_id body)\<rparr>"

definition update_reservation_steps ::
    "'w sync_env \<Rightarrow> caller \<Rightarrow> dhcp_reservation \<Rightarrow> dhcp_reservation \<Rightarrow> dhcp_scope \<Rightarrow> server \<Rightarrow> 'w app \<Rightarrow>
     dhcp_reservation response \<times> 'w app" where
  "update_reservation_steps E c old body sc srv =
     (let t = scope_op_target srv sc; ext = scope_external_id sc; new = updated_reservation ext old body in
      with_operation t
        (agent_or_mark t ''agent_update_reservation_failed''
          (agent_call (se_net E) MPost srv ''/dhcp/reservations/update''
             (ReservationUpdate (old\<lparr>rv_scope_id := ext\<rparr>) new) (as_reservation zero_reservation))
          (\<lambda>_ s1. case update_reservation (new\<lparr>rv_scope_id := sc_id sc\<rparr>) (ap_db s1) of
              (Inl e, d) \<Rightarrow> (Fail (status_from_err e) ''update_reservation_failed'', s1\<lparr>ap_db := d\<rparr>)
            | (Inr u, d) \<Rightarrow>
                (case update_lease_hostname_by_scope_ip (sc_id sc) (rv_ip u) (rv_name u) d of
                   Inl e \<Rightarrow> (Fail 500 ''update_lease_snapshot_failed'', s1\<lparr>ap_db := d\<rparr>)
                 | Inr d1 \<Rightarrow>
                     (Done 200 u,
                      app_mark t (audit_scope c ''Updated DHCP reservation'' (rv_ip u) srv (sc_id sc) (sc_name sc)
                        [(''oldIp'', rv_ip old), (''ip'', rv_ip u), (''mac'', rv_mac u), (''name'', rv_name u)]
                        (s1\<lparr>ap_db := d1\<rparr>)))))))"

definition update_reservation_handler ::
    "'w sync_env \<Rightarrow> caller \<Rightarrow> string \<Rightarrow> dhcp_reservation option \<Rightarrow> 'w app \<Rightarrow> dhcp_reservation response \<times> 'w app" where
  "update_reservation_handler E c path req = ensure_permission c ''dhcp.manage'' (\<lambda>s.
     let i = path_id path ''/api/dhcp/reservations/'' in
     if i = [] then (Fail 404 ''not_found'', s)
     else case get_reservation (ap_db s) i of
       Inl e \<Rightarrow> (Fail (status_from_err e) ''reservation_not_found'', s)
     | Inr old \<Rightarrow> with_scope E (rv_scope_id old) (\<lambda>sc srv s.
         case req of
           None \<Rightarrow> (Fail 400 ''invalid_request'', s)
         | Some body \<Rightarrow>
             if trim_space (rv_ip body) = [] \<or> trim_space (rv_mac body) = [] \<or> trim_space (rv_name body) = []
             then (Fail 400 ''invalid_reservation'', s)
             else update_reservation_steps E c old body sc srv s) s)"

subsection \<open>Exclusions\<close>

definition create_exclusion_steps ::
    "'w sync_env \<Rightarrow> caller \<Rightarrow> string \<Rightarrow> dhcp_exclusion \<Rightarrow> dhcp_scope \<Rightarrow> server \<Rightarrow> 'w app \<Rightarrow>
     dhcp_exclusion response \<times> 'w app" where
  "create_exclusion_steps E c nid body sc srv =
     (let t = scope_op_target srv sc; ext = scope_external_id sc in
      with_operation t
        (agent_or_mark t ''agent_create_exclusion_failed''
          (agent_call (se_net E) MPost srv ''/dhcp/exclusions'' (ExclusionBody (body\<lparr>ex_scope_id := ext\<rparr>))
             (as_exclusion zero_exclusion))
          (\<lambda>ae s1.
             let body1 = (if trim_space (ex_start_ip ae) \<noteq> []
                   then body\<lparr>ex_start_ip := ex_start_ip ae, ex_end_ip := ex_end_ip ae, ex_external_id := ex_external_id ae\<rparr>
                   else body);
                 body2 = body1\<lparr>ex_scope_id := sc_id sc\<rparr>;
                 (body3, s2) = (case create_exclusion nid (ca_now c) body2 (ap_db s1) of
                     Inl e \<Rightarrow> (body2, s1)
                   | Inr (item, d) \<Rightarrow> (item, s1\<lparr>ap_db := d\<rparr>))
             in (Done 201 body3,
                 app_mark t (audit_scope c ''Created DHCP exclusion'' (ex_start_ip body3 @ ''-'' @ ex_end_ip body3) srv
                   (sc_id sc) (sc_name sc) [(''startIp'', ex_start_ip body3), (''endIp'', ex_end_ip body3)] s2)))))"

definition create_exclusion_handler ::
    "'w sync_env \<Rightarrow> caller \<Rightarrow> string \<Rightarrow> dhcp_exclusion option \<Rightarrow> 'w app \<Rightarrow> dhcp_exclusion response \<times> 'w app" where
  "create_exclusion_handler E c nid req = ensure_permission c ''dhcp.manage'' (\<lambda>s.
     case req of
       None \<Rightarrow> (Fail 400 ''invalid_request'', s)
     | Some body \<Rightarrow>
         if trim_space (ex_scope_id body) = [] \<or> trim_space (ex_start_ip body) = [] \<or> trim_space (ex_end_ip body) = []
         then (Fail 400 ''invalid_exclusion'', s)
         else with_scope E (ex_scope_id body) (create_exclusion_steps E c nid body) s)"

definition delete_exclusion_handler ::
    "'w sync_env \<Rightarrow> caller \<Rightarrow> string \<Rightarrow> 'w app \<Rightarrow> unit response \<times> 'w app" where
  "delete_exclusion_handler E c path = ensure_permission c ''dhcp.manage'' (\<lambda>s.
     let i = path_id path ''/api/dhcp/exclusions/'' in
     if i = [] then (Fail 404 ''not_found'', s)
     else case get_exclusion (ap_db s) i of
       Inl e \<Rightarrow> (Fail (status_from_err e) ''exclusion_not_found'', s)
     | Inr x \<Rightarrow> with_scope E (ex_scope_id x) (\<lambda>sc srv.
         let t = scope_op_target srv sc in
         with_operation t
           (agent_or_mark t ''agent_delete_exclusion_failed''
             (agent_call (se_net E) MPost srv ''/dhcp/exclusions/delete''
                (ExclusionDelete (scope_external_id sc) (ex_start_ip x) (ex_end_ip x)) as_object)
             (\<lambda>_ s1. (Done 200 (),
                app_mark t (audit_scope c ''Deleted DHCP exclusion'' (ex_start_ip x @ ''-'' @ ex_end_ip x) srv
                  (sc_id sc) (sc_name sc) [(''startIp'', ex_start_ip x), (''endIp'', ex_end_ip x)]
                  (app_store (delete_exclusion i) s1)))))) s)"

subsection \<open>The contract of the requests\<close>

datatype dhcp_request =
    CreateScope string "dhcp_scope option"
  | ScopeAction string string
  | UpdateScope string "dhcp_scope option"
  | DeleteScope string
  | DeleteLease string
  | CreateReservation string "dhcp_reservation option"
  | UpdateReservation string "dhcp_reservation option"
  | DeleteReservation string
  | CreateExclusion string "dhcp_exclusion option"
  | DeleteExclusion string

definition handle_dhcp_request ::
    "'w sync_env \<Rightarrow> caller \<Rightarrow> dhcp_request \<Rightarrow> 'w app \<Rightarrow> unit response \<times> 'w app" where
  "handle_dhcp_request E c q s =
     (case q of
        CreateScope nid b \<Rightarrow> plain_answer (create_scope_handler E c nid b s)
      | ScopeAction nid path \<Rightarrow> plain_answer (scope_action_handler E c nid path s)
      | UpdateScope path b \<Rightarrow> plain_answer (update_scope_handler E c path b s)
      | DeleteScope path \<Rightarrow> plain_answer (delete_scope_handler E c path s)
      | DeleteLease path \<Rightarrow> plain_answer (delete_lease_handler E c path s)
      | CreateReservation nid b \<Rightarrow> plain_answer (create_reservation_handler E c nid b s)
      | UpdateReservation path b \<Rightarrow> plain_answer (update_reservation_handler E c path b s)
      | DeleteReservation path \<Rightarrow> plain_answer (delete_reservation_handler E c path s)
      | CreateExclusion nid b \<Rightarrow> plain_answer (create_exclusion_handler E c nid b s)
      | DeleteExclusion path \<Rightarrow> plain_answer (delete_exclusion_handler E c path s))"

text \<open>The scope a request is about, where it names one that exists.\<close>

definition scope_of_request :: "db \<Rightarrow> dhcp_request \<Rightarrow> string option" where
  "scope_of_request d q =
     (case q of
        CreateScope nid b \<Rightarrow> None
      | ScopeAction nid path \<Rightarrow> Some (fst (path_id_action path ''/api/dhcp/scopes/''))
      | UpdateScope path b \<Rightarrow> Some (path_id path ''/api/dhcp/scopes/'')
      | DeleteScope path \<Rightarrow> Some (path_id path ''/api/dhcp/scopes/'')
      | DeleteLease path \<Rightarrow> (case get_lease d (path_id path ''/api/dhcp/leases/'') of Inl e \<Rightarrow> None | Inr l \<Rightarrow> Some (l_scope_id l))
      | CreateReservation nid b \<Rightarrow> map_option rv_scope_id b
      | UpdateReservation path b \<Rightarrow>
          (case get_reservation d (path_id path ''/api/dhcp/reservations/'') of Inl e \<Rightarrow> None | Inr r \<Rightarrow> Some (rv_scope_id r))
      | DeleteReservation path \<Rightarrow>
          (case get_reservation d (path_id path ''/api/dhcp/reservations/'') of Inl e \<Rightarrow> None | Inr r \<Rightarrow> Some (rv_scope_id r))
      | CreateExclusion nid b \<Rightarrow> map_option ex_scope_id b
      | DeleteExclusion path \<Rightarrow>
          (case get_exclusion d (path_id path ''/api/dhcp/exclusions/'') of Inl e \<Rightarrow> None | Inr x \<Rightarrow> Some (ex_scope_id x)))"

text \<open>The refresh of a scope is owed: its target is marked.\<close>

definition scope_owed :: "db \<Rightarrow> string \<Rightarrow> 'w app \<Rightarrow> bool" where
  "scope_owed d scid s \<longleftrightarrow>
     (\<exists>sc srv. get_scope d scid = Inr sc \<and> get_server d (sc_server_id sc) = Inr srv \<and>
        (target_key (scope_op_target srv sc) = [] \<or> marked (target_key (scope_op_target srv sc)) s))"

text \<open>What a request answers before it begins its operation (\<open>settles\<close>), and inside it (\<open>step_ok\<close>). The
  parameters say what holds of the state when the agent refused (\<open>P\<close>) and on success (\<open>Q\<close>).\<close>

definition step_ok :: "('w app \<Rightarrow> bool) \<Rightarrow> ('w app \<Rightarrow> bool) \<Rightarrow> 'w app \<Rightarrow> 'a response \<times> 'w app \<Rightarrow> bool" where
  "step_ok P Q s rs \<longleftrightarrow> same_open s (snd rs) \<and> (\<forall>code x. fst rs = Done code x \<longrightarrow> Q (snd rs)) \<and>
     (\<forall>code msg. fst rs = Fail code msg \<longrightarrow> code \<in> {404, 500, 502} \<and>
        (code = 502 \<longrightarrow> ap_db (snd rs) = ap_db s \<and> P (snd rs)))"

definition settles :: "('w app \<Rightarrow> bool) \<Rightarrow> ('w app \<Rightarrow> bool) \<Rightarrow> 'w app \<Rightarrow> 'a response \<times> 'w app \<Rightarrow> bool" where
  "settles P Q s rs \<longleftrightarrow> same_open s (snd rs) \<and> (\<forall>code x. fst rs = Done code x \<longrightarrow> Q (snd rs)) \<and>
     (\<forall>code msg. fst rs = Fail code msg \<longrightarrow> (code \<in> {400, 403, 409} \<longrightarrow> snd rs = s) \<and>
        (code = 502 \<longrightarrow> ap_db (snd rs) = ap_db s \<and> P (snd rs)))"

lemma settles_refused [simp]: "code \<noteq> 502 \<Longrightarrow> settles P Q s (Fail code msg, s)"
  by (simp add: settles_def)

lemma settles_done [simp]: "settles P Q s (Done code x, s') \<longleftrightarrow> same_open s s' \<and> Q s'"
  by (simp add: settles_def)

lemma step_done [simp]: "step_ok P Q s (Done code x, s') \<longleftrightarrow> same_open s s' \<and> Q s'"
  by (simp add: step_ok_def)

lemma step_status [simp]: "step_ok P Q s (Fail (status_from_err e) msg, s') \<longleftrightarrow> same_open s s'"
  "step_ok P Q s (Fail 500 msg, s') \<longleftrightarrow> same_open s s'"
  by (simp_all add: step_ok_def status_from_err_def split: store_error.split)

lemma settles_permission: "(\<And>s. settles P Q s (k s)) \<Longrightarrow> settles P Q s (ensure_permission c p k s)"
  by (simp add: ensure_permission_def)

lemma settles_not_syncing: "settles P Q s (k s) \<Longrightarrow> settles P Q s (ensure_agent_not_syncing json_ok sid k s)"
  by (simp add: ensure_agent_not_syncing_def)

lemma settles_operation:
  assumes "step_ok P Q (app_begin t s) (k (app_begin t s))" and "\<And>s. P s \<Longrightarrow> P (app_finish t s)"
    and "\<And>s. Q s \<Longrightarrow> Q (app_finish t s)"
  shows "settles P Q s (with_operation t k s)"
proof -
  obtain r s' where k: "k (app_begin t s) = (r, s')" by fastforce
  then have w: "with_operation t k s = (r, app_finish t s')" by (simp add: with_operation_def)
  have step: "step_ok P Q (app_begin t s) (r, s')" using assms(1) k by simp
  then have "same_open (app_begin t s) s'" by (simp add: step_ok_def)
  then have "same_open s (app_finish t s')"
    by (auto simp: same_open_def app_begin_def app_finish_def active_of_steps)
  moreover have "code \<notin> {400, 403, 409} \<and> (code = 502 \<longrightarrow> ap_db s' = ap_db s \<and> P (app_finish t s'))"
    if "r = Fail code msg" for code msg
    using step that assms(2) [of s'] by (auto simp: step_ok_def)
  moreover have "Q (app_finish t s')" if "r = Done code x" for code x
    using step that assms(3) [of s'] by (simp add: step_ok_def)
  ultimately show ?thesis by (simp add: w settles_def)
qed

lemma step_agent_or_mark:
  assumes "\<And>v s1. same_open s s1 \<Longrightarrow> ap_db s1 = ap_db s \<Longrightarrow> step_ok P Q s (k v s1)"
    and "\<And>s1. P (app_mark t s1)"
  shows "step_ok P Q s (agent_or_mark t msg call k s)"
proof (cases "app_call call s")
  case (Pair r s1)
  note call = same_open_call [OF Pair] app_call_fields [OF Pair]
  show ?thesis
  proof (cases r)
    case (Inl e)
    then show ?thesis using Pair call assms(2) by (simp add: agent_or_mark_def step_ok_def)
  next
    case (Inr v)
    then show ?thesis using Pair assms(1) call by (simp add: agent_or_mark_def)
  qed
qed

text \<open>Only what is known of the scope and server matters inside \<open>with_scope\<close>.\<close>

lemma settles_with_scope:
  assumes "\<And>sc srv. get_scope (ap_db s) scid = Inr sc \<Longrightarrow> get_server (ap_db s) (sc_server_id sc) = Inr srv \<Longrightarrow>
      settles P Q s (k sc srv s)"
  shows "settles P Q s (with_scope E scid k s)"
  using assms by (auto simp: with_scope_def status_from_err_def intro: settles_not_syncing split: sum.split store_error.split)

lemma owed_finish: "scope_owed d scid s \<Longrightarrow> scope_owed d scid (app_finish t s)"
  unfolding scope_owed_def using marked_finish by blast

lemma owed_mark:
  "get_scope d scid = Inr sc \<Longrightarrow> get_server d (sc_server_id sc) = Inr srv \<Longrightarrow>
   target_key t = target_key (scope_op_target srv sc) \<Longrightarrow> scope_owed d scid (app_mark t s)"
  unfolding scope_owed_def by auto

text \<open>One operation on a scope: the agent is asked, then the rest runs.\<close>

lemma settles_scope_operation:
  assumes "get_scope (ap_db s) scid = Inr sc" "get_server (ap_db s) (sc_server_id sc) = Inr srv"
    and "target_key t = target_key (scope_op_target srv sc)"
    and "\<And>v s1. same_open (app_begin t s) s1 \<Longrightarrow> ap_db s1 = ap_db s \<Longrightarrow>
           step_ok (scope_owed (ap_db s) scid) Q (app_begin t s) (k v s1)"
    and "\<And>s. Q s \<Longrightarrow> Q (app_finish t s)"
  shows "settles (scope_owed (ap_db s) scid) Q s (with_operation t (agent_or_mark t msg call k) s)"
proof (rule settles_operation)
  show "step_ok (scope_owed (ap_db s) scid) Q (app_begin t s) (agent_or_mark t msg call k (app_begin t s))"
    by (rule step_agent_or_mark) (use assms in \<open>auto intro: owed_mark\<close>)
qed (use assms(5) in \<open>auto intro: owed_finish\<close>)

lemma same_open_more [simp]:
  "same_open s (audit_scope c a tgt srv i n m s') \<longleftrightarrow> same_open s s'"
  "same_open s (publish E ty task st msg s') \<longleftrightarrow> same_open s s'"
  "same_open s (s'\<lparr>ap_db := d\<rparr>) \<longleftrightarrow> same_open s s'"
    apply (simp add: audit_scope_def)
   apply (simp add: same_open_def publish_def publish_with_payload_def)
  apply (simp add: same_open_def)
  done

lemma settles_plain [simp]: "settles P Q s (plain_answer rs) \<longleftrightarrow> settles P Q s rs"
  by (cases rs, cases "fst rs") (auto simp: plain_answer_def settles_def)

lemma same_open_sched: "ap_sched s' = ap_sched s \<Longrightarrow> same_open s s'"
  by (simp add: same_open_def)

lemma scope_refresh_running:
  "enqueue_dhcp_scope_refresh E nid now sid scid ext sname by s = (Inl TargetRunning, s1) \<Longrightarrow> s1 = s"
  by (auto simp: enqueue_dhcp_scope_refresh_def queue_task_def split: sum.splits bool.splits prod.splits)

lemma create_scope_settles: "settles (\<lambda>_. True) (\<lambda>_. True) s (create_scope_handler E c nid req s)"
proof -
  have "step_ok (\<lambda>_. True) (\<lambda>_. True) s (create_scope_steps E c nid srv body s)" for srv body s
    unfolding create_scope_steps_def Let_def
    by (auto simp: step_ok_def split: sum.split prod.splits dest: same_open_call app_call_fields)
  then have "settles (\<lambda>_. True) (\<lambda>_. True) s (with_operation t (create_scope_steps E c nid srv body) s)" for t srv body s
    by (rule settles_operation) simp_all
  then show ?thesis
    unfolding create_scope_handler_def Let_def
    by (intro settles_permission) (auto intro: settles_not_syncing split: option.split sum.split)
qed

lemma scope_action_settles:
  "settles (scope_owed (ap_db s) (fst (path_id_action path ''/api/dhcp/scopes/''))) (\<lambda>_. True) s (scope_action_handler E c nid path s)"
proof -
  obtain scid action where p: "path_id_action path ''/api/dhcp/scopes/'' = (scid, action)" by (rule prod.exhaust)
  have refresh: "settles P (\<lambda>_. True) s
      (case enqueue_dhcp_scope_refresh E nid now sid i ext sn usr s of
          (Inl TargetRunning, s1) \<Rightarrow> (Fail 409 ''refresh_target_running'', s1)
        | (Inl LockUnavailable, s1) \<Rightarrow> (Fail 503 ''runtime_lock_unavailable'', s1)
        | (Inl (EnqueueFailed e), s1) \<Rightarrow> (Fail 500 ''refresh_scope_failed'', s1)
        | (Inr j, s1) \<Rightarrow> (Done 202 (Some j), audit_scope c a tgt srv i2 sn2 m s1))"
    for P s now sid i ext sn usr a tgt srv i2 sn2 m
    by (auto simp: settles_def split: prod.split sum.split enqueue_error.split
        dest: scope_refresh_running scope_queue intro!: same_open_sched)
  have toggle: "settles (scope_owed (ap_db s) scid) (\<lambda>_. True) s (toggle_scope_steps E c scid sc srv s)"
    if "get_scope (ap_db s) scid = Inr sc" "get_server (ap_db s) (sc_server_id sc) = Inr srv" for sc srv
    unfolding toggle_scope_steps_def Let_def by (rule settles_scope_operation [OF that refl]) simp_all
  show ?thesis
    unfolding scope_action_handler_def ensure_permission_def p fst_conv
    by (auto intro!: settles_with_scope refresh toggle)
qed

lemma delete_scope_settles:
  "settles (scope_owed (ap_db s) (path_id path ''/api/dhcp/scopes/'')) (\<lambda>_. True) s (delete_scope_handler E c path s)"
  unfolding delete_scope_handler_def ensure_permission_def Let_def
  by (auto intro!: settles_with_scope settles_scope_operation split: sum.split)

lemma update_scope_settles:
  "settles (scope_owed (ap_db s) (path_id path ''/api/dhcp/scopes/'')) (\<lambda>_. True) s (update_scope_handler E c path req s)"
proof -
  have "settles (scope_owed (ap_db s) scid) (\<lambda>_. True) s (with_operation t (update_scope_steps E c srv old body t) s)"
    if "get_scope (ap_db s) scid = Inr old" "get_server (ap_db s) (sc_server_id old) = Inr srv"
      "target_key t = target_key (scope_op_target srv old)" for scid old srv body t
    unfolding update_scope_steps_def Let_def
    by (rule settles_scope_operation [OF that]) (auto split: prod.split sum.split)
  moreover have "target_key (dhcp_scope_refresh_target (sv_id srv) (sc_id old) (scope_external_id old) n) =
      target_key (scope_op_target srv old)" for srv old n
    by (simp add: scope_op_target_def target_key_def dhcp_scope_refresh_target_def)
  ultimately show ?thesis
    unfolding update_scope_handler_def ensure_permission_def Let_def
    by (auto intro!: settles_not_syncing simp: status_from_err_def split: option.split sum.split store_error.split)
qed

text \<open>The same for the requests that find their scope through a row of it.\<close>

definition request_owed :: "db \<Rightarrow> dhcp_request \<Rightarrow> 'w app \<Rightarrow> bool" where
  "request_owed d q s \<longleftrightarrow> (\<forall>scid. scope_of_request d q = Some scid \<longrightarrow> scope_owed d scid s)"

lemma settles_request:
  "scope_of_request d q = Some scid \<Longrightarrow> settles (scope_owed d scid) (scope_owed d scid) s rs \<Longrightarrow>
   settles (request_owed d q) (request_owed d q) s rs"
  by (simp add: settles_def request_owed_def)

lemma delete_lease_settles: "settles (request_owed (ap_db s) (DeleteLease path)) (request_owed (ap_db s) (DeleteLease path)) s (delete_lease_handler E c path s)"
  unfolding delete_lease_handler_def ensure_permission_def Let_def
  by (auto intro!: settles_with_scope settles_request settles_scope_operation owed_finish owed_mark simp: status_from_err_def scope_of_request_def
      split: sum.split store_error.split)

lemma create_reservation_settles:
  "settles (request_owed (ap_db s) (CreateReservation nid req)) (request_owed (ap_db s) (CreateReservation nid req)) s (create_reservation_handler E c nid req s)"
proof -
  have "settles (scope_owed (ap_db s) scid) (scope_owed (ap_db s) scid) s (create_reservation_steps E c nid body sc srv s)"
    if "get_scope (ap_db s) scid = Inr sc" "get_server (ap_db s) (sc_server_id sc) = Inr srv" for scid body sc srv
    unfolding create_reservation_steps_def Let_def
    by (rule settles_scope_operation [OF that refl]) (use that in \<open>auto intro: owed_mark owed_finish split: sum.split prod.split\<close>)
  then show ?thesis
    unfolding create_reservation_handler_def ensure_permission_def
    by (auto intro!: settles_with_scope settles_request simp: scope_of_request_def split: option.split)
qed

lemma update_reservation_settles:
  "settles (request_owed (ap_db s) (UpdateReservation path req)) (request_owed (ap_db s) (UpdateReservation path req)) s (update_reservation_handler E c path req s)"
proof -
  have "settles (scope_owed (ap_db s) scid) (scope_owed (ap_db s) scid) s (update_reservation_steps E c old body sc srv s)"
    if "get_scope (ap_db s) scid = Inr sc" "get_server (ap_db s) (sc_server_id sc) = Inr srv" for scid old body sc srv
    unfolding update_reservation_steps_def Let_def
    by (rule settles_scope_operation [OF that refl]) (use that in \<open>auto intro: owed_mark owed_finish split: sum.split prod.split\<close>)
  then show ?thesis
    unfolding update_reservation_handler_def ensure_permission_def Let_def
    by (auto intro!: settles_with_scope settles_request simp: status_from_err_def scope_of_request_def
        split: option.split sum.split store_error.split)
qed

lemma delete_reservation_settles:
  "settles (request_owed (ap_db s) (DeleteReservation path)) (request_owed (ap_db s) (DeleteReservation path)) s (delete_reservation_handler E c path s)"
  unfolding delete_reservation_handler_def ensure_permission_def Let_def
  by (auto intro!: settles_with_scope settles_request settles_scope_operation owed_finish owed_mark simp: status_from_err_def scope_of_request_def
      split: sum.split store_error.split)

lemma create_exclusion_settles:
  "settles (request_owed (ap_db s) (CreateExclusion nid req)) (request_owed (ap_db s) (CreateExclusion nid req)) s (create_exclusion_handler E c nid req s)"
proof -
  have "settles (scope_owed (ap_db s) scid) (scope_owed (ap_db s) scid) s (create_exclusion_steps E c nid body sc srv s)"
    if "get_scope (ap_db s) scid = Inr sc" "get_server (ap_db s) (sc_server_id sc) = Inr srv" for scid body sc srv
    unfolding create_exclusion_steps_def Let_def
    by (rule settles_scope_operation [OF that refl]) (use that in \<open>auto intro: owed_mark owed_finish split: sum.split prod.split\<close>)
  then show ?thesis
    unfolding create_exclusion_handler_def ensure_permission_def
    by (auto intro!: settles_with_scope settles_request simp: scope_of_request_def split: option.split)
qed

lemma delete_exclusion_settles:
  "settles (request_owed (ap_db s) (DeleteExclusion path)) (request_owed (ap_db s) (DeleteExclusion path)) s (delete_exclusion_handler E c path s)"
  unfolding delete_exclusion_handler_def ensure_permission_def Let_def
  by (auto intro!: settles_with_scope settles_request settles_scope_operation owed_finish owed_mark simp: status_from_err_def scope_of_request_def
      split: sum.split store_error.split)

lemma settles_mono:
  "settles P Q s rs \<Longrightarrow> (\<And>s'. P s' \<Longrightarrow> P' s') \<Longrightarrow> (\<And>s'. Q s' \<Longrightarrow> Q' s') \<Longrightarrow> settles P' Q' s rs"
  unfolding settles_def by blast

text \<open>The requests that change one row of a scope, not the scope itself.\<close>

definition about_rows :: "dhcp_request \<Rightarrow> bool" where
  "about_rows q = (case q of CreateScope _ _ \<Rightarrow> False | ScopeAction _ _ \<Rightarrow> False | UpdateScope _ _ \<Rightarrow> False
     | DeleteScope _ \<Rightarrow> False | _ \<Rightarrow> True)"

lemma settles_row:
  "settles P P s rs \<Longrightarrow> settles P (\<lambda>s'. b \<longrightarrow> P s') s rs"
  by (erule settles_mono) auto

lemma dhcp_request_settles:
  "settles (request_owed (ap_db s) q) (\<lambda>s'. about_rows q \<longrightarrow> request_owed (ap_db s) q s') s (handle_dhcp_request E c q s)"
proof -
  have scope: "settles (request_owed (ap_db s) q) (\<lambda>s'. about_rows q \<longrightarrow> request_owed (ap_db s) q s') s rs"
    if "settles (scope_owed (ap_db s) scid) (\<lambda>_. True) s rs" "scope_of_request (ap_db s) q = Some scid" "\<not> about_rows q" for scid rs
    by (rule settles_mono [OF that(1)]) (use that in \<open>auto simp: request_owed_def\<close>)
  show ?thesis
  proof (cases q)
    case (CreateScope nid b)
    show ?thesis unfolding CreateScope handle_dhcp_request_def
      by (simp, rule settles_mono [OF create_scope_settles]) (simp_all add: request_owed_def scope_of_request_def about_rows_def)
  next
    case (ScopeAction nid path)
    have "settles (request_owed (ap_db s) q) (\<lambda>s'. about_rows q \<longrightarrow> request_owed (ap_db s) q s') s (scope_action_handler E c nid path s)"
      by (rule scope [OF scope_action_settles]) (simp_all add: ScopeAction scope_of_request_def about_rows_def)
    then show ?thesis by (simp add: ScopeAction handle_dhcp_request_def)
  next
    case (UpdateScope path b)
    have "settles (request_owed (ap_db s) q) (\<lambda>s'. about_rows q \<longrightarrow> request_owed (ap_db s) q s') s (update_scope_handler E c path b s)"
      by (rule scope [OF update_scope_settles]) (simp_all add: UpdateScope scope_of_request_def about_rows_def)
    then show ?thesis by (simp add: UpdateScope handle_dhcp_request_def)
  next
    case (DeleteScope path)
    have "settles (request_owed (ap_db s) q) (\<lambda>s'. about_rows q \<longrightarrow> request_owed (ap_db s) q s') s (delete_scope_handler E c path s)"
      by (rule scope [OF delete_scope_settles]) (simp_all add: DeleteScope scope_of_request_def about_rows_def)
    then show ?thesis by (simp add: DeleteScope handle_dhcp_request_def)
  qed (simp_all only: handle_dhcp_request_def dhcp_request.case settles_plain settles_row [OF delete_lease_settles]
      settles_row [OF create_reservation_settles] settles_row [OF update_reservation_settles]
      settles_row [OF delete_reservation_settles] settles_row [OF create_exclusion_settles] settles_row [OF delete_exclusion_settles])
qed

interpretation dhcp_requests: balanced_handler "handle_dhcp_request E c"
  by unfold_locales (use dhcp_request_settles in \<open>auto simp: settles_def\<close>)


subsection \<open>A reservation the snapshot does not take\<close>

lemma marked_begin_finish:
  "marked k (app_begin t s) \<longleftrightarrow> marked k s" "marked k (app_finish t s) \<longleftrightarrow> marked k s"
  "marked k (s\<lparr>ap_world := w\<rparr>) \<longleftrightarrow> marked k s"
  by (auto simp: marked_def app_begin_def app_finish_def op_begin_def op_finish_def state_for_def arm_def Let_def
      split: option.splits if_splits)

lemma reservation_taken:
  "list_ex (\<lambda>r. reservation_key r = reservation_key b) (db_reservations d) \<Longrightarrow>
   \<exists>e. create_reservation nid b d = Inl e \<and> status_from_err e = 500"
  by (simp add: create_reservation_def status_from_err_def)

text \<open>When the agent has created a reservation but the snapshot has one for its address already, the
  answer is 500 and nothing is done about it: the database is as before, there is no audit entry, and the
  scope is not marked, so no refresh will show the reservation of the agent.\<close>

theorem reservation_conflict_unrecorded:
  assumes "has_permission (ca_user c) ''dhcp.manage''"
    and "trim_space (rv_scope_id body) \<noteq> []" "trim_space (rv_ip body) \<noteq> []" "trim_space (rv_mac body) \<noteq> []"
    and "get_scope (ap_db s) (rv_scope_id body) = Inr sc" "get_server (ap_db s) (sc_server_id sc) = Inr srv"
    and "\<not> is_agent_sync_running (se_json_ok E) (sv_id srv) (ap_redis s)"
    and "agent_call (se_net E) MPost srv ''/dhcp/reservations'' (ReservationBody (body\<lparr>rv_scope_id := scope_external_id sc\<rparr>))
           (as_reservation zero_reservation) (ap_world s) = (Inr ar, w)"
    and "list_ex (\<lambda>r. reservation_key r = (sc_id sc, if trim_space (rv_ip ar) \<noteq> [] then rv_ip ar else rv_ip body))
           (db_reservations (ap_db s))"
  shows "\<exists>s'. create_reservation_handler E c nid (Some body) s = (Fail 500 ''create_reservation_snapshot_failed'', s') \<and>
     ap_world s' = w \<and> ap_db s' = ap_db s \<and> (\<forall>k. marked k s' \<longleftrightarrow> marked k s)"
proof -
  let ?body1 = "if trim_space (rv_ip ar) \<noteq> [] then body\<lparr>rv_ip := rv_ip ar, rv_mac := rv_mac ar, rv_name := rv_name ar,
      rv_description := rv_description ar\<rparr> else body"
  have "list_ex (\<lambda>r. reservation_key r = reservation_key (?body1\<lparr>rv_scope_id := sc_id sc\<rparr>)) (db_reservations (ap_db s))"
    using assms(9) by (cases "trim_space (rv_ip ar) = []") (simp_all add: reservation_key_def)
  then obtain e where e: "create_reservation nid (?body1\<lparr>rv_scope_id := sc_id sc\<rparr>) (ap_db s) = Inl e" "status_from_err e = 500"
    using reservation_taken by blast
  show ?thesis
    using assms(1-4,7) e
    by (simp add: create_reservation_handler_def ensure_permission_def with_scope_def ensure_agent_not_syncing_def
        create_reservation_steps_def with_operation_def agent_or_mark_def app_call_def assms(5,6,8) Let_def marked_begin_finish)
qed

definition sample_reservation :: dhcp_reservation where
  "sample_reservation = zero_reservation\<lparr>rv_id := ''r'', rv_scope_id := ''1'', rv_ip := ''10.0.0.7'', rv_mac := ''aa-bb''\<rparr>"

definition reserved_app :: "nat app" where
  "reserved_app = dhcp_app\<lparr>ap_db := dhcp_db\<lparr>db_reservations := [sample_reservation]\<rparr>\<rparr>"

theorem reservation_conflict_unrecorded_witness:
  "fst (create_reservation_handler (sample_env (answering ObjectData)) sample_admin ''n'' (Some sample_reservation) reserved_app)
     = Fail 500 ''create_reservation_snapshot_failed''"
proof -
  let ?E = "sample_env (answering ObjectData)"
  have perm: "has_permission (ca_user sample_admin) p" for p by (simp add: has_permission_def sample_admin_def)
  have fields: "trim_space (rv_scope_id sample_reservation) \<noteq> []" "trim_space (rv_ip sample_reservation) \<noteq> []"
      "trim_space (rv_mac sample_reservation) \<noteq> []"
    by (simp_all add: sample_reservation_def trim_space_graph graph_ends_def char_code_def)
  obtain sc srv where found: "get_scope (ap_db reserved_app) (rv_scope_id sample_reservation) = Inr sc"
      "get_server (ap_db reserved_app) (sc_server_id sc) = Inr srv" "sc_id sc = ''1''"
    by (rule that [of "normalize_scope_lease (sample_scope ''1'' ''s'' ''10.0.0.0'')" "hd (db_servers dhcp_db)"])
      (simp_all add: get_scope_def get_server_def reserved_app_def sample_reservation_def find_row_def normalize_scope_lease_def
        Let_def dhcp_sample_simps)
  have idle: "\<not> is_agent_sync_running j i (ap_redis reserved_app)" for j i
    by (simp add: is_agent_sync_running_def rt_get_json_def rt_get_def reserved_app_def dhcp_app_def empty_redis_def live_def)
  have agent: "agent_call (se_net ?E) m srv p b (as_reservation zero_reservation) x = (Inr zero_reservation, Suc x)" for m p b x
    by (simp add: agent_call_def agent_do_def answering_def as_reservation_def Let_def)
  have "trim_space (rv_ip zero_reservation) = []" by (simp add: zero_reservation_def)
  then have taken: "list_ex (\<lambda>r. reservation_key r = (sc_id sc, if trim_space (rv_ip zero_reservation) \<noteq> []
      then rv_ip zero_reservation else rv_ip sample_reservation)) (db_reservations (ap_db reserved_app))"
    using found(3) by (simp add: reserved_app_def reservation_key_def sample_reservation_def)
  show ?thesis
    using reservation_conflict_unrecorded [OF perm fields found(1,2) idle agent taken, of "''n''"] by auto
qed

end
