(* ===== verification/ZL_Servers.thy ===== *)
theory ZL_Servers
  imports ZL_Dhcp_Handlers
begin

text \<open>
  The managed servers: the statements of \<open>internal/repository/resources.go\<close> on them, the whole state a
  client reads (\<open>State\<close>, \<open>filterStateForUser\<close>) and the requests of \<open>api/router/resources_agents.go\<close>.
  \<open>advice\<close> gives the text of an agent error for the user, \<open>pg\<close> and \<open>rd\<close> are what pinging the database
  and Redis answered, \<open>entry\<close> decodes a health entry of Redis to its failure count.
\<close>

subsection \<open>Statements\<close>

definition get_server_by_name :: "db \<Rightarrow> string \<Rightarrow> store_error + server" where
  "get_server_by_name d n =
     (if db_fault d ''GetServerByName'' n then Inl DbError
      else case find_row (\<lambda>s. sv_name s = n) (db_servers d) of None \<Rightarrow> Inl NotFound | Some s \<Rightarrow> Inr s)"

definition get_server_by_agent_url :: "db \<Rightarrow> string \<Rightarrow> store_error + server" where
  "get_server_by_agent_url d u =
     (if db_fault d ''GetServerByURL'' u then Inl DbError
      else case find_row (\<lambda>s. sv_agent_url s = u) (db_servers d) of None \<Rightarrow> Inl NotFound | Some s \<Rightarrow> Inr s)"

text \<open>The name is unique, and so is the address (\<open>idx_servers_agent_url_unique\<close>).\<close>

definition create_server :: "string \<Rightarrow> gotime \<Rightarrow> server \<Rightarrow> db \<Rightarrow> store_error + (server \<times> db)" where
  "create_server nid now item d =
     (if db_fault d ''CreateServer'' (sv_name item) then Inl DbError
      else if list_ex (\<lambda>s. sv_id s = nid \<or> sv_name s = sv_name item \<or> sv_agent_url s = sv_agent_url item) (db_servers d)
      then Inl UniqueViolation
      else Inr (item\<lparr>sv_id := nid, sv_status := ''Online'', sv_last_checked := now\<rparr>,
             d\<lparr>db_servers := db_servers d @
                [item\<lparr>sv_id := nid, sv_status := ''Online'', sv_failure_count := 0, sv_last_checked := now\<rparr>]\<rparr>))"

text \<open>\<open>ON DELETE CASCADE\<close>: the zones and scopes of the server go, and all rows below them.\<close>

definition delete_server :: "string \<Rightarrow> db \<Rightarrow> store_error + db" where
  "delete_server i d =
     (if db_fault d ''DeleteServer'' i then Inl DbError
      else if \<not> list_ex (\<lambda>s. sv_id s = i) (db_servers d) then Inl NotFound
      else Inr ((delete_scopes_where (\<lambda>x. sc_server_id x = i) (delete_zones_where (\<lambda>z. z_server_id z = i) d))
             \<lparr>db_servers := delete_rows (\<lambda>s. sv_id s = i) (db_servers d)\<rparr>))"

definition list_dns_records :: "db \<Rightarrow> store_error + dns_record list" where
  "list_dns_records d =
     (if db_fault d ''ListRecords'' [] then Inl DbError
      else Inr (sort_key (\<lambda>r. (r_name r, r_type r, r_value r)) (db_records d)))"

definition list_audit :: "db \<Rightarrow> store_error + audit_entry list" where
  "list_audit d =
     (if db_fault d ''ListAudit'' [] then Inl DbError else Inr (take 500 (newest_first a_ts (db_audit d))))"

subsection \<open>The state a client reads\<close>

record client_state =
  cs_servers :: "server list"
  cs_zones :: "dns_zone list"
  cs_records :: "dns_record list"
  cs_scopes :: "dhcp_scope list"
  cs_exclusions :: "dhcp_exclusion list"
  cs_leases :: "dhcp_lease list"
  cs_reservations :: "dhcp_reservation list"
  cs_audit :: "audit_entry list"

definition read_state :: "db \<Rightarrow> store_error + client_state" where
  "read_state d =
     (case list_servers d of Inl e \<Rightarrow> Inl e | Inr srvs \<Rightarrow>
      case list_dns_zones d of Inl e \<Rightarrow> Inl e | Inr zs \<Rightarrow>
      case list_dns_records d of Inl e \<Rightarrow> Inl e | Inr rs \<Rightarrow>
      case list_scopes d of Inl e \<Rightarrow> Inl e | Inr scs \<Rightarrow>
      case list_exclusions d of Inl e \<Rightarrow> Inl e | Inr exs \<Rightarrow>
      case list_leases d of Inl e \<Rightarrow> Inl e | Inr ls \<Rightarrow>
      case list_reservations d of Inl e \<Rightarrow> Inl e | Inr rvs \<Rightarrow>
      case list_audit d of Inl e \<Rightarrow> Inl e | Inr au \<Rightarrow>
        Inr \<lparr>cs_servers = srvs, cs_zones = zs, cs_records = rs, cs_scopes = scs, cs_exclusions = exs, cs_leases = ls,
          cs_reservations = rvs, cs_audit = au\<rparr>)"

definition filter_state_for_user :: "user \<Rightarrow> client_state \<Rightarrow> client_state" where
  "filter_state_for_user u st =
     (let dash = has_permission u ''dashboard.read'';
          st1 = (if \<not> dash \<and> \<not> has_permission u ''servers.read'' then st\<lparr>cs_servers := []\<rparr> else st);
          st2 = (if \<not> dash \<and> \<not> has_permission u ''dns.read'' then st1\<lparr>cs_zones := [], cs_records := []\<rparr> else st1);
          st3 = (if \<not> dash \<and> \<not> has_permission u ''dhcp.read''
                 then st2\<lparr>cs_scopes := [], cs_exclusions := [], cs_leases := [], cs_reservations := []\<rparr> else st2)
      in if \<not> dash \<and> \<not> has_permission u ''audit.read'' then st3\<lparr>cs_audit := []\<rparr> else st3)"

definition attach_agent_health_runtime :: "(string \<Rightarrow> int option option) \<Rightarrow> redis \<Rightarrow> server \<Rightarrow> server" where
  "attach_agent_health_runtime entry r srv =
     (if trim_space (sv_id srv) = [] then srv
      else case rt_get (agent_health_runtime_key (sv_id srv)) r of
        Inr (Some raw) \<Rightarrow>
          (case entry raw of Some (Some n) \<Rightarrow> srv\<lparr>sv_failure_count := n\<rparr> | _ \<Rightarrow> srv)
      | _ \<Rightarrow> srv)"

definition state_handler ::
    "(string \<Rightarrow> int option option) \<Rightarrow> caller \<Rightarrow> 'w app \<Rightarrow> client_state response \<times> 'w app" where
  "state_handler entry c s =
     (case read_state (ap_db s) of
        Inl e \<Rightarrow> (Fail 500 ''state_failed'', s)
      | Inr st \<Rightarrow>
          (Done 200 (filter_state_for_user (ca_user c)
             (st\<lparr>cs_servers := map (attach_agent_health_runtime entry (ap_redis s)) (cs_servers st)\<rparr>)), s))"

subsection \<open>Health of the platform\<close>

definition health_part ::
    "'w sync_env \<Rightarrow> string \<Rightarrow> gotime \<Rightarrow> string \<Rightarrow> string option \<Rightarrow> 'w app \<Rightarrow> 'w app" where
  "health_part E nid now service outcome s =
     (case outcome of
        None \<Rightarrow> clear_platform_service_notification now service s
      | Some detail \<Rightarrow> notify_platform_service_issue nid now service
          (se_json E [(''service'', trim_space service), (''status'', ''offline''), (''error'', detail)]) s)"

definition health_handler ::
    "'w sync_env \<Rightarrow> string \<Rightarrow> string \<Rightarrow> gotime \<Rightarrow> string option \<Rightarrow> string option \<Rightarrow> 'w app \<Rightarrow>
     (string \<times> (string \<times> string option) list) response \<times> 'w app" where
  "health_handler E nid1 nid2 now pg rd s =
     (Done 200 (if pg = None \<and> rd = None then ''ok'' else ''degraded'', [(''postgresql'', pg), (''redis'', rd)]),
      health_part E nid2 now ''redis'' rd (health_part E nid1 now ''postgresql'' pg s))"

subsection \<open>Requests\<close>

datatype unique_error = NameDuplicate | UrlDuplicate | UniqueCheckFailed

definition ensure_server_unique :: "db \<Rightarrow> string \<Rightarrow> string \<Rightarrow> unique_error option" where
  "ensure_server_unique d name url =
     (case get_server_by_name d name of
        Inr x \<Rightarrow> Some NameDuplicate
      | Inl e \<Rightarrow>
          if e \<noteq> NotFound then Some UniqueCheckFailed
          else case get_server_by_agent_url d url of
            Inr x \<Rightarrow> Some UrlDuplicate
          | Inl e \<Rightarrow> if e \<noteq> NotFound then Some UniqueCheckFailed else None)"

definition valid_agent_role :: "string \<Rightarrow> bool" where
  "valid_agent_role r \<longleftrightarrow> to_lower (trim_space r) \<in> {''dns'', ''dhcp''}"

definition trimmed_server :: "server \<Rightarrow> server" where
  "trimmed_server b = b\<lparr>sv_name := trim_space (sv_name b), sv_agent_url := trim_right_slash (trim_space (sv_agent_url b)),
     sv_api_key := trim_space (sv_api_key b), sv_role := trim_space (sv_role b)\<rparr>"

definition http_url :: "string \<Rightarrow> bool" where
  "http_url u \<longleftrightarrow> has_prefix u ''http://'' \<or> has_prefix u ''https://''"

definition create_server_handler ::
    "caller \<Rightarrow> string \<Rightarrow> server option \<Rightarrow> 'w app \<Rightarrow> server response \<times> 'w app" where
  "create_server_handler c nid req = ensure_permission c ''servers.manage'' (\<lambda>s.
     case req of
       None \<Rightarrow> (Fail 400 ''invalid_request'', s)
     | Some raw \<Rightarrow>
         (let body = trimmed_server raw in
          if sv_name body = [] \<or> sv_agent_url body = [] then (Fail 400 ''invalid_server'', s)
          else if sv_role body = [] then (Fail 400 ''invalid_server'', s)
          else if \<not> valid_agent_role (sv_role body) then (Fail 400 ''invalid_server'', s)
          else if \<not> http_url (sv_agent_url body) then (Fail 400 ''invalid_agent_url'', s)
          else case ensure_server_unique (ap_db s) (sv_name body) (sv_agent_url body) of
            Some NameDuplicate \<Rightarrow> (Fail 409 ''server_name_exists'', s)
          | Some UrlDuplicate \<Rightarrow> (Fail 409 ''server_agent_url_exists'', s)
          | Some UniqueCheckFailed \<Rightarrow> (Fail 500 ''check_server_unique_failed'', s)
          | None \<Rightarrow>
              (let body1 = (if trim_space (sv_host body) = [] then body\<lparr>sv_host := sv_name body\<rparr> else body) in
               case create_server nid (ca_now c) body1 (ap_db s) of
                 Inl UniqueViolation \<Rightarrow> (Fail 409 ''server_name_exists'', s)
               | Inl e \<Rightarrow> (Fail 500 ''create_server_failed'', s)
               | Inr (item, d) \<Rightarrow>
                   (Done 201 item, app_audit c ''Created server'' (sv_name item) ''Server''
                      (server_audit_metadata item []) (s\<lparr>ap_db := d\<rparr>)))))"

text \<open>What probing an agent tells: its status and, when it fails, the advice.\<close>

definition probe_outcome :: "(agent_advice \<Rightarrow> string) \<Rightarrow> (agent_error + unit) \<Rightarrow> string \<times> string" where
  "probe_outcome advice r =
     (case r of Inl e \<Rightarrow> (''Offline'', advice (user_facing_error_message (Some e))) | Inr _ \<Rightarrow> (''Online'', []))"

definition probe_server_handler ::
    "'w sync_env \<Rightarrow> (agent_advice \<Rightarrow> string) \<Rightarrow> caller \<Rightarrow> server option \<Rightarrow> 'w app \<Rightarrow> (string \<times> string) response \<times> 'w app" where
  "probe_server_handler E advice c req = ensure_permission c ''servers.manage'' (\<lambda>s.
     case req of
       None \<Rightarrow> (Fail 400 ''invalid_request'', s)
     | Some raw \<Rightarrow>
         (let body = (trimmed_server raw)\<lparr>sv_name := sv_name raw\<rparr> in
          if sv_agent_url body = [] then (Fail 400 ''missing_agent_fields'', s)
          else if \<not> valid_agent_role (sv_role body) then (Fail 400 ''invalid_server'', s)
          else if \<not> http_url (sv_agent_url body) then (Fail 400 ''invalid_agent_url'', s)
          else case app_call (agent_validate (se_net E) body (sv_role body)) s of
            (r, s1) \<Rightarrow> (Done 200 (probe_outcome advice r), s1)))"

definition delete_server_handler :: "caller \<Rightarrow> string \<Rightarrow> 'w app \<Rightarrow> unit response \<times> 'w app" where
  "delete_server_handler c path = ensure_permission c ''servers.manage'' (\<lambda>s.
     let i = path_id path ''/api/servers/'' in
     if i = [] then (Fail 404 ''not_found'', s)
     else case get_server (ap_db s) i of
       Inl e \<Rightarrow> (Fail (status_from_err e) ''server_not_found'', s)
     | Inr srv \<Rightarrow>
         (case delete_server i (ap_db s) of
            Inl e \<Rightarrow> (Fail (status_from_err e) ''delete_server_failed'', s)
          | Inr d \<Rightarrow>
              (let s1 = clear_source (ca_now c) ''agent_health'' i (s\<lparr>ap_db := d\<rparr>);
                   s2 = s1\<lparr>ap_redis := snd (rt_delete (agent_health_runtime_key i) (ap_redis s1))\<rparr>
               in (Done 200 (), app_audit c ''Deleted server'' (sv_name srv) ''Server'' (server_audit_metadata srv []) s2))))"

text \<open>A check the user asked for (\<open>auto\<close> is not set) puts a failing agent offline at once.\<close>

definition agent_offline_failure_limit :: "db \<Rightarrow> int" where
  "agent_offline_failure_limit d =
     (case get_system_base_config d of
        Inl e \<Rightarrow> bc_offline_failure_count default_base_config
      | Inr b \<Rightarrow> bc_offline_failure_count (normalize_base_config b))"

definition ping_server ::
    "'w sync_env \<Rightarrow> (agent_advice \<Rightarrow> string) \<Rightarrow> caller \<Rightarrow> string \<Rightarrow> bool \<Rightarrow> string \<Rightarrow> server \<Rightarrow> 'w app \<Rightarrow>
     (refresh_job + string \<times> string) response \<times> 'w app" where
  "ping_server E advice c nid auto i srv s =
     (case app_call (agent_validate (se_net E) srv (sv_role srv)) s of
        (r, s1) \<Rightarrow>
          (let (status, detail) = probe_outcome advice r;
               limit = (if status = ''Offline'' \<and> \<not> auto then 1 else agent_offline_failure_limit (ap_db s1))
           in case update_server_health (ap_db s1) i status limit (ca_now c) of
                Inl e \<Rightarrow> (Fail 500 ''update_health_failed'', s1)
              | Inr (hu, d) \<Rightarrow>
                  (let s2 = cache_agent_health E srv status detail (hu_failures hu) (s1\<lparr>ap_db := d\<rparr>);
                       s3 = (if hu_status hu = ''Online'' then clear_agent_offline_notification (ca_now c) srv s2
                             else if became_offline hu then
                               notify_agent_offline nid (ca_now c) srv
                                 (se_json E [(''server'', agent_display_name (\<lambda>h. h) srv), (''serverId'', sv_id srv),
                                    (''status'', ''Offline''), (''error'', detail)]) s2
                             else s2);
                       m = (''status'', status) # (if trim_space detail \<noteq> [] then [(''error'', detail)] else []);
                       s4 = (if auto then s3
                             else s3\<lparr>ap_db := audit c ''Checked server health'' (sv_name srv) ''Server''
                               (if status = ''Online'' then ''success'' else ''failed'') (server_audit_metadata srv m) (ap_db s3)\<rparr>)
                   in (Done 200 (Inr (status, detail)), s4))))"

definition server_action_handler ::
    "'w sync_env \<Rightarrow> (agent_advice \<Rightarrow> string) \<Rightarrow> caller \<Rightarrow> string \<Rightarrow> bool \<Rightarrow> bool \<Rightarrow> string \<Rightarrow> 'w app \<Rightarrow>
     (refresh_job + string \<times> string) response \<times> 'w app" where
  "server_action_handler E advice c nid auto skip_health path = ensure_permission c ''servers.manage'' (\<lambda>s.
     case path_id_action path ''/api/servers/'' of (i, action) \<Rightarrow>
     if i = [] \<or> action \<noteq> ''ping'' \<and> action \<noteq> ''sync'' then (Fail 404 ''not_found'', s)
     else case get_server (ap_db s) i of
       Inl e \<Rightarrow> (Fail 404 ''server_not_found'', s)
     | Inr srv \<Rightarrow>
         if action = ''sync'' then
           ensure_agent_not_syncing (se_json_ok E) (sv_id srv) (\<lambda>s.
             case enqueue_server_refresh E nid (ca_now c) (sv_id srv) (sv_name srv) (u_id (ca_user c)) skip_health s of
               (Inl e, s1) \<Rightarrow> (Fail 500 ''sync_server_failed'', s1)
             | (Inr j, s1) \<Rightarrow>
                 (Done 202 (Inl j), app_audit c ''Queued server sync'' (sv_name srv) ''Server''
                    (server_audit_metadata srv []) s1)) s
         else ping_server E advice c nid auto i srv s)"

subsection \<open>What a client may see\<close>

lemma read_state_parts:
  assumes "read_state d = Inr st"
  shows "cs_servers st = sort_key sv_name (db_servers d)" "cs_zones st = sort_key z_name (db_zones d)"
    "cs_records st = sort_key (\<lambda>r. (r_name r, r_type r, r_value r)) (db_records d)"
    "cs_scopes st = map normalize_scope_lease (sort_key sc_name (db_scopes d))"
    "cs_exclusions st = sort_key (\<lambda>e. (ex_start_ip e, ex_end_ip e)) (db_exclusions d)"
    "cs_leases st = sort_key l_ip (db_leases d)" "cs_reservations st = sort_key rv_ip (db_reservations d)"
    "cs_audit st = take 500 (newest_first a_ts (db_audit d))"
  using assms unfolding read_state_def
  by (auto simp: list_servers_def list_dns_zones_def list_dns_records_def list_scopes_def list_exclusions_def
      list_leases_def list_reservations_def list_audit_def split: sum.splits if_splits)

lemma filtered_parts:
  "cs_servers (filter_state_for_user u st) =
     (if has_permission u ''dashboard.read'' \<or> has_permission u ''servers.read'' then cs_servers st else [])"
  "cs_zones (filter_state_for_user u st) =
     (if has_permission u ''dashboard.read'' \<or> has_permission u ''dns.read'' then cs_zones st else [])"
  "cs_records (filter_state_for_user u st) =
     (if has_permission u ''dashboard.read'' \<or> has_permission u ''dns.read'' then cs_records st else [])"
  "cs_scopes (filter_state_for_user u st) =
     (if has_permission u ''dashboard.read'' \<or> has_permission u ''dhcp.read'' then cs_scopes st else [])"
  "cs_exclusions (filter_state_for_user u st) =
     (if has_permission u ''dashboard.read'' \<or> has_permission u ''dhcp.read'' then cs_exclusions st else [])"
  "cs_leases (filter_state_for_user u st) =
     (if has_permission u ''dashboard.read'' \<or> has_permission u ''dhcp.read'' then cs_leases st else [])"
  "cs_reservations (filter_state_for_user u st) =
     (if has_permission u ''dashboard.read'' \<or> has_permission u ''dhcp.read'' then cs_reservations st else [])"
  "cs_audit (filter_state_for_user u st) =
     (if has_permission u ''dashboard.read'' \<or> has_permission u ''audit.read'' then cs_audit st else [])"
  by (simp_all add: filter_state_for_user_def Let_def)

text \<open>C23. The state a client reads holds exactly the tables its user may read: with the dashboard
  permission all of them, otherwise each under its own permission, and nothing of the others; reading
  changes nothing.\<close>

theorem state_shows_permitted_tables:
  "case state_handler entry c s of
     (Fail code msg, s') \<Rightarrow> s' = s
   | (Done code st, s') \<Rightarrow>
      (let d = ap_db s; may = (\<lambda>p. has_permission (ca_user c) ''dashboard.read'' \<or> has_permission (ca_user c) p) in
       s' = s \<and>
       map sv_id (cs_servers st) = (if may ''servers.read'' then map sv_id (sort_key sv_name (db_servers d)) else []) \<and>
       cs_zones st = (if may ''dns.read'' then sort_key z_name (db_zones d) else []) \<and>
       cs_records st = (if may ''dns.read'' then sort_key (\<lambda>r. (r_name r, r_type r, r_value r)) (db_records d) else []) \<and>
       cs_scopes st = (if may ''dhcp.read'' then map normalize_scope_lease (sort_key sc_name (db_scopes d)) else []) \<and>
       cs_exclusions st = (if may ''dhcp.read'' then sort_key (\<lambda>e. (ex_start_ip e, ex_end_ip e)) (db_exclusions d) else []) \<and>
       cs_leases st = (if may ''dhcp.read'' then sort_key l_ip (db_leases d) else []) \<and>
       cs_reservations st = (if may ''dhcp.read'' then sort_key rv_ip (db_reservations d) else []) \<and>
       cs_audit st = (if may ''audit.read'' then take 500 (newest_first a_ts (db_audit d)) else []))"
proof -
  have ids: "map sv_id (map (attach_agent_health_runtime entry r) srvs) = map sv_id srvs" for r srvs
    by (simp add: attach_agent_health_runtime_def split: sum.split option.split)
  show ?thesis
  proof (cases "read_state (ap_db s)")
    case (Inr st)
    then show ?thesis using ids
      by (simp add: state_handler_def filtered_parts read_state_parts [OF Inr] Let_def del: map_map)
  qed (simp add: state_handler_def)
qed

text \<open>The API keys of the agents are not held back: who may read the dashboard, and nothing else, gets
  the key of every server.\<close>

theorem dashboard_shows_agent_keys:
  assumes "state_handler entry c s = (Done code st, s')" and "has_permission (ca_user c) ''dashboard.read''"
  shows "map sv_api_key (cs_servers st) = map sv_api_key (sort_key sv_name (db_servers (ap_db s)))"
proof -
  obtain st0 where r: "read_state (ap_db s) = Inr st0"
      "st = filter_state_for_user (ca_user c) (st0\<lparr>cs_servers := map (attach_agent_health_runtime entry (ap_redis s)) (cs_servers st0)\<rparr>)"
    using assms(1) by (auto simp: state_handler_def split: sum.splits)
  have "map sv_api_key (map (attach_agent_health_runtime entry (ap_redis s)) srvs) = map sv_api_key srvs" for srvs
    by (simp add: attach_agent_health_runtime_def split: sum.split option.split)
  then show ?thesis using assms(2) r(2) read_state_parts(1) [OF r(1)] by (simp add: filtered_parts del: map_map)
qed

subsection \<open>Servers and what belongs to them\<close>

definition servers_ok :: "db \<Rightarrow> bool" where
  "servers_ok d \<longleftrightarrow> distinct (map sv_id (db_servers d)) \<and> distinct (map sv_name (db_servers d)) \<and>
     distinct (map sv_agent_url (db_servers d))"

definition has_zone :: "db \<Rightarrow> string \<Rightarrow> bool" where
  "has_zone d i \<longleftrightarrow> list_ex (\<lambda>z. z_id z = i) (db_zones d)"

text \<open>No row refers to a missing one.\<close>

definition references_ok :: "db \<Rightarrow> bool" where
  "references_ok d \<longleftrightarrow> list_all (\<lambda>z. has_server d (z_server_id z)) (db_zones d) \<and>
     list_all (\<lambda>r. has_zone d (r_zone_id r)) (db_records d) \<and>
     list_all (\<lambda>x. has_server d (sc_server_id x)) (db_scopes d) \<and> dhcp_parents_ok d \<and> distinct (map sc_id (db_scopes d))"

lemma created_server_ok:
  assumes "create_server nid now item d = Inr (srv, d')" "servers_ok d" "references_ok d"
  shows "servers_ok d' \<and> references_ok d'"
proof -
  have d': "d' = d\<lparr>db_servers := db_servers d @
        [item\<lparr>sv_id := nid, sv_status := ''Online'', sv_failure_count := 0, sv_last_checked := now\<rparr>]\<rparr>"
    and free: "\<not> list_ex (\<lambda>s. sv_id s = nid \<or> sv_name s = sv_name item \<or> sv_agent_url s = sv_agent_url item) (db_servers d)"
    using assms(1) by (simp_all add: create_server_def split: if_splits)
  from free have new: "nid \<notin> sv_id ` set (db_servers d)" "sv_name item \<notin> sv_name ` set (db_servers d)"
      "sv_agent_url item \<notin> sv_agent_url ` set (db_servers d)"
    by (simp_all add: list_ex_iff image_iff) metis+
  have keep: "has_server d i \<Longrightarrow> has_server d' i" "has_zone d' i = has_zone d i" "dhcp_parents_ok d' = dhcp_parents_ok d" for i
    by (auto simp: d' has_server_def has_zone_def dhcp_parents_ok_def has_scope_def)
  have "servers_ok d'" using assms(2) new by (simp add: servers_ok_def d')
  moreover have "references_ok d'"
    using assms(3) keep unfolding references_ok_def by (simp add: list_all_iff) (simp add: d')
  ultimately show ?thesis ..
qed

lemma delete_server_shape:
  "delete_server i d = Inr d' \<Longrightarrow>
   d' = (delete_scopes_where (\<lambda>x. sc_server_id x = i) (delete_zones_where (\<lambda>z. z_server_id z = i) d))
       \<lparr>db_servers := delete_rows (\<lambda>s. sv_id s = i) (db_servers d)\<rparr>"
  by (simp add: delete_server_def split: if_splits)

lemma delete_server_rows:
  assumes "delete_server i d = Inr d'"
  shows "db_servers d' = filter (\<lambda>s. sv_id s \<noteq> i) (db_servers d)" "db_zones d' = filter (\<lambda>z. z_server_id z \<noteq> i) (db_zones d)"
    "db_scopes d' = filter (\<lambda>x. sc_server_id x \<noteq> i) (db_scopes d)"
    "db_records d' = filter (\<lambda>r. r_zone_id r \<notin> z_id ` {z \<in> set (db_zones d). z_server_id z = i}) (db_records d)"
  unfolding delete_server_shape [OF assms]
  by (simp_all add: delete_scopes_where_def delete_zones_where_def delete_rows_def Let_def)

lemma deleted_server_ok:
  assumes "delete_server i d = Inr d'" "servers_ok d" "references_ok d"
  shows "servers_ok d' \<and> references_ok d'"
proof -
  note rows = delete_server_rows [OF assms(1)]
  let ?z = "delete_zones_where (\<lambda>z. z_server_id z = i) d"
  have z: "dhcp_parents_ok ?z" "distinct (map sc_id (db_scopes ?z))"
    using assms(3) by (simp_all add: references_ok_def delete_zones_where_def dhcp_parents_ok_def has_scope_def Let_def)
  have "dhcp_parents_ok d'"
    using delete_scopes_parents [OF z] unfolding delete_server_shape [OF assms(1)]
    by (simp add: dhcp_parents_ok_def has_scope_def)
  moreover have "has_zone d' (r_zone_id r)" if "r \<in> set (db_records d')" for r
  proof -
    have "r \<in> set (db_records d)" "r_zone_id r \<notin> z_id ` {z \<in> set (db_zones d). z_server_id z = i}"
      using that by (auto simp: rows)
    moreover from this obtain z where "z \<in> set (db_zones d)" "z_id z = r_zone_id r"
      using assms(3) by (auto simp: references_ok_def list_all_iff has_zone_def list_ex_iff)
    ultimately show ?thesis by (force simp: has_zone_def list_ex_iff rows)
  qed
  moreover have "has_server d' j" if "has_server d j" "j \<noteq> i" for j
    using that by (auto simp: has_server_def list_ex_iff rows)
  ultimately have "references_ok d'"
    using assms(3) by (auto simp: references_ok_def list_all_iff rows distinct_map_filter)
  moreover have "servers_ok d'"
    using assms(2) by (simp add: servers_ok_def rows distinct_map_filter)
  ultimately show ?thesis by simp
qed

lemma cleared_tables:
  "db_servers (ap_db (clear_source now ty i s)) = db_servers (ap_db s)" "db_zones (ap_db (clear_source now ty i s)) = db_zones (ap_db s)"
  "db_records (ap_db (clear_source now ty i s)) = db_records (ap_db s)" "db_scopes (ap_db (clear_source now ty i s)) = db_scopes (ap_db s)"
  "db_exclusions (ap_db (clear_source now ty i s)) = db_exclusions (ap_db s)" "db_leases (ap_db (clear_source now ty i s)) = db_leases (ap_db s)"
  "db_reservations (ap_db (clear_source now ty i s)) = db_reservations (ap_db s)"
  by (simp_all add: clear_source_def dismiss_notifications_by_source_def split: sum.splits)

lemma audited_tables:
  "db_exclusions (audit c a t m r md d) = db_exclusions d" "db_leases (audit c a t m r md d) = db_leases d"
  "db_reservations (audit c a t m r md d) = db_reservations d"
  by (simp_all add: audit_def write_audit_def drop_err_def)

lemma tables_cong:
  assumes "db_servers d' = db_servers d" "db_zones d' = db_zones d" "db_records d' = db_records d" "db_scopes d' = db_scopes d"
    "db_exclusions d' = db_exclusions d" "db_leases d' = db_leases d" "db_reservations d' = db_reservations d"
  shows "servers_ok d' = servers_ok d" "references_ok d' = references_ok d"
  using assms by (simp_all add: servers_ok_def references_ok_def has_server_def has_zone_def dhcp_parents_ok_def has_scope_def)

definition same_tables :: "db \<Rightarrow> db \<Rightarrow> bool" where
  "same_tables d d' \<longleftrightarrow> db_servers d' = db_servers d \<and> db_zones d' = db_zones d \<and> db_records d' = db_records d \<and>
     db_scopes d' = db_scopes d \<and> db_exclusions d' = db_exclusions d \<and> db_leases d' = db_leases d \<and>
     db_reservations d' = db_reservations d"

lemma same_tables_ok: "same_tables d d' \<Longrightarrow> servers_ok d' = servers_ok d \<and> references_ok d' = references_ok d"
  using tables_cong [of d' d] unfolding same_tables_def by blast

lemma same_tables_simps:
  "same_tables d d"
  "same_tables d (ap_db (app_audit c a tgt m md s)) = same_tables d (ap_db s)"
  "same_tables d (ap_db (clear_source now ty i s)) = same_tables d (ap_db s)"
  by (simp_all add: same_tables_def app_audit_def audited_tables cleared_tables)

lemma create_handler_tables:
  assumes "create_server_handler c nid req s = (r, s')"
  shows "s' = s \<or> (\<exists>item srv d. create_server nid (ca_now c) item (ap_db s) = Inr (srv, d) \<and> same_tables d (ap_db s'))"
proof (cases "s' = s")
  case False
  then obtain item srv d t m where "create_server nid (ca_now c) item (ap_db s) = Inr (srv, d)"
      "s' = app_audit c ''Created server'' t ''Server'' m (s\<lparr>ap_db := d\<rparr>)"
    using assms unfolding create_server_handler_def ensure_permission_def Let_def
    by (simp split: if_splits option.splits sum.splits unique_error.splits store_error.splits prod.splits) blast+
  moreover from this(2) have "same_tables d (ap_db s')" by (simp add: same_tables_simps)
  ultimately show ?thesis by blast
qed simp

lemma delete_handler_tables:
  "delete_server_handler c path s = (r, s') \<Longrightarrow>
   (\<exists>code msg. r = Fail code msg \<and> s' = s) \<or>
   (\<exists>code x d. r = Done code x \<and> delete_server (path_id path ''/api/servers/'') (ap_db s) = Inr d \<and> same_tables d (ap_db s'))"
  unfolding delete_server_handler_def ensure_permission_def Let_def
  by (auto simp: same_tables_simps split: if_splits sum.splits)



lemma dashboard_shows_agent_keys_witness:
  "\<exists>st. state_handler (\<lambda>_. None) sample_admin (sample_app []) = (Done 200 st, sample_app []) \<and> map sv_api_key (cs_servers st) = [''k'']"
proof -
  have p: "has_permission (ca_user sample_admin) ''dashboard.read''"
    by (simp add: has_permission_def sample_admin_def)
  have "\<exists>st. read_state (ap_db (sample_app [])) = Inr st"
    by (simp add: read_state_def sample_app_def empty_db_def list_servers_def list_dns_zones_def list_dns_records_def
        list_scopes_def list_exclusions_def list_leases_def list_reservations_def list_audit_def)
  then obtain st where h: "state_handler (\<lambda>_. None) sample_admin (sample_app []) = (Done 200 st, sample_app [])"
    by (auto simp: state_handler_def)
  show ?thesis
    using dashboard_shows_agent_keys [OF h p] h by (simp add: sample_app_def sample_server_def empty_db_def)
qed

end
