(* ===== verification/ZL_Zone_Handlers.thy ===== *)
theory ZL_Zone_Handlers
  imports ZL_Dhcp_Handlers
begin

text \<open>
  Creating and deleting a DNS zone, \<open>createZone\<close> and \<open>deleteZone\<close> of \<open>api/router/resources.go\<close> (the
  refresh of a zone is \<open>zone_action_handler\<close> of theory \<open>ZL_Refresh_Handlers\<close>). The agent is changed
  first; the errors of the statements that follow are dropped, or answered as a warning.
\<close>

subsection \<open>Requests\<close>

datatype zone_warning = RecordsNotRead agent_error | RecordsNotStored store_error

record zone_response =
  zc_zone :: dns_zone
  zc_records :: "dns_record list"
  zc_warning :: "zone_warning option"

text \<open>\<open>UpsertDNSZone\<close> returns a zone whatever happens: on an error with the zero time.\<close>

definition app_upsert_zone :: "gotime \<Rightarrow> dns_zone \<Rightarrow> 'w app \<Rightarrow> dns_zone \<times> 'w app" where
  "app_upsert_zone now z s =
     (case upsert_dns_zone now z (ap_db s) of
        Inl e \<Rightarrow> ((zone_with_id z)\<lparr>z_last_synced_at := Some go_zero_time, z_sync_status := ''synced'', z_last_error := []\<rparr>, s)
      | Inr (z', d) \<Rightarrow> (z', s\<lparr>ap_db := d\<rparr>))"

text \<open>The records the agent creates with a zone.\<close>

definition read_default_records ::
    "'w sync_env \<Rightarrow> caller \<Rightarrow> server \<Rightarrow> dns_zone \<Rightarrow> 'w app \<Rightarrow> (dns_record list \<times> zone_warning option) \<times> 'w app" where
  "read_default_records E c srv z s =
     (case app_call (fetch_dns_records_from_agent (se_net E) srv (z_name z)) s of
        (Inl e, s1) \<Rightarrow> (([], Some (RecordsNotRead e)), s1)
      | (Inr rs, s1) \<Rightarrow>
          (let rs1 = map (record_of_zone srv z) rs in
           case replace_dns_zone_records (ca_now c) z rs1 (ap_db s1) of
             Inl e \<Rightarrow> (([], Some (RecordsNotStored e)), s1)
           | Inr d \<Rightarrow> ((rs1, None), s1\<lparr>ap_db := d\<rparr>)))"

definition create_zone_steps ::
    "'w sync_env \<Rightarrow> caller \<Rightarrow> server \<Rightarrow> op_target \<Rightarrow> dns_zone \<Rightarrow> 'w app \<Rightarrow> zone_response response \<times> 'w app" where
  "create_zone_steps E c srv t body s =
     (case app_upsert_zone (ca_now c) body s of
        (z, s1) \<Rightarrow>
          (case read_default_records E c srv z s1 of
             ((rs, warning), s2) \<Rightarrow>
               (Done 201 \<lparr>zc_zone = z, zc_records = rs, zc_warning = warning\<rparr>,
                app_audit c ''Created zone'' (z_name z) ''DNS'' (dns_audit_metadata srv (z_id z) (z_name z) []) (app_mark t s2))))"

definition create_zone_handler ::
    "'w sync_env \<Rightarrow> caller \<Rightarrow> dns_zone option \<Rightarrow> 'w app \<Rightarrow> zone_response response \<times> 'w app" where
  "create_zone_handler E c req = ensure_permission c ''dns.manage'' (\<lambda>s.
     case req of
       None \<Rightarrow> (Fail 400 ''invalid_request'', s)
     | Some raw \<Rightarrow>
         if trim_space (z_name raw) = [] \<or> trim_space (z_server_id raw) = [] then (Fail 400 ''invalid_zone'', s)
         else
           (let body = raw\<lparr>z_name := normalize_dns_zone_name (z_name raw) (z_reverse raw)\<rparr> in
            case get_server (ap_db s) (z_server_id body) of
              Inl e \<Rightarrow> (Fail 404 ''server_not_found'', s)
            | Inr srv \<Rightarrow> ensure_agent_not_syncing (se_json_ok E) (sv_id srv) (\<lambda>s.
                case app_call (agent_call (se_net E) MPost srv ''/dns/zones'' (ZoneCreate body) as_object) s of
                  (Inl e, s1) \<Rightarrow> (Fail 502 ''agent_create_zone_failed'', s1)
                | (Inr _, s1) \<Rightarrow>
                    (let body1 = body\<lparr>z_id := dns_zone_id (sv_id srv) (z_name body), z_server_id := sv_id srv\<rparr>;
                         t = dns_zone_refresh_target (z_server_id body1) (z_id body1) (z_name body1)
                     in with_operation t (create_zone_steps E c srv t body1) s1)) s))"

definition zone_path :: "string \<Rightarrow> string" where
  "zone_path zname = ''/dns/zones/'' @ path_escape zname"

definition delete_zone_handler :: "'w sync_env \<Rightarrow> caller \<Rightarrow> string \<Rightarrow> 'w app \<Rightarrow> unit response \<times> 'w app" where
  "delete_zone_handler E c path = ensure_permission c ''dns.manage'' (\<lambda>s.
     let i = path_id path ''/api/dns/zones/'' in
     if i = [] then (Fail 404 ''not_found'', s)
     else case decode_dns_zone_id i of
       None \<Rightarrow> (Fail 400 ''invalid_zone_id'', s)
     | Some (sid, zname) \<Rightarrow>
         (case get_server (ap_db s) sid of
            Inl e \<Rightarrow> (Fail 404 ''server_not_found'', s)
          | Inr srv \<Rightarrow> ensure_agent_not_syncing (se_json_ok E) (sv_id srv) (\<lambda>s.
              case app_call (agent_call (se_net E) MDelete srv (zone_path zname) NoBody as_object) s of
                (Inl e, s1) \<Rightarrow> (Fail 502 ''agent_delete_zone_failed'', s1)
              | (Inr _, s1) \<Rightarrow>
                  (Done 200 (), publish E ''runtime.updated'' [] ''success'' ''runtime_updated''
                     (app_store (delete_dns_zone i)
                       (app_audit c ''Deleted zone'' zname ''DNS'' (dns_audit_metadata srv i zname []) s1)))) s))"

subsection \<open>The contract of the requests\<close>

datatype zone_request = CreateZone "dns_zone option" | DeleteZone string

definition handle_zone_request :: "'w sync_env \<Rightarrow> caller \<Rightarrow> zone_request \<Rightarrow> 'w app \<Rightarrow> unit response \<times> 'w app" where
  "handle_zone_request E c q s =
     (case q of
        CreateZone b \<Rightarrow> plain_answer (create_zone_handler E c b s)
      | DeleteZone path \<Rightarrow> delete_zone_handler E c path s)"

lemma upsert_zone_sched: "app_upsert_zone now z s = (z', s') \<Longrightarrow> ap_sched s' = ap_sched s"
  by (auto simp: app_upsert_zone_def split: sum.splits prod.splits)

lemma default_records_sched: "read_default_records E c srv z s = (x, s') \<Longrightarrow> ap_sched s' = ap_sched s"
  by (auto simp: read_default_records_def Let_def dest!: app_call_fields split: sum.splits prod.splits)

lemma create_zone_steps_done: "\<exists>resp s'. create_zone_steps E c srv t body s = (Done 201 resp, s') \<and> same_open s s'"
proof -
  obtain z s1 where u: "app_upsert_zone (ca_now c) body s = (z, s1)" by (rule prod.exhaust)
  obtain rs w s2 where r: "read_default_records E c srv z s1 = ((rs, w), s2)" by (metis prod.exhaust)
  have "ap_sched s2 = ap_sched s" using upsert_zone_sched [OF u] default_records_sched [OF r] by simp
  then show ?thesis by (simp add: create_zone_steps_def u r same_open_sched)
qed

lemma create_zone_operation:
  "\<exists>resp s'. with_operation t (create_zone_steps E c srv t' body) s = (Done 201 resp, s') \<and> same_open s s'"
proof -
  obtain resp s1 where k: "create_zone_steps E c srv t' body (app_begin t s) = (Done 201 resp, s1)"
    using create_zone_steps_done by blast
  have "request_ok s (with_operation t (create_zone_steps E c srv t' body) s)"
    by (rule request_operation) (metis create_zone_steps_done request_done)
  then show ?thesis using k by (simp add: with_operation_def)
qed

lemma create_zone_ok: "request_ok s (create_zone_handler E c req s)"
proof -
  have after_agent: "request_ok s
      (case app_call f s of
         (Inl e, s1) \<Rightarrow> (Fail 502 msg, s1)
       | (Inr _, s1) \<Rightarrow> with_operation t (create_zone_steps E c srv t' body) s1)"
    for s :: "'a app" and f :: "'a \<Rightarrow> (agent_error + 'b) \<times> 'a" and msg t t' srv body
  proof -
    obtain r s1 where a: "app_call f s = (r, s1)" by (rule prod.exhaust)
    then show ?thesis
      using create_zone_operation [of t E c srv t' body s1] same_open_trans [OF same_open_call [OF a]] request_agent_failed [OF a]
      by (auto split: sum.split)
  qed
  show ?thesis
    unfolding create_zone_handler_def Let_def ensure_permission_def
    by (auto intro!: request_not_syncing after_agent split: option.split sum.split)
qed

lemma delete_zone_ok: "request_ok s (delete_zone_handler E c path s)"
proof -
  have "request_ok s
      (case app_call f s of
         (Inl e, s1) \<Rightarrow> (Fail 502 msg, s1)
       | (Inr _, s1) \<Rightarrow> (Done 200 (), publish E a b st m (app_store g (app_audit c x y z k s1))))"
    for s :: "'a app" and f :: "'a \<Rightarrow> (agent_error + 'b) \<times> 'a" and msg a b st m g x y z k
    by (auto split: prod.split sum.split intro: request_agent_failed same_open_call)
  then show ?thesis
    unfolding delete_zone_handler_def Let_def ensure_permission_def
    by (auto intro!: request_not_syncing split: option.split sum.split)
qed

interpretation zone_requests: request_handler "handle_zone_request E c"
  by unfold_locales (simp add: handle_zone_request_def create_zone_ok delete_zone_ok split: zone_request.split)

subsection \<open>What a created zone holds\<close>

lemma default_records_stored:
  assumes "read_default_records E c srv z s = ((rs, None), s')" "z_id z \<noteq> []"
  shows "\<exists>ar w. fetch_dns_records_from_agent (se_net E) srv (z_name z) (ap_world s) = (Inr ar, w) \<and>
      rs = map (record_of_zone srv z) ar"
    and "zone_rows (ap_db s') (z_id z) = map (stored_record (ca_now c) z) rs"
    and "synced_zone (ca_now c) z \<in> set (db_zones (ap_db s'))"
proof -
  obtain ar s1 where f: "app_call (fetch_dns_records_from_agent (se_net E) srv (z_name z)) s = (Inr ar, s1)"
      "replace_dns_zone_records (ca_now c) z (map (record_of_zone srv z) ar) (ap_db s1) = Inr (ap_db s')"
      "rs = map (record_of_zone srv z) ar"
    using assms(1) by (auto simp: read_default_records_def Let_def split: prod.splits sum.splits)
  show "\<exists>ar w. fetch_dns_records_from_agent (se_net E) srv (z_name z) (ap_world s) = (Inr ar, w) \<and>
      rs = map (record_of_zone srv z) ar"
    using app_call_shape [OF f(1)] f(3) by (metis prod.collapse)
  show "zone_rows (ap_db s') (z_id z) = map (stored_record (ca_now c) z) rs"
    and "synced_zone (ca_now c) z \<in> set (db_zones (ap_db s'))"
    using replace_records_rows(1,3) [OF f(2) assms(2)] f(3) by simp_all
qed

lemma zone_record_parts:
  assumes "z_id z \<noteq> []"
  shows "record_parts (stored_record now z (record_of_zone srv z r)) = record_parts r"
    and "r_id (stored_record now z (record_of_zone srv z r)) = dns_record_id (sv_id srv) (z_name z) (r_type r) (r_name r) (r_value r)"
  by (simp_all add: record_parts_def record_of_zone_def stored_id raw_url_encode_sep_nonempty)

lemma default_rows:
  assumes "read_default_records E c srv z s = ((rs, None), s')" "z_id z \<noteq> []"
  shows "map record_parts (zone_rows (ap_db s') (z_id z)) = map record_parts rs \<and>
    (\<forall>x \<in> set (zone_rows (ap_db s') (z_id z)). r_id x = dns_record_id (sv_id srv) (z_name z) (r_type x) (r_name x) (r_value x)) \<and>
    (\<exists>y \<in> set (db_zones (ap_db s')). z_id y = z_id z \<and> z_sync_status y = ''synced'')"
proof -
  note d = default_records_stored [OF assms]
  obtain ar where rs: "rs = map (record_of_zone srv z) ar" using d(1) by blast
  have fields: "record_parts (record_of_zone srv z r) = record_parts r" "r_type (record_of_zone srv z r) = r_type r"
      "r_name (record_of_zone srv z r) = r_name r" "r_value (record_of_zone srv z r) = r_value r" for r
    by (simp_all add: record_parts_def record_of_zone_def)
  have "map record_parts (zone_rows (ap_db s') (z_id z)) = map record_parts rs"
    by (simp add: d(2) rs zone_record_parts(1) [OF assms(2)] fields(1))
  moreover have "\<forall>x \<in> set (zone_rows (ap_db s') (z_id z)). r_id x = dns_record_id (sv_id srv) (z_name z) (r_type x) (r_name x) (r_value x)"
    by (simp add: d(2) rs zone_record_parts(2) [OF assms(2)] fields)
  moreover have "z_id (synced_zone (ca_now c) z) = z_id z" "z_sync_status (synced_zone (ca_now c) z) = ''synced''"
    by (simp_all add: synced_zone_def)
  ultimately show ?thesis using d(3) by blast
qed

lemma app_upsert_zone_keeps:
  assumes "app_upsert_zone now z s = (z', s')" "z_id z \<noteq> []"
  shows "z_id z' = z_id z" "z_name z' = z_name z" "ap_world s' = ap_world s"
  using assms by (auto simp: app_upsert_zone_def upsert_dns_zone_def zone_with_id_def Let_def split: sum.splits prod.splits if_splits)

lemma create_zone_done:
  assumes "create_zone_handler E c (Some raw) s = (Done code resp, s')"
  obtains srv s1 zname body t where
    "get_server (ap_db s) (z_server_id raw) = Inr srv" "zname = normalize_dns_zone_name (z_name raw) (z_reverse raw)"
    "body = raw\<lparr>z_name := zname, z_id := dns_zone_id (sv_id srv) zname, z_server_id := sv_id srv\<rparr>"
    "t = dns_zone_refresh_target (sv_id srv) (dns_zone_id (sv_id srv) zname) zname"
    "with_operation t (create_zone_steps E c srv t body) s1 = (Done code resp, s')"
    "trim_space (z_server_id raw) \<noteq> []"
proof -
  obtain srv s1 x where
      "get_server (ap_db s) (z_server_id raw) = Inr srv" "trim_space (z_server_id raw) \<noteq> []"
      "app_call (agent_call (se_net E) MPost srv ''/dns/zones''
         (ZoneCreate (raw\<lparr>z_name := normalize_dns_zone_name (z_name raw) (z_reverse raw)\<rparr>)) as_object) s = (Inr x, s1)"
      "(let body1 = raw\<lparr>z_name := normalize_dns_zone_name (z_name raw) (z_reverse raw),
              z_id := dns_zone_id (sv_id srv) (normalize_dns_zone_name (z_name raw) (z_reverse raw)), z_server_id := sv_id srv\<rparr>;
            t = dns_zone_refresh_target (z_server_id body1) (z_id body1) (z_name body1)
        in with_operation t (create_zone_steps E c srv t body1) s1) = (Done code resp, s')"
    using assms unfolding create_zone_handler_def ensure_permission_def ensure_agent_not_syncing_def
    by (auto simp: Let_def split: if_splits sum.splits prod.splits)
  then show thesis by (intro that [OF _ refl refl refl]) (simp_all add: Let_def)
qed


text \<open>The zone the agent deleted stays in the database when the statement fails; the answer is 200 and the
  audit entry says success all the same.\<close>

theorem zone_deletion_error_dropped:
  assumes "has_permission (ca_user c) ''dns.manage''" "path_id path ''/api/dns/zones/'' = i" "i \<noteq> []"
    and "decode_dns_zone_id i = Some (sid, zname)" "get_server (ap_db s) sid = Inr srv"
    and "\<not> is_agent_sync_running (se_json_ok E) (sv_id srv) (ap_redis s)"
    and "agent_call (se_net E) MDelete srv (zone_path zname) NoBody as_object (ap_world s) = (Inr x, w)"
    and "db_fault (ap_db s) ''DeleteZone'' i"
  shows "\<exists>s'. delete_zone_handler E c path s = (Done 200 (), s') \<and> db_zones (ap_db s') = db_zones (ap_db s) \<and>
    db_records (ap_db s') = db_records (ap_db s)"
proof -
  have call: "app_call (agent_call (se_net E) MDelete srv (zone_path zname) NoBody as_object) s = (Inr x, s\<lparr>ap_world := w\<rparr>)"
    using assms(7) by (simp add: app_call_def)
  show ?thesis
    using assms(1-6,8)
    by (simp add: delete_zone_handler_def ensure_permission_def ensure_agent_not_syncing_def Let_def call publish_def
        publish_with_payload_def app_store_def app_audit_def delete_dns_zone_def drop_err_def)
qed

subsection \<open>A concrete run\<close>

definition new_zone :: dns_zone where
  "new_zone = sample_zone\<lparr>z_id := [], z_name := ''lab.test.''\<rparr>"

lemma new_zone_name: "trim_space ''lab.test.'' = ''lab.test.''" "trim_space ''s'' = ''s''"
    "normalize_dns_zone_name ''lab.test.'' False = ''lab.test''"
proof -
  show n: "trim_space ''lab.test.'' = ''lab.test.''" and "trim_space ''s'' = ''s''"
    by (rule trim_space_graph, simp add: graph_ends_def char_code_def)+
  have "trim_char (CHR ''.'') ''lab.test.'' = ''lab.test''" by code_simp
  then show "normalize_dns_zone_name ''lab.test.'' False = ''lab.test''"
    by (simp add: normalize_dns_zone_name_def n)
qed

lemma new_zone_created:
  "\<exists>resp s'. create_zone_handler (sample_env willing_agent) sample_admin (Some new_zone) (sample_app []) = (Done 201 resp, s') \<and>
     zc_warning resp = None"
proof -
  let ?E = "sample_env willing_agent" and ?zid = "dns_zone_id ''s'' ''lab.test''"
  let ?z = "new_zone\<lparr>z_name := ''lab.test'', z_id := ?zid, z_server_id := ''s''\<rparr>"
  let ?t = "dns_zone_refresh_target ''s'' ?zid ''lab.test''"
  have id: "?zid = ''cw.bGFiLnRlc3Q''" by code_simp
  have post: "app_call (agent_call willing_agent m srv p b as_object) s0 = (Inr (), s0\<lparr>ap_world := Suc (ap_world s0)\<rparr>)" for m srv p b s0
    by (simp add: app_call_def agent_call_def agent_do_def willing_agent_def as_object_def Let_def)
  have fetch: "app_call (fetch_dns_records_from_agent willing_agent srv zn) s0 = (Inr [], s0\<lparr>ap_world := Suc (ap_world s0)\<rparr>)" for srv zn s0
    by (simp add: app_call_def fetch_dns_records_from_agent_def agent_call_def agent_do_def willing_agent_def as_records_def Let_def)
  have other: "?zid \<noteq> dns_zone_id ''s'' ''corp.test''" "?zid \<noteq> []" by (simp_all add: id sample_zone_id)
  have up: "\<exists>s2. app_upsert_zone 7 ?z s0 = (?z\<lparr>z_last_synced_at := Some 7, z_sync_status := ''synced'', z_last_error := []\<rparr>, s2) \<and>
      ap_db s2 = d\<lparr>db_zones := db_zones d @ [synced_zone 7 ?z]\<rparr>" if "ap_db s0 = d" "d = ap_db (sample_app [])" for d and s0 :: "nat app"
    using that other
    by (simp add: app_upsert_zone_def upsert_dns_zone_def zone_with_id_def upsert_dns_zone_stmt_def upsert_row_def sample_app_def
        sample_server_def sample_zone_def new_zone_def empty_db_def Let_def)
  let ?z1 = "?z\<lparr>z_last_synced_at := Some 7, z_sync_status := ''synced'', z_last_error := []\<rparr>"
  have rd: "\<exists>rs s3. read_default_records ?E sample_admin sample_server ?z1 s2 = ((rs, None), s3)"
    if "ap_db s2 = d\<lparr>db_zones := db_zones d @ [synced_zone 7 ?z]\<rparr>" "d = ap_db (sample_app [])" for d and s2 :: "nat app"
    using that other
    by (simp add: read_default_records_def fetch replace_dns_zone_records_def zone_with_id_def upsert_dns_zone_stmt_def
        upsert_row_def update_rows_def delete_rows_def sample_app_def sample_server_def sample_zone_def new_zone_def
        sample_admin_def synced_zone_def empty_db_def Let_def)
  have steps: "\<exists>resp s'. with_operation ?t (create_zone_steps ?E sample_admin sample_server ?t ?z) s1 = (Done 201 resp, s') \<and>
      zc_warning resp = None" if "ap_db s1 = ap_db (sample_app [])" for s1
  proof -
    have b: "ap_db (app_begin ?t s1) = ap_db (sample_app [])" using that by simp
    obtain s2 where u: "app_upsert_zone 7 ?z (app_begin ?t s1) = (?z1, s2)"
        "ap_db s2 = (ap_db (sample_app []))\<lparr>db_zones := db_zones (ap_db (sample_app [])) @ [synced_zone 7 ?z]\<rparr>"
      using up [OF b refl] by blast
    obtain rs s3 where r: "read_default_records ?E sample_admin sample_server ?z1 s2 = ((rs, None), s3)"
      using rd [OF u(2) refl] by blast
    have now: "ca_now sample_admin = 7" by (simp add: sample_admin_def)
    show ?thesis unfolding with_operation_def create_zone_steps_def now u(1) prod.case r by simp
  qed
  have srv: "get_server (ap_db (sample_app [])) ''s'' = Inr sample_server" "sv_id sample_server = ''s''"
    by (simp_all add: get_server_def sample_app_def sample_server_def empty_db_def)
  have idle: "\<not> is_agent_sync_running (\<lambda>_. True) ''s'' (ap_redis (sample_app []))"
    by (simp add: is_agent_sync_running_def sample_app_def empty_redis_def rt_get_json_def rt_get_def live_def)
  have perm: "has_permission (ca_user sample_admin) p" for p by (simp add: has_permission_def sample_admin_def)
  have raw: "z_name new_zone = ''lab.test.''" "z_server_id new_zone = ''s''" "z_reverse new_zone = False"
    by (simp_all add: new_zone_def sample_zone_def)
  have env: "se_json_ok ?E = (\<lambda>_. True)" by (simp add: sample_env_def)
  show ?thesis
    using steps [of "(sample_app [])\<lparr>ap_world := Suc (ap_world (sample_app []))\<rparr>"]
    by (simp add: create_zone_handler_def ensure_permission_def perm raw new_zone_name srv ensure_agent_not_syncing_def env idle post Let_def)
qed


end
