(* ===== verification/ZL_Auth.thy ===== *)
theory ZL_Auth
  imports ZL_Access_Handlers ZL_Sync
begin

text \<open>
  Authentication: \<open>internal/service/auth/service.go\<close> and \<open>login_throttle.go\<close> over the statements of
  \<open>internal/repository/sessions.go\<close>, \<open>login_failures.go\<close>, \<open>auth_providers.go\<close> and \<open>repository.go\<close>, with
  the requests of \<open>api/router/auth.go\<close> on them and \<open>requireAuth\<close>. SHA-256, bcrypt and the LDAP library
  are not under \<open>src/\<close>: they are fields of \<open>auth_env\<close>. One request sees one time \<open>now\<close>, the clock of
  the database included; a random token is the argument \<open>tok\<close>, \<open>None\<close> when the generator fails.
\<close>

subsection \<open>Parameters and errors\<close>

text \<open>The fields of an LDAP provider, as its JSON configuration is decoded.\<close>

record ldap_config =
  lc_host :: string
  lc_port :: int
  lc_base_dn :: string
  lc_user_filter :: string
  lc_bind_dn :: string
  lc_bind_password :: string
  lc_use_tls :: bool
  lc_start_tls :: bool
  lc_insecure_skip_verify :: bool
  lc_username_attribute :: string
  lc_display_name_attribute :: string
  lc_email_attribute :: string
  lc_timeout_seconds :: int
  lc_group_filter :: string

text \<open>An entry found: its DN and its attribute values. A directory answers a connection attempt, a bind
  and a search (\<open>None\<close>: an error).\<close>

record ldap_entry =
  le_dn :: string
  le_attribute :: "string \<Rightarrow> string"

record directory =
  di_dial :: "ldap_config \<Rightarrow> bool"
  di_bind :: "ldap_config \<Rightarrow> string \<Rightarrow> string \<Rightarrow> bool"
  di_search :: "ldap_config \<Rightarrow> string \<Rightarrow> ldap_entry list option"

record auth_env =
  ae_hash_token :: "string \<Rightarrow> string"
  ae_verify :: "string \<Rightarrow> string \<Rightarrow> bool"
  ae_bcrypt :: "string \<Rightarrow> string option"
  ae_session_ttl :: gotime
  ae_ldap_json :: "string \<Rightarrow> ldap_config option"
  ae_ldap_escape :: "string \<Rightarrow> string"
  ae_directory :: directory

datatype auth_error =
    InvalidCredentials | InvalidSession | InvalidResetToken | InvalidResetCaptcha | ResetUnavailable
  | ResetChannelMissing | ResetCodeMismatch | OldPasswordMismatch | ResetEmailMismatch | UserNotProvisioned
  | ResetCodeCooldown int | ResetCodeRateLimited | LoginLocked int | AuthStore store_error | AuthFailure

fun status_from_auth_err :: "auth_error \<Rightarrow> int" where
  "status_from_auth_err (AuthStore e) = status_from_err e"
| "status_from_auth_err InvalidCredentials = 401"
| "status_from_auth_err InvalidSession = 401"
| "status_from_auth_err InvalidResetToken = 400"
| "status_from_auth_err InvalidResetCaptcha = 400"
| "status_from_auth_err ResetUnavailable = 400"
| "status_from_auth_err ResetCodeMismatch = 400"
| "status_from_auth_err OldPasswordMismatch = 400"
| "status_from_auth_err ResetChannelMissing = 503"
| "status_from_auth_err (ResetCodeCooldown n) = 429"
| "status_from_auth_err ResetCodeRateLimited = 429"
| "status_from_auth_err (LoginLocked n) = 429"
| "status_from_auth_err ResetEmailMismatch = 500"
| "status_from_auth_err UserNotProvisioned = 500"
| "status_from_auth_err AuthFailure = 500"

type_synonym 'a ares = "(auth_error + 'a) \<times> db"

subsection \<open>Statements\<close>

definition create_session_row :: "string \<Rightarrow> string \<Rightarrow> string \<Rightarrow> gotime \<Rightarrow> db \<Rightarrow> store_error + db" where
  "create_session_row h uid provider expires d =
     (if db_fault d ''CreateSession'' uid \<or> \<not> list_ex (\<lambda>u. ur_id u = uid) (db_users d) then Inl DbError
      else if list_ex (\<lambda>x. sr_token_hash x = h) (db_sessions d) then Inl UniqueViolation
      else Inr (d\<lparr>db_sessions := db_sessions d @
        [\<lparr>sr_token_hash = h, sr_user_id = uid, sr_provider = (if provider = [] then ''local'' else provider),
          sr_expires_at = expires\<rparr>]\<rparr>))"

definition find_session :: "string \<Rightarrow> db \<Rightarrow> (user \<times> string \<times> gotime) dres" where
  "find_session h d =
     (if db_fault d ''FindSession'' h then (Inl DbError, d)
      else case find_row (\<lambda>x. sr_token_hash x = h) (db_sessions d) of
        None \<Rightarrow> (Inl NotFound, d)
      | Some x \<Rightarrow>
          (case find_row (\<lambda>u. ur_id u = sr_user_id x) (db_users d) of
             None \<Rightarrow> (Inl NotFound, d)
           | Some u \<Rightarrow>
               (case attach_access_to_users [(scan_user u)\<lparr>u_permissions := []\<rparr>] d of
                  (Inl e, d') \<Rightarrow> (Inl e, d')
                | (Inr us, d') \<Rightarrow>
                    (Inr (hd us, if sr_provider x = [] then ''local'' else sr_provider x, sr_expires_at x), d'))))"

definition delete_session :: "string \<Rightarrow> db \<Rightarrow> store_error + db" where
  "delete_session h d =
     (if db_fault d ''DeleteSession'' h then Inl DbError
      else Inr (d\<lparr>db_sessions := delete_rows (\<lambda>x. sr_token_hash x = h) (db_sessions d)\<rparr>))"

definition delete_user_sessions :: "string \<Rightarrow> db \<Rightarrow> store_error + db" where
  "delete_user_sessions uid d =
     (if db_fault d ''DeleteUserSessions'' uid then Inl DbError
      else Inr (d\<lparr>db_sessions := delete_rows (\<lambda>x. sr_user_id x = uid) (db_sessions d)\<rparr>))"

definition delete_expired_sessions :: "gotime \<Rightarrow> db \<Rightarrow> store_error + db" where
  "delete_expired_sessions now d =
     (if db_fault d ''DeleteExpiredSessions'' [] then Inl DbError
      else Inr (d\<lparr>db_sessions := delete_rows (\<lambda>x. sr_expires_at x \<le> now) (db_sessions d)\<rparr>))"

definition record_user_login :: "string \<Rightarrow> gotime \<Rightarrow> db \<Rightarrow> store_error + db" where
  "record_user_login uid now d =
     (if db_fault d ''RecordUserLogin'' uid then Inl DbError
      else if \<not> list_ex (\<lambda>u. ur_id u = uid) (db_users d) then Inl NotFound
      else Inr (d\<lparr>db_users := update_rows (\<lambda>u. ur_id u = uid)
             (\<lambda>u. u\<lparr>ur_last_login_at := Some now, ur_updated_at := now\<rparr>) (db_users d)\<rparr>))"

definition update_user_password :: "string \<Rightarrow> string \<Rightarrow> gotime \<Rightarrow> db \<Rightarrow> store_error + db" where
  "update_user_password uid hash now d =
     (if db_fault d ''UpdateUserPassword'' uid then Inl DbError
      else if \<not> list_ex (\<lambda>u. ur_id u = uid) (db_users d) then Inl NotFound
      else Inr (d\<lparr>db_users := update_rows (\<lambda>u. ur_id u = uid)
             (\<lambda>u. u\<lparr>ur_password_hash := hash, ur_updated_at := now\<rparr>) (db_users d)\<rparr>))"

text \<open>The number of failures under a name and the time of the last, 0 without any.\<close>

definition failure_times :: "string \<Rightarrow> db \<Rightarrow> int list" where
  "failure_times name d = map snd (filter (\<lambda>f. fst f = name) (db_login_failures d))"

definition count_login_failures :: "string \<Rightarrow> db \<Rightarrow> store_error + (int \<times> int)" where
  "count_login_failures name d =
     (if db_fault d ''CountLoginFailures'' name then Inl DbError
      else let ts = failure_times name d in
        Inr (int (length ts), if ts = [] then 0 else Max (set ts)))"

text \<open>Two statements: a failure of the second leaves the row of the first.\<close>

definition create_login_failure :: "string \<Rightarrow> int \<Rightarrow> db \<Rightarrow> unit dres" where
  "create_login_failure name t d =
     (if db_fault d ''CreateLoginFailure'' name then (Inl DbError, d)
      else let d1 = d\<lparr>db_login_failures := db_login_failures d @ [(name, t)]\<rparr> in
        if db_fault d ''DropLoginFailures'' name then (Inl DbError, d1)
        else (Inr (), d1\<lparr>db_login_failures := delete_rows (\<lambda>f. snd f < t - 24 * 3600) (db_login_failures d1)\<rparr>))"

definition clear_login_failures :: "string \<Rightarrow> db \<Rightarrow> store_error + (nat \<times> db)" where
  "clear_login_failures name d =
     (if db_fault d ''ClearLoginFailures'' name then Inl DbError
      else Inr (length (failure_times name d),
             d\<lparr>db_login_failures := delete_rows (\<lambda>f. fst f = name) (db_login_failures d)\<rparr>))"

definition get_auth_provider :: "db \<Rightarrow> string \<Rightarrow> store_error + auth_provider" where
  "get_auth_provider d i =
     (if db_fault d ''GetAuthProvider'' i then Inl DbError
      else case find_row (\<lambda>p. ap_id p = i) (db_providers d) of None \<Rightarrow> Inl NotFound | Some p \<Rightarrow> Inr p)"

subsection \<open>LDAP\<close>

definition zero_ldap_config :: ldap_config where
  "zero_ldap_config = \<lparr>lc_host = [], lc_port = 0, lc_base_dn = [], lc_user_filter = [], lc_bind_dn = [],
     lc_bind_password = [], lc_use_tls = False, lc_start_tls = False, lc_insecure_skip_verify = False,
     lc_username_attribute = [], lc_display_name_attribute = [], lc_email_attribute = [], lc_timeout_seconds = 0,
     lc_group_filter = []\<rparr>"

definition text_or :: "string \<Rightarrow> string \<Rightarrow> string" where
  "text_or s alt = (if s = [] then alt else s)"

definition decode_ldap_config :: "auth_env \<Rightarrow> string \<Rightarrow> ldap_config option" where
  "decode_ldap_config A raw =
     (case (if raw = [] then Some zero_ldap_config else ae_ldap_json A raw) of
        None \<Rightarrow> None
      | Some c \<Rightarrow>
          (let c1 = c\<lparr>lc_host := trim_space (lc_host c), lc_base_dn := trim_space (lc_base_dn c),
                 lc_user_filter := text_or (trim_space (lc_user_filter c)) ''(sAMAccountName={username})'',
                 lc_bind_dn := trim_space (lc_bind_dn c),
                 lc_username_attribute := text_or (trim_space (lc_username_attribute c)) ''sAMAccountName'',
                 lc_display_name_attribute := text_or (trim_space (lc_display_name_attribute c)) ''displayName'',
                 lc_email_attribute := text_or (trim_space (lc_email_attribute c)) ''mail'',
                 lc_group_filter := trim_space (lc_group_filter c),
                 lc_port := (if lc_port c = 0 then if lc_use_tls c then 636 else 389 else lc_port c),
                 lc_timeout_seconds := (if lc_timeout_seconds c \<le> 0 \<or> 30 < lc_timeout_seconds c then 8
                   else lc_timeout_seconds c)\<rparr>
           in if lc_use_tls c \<and> lc_start_tls c then None
              else if lc_host c1 = [] \<or> lc_base_dn c1 = [] then None
              else Some c1))"

definition ldap_normalized_group_filter :: "auth_env \<Rightarrow> ldap_config \<Rightarrow> string" where
  "ldap_normalized_group_filter A c =
     (let g = trim_space (lc_group_filter c) in
      if g = [] then [] else if has_prefix g ''('' then g else ''(memberOf='' @ ae_ldap_escape A g @ '')'')"

definition ldap_login_user_filter :: "auth_env \<Rightarrow> ldap_config \<Rightarrow> string \<Rightarrow> string" where
  "ldap_login_user_filter A c username =
     (let uf = replace_all (lc_user_filter c) ''{username}'' (ae_ldap_escape A username);
          gf = ldap_normalized_group_filter A c
      in if gf = [] then uf else ''(&'' @ uf @ gf @ '')'')"

definition ldap_test_user_filter :: "auth_env \<Rightarrow> ldap_config \<Rightarrow> string" where
  "ldap_test_user_filter A c =
     (if lc_group_filter c \<noteq> [] then ldap_normalized_group_filter A c
      else replace_all (lc_user_filter c) ''{username}'' ''*'')"

text \<open>The connection is bound to the search account first, then, for the check, to the entry found.\<close>

definition bound_to_search_account :: "auth_env \<Rightarrow> ldap_config \<Rightarrow> bool" where
  "bound_to_search_account A c \<longleftrightarrow>
     di_dial (ae_directory A) c \<and> (lc_bind_dn c \<noteq> [] \<longrightarrow> di_bind (ae_directory A) c (lc_bind_dn c) (lc_bind_password c))"

definition authenticate_ldap :: "auth_env \<Rightarrow> ldap_config \<Rightarrow> string \<Rightarrow> string \<Rightarrow> (string \<times> string) option" where
  "authenticate_ldap A c username password =
     (let name = trim_space username in
      if name = [] \<or> password = [] then None
      else if \<not> bound_to_search_account A c then None
      else case di_search (ae_directory A) c (ldap_login_user_filter A c name) of
        Some [e] \<Rightarrow>
          if \<not> di_bind (ae_directory A) c (le_dn e) password then None
          else
            (let resolved = (if trim_space (le_attribute e (lc_username_attribute c)) = [] then name
                   else le_attribute e (lc_username_attribute c));
                 shown = (if trim_space (le_attribute e (lc_display_name_attribute c)) = [] then resolved
                   else le_attribute e (lc_display_name_attribute c))
             in Some (resolved, shown))
      | _ \<Rightarrow> None)"

text \<open>\<open>TestLDAPProvider\<close>: the number of users the filter matches.\<close>

definition test_ldap_provider :: "auth_env \<Rightarrow> auth_provider \<Rightarrow> nat option" where
  "test_ldap_provider A p =
     (case decode_ldap_config A (ap_config p) of
        None \<Rightarrow> None
      | Some c \<Rightarrow>
          if \<not> bound_to_search_account A c then None
          else map_option length (di_search (ae_directory A) c (ldap_test_user_filter A c)))"

subsection \<open>Sessions\<close>

definition normalize_session_provider :: "string \<Rightarrow> string" where
  "normalize_session_provider p = (let q = trim_space p in if q = [] then ''local'' else q)"

definition create_session :: "auth_env \<Rightarrow> string option \<Rightarrow> gotime \<Rightarrow> user \<Rightarrow> string \<Rightarrow> db \<Rightarrow> session ares" where
  "create_session A tok now u provider d =
     (case tok of
        None \<Rightarrow> (Inl AuthFailure, d)
      | Some t \<Rightarrow>
          (let expires = now + ae_session_ttl A; p = normalize_session_provider provider in
           case create_session_row (ae_hash_token A t) (u_id u) p expires d of
             Inl e \<Rightarrow> (Inl (AuthStore e), d)
           | Inr d1 \<Rightarrow>
               (case record_user_login (u_id u) now d1 of
                  Inl e \<Rightarrow> (Inl (AuthStore e), d1)
                | Inr d2 \<Rightarrow> (Inr \<lparr>s_token = t, s_provider = p, s_expires_at = expires, s_user = u\<rparr>, d2))))"

definition login :: "auth_env \<Rightarrow> string option \<Rightarrow> gotime \<Rightarrow> string \<Rightarrow> string \<Rightarrow> db \<Rightarrow> session ares" where
  "login A tok now username password d =
     (case find_user_by_username (trim_space username) d of
        (Inl e, d1) \<Rightarrow> (Inl InvalidCredentials, d1)
      | (Inr (u, h), d1) \<Rightarrow>
          if u_disabled u then (Inl InvalidCredentials, d1)
          else if \<not> ae_verify A h password then (Inl InvalidCredentials, d1)
          else create_session A tok now u ''local'' d1)"

definition login_with_provider ::
    "auth_env \<Rightarrow> string option \<Rightarrow> gotime \<Rightarrow> string \<Rightarrow> string \<Rightarrow> string \<Rightarrow> db \<Rightarrow> session ares" where
  "login_with_provider A tok now pid username password d =
     (if pid = [] \<or> pid = ''local'' then login A tok now username password d
      else case get_auth_provider d pid of
        Inl e \<Rightarrow> (Inl InvalidCredentials, d)
      | Inr p \<Rightarrow>
          if \<not> ap_enabled p \<or> ap_type p \<noteq> ''ldap'' then (Inl InvalidCredentials, d)
          else case decode_ldap_config A (ap_config p) of
            None \<Rightarrow> (Inl AuthFailure, d)
          | Some c \<Rightarrow>
              (case authenticate_ldap A c username password of
                 None \<Rightarrow> (Inl InvalidCredentials, d)
               | Some (name, shown) \<Rightarrow>
                   (case find_user_by_username name d of
                      (Inl e, d1) \<Rightarrow> (Inl UserNotProvisioned, d1)
                    | (Inr (u, h), d1) \<Rightarrow>
                        if u_disabled u then (Inl UserNotProvisioned, d1)
                        else create_session A tok now u (ap_id p) d1)))"

definition validate :: "auth_env \<Rightarrow> string \<Rightarrow> gotime \<Rightarrow> db \<Rightarrow> session ares" where
  "validate A token now d =
     (if trim_space token = [] then (Inl InvalidSession, d)
      else let d1 = drop_err d (delete_expired_sessions now d) in
        case find_session (ae_hash_token A token) d1 of
          (Inl e, d2) \<Rightarrow> (Inl InvalidSession, d2)
        | (Inr (u, provider, expires), d2) \<Rightarrow>
            if expires \<le> now \<or> u_disabled u then (Inl InvalidSession, d2)
            else (Inr \<lparr>s_token = token, s_provider = normalize_session_provider provider, s_expires_at = expires, s_user = u\<rparr>, d2))"

definition logout :: "auth_env \<Rightarrow> string \<Rightarrow> db \<Rightarrow> store_error + db" where
  "logout A token d = (if token = [] then Inr d else delete_session (ae_hash_token A token) d)"

definition change_password :: "auth_env \<Rightarrow> string \<Rightarrow> gotime \<Rightarrow> string \<Rightarrow> string \<Rightarrow> db \<Rightarrow> unit ares" where
  "change_password A uid now old new d =
     (case find_user_by_id uid d of
        (Inl e, d1) \<Rightarrow> (Inl InvalidSession, d1)
      | (Inr u, d1) \<Rightarrow>
          if u_disabled u then (Inl InvalidSession, d1)
          else case find_user_by_username (u_username u) d1 of
            (Inl e, d2) \<Rightarrow> (Inl InvalidSession, d2)
          | (Inr (u2, h), d2) \<Rightarrow>
              if \<not> ae_verify A h old then (Inl OldPasswordMismatch, d2)
              else case ae_bcrypt A new of
                None \<Rightarrow> (Inl AuthFailure, d2)
              | Some hash \<Rightarrow>
                  (case update_user_password (u_id u) hash now d2 of
                     Inl e \<Rightarrow> (Inl (AuthStore e), d2)
                   | Inr d3 \<Rightarrow> (Inr (), d3)))"

subsection \<open>The login throttle\<close>

definition throttle_name :: "string \<Rightarrow> string" where
  "throttle_name username = to_lower (trim_space username)"

definition max_failures :: "base_config \<Rightarrow> int" where
  "max_failures b = (if bc_login_max_failures b \<le> 0 then 5 else bc_login_max_failures b)"

definition lockout_minutes :: "base_config \<Rightarrow> int" where
  "lockout_minutes b = (if bc_login_lockout_minutes b \<le> 0 then 2 else bc_login_lockout_minutes b)"

text \<open>The whole minutes left, rounded up.\<close>

definition minutes_left :: "int \<Rightarrow> int" where
  "minutes_left s = (s + 59) div 60"

definition ensure_login_allowed :: "string \<Rightarrow> gotime \<Rightarrow> db \<Rightarrow> unit ares" where
  "ensure_login_allowed username now d =
     (let name = throttle_name username in
      if name = [] \<or> equal_fold (trim_space username) ''admin'' then (Inr (), d)
      else case get_system_base_config d of
        Inl e \<Rightarrow> (Inl (AuthStore e), d)
      | Inr b \<Rightarrow>
          (case count_login_failures name d of
             Inl e \<Rightarrow> (Inl (AuthStore e), d)
           | Inr (n, latest) \<Rightarrow>
               if n < max_failures b \<or> latest \<le> 0 then (Inr (), d)
               else let remaining = latest + lockout_minutes b * 60 - unix_seconds now in
                 if 0 < remaining then (Inl (LoginLocked (minutes_left remaining)), d)
                 else case clear_login_failures name d of
                   Inl e \<Rightarrow> (Inl (AuthStore e), d)
                 | Inr (k, d1) \<Rightarrow> (Inr (), d1)))"

definition record_login_failure :: "string \<Rightarrow> gotime \<Rightarrow> db \<Rightarrow> db" where
  "record_login_failure username now d =
     (let name = throttle_name username in
      if name = [] then d else snd (create_login_failure name (unix_seconds now) d))"

definition forget_login_failures :: "string \<Rightarrow> db \<Rightarrow> db" where
  "forget_login_failures username d =
     (let name = throttle_name username in
      if name = [] then d else case clear_login_failures name d of Inl e \<Rightarrow> d | Inr (k, d1) \<Rightarrow> d1)"

subsection \<open>Requests\<close>

text \<open>An audit entry written for nobody in particular, or for the user of a session.\<close>

definition auth_audit :: "gotime \<Rightarrow> string \<Rightarrow> string \<Rightarrow> string \<Rightarrow> string \<Rightarrow> string \<Rightarrow> metadata \<Rightarrow> db \<Rightarrow> db" where
  "auth_audit now ip uid uname action result m d =
     drop_err d (write_audit \<lparr>a_ts = now, a_user_id = uid, a_username = uname, a_action = action, a_target = uname,
       a_module = ''System'', a_result = result, a_detail = audit_metadata m, a_ip = ip\<rparr> d)"

record login_request =
  lq_username :: string
  lq_password :: string
  lq_provider :: string

text \<open>The part of \<open>login\<close> after the throttle; only wrong credentials count as a failure.\<close>

definition login_attempt ::
    "auth_env \<Rightarrow> string option \<Rightarrow> gotime \<Rightarrow> string \<Rightarrow> login_request \<Rightarrow> string \<Rightarrow> db \<Rightarrow> session response \<times> db" where
  "login_attempt A tok now ip q provider d =
     (case login_with_provider A tok now provider (lq_username q) (lq_password q) d of
        (Inl UserNotProvisioned, d1) \<Rightarrow> (Fail 401 ''user_not_provisioned'', d1)
      | (Inl InvalidCredentials, d1) \<Rightarrow> (Fail 401 ''login_failed'', record_login_failure (lq_username q) now d1)
      | (Inl e, d1) \<Rightarrow> (Fail (status_from_auth_err e) ''login_failed'', d1)
      | (Inr ses, d1) \<Rightarrow>
          (Done 200 ses, auth_audit now ip (u_id (s_user ses)) (u_username (s_user ses)) ''User login'' ''success''
             [(''username'', u_username (s_user ses)), (''provider'', provider)]
             (forget_login_failures (lq_username q) d1)))"

definition login_handler ::
    "auth_env \<Rightarrow> string option \<Rightarrow> gotime \<Rightarrow> string \<Rightarrow> login_request option \<Rightarrow> db \<Rightarrow> session response \<times> db" where
  "login_handler A tok now ip req d =
     (case req of
        None \<Rightarrow> (Fail 400 ''invalid_request'', d)
      | Some q \<Rightarrow>
          if trim_space (lq_username q) = [] \<or> lq_password q = [] then (Fail 400 ''invalid_login'', d)
          else
            (let provider = text_or (trim_space (lq_provider q)) ''local'' in
             case ensure_login_allowed (lq_username q) now d of
               (Inl (LoginLocked m), d1) \<Rightarrow>
                 (Fail 429 ''login_locked'', auth_audit now ip [] (lq_username q) ''User login locked'' ''failure''
                    [(''username'', lq_username q), (''lockMinutes'', int_text m)] d1)
             | (_, d1) \<Rightarrow> login_attempt A tok now ip q provider d1))"

definition logout_handler :: "auth_env \<Rightarrow> gotime \<Rightarrow> string \<Rightarrow> string \<Rightarrow> db \<Rightarrow> unit response \<times> db" where
  "logout_handler A now ip token d =
     (case validate A token now d of
        (r, d1) \<Rightarrow>
          (let d2 = (case r of
                 Inl e \<Rightarrow> d1
               | Inr ses \<Rightarrow> auth_audit now ip (u_id (s_user ses)) (u_username (s_user ses)) ''User logout'' ''success''
                   [(''username'', u_username (s_user ses)), (''provider'', s_provider ses)] d1)
           in (Done 200 (), drop_err d2 (logout A token d2))))"

definition me_handler :: "auth_env \<Rightarrow> gotime \<Rightarrow> string \<Rightarrow> db \<Rightarrow> user response \<times> db" where
  "me_handler A now token d =
     (case validate A token now d of
        (Inl e, d1) \<Rightarrow> (Fail 401 ''unauthorized'', d1)
      | (Inr ses, d1) \<Rightarrow> (Done 200 (s_user ses), d1))"

text \<open>\<open>requireAuth\<close> in front of a handler: the caller is the user of the session.\<close>

definition require_auth ::
    "auth_env \<Rightarrow> gotime \<Rightarrow> string \<Rightarrow> string \<Rightarrow> (caller \<Rightarrow> db \<Rightarrow> 'a response \<times> db) \<Rightarrow> db \<Rightarrow> 'a response \<times> db" where
  "require_auth A now ip header k d =
     (case validate A (bearer_token header) now d of
        (Inl e, d1) \<Rightarrow> (Fail 401 ''unauthorized'', d1)
      | (Inr ses, d1) \<Rightarrow> k \<lparr>ca_user = s_user ses, ca_ip = ip, ca_now = now\<rparr> d1)"

definition change_password_handler ::
    "auth_env \<Rightarrow> caller \<Rightarrow> (string \<times> string \<times> string) option \<Rightarrow> db \<Rightarrow> unit response \<times> db" where
  "change_password_handler A c req d =
     (case req of
        None \<Rightarrow> (Fail 400 ''invalid_request'', d)
      | Some (old, new, confirm) \<Rightarrow>
          if length old < 6 \<or> length new < 6 \<or> new \<noteq> confirm then (Fail 400 ''invalid_password'', d)
          else if old = new then (Fail 400 ''invalid_password'', d)
          else case change_password A (u_id (ca_user c)) (ca_now c) old new d of
            (Inl OldPasswordMismatch, d1) \<Rightarrow> (Fail 400 ''invalid_old_password'', d1)
          | (Inl e, d1) \<Rightarrow> (Fail (status_from_auth_err e) ''change_password_failed'', d1)
          | (Inr _, d1) \<Rightarrow>
              (Done 200 (), audit c ''Changed password'' (u_username (ca_user c)) ''System'' ''success''
                 [(''username'', u_username (ca_user c))] d1))"

subsection \<open>Who is let through\<close>

lemma find_session_result:
  assumes "find_session h d = (Inr (u, p, e), d')"
  shows "\<exists>x row. find_row (\<lambda>x. sr_token_hash x = h) (db_sessions d) = Some x \<and>
    find_row (\<lambda>u. ur_id u = sr_user_id x) (db_users d) = Some row \<and> e = sr_expires_at x \<and>
    u_id u = ur_id row \<and> u_username u = ur_username row \<and> u_role u = ur_role row \<and> u_disabled u = ur_disabled row \<and>
    same_but_roles d d'"
proof -
  obtain x row where s: "find_row (\<lambda>x. sr_token_hash x = h) (db_sessions d) = Some x"
      "find_row (\<lambda>u. ur_id u = sr_user_id x) (db_users d) = Some row" "e = sr_expires_at x"
      "attach_access ((scan_user row)\<lparr>u_permissions := []\<rparr>) d = (Inr u, d')"
    using assms by (auto simp: find_session_def attach_access_to_users_def split: if_splits option.splits sum.splits prod.splits)
  with attach_access_keeps [OF s(4)] attach_access_frame [OF s(4)] show ?thesis by (auto simp: scan_user_def)
qed

lemma find_row_member: "find_row p xs = Some x \<Longrightarrow> x \<in> set xs \<and> p x"
  by (auto simp: find_row_def dest: find_Some_iff [THEN iffD1] intro: nth_mem)

lemma unexpired_rows:
  "drop_err d (delete_expired_sessions now d) = d \<or>
   drop_err d (delete_expired_sessions now d) = d\<lparr>db_sessions := filter (\<lambda>x. now < sr_expires_at x) (db_sessions d)\<rparr>"
  by (simp add: delete_expired_sessions_def drop_err_def delete_rows_def not_le)

lemma validate_live:
  assumes "validate A token now d = (Inr ses, d')"
  shows "\<exists>x row. x \<in> set (db_sessions d) \<and> sr_token_hash x = ae_hash_token A token \<and> now < sr_expires_at x \<and>
    row \<in> set (db_users d) \<and> ur_id row = sr_user_id x \<and> \<not> ur_disabled row \<and>
    u_id (s_user ses) = ur_id row \<and> u_username (s_user ses) = ur_username row \<and> u_role (s_user ses) = ur_role row \<and>
    s_expires_at ses = sr_expires_at x \<and> s_token ses = token"
proof -
  let ?d1 = "drop_err d (delete_expired_sessions now d)"
  obtain u p e where f: "find_session (ae_hash_token A token) ?d1 = (Inr (u, p, e), d')"
      "ses = \<lparr>s_token = token, s_provider = normalize_session_provider p, s_expires_at = e, s_user = u\<rparr>" "now < e" "\<not> u_disabled u"
    using assms by (auto simp: validate_def Let_def split: if_splits sum.splits prod.splits)
  have "set (db_sessions ?d1) \<subseteq> set (db_sessions d)" "db_users ?d1 = db_users d" using unexpired_rows [of d now] by auto
  with find_session_result [OF f(1)] f(2-4) show ?thesis by (auto dest!: find_row_member)
qed

lemma validate_frame: "validate A token now d = (r, d') \<Longrightarrow> db_users d' = db_users d \<and> set (db_sessions d') \<subseteq> set (db_sessions d)"
proof -
  assume v: "validate A token now d = (r, d')"
  have "find_session h x = (y, z) \<Longrightarrow> same_but_roles x z" for h x y z
    by (auto simp: find_session_def attach_access_to_users_def split: if_splits option.splits sum.splits prod.splits
        dest: attach_access_frame)
  then have "d' = d \<or> same_but_roles (drop_err d (delete_expired_sessions now d)) d'"
    using v by (auto simp: validate_def Let_def split: if_splits sum.splits prod.splits)
  then show ?thesis using unexpired_rows [of d now] by (auto simp: same_but_roles_sel)
qed

text \<open>C25. A request behind \<open>requireAuth\<close> reaches its handler only as the user of a session that has not expired,
  was opened with the token it carries, and belongs to a user who exists and is enabled at this moment;
  every other request is answered 401 and changes no user and adds no session.\<close>

theorem caller_has_live_session:
  "(\<exists>d'. require_auth A now ip header k d = (Fail 401 ''unauthorized'', d') \<and> db_users d' = db_users d \<and>
      set (db_sessions d') \<subseteq> set (db_sessions d)) \<or>
   (\<exists>x row c d'. require_auth A now ip header k d = k c d' \<and>
      x \<in> set (db_sessions d) \<and> sr_token_hash x = ae_hash_token A (bearer_token header) \<and> now < sr_expires_at x \<and>
      row \<in> set (db_users d) \<and> ur_id row = sr_user_id x \<and> \<not> ur_disabled row \<and>
      u_id (ca_user c) = ur_id row \<and> u_role (ca_user c) = ur_role row \<and> ca_now c = now \<and> db_users d' = db_users d)"
proof -
  obtain r d' where v: "validate A (bearer_token header) now d = (r, d')" by (rule prod.exhaust)
  note frame = validate_frame [OF v]
  show ?thesis
  proof (cases r)
    case (Inl e)
    then show ?thesis using v frame by (simp add: require_auth_def)
  next
    case (Inr ses)
    let ?c = "\<lparr>ca_user = s_user ses, ca_ip = ip, ca_now = now\<rparr>"
    obtain x row where "x \<in> set (db_sessions d)" "sr_token_hash x = ae_hash_token A (bearer_token header)" "now < sr_expires_at x"
        "row \<in> set (db_users d)" "ur_id row = sr_user_id x" "\<not> ur_disabled row" "u_id (s_user ses) = ur_id row" "u_role (s_user ses) = ur_role row"
      using validate_live [OF v [unfolded Inr]] by blast
    moreover have "require_auth A now ip header k d = k ?c d'" using v Inr by (simp add: require_auth_def)
    ultimately show ?thesis using frame by (intro disjI2 exI [of _ x] exI [of _ row] exI [of _ ?c] exI [of _ d']) simp
  qed
qed

subsection \<open>The life of a session\<close>

lemma attach_succeeds:
  assumes "db_fault d = (\<lambda>_ _. False)" "ur_id row = u_id u" "row \<in> set (db_users d)"
  shows "\<exists>v d'. attach_access u d = (Inr v, d')"
proof -
  have "\<exists>x. find_row (\<lambda>r. ur_id r = u_id u) (db_users d) = Some x"
    using assms(2,3) by (cases "find_row (\<lambda>r. ur_id r = u_id u) (db_users d)") (auto simp: find_row_def find_None_iff)
  then have "\<exists>rs d'. fallback_role (u_id u) d = (Inr rs, d')"
    using assms(1) by (auto simp: fallback_role_def Let_def split: option.split)
  then show ?thesis
    using assms(1) by (auto simp: attach_access_def list_user_direct_roles_def list_user_effective_roles_def Let_def)
qed

lemma create_session_done:
  assumes "create_session A (Some t) now u p d = (Inr ses, d')"
  shows "ses = \<lparr>s_token = t, s_provider = normalize_session_provider p, s_expires_at = now + ae_session_ttl A, s_user = u\<rparr>"
    and "d' = d\<lparr>db_sessions := db_sessions d @ [\<lparr>sr_token_hash = ae_hash_token A t, sr_user_id = u_id u,
        sr_provider = normalize_session_provider p, sr_expires_at = now + ae_session_ttl A\<rparr>],
      db_users := update_rows (\<lambda>r. ur_id r = u_id u) (\<lambda>r. r\<lparr>ur_last_login_at := Some now, ur_updated_at := now\<rparr>) (db_users d)\<rparr>"
    and "\<forall>x \<in> set (db_sessions d). sr_token_hash x \<noteq> ae_hash_token A t"
  using assms by (auto simp: create_session_def create_session_row_def record_user_login_def normalize_session_provider_def Let_def
      list_ex_iff split: if_splits sum.splits)

lemma login_done:
  assumes "login_with_provider A (Some t) now pid un pw d = (Inr ses, d')"
  obtains row u d0 p where "row \<in> set (db_users d)" "\<not> ur_disabled row" "u_id u = ur_id row" "same_but_roles d d0"
    "create_session A (Some t) now u p d0 = (Inr ses, d')"
proof -
  obtain name u h d0 p where f: "find_user_by_username name d = (Inr (u, h), d0)" "\<not> u_disabled u"
      "create_session A (Some t) now u p d0 = (Inr ses, d')"
    using assms by (auto simp: login_with_provider_def login_def split: if_splits sum.splits option.splits prod.splits)
  from find_user_row_result [OF f(1) [unfolded find_user_by_username_def]] obtain row where
      row: "find_row (\<lambda>u. ur_username u = name) (db_users d) = Some row" "attach_access (scan_user row) d = (Inr u, d0)" by blast
  show thesis
  proof (rule that)
    show "row \<in> set (db_users d)" using find_row_member [OF row(1)] ..
    show "\<not> ur_disabled row" "u_id u = ur_id row" using attach_access_keeps [OF row(2)] f(2) by (simp_all add: scan_user_def)
    show "same_but_roles d d0" using row(2) by (rule attach_access_frame)
  qed (rule f(3))
qed

lemma find_appended:
  "\<forall>y \<in> set xs. \<not> p y \<Longrightarrow> p x \<Longrightarrow> find_row p (xs @ [x]) = Some x"
  by (induction xs) (auto simp: find_row_def)

lemma find_filtered: "find_row p xs = Some x \<Longrightarrow> q x \<Longrightarrow> find_row p (filter q xs) = Some x"
  by (induction xs) (auto simp: find_row_def split: if_splits)

lemma validate_hit:
  assumes "find_row (\<lambda>x. sr_token_hash x = ae_hash_token A t) (db_sessions d) = Some x" "trim_space t \<noteq> []"
    and "db_fault d = (\<lambda>_ _. False)" "row \<in> set (db_users d)" "find_row (\<lambda>u. ur_id u = sr_user_id x) (db_users d) = Some row"
    and "\<not> ur_disabled row" "now < sr_expires_at x"
  shows "\<exists>ses d'. validate A t now d = (Inr ses, d') \<and> u_id (s_user ses) = ur_id row \<and> s_expires_at ses = sr_expires_at x"
proof -
  let ?d1 = "d\<lparr>db_sessions := filter (\<lambda>x. now < sr_expires_at x) (db_sessions d)\<rparr>"
  let ?u = "(scan_user row)\<lparr>u_permissions := []\<rparr>"
  have d1: "drop_err d (delete_expired_sessions now d) = ?d1"
    using assms(3) by (simp add: delete_expired_sessions_def drop_err_def delete_rows_def not_le)
  have hit: "find_row (\<lambda>x. sr_token_hash x = ae_hash_token A t) (db_sessions ?d1) = Some x"
    using find_filtered [OF assms(1), of "\<lambda>x. now < sr_expires_at x"] assms(7) by simp
  obtain v d' where v: "attach_access ?u ?d1 = (Inr v, d')"
    using attach_succeeds [of ?d1 row ?u] assms(3,4) by (auto simp: scan_user_def)
  have "find_session (ae_hash_token A t) ?d1 = (Inr (v, if sr_provider x = [] then ''local'' else sr_provider x, sr_expires_at x), d')"
    using hit assms(3,5) v by (simp add: find_session_def attach_access_to_users_def)
  moreover have "u_id v = ur_id row" "\<not> u_disabled v" using attach_access_keeps [OF v] assms(6) by (simp_all add: scan_user_def)
  ultimately show ?thesis using assms(2,7) by (simp add: validate_def d1)
qed

lemma validate_missing:
  assumes "\<forall>x \<in> set (db_sessions d). sr_token_hash x = ae_hash_token A t \<longrightarrow> sr_expires_at x \<le> now"
  shows "fst (validate A t now d) = Inl InvalidSession"
proof (cases "fst (validate A t now d)")
  case (Inl e)
  then show ?thesis by (auto simp: validate_def Let_def split: if_splits sum.splits prod.splits)
next
  case (Inr ses)
  then have "validate A t now d = (Inr ses, snd (validate A t now d))" by (simp add: prod_eq_iff)
  from validate_live [OF this] assms show ?thesis by (auto simp: not_le)
qed

lemma session_user_found:
  assumes "distinct (map ur_id us)" "row \<in> set us" "ur_id row = i" "ur_id (f row) = i"
  shows "find_row (\<lambda>u. ur_id u = i) (update_rows (\<lambda>r. ur_id r = i) f us) = Some (f row)"
  using assms by (induction us) (auto simp: find_row_def update_rows_def)


subsection \<open>A concrete session\<close>

definition sample_auth :: auth_env where
  "sample_auth = \<lparr>ae_hash_token = (\<lambda>t. t), ae_verify = (\<lambda>h pw. pw = ''correct''), ae_bcrypt = (\<lambda>pw. Some pw),
     ae_session_ttl = minutes 60, ae_ldap_json = (\<lambda>j. None), ae_ldap_escape = (\<lambda>s. s),
     ae_directory = \<lparr>di_dial = (\<lambda>c. False), di_bind = (\<lambda>c n pw. False), di_search = (\<lambda>c f. None)\<rparr>\<rparr>"

lemma bob_logs_in:
  "\<exists>ses d1. login_with_provider sample_auth (Some ''t0k'') 7 ''local'' ''bob'' ''correct'' access_db = (Inr ses, d1)"
proof -
  have n: "trim_space ''bob'' = ''bob''" by (rule trim_space_graph) (simp add: graph_ends_def char_code_def)
  have row: "find_row (\<lambda>u. ur_username u = ''bob'') (db_users access_db) = Some (sample_user ''2'' ''bob'' ''viewer'')"
    by (simp add: find_row_def access_simps)
  have "\<exists>v d'. attach_access (scan_user (sample_user ''2'' ''bob'' ''viewer'')) access_db = (Inr v, d')"
    by (rule attach_succeeds [of _ "sample_user ''2'' ''bob'' ''viewer''"]) (simp_all add: access_simps scan_user_def)
  then obtain v d0 where v: "attach_access (scan_user (sample_user ''2'' ''bob'' ''viewer'')) access_db = (Inr v, d0)" by blast
  note same = same_but_roles_sel [OF attach_access_frame [OF v]]
  have u: "find_user_by_username ''bob'' access_db = (Inr (v, ''h''), d0)"
    using row v by (simp add: find_user_by_username_def find_user_row_def attach_access_to_users_def access_db_sel sample_user_def)
  have "u_id v = ''2''" "\<not> u_disabled v" using attach_access_keeps [OF v] by (simp_all add: scan_user_def sample_user_def)
  then have "\<exists>ses d1. create_session sample_auth (Some ''t0k'') 7 v ''local'' d0 = (Inr ses, d1)"
    using same by (simp add: create_session_def create_session_row_def record_user_login_def access_simps Let_def)
  then show ?thesis using u \<open>\<not> u_disabled v\<close> by (simp add: login_with_provider_def login_def n sample_auth_def)
qed


end
