(* ===== verification/ZL_Login_Throttle.thy ===== *)
theory ZL_Login_Throttle
  imports ZL_Auth
begin

text \<open>
  How often a password can be tried: the login throttle of \<open>internal/service/auth/login_throttle.go\<close>
  over any run of login requests of any users (\<open>login_run\<close>), whose times do not decrease. The table of
  failures is kept equal to the recent part of the history of wrong passwords (\<open>throttle_inv\<close>).
\<close>

subsection \<open>What an attempt leaves alone\<close>

text \<open>The failures, the configuration and the faults.\<close>

definition throttle_frame :: "db \<Rightarrow> db \<Rightarrow> bool" where
  "throttle_frame d d' \<longleftrightarrow> db_login_failures d' = db_login_failures d \<and> db_settings d' = db_settings d \<and> db_fault d' = db_fault d"

lemma throttle_frame_refl [simp]: "throttle_frame d d"
  by (simp add: throttle_frame_def)

lemma throttle_frame_trans: "throttle_frame d e \<Longrightarrow> throttle_frame e f \<Longrightarrow> throttle_frame d f"
  by (simp add: throttle_frame_def)

lemma throttle_frame_read: "same_but_roles d d' \<Longrightarrow> throttle_frame d d'"
  by (auto simp: same_but_roles_def throttle_frame_def)

lemma throttle_frame_statements:
  "create_session_row h uid p x d = Inr d' \<Longrightarrow> throttle_frame d d'"
  "record_user_login uid now d = Inr d' \<Longrightarrow> throttle_frame d d'"
  by (auto simp: create_session_row_def record_user_login_def throttle_frame_def split: if_splits)

lemma find_user_frame: "find_user_by_username n d = (r, d') \<Longrightarrow> throttle_frame d d'"
  by (auto simp: find_user_by_username_def dest: find_user_row_frame throttle_frame_read)

lemma create_session_frame: "create_session A tok now u p d = (r, d') \<Longrightarrow> throttle_frame d d'"
  by (auto simp: create_session_def Let_def split: option.splits sum.splits
      dest: throttle_frame_statements intro: throttle_frame_trans)

lemma login_frame: "login A tok now n pw d = (r, d') \<Longrightarrow> throttle_frame d d'"
  by (auto simp: login_def split: sum.splits prod.splits if_splits dest!: find_user_frame create_session_frame
      intro: throttle_frame_trans)

lemma login_with_provider_frame: "login_with_provider A tok now pid n pw d = (r, d') \<Longrightarrow> throttle_frame d d'"
  by (auto simp: login_with_provider_def split: sum.splits option.splits prod.splits if_splits
      dest: login_frame dest!: find_user_frame create_session_frame intro: throttle_frame_trans)

lemma auth_audit_frame: "throttle_frame d (auth_audit now ip uid un a res m d)"
  by (simp add: auth_audit_def write_audit_def drop_err_def throttle_frame_def)

subsection \<open>How often a password can be tried\<close>

type_synonym attempt = "string option \<times> gotime \<times> string \<times> login_request"

text \<open>A run of requests for any users, with the times, latest first, at which wrong credentials were checked
  for the names that fold to \<open>name\<close>. A successful login for it starts the list anew.\<close>

definition history_after :: "string \<Rightarrow> attempt \<Rightarrow> session response \<Rightarrow> int list \<Rightarrow> int list" where
  "history_after name a r hist =
     (case a of (tok, now, ip, q) \<Rightarrow>
        if throttle_name (lq_username q) \<noteq> name then hist
        else case r of Done code ses \<Rightarrow> []
        | Fail code msg \<Rightarrow> if code = 401 \<and> msg = ''login_failed'' then unix_seconds now # hist else hist)"

fun login_run :: "auth_env \<Rightarrow> string \<Rightarrow> attempt list \<Rightarrow> db \<times> int list \<Rightarrow> db \<times> int list" where
  "login_run A name [] st = st"
| "login_run A name (a # as) (d, hist) =
     (case a of (tok, now, ip, q) \<Rightarrow>
        case login_handler A tok now ip (Some q) d of (r, d1) \<Rightarrow> login_run A name as (d1, history_after name a r hist))"

definition attempt_time :: "attempt \<Rightarrow> int" where
  "attempt_time a = (case a of (tok, now, ip, q) \<Rightarrow> unix_seconds now)"

text \<open>The statements of the throttle work, under this configuration.\<close>

definition throttle_works :: "base_config \<Rightarrow> db \<Rightarrow> bool" where
  "throttle_works b d \<longleftrightarrow> get_system_base_config d = Inr b \<and>
     (\<forall>op \<in> {''CountLoginFailures'', ''CreateLoginFailure'', ''ClearLoginFailures''}. \<forall>k. \<not> db_fault d op k)"

definition spaced :: "nat \<Rightarrow> int \<Rightarrow> int list \<Rightarrow> bool" where
  "spaced m l hist \<longleftrightarrow> (\<forall>i. i + m < length hist \<longrightarrow> hist ! (i + m) + l \<le> hist ! i)"

text \<open>The rows of the table are the latest entries of the history, at most \<open>m\<close>; all older ones are at least
  the lockout ago.\<close>

definition throttle_inv :: "nat \<Rightarrow> int \<Rightarrow> string \<Rightarrow> int \<Rightarrow> db \<times> int list \<Rightarrow> bool" where
  "throttle_inv m l name now st \<longleftrightarrow>
     (case st of (d, hist) \<Rightarrow>
        (\<exists>k \<le> m. rev (failure_times name d) = take k hist \<and> (\<forall>h \<in> set (drop k hist). h + l \<le> now)) \<and>
        sorted_wrt (\<ge>) hist \<and> (\<forall>h \<in> set hist. 0 < h \<and> h \<le> now) \<and> spaced m l hist)"

lemma spaced_Nil [simp]: "spaced m l []"
  by (simp add: spaced_def)

lemma spaced_Cons:
  assumes "spaced m l hist" "0 < m" "\<And>h. h \<in> set (drop (m - 1) hist) \<Longrightarrow> h + l \<le> t"
  shows "spaced m l (t # hist)"
  unfolding spaced_def
proof (intro allI impI)
  fix i assume i: "i + m < length (t # hist)"
  show "(t # hist) ! (i + m) + l \<le> (t # hist) ! i"
  proof (cases i)
    case 0
    with i assms(2) have "m - 1 < length hist" by simp
    then have "hist ! (m - 1) \<in> set (drop (m - 1) hist)"
      using hd_drop_conv_nth [of "m - 1" hist] hd_in_set [of "drop (m - 1) hist"] by simp
    from assms(3) [OF this] show ?thesis using 0 assms(2) by (simp add: nth_Cons')
  next
    case (Suc j)
    then show ?thesis using assms(1) i by (simp add: spaced_def)
  qed
qed

lemma throttle_invE:
  assumes "throttle_inv m l name now (d, hist)"
  obtains k where "k \<le> m" "rev (failure_times name d) = take k hist" "\<forall>h \<in> set (drop k hist). h + l \<le> now"
    "sorted_wrt (\<ge>) hist" "\<forall>h \<in> set hist. 0 < h \<and> h \<le> now" "spaced m l hist"
  using assms unfolding throttle_inv_def prod.case by blast

lemma throttle_invI:
  "k \<le> m \<Longrightarrow> rev (failure_times name d) = take k hist \<Longrightarrow> \<forall>h \<in> set (drop k hist). h + l \<le> now \<Longrightarrow>
   sorted_wrt (\<ge>) hist \<Longrightarrow> \<forall>h \<in> set hist. 0 < h \<and> h \<le> now \<Longrightarrow> spaced m l hist \<Longrightarrow> throttle_inv m l name now (d, hist)"
  unfolding throttle_inv_def prod.case by blast

lemma inv_later:
  assumes "throttle_inv m l name now (d, hist)" "now \<le> now'"
  shows "throttle_inv m l name now' (d, hist)"
proof -
  obtain k where k: "k \<le> m" "rev (failure_times name d) = take k hist" "\<forall>h \<in> set (drop k hist). h + l \<le> now"
    and rest: "sorted_wrt (\<ge>) hist" "\<forall>h \<in> set hist. 0 < h \<and> h \<le> now" "spaced m l hist"
    using assms(1) by (rule throttle_invE)
  have "\<forall>h \<in> set (drop k hist). h + l \<le> now'" "\<forall>h \<in> set hist. 0 < h \<and> h \<le> now'"
    using k(3) rest(2) assms(2) by (blast intro: order_trans)+
  then show ?thesis using k(1,2) rest(1,3) unfolding throttle_inv_def by blast
qed

lemma inv_frame: "throttle_frame d d' \<Longrightarrow> throttle_inv m l name now (d', hist) = throttle_inv m l name now (d, hist)"
  by (simp add: throttle_inv_def throttle_frame_def failure_times_def)

lemma works_cong: "db_settings d' = db_settings d \<Longrightarrow> db_fault d' = db_fault d \<Longrightarrow> throttle_works b d' = throttle_works b d"
  by (simp add: throttle_works_def get_system_base_config_def)

lemma works_frame: "throttle_frame d d' \<Longrightarrow> throttle_works b d' = throttle_works b d"
  by (simp add: throttle_works_def throttle_frame_def get_system_base_config_def)

text \<open>The check: afterwards the name is locked, or has room for a failure.\<close>

lemma filter_other_name:
  "filter (\<lambda>f. fst f = name) (filter (\<lambda>r. fst r \<noteq> n) fs) = (if n = name then [] else filter (\<lambda>f. fst f = name) fs)"
  by (induction fs) auto

lemma failures_cleared:
  "clear_login_failures n d = Inr (k, d1) \<Longrightarrow>
   failure_times name d1 = (if n = name then [] else failure_times name d) \<and> db_settings d1 = db_settings d \<and> db_fault d1 = db_fault d"
  by (auto simp: clear_login_failures_def failure_times_def delete_rows_def filter_other_name split: if_splits simp del: filter_filter)

lemma ensure_other:
  assumes "ensure_login_allowed u now d = (r, d1)" "throttle_name u \<noteq> name"
  shows "failure_times name d1 = failure_times name d" "db_settings d1 = db_settings d" "db_fault d1 = db_fault d"
  using assms failures_cleared [of "throttle_name u" d _ d1 name]
  by (auto simp: ensure_login_allowed_def Let_def split: if_splits sum.splits prod.splits)

lemma lower_admin: "to_lower ''admin'' = ''admin''"
  by code_simp

lemma ensure_own:
  assumes ok: "throttle_works b d" and inv: "throttle_inv (nat (max_failures b)) (lockout_minutes b * 60) name (unix_seconds now) (d, hist)"
    and u: "throttle_name u = name" "name \<noteq> []" "name \<noteq> ''admin''" and e: "ensure_login_allowed u now d = (r, d1)"
  shows "throttle_works b d1 \<and> throttle_inv (nat (max_failures b)) (lockout_minutes b * 60) name (unix_seconds now) (d1, hist) \<and>
    ((\<exists>m. r = Inl (LoginLocked m)) \<or> length (failure_times name d1) < nat (max_failures b))"
proof -
  let ?F = "failure_times name d" and ?m = "nat (max_failures b)" and ?l = "lockout_minutes b * 60"
  have m: "0 < max_failures b" by (simp add: max_failures_def)
  obtain k where k: "k \<le> ?m" "rev ?F = take k hist" "\<forall>h \<in> set (drop k hist). h + ?l \<le> unix_seconds now"
    and rest: "sorted_wrt (\<ge>) hist" "\<forall>h \<in> set hist. 0 < h \<and> h \<le> unix_seconds now" "spaced ?m ?l hist"
    using inv by (rule throttle_invE)
  have "set ?F = set (take k hist)" using arg_cong [OF k(2), of set] by simp
  then have pos: "\<forall>h \<in> set ?F. 0 < h" using rest(2) set_take_subset [of k hist] by auto
  have count: "count_login_failures name d = Inr (int (length ?F), if ?F = [] then 0 else Max (set ?F))"
    using ok by (simp add: count_login_failures_def throttle_works_def Let_def)
  have notadmin: "\<not> equal_fold (trim_space u) ''admin''"
    using u(1,3) lower_admin by (simp add: equal_fold_def throttle_name_def)
  have base: "get_system_base_config d = Inr b" using ok by (simp add: throttle_works_def)
  show ?thesis
  proof (cases "int (length ?F) < max_failures b")
    case True
    then have "r = Inr () \<and> d1 = d" using e u notadmin by (simp add: ensure_login_allowed_def base count Let_def)
    then show ?thesis using ok inv True by simp
  next
    case False
    then have ne: "?F \<noteq> []" using m by auto
    then have "0 < Max (set ?F)" using pos Max_in [of "set ?F"] by simp
    define mx where "mx = Max (set ?F)"
    define rem where "rem = mx + ?l - unix_seconds now"
    have count': "count_login_failures name d = Inr (int (length ?F), mx)" "0 < mx"
      using count ne \<open>0 < Max (set ?F)\<close> by (simp_all only: mx_def if_False)
    have step: "(if 0 < rem then (Inl (LoginLocked (minutes_left rem)), d)
        else case clear_login_failures name d of Inl e \<Rightarrow> (Inl (AuthStore e), d) | Inr (k, d2) \<Rightarrow> (Inr (), d2)) = (r, d1)"
      using e u notadmin False count'(2) by (simp add: ensure_login_allowed_def base count'(1) rem_def Let_def split: if_splits)
    show ?thesis
    proof (cases "0 < rem")
      case True
      then show ?thesis using step ok inv by auto
    next
      case no: False
      obtain n d2 where c: "clear_login_failures name d = Inr (n, d2)"
        using ok by (simp add: clear_login_failures_def throttle_works_def)
      then have d1: "d1 = d2" using step no by simp
      note cleared = failures_cleared [OF c, of name]
      have old: "\<forall>h \<in> set ?F. h + ?l \<le> unix_seconds now"
      proof
        fix h assume "h \<in> set ?F"
        then have "h \<le> mx" by (simp add: mx_def)
        then show "h + ?l \<le> unix_seconds now" using no by (simp add: rem_def)
      qed
      have "\<forall>h \<in> set (drop 0 hist). h + ?l \<le> unix_seconds now"
        using old \<open>set ?F = set (take k hist)\<close> k(3) by (metis Un_iff append_take_drop_id drop0 set_append)
      then have "throttle_inv ?m ?l name (unix_seconds now) (d2, hist)"
        using cleared rest by (intro throttle_invI [of 0]) simp_all
      moreover have "throttle_works b d2" using ok cleared works_cong [of d2 d b] by simp
      ultimately show ?thesis using cleared m d1 by simp
    qed
  qed
qed

lemma ge_filter_prefix:
  assumes "sorted_wrt (\<ge>) (xs :: int list)"
  shows "filter (\<lambda>x. c \<le> x) xs = take (length (filter (\<lambda>x. c \<le> x) xs)) xs"
    and "\<forall>x \<in> set (drop (length (filter (\<lambda>x. c \<le> x) xs)) xs). x < c"
proof -
  have f: "filter (\<lambda>x. c \<le> x) xs = takeWhile (\<lambda>x. c \<le> x) xs" using assms
  proof (induction xs)
    case (Cons x xs)
    show ?case
    proof (cases "c \<le> x")
      case False
      then have "filter (\<lambda>x. c \<le> x) xs = []" using Cons.prems by (auto simp: filter_empty_conv)
      then show ?thesis using False by simp
    qed (use Cons in simp)
  qed simp
  show "filter (\<lambda>x. c \<le> x) xs = take (length (filter (\<lambda>x. c \<le> x) xs)) xs"
    unfolding f by (rule takeWhile_eq_take)
  have "drop (length (filter (\<lambda>x. c \<le> x) xs)) xs = dropWhile (\<lambda>x. c \<le> x) xs"
    unfolding f by (rule dropWhile_eq_drop [symmetric])
  moreover have "\<forall>x \<in> set (dropWhile (\<lambda>x. c \<le> x) xs). x < c" using assms
  proof (induction xs)
    case (Cons x xs)
    then show ?case by (cases "c \<le> x") (auto intro: order.strict_trans1 simp: not_le)
  qed simp
  ultimately show "\<forall>x \<in> set (drop (length (filter (\<lambda>x. c \<le> x) xs)) xs). x < c" by simp
qed

text \<open>Dropping rows of more than a day shortens the part in the table; the lockout is shorter than a day.\<close>

lemma inv_drop_old:
  assumes "throttle_inv m l name now (d, hist)" "l \<le> 24 * 3600"
    and d': "failure_times name d' = filter (\<lambda>h. now - 24 * 3600 \<le> h) (failure_times name d)"
  shows "throttle_inv m l name now (d', hist)"
proof -
  obtain k where k: "k \<le> m" "rev (failure_times name d) = take k hist" "\<forall>h \<in> set (drop k hist). h + l \<le> now"
    and rest: "sorted_wrt (\<ge>) hist" "\<forall>h \<in> set hist. 0 < h \<and> h \<le> now" "spaced m l hist"
    using assms(1) by (rule throttle_invE)
  let ?c = "now - 24 * 3600" and ?P = "\<lambda>h. now - 24 * 3600 \<le> h"
  have s: "sorted_wrt (\<ge>) (take k hist)" using rest(1) by (rule sorted_wrt_take)
  define j where "j = length (filter ?P (take k hist))"
  have j: "j \<le> k" unfolding j_def by (rule order.trans [OF length_filter_le]) simp
  have "rev (failure_times name d') = filter ?P (take k hist)" by (simp add: d' k(2) [symmetric] rev_filter)
  also have "\<dots> = take j (take k hist)" unfolding j_def by (rule ge_filter_prefix(1) [OF s])
  also have "\<dots> = take j hist" using j by (simp add: min_def)
  finally have rows: "rev (failure_times name d') = take j hist" .
  have "h + l \<le> now" if "h \<in> set (drop j hist)" for h
  proof -
    have "drop j (take k hist @ drop k hist) = drop j (take k hist) @ drop (j - length (take k hist)) (drop k hist)"
      by (rule drop_append)
    moreover have "j - length (take k hist) = 0"
      using length_filter_le [of ?P "take k hist"] unfolding j_def by (simp del: length_take)
    ultimately have "drop j hist = drop j (take k hist) @ drop k hist" by simp
    with that have "h \<in> set (drop j (take k hist) @ drop k hist)" by (simp only:)
    then consider "h \<in> set (drop j (take k hist))" | "h \<in> set (drop k hist)" unfolding set_append by blast
    then show ?thesis
    proof cases
      case 1
      then have "h < ?c" using ge_filter_prefix(2) [OF s, of ?c] by (simp add: j_def)
      then show ?thesis using assms(2) by simp
    qed (use k(3) in blast)
  qed
  then show ?thesis using rows j k(1) rest by (intro throttle_invI [of j]) auto
qed

lemma throttle_name_nonempty: "trim_space u \<noteq> [] \<Longrightarrow> throttle_name u \<noteq> []"
  by (simp add: throttle_name_def to_lower_def)

lemma recorded_times:
  assumes "\<not> db_fault d ''CreateLoginFailure'' (throttle_name u)" "throttle_name u \<noteq> []"
  shows "failure_times name (record_login_failure u now d) =
      (let ts = failure_times name d @ (if throttle_name u = name then [unix_seconds now] else []) in
       if db_fault d ''DropLoginFailures'' (throttle_name u) then ts else filter (\<lambda>h. unix_seconds now - 24 * 3600 \<le> h) ts)"
    and "db_settings (record_login_failure u now d) = db_settings d" "db_fault (record_login_failure u now d) = db_fault d"
proof -
  have swap: "map snd (filter (\<lambda>f. fst f = name) (filter (\<lambda>f. \<not> snd f < c) fs)) =
      filter (\<lambda>h. c \<le> h) (map snd (filter (\<lambda>f. fst f = name) fs))" for c :: int and fs
    by (induction fs) auto
  show "failure_times name (record_login_failure u now d) =
      (let ts = failure_times name d @ (if throttle_name u = name then [unix_seconds now] else []) in
       if db_fault d ''DropLoginFailures'' (throttle_name u) then ts else filter (\<lambda>h. unix_seconds now - 24 * 3600 \<le> h) ts)"
    using assms by (simp add: record_login_failure_def create_login_failure_def failure_times_def delete_rows_def swap Let_def del: filter_filter)
qed (use assms in \<open>simp_all add: record_login_failure_def create_login_failure_def Let_def\<close>)

lemma inv_recorded:
  assumes inv: "throttle_inv m l name (unix_seconds now) (d, hist)" and m: "0 < m" "length (failure_times name d) < m"
    and l: "l \<le> 24 * 3600" and t: "0 < unix_seconds now"
    and ok: "\<not> db_fault d ''CreateLoginFailure'' (throttle_name u)" "throttle_name u = name" "name \<noteq> []"
  shows "throttle_inv m l name (unix_seconds now) (record_login_failure u now d, unix_seconds now # hist)"
proof -
  obtain k where k: "k \<le> m" "rev (failure_times name d) = take k hist" "\<forall>h \<in> set (drop k hist). h + l \<le> unix_seconds now"
    and rest: "sorted_wrt (\<ge>) hist" "\<forall>h \<in> set hist. 0 < h \<and> h \<le> unix_seconds now" "spaced m l hist"
    using inv by (rule throttle_invE)
  define j where "j = length (failure_times name d)"
  have "take j hist = take k hist" "drop j hist = drop k hist"
    using arg_cong [OF k(2), of length] by (auto simp: j_def min_def split: if_splits)
  then have j: "rev (failure_times name d) = take j hist" "\<forall>h \<in> set (drop j hist). h + l \<le> unix_seconds now"
    using k by simp_all
  let ?d = "d\<lparr>db_login_failures := db_login_failures d @ [(name, unix_seconds now)]\<rparr>"
  have "h + l \<le> unix_seconds now" if "h \<in> set (drop (m - 1) hist)" for h
  proof -
    have "j \<le> m - 1" using m by (simp add: j_def)
    from subsetD [OF set_drop_subset_set_drop [OF this] that] j(2) show ?thesis by blast
  qed
  then have "spaced m l (unix_seconds now # hist)" by (intro spaced_Cons rest(3) m(1))
  then have "throttle_inv m l name (unix_seconds now) (?d, unix_seconds now # hist)"
    using j rest m t by (intro throttle_invI [of "Suc j"]) (auto simp: failure_times_def j_def)
  moreover have "failure_times name ?d = failure_times name d @ [unix_seconds now]" by (simp add: failure_times_def)
  ultimately show ?thesis
    using recorded_times(1) [of d u name now] ok l inv_drop_old [of m l name "unix_seconds now" ?d] 
    by (cases "db_fault d ''DropLoginFailures'' (throttle_name u)") (auto simp: throttle_inv_def Let_def)
qed

lemma forgotten:
  assumes "\<not> db_fault d ''ClearLoginFailures'' (throttle_name u)" "throttle_name u \<noteq> []"
  shows "failure_times name (forget_login_failures u d) = (if throttle_name u = name then [] else failure_times name d) \<and>
    db_settings (forget_login_failures u d) = db_settings d \<and> db_fault (forget_login_failures u d) = db_fault d"
proof -
  obtain n d1 where c: "clear_login_failures (throttle_name u) d = Inr (n, d1)"
    using assms(1) by (simp add: clear_login_failures_def)
  then have "forget_login_failures u d = d1" using assms(2) by (simp add: forget_login_failures_def Let_def)
  then show ?thesis using failures_cleared [OF c, of name] by simp
qed

lemma login_errors:
  "login_with_provider A tok now pid n pw d = (Inl e, d1) \<Longrightarrow> e \<noteq> InvalidSession"
  by (auto simp: login_with_provider_def login_def create_session_def Let_def
      split: if_splits sum.splits option.splits prod.splits)

text \<open>The three ways an attempt touches the table.\<close>

lemma login_attempt_cases:
  assumes "login_attempt A tok now ip q provider d = (r, d')"
  obtains code msg where "throttle_frame d d'" "r = Fail code msg" "\<not> (code = 401 \<and> msg = ''login_failed'')"
    | d1 where "throttle_frame d d1" "d' = record_login_failure (lq_username q) now d1" "r = Fail 401 ''login_failed''"
    | d1 ses where "throttle_frame d d1" "throttle_frame (forget_login_failures (lq_username q) d1) d'" "r = Done 200 ses"
proof -
  obtain x d1 where l: "login_with_provider A tok now provider (lq_username q) (lq_password q) d = (x, d1)" by (rule prod.exhaust)
  note f = login_with_provider_frame [OF l]
  show thesis
  proof (cases x)
    case (Inr ses)
    then show thesis using assms l f auth_audit_frame by (intro that(3)) (auto simp: login_attempt_def)
  next
    case (Inl e)
    show thesis
    proof (cases "e = InvalidCredentials")
      case True
      then show thesis using assms l Inl f by (intro that(2)) (auto simp: login_attempt_def)
    next
      case False
      have "e \<noteq> InvalidSession" using login_errors l Inl by simp
      then have "d' = d1 \<and> (\<exists>code msg. r = Fail code msg \<and> \<not> (code = 401 \<and> msg = ''login_failed''))"
        using assms l Inl False
        by (auto simp: login_attempt_def status_from_err_def split: auth_error.splits store_error.splits)
      then show thesis using f that(1) by blast
    qed
  qed
qed

lemma attempt_step:
  assumes ok: "throttle_works b d" and inv: "throttle_inv m l name (unix_seconds now) (d, hist)" and m: "0 < m"
    and room: "throttle_name (lq_username q) = name \<Longrightarrow> length (failure_times name d) < m"
    and l: "l \<le> 24 * 3600" and t: "0 < unix_seconds now" and name: "throttle_name (lq_username q) \<noteq> []"
    and a: "login_attempt A tok now ip q provider d = (r, d')"
  shows "throttle_works b d' \<and> throttle_inv m l name (unix_seconds now) (d', history_after name (tok, now, ip, q) r hist)"
proof -
  let ?u = "lq_username q"
  have same: "history_after name (tok, now, ip, q) r hist = hist" if "throttle_name ?u \<noteq> name"
    using that by (simp add: history_after_def)
  from a show ?thesis
  proof (cases rule: login_attempt_cases)
    case (1 code msg)
    then show ?thesis using ok inv by (auto simp: works_frame inv_frame history_after_def)
  next
    case (2 d1)
    note d1 = works_frame [OF 2(1), of b] inv_frame [OF 2(1)]
    have fault: "\<not> db_fault d1 ''CreateLoginFailure'' (throttle_name ?u)"
      using ok d1(1) by (simp add: throttle_works_def)
    note rec = recorded_times [OF fault name]
    have "throttle_works b d'" using rec(2,3) ok d1(1) works_cong [of d' d1 b] by (simp add: 2(2))
    moreover have "throttle_inv m l name (unix_seconds now) (d', history_after name (tok, now, ip, q) r hist)"
    proof (cases "throttle_name ?u = name")
      case True
      have "length (failure_times name d1) < m" using room True 2(1) by (simp add: throttle_frame_def failure_times_def)
      then show ?thesis
        using inv_recorded [of m l name now d1 hist ?u] inv m l t fault True name 2 by (simp add: d1(2) history_after_def)
    next
      case False
      have "throttle_inv m l name (unix_seconds now) (d1, hist)" using inv by (simp add: d1(2))
      then show ?thesis
        using rec(1) [of name] False l inv_drop_old [of m l name "unix_seconds now" d1 hist d']
        by (cases "db_fault d1 ''DropLoginFailures'' (throttle_name ?u)") (auto simp: same 2(2) throttle_inv_def Let_def)
    qed
    ultimately show ?thesis ..
  next
    case (3 d1 ses)
    let ?d2 = "forget_login_failures ?u d1"
    note d1 = works_frame [OF 3(1), of b] inv_frame [OF 3(1)]
    have fault: "\<not> db_fault d1 ''ClearLoginFailures'' (throttle_name ?u)"
      using ok d1(1) by (simp add: throttle_works_def)
    note forg = forgotten [OF fault name, of name]
    have "throttle_works b d'" using forg ok d1(1) works_cong [of ?d2 d1 b] works_frame [OF 3(2), of b] by simp
    moreover have "throttle_inv m l name (unix_seconds now) (?d2, history_after name (tok, now, ip, q) r hist)"
    proof (cases "throttle_name ?u = name")
      case True
      then show ?thesis using forg by (intro throttle_invI [of 0]) (simp_all add: history_after_def 3(3))
    next
      case False
      have "throttle_inv m l name (unix_seconds now) (d1, hist)" using inv by (simp add: d1(2))
      then show ?thesis using forg False by (simp add: same throttle_inv_def)
    qed
    ultimately show ?thesis by (simp add: inv_frame [OF 3(2)])
  qed
qed

lemma handler_step:
  assumes ok: "throttle_works b d" and inv: "throttle_inv (nat (max_failures b)) (lockout_minutes b * 60) name (unix_seconds now) (d, hist)"
    and l: "lockout_minutes b * 60 \<le> 24 * 3600" and t: "0 < unix_seconds now" and name: "name \<noteq> []" "name \<noteq> ''admin''"
    and h: "login_handler A tok now ip (Some q) d = (r, d')"
  shows "throttle_works b d' \<and>
    throttle_inv (nat (max_failures b)) (lockout_minutes b * 60) name (unix_seconds now) (d', history_after name (tok, now, ip, q) r hist)"
proof (cases "trim_space (lq_username q) = [] \<or> lq_password q = []")
  case True
  then show ?thesis using h ok inv by (auto simp: login_handler_def history_after_def)
next
  case False
  let ?u = "lq_username q" and ?m = "nat (max_failures b)" and ?l = "lockout_minutes b * 60"
  have m: "0 < ?m" by (simp add: max_failures_def)
  obtain x d1 where e: "ensure_login_allowed ?u now d = (x, d1)" by (rule prod.exhaust)
  have checked: "throttle_works b d1" "throttle_inv ?m ?l name (unix_seconds now) (d1, hist)"
      "throttle_name ?u = name \<Longrightarrow> \<nexists>n. x = Inl (LoginLocked n) \<Longrightarrow> length (failure_times name d1) < ?m"
  proof -
    have "throttle_works b d1 \<and> throttle_inv ?m ?l name (unix_seconds now) (d1, hist)" if "throttle_name ?u \<noteq> name"
      using ensure_other [OF e that] ok inv works_cong [of d1 d b] by (simp add: throttle_inv_def)
    then show "throttle_works b d1" "throttle_inv ?m ?l name (unix_seconds now) (d1, hist)"
        "throttle_name ?u = name \<Longrightarrow> \<nexists>n. x = Inl (LoginLocked n) \<Longrightarrow> length (failure_times name d1) < ?m"
      using ensure_own [OF ok inv _ name e] by blast+
  qed
  show ?thesis
  proof (cases "\<exists>n. x = Inl (LoginLocked n)")
    case True
    then obtain un act m md where "r = Fail 429 ''login_locked''" "d' = auth_audit now ip [] un act ''failure'' md d1"
      using h False e by (auto simp: login_handler_def Let_def)
    then show ?thesis
      using checked(1,2) works_frame [OF auth_audit_frame] inv_frame [OF auth_audit_frame] by (simp add: history_after_def)
  next
    case no: False
    then have a: "login_attempt A tok now ip q (text_or (trim_space (lq_provider q)) ''local'') d1 = (r, d')"
      using h False e by (auto simp: login_handler_def Let_def split: sum.splits auth_error.splits)
    have "throttle_name ?u \<noteq> []" using False throttle_name_nonempty by blast
    then show ?thesis using attempt_step [OF checked(1,2) m _ l t _ a] checked(3) no by blast
  qed
qed

lemma run_keeps_inv:
  assumes "throttle_works b d" "throttle_inv (nat (max_failures b)) (lockout_minutes b * 60) name now (d, hist)"
    and "lockout_minutes b * 60 \<le> 24 * 3600" "0 < now" "name \<noteq> []" "name \<noteq> ''admin''"
    and "sorted (now # map attempt_time as)" "login_run A name as (d, hist) = (d', hist')"
  shows "spaced (nat (max_failures b)) (lockout_minutes b * 60) hist'"
  using assms
proof (induction as arbitrary: d hist now)
  case Nil
  then show ?case by (auto elim: throttle_invE)
next
  case (Cons a as)
  obtain tok t ip q where a: "a = (tok, t, ip, q)" by (metis prod_cases4)
  obtain r d1 where h: "login_handler A tok t ip (Some q) d = (r, d1)" by (rule prod.exhaust)
  have at: "attempt_time a = unix_seconds t" by (simp add: a attempt_time_def)
  have t: "now \<le> unix_seconds t" "0 < unix_seconds t" using Cons.prems(4,7) at by auto
  note step = handler_step [OF Cons.prems(1) inv_later [OF Cons.prems(2) t(1)] Cons.prems(3) t(2) Cons.prems(5,6) h]
  have "sorted (unix_seconds t # map attempt_time as)" using Cons.prems(7) at by simp
  moreover have "login_run A name as (d1, history_after name a r hist) = (d', hist')" using Cons.prems(8) h by (simp add: a)
  ultimately show ?case using step t(2) Cons.prems(3,5,6) by (intro Cons.IH [of d1 "unix_seconds t"]) (simp_all add: a)
qed


text \<open>The check and the record of a failure are separate statements: while no failure is recorded in between,
  any number of checks let their requests through.\<close>

lemma checks_before_records_pass:
  assumes "throttle_works b d" "int (length (failure_times (throttle_name u) d)) < max_failures b"
  shows "((\<lambda>d. snd (ensure_login_allowed u now d)) ^^ n) d = d \<and> fst (ensure_login_allowed u now d) = Inr ()"
proof -
  have "ensure_login_allowed u now d = (Inr (), d)"
    using assms by (simp add: ensure_login_allowed_def throttle_works_def count_login_failures_def Let_def)
  then show ?thesis by (induction n) simp_all
qed

subsection \<open>Concrete attempts\<close>

definition wrong_password :: "int \<Rightarrow> attempt" where
  "wrong_password s = (None, seconds s, ''10.0.0.9'', \<lparr>lq_username = ''eve'', lq_password = ''guess'', lq_provider = []\<rparr>)"

lemma eve_name: "trim_space ''eve'' = ''eve''" "throttle_name ''eve'' = ''eve''" "\<not> equal_fold ''eve'' ''admin''"
proof -
  show n: "trim_space ''eve'' = ''eve''" by (rule trim_space_graph) (simp add: graph_ends_def char_code_def)
  have "to_lower ''eve'' = ''eve''" by code_simp
  then show "throttle_name ''eve'' = ''eve''" "\<not> equal_fold ''eve'' ''admin''"
    using lower_admin by (simp_all add: throttle_name_def n equal_fold_def)
qed

lemma eve_step:
  assumes d: "d = empty_db\<lparr>db_login_failures := fs, db_audit := au\<rparr>"
  shows "login_run sample_auth ''eve'' (wrong_password s # as) (d, hist) =
    (if length (failure_times ''eve'' d) < 5 \<or> Max (set (failure_times ''eve'' d)) \<le> 0
     then login_run sample_auth ''eve'' as (record_login_failure ''eve'' (seconds s) d, s # hist)
     else if s < Max (set (failure_times ''eve'' d)) + 120
     then login_run sample_auth ''eve'' as (auth_audit (seconds s) ''10.0.0.9'' [] ''eve'' ''User login locked'' ''failure''
        [(''username'', ''eve''), (''lockMinutes'', int_text (minutes_left (Max (set (failure_times ''eve'' d)) + 120 - s)))] d, hist)
     else login_run sample_auth ''eve'' as
        (record_login_failure ''eve'' (seconds s) (d\<lparr>db_login_failures := filter (\<lambda>f. fst f \<noteq> ''eve'') fs\<rparr>), s # hist))"
proof -
  have none: "find_user_by_username ''eve'' x = (Inl NotFound, x)" if "x = empty_db\<lparr>db_login_failures := gs, db_audit := bs\<rparr>" for x gs bs
    by (simp add: that find_user_by_username_def find_user_row_def empty_db_def find_row_def)
  have attempt: "login_attempt sample_auth None (seconds s) ''10.0.0.9'' \<lparr>lq_username = ''eve'', lq_password = ''guess'', lq_provider = []\<rparr> ''local'' x =
      (Fail 401 ''login_failed'', record_login_failure ''eve'' (seconds s) x)" if "x = empty_db\<lparr>db_login_failures := gs, db_audit := bs\<rparr>" for x gs bs
    by (simp add: login_attempt_def login_with_provider_def login_def none [OF that] eve_name)
  have base: "get_system_base_config d = Inr zero_base_config" by (simp add: d get_system_base_config_def empty_db_def)
  have limits: "max_failures zero_base_config = 5" "lockout_minutes zero_base_config * 60 = 120"
    by (simp_all add: max_failures_def lockout_minutes_def zero_base_config_def)
  have time: "unix_seconds (seconds s) = s" by (simp add: unix_seconds_def seconds_def nanos_per_second_def)
  define mx where "mx = Max (set (failure_times ''eve'' d))"
  define n where "n = length (failure_times ''eve'' d)"
  let ?d1 = "d\<lparr>db_login_failures := filter (\<lambda>f. fst f \<noteq> ''eve'') fs\<rparr>"
  have count: "count_login_failures ''eve'' d = Inr (int n, if n = 0 then 0 else mx)"
    by (simp add: count_login_failures_def d empty_db_def n_def mx_def Let_def)
  have clear: "\<exists>k. clear_login_failures ''eve'' d = Inr (k, ?d1)"
    by (simp add: clear_login_failures_def d empty_db_def delete_rows_def)
  have "ensure_login_allowed ''eve'' (seconds s) d =
      (if n < 5 \<or> mx \<le> 0 then (Inr (), d)
       else if s < mx + 120 then (Inl (LoginLocked (minutes_left (mx + 120 - s))), d) else (Inr (), ?d1))"
    using clear by (auto simp: ensure_login_allowed_def eve_name base count limits time Let_def)
  moreover have "?d1 = empty_db\<lparr>db_login_failures := filter (\<lambda>f. fst f \<noteq> ''eve'') fs, db_audit := au\<rparr>" by (simp add: d)
  note attempt [OF d] attempt [OF this]
  moreover have "trim_space [] = []" "text_or [] ''local'' = ''local''" by (simp_all add: text_or_def)
  ultimately show ?thesis
    by (simp add: wrong_password_def login_handler_def history_after_def eve_name time mx_def [symmetric] n_def [symmetric])
qed

lemma seven_attempts:
  "\<exists>d'. login_run sample_auth ''eve'' (map wrong_password [1, 2, 3, 4, 5, 60, 200]) (empty_db, []) = (d', [200, 5, 4, 3, 2, 1])"
proof -
  have d: "empty_db\<lparr>db_login_failures := [], db_audit := []\<rparr> = empty_db" by (simp add: empty_db_def)
  have rec: "record_login_failure ''eve'' (seconds s) (empty_db\<lparr>db_login_failures := fs, db_audit := au\<rparr>) =
      empty_db\<lparr>db_login_failures := filter (\<lambda>f. s - 24 * 3600 \<le> snd f) (fs @ [(''eve'', s)]), db_audit := au\<rparr>" for s fs au
    by (simp add: record_login_failure_def create_login_failure_def eve_name empty_db_def delete_rows_def
        unix_seconds_def seconds_def nanos_per_second_def not_less)
  have aud: "auth_audit (seconds s) ip uid un act res m (empty_db\<lparr>db_login_failures := fs, db_audit := au\<rparr>) =
      empty_db\<lparr>db_login_failures := fs, db_audit := au @ [\<lparr>a_ts = seconds s, a_user_id = uid, a_username = un, a_action = act,
        a_target = un, a_module = ''System'', a_result = res, a_detail = audit_metadata m, a_ip = ip\<rparr>]\<rparr>"
    for s ip uid un act res m fs au
    by (simp add: auth_audit_def write_audit_def drop_err_def empty_db_def)
  have "\<exists>d'. login_run sample_auth ''eve'' (map wrong_password [1, 2, 3, 4, 5, 60, 200])
      (empty_db\<lparr>db_login_failures := [], db_audit := []\<rparr>, []) = (d', [200, 5, 4, 3, 2, 1])"
    by (simp add: eve_step [OF refl] rec aud failure_times_def del: login_run.simps(2))
  then show ?thesis unfolding d .
qed


end
