(* ===== verification/ZL_Password_Reset.thy ===== *)
theory ZL_Password_Reset
  imports ZL_Auth ZL_Refresh_Handlers
begin

text \<open>
  Resetting a password: \<open>internal/service/auth/password_reset.go\<close> and \<open>password_reset_runtime.go\<close> over
  \<open>internal/repository/password_reset.go\<close>, with the requests of \<open>api/router/auth.go\<close>. A user solves a
  signed captcha, receives a verification token, has a code sent by mail and confirms it. \<open>re_mac\<close> is
  HMAC-SHA256 under the session secret, \<open>re_notify\<close> whether a mail with a code is accepted.
\<close>

record reset_config =
  rc_code_ttl :: gotime
  rc_captcha_ttl :: gotime
  rc_cooldown_secs :: int
  rc_rate_span :: gotime
  rc_rate_max :: int

record reset_env =
  re_auth :: auth_env
  re_mac :: "string \<Rightarrow> string"
  re_config :: reset_config
  re_verification_ttl :: gotime
  re_notify :: "(string \<Rightarrow> string \<Rightarrow> string \<Rightarrow> bool) option"

subsection \<open>Statements\<close>

record reset_request =
  rq_user_id :: string
  rq_username :: string
  rq_user_email :: string
  rq_code_hash :: string
  rq_expires_at :: gotime
  rq_used_at :: "gotime option"

definition create_password_reset_request :: "string \<Rightarrow> string \<Rightarrow> gotime \<Rightarrow> gotime \<Rightarrow> db \<Rightarrow> store_error + db" where
  "create_password_reset_request h uid expires now d =
     (if db_fault d ''CreateReset'' uid \<or> \<not> list_ex (\<lambda>u. ur_id u = uid) (db_users d) then Inl DbError
      else if list_ex (\<lambda>r. rr_token_hash r = h) (db_resets d) then Inl UniqueViolation
      else Inr (d\<lparr>db_resets := db_resets d @ [\<lparr>rr_token_hash = h, rr_user_id = uid, rr_code_hash = [], rr_channel = [],
             rr_expires_at = expires, rr_used_at = None, rr_created_at = now\<rparr>]\<rparr>))"

definition open_request :: "string \<Rightarrow> reset_row \<Rightarrow> bool" where
  "open_request h r \<longleftrightarrow> rr_token_hash r = h \<and> rr_used_at r = None"

definition set_password_reset_code :: "string \<Rightarrow> string \<Rightarrow> string \<Rightarrow> gotime \<Rightarrow> db \<Rightarrow> store_error + db" where
  "set_password_reset_code h code channel expires d =
     (if db_fault d ''SetResetCode'' h then Inl DbError
      else if \<not> list_ex (open_request h) (db_resets d) then Inl NotFound
      else Inr (d\<lparr>db_resets := update_rows (open_request h)
             (\<lambda>r. r\<lparr>rr_code_hash := code, rr_channel := channel, rr_expires_at := expires\<rparr>) (db_resets d)\<rparr>))"

text \<open>The requests of a user that got a code and were created since.\<close>

definition recent_codes :: "string \<Rightarrow> gotime \<Rightarrow> db \<Rightarrow> reset_row list" where
  "recent_codes uid since d =
     filter (\<lambda>r. rr_user_id r = uid \<and> rr_code_hash r \<noteq> [] \<and> since \<le> rr_created_at r) (db_resets d)"

definition latest_recent_code :: "string \<Rightarrow> gotime \<Rightarrow> db \<Rightarrow> store_error + gotime option" where
  "latest_recent_code uid since d =
     (if db_fault d ''LatestResetCode'' uid then Inl DbError
      else let cs = map rr_created_at (recent_codes uid since d) in Inr (if cs = [] then None else Some (Max (set cs))))"

definition count_recent_codes :: "string \<Rightarrow> gotime \<Rightarrow> db \<Rightarrow> store_error + int" where
  "count_recent_codes uid since d =
     (if db_fault d ''CountResetCodes'' uid then Inl DbError else Inr (int (length (recent_codes uid since d))))"

definition find_password_reset_request :: "string \<Rightarrow> db \<Rightarrow> store_error + reset_request" where
  "find_password_reset_request h d =
     (if db_fault d ''FindReset'' h then Inl DbError
      else case find_row (\<lambda>r. rr_token_hash r = h) (db_resets d) of
        None \<Rightarrow> Inl NotFound
      | Some r \<Rightarrow>
          (case find_row (\<lambda>u. ur_id u = rr_user_id r) (db_users d) of
             None \<Rightarrow> Inl NotFound
           | Some u \<Rightarrow> Inr \<lparr>rq_user_id = rr_user_id r, rq_username = ur_username u, rq_user_email = ur_email u,
               rq_code_hash = rr_code_hash r, rq_expires_at = rr_expires_at r, rq_used_at = rr_used_at r\<rparr>))"

definition delete_stale_requests :: "gotime \<Rightarrow> db \<Rightarrow> store_error + db" where
  "delete_stale_requests before d =
     (if db_fault d ''DeleteStaleResets'' [] then Inl DbError
      else Inr (d\<lparr>db_resets := delete_rows (\<lambda>r. rr_created_at r < before) (db_resets d)\<rparr>))"

definition mark_password_reset_used :: "string \<Rightarrow> gotime \<Rightarrow> db \<Rightarrow> store_error + db" where
  "mark_password_reset_used h now d =
     (if db_fault d ''MarkResetUsed'' h then Inl DbError
      else if \<not> list_ex (open_request h) (db_resets d) then Inl NotFound
      else Inr (d\<lparr>db_resets := update_rows (open_request h) (\<lambda>r. r\<lparr>rr_used_at := Some now\<rparr>) (db_resets d)\<rparr>))"

subsection \<open>Configuration\<close>

text \<open>The configured values, where they are set; the base configuration replaces all but the last.\<close>

definition reset_defaults :: "reset_config \<Rightarrow> reset_config" where
  "reset_defaults c =
     (let b = default_base_config in
      \<lparr>rc_code_ttl = (if rc_code_ttl c \<le> 0 then minutes (bc_reset_code_ttl_minutes b) else rc_code_ttl c),
       rc_captcha_ttl = (if rc_captcha_ttl c \<le> 0 then minutes (bc_reset_captcha_ttl_minutes b) else rc_captcha_ttl c),
       rc_cooldown_secs = (if rc_cooldown_secs c \<le> 0 then 30 else rc_cooldown_secs c),
       rc_rate_span = (if rc_rate_span c \<le> 0 then minutes (bc_reset_rate_limit_minutes b) else rc_rate_span c),
       rc_rate_max = (if rc_rate_max c \<le> 0 then 5 else rc_rate_max c)\<rparr>)"

definition password_reset_runtime_config :: "reset_env \<Rightarrow> db \<Rightarrow> reset_config" where
  "password_reset_runtime_config E d =
     (let c = reset_defaults (re_config E) in
      case get_system_base_config d of
        Inl e \<Rightarrow> c
      | Inr raw \<Rightarrow>
          (let b = normalize_base_config raw in
           c\<lparr>rc_code_ttl := minutes (bc_reset_code_ttl_minutes b), rc_captcha_ttl := minutes (bc_reset_captcha_ttl_minutes b),
             rc_cooldown_secs := \<lfloor>bc_reset_send_cooldown_minutes b * 60\<rfloor>,
             rc_rate_span := minutes (bc_reset_rate_limit_minutes b)\<rparr>))"

text \<open>The whole seconds left of a cooldown, rounded up, at least 1.\<close>

definition seconds_left :: "gotime \<Rightarrow> int" where
  "seconds_left t = max 1 ((t + nanos_per_second - 1) div nanos_per_second)"

definition ensure_reset_code_allowed :: "string \<Rightarrow> reset_config \<Rightarrow> gotime \<Rightarrow> db \<Rightarrow> auth_error option" where
  "ensure_reset_code_allowed uid c now d =
     (let rate = (if 0 < rc_rate_span c \<and> 0 < rc_rate_max c then
            case count_recent_codes uid (now - rc_rate_span c) d of
              Inl e \<Rightarrow> Some (AuthStore e)
            | Inr n \<Rightarrow> if rc_rate_max c \<le> n then Some ResetCodeRateLimited else None
          else None)
      in if 0 < rc_cooldown_secs c then
           (case latest_recent_code uid (now - seconds (rc_cooldown_secs c)) d of
              Inl e \<Rightarrow> Some (AuthStore e)
            | Inr (Some sent) \<Rightarrow> Some (ResetCodeCooldown (seconds_left (sent + seconds (rc_cooldown_secs c) - now)))
            | Inr None \<Rightarrow> rate)
         else rate)"

subsection \<open>Captchas\<close>

definition captcha_payload :: "string \<Rightarrow> int \<Rightarrow> string" where
  "captcha_payload answer unix = answer @ '':'' @ int_text unix"

definition sign_captcha :: "reset_env \<Rightarrow> string \<Rightarrow> gotime \<Rightarrow> string" where
  "sign_captcha E answer expires =
     (let payload = captcha_payload answer (unix_seconds expires)
      in raw_url_encode (payload @ '':'' @ raw_url_encode (re_mac E payload)))"

definition verify_captcha :: "reset_env \<Rightarrow> gotime \<Rightarrow> string \<Rightarrow> string \<Rightarrow> bool" where
  "verify_captcha E now token answer_text =
     (case raw_url_decode (trim_space token) of
        None \<Rightarrow> False
      | Some raw \<Rightarrow>
          (case split_on (CHR '':'') raw of
             [answer, expires, signature] \<Rightarrow>
               (case atoi expires of
                  None \<Rightarrow> False
                | Some unix \<Rightarrow>
                    if seconds unix \<le> now then False
                    else if signature \<noteq> raw_url_encode (re_mac E (answer @ '':'' @ expires)) then False
                    else trim_space answer_text = answer)
           | _ \<Rightarrow> False))"

text \<open>Two random bytes, \<open>None\<close> when the generator fails.\<close>

definition create_captcha :: "reset_env \<Rightarrow> (nat \<times> nat) option \<Rightarrow> gotime \<Rightarrow> db \<Rightarrow> reset_captcha option" where
  "create_captcha E bytes now d =
     (case bytes of
        None \<Rightarrow> None
      | Some (b1, b2) \<Rightarrow>
          (let left = b1 mod 9 + 1; right = b2 mod 9 + 1;
               expires = now + rc_captcha_ttl (password_reset_runtime_config E d)
           in Some \<lparr>c_token = sign_captcha E (itoa (left + right)) expires,
                c_question = itoa left @ '' + '' @ itoa right @ '' = ?'', c_expires_at = expires\<rparr>))"

subsection \<open>The steps of a reset\<close>

definition mask_email :: "string \<Rightarrow> string" where
  "mask_email email =
     (case split_on (CHR ''@'') (trim_space email) of
        [name, domain] \<Rightarrow>
          if name = [] then ''no_mail'' else take (if length name \<le> 2 then 1 else 2) name @ ''***@'' @ domain
      | _ \<Rightarrow> ''no_mail'')"

text \<open>Only an enabled local user with a mail address can reset a password.\<close>

definition resettable :: "user \<Rightarrow> bool" where
  "resettable u \<longleftrightarrow> \<not> u_disabled u \<and> u_source u = ''local'' \<and> trim_space (u_email u) \<noteq> []"

definition reset_channel_missing :: "reset_env \<Rightarrow> db \<Rightarrow> bool" where
  "reset_channel_missing E d \<longleftrightarrow> re_notify E = None \<or> db_fault d ''GetResetChannel'' [] \<or>
     \<not> list_ex (\<lambda>c. mc_id c = ''email'' \<and> mc_reset_enabled c) (db_channels d)"

definition verify_reset_identity ::
    "reset_env \<Rightarrow> string option \<Rightarrow> gotime \<Rightarrow> string \<Rightarrow> string \<Rightarrow> string \<Rightarrow> db \<Rightarrow> (string \<times> reset_channel list) ares" where
  "verify_reset_identity E tok now username ctoken canswer d =
     (if \<not> verify_captcha E now ctoken canswer then (Inl InvalidResetCaptcha, d)
      else case find_user_by_username (trim_space username) d of
        (Inl e, d1) \<Rightarrow> (Inl ResetUnavailable, d1)
      | (Inr (u, h), d1) \<Rightarrow>
          if \<not> resettable u then (Inl ResetUnavailable, d1)
          else if reset_channel_missing E d1 then (Inl ResetChannelMissing, d1)
          else case tok of
            None \<Rightarrow> (Inl AuthFailure, d1)
          | Some t \<Rightarrow>
              (case create_password_reset_request (ae_hash_token (re_auth E) t) (u_id u) (now + re_verification_ttl E) now d1 of
                 Inl e \<Rightarrow> (Inl (AuthStore e), d1)
               | Inr d2 \<Rightarrow>
                   (Inr (t, [\<lparr>ch_id = ''email'', ch_masked_to = mask_email (u_email u), ch_requires_to = True\<rparr>]), d2)))"

definition usable_request :: "reset_env \<Rightarrow> string \<Rightarrow> gotime \<Rightarrow> db \<Rightarrow> reset_request option" where
  "usable_request E token now d =
     (case find_password_reset_request (ae_hash_token (re_auth E) token) d of
        Inl e \<Rightarrow> None
      | Inr r \<Rightarrow> if rq_used_at r \<noteq> None \<or> rq_expires_at r \<le> now then None else Some r)"

text \<open>\<open>code\<close> is the random numeric code, \<open>None\<close> when the generator fails. The code is stored before the mail
  is sent; the cleanup of old requests may fail unnoticed.\<close>

definition send_reset_code ::
    "reset_env \<Rightarrow> string option \<Rightarrow> gotime \<Rightarrow> string \<Rightarrow> string \<Rightarrow> string \<Rightarrow> db \<Rightarrow> (int \<times> string) ares" where
  "send_reset_code E code now token channel email d =
     (case usable_request E token now d of
        None \<Rightarrow> (Inl InvalidResetToken, d)
      | Some r \<Rightarrow>
          if trim_space (rq_user_email r) = [] \<or> channel \<noteq> ''email'' \<or>
             \<not> equal_fold (trim_space (rq_user_email r)) (trim_space email)
          then (Inl ResetEmailMismatch, d)
          else case (case code of None \<Rightarrow> None | Some c \<Rightarrow> map_option (\<lambda>h. (c, h)) (ae_bcrypt (re_auth E) c)) of
            None \<Rightarrow> (Inl AuthFailure, d)
          | Some (c, hash) \<Rightarrow>
              (let cfg = password_reset_runtime_config E d in
               case ensure_reset_code_allowed (rq_user_id r) cfg now d of
                 Some e \<Rightarrow> (Inl e, d)
               | None \<Rightarrow>
                   (case set_password_reset_code (ae_hash_token (re_auth E) token) hash channel (now + rc_code_ttl cfg) d of
                      Inl e \<Rightarrow> (Inl (AuthStore e), d)
                    | Inr d1 \<Rightarrow>
                        if (case re_notify E of None \<Rightarrow> False | Some send \<Rightarrow> \<not> send (trim_space email) (rq_username r) c)
                        then (Inl AuthFailure, d1)
                        else (Inr (rc_cooldown_secs cfg, c), drop_err d1 (delete_stale_requests (now - minutes (7 * 24 * 60)) d1)))))"

definition confirm_reset ::
    "reset_env \<Rightarrow> gotime \<Rightarrow> string \<Rightarrow> string \<Rightarrow> string \<Rightarrow> string \<Rightarrow> db \<Rightarrow> unit ares" where
  "confirm_reset E now username token code password d =
     (case usable_request E token now d of
        None \<Rightarrow> (Inl InvalidResetToken, d)
      | Some r \<Rightarrow>
          (case find_user_by_username username d of
             (Inl e, d1) \<Rightarrow> (Inl ResetUnavailable, d1)
           | (Inr (u, h), d1) \<Rightarrow>
               if u_id u \<noteq> rq_user_id r \<or> \<not> resettable u then (Inl ResetUnavailable, d1)
               else if \<not> ae_verify (re_auth E) (rq_code_hash r) code then (Inl ResetCodeMismatch, d1)
               else case ae_bcrypt (re_auth E) password of
                 None \<Rightarrow> (Inl AuthFailure, d1)
               | Some hash \<Rightarrow>
                   (case update_user_password (u_id u) hash now d1 of
                      Inl e \<Rightarrow> (Inl (AuthStore e), d1)
                    | Inr d2 \<Rightarrow>
                        (case mark_password_reset_used (ae_hash_token (re_auth E) token) now d2 of
                           Inl e \<Rightarrow> (Inl (AuthStore e), d2)
                         | Inr d3 \<Rightarrow>
                             (case delete_user_sessions (u_id u) d3 of
                                Inl e \<Rightarrow> (Inl (AuthStore e), d3)
                              | Inr d4 \<Rightarrow> (Inr (), d4))))))"

subsection \<open>Requests\<close>

definition reset_captcha_handler ::
    "reset_env \<Rightarrow> (nat \<times> nat) option \<Rightarrow> gotime \<Rightarrow> db \<Rightarrow> reset_captcha response \<times> db" where
  "reset_captcha_handler E bytes now d =
     (case create_captcha E bytes now d of None \<Rightarrow> (Fail 500 ''captcha_failed'', d) | Some c \<Rightarrow> (Done 200 c, d))"

definition reset_verify_handler ::
    "reset_env \<Rightarrow> string option \<Rightarrow> gotime \<Rightarrow> (string \<times> string \<times> string) option \<Rightarrow> db \<Rightarrow>
     (string \<times> reset_channel list) response \<times> db" where
  "reset_verify_handler E tok now req d =
     (case req of
        None \<Rightarrow> (Fail 400 ''invalid_request'', d)
      | Some (username, ctoken, canswer) \<Rightarrow>
          (case verify_reset_identity E tok now username ctoken canswer d of
             (Inl InvalidResetCaptcha, d1) \<Rightarrow> (Fail 400 ''invalid_captcha'', d1)
           | (Inl ResetUnavailable, d1) \<Rightarrow> (Fail 400 ''password_reset_unavailable'', d1)
           | (Inl ResetChannelMissing, d1) \<Rightarrow> (Fail 503 ''no_password_reset_channel'', d1)
           | (Inl e, d1) \<Rightarrow> (Fail (status_from_auth_err e) ''verify_failed'', d1)
           | (Inr x, d1) \<Rightarrow> (Done 200 x, d1)))"

text \<open>Outside of release mode the answer carries the code.\<close>

definition reset_send_handler ::
    "reset_env \<Rightarrow> bool \<Rightarrow> string option \<Rightarrow> gotime \<Rightarrow> (string \<times> string \<times> string) option \<Rightarrow> db \<Rightarrow>
     (int \<times> string) response \<times> db" where
  "reset_send_handler E release code now req d =
     (case req of
        None \<Rightarrow> (Fail 400 ''invalid_request'', d)
      | Some (token, channel, email) \<Rightarrow>
          (case send_reset_code E code now token channel email d of
             (Inl (ResetCodeCooldown n), d1) \<Rightarrow> (Fail 429 ''password_reset_cooldown'', d1)
           | (Inl ResetCodeRateLimited, d1) \<Rightarrow> (Fail 429 ''password_reset_limited'', d1)
           | (Inl e, d1) \<Rightarrow> (Fail (status_from_auth_err e) ''send_failed'', d1)
           | (Inr (cooldown, c), d1) \<Rightarrow> (Done 200 (cooldown, if release then [] else c), d1)))"

definition reset_confirm_handler ::
    "reset_env \<Rightarrow> gotime \<Rightarrow> string \<Rightarrow> (string \<times> string \<times> string \<times> string \<times> string) option \<Rightarrow> db \<Rightarrow> unit response \<times> db" where
  "reset_confirm_handler E now ip req d =
     (case req of
        None \<Rightarrow> (Fail 400 ''invalid_request'', d)
      | Some (username, token, code, new, confirm) \<Rightarrow>
          if length new < 6 \<or> new \<noteq> confirm then (Fail 400 ''invalid_password'', d)
          else case confirm_reset E now username token code new d of
            (Inl ResetCodeMismatch, d1) \<Rightarrow> (Fail 400 ''invalid_reset_code'', d1)
          | (Inl ResetUnavailable, d1) \<Rightarrow> (Fail 400 ''password_reset_unavailable'', d1)
          | (Inl InvalidResetToken, d1) \<Rightarrow> (Fail 400 ''invalid_reset_token'', d1)
          | (Inl e, d1) \<Rightarrow> (Fail (status_from_auth_err e) ''reset_failed'', d1)
          | (Inr _, d1) \<Rightarrow>
              (Done 200 (), auth_audit now ip [] username ''Password reset'' ''success'' [(''username'', username)]
                 (forget_login_failures username d1)))"

subsection \<open>What a captcha proves\<close>

lemma encoded_chars:
  assumes "c \<in> set (raw_url_encode s)"
  shows "45 \<le> char_code c \<and> char_code c \<le> 122 \<and> char_code c \<noteq> 58"
proof -
  obtain n where "n \<in> set (encode_sextets (map char_code s))" "c = sextet_char n"
    using assms by (auto simp: raw_url_encode_def)
  moreover from this(1) have "n < 64" by (rule encode_sextets_of_string)
  ultimately show ?thesis by (auto simp: sextet_char_code)
qed

lemma encoded_no_colon: "CHR '':'' \<notin> set (raw_url_encode s)"
  using encoded_chars [of "CHR '':''" s] by (auto simp: char_code_def)

lemma encoded_trim:
  assumes "s \<noteq> []"
  shows "trim_space (raw_url_encode s) = raw_url_encode s"
proof (rule trim_space_graph)
  have "encode_sextets ns \<noteq> []" if "ns \<noteq> []" for ns using that by (cases ns rule: encode_sextets.cases) auto
  then have "raw_url_encode s \<noteq> []" using assms by (simp add: raw_url_encode_def)
  then show "graph_ends (raw_url_encode s)"
    using encoded_chars [of "hd (raw_url_encode s)" s] encoded_chars [of "last (raw_url_encode s)" s] by (simp add: graph_ends_def)
qed

lemma int_text_no_colon: "CHR '':'' \<notin> set (int_text n)"
proof -
  have "\<not> is_digit (CHR '':'')" by (simp add: is_digit_def char_code_def)
  then have "CHR '':'' \<notin> set (itoa m)" for m using itoa_digits by blast
  then show ?thesis by (simp add: int_text_def)
qed

lemma atoi_int_text:
  assumes "0 \<le> n" "n < 2 ^ 63"
  shows "atoi (int_text n) = Some n"
proof -
  obtain c cs where s: "itoa (nat n) = c # cs" by (metis itoa_nonempty neq_Nil_conv)
  have digits: "\<forall>x \<in> set (c # cs). is_digit x" using itoa_digits unfolding s [symmetric] by blast
  then have "c \<noteq> CHR ''-''" "c \<noteq> CHR ''+''" by (auto simp: is_digit_def char_code_def)
  moreover have "digits_value (c # cs) = nat n" unfolding s [symmetric] by simp
  ultimately show ?thesis using assms digits by (simp add: int_text_def s atoi_def Let_def list_all_iff)
qed

lemma split_payload:
  assumes "CHR '':'' \<notin> set answer"
  shows "split_on (CHR '':'') (captcha_payload answer n @ '':'' @ raw_url_encode m) = [answer, int_text n, raw_url_encode m]"
  using assms int_text_no_colon encoded_no_colon [of m]
  by (simp add: captcha_payload_def split_on_append split_on_clean)

text \<open>A captcha the service signed is accepted with its answer, up to blanks, until the second it expires, and
  with nothing else; and whatever is accepted carries the signature of its answer and expiry.\<close>

theorem captcha_roundtrip:
  assumes "CHR '':'' \<notin> set answer" "0 \<le> unix_seconds expires" "unix_seconds expires < 2 ^ 63"
  shows "(verify_captcha E now (sign_captcha E answer expires) text \<longleftrightarrow>
      now < seconds (unix_seconds expires) \<and> trim_space text = answer) \<and>
    (verify_captcha E now token text \<longrightarrow>
      (\<exists>e unix. atoi e = Some unix \<and> now < seconds unix \<and> raw_url_decode (trim_space token) =
        Some (trim_space text @ '':'' @ e @ '':'' @ raw_url_encode (re_mac E (trim_space text @ '':'' @ e)))))"
proof (intro conjI impI)
  let ?p = "captcha_payload answer (unix_seconds expires)"
  have d: "raw_url_decode (trim_space (sign_captcha E answer expires)) = Some (?p @ '':'' @ raw_url_encode (re_mac E ?p))"
    by (simp add: sign_captcha_def encoded_trim Let_def)
  show "verify_captcha E now (sign_captcha E answer expires) text \<longleftrightarrow>
      now < seconds (unix_seconds expires) \<and> trim_space text = answer"
    unfolding verify_captcha_def d option.case split_payload [OF assms(1)] list.case atoi_int_text [OF assms(2,3)]
    by (auto simp: captcha_payload_def)
next
  assume v: "verify_captcha E now token text"
  then obtain raw answer' e sig unix where r: "raw_url_decode (trim_space token) = Some raw"
      "split_on (CHR '':'') raw = [answer', e, sig]" "atoi e = Some unix" "now < seconds unix"
      "sig = raw_url_encode (re_mac E (answer' @ '':'' @ e))" "trim_space text = answer'"
    unfolding verify_captcha_def by (force split: option.splits list.splits if_splits)
  have "raw = join_with '':'' [answer', e, sig]" using join_split_on [of "CHR '':''" raw] r(2) by simp
  then show "\<exists>e unix. atoi e = Some unix \<and> now < seconds unix \<and> raw_url_decode (trim_space token) =
        Some (trim_space text @ '':'' @ e @ '':'' @ raw_url_encode (re_mac E (trim_space text @ '':'' @ e)))"
    using r by (intro exI [of _ e] exI [of _ unix]) simp
qed

subsection \<open>A confirmed reset\<close>

lemma usable_request_row:
  assumes "usable_request E token now d = Some r"
  obtains row u where "find_row (\<lambda>x. rr_token_hash x = ae_hash_token (re_auth E) token) (db_resets d) = Some row"
    "find_row (\<lambda>x. ur_id x = rr_user_id row) (db_users d) = Some u" "rr_used_at row = None" "now < rr_expires_at row"
    "r = \<lparr>rq_user_id = rr_user_id row, rq_username = ur_username u, rq_user_email = ur_email u,
      rq_code_hash = rr_code_hash row, rq_expires_at = rr_expires_at row, rq_used_at = rr_used_at row\<rparr>"
  using assms by (auto simp: usable_request_def find_password_reset_request_def split: if_splits option.splits sum.splits)

lemma updated_others:
  "(\<And>x. k (f x) = k x) \<Longrightarrow> filter (\<lambda>x. k x \<noteq> i) (update_rows (\<lambda>x. k x = i) f xs) = filter (\<lambda>x. k x \<noteq> i) xs"
  by (induction xs) (auto simp: update_rows_def)

lemma used_not_usable:
  assumes "mark_password_reset_used (ae_hash_token (re_auth E) token) now d = Inr d'" "db_resets e = db_resets d'"
    and "ae_hash_token (re_auth E) token' = ae_hash_token (re_auth E) token"
  shows "usable_request E token' now' e = None"
proof -
  let ?h = "ae_hash_token (re_auth E) token"
  have d': "db_resets e = update_rows (open_request ?h) (\<lambda>r. r\<lparr>rr_used_at := Some now\<rparr>) (db_resets d)"
    using assms(1,2) by (auto simp: mark_password_reset_used_def split: if_splits)
  have "rr_used_at x \<noteq> None" if "find_row (\<lambda>x. rr_token_hash x = ?h) (db_resets e) = Some x" for x
    using find_row_member [OF that] unfolding d' by (auto simp: update_rows_def open_request_def split: if_splits)
  then show ?thesis
    by (auto simp: usable_request_def find_password_reset_request_def assms(3) split: option.split)
qed


subsection \<open>What is not limited\<close>

text \<open>A wrong code costs nothing: the request is as usable as before.\<close>

lemma wrong_code_leaves_request:
  assumes "confirm_reset E now username token code password d = (Inl ResetCodeMismatch, d')"
  shows "usable_request E token now' d' = usable_request E token now' d"
proof -
  have "same_but_roles d d'"
    using assms by (auto simp: confirm_reset_def find_user_by_username_def split: option.splits sum.splits prod.splits if_splits
        dest: find_user_row_frame)
  then obtain urs where "d' = d\<lparr>db_user_roles := urs\<rparr>" by (auto simp: same_but_roles_def)
  then show ?thesis by (simp add: usable_request_def find_password_reset_request_def split: option.split)
qed

text \<open>Sending codes: every step uses the row of the token and keeps its age.\<close>

definition send_run :: "reset_env \<Rightarrow> string option \<Rightarrow> gotime \<Rightarrow> string \<Rightarrow> string \<Rightarrow> db \<Rightarrow> db" where
  "send_run E code now token email d = snd (send_reset_code E code now token ''email'' email d)"

lemma send_run_eq: "send_reset_code E code now token ''email'' email d = (r, d') \<Longrightarrow> send_run E code now token email d = d'"
  by (simp add: send_run_def)

text \<open>A request of the user that is older than the cooldown, beside fewer requests than the limit.\<close>

definition resend_ready :: "reset_env \<Rightarrow> gotime \<Rightarrow> string \<Rightarrow> string \<Rightarrow> db \<Rightarrow> bool" where
  "resend_ready E now token email d \<longleftrightarrow>
     db_fault d = (\<lambda>_ _. False) \<and>
     (\<exists>r. usable_request E token now d = Some r \<and> trim_space (rq_user_email r) \<noteq> [] \<and>
        equal_fold (trim_space (rq_user_email r)) (trim_space email) \<and>
        (\<forall>x \<in> set (db_resets d). rr_user_id x = rq_user_id r \<longrightarrow>
           rr_created_at x < now - seconds (rc_cooldown_secs (password_reset_runtime_config E d))) \<and>
        (\<forall>x \<in> set (db_resets d). rr_token_hash x = ae_hash_token (re_auth E) token \<longrightarrow> now - minutes (7 * 24 * 60) \<le> rr_created_at x) \<and>
        int (length (filter (\<lambda>x. rr_user_id x = rq_user_id r) (db_resets d))) < rc_rate_max (password_reset_runtime_config E d))"

lemma recent_codes_bound: "length (recent_codes uid since d) \<le> length (filter (\<lambda>x. rr_user_id x = uid) (db_resets d))"
proof -
  have "recent_codes uid since d = filter (\<lambda>x. rr_code_hash x \<noteq> [] \<and> since \<le> rr_created_at x) (filter (\<lambda>x. rr_user_id x = uid) (db_resets d))"
    by (auto simp: recent_codes_def intro!: filter_cong)
  then show ?thesis by (simp only: length_filter_le)
qed

lemma runtime_config_cong:
  "db_fault d' = db_fault d \<Longrightarrow> db_settings d' = db_settings d \<Longrightarrow>
   password_reset_runtime_config E d' = password_reset_runtime_config E d"
  by (simp add: password_reset_runtime_config_def get_system_base_config_def)

lemma resend_allowed:
  assumes "\<forall>x \<in> set (db_resets d). rr_user_id x = uid \<longrightarrow> rr_created_at x < now - seconds (rc_cooldown_secs c)"
    and "int (length (filter (\<lambda>x. rr_user_id x = uid) (db_resets d))) < rc_rate_max c" "db_fault d = (\<lambda>_ _. False)"
  shows "ensure_reset_code_allowed uid c now d = None"
proof -
  have "recent_codes uid (now - seconds (rc_cooldown_secs c)) d = []"
    using assms(1) by (auto simp: recent_codes_def filter_empty_conv)
  moreover have "int (length (recent_codes uid (now - rc_rate_span c) d)) < rc_rate_max c"
    using recent_codes_bound [of uid "now - rc_rate_span c" d] assms(2) by linarith
  ultimately show ?thesis
    using assms(3) by (simp add: ensure_reset_code_allowed_def latest_recent_code_def count_recent_codes_def Let_def)
qed

lemma find_updated:
  "find_row q xs = Some x \<Longrightarrow> p x \<Longrightarrow> (\<And>y. q (f y) = q y) \<Longrightarrow> find_row q (update_rows p f xs) = Some (f x)"
  by (induction xs) (auto simp: find_row_def update_rows_def split: if_splits)

lemma code_ttl_positive: "db_fault d = (\<lambda>_ _. False) \<Longrightarrow> 0 < rc_code_ttl (password_reset_runtime_config E d)"
  by (simp add: password_reset_runtime_config_def get_system_base_config_def minutes_pos normalize_base_config_def positive_or_def
      default_base_config_def Let_def split: option.split)

lemma updated_count:
  "(\<And>x. q (f x) = q x) \<Longrightarrow> length (filter q (filter r (update_rows p f xs))) \<le> length (filter q xs)"
proof -
  assume "\<And>x. q (f x) = q x"
  then have "length (filter q (update_rows p f xs)) = length (filter q xs)" by (induction xs) (auto simp: update_rows_def)
  moreover have "filter q (filter r ys) = filter r (filter q ys)" for ys by (induction ys) auto
  ultimately show ?thesis by (metis length_filter_le)
qed

lemma resend_step:
  assumes ready: "resend_ready E now token email d" and code: "ae_bcrypt (re_auth E) code = Some hash"
    and mail: "\<forall>send name. re_notify E = Some send \<longrightarrow> send (trim_space email) name code"
  shows "\<exists>d'. send_reset_code E (Some code) now token ''email'' email d =
      (Inr (rc_cooldown_secs (password_reset_runtime_config E d), code), d') \<and> resend_ready E now token email d' \<and>
      password_reset_runtime_config E d' = password_reset_runtime_config E d"
proof -
  let ?h = "ae_hash_token (re_auth E) token" and ?cfg = "password_reset_runtime_config E d" and ?week = "minutes (7 * 24 * 60)"
  obtain r where r: "db_fault d = (\<lambda>_ _. False)" "usable_request E token now d = Some r" "trim_space (rq_user_email r) \<noteq> []"
      "equal_fold (trim_space (rq_user_email r)) (trim_space email)"
      "\<forall>x \<in> set (db_resets d). rr_user_id x = rq_user_id r \<longrightarrow> rr_created_at x < now - seconds (rc_cooldown_secs ?cfg)"
      "\<forall>x \<in> set (db_resets d). rr_token_hash x = ?h \<longrightarrow> now - ?week \<le> rr_created_at x"
      "int (length (filter (\<lambda>x. rr_user_id x = rq_user_id r) (db_resets d))) < rc_rate_max ?cfg"
    using ready by (auto simp: resend_ready_def)
  obtain row u where row: "find_row (\<lambda>x. rr_token_hash x = ?h) (db_resets d) = Some row"
      "find_row (\<lambda>x. ur_id x = rr_user_id row) (db_users d) = Some u" "rr_used_at row = None" "now < rr_expires_at row"
      "r = \<lparr>rq_user_id = rr_user_id row, rq_username = ur_username u, rq_user_email = ur_email u,
        rq_code_hash = rr_code_hash row, rq_expires_at = rr_expires_at row, rq_used_at = rr_used_at row\<rparr>"
    using r(2) by (rule usable_request_row)
  note mem = find_row_member [OF row(1)]
  let ?f = "\<lambda>x. x\<lparr>rr_code_hash := hash, rr_channel := ''email'', rr_expires_at := now + rc_code_ttl ?cfg\<rparr>"
  let ?rs = "update_rows (open_request ?h) ?f (db_resets d)"
  let ?d' = "d\<lparr>db_resets := filter (\<lambda>x. now - ?week \<le> rr_created_at x) ?rs\<rparr>"
  have "list_ex (open_request ?h) (db_resets d)" using mem row(3) by (auto simp: list_ex_iff open_request_def)
  then have set: "set_password_reset_code ?h hash ''email'' (now + rc_code_ttl ?cfg) d = Inr (d\<lparr>db_resets := ?rs\<rparr>)"
    using r(1) by (simp add: set_password_reset_code_def)
  have allowed: "ensure_reset_code_allowed (rq_user_id r) ?cfg now d = None"
    by (rule resend_allowed [OF r(5) r(7) r(1)])
  have mail': "\<forall>send. re_notify E = Some send \<longrightarrow> send (trim_space email) (rq_username r) code" using mail by blast
  have sent: "send_reset_code E (Some code) now token ''email'' email d = (Inr (rc_cooldown_secs ?cfg, code), ?d')"
    using r(1-4) code set allowed mail'
    by (simp add: send_reset_code_def delete_stale_requests_def drop_err_def delete_rows_def not_less Let_def split: option.split)
  have old: "\<forall>x \<in> set ?rs. \<exists>y \<in> set (db_resets d). rr_user_id x = rr_user_id y \<and> rr_created_at x = rr_created_at y \<and>
      rr_token_hash x = rr_token_hash y"
    by (auto simp: update_rows_def)
  have "find_row (\<lambda>x. rr_token_hash x = ?h) ?rs = Some (?f row)"
    by (rule find_updated [OF row(1)]) (use mem row(3) in \<open>simp_all add: open_request_def\<close>)
  then have "find_row (\<lambda>x. rr_token_hash x = ?h) (filter (\<lambda>x. now - ?week \<le> rr_created_at x) ?rs) = Some (?f row)"
    by (rule find_filtered) (use r(6) mem in simp)
  then have hit: "find_row (\<lambda>x. rr_token_hash x = ?h) (db_resets ?d') = Some (?f row)" by simp
  have "usable_request E token now ?d' = Some (r\<lparr>rq_code_hash := hash, rq_expires_at := now + rc_code_ttl ?cfg\<rparr>)"
    using hit row(2,3,5) r(1) code_ttl_positive [OF r(1), of E]
    by (simp add: usable_request_def find_password_reset_request_def)
  moreover have "length (filter (\<lambda>x. rr_user_id x = rq_user_id r) (db_resets ?d')) \<le> length (filter (\<lambda>x. rr_user_id x = rq_user_id r) (db_resets d))"
    using updated_count [of "\<lambda>x. rr_user_id x = rq_user_id r" ?f "\<lambda>x. now - ?week \<le> rr_created_at x" "open_request ?h" "db_resets d"] by simp
  moreover have cfg: "password_reset_runtime_config E ?d' = ?cfg" by (rule runtime_config_cong) simp_all
  ultimately have "resend_ready E now token email ?d'"
    using r old unfolding resend_ready_def by fastforce
  then show ?thesis using sent cfg by blast
qed

text \<open>C29. The cooldown and the limit on codes are measured at the age of the request, not at the sending of the
  last code: a request that has become older than the cooldown has any number of codes sent for it, at one
  moment, and each of them renews its lifetime.\<close>

theorem codes_unlimited:
  assumes "resend_ready E now token email d" "ae_bcrypt (re_auth E) code = Some hash"
    and "\<forall>send name. re_notify E = Some send \<longrightarrow> send (trim_space email) name code"
  shows "fst (send_reset_code E (Some code) now token ''email'' email ((send_run E (Some code) now token email ^^ n) d)) =
     Inr (rc_cooldown_secs (password_reset_runtime_config E d), code)"
proof -
  have "resend_ready E now token email ((send_run E (Some code) now token email ^^ n) d) \<and>
      password_reset_runtime_config E ((send_run E (Some code) now token email ^^ n) d) = password_reset_runtime_config E d"
  proof (induction n)
    case (Suc n)
    then obtain d' where "send_reset_code E (Some code) now token ''email'' email ((send_run E (Some code) now token email ^^ n) d) =
        (Inr (rc_cooldown_secs (password_reset_runtime_config E d), code), d')" "resend_ready E now token email d'"
        "password_reset_runtime_config E d' = password_reset_runtime_config E d"
      using resend_step [OF conjunct1 [OF Suc.IH] assms(2,3)] by auto
    then show ?case using send_run_eq by auto
  qed (use assms(1) in simp)
  then show ?thesis using resend_step [OF _ assms(2,3)] by fastforce
qed

subsection \<open>A concrete reset\<close>

definition sample_reset :: reset_env where
  "sample_reset = \<lparr>re_auth = sample_auth, re_mac = (\<lambda>s. ''mac'' @ s),
     re_config = \<lparr>rc_code_ttl = 0, rc_captcha_ttl = 0, rc_cooldown_secs = 0, rc_rate_span = 0, rc_rate_max = 0\<rparr>,
     re_verification_ttl = minutes 15, re_notify = Some (\<lambda>_ _ _. True)\<rparr>"

definition reset_db :: db where
  "reset_db = access_db\<lparr>db_resets := [\<lparr>rr_token_hash = ''k'', rr_user_id = ''2'', rr_code_hash = ''c'', rr_channel = ''email'',
     rr_expires_at = minutes 60, rr_used_at = None, rr_created_at = minutes 10\<rparr>],
     db_sessions := [\<lparr>sr_token_hash = ''x'', sr_user_id = ''2'', sr_provider = ''local'', sr_expires_at = minutes 90\<rparr>]\<rparr>"

theorem captcha_roundtrip_witness:
  "verify_captcha sample_reset 0 (sign_captcha sample_reset ''12'' (seconds 60)) ''12'' \<and>
   \<not> verify_captcha sample_reset 0 (sign_captcha sample_reset ''12'' (seconds 60)) ''13'' \<and>
   \<not> verify_captcha sample_reset (seconds 60) (sign_captcha sample_reset ''12'' (seconds 60)) ''12''"
proof -
  have n: "trim_space ''12'' = ''12''" "trim_space ''13'' = ''13''"
    by (rule trim_space_graph, simp add: graph_ends_def char_code_def)+
  have u: "unix_seconds (seconds 60) = 60" "0 < seconds 60" by (simp_all add: unix_seconds_def seconds_def nanos_per_second_def)
  note r = conjunct1 [OF captcha_roundtrip [of "''12''" "seconds 60" sample_reset]]
  show ?thesis using n u by (simp add: r)
qed

lemma sample_fields:
  "re_auth sample_reset = sample_auth" "ae_verify sample_auth h pw \<longleftrightarrow> pw = ''correct''" "ae_bcrypt sample_auth pw = Some pw"
  "ae_hash_token sample_auth pw = pw" "re_notify sample_reset = Some (\<lambda>_ _ _. True)"
  by (simp_all add: sample_reset_def sample_auth_def)

lemma sample_mail: "trim_space ''m@corp.test'' = ''m@corp.test''"
  by (rule trim_space_graph) (simp add: graph_ends_def char_code_def)

lemma reset_db_usable:
  "usable_request sample_reset ''k'' (minutes 30) reset_db = Some \<lparr>rq_user_id = ''2'', rq_username = ''bob'',
     rq_user_email = ''m@corp.test'', rq_code_hash = ''c'', rq_expires_at = minutes 60, rq_used_at = None\<rparr>"
  by (simp add: usable_request_def find_password_reset_request_def reset_db_def access_simps sample_reset_def sample_auth_def
      find_row_def minutes_def seconds_def nanos_per_second_def)

theorem codes_unlimited_witness:
  "fst (send_reset_code sample_reset (Some ''123456'') (minutes 30) ''k'' ''email'' ''m@corp.test''
      ((send_run sample_reset (Some ''123456'') (minutes 30) ''k'' ''m@corp.test'' ^^ 100) reset_db)) = Inr (30, ''123456'')"
proof -
  have c: "rc_cooldown_secs (password_reset_runtime_config sample_reset reset_db) = 30"
      "rc_rate_max (password_reset_runtime_config sample_reset reset_db) = 5"
    by (simp_all add: password_reset_runtime_config_def get_system_base_config_def reset_db_def access_simps
        zero_base_config_def normalize_base_config_def positive_or_def default_base_config_def sample_reset_def
        reset_defaults_def Let_def)
  have "resend_ready sample_reset (minutes 30) ''k'' ''m@corp.test'' reset_db"
    unfolding resend_ready_def reset_db_usable c
    by (simp add: sample_mail reset_db_def access_simps equal_fold_def minutes_def seconds_def nanos_per_second_def)
  from codes_unlimited [OF this, of "''123456''" "''123456''" 100] show ?thesis
    by (simp add: c sample_fields)
qed


end
