(* ===== verification/ZL_Wecom.thy ===== *)
theory ZL_Wecom
  imports ZL_Auth ZL_Agent
begin

text \<open>
  Logging in with WeCom: \<open>internal/service/auth/wecom.go\<close> and \<open>wecom_ticket.go\<close> over
  \<open>internal/repository/wecom_binding.go\<close>, with the requests of \<open>api/router/auth_wecom.go\<close>. A browser comes
  back from WeCom (or from an authentication center in front of it) with a code; the code is exchanged for
  a WeCom account, the account for the user bound to it, and that user gets a session. After a redirect
  the session token is handed over through a ticket of one use. The parameters in \<open>wecom_env\<close> are the HTTP
  answers, JSON and HMAC-SHA256; a random text is an argument, \<open>None\<close> when the generator fails.
\<close>

subsection \<open>Parameters\<close>

record wecom_config =
  wc_mode :: string
  wc_corp_id :: string
  wc_agent_id :: int
  wc_secret :: string
  wc_center_url :: string
  wc_app_id :: string
  wc_app_secret :: string
  wc_redirect_prefix :: string

record wecom_identity =
  wi_userid :: string
  wi_name :: string

record verify_request =
  vq_app :: string
  vq_ticket :: string
  vq_ts :: int
  vq_sign :: string

text \<open>The decoded members of an answer; each request reads its own.\<close>

record wecom_answer =
  wr_errcode :: int
  wr_errmsg :: string
  wr_userid :: string
  wr_name :: string
  wr_access_token :: string
  wr_expires_in :: int
  wr_error :: string

text \<open>No answer with the text of the error, or a status and the decoded body.\<close>

datatype wecom_reply = NoAnswer string | Answer int "string + wecom_answer"

text \<open>The claims of a state: purpose, initiating user, nonce and expiry in seconds.\<close>

record state_claims =
  stc_purpose :: string
  stc_user_id :: string
  stc_nonce :: string
  stc_expires_at :: int

record wecom_env =
  we_auth :: auth_env
  we_config_json :: "string \<Rightarrow> wecom_config option"
  we_claims_text :: "state_claims \<Rightarrow> string"
  we_claims_json :: "string \<Rightarrow> state_claims option"
  we_hmac_hex :: "string \<Rightarrow> string \<Rightarrow> string"
  we_session_secret :: string
  we_get :: "string \<Rightarrow> wecom_reply"
  we_post :: "string \<Rightarrow> verify_request \<Rightarrow> wecom_reply"

subsection \<open>Configuration\<close>

definition zero_wecom_config :: wecom_config where
  "zero_wecom_config = \<lparr>wc_mode = [], wc_corp_id = [], wc_agent_id = 0, wc_secret = [], wc_center_url = [],
     wc_app_id = [], wc_app_secret = [], wc_redirect_prefix = []\<rparr>"

datatype setup_error = WecomNotConfigured | WecomConfigInvalid

definition decode_wecom_config :: "wecom_env \<Rightarrow> string \<Rightarrow> setup_error + wecom_config" where
  "decode_wecom_config E raw =
     (case (if raw = [] then Some zero_wecom_config else we_config_json E raw) of
        None \<Rightarrow> Inl WecomConfigInvalid
      | Some c \<Rightarrow>
          (let mode = text_or (trim_space (wc_mode c)) ''direct'';
               c1 = c\<lparr>wc_mode := mode, wc_corp_id := trim_space (wc_corp_id c), wc_secret := trim_space (wc_secret c),
                 wc_center_url := trim_right_slash (trim_space (wc_center_url c)), wc_app_id := trim_space (wc_app_id c),
                 wc_app_secret := trim_space (wc_app_secret c),
                 wc_redirect_prefix := trim_right_slash (trim_space (wc_redirect_prefix c))\<rparr>
           in if mode \<noteq> ''direct'' \<and> mode \<noteq> ''center'' then Inl WecomConfigInvalid
              else if mode = ''direct'' then
                (if wc_corp_id c1 = [] \<or> wc_secret c1 = [] \<or> wc_agent_id c1 \<le> 0 then Inl WecomNotConfigured else Inr c1)
              else if wc_center_url c1 = [] \<or> wc_app_id c1 = [] \<or> wc_app_secret c1 = [] then Inl WecomNotConfigured
              else Inr c1))"

definition enabled_wecom_config :: "wecom_env \<Rightarrow> db \<Rightarrow> setup_error + wecom_config" where
  "enabled_wecom_config E d =
     (case get_auth_provider d ''wecom'' of
        Inl e \<Rightarrow> Inl WecomNotConfigured
      | Inr p \<Rightarrow> if ap_enabled p then decode_wecom_config E (ap_config p) else Inl WecomNotConfigured)"

subsection \<open>Exchanging a credential\<close>

text \<open>The texts of the URLs requested are collected in \<open>ks\<close>.\<close>

definition get_json :: "wecom_env \<Rightarrow> string \<Rightarrow> string list \<Rightarrow> (string + wecom_answer) \<times> string list" where
  "get_json E url ks =
     (case we_get E url of
        NoAnswer e \<Rightarrow> Inl e
      | Answer st x \<Rightarrow> if st \<noteq> 200 then Inl (''wecom api http '' @ int_text st @ '': '' @ url) else x,
      ks @ [url])"

definition qyapi_base :: string where
  "qyapi_base = ''https://qyapi.weixin.qq.com''"

definition token_url :: "wecom_config \<Rightarrow> string" where
  "token_url c = qyapi_base @ ''/cgi-bin/gettoken?corpid='' @ query_escape (wc_corp_id c) @
     ''&corpsecret='' @ query_escape (wc_secret c)"

definition userinfo_url :: "string \<Rightarrow> string \<Rightarrow> string" where
  "userinfo_url token code = qyapi_base @ ''/cgi-bin/auth/getuserinfo?access_token='' @ query_escape token @
     ''&code='' @ query_escape code"

text \<open>The direct client keeps its token until 300 seconds before it expires.\<close>

record direct_client =
  dc_access_token :: string
  dc_token_expiry :: gotime

definition new_direct_client :: direct_client where
  "new_direct_client = \<lparr>dc_access_token = [], dc_token_expiry = 0\<rparr>"

definition client_token ::
    "wecom_env \<Rightarrow> wecom_config \<Rightarrow> gotime \<Rightarrow> direct_client \<Rightarrow> string list \<Rightarrow> (string + string) \<times> direct_client \<times> string list" where
  "client_token E c now dc ks =
     (if dc_access_token dc \<noteq> [] \<and> now < dc_token_expiry dc then (Inr (dc_access_token dc), dc, ks)
      else case get_json E (token_url c) ks of
        (Inl e, ks1) \<Rightarrow> (Inl e, dc, ks1)
      | (Inr a, ks1) \<Rightarrow>
          if wr_errcode a \<noteq> 0 then
            (Inl (''gettoken errcode='' @ int_text (wr_errcode a) @ '' errmsg='' @ wr_errmsg a), dc, ks1)
          else if wr_access_token a = [] then (Inl ''gettoken returned empty access_token'', dc, ks1)
          else (Inr (wr_access_token a),
            \<lparr>dc_access_token = wr_access_token a, dc_token_expiry = now + seconds (wr_expires_in a - 300)\<rparr>, ks1))"

definition direct_exchange ::
    "wecom_env \<Rightarrow> wecom_config \<Rightarrow> gotime \<Rightarrow> string \<Rightarrow> direct_client \<Rightarrow> string list \<Rightarrow>
     (string + wecom_identity) \<times> direct_client \<times> string list" where
  "direct_exchange E c now credential dc ks =
     (case client_token E c now dc ks of
        (Inl e, dc1, ks1) \<Rightarrow> (Inl e, dc1, ks1)
      | (Inr token, dc1, ks1) \<Rightarrow>
          (case get_json E (userinfo_url token credential) ks1 of
             (Inl e, ks2) \<Rightarrow> (Inl e, dc1, ks2)
           | (Inr a, ks2) \<Rightarrow>
               if wr_errcode a \<noteq> 0 then
                 (Inl (''getuserinfo errcode='' @ int_text (wr_errcode a) @ '' errmsg='' @ wr_errmsg a), dc1, ks2)
               else if wr_userid a = [] then (Inl ''getuserinfo returned empty userid'', dc1, ks2)
               else (Inr \<lparr>wi_userid = wr_userid a, wi_name = []\<rparr>, dc1, ks2)))"

definition sign_wecom_ticket :: "wecom_env \<Rightarrow> string \<Rightarrow> string \<Rightarrow> string \<Rightarrow> int \<Rightarrow> string" where
  "sign_wecom_ticket E secret app ticket ts =
     we_hmac_hex E secret (app @ [CHR 0x0A] @ ticket @ [CHR 0x0A] @ int_text ts)"

definition verify_wecom_ticket_signature :: "wecom_env \<Rightarrow> string \<Rightarrow> string \<Rightarrow> string \<Rightarrow> string \<Rightarrow> int \<Rightarrow> bool" where
  "verify_wecom_ticket_signature E secret app ticket sign ts \<longleftrightarrow> sign_wecom_ticket E secret app ticket ts = sign"

definition center_exchange ::
    "wecom_env \<Rightarrow> wecom_config \<Rightarrow> gotime \<Rightarrow> string \<Rightarrow> string list \<Rightarrow> (string + wecom_identity) \<times> string list" where
  "center_exchange E c now credential ks =
     (let ts = unix_seconds now; url = wc_center_url c @ ''/api/verify'' in
      (case we_post E url \<lparr>vq_app = wc_app_id c, vq_ticket = credential, vq_ts = ts,
           vq_sign = sign_wecom_ticket E (wc_app_secret c) (wc_app_id c) credential ts\<rparr> of
         NoAnswer e \<Rightarrow> Inl e
       | Answer st (Inl e) \<Rightarrow> Inl (''auth center verify http '' @ int_text st @ '': '' @ e)
       | Answer st (Inr a) \<Rightarrow>
           if st \<noteq> 200 then
             (if wr_error a \<noteq> [] then Inl (''auth center verify rejected: '' @ wr_error a)
              else Inl (''auth center verify http '' @ int_text st))
           else if wr_userid a = [] then Inl ''auth center verify returned empty userid''
           else Inr \<lparr>wi_userid = wr_userid a, wi_name = wr_name a\<rparr>,
       ks @ [url]))"

text \<open>Every request makes a client of its own.\<close>

definition exchange :: "wecom_env \<Rightarrow> wecom_config \<Rightarrow> gotime \<Rightarrow> string \<Rightarrow> string list \<Rightarrow> (string + wecom_identity) \<times> string list" where
  "exchange E c now credential ks =
     (if wc_mode c = ''center'' then center_exchange E c now credential ks
      else case direct_exchange E c now credential new_direct_client ks of (r, dc, ks1) \<Rightarrow> (r, ks1))"

definition authorize_url :: "wecom_config \<Rightarrow> string \<Rightarrow> string \<Rightarrow> string" where
  "authorize_url c redirect state =
     (if wc_mode c = ''center'' then wc_center_url c @ ''/login?app='' @ query_escape (wc_app_id c)
      else ''https://login.work.weixin.qq.com/wwlogin/sso/login?agentid='' @ query_escape (int_text (wc_agent_id c)) @
        ''&appid='' @ query_escape (wc_corp_id c) @ ''&login_type=CorpApp&redirect_uri='' @ query_escape redirect @
        ''&state='' @ query_escape state)"

subsection \<open>Login tickets\<close>

record ticket_record =
  tk_token :: string
  tk_expires_at :: gotime

type_synonym ticket_store = "string \<rightharpoonup> ticket_record"

definition ticket_ttl :: gotime where
  "ticket_ttl = seconds 60"

definition prune_tickets :: "gotime \<Rightarrow> ticket_store \<Rightarrow> ticket_store" where
  "prune_tickets now ts = (\<lambda>k. case ts k of None \<Rightarrow> None | Some r \<Rightarrow> if tk_expires_at r < now then None else Some r)"

definition issue_ticket :: "string \<Rightarrow> string \<Rightarrow> gotime \<Rightarrow> ticket_store \<Rightarrow> ticket_store" where
  "issue_ticket ticket token now ts =
     (prune_tickets now ts)(ticket \<mapsto> \<lparr>tk_token = token, tk_expires_at = now + ticket_ttl\<rparr>)"

definition consume_ticket :: "string \<Rightarrow> gotime \<Rightarrow> ticket_store \<Rightarrow> string option \<times> ticket_store" where
  "consume_ticket raw now ts =
     (let ticket = trim_space raw in
      if ticket = [] then (None, ts)
      else case ts ticket of
        None \<Rightarrow> (None, ts)
      | Some r \<Rightarrow> (if tk_expires_at r < now then None else Some (tk_token r), ts(ticket := None)))"

subsection \<open>Bindings\<close>

definition find_user_by_wecom_binding :: "string \<Rightarrow> db \<Rightarrow> user dres" where
  "find_user_by_wecom_binding w d =
     (if db_fault d ''FindUserByWecomBinding'' w then (Inl DbError, d)
      else case find_row (\<lambda>b. snd b = w) (db_bindings d) of
        None \<Rightarrow> (Inl NotFound, d)
      | Some b \<Rightarrow>
          (case find_row (\<lambda>u. ur_id u = fst b) (db_users d) of
             None \<Rightarrow> (Inl NotFound, d)
           | Some u \<Rightarrow>
               (case attach_access_to_users [scan_user u] d of
                  (Inl e, d') \<Rightarrow> (Inl e, d')
                | (Inr us, d') \<Rightarrow> (Inr (hd us), d'))))"

definition find_wecom_binding_owner :: "db \<Rightarrow> string \<Rightarrow> store_error + string" where
  "find_wecom_binding_owner d w =
     (if db_fault d ''FindWecomBindingOwner'' w then Inl DbError
      else case find_row (\<lambda>b. snd b = w) (db_bindings d) of None \<Rightarrow> Inl NotFound | Some b \<Rightarrow> Inr (fst b))"

definition save_wecom_binding :: "string \<Rightarrow> string \<Rightarrow> db \<Rightarrow> store_error + db" where
  "save_wecom_binding uid w d =
     (if db_fault d ''SaveWecomBinding'' uid \<or> \<not> list_ex (\<lambda>u. ur_id u = uid) (db_users d) then Inl DbError
      else if list_ex (\<lambda>b. snd b = w \<and> fst b \<noteq> uid) (db_bindings d) then Inl UniqueViolation
      else Inr (d\<lparr>db_bindings := upsert_row (\<lambda>b. fst b = uid) (\<lambda>b. (uid, w)) (uid, w) (db_bindings d)\<rparr>))"

definition delete_wecom_binding :: "string \<Rightarrow> db \<Rightarrow> store_error + (bool \<times> db)" where
  "delete_wecom_binding uid d =
     (if db_fault d ''DeleteWecomBinding'' uid then Inl DbError
      else Inr (list_ex (\<lambda>b. fst b = uid) (db_bindings d),
             d\<lparr>db_bindings := delete_rows (\<lambda>b. fst b = uid) (db_bindings d)\<rparr>))"

definition wecom_binding_of_user :: "db \<Rightarrow> string \<Rightarrow> store_error + string" where
  "wecom_binding_of_user d uid =
     (if db_fault d ''WecomBindingOfUser'' uid then Inl DbError
      else case find_row (\<lambda>b. fst b = uid) (db_bindings d) of None \<Rightarrow> Inl NotFound | Some b \<Rightarrow> Inr (snd b))"

datatype wecom_failure = WecomNotBound | WecomConflict | WecomAuth auth_error

definition login_by_wecom ::
    "auth_env \<Rightarrow> string option \<Rightarrow> gotime \<Rightarrow> wecom_identity \<Rightarrow> db \<Rightarrow> (wecom_failure + session) \<times> db" where
  "login_by_wecom A tok now i d =
     (let w = trim_space (wi_userid i) in
      if w = [] then (Inl (WecomAuth InvalidCredentials), d)
      else case find_user_by_wecom_binding w d of
        (Inl NotFound, d1) \<Rightarrow> (Inl WecomNotBound, d1)
      | (Inl e, d1) \<Rightarrow> (Inl (WecomAuth (AuthStore e)), d1)
      | (Inr u, d1) \<Rightarrow>
          if u_disabled u then (Inl (WecomAuth UserNotProvisioned), d1)
          else case create_session A tok now u ''wecom'' d1 of
            (Inl e, d2) \<Rightarrow> (Inl (WecomAuth e), d2)
          | (Inr ses, d2) \<Rightarrow> (Inr ses, d2))"

definition bind_wecom :: "string \<Rightarrow> string \<Rightarrow> db \<Rightarrow> (wecom_failure + string) \<times> db" where
  "bind_wecom uid wecom_userid d =
     (let w = trim_space wecom_userid;
          save = (case save_wecom_binding uid w d of
             Inl e \<Rightarrow> (Inl (WecomAuth (AuthStore e)), d)
           | Inr d1 \<Rightarrow> (Inr w, d1))
      in if w = [] then (Inl (WecomAuth InvalidCredentials), d)
         else case find_wecom_binding_owner d w of
           Inl NotFound \<Rightarrow> save
         | Inl e \<Rightarrow> (Inl (WecomAuth (AuthStore e)), d)
         | Inr owner \<Rightarrow> if owner \<noteq> uid then (Inl WecomConflict, d) else save)"

definition wecom_binding_of :: "db \<Rightarrow> string \<Rightarrow> store_error + string option" where
  "wecom_binding_of d uid =
     (case wecom_binding_of_user d uid of Inl NotFound \<Rightarrow> Inr None | Inl e \<Rightarrow> Inl e | Inr w \<Rightarrow> Inr (Some w))"

subsection \<open>The signed state\<close>

definition state_signature :: "wecom_env \<Rightarrow> string \<Rightarrow> string" where
  "state_signature E encoded = we_hmac_hex E (we_session_secret E) encoded"

definition wecom_state_ttl :: "db \<Rightarrow> gotime" where
  "wecom_state_ttl d =
     (case get_system_base_config d of
        Inl e \<Rightarrow> minutes (bc_wecom_state_ttl_minutes default_base_config)
      | Inr b \<Rightarrow> minutes (bc_wecom_state_ttl_minutes (normalize_base_config b)))"

definition sign_wecom_state :: "wecom_env \<Rightarrow> string option \<Rightarrow> gotime \<Rightarrow> string \<Rightarrow> string \<Rightarrow> db \<Rightarrow> string option" where
  "sign_wecom_state E nonce now purpose uid d =
     (case nonce of
        None \<Rightarrow> None
      | Some n \<Rightarrow>
          (let encoded = raw_url_encode (we_claims_text E \<lparr>stc_purpose = purpose, stc_user_id = uid, stc_nonce = n,
                 stc_expires_at = unix_seconds (now + wecom_state_ttl d)\<rparr>)
           in Some (encoded @ ''.'' @ state_signature E encoded)))"

datatype state_check = StateInvalid | StateExpired | StateValid state_claims

definition verify_wecom_state :: "wecom_env \<Rightarrow> string \<Rightarrow> gotime \<Rightarrow> state_check" where
  "verify_wecom_state E state now =
     (if CHR ''.'' \<notin> set state then StateInvalid
      else
        (let encoded = takeWhile (\<lambda>c. c \<noteq> CHR ''.'') state; signature = drop (Suc (length encoded)) state in
         if encoded = [] \<or> signature = [] then StateInvalid
         else if signature \<noteq> state_signature E encoded then StateInvalid
         else case raw_url_decode encoded of
           None \<Rightarrow> StateInvalid
         | Some payload \<Rightarrow>
             (case we_claims_json E payload of
                None \<Rightarrow> StateInvalid
              | Some c \<Rightarrow>
                  if stc_purpose c = [] \<or> stc_nonce c = [] then StateInvalid
                  else if stc_expires_at c \<le> unix_seconds now then StateExpired
                  else StateValid c)))"

definition direct_login_credential :: "wecom_env \<Rightarrow> gotime \<Rightarrow> string \<Rightarrow> string \<Rightarrow> string + string" where
  "direct_login_credential E now state code =
     (case verify_wecom_state E state now of
        StateExpired \<Rightarrow> Inl ''wecom state expired''
      | StateInvalid \<Rightarrow> Inl ''wecom state invalid''
      | StateValid c \<Rightarrow>
          if stc_purpose c \<noteq> ''login'' \<or> trim_space code = [] then Inl ''wecom state invalid'' else Inr code)"

subsection \<open>Requests\<close>

record http_origin =
  ho_proto :: string
  ho_tls :: bool
  ho_forwarded_host :: string
  ho_host :: string

text \<open>The tables, the tickets in memory and the URLs requested so far.\<close>

record wecom_app =
  wa_db :: db
  wa_tickets :: ticket_store
  wa_calls :: "string list"

definition wecom_external_base :: "http_origin \<Rightarrow> string \<Rightarrow> string" where
  "wecom_external_base og prefix =
     (let p = trim_right_slash (trim_space prefix) in
      if has_prefix p ''http://'' \<or> has_prefix p ''https://'' then p
      else (if ho_proto og = [] then if ho_tls og then ''https'' else ''http'' else ho_proto og) @ ''://'' @
        (if ho_forwarded_host og = [] then ho_host og else ho_forwarded_host og))"

definition wecom_error_from_setup :: "setup_error \<Rightarrow> string" where
  "wecom_error_from_setup e = (if e = WecomNotConfigured then ''wecom_not_enabled'' else ''wecom_config_invalid'')"

definition wecom_error_from_resolve :: "string \<Rightarrow> string" where
  "wecom_error_from_resolve text =
     (let m = to_lower text in
      if contains m ''state expired'' then ''state_expired''
      else if contains m ''state invalid'' then ''state_invalid''
      else if contains m ''auth center'' then ''center_error''
      else ''wecom_error'')"

definition write_setup_error :: "setup_error \<Rightarrow> 'a response" where
  "write_setup_error e = (if e = WecomNotConfigured then Fail 404 ''wecom_not_enabled'' else Fail 503 ''wecom_config_invalid'')"

definition redirect_wecom_error :: "http_origin \<Rightarrow> string \<Rightarrow> string \<Rightarrow> string response" where
  "redirect_wecom_error og prefix code = Done 302 (wecom_external_base og prefix @ ''/login?wecomError='' @ query_escape code)"

text \<open>The parameters \<open>state\<close>, \<open>code\<close> and \<open>ticket\<close> of a URL or of a body.\<close>

record wecom_params =
  wp_state :: string
  wp_code :: string
  wp_ticket :: string

definition resolve_wecom_identity ::
    "wecom_env \<Rightarrow> wecom_config \<Rightarrow> gotime \<Rightarrow> wecom_params \<Rightarrow> string list \<Rightarrow> (string + wecom_identity) \<times> string list" where
  "resolve_wecom_identity E c now q ks =
     (if wc_mode c = ''direct'' then
        (case direct_login_credential E now (wp_state q) (wp_code q) of
           Inl e \<Rightarrow> (Inl e, ks)
         | Inr code \<Rightarrow> exchange E c now code ks)
      else if trim_space (wp_ticket q) = [] then (Inl ''wecom ticket missing'', ks)
      else exchange E c now (trim_space (wp_ticket q)) ks)"

definition wecom_audit :: "gotime \<Rightarrow> string \<Rightarrow> session \<Rightarrow> wecom_identity \<Rightarrow> db \<Rightarrow> db" where
  "wecom_audit now ip ses i d =
     auth_audit now ip (u_id (s_user ses)) (u_username (s_user ses)) ''User login'' ''success''
       [(''username'', u_username (s_user ses)), (''provider'', ''wecom''), (''wecomUserid'', wi_userid i)] d"

fun wecom_callback_error :: "wecom_failure \<Rightarrow> string" where
  "wecom_callback_error WecomNotBound = ''user_not_bound''"
| "wecom_callback_error (WecomAuth UserNotProvisioned) = ''user_not_provisioned''"
| "wecom_callback_error e = ''login_failed''"

text \<open>The callback up to its redirect: an error code, or the ticket.\<close>

definition wecom_callback_steps ::
    "wecom_env \<Rightarrow> wecom_config \<Rightarrow> string option \<Rightarrow> string option \<Rightarrow> gotime \<Rightarrow> string \<Rightarrow> wecom_params \<Rightarrow> wecom_app \<Rightarrow>
     (string + string) \<times> wecom_app" where
  "wecom_callback_steps E c tok tkt now ip q s =
     (case resolve_wecom_identity E c now q (wa_calls s) of
        (Inl e, ks) \<Rightarrow> (Inl (wecom_error_from_resolve e), s\<lparr>wa_calls := ks\<rparr>)
      | (Inr i, ks) \<Rightarrow>
          (case login_by_wecom (we_auth E) tok now i (wa_db s) of
             (Inl e, d) \<Rightarrow> (Inl (wecom_callback_error e), s\<lparr>wa_calls := ks, wa_db := d\<rparr>)
           | (Inr ses, d) \<Rightarrow>
               (case tkt of
                  None \<Rightarrow> (Inl ''login_failed'', s\<lparr>wa_calls := ks, wa_db := d\<rparr>)
                | Some t \<Rightarrow> (Inr t, s\<lparr>wa_calls := ks, wa_db := wecom_audit now ip ses i d,
                    wa_tickets := issue_ticket t (s_token ses) now (wa_tickets s)\<rparr>))))"

definition wecom_callback_handler ::
    "wecom_env \<Rightarrow> string option \<Rightarrow> string option \<Rightarrow> gotime \<Rightarrow> string \<Rightarrow> http_origin \<Rightarrow> wecom_params \<Rightarrow> wecom_app \<Rightarrow>
     string response \<times> wecom_app" where
  "wecom_callback_handler E tok tkt now ip og q s =
     (case enabled_wecom_config E (wa_db s) of
        Inl e \<Rightarrow> (redirect_wecom_error og [] (wecom_error_from_setup e), s)
      | Inr c \<Rightarrow>
          (case wecom_callback_steps E c tok tkt now ip q s of
             (Inl code, s1) \<Rightarrow> (redirect_wecom_error og (wc_redirect_prefix c) code, s1)
           | (Inr t, s1) \<Rightarrow>
               (Done 302 (wecom_external_base og (wc_redirect_prefix c) @ ''/login?wecomTicket='' @ query_escape t), s1)))"

definition wecom_login_credential :: "wecom_env \<Rightarrow> wecom_config \<Rightarrow> gotime \<Rightarrow> wecom_params \<Rightarrow> session response + string" where
  "wecom_login_credential E c now q =
     (if wc_mode c = ''direct'' then
        (case direct_login_credential E now (wp_state q) (wp_code q) of
           Inl e \<Rightarrow> Inl (Fail 401 ''invalid_state'')
         | Inr code \<Rightarrow> Inr code)
      else if trim_space (wp_ticket q) = [] then Inl (Fail 400 ''invalid_request'')
      else Inr (wp_ticket q))"

fun wecom_login_error :: "wecom_failure \<Rightarrow> session response" where
  "wecom_login_error WecomNotBound = Fail 401 ''user_not_bound''"
| "wecom_login_error (WecomAuth UserNotProvisioned) = Fail 401 ''user_not_provisioned''"
| "wecom_login_error e = Fail 500 ''login_failed''"

definition wecom_login_handler ::
    "wecom_env \<Rightarrow> string option \<Rightarrow> gotime \<Rightarrow> string \<Rightarrow> wecom_params option \<Rightarrow> wecom_app \<Rightarrow> session response \<times> wecom_app" where
  "wecom_login_handler E tok now ip req s =
     (case enabled_wecom_config E (wa_db s) of
        Inl e \<Rightarrow> (write_setup_error e, s)
      | Inr c \<Rightarrow>
          (case req of
             None \<Rightarrow> (Fail 400 ''invalid_request'', s)
           | Some q \<Rightarrow>
               (case wecom_login_credential E c now q of
                  Inl r \<Rightarrow> (r, s)
                | Inr credential \<Rightarrow>
                    (case exchange E c now credential (wa_calls s) of
                       (Inl e, ks) \<Rightarrow> (Fail 401 ''invalid_ticket'', s\<lparr>wa_calls := ks\<rparr>)
                     | (Inr i, ks) \<Rightarrow>
                         (case login_by_wecom (we_auth E) tok now i (wa_db s) of
                            (Inl e, d) \<Rightarrow> (wecom_login_error e, s\<lparr>wa_calls := ks, wa_db := d\<rparr>)
                          | (Inr ses, d) \<Rightarrow> (Done 200 ses, s\<lparr>wa_calls := ks, wa_db := wecom_audit now ip ses i d\<rparr>))))))"

definition wecom_exchange_handler ::
    "wecom_env \<Rightarrow> gotime \<Rightarrow> string option \<Rightarrow> wecom_app \<Rightarrow> session response \<times> wecom_app" where
  "wecom_exchange_handler E now req s =
     (case req of
        None \<Rightarrow> (Fail 400 ''invalid_request'', s)
      | Some raw \<Rightarrow>
          (case consume_ticket raw now (wa_tickets s) of
             (None, ts) \<Rightarrow> (Fail 401 ''invalid_ticket'', s\<lparr>wa_tickets := ts\<rparr>)
           | (Some token, ts) \<Rightarrow>
               (case validate (we_auth E) token now (wa_db s) of
                  (Inl e, d) \<Rightarrow> (Fail 401 ''invalid_session'', s\<lparr>wa_tickets := ts, wa_db := d\<rparr>)
                | (Inr ses, d) \<Rightarrow> (Done 200 ses, s\<lparr>wa_tickets := ts, wa_db := d\<rparr>))))"

text \<open>The URL of the login page and what an embedded QR code needs: mode, frame URL and state.\<close>

definition wecom_authorize_handler ::
    "wecom_env \<Rightarrow> string option \<Rightarrow> gotime \<Rightarrow> http_origin \<Rightarrow> wecom_app \<Rightarrow>
     (string \<times> string \<times> string \<times> string) response \<times> wecom_app" where
  "wecom_authorize_handler E nonce now og s =
     (case enabled_wecom_config E (wa_db s) of
        Inl e \<Rightarrow> (write_setup_error e, s)
      | Inr c \<Rightarrow>
          if wc_mode c = ''center'' then
            (let url = authorize_url c [] [] in (Done 200 (url, ''sso'', url, []), s))
          else case sign_wecom_state E nonce now ''login'' [] (wa_db s) of
            None \<Rightarrow> (Fail 500 ''login_failed'', s)
          | Some state \<Rightarrow>
              (let base = wecom_external_base og (wc_redirect_prefix c) in
               (Done 200 (authorize_url c (base @ ''/api/auth/wecom/callback'') state, ''direct'',
                  authorize_url c (base @ ''/wecom-qr-callback'') state, state), s)))"

definition wecom_bind_url_handler ::
    "wecom_env \<Rightarrow> string option \<Rightarrow> caller \<Rightarrow> http_origin \<Rightarrow> wecom_app \<Rightarrow> string response \<times> wecom_app" where
  "wecom_bind_url_handler E nonce c og s =
     (case enabled_wecom_config E (wa_db s) of
        Inl e \<Rightarrow> (write_setup_error e, s)
      | Inr cfg \<Rightarrow>
          if wc_mode cfg \<noteq> ''direct'' then (Done 200 (authorize_url cfg [] []), s)
          else case sign_wecom_state E nonce (ca_now c) ''bind'' (u_id (ca_user c)) (wa_db s) of
            None \<Rightarrow> (Fail 500 ''wecom_state_failed'', s)
          | Some state \<Rightarrow>
              (Done 200 (authorize_url cfg (wecom_external_base og (wc_redirect_prefix cfg) @ ''/login'') state), s))"

definition wecom_bind_credential :: "wecom_env \<Rightarrow> wecom_config \<Rightarrow> caller \<Rightarrow> wecom_params \<Rightarrow> string response + string" where
  "wecom_bind_credential E cfg c q =
     (if wc_mode cfg = ''direct'' then
        (case verify_wecom_state E (wp_state q) (ca_now c) of
           StateValid cl \<Rightarrow>
             if stc_purpose cl \<noteq> ''bind'' then Inl (Fail 400 ''invalid_state'')
             else if stc_user_id cl \<noteq> [] \<and> stc_user_id cl \<noteq> u_id (ca_user c) then Inl (Fail 403 ''state_user_mismatch'')
             else Inr (wp_code q)
         | _ \<Rightarrow> Inl (Fail 400 ''invalid_state''))
      else if trim_space (wp_ticket q) = [] then Inl (Fail 400 ''invalid_request'')
      else Inr (wp_ticket q))"

definition wecom_bind_handler ::
    "wecom_env \<Rightarrow> caller \<Rightarrow> wecom_params option \<Rightarrow> wecom_app \<Rightarrow> string response \<times> wecom_app" where
  "wecom_bind_handler E c req s =
     (case enabled_wecom_config E (wa_db s) of
        Inl e \<Rightarrow> (write_setup_error e, s)
      | Inr cfg \<Rightarrow>
          (case req of
             None \<Rightarrow> (Fail 400 ''invalid_request'', s)
           | Some q \<Rightarrow>
               (case wecom_bind_credential E cfg c q of
                  Inl r \<Rightarrow> (r, s)
                | Inr credential \<Rightarrow>
                    (case exchange E cfg (ca_now c) credential (wa_calls s) of
                       (Inl e, ks) \<Rightarrow> (Fail 502 ''wecom_bind_failed'', s\<lparr>wa_calls := ks\<rparr>)
                     | (Inr i, ks) \<Rightarrow>
                         (case bind_wecom (u_id (ca_user c)) (wi_userid i) (wa_db s) of
                            (Inl WecomConflict, d) \<Rightarrow> (Fail 409 ''wecom_bind_conflict'', s\<lparr>wa_calls := ks, wa_db := d\<rparr>)
                          | (Inl e, d) \<Rightarrow> (Fail 500 ''wecom_bind_failed'', s\<lparr>wa_calls := ks, wa_db := d\<rparr>)
                          | (Inr w, d) \<Rightarrow>
                              (Done 200 w, s\<lparr>wa_calls := ks, wa_db := audit c ''Bound wecom'' (u_username (ca_user c)) ''System'' ''success''
                                 [(''username'', u_username (ca_user c)), (''wecomUserid'', w)] d\<rparr>))))))"

definition wecom_unbind_handler :: "caller \<Rightarrow> wecom_app \<Rightarrow> unit response \<times> wecom_app" where
  "wecom_unbind_handler c s =
     (case wecom_binding_of (wa_db s) (u_id (ca_user c)) of
        Inl e \<Rightarrow> (Fail 500 ''wecom_unbind_failed'', s)
      | Inr previous \<Rightarrow>
          (case delete_wecom_binding (u_id (ca_user c)) (wa_db s) of
             Inl e \<Rightarrow> (Fail 500 ''wecom_unbind_failed'', s)
           | Inr (removed, d) \<Rightarrow>
               (Done 200 (), s\<lparr>wa_db := (if removed then
                  audit c ''Unbound wecom'' (u_username (ca_user c)) ''System'' ''success''
                    ((''username'', u_username (ca_user c)) #
                     (case previous of None \<Rightarrow> [] | Some w \<Rightarrow> [(''wecomUserid'', w)])) d
                else d)\<rparr>)))"

subsection \<open>Values handed over once\<close>

text \<open>The state before the \<open>i\<close>th of a list of events.\<close>

definition state_before :: "('s \<Rightarrow> 'e \<Rightarrow> 'r \<times> 's) \<Rightarrow> 's \<Rightarrow> 'e list \<Rightarrow> nat \<Rightarrow> 's" where
  "state_before step s es i = fold (\<lambda>e s. snd (step s e)) (take i es) s"

text \<open>A keeper of values: an event may put a value under a key, until some time, or ask for the value of a key
  at some time, after which the key is empty.\<close>

locale handover =
  fixes step :: "'s \<Rightarrow> 'e \<Rightarrow> 'v option \<times> 's"
    and held :: "'s \<Rightarrow> 'k \<Rightarrow> ('v \<times> gotime) option"
    and asks :: "'e \<Rightarrow> ('k \<times> gotime) option"
    and offers :: "'s \<Rightarrow> 'e \<Rightarrow> ('k \<times> 'v \<times> gotime) option"
  assumes given: "step s e = (Some v, s') \<Longrightarrow> \<exists>k t x. asks e = Some (k, t) \<and> held s k = Some (v, x) \<and> t \<le> x"
    and asked_gone: "asks e = Some (k, t) \<Longrightarrow> held (snd (step s e)) k = None"
    and kept: "held (snd (step s e)) k = Some y \<Longrightarrow> held s k = Some y \<or> offers s e = Some (k, y)"
begin

lemma held_was_offered:
  assumes "\<forall>k. held s k = None" "i \<le> length es" "held (state_before step s es i) k = Some y"
  shows "\<exists>j < i. offers (state_before step s es j) (es ! j) = Some (k, y) \<and> (\<forall>m. j < m \<and> m < i \<longrightarrow> (\<forall>t. asks (es ! m) \<noteq> Some (k, t)))"
  using assms(2,3)
proof (induction i)
  case 0
  then show ?case using assms(1) by (simp add: state_before_def)
next
  case (Suc i)
  let ?s = "state_before step s es i"
  have step: "state_before step s es (Suc i) = snd (step ?s (es ! i))"
    using Suc.prems(1) by (simp add: state_before_def take_Suc_conv_app_nth)
  have now: "asks (es ! i) \<noteq> Some (k, t)" for t
    using asked_gone [of "es ! i" k t ?s] Suc.prems(2) step by auto
  from kept [of ?s "es ! i" k y] Suc.prems(2) step
  consider "held ?s k = Some y" | "offers ?s (es ! i) = Some (k, y)" by auto
  then show ?case
  proof cases
    case 1
    with Suc obtain j where "j < i" "offers (state_before step s es j) (es ! j) = Some (k, y)"
        "\<forall>m. j < m \<and> m < i \<longrightarrow> (\<forall>t. asks (es ! m) \<noteq> Some (k, t))" by auto
    with now show ?thesis by (intro exI [of _ j]) (auto simp: less_Suc_eq)
  next
    case 2
    then show ?thesis by (intro exI [of _ i]) auto
  qed
qed

lemma given_was_offered:
  assumes "\<forall>k. held s k = None" "i < length es" "step (state_before step s es i) (es ! i) = (Some v, s')"
  shows "\<exists>k t x j. asks (es ! i) = Some (k, t) \<and> t \<le> x \<and> j < i \<and> offers (state_before step s es j) (es ! j) = Some (k, v, x) \<and>
    (\<forall>m. j < m \<and> m < i \<longrightarrow> (\<forall>t. asks (es ! m) \<noteq> Some (k, t)))"
proof -
  obtain k t x where g: "asks (es ! i) = Some (k, t)" "held (state_before step s es i) k = Some (v, x)" "t \<le> x"
    using given [OF assms(3)] by blast
  from held_was_offered [OF assms(1) less_imp_le [OF assms(2)] g(2)] g show ?thesis by blast
qed

end

text \<open>The requests that change the state.\<close>

datatype wecom_request =
    CallbackRequest "string option" "string option" gotime string http_origin wecom_params
  | LoginRequest "string option" gotime string "wecom_params option"
  | ExchangeRequest gotime "string option"
  | BindRequest caller "wecom_params option"
  | UnbindRequest caller

text \<open>The session token a ticket was exchanged for, and the state after the request.\<close>

fun wecom_step :: "wecom_env \<Rightarrow> wecom_app \<Rightarrow> wecom_request \<Rightarrow> string option \<times> wecom_app" where
  "wecom_step E s (CallbackRequest tok tkt now ip og q) = (None, snd (wecom_callback_handler E tok tkt now ip og q s))"
| "wecom_step E s (LoginRequest tok now ip req) = (None, snd (wecom_login_handler E tok now ip req s))"
| "wecom_step E s (ExchangeRequest now req) =
     (case wecom_exchange_handler E now req s of
        (Done code ses, s1) \<Rightarrow> (Some (s_token ses), s1)
      | (Fail code msg, s1) \<Rightarrow> (None, s1))"
| "wecom_step E s (BindRequest c req) = (None, snd (wecom_bind_handler E c req s))"
| "wecom_step E s (UnbindRequest c) = (None, snd (wecom_unbind_handler c s))"

definition ticket_held :: "wecom_app \<Rightarrow> string \<Rightarrow> (string \<times> gotime) option" where
  "ticket_held s k = map_option (\<lambda>r. (tk_token r, tk_expires_at r)) (wa_tickets s k)"

fun ticket_asked :: "wecom_request \<Rightarrow> (string \<times> gotime) option" where
  "ticket_asked (ExchangeRequest now (Some raw)) = (if trim_space raw = [] then None else Some (trim_space raw, now))"
| "ticket_asked q = None"

fun ticket_offered :: "wecom_env \<Rightarrow> wecom_app \<Rightarrow> wecom_request \<Rightarrow> (string \<times> string \<times> gotime) option" where
  "ticket_offered E s (CallbackRequest (Some tok) (Some tkt) now ip og q) =
     (if fst (wecom_callback_handler E (Some tok) (Some tkt) now ip og q s) =
           Done 302 (wecom_external_base og (case enabled_wecom_config E (wa_db s) of Inl e \<Rightarrow> [] | Inr c \<Rightarrow> wc_redirect_prefix c) @
             ''/login?wecomTicket='' @ query_escape tkt)
      then Some (tkt, tok, now + ticket_ttl) else None)"
| "ticket_offered E s q = None"

lemma login_by_wecom_done:
  assumes "login_by_wecom A tok now i d = (Inr ses, d')"
  obtains t u d1 where "tok = Some t" "find_user_by_wecom_binding (trim_space (wi_userid i)) d = (Inr u, d1)" "\<not> u_disabled u"
    "create_session A (Some t) now u ''wecom'' d1 = (Inr ses, d')"
proof -
  obtain u d1 where "find_user_by_wecom_binding (trim_space (wi_userid i)) d = (Inr u, d1)" "\<not> u_disabled u"
    "create_session A tok now u ''wecom'' d1 = (Inr ses, d')"
    using assms by (auto simp: login_by_wecom_def Let_def split: if_splits sum.splits prod.splits store_error.splits)
  moreover from this(3) obtain t where "tok = Some t" by (auto simp: create_session_def split: option.splits)
  ultimately show thesis using that by blast
qed

lemma callback_done:
  assumes "wecom_callback_steps E c tok tkt now ip q s = (Inr k, s1)"
  obtains t i ks ses d where "tok = Some t" "tkt = Some k" "resolve_wecom_identity E c now q (wa_calls s) = (Inr i, ks)"
    "login_by_wecom (we_auth E) (Some t) now i (wa_db s) = (Inr ses, d)" "s_token ses = t"
    "s1 = s\<lparr>wa_calls := ks, wa_db := wecom_audit now ip ses i d, wa_tickets := issue_ticket k t now (wa_tickets s)\<rparr>"
proof -
  obtain i ks ses d where c: "tkt = Some k" "resolve_wecom_identity E c now q (wa_calls s) = (Inr i, ks)"
      "login_by_wecom (we_auth E) tok now i (wa_db s) = (Inr ses, d)"
      "s1 = s\<lparr>wa_calls := ks, wa_db := wecom_audit now ip ses i d, wa_tickets := issue_ticket k (s_token ses) now (wa_tickets s)\<rparr>"
    using assms by (auto simp: wecom_callback_steps_def split: option.splits sum.splits prod.splits)
  obtain t u d1 where "tok = Some t" "create_session (we_auth E) (Some t) now u ''wecom'' d1 = (Inr ses, d)"
    using c(3) by (rule login_by_wecom_done)
  with create_session_done(1) [OF this(2)] c that show thesis by auto
qed

lemma callback_tickets:
  "wa_tickets (snd (wecom_callback_steps E c tok tkt now ip q s)) = wa_tickets s \<or>
   (\<exists>k. fst (wecom_callback_steps E c tok tkt now ip q s) = Inr k)"
  by (auto simp: wecom_callback_steps_def split: option.split sum.split prod.split)

lemma other_tickets:
  "wa_tickets (snd (wecom_login_handler E tok now ip req s)) = wa_tickets s"
  "wa_tickets (snd (wecom_bind_handler E c req2 s)) = wa_tickets s"
  "wa_tickets (snd (wecom_unbind_handler c s)) = wa_tickets s"
  by (auto simp: wecom_login_handler_def wecom_bind_handler_def wecom_unbind_handler_def Let_def
      split: option.split sum.split prod.split wecom_failure.split)

lemma consumed:
  assumes "consume_ticket raw now ts = (r, ts')"
  shows "trim_space raw \<noteq> [] \<Longrightarrow> ts' (trim_space raw) = None"
    and "ts' k = Some x \<Longrightarrow> ts k = Some x"
    and "r = Some token \<Longrightarrow> \<exists>x. trim_space raw \<noteq> [] \<and> ts (trim_space raw) = Some x \<and> tk_token x = token \<and> now \<le> tk_expires_at x"
  using assms by (auto simp: consume_ticket_def Let_def split: if_splits option.splits)

lemma exchange_tickets:
  "wecom_exchange_handler E now req s = (r, s') \<Longrightarrow>
   (case req of None \<Rightarrow> wa_tickets s' = wa_tickets s
    | Some raw \<Rightarrow> wa_tickets s' = snd (consume_ticket raw now (wa_tickets s)))"
  by (auto simp: wecom_exchange_handler_def split: option.splits prod.splits sum.splits)

lemma exchange_done:
  assumes "wecom_exchange_handler E now req s = (Done code ses, s')"
  shows "\<exists>raw x. req = Some raw \<and> trim_space raw \<noteq> [] \<and> wa_tickets s (trim_space raw) = Some x \<and>
    tk_token x = s_token ses \<and> now \<le> tk_expires_at x"
proof -
  obtain raw token ts d where e: "req = Some raw" "consume_ticket raw now (wa_tickets s) = (Some token, ts)"
      "validate (we_auth E) token now (wa_db s) = (Inr ses, d)"
    using assms by (auto simp: wecom_exchange_handler_def split: option.splits prod.splits sum.splits)
  from validate_live [OF e(3)] consumed(3) [OF e(2) refl] e(1) show ?thesis by auto
qed

lemma issued:
  "issue_ticket k token now ts k' = Some x \<Longrightarrow>
   ts k' = Some x \<or> (k' = k \<and> x = \<lparr>tk_token = token, tk_expires_at = now + ticket_ttl\<rparr>)"
  by (auto simp: issue_ticket_def prune_tickets_def split: if_splits option.splits)

lemma callback_kept:
  assumes "wa_tickets (snd (wecom_callback_handler E tok tkt now ip og q s)) k = Some x" "wa_tickets s k \<noteq> Some x"
  shows "ticket_offered E s (CallbackRequest tok tkt now ip og q) = Some (k, tk_token x, tk_expires_at x)"
proof -
  obtain c r s1 where c: "enabled_wecom_config E (wa_db s) = Inr c" "wecom_callback_steps E c tok tkt now ip q s = (r, s1)"
      "wa_tickets s1 k = Some x"
    using assms by (auto simp: wecom_callback_handler_def split: sum.splits prod.splits)
  then obtain k' where r: "r = Inr k'"
    using callback_tickets [of E c tok tkt now ip q s] assms(2) by auto
  obtain t i ks ses d where "tok = Some t" "tkt = Some k'"
      "s1 = s\<lparr>wa_calls := ks, wa_db := wecom_audit now ip ses i d, wa_tickets := issue_ticket k' t now (wa_tickets s)\<rparr>"
    using c(2) unfolding r by (rule callback_done)
  with issued [of k' t now "wa_tickets s" k x] c r assms(2) show ?thesis
    by (auto simp: wecom_callback_handler_def)
qed

interpretation tickets: handover "wecom_step E" ticket_held ticket_asked "ticket_offered E"
proof
  show "\<exists>k t x. ticket_asked e = Some (k, t) \<and> ticket_held s k = Some (v, x) \<and> t \<le> x" if "wecom_step E s e = (Some v, s')" for s e v s'
  proof (cases e)
    case (ExchangeRequest now req)
    with that obtain code ses where "wecom_exchange_handler E now req s = (Done code ses, s')" "s_token ses = v"
      by (auto split: prod.splits response.splits)
    from exchange_done [OF this(1)] this(2) show ?thesis by (auto simp: ExchangeRequest ticket_held_def)
  qed (use that in simp_all)
  show "ticket_held (snd (wecom_step E s e)) k = None" if asked: "ticket_asked e = Some (k, t)" for s e k t
  proof -
    obtain raw where r: "e = ExchangeRequest t (Some raw)" "trim_space raw = k" "k \<noteq> []"
      using asked by (cases e rule: ticket_asked.cases) (auto split: if_splits)
    obtain b ts where "consume_ticket raw t (wa_tickets s) = (b, ts)" by (rule prod.exhaust)
    then have "wa_tickets (snd (wecom_step E s e)) k = None"
      using exchange_tickets [of E t "Some raw" s] consumed(1) [of raw t "wa_tickets s"] r
      by (auto split: prod.split response.split)
    then show ?thesis by (simp add: ticket_held_def)
  qed
  show "ticket_held s k = Some y \<or> ticket_offered E s e = Some (k, y)" if h: "ticket_held (snd (wecom_step E s e)) k = Some y" for s e k y
  proof -
    obtain x where x: "wa_tickets (snd (wecom_step E s e)) k = Some x" "y = (tk_token x, tk_expires_at x)"
      using h by (auto simp: ticket_held_def)
    show ?thesis
    proof (cases e)
      case (CallbackRequest tok tkt now ip og q)
      with callback_kept [of E tok tkt now ip og q s k x] x show ?thesis by (auto simp: ticket_held_def)
    next
      case (ExchangeRequest now req)
      obtain r s1 where "wecom_exchange_handler E now req s = (r, s1)" by (rule prod.exhaust)
      with exchange_tickets [OF this] x show ?thesis
        by (auto simp: ExchangeRequest ticket_held_def split: response.splits option.splits
            dest: consumed(2) [OF surjective_pairing])
    qed (use x in \<open>auto simp: ticket_held_def other_tickets\<close>)
  qed
qed

text \<open>C30. A login ticket is worth one session, once: a session is answered to an exchange only for a ticket that a
  callback put into its redirect at most 60 seconds before, it is the session this callback opened, and
  no request has asked for the ticket in between.\<close>

theorem ticket_exchanged_once:
  assumes "wa_tickets s = Map.empty" "i < length qs" "qs ! i = ExchangeRequest now (Some raw)"
    and "wecom_exchange_handler E now (Some raw) (state_before (wecom_step E) s qs i) = (Done code ses, s')"
  shows "\<exists>j < i. \<exists>now' ip og q. qs ! j = CallbackRequest (Some (s_token ses)) (Some (trim_space raw)) now' ip og q \<and>
    now \<le> now' + ticket_ttl \<and>
    (\<exists>url. fst (wecom_callback_handler E (Some (s_token ses)) (Some (trim_space raw)) now' ip og q
        (state_before (wecom_step E) s qs j)) = Done 302 (url @ ''/login?wecomTicket='' @ query_escape (trim_space raw))) \<and>
    (\<forall>m. j < m \<and> m < i \<longrightarrow> (\<forall>now'' raw'. qs ! m = ExchangeRequest now'' (Some raw') \<longrightarrow> trim_space raw' \<noteq> trim_space raw))"
proof -
  have "\<forall>k. ticket_held s k = None" using assms(1) by (simp add: ticket_held_def)
  moreover have "wecom_step E (state_before (wecom_step E) s qs i) (qs ! i) = (Some (s_token ses), s')"
    using assms(3,4) by simp
  ultimately obtain k t x j where g: "ticket_asked (qs ! i) = Some (k, t)" "t \<le> x" "j < i"
      "ticket_offered E (state_before (wecom_step E) s qs j) (qs ! j) = Some (k, s_token ses, x)"
      "\<forall>m. j < m \<and> m < i \<longrightarrow> (\<forall>t. ticket_asked (qs ! m) \<noteq> Some (k, t))"
    using tickets.given_was_offered [of s i qs E "s_token ses" s'] assms(2) by blast
  have k: "k = trim_space raw" "t = now" "trim_space raw \<noteq> []" using g(1) assms(3) by (auto split: if_splits)
  obtain now' ip og q where q: "qs ! j = CallbackRequest (Some (s_token ses)) (Some k) now' ip og q" "x = now' + ticket_ttl"
      "\<exists>url. fst (wecom_callback_handler E (Some (s_token ses)) (Some k) now' ip og q (state_before (wecom_step E) s qs j)) =
        Done 302 (url @ ''/login?wecomTicket='' @ query_escape k)"
    using g(4) by (auto elim!: ticket_offered.elims split: if_splits)
  show ?thesis using q g(2,3,5) k by (intro exI [of _ j]) fastforce
qed

subsection \<open>Accounts and users\<close>

text \<open>The primary key and the unique column of the bindings.\<close>

definition bindings_ok :: "db \<Rightarrow> bool" where
  "bindings_ok d \<longleftrightarrow> distinct (map fst (db_bindings d)) \<and> distinct (map snd (db_bindings d))"

lemma bindings_read:
  "find_user_by_wecom_binding w d = (r, d1) \<Longrightarrow> same_but_roles d d1"
  "find_session h d = (r2, d2) \<Longrightarrow> same_but_roles d d2"
  by (auto simp: find_user_by_wecom_binding_def find_session_def attach_access_to_users_def
      split: if_splits option.splits sum.splits prod.splits dest: attach_access_frame)

lemma bindings_statements:
  "db_bindings (snd (create_session A tok now u p d)) = db_bindings d"
  "db_bindings (auth_audit now ip uid un ac re m d) = db_bindings d"
  "db_bindings (audit c ac tg md re m d) = db_bindings d"
  "db_bindings (drop_err d (delete_expired_sessions now d)) = db_bindings d"
  by (auto simp: create_session_def create_session_row_def record_user_login_def auth_audit_def audit_def write_audit_def
      drop_err_def delete_expired_sessions_def Let_def split: option.split sum.split)

lemma bindings_validate: "db_bindings (snd (validate A token now d)) = db_bindings d"
proof -
  have find_keeps: "find_session h (drop_err d (delete_expired_sessions now d)) = (r, e) \<Longrightarrow> db_bindings e = db_bindings d" for h r e
    using same_but_roles_sel(7) [OF bindings_read(2)] bindings_statements(4) by metis
  show ?thesis
    by (auto simp: validate_def Let_def bindings_statements split: sum.split prod.split dest: find_keeps)
qed

lemma bindings_login: "db_bindings (snd (login_by_wecom A tok now i d)) = db_bindings d"
proof -
  have "find_user_by_wecom_binding w d = (r, d1) \<Longrightarrow> db_bindings d1 = db_bindings d" for w r d1
    using bindings_read(1) same_but_roles_sel(7) by blast
  moreover have "create_session A tok now u p d1 = (r, d2) \<Longrightarrow> db_bindings d2 = db_bindings d1" for u p d1 r d2
    using bindings_statements(1) [of A tok now u p d1] by simp
  ultimately show ?thesis
    by (auto simp: login_by_wecom_def Let_def split: sum.split prod.split store_error.split)
qed

lemma bindings_callback: "db_bindings (wa_db (snd (wecom_callback_steps E c tok tkt now ip q s))) = db_bindings (wa_db s)"
proof -
  have "login_by_wecom A tok now i d = (r, d') \<Longrightarrow> db_bindings d' = db_bindings d" for A i d r d'
    using bindings_login [of A tok now i d] by simp
  then show ?thesis
    by (auto simp: wecom_callback_steps_def wecom_audit_def bindings_statements
        split: option.split sum.split prod.split)
qed

lemma bindings_handlers:
  "db_bindings (wa_db (snd (wecom_callback_handler E tok tkt now ip og q s))) = db_bindings (wa_db s)"
  "db_bindings (wa_db (snd (wecom_login_handler E tok now ip req s))) = db_bindings (wa_db s)"
  "db_bindings (wa_db (snd (wecom_exchange_handler E now raw s))) = db_bindings (wa_db s)"
proof -
  have "login_by_wecom A tok now i d = (r, d') \<Longrightarrow> db_bindings d' = db_bindings d" for A i d r d'
    using bindings_login [of A tok now i d] by simp
  then show "db_bindings (wa_db (snd (wecom_login_handler E tok now ip req s))) = db_bindings (wa_db s)"
    by (auto simp: wecom_login_handler_def wecom_audit_def bindings_statements
        split: option.split sum.split prod.split)
  have "wecom_callback_steps E c tok tkt now ip q s = (r, s1) \<Longrightarrow> db_bindings (wa_db s1) = db_bindings (wa_db s)" for c r s1
    using bindings_callback [of E c tok tkt now ip q s] by simp
  then show "db_bindings (wa_db (snd (wecom_callback_handler E tok tkt now ip og q s))) = db_bindings (wa_db s)"
    by (auto simp: wecom_callback_handler_def split: sum.split prod.split)
  have "validate A t now d = (r, d') \<Longrightarrow> db_bindings d' = db_bindings d" for A t d r d'
    using bindings_validate [of A t now d] by simp
  then show "db_bindings (wa_db (snd (wecom_exchange_handler E now raw s))) = db_bindings (wa_db s)"
    by (auto simp: wecom_exchange_handler_def split: option.split sum.split prod.split)
qed

lemma rebound_rows:
  assumes "distinct (map fst bs)" "distinct (map snd bs)" "\<forall>b \<in> set bs. snd b = w \<longrightarrow> fst b = uid"
  shows "distinct (map snd (update_rows (\<lambda>b. fst b = uid) (\<lambda>b. (uid, w)) bs))"
  using assms
proof (induction bs)
  case (Cons b bs)
  show ?case
  proof (cases "fst b = uid")
    case True
    with Cons.prems(1) have rest: "\<forall>c \<in> set bs. fst c \<noteq> uid" by (auto simp: image_iff)
    then have "update_rows (\<lambda>b. fst b = uid) (\<lambda>b. (uid, w)) bs = bs"
      unfolding update_rows_def by (intro map_idI) auto
    moreover have "w \<notin> snd ` set bs" using rest Cons.prems(3) by auto
    ultimately show ?thesis using True Cons.prems(2) by (simp add: update_rows_def)
  next
    case False
    have "snd b \<notin> snd ` set (update_rows (\<lambda>b. fst b = uid) (\<lambda>b. (uid, w)) bs)"
      using Cons.prems(2,3) False by (auto simp: update_rows_def image_iff)
    moreover have "update_rows (\<lambda>b. fst b = uid) (\<lambda>b. (uid, w)) (b # bs) = b # update_rows (\<lambda>b. fst b = uid) (\<lambda>b. (uid, w)) bs"
      using False by (simp add: update_rows_def)
    ultimately show ?thesis using Cons by (simp del: set_update_rows)
  qed
qed (simp add: update_rows_def)

lemma saved_binding:
  assumes "bindings_ok d" "save_wecom_binding uid w d = Inr d'"
  shows "bindings_ok d' \<and> (uid, w) \<in> set (db_bindings d')"
proof -
  let ?b = "db_bindings d"
  have no_other: "\<forall>b \<in> set ?b. snd b = w \<longrightarrow> fst b = uid"
    and d': "db_bindings d' = upsert_row (\<lambda>b. fst b = uid) (\<lambda>b. (uid, w)) (uid, w) ?b"
    using assms(2) by (auto simp: save_wecom_binding_def list_ex_iff split: if_splits)
  have same: "map fst (update_rows (\<lambda>b. fst b = uid) (\<lambda>b. (uid, w)) ?b) = map fst ?b"
    by (auto simp: update_rows_def)
  show ?thesis
  proof (cases "list_ex (\<lambda>b. fst b = uid) ?b")
    case True
    then have "(uid, w) \<in> set (db_bindings d')" by (auto simp: d' upsert_row_def update_rows_def list_ex_iff image_iff)
    then show ?thesis using rebound_rows [of ?b w uid] no_other assms(1) True same by (simp add: bindings_ok_def d' upsert_row_def)
  next
    case False
    then show ?thesis using no_other assms(1) by (auto simp: bindings_ok_def d' upsert_row_def list_ex_iff)
  qed
qed

lemma bound:
  assumes "bindings_ok d" "bind_wecom uid w d = (r, d')"
  shows "bindings_ok d' \<and> (\<forall>w'. r = Inr w' \<longrightarrow> w' = trim_space w \<and> (uid, w') \<in> set (db_bindings d'))"
  using assms saved_binding [OF assms(1), of uid "trim_space w"]
  by (auto simp: bind_wecom_def Let_def split: if_splits sum.splits store_error.splits)

lemma bind_handler_ok:
  assumes "bindings_ok (wa_db s)" "wecom_bind_handler E c req s = (r, s')"
  shows "bindings_ok (wa_db s') \<and>
    (\<forall>code w. r = Done code w \<longrightarrow> (u_id (ca_user c), w) \<in> set (db_bindings (wa_db s')))"
proof -
  have keep: "bindings_ok (audit c a t m re md d) = bindings_ok d" for a t m re md d
    by (simp add: bindings_ok_def bindings_statements)
  show ?thesis
    using assms(2) assms(1) bound [OF assms(1)]
    by (auto simp: wecom_bind_handler_def wecom_bind_credential_def write_setup_error_def keep bindings_statements
        split: if_splits option.splits sum.splits prod.splits wecom_failure.splits state_check.splits)
qed

lemma unbind_handler_ok:
  assumes "bindings_ok (wa_db s)"
  shows "bindings_ok (wa_db (snd (wecom_unbind_handler c s)))"
proof -
  have "distinct (map fst (delete_rows p bs)) \<and> distinct (map snd (delete_rows p bs))"
    if "distinct (map fst bs)" "distinct (map snd bs)" for p and bs :: "(string \<times> string) list"
    using that by (simp add: delete_rows_def distinct_map_filter)
  then show ?thesis using assms
    by (auto simp: wecom_unbind_handler_def bindings_ok_def delete_wecom_binding_def bindings_statements split: sum.split option.split)
qed

lemma wecom_step_ok: "bindings_ok (wa_db s) \<Longrightarrow> bindings_ok (wa_db (snd (wecom_step E s q)))"
proof (cases q)
  case (BindRequest c req)
  assume "bindings_ok (wa_db s)"
  from bind_handler_ok [OF this surjective_pairing] show ?thesis by (simp add: BindRequest)
next
  case (ExchangeRequest now req)
  assume "bindings_ok (wa_db s)"
  moreover obtain r s1 where "wecom_exchange_handler E now req s = (r, s1)" by (rule prod.exhaust)
  moreover have "db_bindings (wa_db s1) = db_bindings (wa_db s)"
    using bindings_handlers(3) [of E now req s] calculation(2) by simp
  ultimately show ?thesis by (simp add: ExchangeRequest bindings_ok_def split: response.split)
next
  case (UnbindRequest c)
  assume "bindings_ok (wa_db s)"
  then show ?thesis using unbind_handler_ok by (simp add: UnbindRequest)
qed (simp_all add: bindings_ok_def bindings_handlers)


lemma bound_user:
  assumes "find_user_by_wecom_binding w d = (Inr u, d')"
  shows "\<exists>b row. b \<in> set (db_bindings d) \<and> snd b = w \<and> row \<in> set (db_users d) \<and> ur_id row = fst b \<and>
    u_id u = ur_id row \<and> u_disabled u = ur_disabled row"
proof -
  obtain b row where f: "find_row (\<lambda>b. snd b = w) (db_bindings d) = Some b" "find_row (\<lambda>u. ur_id u = fst b) (db_users d) = Some row"
      "attach_access (scan_user row) d = (Inr u, d')"
    using assms by (auto simp: find_user_by_wecom_binding_def attach_access_to_users_def split: if_splits option.splits sum.splits prod.splits)
  have "u_id u = ur_id row" "u_disabled u = ur_disabled row"
    using attach_access_keeps [OF f(3)] by (simp_all add: scan_user_def)
  with find_row_member [OF f(1)] find_row_member [OF f(2)] show ?thesis by blast
qed

lemma unique_binding:
  assumes "bindings_ok d" "(x, w) \<in> set (db_bindings d)"
  shows "{b \<in> set (db_bindings d). snd b = w} = {(x, w)} \<and> {b \<in> set (db_bindings d). fst b = x} = {(x, w)}"
proof -
  have "inj_on fst (set (db_bindings d))" "inj_on snd (set (db_bindings d))"
    using assms(1) by (simp_all add: bindings_ok_def distinct_map)
  from inj_onD [OF this(1)] inj_onD [OF this(2)] assms(2) show ?thesis by fastforce
qed

text \<open>C31. Over any sequence of callbacks, logins, exchanges, bindings and unbindings a WeCom account is bound to at
  most one user and a user to at most one account; an account logs in exactly the enabled user it is
  bound to, and a binding answered 200 is the caller's.\<close>

theorem wecom_account_of_one_user:
  assumes "bindings_ok (wa_db s)" "s' = fold (\<lambda>q s. snd (wecom_step E s q)) qs s"
  shows "bindings_ok (wa_db s') \<and>
    (\<forall>A tok now i ses d. login_by_wecom A tok now i (wa_db s') = (Inr ses, d) \<longrightarrow>
      (\<exists>row \<in> set (db_users (wa_db s')). u_id (s_user ses) = ur_id row \<and> \<not> ur_disabled row \<and>
        {b \<in> set (db_bindings (wa_db s')). snd b = trim_space (wi_userid i)} = {(ur_id row, trim_space (wi_userid i))})) \<and>
    (\<forall>c req code w s2. wecom_bind_handler E c req s' = (Done code w, s2) \<longrightarrow>
      {b \<in> set (db_bindings (wa_db s2)). snd b = w} = {(u_id (ca_user c), w)} \<and>
      {b \<in> set (db_bindings (wa_db s2)). fst b = u_id (ca_user c)} = {(u_id (ca_user c), w)})"
proof (intro conjI allI impI)
  have "bindings_ok (wa_db (fold (\<lambda>q s. snd (wecom_step E s q)) qs t))" if "bindings_ok (wa_db t)" for t
    using that by (induction qs arbitrary: t) (simp_all add: wecom_step_ok)
  then show ok: "bindings_ok (wa_db s')" using assms by simp
  have unique: "{b \<in> set (db_bindings d). snd b = w} = {(x, w)}" "{b \<in> set (db_bindings d). fst b = x} = {(x, w)}"
    if "bindings_ok d" "(x, w) \<in> set (db_bindings d)" for d x w
    using that unique_binding by blast+
  show "\<exists>row \<in> set (db_users (wa_db s')). u_id (s_user ses) = ur_id row \<and> \<not> ur_disabled row \<and>
        {b \<in> set (db_bindings (wa_db s')). snd b = trim_space (wi_userid i)} = {(ur_id row, trim_space (wi_userid i))}"
    if l: "login_by_wecom A tok now i (wa_db s') = (Inr ses, d)" for A tok now i ses d
  proof -
    obtain t u d1 where u: "find_user_by_wecom_binding (trim_space (wi_userid i)) (wa_db s') = (Inr u, d1)" "\<not> u_disabled u"
        "create_session A (Some t) now u ''wecom'' d1 = (Inr ses, d)"
      using l by (rule login_by_wecom_done)
    obtain b row where b: "b \<in> set (db_bindings (wa_db s'))" "snd b = trim_space (wi_userid i)" "row \<in> set (db_users (wa_db s'))"
        "ur_id row = fst b" "u_id u = ur_id row" "u_disabled u = ur_disabled row"
      using bound_user [OF u(1)] by blast
    have "b = (ur_id row, trim_space (wi_userid i))" using b(2,4) by (simp add: prod_eq_iff)
    then have "(ur_id row, trim_space (wi_userid i)) \<in> set (db_bindings (wa_db s'))" using b(1) by simp
    from unique(1) [OF ok this] create_session_done(1) [OF u(3)] b(3,5,6) u(2) show ?thesis by (intro bexI [of _ row]) auto
  qed
  show "{b \<in> set (db_bindings (wa_db s2)). snd b = w} = {(u_id (ca_user c), w)}"
       "{b \<in> set (db_bindings (wa_db s2)). fst b = u_id (ca_user c)} = {(u_id (ca_user c), w)}"
    if "wecom_bind_handler E c req s' = (Done code w, s2)" for c req code w s2
    using bind_handler_ok [OF ok that] unique by auto
qed

subsection \<open>The state is ours\<close>

lemma verify_signed:
  "CHR ''.'' \<notin> set encoded \<Longrightarrow> encoded \<noteq> [] \<Longrightarrow> state_signature E encoded \<noteq> [] \<Longrightarrow>
   verify_wecom_state E (encoded @ ''.'' @ state_signature E encoded) now =
     (case raw_url_decode encoded of
        None \<Rightarrow> StateInvalid
      | Some payload \<Rightarrow>
          (case we_claims_json E payload of
             None \<Rightarrow> StateInvalid
           | Some c \<Rightarrow>
               if stc_purpose c = [] \<or> stc_nonce c = [] then StateInvalid
               else if stc_expires_at c \<le> unix_seconds now then StateExpired
               else StateValid c))"
proof -
  assume a: "CHR ''.'' \<notin> set encoded" "encoded \<noteq> []" "state_signature E encoded \<noteq> []"
  have "takeWhile (\<lambda>c. c \<noteq> CHR ''.'') (encoded @ ''.'' @ state_signature E encoded) = encoded"
    using a(1) by (subst takeWhile_append2) auto
  then show ?thesis using a by (simp add: verify_wecom_state_def Let_def)
qed

text \<open>A state the service signed is accepted with the claims it was signed for until the second it expires; and
  whatever is accepted carries the service's signature, a purpose, a nonce and an expiry to come. The
  hypotheses are that JSON gives back the claims written and that a hexadecimal MAC is not empty.\<close>

theorem wecom_state_roundtrip:
  assumes "sign_wecom_state E (Some nonce) now purpose uid d = Some state" "purpose \<noteq> []" "nonce \<noteq> []"
    and "\<forall>m. we_hmac_hex E (we_session_secret E) m \<noteq> []"
    and "cl = \<lparr>stc_purpose = purpose, stc_user_id = uid, stc_nonce = nonce, stc_expires_at = unix_seconds (now + wecom_state_ttl d)\<rparr>"
    and "we_claims_text E cl \<noteq> []" "we_claims_json E (we_claims_text E cl) = Some cl"
  shows "verify_wecom_state E state now' =
      (if stc_expires_at cl \<le> unix_seconds now' then StateExpired else StateValid cl) \<and>
    (\<forall>st now' c. verify_wecom_state E st now' = StateValid c \<longrightarrow>
      (\<exists>encoded payload. st = encoded @ ''.'' @ we_hmac_hex E (we_session_secret E) encoded \<and> raw_url_decode encoded = Some payload \<and>
        we_claims_json E payload = Some c \<and> stc_purpose c \<noteq> [] \<and> stc_nonce c \<noteq> [] \<and> unix_seconds now' < stc_expires_at c))"
proof (intro conjI allI impI)
  let ?e = "raw_url_encode (we_claims_text E cl)"
  have "state = ?e @ ''.'' @ state_signature E ?e" using assms(1,5) by (simp add: sign_wecom_state_def Let_def)
  moreover have "?e \<noteq> []"
  proof
    assume "?e = []"
    then have "raw_url_decode [] = Some (we_claims_text E cl)" using raw_url_roundtrip by metis
    moreover have "raw_url_decode [] = Some []" using raw_url_roundtrip [of "[]"] by (simp add: raw_url_encode_def)
    ultimately show False using assms(6) by simp
  qed
  ultimately show "verify_wecom_state E state now' = (if stc_expires_at cl \<le> unix_seconds now' then StateExpired else StateValid cl)"
    using verify_signed [OF raw_url_no_dot, of "we_claims_text E cl" E now'] assms(2-5,7) by (simp add: state_signature_def)
next
  fix st now' c
  assume v: "verify_wecom_state E st now' = StateValid c"
  let ?e = "takeWhile (\<lambda>c. c \<noteq> CHR ''.'') st"
  have dot: "CHR ''.'' \<in> set st" using v by (auto simp: verify_wecom_state_def split: if_splits)
  then have "dropWhile (\<lambda>c. c \<noteq> CHR ''.'') st \<noteq> []" by auto
  then obtain x xs where rest: "dropWhile (\<lambda>c. c \<noteq> CHR ''.'') st = x # xs" by (meson neq_Nil_conv)
  then have st: "st = ?e @ ''.'' @ xs"
    using hd_dropWhile [of "\<lambda>c. c \<noteq> CHR ''.''" st] takeWhile_dropWhile_id [of "\<lambda>c. c \<noteq> CHR ''.''" st] by auto
  then have "drop (Suc (length ?e)) st = xs"
    by (metis append_eq_conv_conj append_Cons append_Nil drop_Suc_Cons drop0 drop_drop length_append_singleton append_assoc)
  with v dot have "xs = state_signature E ?e" "\<exists>payload. raw_url_decode ?e = Some payload \<and> we_claims_json E payload = Some c \<and>
      stc_purpose c \<noteq> [] \<and> stc_nonce c \<noteq> [] \<and> unix_seconds now' < stc_expires_at c"
    by (auto simp: verify_wecom_state_def Let_def not_le split: if_splits option.splits)
  with st show "\<exists>encoded payload. st = encoded @ ''.'' @ we_hmac_hex E (we_session_secret E) encoded \<and> raw_url_decode encoded = Some payload \<and>
        we_claims_json E payload = Some c \<and> stc_purpose c \<noteq> [] \<and> stc_nonce c \<noteq> [] \<and> unix_seconds now' < stc_expires_at c"
    by (metis state_signature_def)
qed

text \<open>The token of the direct client is kept, but in a client no second request sees: within one client a token
  that has not expired is used without a request, yet every exchange begins by requesting a new one with
  the application's secret in the URL, and so does every exchange after it.\<close>

theorem wecom_token_never_reused:
  assumes "wc_mode c \<noteq> ''center''"
  shows "(\<exists>urls. snd (exchange E c now credential ks) = ks @ token_url c # urls) \<and>
    (dc_access_token dc \<noteq> [] \<and> now < dc_token_expiry dc \<longrightarrow>
      snd (snd (direct_exchange E c now credential dc ks)) = ks @ [userinfo_url (dc_access_token dc) credential])"
proof (intro conjI impI)
  have "\<exists>urls. snd (snd (direct_exchange E c now credential new_direct_client ks)) = ks @ token_url c # urls"
    by (auto simp: direct_exchange_def client_token_def new_direct_client_def get_json_def
        split: wecom_reply.split sum.split prod.split if_split)
  then show "\<exists>urls. snd (exchange E c now credential ks) = ks @ token_url c # urls"
    using assms by (auto simp: exchange_def split: prod.split)
  show "snd (snd (direct_exchange E c now credential dc ks)) = ks @ [userinfo_url (dc_access_token dc) credential]"
    if "dc_access_token dc \<noteq> [] \<and> now < dc_token_expiry dc"
    using that by (auto simp: direct_exchange_def client_token_def get_json_def split: wecom_reply.split sum.split)
qed

subsection \<open>A concrete account\<close>

definition center_config :: wecom_config where
  "center_config = \<lparr>wc_mode = ''center'', wc_corp_id = [], wc_agent_id = 0, wc_secret = [], wc_center_url = ''http://c'',
     wc_app_id = ''app'', wc_app_secret = ''key'', wc_redirect_prefix = ''http://z''\<rparr>"

definition sample_answer :: wecom_answer where
  "sample_answer = \<lparr>wr_errcode = 0, wr_errmsg = [], wr_userid = ''bobw'', wr_name = [], wr_access_token = [],
     wr_expires_in = 0, wr_error = []\<rparr>"

definition sample_claims :: state_claims where
  "sample_claims = \<lparr>stc_purpose = ''login'', stc_user_id = [], stc_nonce = ''n'', stc_expires_at = 300\<rparr>"

definition sample_wecom :: wecom_env where
  "sample_wecom = \<lparr>we_auth = sample_auth, we_config_json = (\<lambda>j. Some center_config), we_claims_text = (\<lambda>c. ''{}''),
     we_claims_json = (\<lambda>j. Some sample_claims), we_hmac_hex = (\<lambda>k m. ''f0''), we_session_secret = ''secret'',
     we_get = (\<lambda>url. NoAnswer ''no route''), we_post = (\<lambda>url q. Answer 200 (Inr sample_answer))\<rparr>"

definition wecom_db :: db where
  "wecom_db = access_db\<lparr>db_bindings := [(''2'', ''bobw'')], db_providers := [\<lparr>ap_id = ''wecom'', ap_type = ''wecom'',
     ap_name = ''WeCom'', ap_enabled = True, ap_config = ''{}''\<rparr>]\<rparr>"

definition wecom_start :: wecom_app where
  "wecom_start = \<lparr>wa_db = wecom_db, wa_tickets = Map.empty, wa_calls = []\<rparr>"

definition plain_origin :: http_origin where
  "plain_origin = \<lparr>ho_proto = [], ho_tls = False, ho_forwarded_host = [], ho_host = ''z''\<rparr>"

definition ticket_params :: wecom_params where
  "ticket_params = \<lparr>wp_state = [], wp_code = [], wp_ticket = ''ct''\<rparr>"

lemma wecom_literals:
  "trim_space ''center'' = ''center''" "trim_space ''http://c'' = ''http://c''" "trim_space ''app'' = ''app''"
  "trim_space ''key'' = ''key''" "trim_space ''http://z'' = ''http://z''" "trim_space ''ct'' = ''ct''"
  "trim_space ''bobw'' = ''bobw''" "trim_space ''tk'' = ''tk''" "trim_space ''t0k'' = ''t0k''"
  by (rule trim_space_graph, simp add: graph_ends_def char_code_def)+

lemma sample_wecom_auth: "we_auth sample_wecom = sample_auth"
  by (simp add: sample_wecom_def)

lemma center_enabled: "enabled_wecom_config sample_wecom wecom_db = Inr center_config"
  by (simp add: enabled_wecom_config_def get_auth_provider_def wecom_db_def access_db_def empty_db_def find_row_def
      decode_wecom_config_def sample_wecom_def center_config_def wecom_literals text_or_def trim_right_slash_def Let_def)

lemma bob_found:
  "\<exists>v d0. find_user_by_wecom_binding ''bobw'' wecom_db = (Inr v, d0) \<and> u_id v = ''2'' \<and> \<not> u_disabled v \<and> same_but_roles wecom_db d0"
proof -
  have row: "find_row (\<lambda>u. ur_id u = ''2'') (db_users wecom_db) = Some (sample_user ''2'' ''bob'' ''viewer'')"
    by (simp add: find_row_def wecom_db_def access_simps)
  have "\<exists>v d'. attach_access (scan_user (sample_user ''2'' ''bob'' ''viewer'')) wecom_db = (Inr v, d')"
    by (rule attach_succeeds [of _ "sample_user ''2'' ''bob'' ''viewer''"]) (simp_all add: wecom_db_def access_simps scan_user_def)
  then obtain v d0 where v: "attach_access (scan_user (sample_user ''2'' ''bob'' ''viewer'')) wecom_db = (Inr v, d0)" by blast
  have "db_fault wecom_db = (\<lambda>_ _. False)" "db_bindings wecom_db = [(''2'', ''bobw'')]"
    by (simp_all add: wecom_db_def access_db_sel)
  then have "find_user_by_wecom_binding ''bobw'' wecom_db = (Inr v, d0)"
    using row v by (simp add: find_user_by_wecom_binding_def find_row_def attach_access_to_users_def)
  moreover have "u_id v = ''2''" "\<not> u_disabled v" using attach_access_keeps [OF v] by (simp_all add: scan_user_def sample_user_def)
  ultimately show ?thesis using attach_access_frame [OF v] by blast
qed

lemma bob_logs_in_by_wecom:
  "\<exists>ses d. login_by_wecom sample_auth (Some ''t0k'') 7 \<lparr>wi_userid = ''bobw'', wi_name = []\<rparr> wecom_db = (Inr ses, d) \<and>
     s_token ses = ''t0k'' \<and> u_id (s_user ses) = ''2'' \<and>
     (\<exists>ses' d'. validate sample_auth ''t0k'' 8 (wecom_audit 7 [] ses \<lparr>wi_userid = ''bobw'', wi_name = []\<rparr> d) = (Inr ses', d') \<and>
        s_token ses' = ''t0k'')"
proof -
  obtain v d0 where v: "find_user_by_wecom_binding ''bobw'' wecom_db = (Inr v, d0)" "u_id v = ''2''" "\<not> u_disabled v" "same_but_roles wecom_db d0"
    using bob_found by blast
  note same = same_but_roles_sel [OF v(4)]
  have "\<exists>ses d. create_session sample_auth (Some ''t0k'') 7 v ''wecom'' d0 = (Inr ses, d)"
    using v(2) same by (simp add: create_session_def create_session_row_def record_user_login_def wecom_db_def access_simps Let_def)
  then obtain ses d where c: "create_session sample_auth (Some ''t0k'') 7 v ''wecom'' d0 = (Inr ses, d)" by blast
  note made = create_session_done [OF c]
  have l: "login_by_wecom sample_auth (Some ''t0k'') 7 \<lparr>wi_userid = ''bobw'', wi_name = []\<rparr> wecom_db = (Inr ses, d)"
    using v c by (simp add: login_by_wecom_def wecom_literals)
  let ?d = "wecom_audit 7 [] ses \<lparr>wi_userid = ''bobw'', wi_name = []\<rparr> d"
  let ?x = "\<lparr>sr_token_hash = ''t0k'', sr_user_id = ''2'', sr_provider = normalize_session_provider ''wecom'', sr_expires_at = 7 + minutes 60\<rparr>"
  let ?row = "(sample_user ''2'' ''bob'' ''viewer'')\<lparr>ur_last_login_at := Some 7, ur_updated_at := 7\<rparr>"
  have keep: "db_sessions ?d = db_sessions d" "db_users ?d = db_users d" "db_fault ?d = db_fault d"
    by (simp_all add: wecom_audit_def auth_audit_def write_audit_def drop_err_def)
  have users: "db_users d = [sample_user ''1'' ''admin'' ''admin'', ?row]"
    using made(2) v(2) same by (simp add: wecom_db_def access_db_def sample_user_def update_rows_def)
  have "db_sessions d = [?x]"
    using made(2) v(2) same by (simp add: wecom_db_def access_db_def empty_db_def sample_auth_def)
  then have "find_row (\<lambda>x. sr_token_hash x = ae_hash_token sample_auth ''t0k'') (db_sessions ?d) = Some ?x"
    by (simp add: keep sample_auth_def find_row_def)
  moreover have "find_row (\<lambda>u. ur_id u = sr_user_id ?x) (db_users ?d) = Some ?row"
    by (simp add: keep users find_row_def sample_user_def)
  moreover have "?row \<in> set (db_users ?d)" "\<not> ur_disabled ?row" by (simp_all add: keep users sample_user_def)
  moreover have "db_fault d = (\<lambda>_ _. False)"
    using made(2) same by (simp add: wecom_db_def access_db_sel)
  then have "db_fault ?d = (\<lambda>_ _. False)" by (simp add: keep)
  moreover have "trim_space ''t0k'' \<noteq> []" "8 < sr_expires_at ?x"
    by (simp_all add: wecom_literals minutes_def seconds_def nanos_per_second_def)
  ultimately obtain ses' d' where "validate sample_auth ''t0k'' 8 ?d = (Inr ses', d')"
    using validate_hit [of sample_auth "''t0k''" ?d ?x ?row 8] by blast
  with validate_live [OF this] l made(1) v(2) show ?thesis by auto
qed

text \<open>The callback with a ticket of the authentication center, and then the exchange.\<close>

definition wecom_visit :: "wecom_request list" where
  "wecom_visit = [CallbackRequest (Some ''t0k'') (Some ''tk'') 7 [] plain_origin ticket_params, ExchangeRequest 8 (Some ''tk'')]"

lemma visit_exchanges:
  "\<exists>ses s'. wecom_exchange_handler sample_wecom 8 (Some ''tk'') (state_before (wecom_step sample_wecom) wecom_start wecom_visit 1) =
     (Done 200 ses, s') \<and> s_token ses = ''t0k''"
proof -
  obtain ses d ses' d' where l: "login_by_wecom sample_auth (Some ''t0k'') 7 \<lparr>wi_userid = ''bobw'', wi_name = []\<rparr> wecom_db = (Inr ses, d)"
      "s_token ses = ''t0k''" "validate sample_auth ''t0k'' 8 (wecom_audit 7 [] ses \<lparr>wi_userid = ''bobw'', wi_name = []\<rparr> d) = (Inr ses', d')"
      "s_token ses' = ''t0k''"
    using bob_logs_in_by_wecom by blast
  have "resolve_wecom_identity sample_wecom center_config 7 ticket_params [] =
      (Inr \<lparr>wi_userid = ''bobw'', wi_name = []\<rparr>, [''http://c/api/verify''])"
    by (simp add: resolve_wecom_identity_def center_config_def ticket_params_def wecom_literals exchange_def
        center_exchange_def sample_wecom_def sample_answer_def Let_def)
  then have "snd (wecom_callback_handler sample_wecom (Some ''t0k'') (Some ''tk'') 7 [] plain_origin ticket_params wecom_start) =
      \<lparr>wa_db = wecom_audit 7 [] ses \<lparr>wi_userid = ''bobw'', wi_name = []\<rparr> d, wa_tickets = issue_ticket ''tk'' ''t0k'' 7 Map.empty,
       wa_calls = [''http://c/api/verify'']\<rparr>"
    using l(1,2) by (simp add: wecom_callback_handler_def wecom_start_def center_enabled wecom_callback_steps_def sample_wecom_auth)
  moreover have "consume_ticket ''tk'' 8 (issue_ticket ''tk'' ''t0k'' 7 Map.empty) = (Some ''t0k'', (issue_ticket ''tk'' ''t0k'' 7 Map.empty)(''tk'' := None))"
    by (simp add: consume_ticket_def wecom_literals issue_ticket_def ticket_ttl_def seconds_def nanos_per_second_def)
  ultimately show ?thesis
    using l(3,4) by (simp add: wecom_exchange_handler_def state_before_def wecom_visit_def sample_wecom_auth)
qed

theorem ticket_exchanged_once_witness:
  "\<exists>j < 1. \<exists>now' ip og q. wecom_visit ! j = CallbackRequest (Some ''t0k'') (Some ''tk'') now' ip og q \<and> 8 \<le> now' + ticket_ttl"
proof -
  obtain ses s' where e: "wecom_exchange_handler sample_wecom 8 (Some ''tk'')
      (state_before (wecom_step sample_wecom) wecom_start wecom_visit 1) = (Done 200 ses, s')" "s_token ses = ''t0k''"
    using visit_exchanges by blast
  have "wa_tickets wecom_start = Map.empty" "1 < length wecom_visit" "wecom_visit ! 1 = ExchangeRequest 8 (Some ''tk'')"
    by (simp_all add: wecom_start_def wecom_visit_def)
  from ticket_exchanged_once [OF this e(1)] e(2) show ?thesis unfolding wecom_literals by fastforce
qed

theorem wecom_account_of_one_user_witness:
  "\<exists>ses d. login_by_wecom sample_auth (Some ''t0k'') 7 \<lparr>wi_userid = ''bobw'', wi_name = []\<rparr> wecom_db = (Inr ses, d) \<and>
     (\<exists>row \<in> set (db_users wecom_db). u_id (s_user ses) = ur_id row \<and> {b \<in> set (db_bindings wecom_db). snd b = ''bobw''} = {(ur_id row, ''bobw'')})"
proof -
  obtain ses d where l: "login_by_wecom sample_auth (Some ''t0k'') 7 \<lparr>wi_userid = ''bobw'', wi_name = []\<rparr> wecom_db = (Inr ses, d)"
    using bob_logs_in_by_wecom by blast
  have "bindings_ok (wa_db wecom_start)" by (simp add: bindings_ok_def wecom_start_def wecom_db_def)
  from wecom_account_of_one_user [OF this refl, of _ "[]", THEN conjunct2, THEN conjunct1] l
  have "\<exists>row \<in> set (db_users wecom_db). u_id (s_user ses) = ur_id row \<and> \<not> ur_disabled row \<and>
      {b \<in> set (db_bindings wecom_db). snd b = ''bobw''} = {(ur_id row, ''bobw'')}"
    by (fastforce simp: wecom_start_def wecom_literals)
  with l show ?thesis by blast
qed

theorem wecom_state_roundtrip_witness:
  "\<exists>state. sign_wecom_state sample_wecom (Some ''n'') 0 ''login'' [] empty_db = Some state \<and>
     verify_wecom_state sample_wecom state 0 = StateValid \<lparr>stc_purpose = ''login'', stc_user_id = [], stc_nonce = ''n'', stc_expires_at = 300\<rparr>"
proof -
  have ttl: "wecom_state_ttl empty_db = minutes 5"
    by (simp add: wecom_state_ttl_def get_system_base_config_def empty_db_def normalize_base_config_def default_base_config_def
        zero_base_config_def Let_def)
  obtain state where st: "sign_wecom_state sample_wecom (Some ''n'') 0 ''login'' [] empty_db = Some state"
    by (auto simp: sign_wecom_state_def Let_def)
  have "sample_claims = \<lparr>stc_purpose = ''login'', stc_user_id = [], stc_nonce = ''n'', stc_expires_at = unix_seconds (0 + wecom_state_ttl empty_db)\<rparr>"
    by (simp add: sample_claims_def ttl minutes_def seconds_def unix_seconds_def nanos_per_second_def)
  from wecom_state_roundtrip [OF st _ _ _ this, of 0] st show ?thesis
    by (auto simp: sample_wecom_def sample_claims_def unix_seconds_def nanos_per_second_def)
qed

theorem wecom_token_never_reused_witness:
  "\<exists>urls. snd (exchange sample_wecom (center_config\<lparr>wc_mode := ''direct''\<rparr>) 7 ''code'' []) =
     [] @ token_url (center_config\<lparr>wc_mode := ''direct''\<rparr>) # urls"
  using wecom_token_never_reused [of "center_config\<lparr>wc_mode := ''direct''\<rparr>" sample_wecom 7 "''code''" "[]"] by simp

end
