(* ===== verification/ZL_Config_Values.thy ===== *)
theory ZL_Config_Values
  imports ZL_Auth ZL_Agent
begin

text \<open>
  The configuration of authentication providers and notification channels: JSON objects as
  \<open>map[string]any\<close>, the readers of \<open>api/router/settings_helpers.go\<close>, the secrets of
  \<open>settings_secret_redaction.go\<close>, and the checks a configuration passes before it is stored
  (\<open>auth_providers.go\<close>, \<open>notifications.go\<close>). An object is an association list whose order does not
  matter; JSON text and \<open>strconv.ParseFloat\<close> are parameters.
\<close>

subsection \<open>Values\<close>

text \<open>A number in a JSON text is finite; the text of a number may also read as infinite or as no number.\<close>

datatype float64 = Finite rat | PlusInf | MinusInf | NotANumber

datatype json =
    JNull
  | JBool bool
  | JNumber rat
  | JText string
  | JList "json list"
  | JObject "(string \<times> json) list"

type_synonym config = "(string \<times> json) list"

record json_env =
  je_text :: "config \<Rightarrow> string"
  je_parse :: "string \<Rightarrow> config option"
  je_float :: "string \<Rightarrow> float64"

definition cfg_get :: "config \<Rightarrow> string \<Rightarrow> json" where
  "cfg_get c k = (case map_of c k of None \<Rightarrow> JNull | Some v \<Rightarrow> v)"

definition cfg_del :: "string \<Rightarrow> config \<Rightarrow> config" where
  "cfg_del k c = filter (\<lambda>kv. fst kv \<noteq> k) c"

definition cfg_put :: "string \<Rightarrow> json \<Rightarrow> config \<Rightarrow> config" where
  "cfg_put k v c = (k, v) # cfg_del k c"

definition cfg_has :: "config \<Rightarrow> string \<Rightarrow> bool" where
  "cfg_has c k \<longleftrightarrow> map_of c k \<noteq> None"

fun bool_value :: "json \<Rightarrow> bool" where
  "bool_value (JBool b) = b"
| "bool_value v = False"

fun string_value :: "json \<Rightarrow> string" where
  "string_value (JText s) = trim_space s"
| "string_value v = []"

fun number_value :: "json_env \<Rightarrow> json \<Rightarrow> float64" where
  "number_value J (JNumber r) = Finite r"
| "number_value J (JText s) = je_float J (trim_space s)"
| "number_value J v = Finite 0"

text \<open>The comparison \<open>x <= 0\<close>, false for no number.\<close>

fun not_positive :: "float64 \<Rightarrow> bool" where
  "not_positive (Finite r) = (r \<le> 0)"
| "not_positive MinusInf = True"
| "not_positive v = False"

text \<open>\<open>int(x)\<close> truncates; out of range, where Go leaves the result open, it is the one of amd64.\<close>

fun int_of_float :: "float64 \<Rightarrow> int" where
  "int_of_float (Finite r) =
     (let n = (if 0 \<le> r then \<lfloor>r\<rfloor> else \<lceil>r\<rceil>) in if - (2 ^ 63) \<le> n \<and> n < 2 ^ 63 then n else - (2 ^ 63))"
| "int_of_float v = - (2 ^ 63)"

fun valid_port_value :: "float64 \<Rightarrow> bool" where
  "valid_port_value (Finite r) \<longleftrightarrow> 1 \<le> r \<and> r \<le> 65535 \<and> r = of_int (int_of_float (Finite r))"
| "valid_port_value v \<longleftrightarrow> False"

fun config_value_present :: "json \<Rightarrow> bool" where
  "config_value_present (JText s) = (trim_space s \<noteq> [])"
| "config_value_present JNull = False"
| "config_value_present v = True"

definition string_list :: "json \<Rightarrow> string list" where
  "string_list v = (case v of JList vs \<Rightarrow> filter (\<lambda>t. t \<noteq> []) (map string_value vs) | _ \<Rightarrow> [])"

definition split_email_list :: "string \<Rightarrow> string list" where
  "split_email_list s = filter (\<lambda>t. t \<noteq> []) (map trim_space (split_on (CHR '','') s))"

subsection \<open>Cleaning\<close>

text \<open>The elements of a list: texts trimmed, blank ones and nulls dropped, others kept as they are.\<close>

fun clean_items :: "json list \<Rightarrow> json list" where
  "clean_items [] = []"
| "clean_items (v # vs) =
     (case v of
        JText s \<Rightarrow> if trim_space s = [] then clean_items vs else JText (trim_space s) # clean_items vs
      | JNull \<Rightarrow> clean_items vs
      | _ \<Rightarrow> v # clean_items vs)"

fun clean_value :: "json \<Rightarrow> json option" and remove_empty_config_values :: "config \<Rightarrow> config" where
  "clean_value (JText s) = (if trim_space s = [] then None else Some (JText (trim_space s)))"
| "clean_value (JList vs) = (if clean_items vs = [] then None else Some (JList (clean_items vs)))"
| "clean_value (JObject c) = (if remove_empty_config_values c = [] then None else Some (JObject (remove_empty_config_values c)))"
| "clean_value JNull = None"
| "clean_value (JNumber r) = (if r \<le> 0 then None else Some (JNumber r))"
| "clean_value (JBool b) = Some (JBool b)"
| "remove_empty_config_values [] = []"
| "remove_empty_config_values ((k, v) # c) =
     (case clean_value v of
        None \<Rightarrow> remove_empty_config_values c
      | Some w \<Rightarrow> (k, w) # remove_empty_config_values c)"

fun trim_text :: "json \<Rightarrow> json" where
  "trim_text (JText s) = JText (trim_space s)"
| "trim_text v = v"

definition trim_texts :: "config \<Rightarrow> config" where
  "trim_texts c = map (\<lambda>(k, v). (k, trim_text v)) c"

subsection \<open>Secrets\<close>

definition secret_presence_key :: "string \<Rightarrow> string" where
  "secret_presence_key key =
     (let k = trim_space key in
      if k = [] then ''hasSecret'' else ''has'' @ to_upper (take 1 k) @ drop 1 k)"

definition discard_secret_presence_markers :: "string list \<Rightarrow> config \<Rightarrow> config" where
  "discard_secret_presence_markers keys c = fold (\<lambda>k. cfg_del (secret_presence_key k)) keys c"

definition config_map :: "json_env \<Rightarrow> string \<Rightarrow> config" where
  "config_map J raw = (if raw = [] then [] else case je_parse J raw of None \<Rightarrow> [] | Some c \<Rightarrow> c)"

text \<open>The loop over the secret keys: whether anything changed, and the object.\<close>

definition redact_key :: "string \<Rightarrow> bool \<times> config \<Rightarrow> bool \<times> config" where
  "redact_key k x =
     (if string_value (cfg_get (snd x) k) = [] then x
      else (True, cfg_put (secret_presence_key k) (JBool True) (cfg_del k (snd x))))"

definition redact_config_secrets :: "json_env \<Rightarrow> string list \<Rightarrow> string \<Rightarrow> string" where
  "redact_config_secrets J keys raw =
     (if raw = [] \<or> keys = [] then raw
      else let c = config_map J raw in
        if c = [] then raw
        else case fold redact_key keys (False, c) of (changed, c1) \<Rightarrow> if changed then je_text J c1 else raw)"

text \<open>A blank secret takes the value stored before.\<close>

definition retain_secret :: "config \<Rightarrow> string \<Rightarrow> config \<Rightarrow> config" where
  "retain_secret previous k c =
     (if string_value (cfg_get c k) = [] \<and> string_value (cfg_get previous k) \<noteq> []
      then cfg_put k (JText (string_value (cfg_get previous k))) c else c)"

subsection \<open>Checks\<close>

text \<open>The first required text that is blank.\<close>

definition missing_text :: "string list \<Rightarrow> config \<Rightarrow> string option" where
  "missing_text ks c = find (\<lambda>k. string_value (cfg_get c k) = []) ks"

definition sanitize_ldap_config :: "json_env \<Rightarrow> config \<Rightarrow> config \<Rightarrow> bool \<Rightarrow> string + config" where
  "sanitize_ldap_config J config previous enabled =
     (let c = discard_secret_presence_markers [''bindPassword''] (cfg_del ''adminGroupDN'' (cfg_del ''defaultRole'' (trim_texts config)))
      in if \<not> enabled then Inr (remove_empty_config_values c)
         else let c1 = retain_secret previous ''bindPassword'' c in
           case missing_text [''host'', ''baseDN'', ''userFilter'', ''bindDN'', ''bindPassword''] c1 of
             Some k \<Rightarrow> Inl k
           | None \<Rightarrow>
               if bool_value (cfg_get c1 ''useTLS'') \<and> bool_value (cfg_get c1 ''startTLS'') then Inl ''startTLS''
               else if not_positive (number_value J (cfg_get c1 ''port'')) then Inl ''port''
               else Inr (remove_empty_config_values c1))"

definition sanitize_wecom_config :: "json_env \<Rightarrow> config \<Rightarrow> config \<Rightarrow> bool \<Rightarrow> string + config" where
  "sanitize_wecom_config J config previous enabled =
     (let c = discard_secret_presence_markers [''secret'', ''appSecret''] (trim_texts config);
          mode = text_or (string_value (cfg_get c ''mode'')) ''direct''
      in if \<not> enabled then Inr (remove_empty_config_values c)
         else if mode \<noteq> ''direct'' \<and> mode \<noteq> ''center'' then Inl ''mode''
         else
           (let c1 = cfg_del ''fetchName'' (cfg_del ''loginMode''
                  (retain_secret previous ''appSecret'' (retain_secret previous ''secret'' (cfg_put ''mode'' (JText mode) c))));
                c2 = cfg_put ''agentId'' (JNumber (of_int (int_of_float (number_value J (cfg_get c1 ''agentId''))))) c1;
                c3 = cfg_put ''authCenterUrl'' (JText (trim_right_slash (string_value (cfg_get c1 ''authCenterUrl'')))) c1
            in if mode = ''direct'' then
                 (if string_value (cfg_get c1 ''corpId'') = [] then Inl ''corpId''
                  else if not_positive (number_value J (cfg_get c1 ''agentId'')) then Inl ''agentId''
                  else if string_value (cfg_get c2 ''secret'') = [] then Inl ''secret''
                  else Inr (remove_empty_config_values c2))
               else
                 (if string_value (cfg_get c1 ''authCenterUrl'') = [] then Inl ''authCenterUrl''
                  else case missing_text [''appId'', ''appSecret''] c3 of
                    Some k \<Rightarrow> Inl k
                  | None \<Rightarrow> Inr (remove_empty_config_values c3))))"

definition sanitize_provider_config :: "json_env \<Rightarrow> string \<Rightarrow> config \<Rightarrow> config \<Rightarrow> bool \<Rightarrow> string + config" where
  "sanitize_provider_config J i config previous enabled =
     (if i = ''ldap'' then sanitize_ldap_config J config previous enabled
      else if i = ''wecom'' then sanitize_wecom_config J config previous enabled
      else Inl ''provider'')"

text \<open>Old names of keys give way to the new ones.\<close>

definition rename_key :: "string \<Rightarrow> string \<Rightarrow> config \<Rightarrow> config" where
  "rename_key old new c = (if cfg_has c old then cfg_del old (cfg_put new (cfg_get c old) c) else c)"

definition normalize_email_config_keys :: "config \<Rightarrow> config" where
  "normalize_email_config_keys c =
     (let c1 = rename_key ''startTls'' ''startTLS'' (rename_key ''useTls'' ''useTLS'' (rename_key ''fromAddress'' ''from'' c));
          c2 = (if cfg_has c1 ''testRecipient'' then
              cfg_del ''testRecipient''
                (if string_list (cfg_get c1 ''to'') = [] \<and> string_value (cfg_get c1 ''to'') = []
                 then cfg_put ''to'' (JList [JText (string_value (cfg_get c1 ''testRecipient''))]) c1 else c1)
            else c1)
      in cfg_del ''timeoutSeconds'' (cfg_del ''insecureSkipVerify'' c2))"

text \<open>The check of the templates at the end cannot fail for the channel \<open>email\<close>.\<close>

definition sanitize_email_config :: "json_env \<Rightarrow> config \<Rightarrow> config \<Rightarrow> bool \<Rightarrow> bool \<Rightarrow> string + config" where
  "sanitize_email_config J config previous enabled clear =
     (let c = trim_texts (normalize_email_config_keys config);
          retain = bool_value (cfg_get c ''passwordConfigured'') \<or> bool_value (cfg_get c (secret_presence_key ''password''));
          c1 = cfg_del ''passwordConfigured'' (discard_secret_presence_markers [''password''] c);
          old = string_value (cfg_get previous ''password'');
          c2 = (if \<not> clear \<and> (retain \<or> string_value (cfg_get c1 ''password'') = []) \<and> old \<noteq> []
                then cfg_put ''password'' (JText old) c1 else c1);
          c3 = (case cfg_get c2 ''to'' of JText s \<Rightarrow> cfg_put ''to'' (JList (map JText (split_email_list s))) c2 | _ \<Rightarrow> c2);
          c4 = cfg_del ''to'' c3;
          tls = bool_value (cfg_get c3 ''useTLS''); start = bool_value (cfg_get c3 ''startTLS'')
      in if \<not> enabled then Inr (remove_empty_config_values c4)
         else if tls \<and> start then Inl ''startTLS''
         else case missing_text [''smtpHost'', ''username'', ''password'', ''from''] c3 of
           Some k \<Rightarrow> Inl k
         | None \<Rightarrow>
             if \<not> config_value_present (cfg_get c3 ''smtpPort'') then Inl ''smtpPort''
             else if \<not> tls \<and> \<not> start \<and> \<not> valid_port_value (number_value J (cfg_get c4 ''smtpPort'')) then Inl ''smtpPort''
             else
               (let c5 = (if tls then cfg_del ''allowInsecureAuth'' (cfg_put ''smtpPort'' (JNumber 465) c4)
                    else if start then cfg_del ''allowInsecureAuth'' (cfg_put ''smtpPort'' (JNumber 587) c4) else c4);
                    ct = string_value (cfg_get c5 ''emailContentType'')
                in if ct \<noteq> [] \<and> ct \<noteq> ''text/plain'' \<and> ct \<noteq> ''text/html'' then Inl ''emailContentType''
                   else Inr (remove_empty_config_values c5)))"

subsection \<open>Keys\<close>

text \<open>The keys of an object differ.\<close>

definition tidy :: "config \<Rightarrow> bool" where
  "tidy c \<longleftrightarrow> distinct (map fst c)"

named_theorems config_simps

lemma map_of_del: "map_of (cfg_del k c) k' = (if k' = k then None else map_of c k')"
  by (induction c) (auto simp: cfg_del_def)

lemma cfg_get_del [config_simps]: "cfg_get (cfg_del k c) k' = (if k' = k then JNull else cfg_get c k')"
  by (simp add: cfg_get_def map_of_del)

lemma cfg_get_put [config_simps]: "cfg_get (cfg_put k v c) k' = (if k' = k then v else cfg_get c k')"
  by (simp add: cfg_get_def cfg_put_def map_of_del)

lemma tidy_Nil [config_simps]: "tidy []"
  by (simp add: tidy_def)

lemma tidy_del [config_simps]: "tidy c \<Longrightarrow> tidy (cfg_del k c)"
  by (simp add: tidy_def cfg_del_def distinct_map_filter)

lemma tidy_put [config_simps]: "tidy c \<Longrightarrow> tidy (cfg_put k v c)"
  using tidy_del [of c k] by (auto simp: tidy_def cfg_put_def cfg_del_def)

lemma cfg_get_trim [config_simps]: "cfg_get (trim_texts c) k = trim_text (cfg_get c k)"
  by (induction c) (auto simp: cfg_get_def trim_texts_def)

lemma tidy_trim [config_simps]: "tidy c \<Longrightarrow> tidy (trim_texts c)"
  by (simp add: tidy_def trim_texts_def comp_def case_prod_unfold)

lemma trim_text_string [config_simps]: "string_value (trim_text v) = string_value v"
  by (cases v) (simp_all add: trim_space_idem)

lemma removed_keys: "fst ` set (remove_empty_config_values c) \<subseteq> fst ` set c"
proof (induction c)
  case (Cons x c)
  then show ?case by (cases x) (auto split: option.split)
qed simp

lemma cfg_get_cleaned:
  "tidy c \<Longrightarrow> cfg_get (remove_empty_config_values c) k = (case clean_value (cfg_get c k) of None \<Rightarrow> JNull | Some w \<Rightarrow> w)"
proof (induction c)
  case (Cons x c)
  obtain k' v where x: "x = (k', v)" by (rule prod.exhaust)
  have "map_of c k' = None" "tidy c" using Cons.prems x by (auto simp: tidy_def map_of_eq_None_iff)
  moreover from this(1) have "map_of (remove_empty_config_values c) k' = None"
    using removed_keys [of c] by (auto simp: map_of_eq_None_iff)
  ultimately show ?case using Cons.IH by (auto simp: x cfg_get_def split: option.splits)
qed (simp add: cfg_get_def)

lemma string_value_trimmed: "trim_space (string_value v) = string_value v"
  by (cases v) (simp_all add: trim_space_idem)

lemma clean_value_string: "string_value (case clean_value v of None \<Rightarrow> JNull | Some w \<Rightarrow> w) = string_value v"
  by (cases v) (simp_all add: trim_space_idem)

lemma string_cleaned [config_simps]:
  "tidy c \<Longrightarrow> string_value (cfg_get (remove_empty_config_values c) k) = string_value (cfg_get c k)"
  by (simp add: cfg_get_cleaned clean_value_string)

lemma tidy_cleaned [config_simps]: "tidy c \<Longrightarrow> tidy (remove_empty_config_values c)"
proof (induction c)
  case (Cons x c)
  obtain k v where "x = (k, v)" by (rule prod.exhaust)
  with Cons removed_keys [of c] show ?case by (auto simp: tidy_def split: option.split)
qed simp

lemma cfg_get_discard [config_simps]:
  "cfg_get (discard_secret_presence_markers ks c) k = (if k \<in> secret_presence_key ` set ks then JNull else cfg_get c k)"
  by (induction ks arbitrary: c) (auto simp: discard_secret_presence_markers_def cfg_get_del)

lemma tidy_discard [config_simps]: "tidy c \<Longrightarrow> tidy (discard_secret_presence_markers ks c)"
  by (induction ks arbitrary: c) (auto simp: discard_secret_presence_markers_def tidy_del)

lemma retained_string [config_simps]:
  "string_value (cfg_get (retain_secret previous k c) k') =
    (if k' = k \<and> string_value (cfg_get c k) = [] then string_value (cfg_get previous k) else string_value (cfg_get c k'))"
  by (auto simp: retain_secret_def cfg_get_put string_value_trimmed)

lemma tidy_retain [config_simps]: "tidy c \<Longrightarrow> tidy (retain_secret previous k c)"
  by (simp add: retain_secret_def tidy_put)

lemma presence_keys [config_simps]:
  "secret_presence_key ''bindPassword'' = ''hasBindPassword''" "secret_presence_key ''secret'' = ''hasSecret''"
  "secret_presence_key ''appSecret'' = ''hasAppSecret''" "secret_presence_key ''password'' = ''hasPassword''"
proof -
  have t: "trim_space ''bindPassword'' = ''bindPassword''" "trim_space ''secret'' = ''secret''"
      "trim_space ''appSecret'' = ''appSecret''" "trim_space ''password'' = ''password''"
    by (rule trim_space_graph, simp add: graph_ends_def char_code_def)+
  show "secret_presence_key ''bindPassword'' = ''hasBindPassword''" "secret_presence_key ''secret'' = ''hasSecret''"
      "secret_presence_key ''appSecret'' = ''hasAppSecret''" "secret_presence_key ''password'' = ''hasPassword''"
    by (simp_all add: secret_presence_key_def t to_upper_def upper_char_def char_code_def char_of_def bit_0)
qed

subsection \<open>What becomes of a secret\<close>

text \<open>Saving an enabled provider keeps a secret left blank; saving a disabled one does not.\<close>

definition kept_secret :: "bool \<Rightarrow> config \<Rightarrow> config \<Rightarrow> string \<Rightarrow> string" where
  "kept_secret enabled config previous k =
     (if enabled \<and> string_value (cfg_get config k) = [] then string_value (cfg_get previous k)
      else string_value (cfg_get config k))"

lemma ldap_secret:
  assumes "tidy config" "sanitize_ldap_config J config previous enabled = Inr c"
  shows "tidy c \<and> string_value (cfg_get c ''bindPassword'') = kept_secret enabled config previous ''bindPassword''"
  using assms by (auto simp: sanitize_ldap_config_def Let_def kept_secret_def config_simps split: if_splits option.splits)

lemma wecom_secrets:
  assumes "tidy config" "sanitize_wecom_config J config previous enabled = Inr c"
  shows "tidy c \<and> string_value (cfg_get c ''secret'') = kept_secret enabled config previous ''secret'' \<and>
    string_value (cfg_get c ''appSecret'') = kept_secret enabled config previous ''appSecret''"
  using assms by (auto simp: sanitize_wecom_config_def Let_def kept_secret_def config_simps split: if_splits option.splits)

lemma redacted_keys:
  assumes "fold redact_key ks (b, c) = (b', c')" "tidy c"
  shows "tidy c' \<and> (\<forall>k \<in> set ks. string_value (cfg_get c' k) = []) \<and>
    (\<forall>k. string_value (cfg_get c k) = [] \<longrightarrow> string_value (cfg_get c' k) = []) \<and> (b \<longrightarrow> b') \<and> (\<not> b' \<longrightarrow> c' = c)"
  using assms
proof (induction ks arbitrary: b c)
  case (Cons k ks)
  obtain b1 c1 where r: "redact_key k (b, c) = (b1, c1)" by (rule prod.exhaust)
  have "tidy c1 \<and> string_value (cfg_get c1 k) = [] \<and> (\<forall>k'. string_value (cfg_get c k') = [] \<longrightarrow> string_value (cfg_get c1 k') = []) \<and>
      (b \<longrightarrow> b1) \<and> (\<not> b1 \<longrightarrow> c1 = c)"
    using r Cons.prems(2) by (auto simp: redact_key_def config_simps split: if_splits)
  with Cons.IH [of b1 c1] Cons.prems(1) r show ?case by auto
qed simp

text \<open>JSON as the standard library and the database treat it: an object is written and read back, texts
  unchanged, with keys that differ.\<close>

definition json_works :: "json_env \<Rightarrow> bool" where
  "json_works J \<longleftrightarrow>
     (\<forall>c. tidy c \<longrightarrow> je_text J c \<noteq> [] \<and>
        (\<exists>c'. je_parse J (je_text J c) = Some c' \<and> (\<forall>k. string_value (cfg_get c' k) = string_value (cfg_get c k)))) \<and>
     (\<forall>raw c. je_parse J raw = Some c \<longrightarrow> tidy c)"

lemma config_map_text: "json_works J \<Longrightarrow> tidy c \<Longrightarrow> string_value (cfg_get (config_map J (je_text J c)) k) = string_value (cfg_get c k)"
proof -
  assume j: "json_works J" "tidy c"
  then obtain c' where "je_text J c \<noteq> []" "je_parse J (je_text J c) = Some c'" "string_value (cfg_get c' k) = string_value (cfg_get c k)"
    unfolding json_works_def by blast
  then show ?thesis by (simp add: config_map_def)
qed

lemma tidy_config_map: "json_works J \<Longrightarrow> tidy (config_map J raw)"
  by (auto simp: json_works_def config_map_def tidy_Nil split: option.split)

lemma redacted_text:
  assumes "json_works J" "k \<in> set ks"
  shows "string_value (cfg_get (config_map J (redact_config_secrets J ks raw)) k) = []"
proof (cases "raw = [] \<or> ks = [] \<or> config_map J raw = []")
  case True
  then have "redact_config_secrets J ks raw = raw" "config_map J raw = []"
    using assms(2) by (auto simp: redact_config_secrets_def Let_def config_map_def)
  then show ?thesis by (simp add: cfg_get_def)
next
  case False
  obtain b c where f: "fold redact_key ks (False, config_map J raw) = (b, c)" by (rule prod.exhaust)
  note red = redacted_keys [OF f tidy_config_map [OF assms(1)]]
  show ?thesis
  proof (cases b)
    case True
    then show ?thesis using False f red assms config_map_text [OF assms(1), of c k] by (simp add: redact_config_secrets_def Let_def)
  next
    case unchanged: False
    then have "c = config_map J raw" using red by simp
    moreover have "string_value (cfg_get c k) = []" using red assms(2) by blast
    ultimately show ?thesis using False f unchanged by (simp add: redact_config_secrets_def Let_def)
  qed
qed

text \<open>An application id between 0 and 1 passes the check of the form and is stored as none.\<close>

lemma fractional_agent_id:
  assumes "tidy config" "sanitize_wecom_config J config previous True = Inr c" "cfg_get config ''agentId'' = JNumber r" "0 < r" "r < 1"
    and "string_value (cfg_get config ''mode'') = ''direct''"
  shows "cfg_get c ''agentId'' = JNull"
proof -
  have "\<lfloor>r\<rfloor> = 0" using assms(4,5) by linarith
  moreover have "cfg_get (retain_secret p k x) ''agentId'' = cfg_get x ''agentId''" if "k \<noteq> ''agentId''" for p k x
    using that by (simp add: retain_secret_def cfg_get_put)
  ultimately show ?thesis using assms
    by (auto simp: sanitize_wecom_config_def Let_def config_simps cfg_get_cleaned text_or_def split: if_splits)
qed

end
