(* ===== verification/ZL_Settings.thy ===== *)
theory ZL_Settings
  imports ZL_Config_Values ZL_Access_Handlers "HOL-Library.AList"
begin

text \<open>
  The settings pages: the base configuration (\<open>api/router/settings.go\<close>, \<open>repository/settings.go\<close>), the
  authentication providers (\<open>api/router/auth_providers.go\<close>, \<open>repository/auth_providers.go\<close>) and the mail channel
  (\<open>api/router/notifications.go\<close>, \<open>repository/notifications.go\<close>). The permission of a route is checked in
  front of its handler. Whether a test mail is accepted is the parameter \<open>send\<close>; rendering the preview of
  a template is not modelled.
\<close>

subsection \<open>The base configuration\<close>

text \<open>The runes of a text: JSON decoding leaves valid UTF-8, whose continuation bytes start no rune.\<close>

definition rune_count :: "string \<Rightarrow> nat" where
  "rune_count s = length (filter (\<lambda>c. char_code c < 128 \<or> 192 \<le> char_code c) s)"

definition is_half_minute_step :: "rat \<Rightarrow> bool" where
  "is_half_minute_step v \<longleftrightarrow> \<bar>v * 2 - of_int (round (v * 2))\<bar> < 1 / 1000000"

definition between :: "int \<Rightarrow> int \<Rightarrow> int \<Rightarrow> bool" where
  "between lo hi n \<longleftrightarrow> \<not> (n < lo \<or> hi < n)"

text \<open>The name of the first check that fails.\<close>

definition base_config_checks :: "base_config \<Rightarrow> (string \<times> bool) list" where
  "base_config_checks b =
        [(''names'', \<not> (60 < rune_count (bc_site_name b) \<or> 60 < rune_count (bc_login_name b) \<or> 60 < rune_count (bc_app_name b) \<or>
           60 < rune_count (bc_app_subtitle b))),
         (''icon'', \<not> (bc_icon_data b = [] \<or> (\<not> has_prefix (bc_icon_data b) ''/'' \<and> \<not> has_prefix (bc_icon_data b) ''data:image/''))),
         (''resetCodeTtl'', between 1 60 (bc_reset_code_ttl_minutes b)),
         (''resetCaptchaTtl'', between 1 10 (bc_reset_captcha_ttl_minutes b)),
         (''resetCooldown'', \<not> (bc_reset_send_cooldown_minutes b < 1 / 2 \<or> 10 < bc_reset_send_cooldown_minutes b)),
         (''resetCooldownStep'', is_half_minute_step (bc_reset_send_cooldown_minutes b)),
         (''resetRateLimit'', between 5 10 (bc_reset_rate_limit_minutes b)),
         (''loginMaxFailures'', between 3 10 (bc_login_max_failures b)),
         (''loginLockout'', between 1 10 (bc_login_lockout_minutes b)),
         (''syncConcurrency'', between 1 20 (bc_sync_concurrency b)),
         (''dnsConcurrency'', between 1 50 (bc_dns_record_concurrency b)),
         (''dhcpConcurrency'', between 1 50 (bc_dhcp_scope_concurrency b)),
         (''refreshDelay'', between 1 60 (bc_refresh_delay_seconds b)),
         (''offlineFailures'', between 1 20 (bc_offline_failure_count b)),
         (''connectionTimeout'', between 1 20 (bc_connection_timeout_seconds b)),
         (''operationTimeout'', between 1 60 (bc_operation_timeout_seconds b)),
         (''fullSyncTimeout'', between 60 600 (bc_full_sync_timeout_seconds b)),
         (''healthInterval'', between 1 60 (bc_health_interval_minutes b)),
         (''healthConcurrency'', between 1 20 (bc_health_concurrency b)),
         (''wecomStateTtl'', between 1 60 (bc_wecom_state_ttl_minutes b))]"

definition validate_base_config :: "base_config \<Rightarrow> string option" where
  "validate_base_config b = map_option fst (find (\<lambda>x. \<not> snd x) (base_config_checks b))"

definition normalize_request_config :: "base_config \<Rightarrow> string + base_config" where
  "normalize_request_config raw =
     (let b = normalize_base_config raw in case validate_base_config b of Some e \<Rightarrow> Inl e | None \<Rightarrow> Inr b)"

definition update_system_base_config :: "base_config \<Rightarrow> db \<Rightarrow> store_error + db" where
  "update_system_base_config b d =
     (if db_fault d ''UpdateBase'' [] then Inl DbError else Inr (d\<lparr>db_settings := Some b\<rparr>))"

definition get_base_config_handler :: "db \<Rightarrow> base_config response" where
  "get_base_config_handler d =
     (case get_system_base_config d of
        Inl e \<Rightarrow> Fail 500 ''settings_failed''
      | Inr b \<Rightarrow> Done 200 (normalize_base_config b))"

definition public_base_config_handler :: "db \<Rightarrow> base_config response" where
  "public_base_config_handler d =
     (case get_system_base_config d of
        Inl e \<Rightarrow> Done 200 (normalize_base_config zero_base_config)
      | Inr b \<Rightarrow> Done 200 (normalize_base_config b))"

definition update_base_config_handler :: "caller \<Rightarrow> base_config option \<Rightarrow> db \<Rightarrow> base_config response \<times> db" where
  "update_base_config_handler c req d =
     (case req of
        None \<Rightarrow> (Fail 400 ''invalid_request'', d)
      | Some raw \<Rightarrow>
          (case normalize_request_config raw of
             Inl e \<Rightarrow> (Fail 400 ''invalid_base_config'', d)
           | Inr b \<Rightarrow>
               (case update_system_base_config b d of
                  Inl e \<Rightarrow> (Fail 500 ''settings_failed'', d)
                | Inr d1 \<Rightarrow>
                    (Done 200 b, audit c ''Updated system base config'' ''base'' ''System'' ''success''
                       [(''siteName'', bc_site_name b), (''loginName'', bc_login_name b), (''appName'', bc_app_name b)] d1))))"

subsection \<open>Authentication providers\<close>

text \<open>\<open>ORDER BY CASE id WHEN 'ldap' THEN 1 ELSE 9 END, id\<close>.\<close>

definition provider_order :: "auth_provider \<Rightarrow> nat \<times> string" where
  "provider_order p = (if ap_id p = ''ldap'' then 1 else 9, ap_id p)"

definition list_auth_providers :: "db \<Rightarrow> store_error + auth_provider list" where
  "list_auth_providers d =
     (if db_fault d ''ListAuthProviders'' [] then Inl DbError
      else Inr (sort_key (\<lambda>p. fst (provider_order p)) (sort_key (\<lambda>p. snd (provider_order p)) (db_providers d))))"

definition list_enabled_public_auth_providers :: "db \<Rightarrow> store_error + (string \<times> string \<times> string) list" where
  "list_enabled_public_auth_providers d =
     (if db_fault d ''ListPublicAuthProviders'' [] then Inl DbError
      else case list_auth_providers (d\<lparr>db_fault := \<lambda>_ _. False\<rparr>) of
        Inl e \<Rightarrow> Inl e
      | Inr ps \<Rightarrow> Inr (map (\<lambda>p. (ap_id p, ap_type p, ap_name p)) (filter ap_enabled ps)))"

definition upsert_auth_provider :: "auth_provider \<Rightarrow> db \<Rightarrow> store_error + db" where
  "upsert_auth_provider p d =
     (if db_fault d ''UpsertAuthProvider'' (ap_id p) then Inl DbError
      else Inr (d\<lparr>db_providers := upsert_row (\<lambda>x. ap_id x = ap_id p) (\<lambda>x. p) p (db_providers d)\<rparr>))"

definition provider_secret_keys :: "string \<Rightarrow> string list" where
  "provider_secret_keys i = (if i = ''wecom'' then [''secret'', ''appSecret''] else [''bindPassword''])"

definition redact_auth_provider :: "json_env \<Rightarrow> auth_provider \<Rightarrow> auth_provider" where
  "redact_auth_provider J p = p\<lparr>ap_config := redact_config_secrets J (provider_secret_keys (ap_id p)) (ap_config p)\<rparr>"

definition public_auth_providers_handler :: "db \<Rightarrow> (string \<times> string \<times> string) list response" where
  "public_auth_providers_handler d =
     (case list_enabled_public_auth_providers d of
        Inl e \<Rightarrow> Fail 500 ''list_auth_providers_failed''
      | Inr ps \<Rightarrow> Done 200 ps)"

definition list_auth_providers_handler :: "json_env \<Rightarrow> db \<Rightarrow> auth_provider list response" where
  "list_auth_providers_handler J d =
     (case list_auth_providers d of
        Inl e \<Rightarrow> Fail 500 ''list_auth_providers_failed''
      | Inr ps \<Rightarrow> Done 200 (map (redact_auth_provider J) ps))"

record provider_request =
  pq_name :: string
  pq_enabled :: bool
  pq_config :: config
  pq_clear :: bool

definition is_auth_provider_id :: "string \<Rightarrow> bool" where
  "is_auth_provider_id i \<longleftrightarrow> i = ''ldap'' \<or> i = ''wecom''"

definition previous_provider_config :: "json_env \<Rightarrow> db \<Rightarrow> string \<Rightarrow> config" where
  "previous_provider_config J d i =
     (case get_auth_provider d i of Inl e \<Rightarrow> [] | Inr p \<Rightarrow> config_map J (ap_config p))"

definition update_auth_provider_handler ::
    "json_env \<Rightarrow> caller \<Rightarrow> string \<Rightarrow> provider_request option \<Rightarrow> db \<Rightarrow> auth_provider response \<times> db" where
  "update_auth_provider_handler J c i req d =
     (if \<not> is_auth_provider_id i then (Fail 404 ''auth_provider_not_found'', d)
      else case req of
        None \<Rightarrow> (Fail 400 ''invalid_request'', d)
      | Some q \<Rightarrow>
          (let name = trim_space (pq_name q);
               enabled = (if pq_clear q then False else pq_enabled q)
           in if name = [] then (Fail 400 ''invalid_auth_provider_name'', d)
              else case (if pq_clear q then Inr []
                  else sanitize_provider_config J i (pq_config q) (previous_provider_config J d i) (pq_enabled q)) of
                Inl e \<Rightarrow> (Fail 400 ''invalid_auth_provider_config'', d)
              | Inr config \<Rightarrow>
                  (let p = \<lparr>ap_id = i, ap_type = i, ap_name = name, ap_enabled = enabled, ap_config = je_text J config\<rparr> in
                   case upsert_auth_provider p d of
                     Inl e \<Rightarrow> (Fail 500 ''save_auth_provider_failed'', d)
                   | Inr d1 \<Rightarrow>
                       (Done 200 (redact_auth_provider J p),
                        audit c ''settings.auth_provider.update'' i ''System'' ''success''
                          ([(''provider'', i), (''name'', name), (''enabled'', bool_text enabled)] @
                           (if pq_clear q then [(''cleared'', ''true'')] else [])) d1))))"

text \<open>Whatever the provider, the test is the one of LDAP.\<close>

definition test_auth_provider_handler :: "auth_env \<Rightarrow> caller \<Rightarrow> string \<Rightarrow> db \<Rightarrow> nat response \<times> db" where
  "test_auth_provider_handler A c i d =
     (if \<not> is_auth_provider_id i then (Fail 404 ''auth_provider_not_found'', d)
      else case get_auth_provider d i of
        Inl NotFound \<Rightarrow> (Fail 404 ''auth_provider_not_found'', d)
      | Inl e \<Rightarrow> (Fail 500 ''get_auth_provider_failed'', d)
      | Inr p \<Rightarrow>
          (case test_ldap_provider A p of
             None \<Rightarrow> (Fail 503 ''auth_provider_test_failed'', d)
           | Some n \<Rightarrow>
               (Done 200 n, audit c ''settings.auth_provider.test'' i ''System'' ''success''
                  [(''provider'', i), (''matchedUsers'', itoa n)] d)))"

definition auth_provider_route ::
    "json_env \<Rightarrow> auth_env \<Rightarrow> caller \<Rightarrow> string \<Rightarrow> string \<Rightarrow> provider_request option \<Rightarrow> db \<Rightarrow> (auth_provider + nat) response \<times> db" where
  "auth_provider_route J A c meth path req d =
     (case parse_settings_resource_path path ''/api/settings/auth-providers/'' of
        None \<Rightarrow> (Fail 404 ''not_found'', d)
      | Some (i, action) \<Rightarrow>
          if meth = ''PUT'' \<and> action = [] then
            (case update_auth_provider_handler J c i req d of
               (Fail st e, d1) \<Rightarrow> (Fail st e, d1)
             | (Done st p, d1) \<Rightarrow> (Done st (Inl p), d1))
          else if meth = ''POST'' \<and> action = ''test'' then
            (case test_auth_provider_handler A c i d of
               (Fail st e, d1) \<Rightarrow> (Fail st e, d1)
             | (Done st n, d1) \<Rightarrow> (Done st (Inr n), d1))
          else (Fail 405 ''method_not_allowed'', d))"

subsection \<open>The mail channel\<close>

definition list_notification_channels :: "db \<Rightarrow> store_error + channel list" where
  "list_notification_channels d =
     (if db_fault d ''ListChannels'' [] then Inl DbError else Inr (filter (\<lambda>c. mc_id c = ''email'') (db_channels d)))"

definition get_notification_channel :: "db \<Rightarrow> string \<Rightarrow> store_error + channel" where
  "get_notification_channel d i =
     (if db_fault d ''GetChannel'' i then Inl DbError
      else case find_row (\<lambda>c. mc_id c = i \<and> mc_id c = ''email'') (db_channels d) of None \<Rightarrow> Inl NotFound | Some c \<Rightarrow> Inr c)"

definition get_password_reset_channel :: "db \<Rightarrow> store_error + channel" where
  "get_password_reset_channel d =
     (if db_fault d ''GetResetChannel'' [] then Inl DbError
      else case find_row (\<lambda>c. mc_id c = ''email'' \<and> mc_reset_enabled c) (db_channels d) of None \<Rightarrow> Inl NotFound | Some c \<Rightarrow> Inr c)"

text \<open>The Chinese default name is the code \<open>mail\<close>; a name once stored stays.\<close>

definition default_channel_name :: "string \<Rightarrow> string" where
  "default_channel_name i = (if i = ''email'' then ''mail'' else i)"

definition upsert_notification_channel :: "string \<Rightarrow> bool \<Rightarrow> bool \<Rightarrow> string \<Rightarrow> db \<Rightarrow> store_error + (channel \<times> db)" where
  "upsert_notification_channel i enabled reset text d =
     (if db_fault d ''UpsertChannel'' i then Inl DbError
      else
        (let fresh = \<lparr>mc_id = i, mc_name = default_channel_name i, mc_enabled = enabled, mc_reset_enabled = reset, mc_config = text\<rparr>;
             merge = (\<lambda>c. fresh\<lparr>mc_name := text_or (mc_name c) (default_channel_name i)\<rparr>)
         in Inr (case find_row (\<lambda>c. mc_id c = i) (db_channels d) of None \<Rightarrow> fresh | Some c \<Rightarrow> merge c,
              d\<lparr>db_channels := upsert_row (\<lambda>c. mc_id c = i) merge fresh (db_channels d)\<rparr>)))"

definition normalize_email_config_for_response :: "json_env \<Rightarrow> config \<Rightarrow> string" where
  "normalize_email_config_for_response J c = je_text J (normalize_email_config_keys c)"

definition redact_notification_channel :: "json_env \<Rightarrow> channel \<Rightarrow> channel" where
  "redact_notification_channel J c =
     c\<lparr>mc_reset_enabled := (mc_id c = ''email'' \<and> mc_reset_enabled c),
       mc_config := redact_config_secrets J [''password''] (normalize_email_config_for_response J (config_map J (mc_config c)))\<rparr>"

record channel_request =
  cq_enabled :: bool
  cq_reset_enabled :: bool
  cq_clear :: bool
  cq_config :: config

definition list_channels_handler :: "json_env \<Rightarrow> db \<Rightarrow> channel list response" where
  "list_channels_handler J d =
     (case list_notification_channels d of
        Inl e \<Rightarrow> Fail 500 ''list_notifications_failed''
      | Inr cs \<Rightarrow> Done 200 (map (redact_notification_channel J) cs))"

definition previous_channel_config :: "json_env \<Rightarrow> db \<Rightarrow> string \<Rightarrow> config" where
  "previous_channel_config J d i =
     (case get_notification_channel d i of Inl e \<Rightarrow> [] | Inr c \<Rightarrow> config_map J (mc_config c))"

definition update_channel_handler ::
    "json_env \<Rightarrow> caller \<Rightarrow> string \<Rightarrow> channel_request option \<Rightarrow> db \<Rightarrow> channel response \<times> db" where
  "update_channel_handler J c i req d =
     (case req of
        None \<Rightarrow> (Fail 400 ''invalid_request'', d)
      | Some q \<Rightarrow>
          (case sanitize_email_config J (cq_config q) (previous_channel_config J d i) (cq_enabled q \<or> cq_reset_enabled q) (cq_clear q) of
             Inl e \<Rightarrow> (Fail 400 ''invalid_notification_config'', d)
           | Inr config \<Rightarrow>
               (case upsert_notification_channel i (cq_enabled q) (cq_reset_enabled q) (je_text J config) d of
                  Inl e \<Rightarrow> (Fail 500 ''save_notification_failed'', d)
                | Inr (item, d1) \<Rightarrow>
                    (Done 200 (redact_notification_channel J item),
                     audit c ''settings.notification.update'' i ''System'' ''success''
                       [(''channel'', i), (''enabled'', bool_text (mc_enabled item)),
                        (''passwordResetEnabled'', bool_text (mc_reset_enabled item))] d1))))"

text \<open>\<open>send\<close> says whether a test mail over a configuration to an address is accepted.\<close>

definition test_channel_handler ::
    "(string \<Rightarrow> string \<Rightarrow> bool) \<Rightarrow> caller \<Rightarrow> string \<Rightarrow> string option \<Rightarrow> db \<Rightarrow> unit response \<times> db" where
  "test_channel_handler send c i req d =
     (case req of
        None \<Rightarrow> (Fail 400 ''invalid_request'', d)
      | Some to \<Rightarrow>
          (case get_notification_channel d i of
             Inl NotFound \<Rightarrow> (Fail 404 ''notification_not_found'', d)
           | Inl e \<Rightarrow> (Fail 500 ''get_notification_failed'', d)
           | Inr ch \<Rightarrow>
               if (\<not> mc_enabled ch \<and> \<not> mc_reset_enabled ch) \<or> trim_space to = [] \<or> mc_config ch = [] \<or>
                  \<not> send (mc_config ch) (trim_space to)
               then (Fail 503 ''notification_test_failed'', d)
               else (Done 200 (), audit c ''settings.notification.test'' i ''System'' ''success''
                 [(''channel'', i), (''to'', trim_space to)] d)))"

subsection \<open>What is stored is in range\<close>

text \<open>What the form of the base configuration promises.\<close>

definition base_config_in_range :: "base_config \<Rightarrow> bool" where
  "base_config_in_range b \<longleftrightarrow>
     usable_base_config b \<and>
     rune_count (bc_site_name b) \<le> 60 \<and> rune_count (bc_login_name b) \<le> 60 \<and> rune_count (bc_app_name b) \<le> 60 \<and>
     rune_count (bc_app_subtitle b) \<le> 60 \<and> (has_prefix (bc_icon_data b) ''/'' \<or> has_prefix (bc_icon_data b) ''data:image/'') \<and>
     bc_reset_code_ttl_minutes b \<in> {1..60} \<and> bc_reset_captcha_ttl_minutes b \<in> {1..10} \<and>
     bc_reset_send_cooldown_minutes b \<in> {1/2..10} \<and> bc_reset_rate_limit_minutes b \<in> {5..10} \<and>
     bc_login_max_failures b \<in> {3..10} \<and> bc_login_lockout_minutes b \<in> {1..10} \<and> bc_sync_concurrency b \<in> {1..20} \<and>
     bc_dns_record_concurrency b \<in> {1..50} \<and> bc_dhcp_scope_concurrency b \<in> {1..50} \<and> bc_refresh_delay_seconds b \<in> {1..60} \<and>
     bc_offline_failure_count b \<in> {1..20} \<and> bc_connection_timeout_seconds b \<in> {1..20} \<and>
     bc_operation_timeout_seconds b \<in> {1..60} \<and> bc_full_sync_timeout_seconds b \<in> {60..600} \<and>
     bc_health_interval_minutes b \<in> {1..60} \<and> bc_health_concurrency b \<in> {1..20} \<and> bc_wecom_state_ttl_minutes b \<in> {1..60}"

lemma validated_in_range:
  assumes "normalize_request_config raw = Inr b"
  shows "base_config_in_range b"
proof -
  have b: "b = normalize_base_config raw" "validate_base_config b = None"
    using assms by (auto simp: normalize_request_config_def Let_def split: option.splits)
  have "usable_base_config b" unfolding b(1) by (rule normalize_usable)
  moreover have "list_all snd (base_config_checks b)"
    using b(2) unfolding validate_base_config_def list_all_iff by (simp only: option.map_disc_iff find_None_iff not_not) blast
  ultimately show ?thesis
    by (simp add: base_config_checks_def base_config_in_range_def between_def not_less)
qed

lemma updated_settings:
  "db_settings (snd (update_base_config_handler c req d)) = db_settings d \<or>
   (\<exists>raw b. normalize_request_config raw = Inr b \<and> db_settings (snd (update_base_config_handler c req d)) = Some b)"
proof -
  have keep: "db_settings (audit c a t m r md e) = db_settings e" for a t m r md e
    using audit_shape [of c a t m r md e] by auto
  show ?thesis
  proof (cases req)
    case (Some raw)
    then show ?thesis
    proof (cases "normalize_request_config raw")
      case (Inr b)
      then show ?thesis
        by (cases "update_system_base_config b d")
          (auto simp: Some update_base_config_handler_def update_system_base_config_def keep split: if_splits)
    qed (simp add: update_base_config_handler_def)
  qed (simp add: update_base_config_handler_def)
qed

lemma update_keeps_range:
  assumes "\<forall>b. db_settings d = Some b \<longrightarrow> base_config_in_range b"
  shows "\<forall>b. db_settings (snd (update_base_config_handler c req d)) = Some b \<longrightarrow> base_config_in_range b"
  using updated_settings [of c req d] assms validated_in_range by force

text \<open>C32. Whatever requests are made, the stored base configuration is empty or has every value in the range its form
  promises, the four names and the icon included; and a reader who normalises it reads it unchanged.\<close>

theorem stored_base_config_in_range:
  assumes "\<forall>b. db_settings d = Some b \<longrightarrow> base_config_in_range b"
    and "db_settings (fold (\<lambda>(c, req) d. snd (update_base_config_handler c req d)) reqs d) = Some b"
  shows "base_config_in_range b \<and> normalize_base_config b = b"
proof -
  have "\<forall>b. db_settings (fold (\<lambda>(c, req) d. snd (update_base_config_handler c req d)) reqs d) = Some b \<longrightarrow> base_config_in_range b"
    using assms(1)
  proof (induction reqs arbitrary: d)
    case (Cons x xs)
    from Cons.IH [OF update_keeps_range [OF Cons.prems]] show ?case by (simp add: case_prod_beta)
  qed simp
  then have "base_config_in_range b" using assms(2) by blast
  moreover from this have "usable_base_config b" by (simp add: base_config_in_range_def)
  ultimately show ?thesis by (simp add: normalize_fixes_usable)
qed


subsection \<open>Secrets are kept, and kept back\<close>

lemma sanitized_secret:
  assumes "tidy config" "sanitize_provider_config J i config previous enabled = Inr c" "k \<in> set (provider_secret_keys i)"
  shows "tidy c \<and> string_value (cfg_get c k) = kept_secret enabled config previous k"
  using assms(2,3) ldap_secret [OF assms(1)] wecom_secrets [OF assms(1)]
  by (auto simp: sanitize_provider_config_def provider_secret_keys_def split: if_splits)

lemma find_upserted:
  assumes "\<forall>x. p x \<longrightarrow> f x = y" "p y"
  shows "find_row p (upsert_row p f y rs) = Some y"
proof -
  have "find_row p (update_rows p f rs) = Some y" if "list_ex p rs"
    using that assms by (induction rs) (auto simp: update_rows_def find_row_def)
  moreover have "find_row p (rs @ [y]) = Some y" if "\<not> list_ex p rs"
    using that assms(2) by (induction rs) (auto simp: find_row_def)
  ultimately show ?thesis by (simp add: upsert_row_def)
qed

lemma update_provider_done:
  assumes "update_auth_provider_handler J c i (Some q) d = (Done code p, d')"
  obtains config enabled d1 where "(if pq_clear q then Inr [] else
        sanitize_provider_config J i (pq_config q) (previous_provider_config J d i) (pq_enabled q)) = Inr config"
      "upsert_auth_provider \<lparr>ap_id = i, ap_type = i, ap_name = trim_space (pq_name q), ap_enabled = enabled, ap_config = je_text J config\<rparr> d = Inr d1"
      "p = redact_auth_provider J \<lparr>ap_id = i, ap_type = i, ap_name = trim_space (pq_name q), ap_enabled = enabled, ap_config = je_text J config\<rparr>"
      "db_providers d' = db_providers d1"
proof -
  let ?r = "if pq_clear q then Inr [] else
        sanitize_provider_config J i (pq_config q) (previous_provider_config J d i) (pq_enabled q)"
  let ?e = "if pq_clear q then False else pq_enabled q"
  have ok: "is_auth_provider_id i" "trim_space (pq_name q) \<noteq> []"
    using assms by (auto simp: update_auth_provider_handler_def Let_def split: if_splits)
  obtain config where r: "?r = Inr config"
    using assms ok by (cases ?r) (simp_all add: update_auth_provider_handler_def Let_def)
  let ?p = "\<lparr>ap_id = i, ap_type = i, ap_name = trim_space (pq_name q), ap_enabled = ?e, ap_config = je_text J config\<rparr>"
  obtain d1 where d1: "upsert_auth_provider ?p d = Inr d1"
    using assms ok r by (cases "upsert_auth_provider ?p d") (simp_all add: update_auth_provider_handler_def Let_def)
  have keep: "db_providers (audit c a t m r md e) = db_providers e" for a t m r md e
    using audit_shape [of c a t m r md e] by auto
  have "p = redact_auth_provider J ?p" "db_providers d' = db_providers d1"
    using assms ok r d1 keep by (auto simp: update_auth_provider_handler_def Let_def)
  then show thesis using that [OF r d1] by blast
qed

text \<open>C33. An update of a provider stores, for each of its secrets: nothing when the configuration is cleared; the new
  value when one is given; the old value when it is left blank and the provider is enabled; and nothing
  when it is left blank and the provider is disabled, although the form shows no secret and its blank
  means the old one. Neither the answer nor a list of the providers holds a secret.\<close>

theorem provider_secrets:
  assumes "json_works J" "tidy (pq_config q)" "update_auth_provider_handler J c i (Some q) d = (Done code p, d')"
    and "k \<in> set (provider_secret_keys i)"
  shows "\<exists>stored. find_row (\<lambda>x. ap_id x = i) (db_providers d') = Some stored \<and>
      string_value (cfg_get (config_map J (ap_config stored)) k) =
        (if pq_clear q then [] else kept_secret (pq_enabled q) (pq_config q) (previous_provider_config J d i) k) \<and>
      string_value (cfg_get (config_map J (ap_config p)) k) = [] \<and>
      (\<forall>e ps x key. list_auth_providers_handler J e = Done 200 ps \<longrightarrow> x \<in> set ps \<longrightarrow> key \<in> set (provider_secret_keys (ap_id x)) \<longrightarrow>
        string_value (cfg_get (config_map J (ap_config x)) key) = [])"
proof -
  obtain config enabled d1 where u: "(if pq_clear q then Inr [] else
        sanitize_provider_config J i (pq_config q) (previous_provider_config J d i) (pq_enabled q)) = Inr config"
      "upsert_auth_provider \<lparr>ap_id = i, ap_type = i, ap_name = trim_space (pq_name q), ap_enabled = enabled, ap_config = je_text J config\<rparr> d = Inr d1"
      "p = redact_auth_provider J \<lparr>ap_id = i, ap_type = i, ap_name = trim_space (pq_name q), ap_enabled = enabled, ap_config = je_text J config\<rparr>"
      "db_providers d' = db_providers d1"
    using assms(3) by (rule update_provider_done)
  let ?p = "\<lparr>ap_id = i, ap_type = i, ap_name = trim_space (pq_name q), ap_enabled = enabled, ap_config = je_text J config\<rparr>"
  have "find_row (\<lambda>x. ap_id x = i) (db_providers d') = Some ?p"
    using u(2,4) by (auto simp: upsert_auth_provider_def intro!: find_upserted split: if_splits)
  moreover have "tidy config \<and> string_value (cfg_get config k) =
      (if pq_clear q then [] else kept_secret (pq_enabled q) (pq_config q) (previous_provider_config J d i) k)"
    using u(1) sanitized_secret [OF assms(2) _ assms(4)] by (auto simp: tidy_Nil cfg_get_def split: if_splits)
  moreover have "string_value (cfg_get (config_map J (ap_config p)) k) = []"
    using redacted_text [OF assms(1,4)] by (simp add: u(3) redact_auth_provider_def)
  moreover have "string_value (cfg_get (config_map J (ap_config x)) key) = []"
    if l: "list_auth_providers_handler J e = Done 200 ps" "x \<in> set ps" "key \<in> set (provider_secret_keys (ap_id x))" for e ps x key
  proof -
    obtain y where "x = redact_auth_provider J y"
      using l(1,2) by (auto simp: list_auth_providers_handler_def split: sum.splits)
    then show ?thesis using redacted_text [OF assms(1)] l(3) by (simp add: redact_auth_provider_def)
  qed
  ultimately show ?thesis using config_map_text [OF assms(1)] by (intro exI [of _ ?p]) simp
qed

subsection \<open>A concrete provider\<close>

text \<open>A JSON of texts only: the keys and values in base64.\<close>

fun text_pairs :: "string list \<Rightarrow> config" where
  "text_pairs (k # v # r) = (k, JText v) # text_pairs r"
| "text_pairs _ = []"

definition plain_json :: json_env where
  "plain_json = \<lparr>je_text = (\<lambda>c. encode_resource_id (''x'' # concat (map (\<lambda>(k, v). [k, string_value v]) c))),
     je_parse = (\<lambda>t. case decode_parts (split_on (CHR ''.'') t) of Some (x # ps) \<Rightarrow> Some (AList.clearjunk (text_pairs ps)) | _ \<Rightarrow> None),
     je_float = (\<lambda>t. Finite 0)\<rparr>"

lemma text_pairs_flat: "text_pairs (concat (map (\<lambda>(k, v). [k, string_value v]) c)) = map (\<lambda>(k, v). (k, JText (string_value v))) c"
  by (induction c) auto

lemma encoded_nonempty: "encode_resource_id (''x'' # ps) \<noteq> []"
proof -
  have "raw_url_encode ''x'' \<noteq> []" using raw_url_roundtrip [of "''x''"] raw_url_roundtrip [of "[]"]
    by (auto simp: raw_url_encode_def)
  then show ?thesis by (cases ps) (simp_all add: encode_resource_id_def)
qed

lemma plain_json_works: "json_works plain_json"
  unfolding json_works_def
proof (intro conjI allI impI)
  fix c :: config assume t: "tidy c"
  show "je_text plain_json c \<noteq> []" by (simp add: plain_json_def encoded_nonempty)
  let ?c = "map (\<lambda>(k, v). (k, JText (string_value v))) c"
  have "distinct (map fst ?c)" using t by (simp add: tidy_def comp_def case_prod_unfold)
  then have "je_parse plain_json (je_text plain_json c) = Some ?c"
    using split_encoded [of "''x'' # concat (map (\<lambda>(k, v). [k, string_value v]) c)"]
      decode_parts_encoded [of "''x'' # concat (map (\<lambda>(k, v). [k, string_value v]) c)"]
    by (simp add: plain_json_def text_pairs_flat)
  moreover have "string_value (cfg_get ?c k) = string_value (cfg_get c k)" for k
    by (induction c) (auto simp: cfg_get_def string_value_trimmed)
  ultimately show "\<exists>c'. je_parse plain_json (je_text plain_json c) = Some c' \<and> (\<forall>k. string_value (cfg_get c' k) = string_value (cfg_get c k))"
    by blast
next
  fix raw c assume "je_parse plain_json raw = Some c"
  then show "tidy c" by (auto simp: plain_json_def tidy_def distinct_clearjunk split: option.splits list.splits)
qed

definition ldap_row :: "bool \<Rightarrow> auth_provider" where
  "ldap_row enabled = \<lparr>ap_id = ''ldap'', ap_type = ''ldap'', ap_name = ''AD'', ap_enabled = enabled,
     ap_config = je_text plain_json [(''bindPassword'', JText ''pw'')]\<rparr>"

definition blank_update :: provider_request where
  "blank_update = \<lparr>pq_name = ''AD'', pq_enabled = False, pq_config = [], pq_clear = False\<rparr>"

text \<open>The password of a provider saved as disabled is gone.\<close>

theorem provider_secrets_witness:
  "\<exists>p d' stored. update_auth_provider_handler plain_json sample_caller ''ldap'' (Some blank_update) (empty_db\<lparr>db_providers := [ldap_row True]\<rparr>) =
       (Done 200 p, d') \<and>
     string_value (cfg_get (previous_provider_config plain_json (empty_db\<lparr>db_providers := [ldap_row True]\<rparr>) ''ldap'') ''bindPassword'') = ''pw'' \<and>
     find_row (\<lambda>x. ap_id x = ''ldap'') (db_providers d') = Some stored \<and>
     string_value (cfg_get (config_map plain_json (ap_config stored)) ''bindPassword'') = []"
proof -
  let ?d = "empty_db\<lparr>db_providers := [ldap_row True]\<rparr>"
  have n: "trim_space ''AD'' = ''AD''" "trim_space ''pw'' = ''pw''" by (rule trim_space_graph, simp add: graph_ends_def char_code_def)+
  have "sanitize_ldap_config plain_json [] previous False = Inr []" for previous
    by (simp add: sanitize_ldap_config_def Let_def trim_texts_def cfg_del_def discard_secret_presence_markers_def)
  then have "\<exists>p d'. update_auth_provider_handler plain_json sample_caller ''ldap'' (Some blank_update) ?d = (Done 200 p, d')"
    by (simp add: update_auth_provider_handler_def is_auth_provider_id_def blank_update_def n sanitize_provider_config_def
        upsert_auth_provider_def empty_db_def Let_def)
  then obtain p d' where u: "update_auth_provider_handler plain_json sample_caller ''ldap'' (Some blank_update) ?d = (Done 200 p, d')"
    by blast
  have "tidy (pq_config blank_update)" by (simp add: blank_update_def tidy_def)
  moreover have "''bindPassword'' \<in> set (provider_secret_keys ''ldap'')" by (simp add: provider_secret_keys_def)
  ultimately obtain stored where "find_row (\<lambda>x. ap_id x = ''ldap'') (db_providers d') = Some stored"
      "string_value (cfg_get (config_map plain_json (ap_config stored)) ''bindPassword'') = []"
    using provider_secrets [OF plain_json_works _ u] by (fastforce simp: blank_update_def kept_secret_def cfg_get_def)
  moreover have "string_value (cfg_get (previous_provider_config plain_json ?d ''ldap'') ''bindPassword'') = ''pw''"
    using config_map_text [OF plain_json_works, of "[(''bindPassword'', JText ''pw'')]" "''bindPassword''"]
    by (simp add: previous_provider_config_def get_auth_provider_def empty_db_def find_row_def ldap_row_def tidy_def cfg_get_def n)
  ultimately show ?thesis using u by blast
qed

lemma default_in_range: "base_config_in_range default_base_config"
proof -
  have "list_all snd (base_config_checks default_base_config)"
    by (simp add: base_config_checks_def default_base_config_def between_def rune_count_def char_code_def has_prefix_def is_half_minute_step_def)
  moreover have "normalize_base_config default_base_config = default_base_config"
    by (simp add: normalize_base_config_def default_base_config_def default_text_plain positive_or_def Let_def)
  moreover from calculation(1) have "validate_base_config default_base_config = None"
    unfolding validate_base_config_def list_all_iff by (simp only: option.map_disc_iff find_None_iff) blast
  ultimately have "normalize_request_config default_base_config = Inr default_base_config"
    by (simp add: normalize_request_config_def Let_def)
  then show ?thesis by (rule validated_in_range)
qed

theorem stored_base_config_in_range_witness:
  "base_config_in_range default_base_config \<and> normalize_base_config default_base_config = default_base_config"
proof -
  let ?d = "empty_db\<lparr>db_settings := Some default_base_config\<rparr>"
  have "\<forall>b. db_settings ?d = Some b \<longrightarrow> base_config_in_range b" using default_in_range by simp
  from stored_base_config_in_range [OF this, of "[]"] show ?thesis by simp
qed

end
