(* ===== verification/ZL_Agent_Server.thy ===== *)
theory ZL_Agent_Server
  imports ZL_Agent ZL_Config_Values ZL_Refresh_Handlers
begin

text \<open>
  What the DNS agent and the DHCP agent have in common: \<open>internal/config/config.go\<close>, and in
  \<open>internal/server/server.go\<close> the middleware, the decoding of bodies and the envelopes; with the JSON that
  the backend's client writes and the URL that connects the two. A request reaches an agent as its
  method, escaped and unescaped path, query, key and decoded JSON body; \<open>agent_network\<close> puts an agent
  behind the backend's \<open>network\<close> parameter. Panics (none in the modelled code) and the logs are left out.
\<close>

subsection \<open>Configuration\<close>

record agent_config =
  ac_host :: string
  ac_port :: int
  ac_api_key :: string
  ac_allow_anonymous :: bool
  ac_log_path :: string
  ac_powershell_timeout :: int

text \<open>\<open>getenv\<close> gives the environment; an unset variable is empty.\<close>

definition env_text :: "(string \<Rightarrow> string) \<Rightarrow> string \<Rightarrow> string \<Rightarrow> string" where
  "env_text getenv key fallback = (let v = trim_space (getenv key) in if v = [] then fallback else v)"

definition env_int :: "(string \<Rightarrow> string) \<Rightarrow> string \<Rightarrow> int \<Rightarrow> int" where
  "env_int getenv key fallback = (case atoi (env_text getenv key []) of None \<Rightarrow> fallback | Some n \<Rightarrow> n)"

definition env_int_range :: "(string \<Rightarrow> string) \<Rightarrow> string \<Rightarrow> int \<Rightarrow> int \<Rightarrow> int \<Rightarrow> int" where
  "env_int_range getenv key fallback lo hi =
     (let v = env_int getenv key fallback in if v < lo \<or> hi < v then fallback else v)"

definition env_bool :: "(string \<Rightarrow> string) \<Rightarrow> string \<Rightarrow> bool \<Rightarrow> bool" where
  "env_bool getenv key fallback =
     (let v = to_lower (env_text getenv key []) in if v = [] then fallback else v = ''1'' \<or> v = ''true'' \<or> v = ''yes'')"

definition dns_agent_config :: "(string \<Rightarrow> string) \<Rightarrow> agent_config" where
  "dns_agent_config getenv =
     \<lparr>ac_host = env_text getenv ''DNS_AGENT_HOST'' ''0.0.0.0'', ac_port = env_int getenv ''DNS_AGENT_PORT'' 8460,
      ac_api_key = env_text getenv ''DNS_AGENT_API_KEY'' [],
      ac_allow_anonymous = env_bool getenv ''DNS_AGENT_ALLOW_ANONYMOUS'' False,
      ac_log_path = env_text getenv ''DNS_AGENT_LOG_PATH'' ''agent.log'',
      ac_powershell_timeout = env_int_range getenv ''DNS_AGENT_POWERSHELL_TIMEOUT_SECONDS'' 180 1 3600\<rparr>"

definition dhcp_agent_config :: "(string \<Rightarrow> string) \<Rightarrow> agent_config" where
  "dhcp_agent_config getenv =
     \<lparr>ac_host = env_text getenv ''DHCP_AGENT_HOST'' ''0.0.0.0'', ac_port = env_int getenv ''DHCP_AGENT_PORT'' 8462,
      ac_api_key = env_text getenv ''DHCP_AGENT_API_KEY'' [],
      ac_allow_anonymous = env_bool getenv ''DHCP_AGENT_ALLOW_ANONYMOUS'' False,
      ac_log_path = env_text getenv ''DHCP_AGENT_LOG_PATH'' ''agent.log'',
      ac_powershell_timeout = env_int_range getenv ''DHCP_AGENT_POWERSHELL_TIMEOUT_SECONDS'' 180 1 3600\<rparr>"

subsection \<open>Scripts\<close>

text \<open>A script changes the state of its host and ends with a result or the error of a statement.\<close>

type_synonym ('a, 'w) script = "'w \<Rightarrow> (string + 'a) \<times> 'w"

definition then_do :: "('a, 'w) script \<Rightarrow> ('a \<Rightarrow> ('b, 'w) script) \<Rightarrow> ('b, 'w) script" where
  "then_do f g w = (case f w of (Inl e, w1) \<Rightarrow> (Inl e, w1) | (Inr x, w1) \<Rightarrow> g x w1)"

definition returns :: "'a \<Rightarrow> ('a, 'w) script" where
  "returns x w = (Inr x, w)"

definition throws :: "string \<Rightarrow> ('a, 'w) script" where
  "throws e w = (Inl e, w)"

definition try_catch :: "('a, 'w) script \<Rightarrow> ('a, 'w) script \<Rightarrow> ('a, 'w) script" where
  "try_catch f g w = (case f w of (Inl e, w1) \<Rightarrow> g w1 | (Inr x, w1) \<Rightarrow> (Inr x, w1))"

definition reads :: "('w \<Rightarrow> string + 'a) \<Rightarrow> ('a, 'w) script" where
  "reads f w = (f w, w)"

lemmas script_defs = then_do_def returns_def throws_def try_catch_def reads_def

text \<open>\<open>runOutput\<close>: what a failed script wrote, as \<open>note\<close> words it.\<close>

definition run_script :: "(string \<Rightarrow> string) \<Rightarrow> ('a, 'w) script \<Rightarrow> ('a, 'w) script" where
  "run_script note p w = (case p w of
     (Inl e, w1) \<Rightarrow> (Inl (''powershell failed: '' @ note (trim_space e)), w1) | (Inr x, w1) \<Rightarrow> (Inr x, w1))"

subsection \<open>The JSON the client writes\<close>

text \<open>\<open>tt\<close> gives the text of a time; fields marked \<open>omitempty\<close> are left out when they are empty.\<close>

definition text_field :: "string \<Rightarrow> string \<Rightarrow> config" where
  "text_field k v = (if v = [] then [] else [(k, JText v)])"

definition time_field :: "(gotime \<Rightarrow> string) \<Rightarrow> string \<Rightarrow> gotime option \<Rightarrow> config" where
  "time_field tt k v = (case v of None \<Rightarrow> [] | Some t \<Rightarrow> text_field k (tt t))"

definition int_json :: "int \<Rightarrow> json" where
  "int_json n = JNumber (of_int n)"

definition zone_json :: "(gotime \<Rightarrow> string) \<Rightarrow> dns_zone \<Rightarrow> config" where
  "zone_json tt z = [(''id'', JText (z_id z)), (''name'', JText (z_name z)), (''type'', JText (z_type z)),
     (''reverse'', JBool (z_reverse z)), (''dynamicUpdate'', JText (z_dynamic_update z)),
     (''serverId'', JText (z_server_id z))] @ time_field tt ''lastSyncedAt'' (z_last_synced_at z) @
     text_field ''syncStatus'' (z_sync_status z) @ text_field ''lastError'' (z_last_error z)"

definition record_json :: "(gotime \<Rightarrow> string) \<Rightarrow> dns_record \<Rightarrow> config" where
  "record_json tt r = [(''id'', JText (r_id r)), (''zoneId'', JText (r_zone_id r)), (''name'', JText (r_name r)),
     (''type'', JText (r_type r)), (''value'', JText (r_value r)), (''ttl'', int_json (r_ttl r))] @
     (if r_create_ptr r then [(''createPtr'', JBool True)] else []) @
     [(''updatedAt'', JText (tt (r_updated_at r)))] @ time_field tt ''lastSyncedAt'' (r_last_synced_at r)"

definition scope_json :: "(gotime \<Rightarrow> string) \<Rightarrow> dhcp_scope \<Rightarrow> config" where
  "scope_json tt s = [(''id'', JText (sc_id s)), (''name'', JText (sc_name s)),
     (''description'', JText (sc_description s)), (''subnet'', JText (sc_subnet s))] @
     text_field ''defaultGateway'' (sc_default_gateway s) @
     [(''startRange'', JText (sc_start_range s)), (''endRange'', JText (sc_end_range s)),
      (''leaseDurationHours'', int_json (sc_lease_hours s)), (''leaseDurationSeconds'', int_json (sc_lease_seconds s)),
      (''state'', JText (sc_state s)), (''serverId'', JText (sc_server_id s))] @
     text_field ''externalId'' (sc_external_id s) @ time_field tt ''lastSyncedAt'' (sc_last_synced_at s) @
     text_field ''syncStatus'' (sc_sync_status s) @ text_field ''lastError'' (sc_last_error s)"

definition exclusion_json :: "(gotime \<Rightarrow> string) \<Rightarrow> dhcp_exclusion \<Rightarrow> config" where
  "exclusion_json tt x = [(''id'', JText (ex_id x)), (''scopeId'', JText (ex_scope_id x)),
     (''startIp'', JText (ex_start_ip x)), (''endIp'', JText (ex_end_ip x))] @
     text_field ''externalId'' (ex_external_id x) @ time_field tt ''lastSyncedAt'' (ex_last_synced_at x)"

definition reservation_json :: "(gotime \<Rightarrow> string) \<Rightarrow> dhcp_reservation \<Rightarrow> config" where
  "reservation_json tt r = [(''id'', JText (rv_id r)), (''scopeId'', JText (rv_scope_id r)), (''ip'', JText (rv_ip r)),
     (''mac'', JText (rv_mac r)), (''name'', JText (rv_name r)), (''description'', JText (rv_description r))] @
     text_field ''externalId'' (rv_external_id r) @ time_field tt ''lastSyncedAt'' (rv_last_synced_at r)"

fun body_json :: "(gotime \<Rightarrow> string) \<Rightarrow> agent_body \<Rightarrow> json option" where
  "body_json tt NoBody = None"
| "body_json tt (ZoneBody z) = Some (JObject [(''zone'', JText z)])"
| "body_json tt (RecordBody z r) = Some (JObject [(''zone'', JText z), (''record'', JObject (record_json tt r))])"
| "body_json tt (UpdateBody z r1 r2) = Some (JObject [(''zone'', JText z),
     (''update'', JObject [(''old'', JObject (record_json tt r1)), (''new'', JObject (record_json tt r2))])])"
| "body_json tt (PlainRecord r) = Some (JObject (record_json tt r))"
| "body_json tt (ZoneCreate z) = Some (JObject (zone_json tt z))"
| "body_json tt (ScopeBody s) = Some (JObject (scope_json tt s))"
| "body_json tt (ScopeUpdate s a b fs) = Some (JObject (scope_json tt s @ text_field ''oldStartRange'' a @
     text_field ''oldEndRange'' b @ (if fs = [] then [] else [(''changedFields'', JList (map JText fs))])))"
| "body_json tt (ExclusionBody x) = Some (JObject (exclusion_json tt x))"
| "body_json tt (ExclusionDelete s a b) =
     Some (JObject [(''scopeId'', JText s), (''startIp'', JText a), (''endIp'', JText b)])"
| "body_json tt (LeaseRelease s a) = Some (JObject [(''scopeId'', JText s), (''ip'', JText a)])"
| "body_json tt (ReservationBody r) = Some (JObject (reservation_json tt r))"
| "body_json tt (ReservationUpdate r1 r2) =
     Some (JObject [(''old'', JObject (reservation_json tt r1)), (''new'', JObject (reservation_json tt r2))])"
| "body_json tt (ReservationDelete s a m) =
     Some (JObject [(''scopeId'', JText s), (''ip'', JText a), (''mac'', JText m)])"

subsection \<open>Decoding into a structure\<close>

text \<open>A missing field and \<open>null\<close> leave the zero value, a value of another type is an error, unknown fields are
  ignored.\<close>

definition text_of :: "config \<Rightarrow> string \<Rightarrow> string option" where
  "text_of c k = (case cfg_get c k of JNull \<Rightarrow> Some [] | JText s \<Rightarrow> Some s | _ \<Rightarrow> None)"

definition bool_of :: "config \<Rightarrow> string \<Rightarrow> bool option" where
  "bool_of c k = (case cfg_get c k of JNull \<Rightarrow> Some False | JBool b \<Rightarrow> Some b | _ \<Rightarrow> None)"

definition int_of :: "config \<Rightarrow> string \<Rightarrow> int option" where
  "int_of c k = (case cfg_get c k of JNull \<Rightarrow> Some 0 | JNumber n \<Rightarrow> 
       if of_int (floor n) = n \<and> - (2 ^ 63) \<le> floor n \<and> floor n < 2 ^ 63 then Some (floor n) else None
     | _ \<Rightarrow> None)"

fun texts_of :: "json list \<Rightarrow> string list option" where
  "texts_of [] = Some []"
| "texts_of (v # vs) = (case v of JText s \<Rightarrow> map_option ((#) s) (texts_of vs)
     | JNull \<Rightarrow> map_option ((#) []) (texts_of vs) | _ \<Rightarrow> None)"

definition list_of :: "config \<Rightarrow> string \<Rightarrow> string list option" where
  "list_of c k = (case cfg_get c k of JNull \<Rightarrow> Some [] | JList vs \<Rightarrow> texts_of vs | _ \<Rightarrow> None)"

definition object_of :: "config \<Rightarrow> string \<Rightarrow> config option" where
  "object_of c k = (case cfg_get c k of JNull \<Rightarrow> Some [] | JObject o' \<Rightarrow> Some o' | _ \<Rightarrow> None)"

definition body_object :: "json option \<Rightarrow> config option" where
  "body_object b = (case b of Some (JObject c) \<Rightarrow> Some c | Some JNull \<Rightarrow> Some [] | _ \<Rightarrow> None)"

subsection \<open>Requests and answers\<close>

record server_request =
  sr_method :: http_method
  sr_raw_path :: string
  sr_path :: string
  sr_query :: "(string \<times> string) list"
  sr_key :: string
  sr_body :: "json option"

type_synonym 'w agent_handler = "server_request \<Rightarrow> 'w \<Rightarrow> http_reply \<times> 'w"

definition error_reply :: "int \<Rightarrow> string \<Rightarrow> string \<Rightarrow> http_reply" where
  "error_reply code kind msg = Reply code (Some \<lparr>ev_success = False, ev_data = NoData, ev_error = Some (kind, msg)\<rparr>)"

definition data_reply :: "agent_data \<Rightarrow> http_reply" where
  "data_reply v = Reply 200 (Some \<lparr>ev_success = True, ev_data = v, ev_error = None\<rparr>)"

definition respond :: "string + agent_data \<Rightarrow> http_reply" where
  "respond r = (case r of Inl e \<Rightarrow> error_reply 500 ''AGENT_ERROR'' e | Inr v \<Rightarrow> data_reply v)"

definition bad_body :: http_reply where
  "bad_body = error_reply 400 ''BAD_REQUEST'' ''invalid JSON''"

definition route_not_found :: http_reply where
  "route_not_found = error_reply 404 ''NOT_FOUND'' ''route not found''"

text \<open>A handler that reads a body: \<open>dec\<close> decodes it or the answer is 400.\<close>

definition with_body :: "(config \<Rightarrow> 'b option) \<Rightarrow> server_request \<Rightarrow> ('b \<Rightarrow> 'w \<Rightarrow> http_reply \<times> 'w) \<Rightarrow> 'w \<Rightarrow> http_reply \<times> 'w" where
  "with_body dec q k w =
     (case body_object (sr_body q) of
        None \<Rightarrow> (bad_body, w)
      | Some c \<Rightarrow> (case dec c of None \<Rightarrow> (bad_body, w) | Some b \<Rightarrow> k b w))"

definition agent_middleware :: "agent_config \<Rightarrow> 'w agent_handler \<Rightarrow> 'w agent_handler" where
  "agent_middleware cfg next_handler q w =
     (if sr_path q \<noteq> ''/health'' \<and> \<not> ac_allow_anonymous cfg \<and> trim_space (ac_api_key cfg) \<noteq> [] \<and> sr_key q \<noteq> ac_api_key cfg
      then (error_reply 401 ''UNAUTHORIZED'' ''invalid api key'', w)
      else next_handler q w)"

text \<open>The multiplexer of \<open>net/http\<close>: a path that is not clean is redirected, an unknown path is 404 and a known
  one with another method 405, both without an envelope.\<close>

definition clean_path :: "string \<Rightarrow> bool" where
  "clean_path raw =
     (case split_on (CHR ''/'') raw of
        [] \<Rightarrow> False
      | s # ss \<Rightarrow> s = [] \<and> ss \<noteq> [] \<and> (\<forall>x \<in> set (butlast ss). x \<noteq> [] \<and> x \<noteq> ''.'' \<and> x \<noteq> ''..'') \<and>
          last ss \<noteq> ''.'' \<and> last ss \<noteq> ''..'')"

definition segments_after :: "string \<Rightarrow> string \<Rightarrow> string list" where
  "segments_after prefix path = split_on (CHR ''/'') (trim_char (CHR ''/'') (trim_prefix path prefix))"

definition answer_with :: "('a \<Rightarrow> agent_data) \<Rightarrow> ('a, 'w) script \<Rightarrow> 'w \<Rightarrow> http_reply \<times> 'w" where
  "answer_with f p w = (case p w of (Inl e, w1) \<Rightarrow> (respond (Inl e), w1) | (Inr x, w1) \<Rightarrow> (respond (Inr (f x)), w1))"

definition done_data :: "unit \<Rightarrow> agent_data" where
  "done_data u = ObjectData"

subsection \<open>From the client to the agent\<close>

text \<open>\<open>PathUnescape\<close> and \<open>QueryUnescape\<close>.\<close>

fun unescape :: "bool \<Rightarrow> string \<Rightarrow> string option" where
  "unescape query [] = Some []"
| "unescape query (c # s) =
     (if c = CHR ''%'' then
        (case s of
           a # b # t \<Rightarrow>
             (case (hex_value a, hex_value b) of
                (Some x, Some y) \<Rightarrow> map_option ((#) (char_of (16 * x + y))) (unescape query t)
              | _ \<Rightarrow> None)
         | _ \<Rightarrow> None)
      else map_option ((#) (if query \<and> c = CHR ''+'' then CHR '' '' else c)) (unescape query s))"

text \<open>The multiplexer looks at the segments of the escaped path, each unescaped.\<close>

definition raw_segments :: "string \<Rightarrow> string list" where
  "raw_segments raw = map (\<lambda>s. case unescape False s of None \<Rightarrow> s | Some t \<Rightarrow> t) (tl (split_on (CHR ''/'') raw))"

definition only_method :: "http_method \<Rightarrow> 'w agent_handler \<Rightarrow> 'w agent_handler" where
  "only_method m h q w = (if sr_method q = m then h q w else (Reply 405 None, w))"

definition cut_at :: "char \<Rightarrow> string \<Rightarrow> string \<times> string" where
  "cut_at c s = (takeWhile (\<lambda>x. x \<noteq> c) s, drop 1 (dropWhile (\<lambda>x. x \<noteq> c) s))"

fun query_pairs :: "string list \<Rightarrow> (string \<times> string) list" where
  "query_pairs [] = []"
| "query_pairs (p # ps) =
     (if p = [] \<or> CHR '';'' \<in> set p then query_pairs ps
      else case cut_at (CHR ''='') p of (k, v) \<Rightarrow>
        (case (unescape True k, unescape True v) of
           (Some k', Some v') \<Rightarrow> (k', v') # query_pairs ps
         | _ \<Rightarrow> query_pairs ps))"

definition parse_query :: "string \<Rightarrow> (string \<times> string) list" where
  "parse_query s = query_pairs (split_on (CHR ''&'') s)"

definition query_get :: "(string \<times> string) list \<Rightarrow> string \<Rightarrow> string" where
  "query_get q k = (case map_of q k of None \<Rightarrow> [] | Some v \<Rightarrow> v)"

text \<open>Blanks around a header value are dropped on the way.\<close>

definition header_value :: "string \<Rightarrow> string" where
  "header_value s = (let blank = (\<lambda>c. c = CHR '' '' \<or> c = CHR 0x09)
     in rev (dropWhile blank (rev (dropWhile blank s))))"

text \<open>An agent at the address \<open>base\<close> as the network the client sees.\<close>

definition agent_network ::
    "(gotime \<Rightarrow> string) \<Rightarrow> string \<Rightarrow> 'w agent_handler \<Rightarrow> 'w network" where
  "agent_network tt base h q w =
     (if \<not> has_prefix (q_url q) base then (NoReply (OtherFailure ''no such host''), w)
      else case cut_at (CHR ''?'') (drop (length base) (q_url q)) of (raw, query) \<Rightarrow>
        (case unescape False raw of
           None \<Rightarrow> (NoReply (OtherFailure ''invalid URL escape''), w)
         | Some path \<Rightarrow>
             h \<lparr>sr_method = q_method q, sr_raw_path = raw, sr_path = path, sr_query = parse_query query,
                sr_key = (case q_api_key q of None \<Rightarrow> [] | Some k \<Rightarrow> header_value k),
                sr_body = body_json tt (q_body q)\<rparr> w))"

subsection \<open>Escaping is undone\<close>

lemma hex_upper_value: "n < 16 \<Longrightarrow> hex_value (hex_upper n) = Some n"
  by (auto simp: hex_value_def hex_upper_def char_code_char_of char_code_def)

lemma unescape_percent: "unescape query (percent c @ s) = map_option ((#) c) (unescape query s)"
proof -
  have "char_code c div 16 < 16" "char_code c mod 16 < 16"
    using char_code_bound [of c] by (simp_all add: less_mult_imp_div_less)
  moreover have "char_of (16 * (char_code c div 16) + char_code c mod 16) = c"
    by (simp add: char_code_def)
  ultimately show ?thesis by (simp add: percent_def hex_upper_value)
qed

lemma unescape_path: "unescape False (path_escape s @ t) = map_option ((@) s) (unescape False t)"
proof (induction s)
  case (Cons c s)
  have "unescape False ((if unreserved c \<or> c \<in> set ''$&+=:@'' then [c] else percent c) @ u) =
      map_option ((#) c) (unescape False u)" for u
    by (cases "c = CHR ''%''") (auto simp: unescape_percent unreserved_def char_code_def Let_def)
  then show ?case using Cons.IH by (simp add: path_escape_def option.map_comp comp_def)
qed (simp add: path_escape_def option.map_ident)

theorem escaped_path_roundtrip: "unescape False (path_escape s) = Some s"
  using unescape_path [of s "[]"] by simp

end
