(* ===== verification/ZL_Dns_Agent.thy ===== *)
theory ZL_Dns_Agent
  imports ZL_Agent_Server ZL_Dns_Handlers
begin

text \<open>
  The DNS agent, \<open>src/dns-agent\<close>: the PowerShell scripts and the provider of \<open>internal/dns/powershell.go\<close>
  and the routes of \<open>internal/server/server.go\<close>. The cmdlets of the \<open>DnsServer\<close> module are a parameter
  \<open>dns_host\<close> over the state of the Windows server; the scripts are translated into the calls they make,
  a statement with \<open>-ErrorAction Stop\<close> ending the script with its error. A script runs to its end: a
  timeout in the middle of one is not modelled. Comparisons of texts in PowerShell ignore case.
\<close>

subsection \<open>The host\<close>

text \<open>The properties of the record data with their texts, and the lines of a TXT record.\<close>

record host_record =
  hr_type :: string
  hr_name :: string
  hr_ttl :: int
  hr_data :: "(string \<times> string) list"
  hr_texts :: "string list"

record host_zone =
  hz_name :: string
  hz_type :: string
  hz_reverse :: bool
  hz_dynamic_update :: string

datatype zone_key = NetworkId string | ZoneName string

datatype zone_storage = DomainStorage | ZoneFile string

text \<open>\<open>dh_start\<close> fails when PowerShell or the module does not start; a record that cannot be read is \<open>None\<close>.\<close>

record 'w dns_host =
  dh_start :: "(unit, 'w) script"
  dh_now :: gotime
  dh_zones :: "(host_zone list, 'w) script"
  dh_find_zone :: "string \<Rightarrow> 'w \<Rightarrow> host_zone option"
  dh_add_zone :: "zone_key \<Rightarrow> zone_storage \<Rightarrow> string \<Rightarrow> (unit, 'w) script"
  dh_remove_zone :: "string \<Rightarrow> (unit, 'w) script"
  dh_all_records :: "string \<Rightarrow> (host_record option list, 'w) script"
  dh_records :: "string \<Rightarrow> string \<Rightarrow> string \<Rightarrow> 'w \<Rightarrow> string + host_record list"
  dh_remove_record :: "string \<Rightarrow> host_record \<Rightarrow> (unit, 'w) script"
  dh_add_record :: "string \<Rightarrow> string \<Rightarrow> string \<Rightarrow> string \<Rightarrow> int option \<Rightarrow> (unit, 'w) script"

subsection \<open>The data of the agent\<close>

record agent_zone =
  az_id :: string
  az_name :: string
  az_type :: string
  az_reverse :: bool
  az_dynamic_update :: string
  az_server_id :: string

record agent_record =
  ag_id :: string
  ag_zone_id :: string
  ag_name :: string
  ag_type :: string
  ag_value :: string
  ag_ttl :: int
  ag_create_ptr :: bool
  ag_updated_at :: string

record create_record_result =
  cr_created :: bool
  cr_ptr :: "agent_record option"
  cr_warnings :: "string list"

subsection \<open>Names and values\<close>

definition agent_validate_record :: "agent_record \<Rightarrow> string option" where
  "agent_validate_record r =
     (if trim_space (ag_name r) = [] \<or> trim_space (ag_type r) = [] \<or> trim_space (ag_value r) = []
      then Some ''record name, type and value are required''
      else if equal_fold (ag_type r) ''A'' \<and> parse_ip_to4 (ag_value r) = None then Some ''invalid IPv4 address''
      else if equal_fold (ag_type r) ''AAAA'' \<and> parse_ip (ag_value r) = None then Some ''invalid IPv6 address''
      else None)"

definition ptr_record_relative_name :: "string \<Rightarrow> string \<Rightarrow> string" where
  "ptr_record_relative_name zone name =
     (let n = trim_char (CHR ''.'') (trim_space name) in
      case parse_ip_to4 n of
        None \<Rightarrow> n
      | Some ip \<Rightarrow>
          (let parts = split_on (CHR ''.'') (trim_suffix (to_lower (trim_space zone)) ''.in-addr.arpa'') in
           if parts = [] \<or> length parts \<ge> 4 then n
           else case network_octets (rev parts) of
             None \<Rightarrow> n
           | Some expected \<Rightarrow> if take (length expected) ip \<noteq> expected then n else itoa (ip ! length expected)))"

definition reverse_zone_network_id :: "string \<Rightarrow> string" where
  "reverse_zone_network_id name =
     (let v = trim_char (CHR ''.'') (trim_space name) in
      if has_suffix (to_lower v) ''.in-addr.arpa'' then trim_suffix v ''.in-addr.arpa'' else v)"

definition record_name_for_write :: "string \<Rightarrow> agent_record \<Rightarrow> string" where
  "record_name_for_write zone r =
     (if equal_fold (ag_type r) ''PTR'' then ptr_record_relative_name zone (ag_name r) else ag_name r)"

definition host_name :: "string \<Rightarrow> string" where
  "host_name n = (if n = ''@'' then [] else n)"

definition agent_fqdn :: "string \<Rightarrow> agent_record \<Rightarrow> string" where
  "agent_fqdn zone r =
     (let n = trim_space (ag_name r);
          f = (if n = ''@'' \<or> n = [] then zone else n @ ''.'' @ zone)
      in if has_suffix f ''.'' then f else f @ ''.'')"

definition reverse_zone_of :: "nat list \<Rightarrow> string" where
  "reverse_zone_of ip = itoa (ip ! 2) @ ''.'' @ itoa (ip ! 1) @ ''.'' @ itoa (ip ! 0) @ ''.in-addr.arpa''"

text \<open>Texts go into a script between single quotes.\<close>

definition ps_string :: "string \<Rightarrow> string" where
  "ps_string v = [CHR 0x27] @ replace_all [CHR 0x27] [CHR 0x27, CHR 0x27] v @ [CHR 0x27]"

subsection \<open>What a script reads from a record\<close>

fun data_value :: "string list \<Rightarrow> host_record \<Rightarrow> string" where
  "data_value [] r = []"
| "data_value (n # ns) r = (case map_of (hr_data r) n of Some v \<Rightarrow> v | None \<Rightarrow> data_value ns r)"

definition record_value :: "string \<Rightarrow> host_record \<Rightarrow> string" where
  "record_value t r =
     (let u = to_upper t in
      if u = ''A'' then data_value [''IPv4Address'', ''IPAddress''] r
      else if u = ''AAAA'' then data_value [''IPv6Address'', ''IPAddress''] r
      else if u = ''CNAME'' then data_value [''HostNameAlias'', ''DomainName''] r
      else if u = ''MX'' then data_value [''Preference''] r @ '' '' @ data_value [''MailExchange'', ''DomainName''] r
      else if u = ''TXT'' then join_with '' '' (hr_texts r)
      else if u = ''PTR'' then data_value [''PtrDomainName'', ''DomainName''] r
      else if u = ''NS'' then data_value [''NameServer'', ''DomainName''] r
      else if u = ''SRV'' then join_with '' '' [data_value [''Priority''] r, data_value [''Weight''] r,
        data_value [''Port''] r, data_value [''DomainName''] r]
      else [])"

definition listed_value :: "host_record \<Rightarrow> string" where
  "listed_value r =
     (if to_upper (hr_type r) = ''SOA''
      then join_with '' '' [data_value [''PrimaryServer'', ''PrimaryServerName''] r,
        data_value [''ResponsiblePerson'', ''ResponsiblePersonName''] r, data_value [''SerialNumber''] r]
      else record_value (hr_type r) r)"

definition normalize_record_value :: "string \<Rightarrow> string \<Rightarrow> string" where
  "normalize_record_value t v =
     (if to_upper t \<in> {''CNAME'', ''PTR'', ''NS''}
      then to_lower (rev (dropWhile (\<lambda>c. c = CHR ''.'') (rev (trim_space v)))) else trim_space v)"

definition same_value :: "string \<Rightarrow> string \<Rightarrow> string \<Rightarrow> bool" where
  "same_value t v v' \<longleftrightarrow> equal_fold (normalize_record_value t v) (normalize_record_value t v')"

text \<open>The record to remove: the first with the value, or the only one of its name.\<close>

definition find_target :: "string \<Rightarrow> string \<Rightarrow> bool \<Rightarrow> host_record list \<Rightarrow> host_record option" where
  "find_target t v fallback rs =
     (case find (\<lambda>r. same_value t (record_value t r) v) rs of
        Some r \<Rightarrow> Some r
      | None \<Rightarrow> if fallback \<and> length rs = 1 then Some (hd rs) else None)"

definition listed_name :: "string \<Rightarrow> host_record \<Rightarrow> string" where
  "listed_name zone r =
     (let n = (if hr_name r = [] \<or> hr_name r = ''.'' then ''@'' else hr_name r) in
      if equal_fold (hr_type r) ''PTR'' \<and> has_suffix (to_lower zone) ''.in-addr.arpa'' \<and> list_all is_digit n
      then join_with ''.'' (rev (split_on (CHR ''.'') (take (length zone - 13) zone)) @ [n]) @ ''.'' else n)"

subsection \<open>The scripts\<close>

definition list_zones_script :: "'w dns_host \<Rightarrow> (dns_zone list, 'w) script" where
  "list_zones_script H = then_do (dh_start H) (\<lambda>_. then_do (dh_zones H) (\<lambda>zs. returns
     (map (\<lambda>z. \<lparr>z_id = hz_name z, z_name = hz_name z, z_type = hz_type z, z_reverse = hz_reverse z,
        z_dynamic_update = (if equal_fold (hz_dynamic_update z) ''NonsecureAndSecure'' then ''Nonsecure'' else hz_dynamic_update z),
        z_server_id = ''local'', z_last_synced_at = None, z_sync_status = [], z_last_error = []\<rparr>)
      (filter (\<lambda>z. to_upper (hz_type z) \<in> {''PRIMARY'', ''SECONDARY'', ''STUB''} \<and>
         to_lower (trim_char (CHR ''.'') (hz_name z)) \<notin>
           {''trustanchors'', ''0.in-addr.arpa'', ''127.in-addr.arpa'', ''255.in-addr.arpa''}) zs))))"

definition create_zone_script :: "'w dns_host \<Rightarrow> agent_zone \<Rightarrow> (unit, 'w) script" where
  "create_zone_script H z =
     (let name = trim_char (CHR ''.'') (trim_space (az_name z));
          dyn = (if az_dynamic_update z = [] then ''None'' else az_dynamic_update z);
          dyn1 = (if equal_fold dyn ''Nonsecure'' then ''NonsecureAndSecure'' else dyn);
          key = (if az_reverse z then NetworkId (reverse_zone_network_id name) else ZoneName name)
      in then_do (dh_start H) (\<lambda>_. then_do
           (try_catch (dh_add_zone H key DomainStorage dyn1) (dh_add_zone H key (ZoneFile (name @ ''.dns'')) dyn1))
           (\<lambda>_ w. if dh_find_zone H name w = None then (Inl (''DNS zone was not found after creation: '' @ name), w)
                  else (Inr (), w))))"

definition delete_zone_script :: "'w dns_host \<Rightarrow> string \<Rightarrow> (unit, 'w) script" where
  "delete_zone_script H name = then_do (dh_start H) (\<lambda>_. dh_remove_zone H name)"

definition list_records_script :: "'w dns_host \<Rightarrow> string \<Rightarrow> (dns_record list, 'w) script" where
  "list_records_script H zone = then_do (dh_start H) (\<lambda>_. then_do (dh_all_records H zone) (\<lambda>rs. returns
     (concat (map (\<lambda>r. case r of None \<Rightarrow> [] | Some h \<Rightarrow>
        (if trim_space (listed_value h) = [] then []
         else [\<lparr>r_id = zone @ ''|'' @ hr_type h @ ''|'' @ listed_name zone h @ ''|'' @ listed_value h, r_zone_id = zone,
            r_name = listed_name zone h, r_type = hr_type h, r_value = listed_value h, r_ttl = hr_ttl h,
            r_create_ptr = False, r_updated_at = dh_now H, r_last_synced_at = None\<rparr>])) rs))))"

definition add_record_command :: "'w dns_host \<Rightarrow> string \<Rightarrow> string \<Rightarrow> string \<Rightarrow> string \<Rightarrow> int \<Rightarrow> (unit, 'w) script" where
  "add_record_command H zone name t v ttl =
     (if t \<in> {''A'', ''AAAA'', ''CNAME'', ''PTR'', ''TXT''} then dh_add_record H zone name t v (Some ttl)
      else throws ''Unsupported record type'')"

text \<open>The PTR part: \<open>None\<close> when there is no reverse zone. An error of the search counts as nothing found.\<close>

definition ptr_exists :: "'w dns_host \<Rightarrow> string \<Rightarrow> string \<Rightarrow> string \<Rightarrow> 'w \<Rightarrow> bool" where
  "ptr_exists H rz name fqdn w =
     (case dh_records H rz name ''PTR'' w of
        Inl e \<Rightarrow> False
      | Inr rs \<Rightarrow> \<exists>r \<in> set rs. equal_fold (data_value [''PtrDomainName''] r) fqdn)"

definition add_ptr_script :: "'w dns_host \<Rightarrow> nat list \<Rightarrow> string \<Rightarrow> (bool, 'w) script" where
  "add_ptr_script H ip fqdn w =
     (let rz = reverse_zone_of ip; name = itoa (ip ! 3) in
      if dh_find_zone H rz w = None then (Inr False, w)
      else if ptr_exists H rz name fqdn w then (Inr True, w)
      else then_do (dh_add_record H rz name ''PTR'' fqdn None) (\<lambda>_. returns True) w)"

definition ptr_answer :: "agent_record \<Rightarrow> string \<Rightarrow> agent_record" where
  "ptr_answer r fqdn = \<lparr>ag_id = [], ag_zone_id = [], ag_name = trim_space (ag_value r) @ ''.'', ag_type = ''PTR'',
     ag_value = fqdn, ag_ttl = ag_ttl r, ag_create_ptr = False, ag_updated_at = []\<rparr>"

definition create_record_script :: "'w dns_host \<Rightarrow> string \<Rightarrow> agent_record \<Rightarrow> (create_record_result, 'w) script" where
  "create_record_script H zone r =
     then_do (dh_start H) (\<lambda>_. then_do
       (add_record_command H zone (host_name (record_name_for_write zone r)) (to_upper (ag_type r)) (ag_value r) (ag_ttl r))
       (\<lambda>_. if \<not> (equal_fold (ag_type r) ''A'' \<and> ag_create_ptr r)
             then returns \<lparr>cr_created = True, cr_ptr = None, cr_warnings = []\<rparr>
             else case parse_ip_to4 (ag_value r) of
               None \<Rightarrow> returns \<lparr>cr_created = True, cr_ptr = None, cr_warnings = [''not an IPv4 address'']\<rparr>
             | Some ip \<Rightarrow> then_do (add_ptr_script H ip (agent_fqdn zone r)) (\<lambda>found. returns
                 (if found then \<lparr>cr_created = True, cr_ptr = Some (ptr_answer r (agent_fqdn zone r)), cr_warnings = []\<rparr>
                  else \<lparr>cr_created = True, cr_ptr = None, cr_warnings = [''no reverse zone'']\<rparr>))))"

definition remove_found :: "'w dns_host \<Rightarrow> string \<Rightarrow> string \<Rightarrow> string \<Rightarrow> string \<Rightarrow> (unit, 'w) script" where
  "remove_found H zone name t v =
     then_do (reads (dh_records H zone name t)) (\<lambda>rs. case find_target t v True rs of
        None \<Rightarrow> throws ''DNS record not found''
      | Some r \<Rightarrow> dh_remove_record H zone r)"

definition name_for_delete :: "string \<Rightarrow> agent_record \<Rightarrow> string" where
  "name_for_delete zone r =
     (let n = host_name (ag_name r) in if equal_fold (ag_type r) ''PTR'' then ptr_record_relative_name zone n else n)"

definition delete_record_script :: "'w dns_host \<Rightarrow> string \<Rightarrow> agent_record \<Rightarrow> (unit, 'w) script" where
  "delete_record_script H zone r =
     then_do (dh_start H) (\<lambda>_. remove_found H zone (name_for_delete zone r) (to_upper (ag_type r)) (ag_value r))"

definition update_record_script :: "'w dns_host \<Rightarrow> string \<Rightarrow> agent_record \<Rightarrow> agent_record \<Rightarrow> (unit, 'w) script" where
  "update_record_script H zone old new =
     (let t = to_upper (ag_type old) in
      then_do (dh_start H) (\<lambda>_. then_do (remove_found H zone (host_name (record_name_for_write zone old)) t (ag_value old))
        (\<lambda>_. add_record_command H zone (host_name (record_name_for_write zone new)) t (ag_value new) (ag_ttl new))))"

text \<open>The PTR records of an address that point to the name: each is removed, an error ends the script.\<close>

fun remove_records :: "'w dns_host \<Rightarrow> string \<Rightarrow> host_record list \<Rightarrow> (unit, 'w) script" where
  "remove_records H zone [] = returns ()"
| "remove_records H zone (r # rs) = then_do (dh_remove_record H zone r) (\<lambda>_. remove_records H zone rs)"

definition delete_ptr_script :: "'w dns_host \<Rightarrow> nat list \<Rightarrow> string \<Rightarrow> (unit, 'w) script" where
  "delete_ptr_script H ip fqdn = then_do (dh_start H) (\<lambda>_ w.
     let rz = reverse_zone_of ip in
     if dh_find_zone H rz w = None then (Inr (), w)
     else case dh_records H rz (itoa (ip ! 3)) ''PTR'' w of
       Inl e \<Rightarrow> (Inr (), w)
     | Inr rs \<Rightarrow> remove_records H rz (filter (\<lambda>r. equal_fold (data_value [''PtrDomainName''] r) fqdn) rs) w)"

subsection \<open>The provider\<close>

definition run_dns :: "('a, 'w) script \<Rightarrow> ('a, 'w) script" where
  "run_dns = run_script (\<lambda>e. e)"

definition provider_list_zones :: "'w dns_host \<Rightarrow> (dns_zone list, 'w) script" where
  "provider_list_zones H = run_dns (list_zones_script H)"

definition provider_delete_zone :: "'w dns_host \<Rightarrow> string \<Rightarrow> (unit, 'w) script" where
  "provider_delete_zone H name = run_dns (delete_zone_script H name)"

definition provider_list_records :: "'w dns_host \<Rightarrow> string \<Rightarrow> (dns_record list, 'w) script" where
  "provider_list_records H zone = run_dns (list_records_script H zone)"

definition provider_create_zone :: "'w dns_host \<Rightarrow> agent_zone \<Rightarrow> (unit, 'w) script" where
  "provider_create_zone H z =
     (if trim_space (az_name z) = [] then throws ''zone name is required'' else run_dns (create_zone_script H z))"

definition provider_create_record :: "'w dns_host \<Rightarrow> string \<Rightarrow> agent_record \<Rightarrow> (create_record_result, 'w) script" where
  "provider_create_record H zone r =
     (case agent_validate_record r of
        Some e \<Rightarrow> throws e
      | None \<Rightarrow> run_dns (create_record_script H zone (if ag_ttl r \<le> 0 then r\<lparr>ag_ttl := 3600\<rparr> else r)))"

definition delete_ptr_best_effort :: "'w dns_host \<Rightarrow> string \<Rightarrow> agent_record \<Rightarrow> 'w \<Rightarrow> 'w" where
  "delete_ptr_best_effort H zone r w =
     (case parse_ip_to4 (ag_value r) of None \<Rightarrow> w | Some ip \<Rightarrow> snd (run_dns (delete_ptr_script H ip (agent_fqdn zone r)) w))"

definition create_ptr_best_effort ::
    "'w dns_host \<Rightarrow> string \<Rightarrow> agent_record \<Rightarrow> 'w \<Rightarrow> (agent_record option \<times> string) \<times> 'w" where
  "create_ptr_best_effort H zone r w =
     (case parse_ip_to4 (ag_value r) of
        None \<Rightarrow> ((None, ''not an IPv4 address''), w)
      | Some ip \<Rightarrow>
          (case run_dns (then_do (dh_start H) (\<lambda>_. add_ptr_script H ip (agent_fqdn zone r))) w of
             (Inr True, w1) \<Rightarrow> ((Some (ptr_answer r (agent_fqdn zone r)), []), w1)
           | (_, w1) \<Rightarrow> ((None, ''no reverse zone''), w1)))"

definition provider_delete_record :: "'w dns_host \<Rightarrow> string \<Rightarrow> agent_record \<Rightarrow> (unit, 'w) script" where
  "provider_delete_record H zone r =
     (case agent_validate_record r of
        Some e \<Rightarrow> throws e
      | None \<Rightarrow> then_do (run_dns (delete_record_script H zone r)) (\<lambda>_ w. (Inr (),
          if equal_fold (ag_type r) ''A'' \<and> ag_create_ptr r then delete_ptr_best_effort H zone r w else w)))"

definition updated_ptr :: "'w dns_host \<Rightarrow> string \<Rightarrow> agent_record \<Rightarrow> agent_record \<Rightarrow> (create_record_result, 'w) script" where
  "updated_ptr H zone old new w =
     (let w1 = (if equal_fold (ag_type old) ''A'' \<and> ag_create_ptr old then delete_ptr_best_effort H zone old w else w);
          r = \<lparr>cr_created = True, cr_ptr = None, cr_warnings = []\<rparr>
      in if equal_fold (ag_type new) ''A'' \<and> ag_create_ptr new then
           (case create_ptr_best_effort H zone new w1 of ((p, warning), w2) \<Rightarrow>
              (Inr (if warning \<noteq> [] then r\<lparr>cr_warnings := [warning]\<rparr> else r\<lparr>cr_ptr := p\<rparr>), w2))
         else (Inr r, w1))"

definition provider_update_record ::
    "'w dns_host \<Rightarrow> string \<Rightarrow> agent_record \<Rightarrow> agent_record \<Rightarrow> (create_record_result, 'w) script" where
  "provider_update_record H zone old new =
     (case agent_validate_record old of
        Some e \<Rightarrow> throws e
      | None \<Rightarrow>
          (case agent_validate_record new of
             Some e \<Rightarrow> throws e
           | None \<Rightarrow>
               if \<not> equal_fold (ag_name old) (ag_name new) \<or> \<not> equal_fold (ag_type old) (ag_type new)
               then throws ''record update only supports value changes''
               else let ttl = (if ag_ttl new \<le> 0 then ag_ttl old else ag_ttl new);
                        new1 = new\<lparr>ag_ttl := (if ttl \<le> 0 then 3600 else ttl)\<rparr>
                    in then_do (run_dns (update_record_script H zone old new1)) (\<lambda>_. updated_ptr H zone old new1)))"

subsection \<open>Decoding\<close>

definition decode_agent_zone :: "config \<Rightarrow> agent_zone option" where
  "decode_agent_zone c =
     (case (text_of c ''id'', text_of c ''name'', text_of c ''type'', bool_of c ''reverse'', text_of c ''dynamicUpdate'',
            text_of c ''serverId'') of
        (Some i, Some n, Some t, Some r, Some d, Some s) \<Rightarrow>
          Some \<lparr>az_id = i, az_name = n, az_type = t, az_reverse = r, az_dynamic_update = d, az_server_id = s\<rparr>
      | _ \<Rightarrow> None)"

definition decode_agent_record :: "config \<Rightarrow> agent_record option" where
  "decode_agent_record c =
     (case (text_of c ''id'', text_of c ''zoneId'', text_of c ''name'', text_of c ''type'', text_of c ''value'') of
        (Some i, Some z, Some n, Some t, Some v) \<Rightarrow>
          (case (int_of c ''ttl'', bool_of c ''createPtr'', text_of c ''updatedAt'') of
             (Some l, Some p, Some u) \<Rightarrow>
               Some \<lparr>ag_id = i, ag_zone_id = z, ag_name = n, ag_type = t, ag_value = v, ag_ttl = l, ag_create_ptr = p, ag_updated_at = u\<rparr>
           | _ \<Rightarrow> None)
      | _ \<Rightarrow> None)"

definition decode_record_body :: "config \<Rightarrow> (string \<times> agent_record) option" where
  "decode_record_body c =
     (case (text_of c ''zone'', Option.bind (object_of c ''record'') decode_agent_record) of
        (Some z, Some r) \<Rightarrow> Some (z, r) | _ \<Rightarrow> None)"

definition decode_record_update :: "config \<Rightarrow> (agent_record \<times> agent_record) option" where
  "decode_record_update c =
     (case (Option.bind (object_of c ''old'') decode_agent_record, Option.bind (object_of c ''new'') decode_agent_record) of
        (Some a, Some b) \<Rightarrow> Some (a, b) | _ \<Rightarrow> None)"

definition decode_update_body :: "config \<Rightarrow> (string \<times> agent_record \<times> agent_record) option" where
  "decode_update_body c =
     (case (text_of c ''zone'', Option.bind (object_of c ''update'') decode_record_update) of
        (Some z, Some u) \<Rightarrow> Some (z, u) | _ \<Rightarrow> None)"

subsection \<open>The routes\<close>

definition result_data :: "create_record_result \<Rightarrow> agent_data" where
  "result_data r = OutcomeData (cr_created r) (cr_warnings r)"

definition zone_required :: http_reply where
  "zone_required = error_reply 400 ''BAD_REQUEST'' ''zone is required''"

text \<open>A body with a zone, which must not be blank.\<close>

definition with_zone :: "string \<Rightarrow> (string \<Rightarrow> 'w \<Rightarrow> http_reply \<times> 'w) \<Rightarrow> 'w \<Rightarrow> http_reply \<times> 'w" where
  "with_zone zone k w = (if trim_space zone = [] then (zone_required, w) else k (trim_space zone) w)"

definition dns_list_zones :: "'w dns_host \<Rightarrow> 'w agent_handler" where
  "dns_list_zones H q = answer_with ZonesData (provider_list_zones H)"

definition dns_create_zone :: "'w dns_host \<Rightarrow> 'w agent_handler" where
  "dns_create_zone H q = with_body decode_agent_zone q (\<lambda>z. answer_with done_data (provider_create_zone H z))"

definition dns_query_records :: "'w dns_host \<Rightarrow> 'w agent_handler" where
  "dns_query_records H q = with_body (\<lambda>c. text_of c ''zone'') q (\<lambda>z. with_zone z (\<lambda>zone.
     answer_with RecordsData (provider_list_records H zone)))"

definition dns_create_record :: "'w dns_host \<Rightarrow> 'w agent_handler" where
  "dns_create_record H q = with_body decode_record_body q (\<lambda>(z, r). with_zone z (\<lambda>zone.
     answer_with result_data (provider_create_record H zone r)))"

definition dns_delete_record :: "'w dns_host \<Rightarrow> 'w agent_handler" where
  "dns_delete_record H q = with_body decode_record_body q (\<lambda>(z, r). with_zone z (\<lambda>zone.
     answer_with done_data (provider_delete_record H zone r)))"

definition dns_update_record :: "'w dns_host \<Rightarrow> 'w agent_handler" where
  "dns_update_record H q = with_body decode_update_body q (\<lambda>(z, old, new). with_zone z (\<lambda>zone.
     answer_with result_data (provider_update_record H zone old new)))"

definition dns_delete_by_path :: "'w dns_host \<Rightarrow> string \<Rightarrow> string \<Rightarrow> string \<Rightarrow> 'w agent_handler" where
  "dns_delete_by_path H zone t n q = answer_with done_data (provider_delete_record H zone
     \<lparr>ag_id = [], ag_zone_id = [], ag_name = n, ag_type = t, ag_value = query_get (sr_query q) ''value'', ag_ttl = 0,
      ag_create_ptr = (query_get (sr_query q) ''createPtr'' = ''true''), ag_updated_at = []\<rparr>)"

definition dns_zone_route :: "'w dns_host \<Rightarrow> 'w agent_handler" where
  "dns_zone_route H q w =
     (let parts = segments_after ''/dns/zones/'' (sr_path q); m = sr_method q; zone = hd parts in
      if length parts = 1 \<and> m = MDelete then answer_with done_data (provider_delete_zone H zone) w
      else if length parts < 2 \<or> parts ! 1 \<noteq> ''records'' then (route_not_found, w)
      else if length parts = 2 \<and> m = MGet then answer_with RecordsData (provider_list_records H zone) w
      else if length parts = 2 \<and> m = MPost then
        with_body decode_agent_record q (\<lambda>r. answer_with result_data (provider_create_record H zone r)) w
      else if length parts = 2 \<and> m = MPut then
        with_body decode_record_update q (\<lambda>(old, new). answer_with result_data (provider_update_record H zone old new)) w
      else if length parts = 4 \<and> m = MDelete then dns_delete_by_path H zone (parts ! 2) (parts ! 3) q w
      else (route_not_found, w))"

definition dns_mux :: "'w dns_host \<Rightarrow> 'w agent_handler" where
  "dns_mux H q w =
     (let s = raw_segments (sr_raw_path q) in
      if \<not> clean_path (sr_raw_path q) then (Reply 301 None, w)
      else if s = [''health''] then only_method MGet (\<lambda>q w. (data_reply ObjectData, w)) q w
      else if s = [''dns'', ''zones''] then
        (if sr_method q = MGet then dns_list_zones H q w
         else if sr_method q = MPost then dns_create_zone H q w
         else (Reply 301 None, w))
      else if s = [''dns'', ''records'', ''query''] then only_method MPost (dns_query_records H) q w
      else if s = [''dns'', ''records'', ''create''] then only_method MPost (dns_create_record H) q w
      else if s = [''dns'', ''records'', ''delete''] then only_method MPost (dns_delete_record H) q w
      else if s = [''dns'', ''records'', ''update''] then only_method MPost (dns_update_record H) q w
      else if take 2 s = [''dns'', ''zones''] \<and> 2 < length s then dns_zone_route H q w
      else (Reply 404 None, w))"

definition dns_agent :: "agent_config \<Rightarrow> 'w dns_host \<Rightarrow> 'w agent_handler" where
  "dns_agent cfg H = agent_middleware cfg (dns_mux H)"

end
