(* ===== verification/ZL_Agent_Wire.thy ===== *)
theory ZL_Agent_Wire
  imports ZL_Dns_Agent ZL_Zone_Handlers
begin

text \<open>
  The backend and the DNS agent together: the calls of the record handlers over a network whose other
  end is the modelled agent.
\<close>

subsection \<open>What arrives\<close>

definition agent_view :: "(gotime \<Rightarrow> string) \<Rightarrow> dns_record \<Rightarrow> agent_record" where
  "agent_view tt r = \<lparr>ag_id = r_id r, ag_zone_id = r_zone_id r, ag_name = r_name r, ag_type = r_type r,
     ag_value = r_value r, ag_ttl = r_ttl r, ag_create_ptr = r_create_ptr r, ag_updated_at = tt (r_updated_at r)\<rparr>"

definition go_int :: "int \<Rightarrow> bool" where
  "go_int n \<longleftrightarrow> - (2 ^ 63) \<le> n \<and> n < 2 ^ 63"

lemma cfg_get_Cons: "cfg_get ((k, v) # c) k' = (if k = k' then v else cfg_get c k')"
  by (simp add: cfg_get_def)

lemma cfg_get_time_field [simp]: "k \<noteq> k' \<Longrightarrow> cfg_get (time_field tt k v) k' = JNull"
  by (simp add: cfg_get_def time_field_def text_field_def split: option.split)

lemma int_of_json [simp]: "cfg_get c k = int_json n \<Longrightarrow> go_int n \<Longrightarrow> int_of c k = Some n"
  by (simp add: int_of_def int_json_def go_int_def)

lemma decoded_record: "go_int (r_ttl r) \<Longrightarrow> decode_agent_record (record_json tt r) = Some (agent_view tt r)"
  by (simp add: decode_agent_record_def record_json_def agent_view_def text_of_def bool_of_def cfg_get_Cons)

lemma decoded_bodies:
  assumes "go_int (r_ttl r)" "go_int (r_ttl r')"
  shows "body_object (body_json tt (RecordBody z r)) = Some [(''zone'', JText z), (''record'', JObject (record_json tt r))]"
    and "decode_record_body [(''zone'', JText z), (''record'', JObject (record_json tt r))] = Some (z, agent_view tt r)"
    and "body_object (body_json tt (UpdateBody z r r')) = Some [(''zone'', JText z),
       (''update'', JObject [(''old'', JObject (record_json tt r)), (''new'', JObject (record_json tt r'))])]"
    and "decode_update_body [(''zone'', JText z),
       (''update'', JObject [(''old'', JObject (record_json tt r)), (''new'', JObject (record_json tt r'))])] =
       Some (z, agent_view tt r, agent_view tt r')"
  using assms
  by (simp_all add: body_object_def decode_record_body_def decode_update_body_def decode_record_update_def object_of_def
      text_of_def cfg_get_Cons decoded_record)

subsection \<open>The way to a handler\<close>

definition key_accepted :: "agent_config \<Rightarrow> server \<Rightarrow> bool" where
  "key_accepted cfg srv \<longleftrightarrow> ac_allow_anonymous cfg \<or> trim_space (ac_api_key cfg) = [] \<or>
     (trim_space (sv_api_key srv) \<noteq> [] \<and> header_value (sv_api_key srv) = ac_api_key cfg)"

definition served_call :: "(agent_data \<Rightarrow> agent_error + 'a) \<Rightarrow> http_reply \<times> 'w \<Rightarrow> (agent_error + 'a) \<times> 'w" where
  "served_call dst x = (case x of
       (Reply code (Some env), w) \<Rightarrow>
         (if code < 200 \<or> 300 \<le> code \<or> \<not> ev_success env then
            (case ev_error env of
               Some (c, msg) \<Rightarrow> (Inl (StatusError code c msg), w)
             | None \<Rightarrow> (Inl (StatusError code [] []), w))
          else (dst (ev_data env), w))
     | (Reply code None, w) \<Rightarrow> (Inl DecodeFailure, w)
     | (NoReply e, w) \<Rightarrow> (Inl (TransportFailure e), w))"

definition arrived :: "(gotime \<Rightarrow> string) \<Rightarrow> server \<Rightarrow> http_method \<Rightarrow> string \<Rightarrow> string \<Rightarrow> string \<Rightarrow> agent_body \<Rightarrow> server_request" where
  "arrived tt srv m raw path query b =
     \<lparr>sr_method = m, sr_raw_path = raw, sr_path = path, sr_query = parse_query query,
      sr_key = (if trim_space (sv_api_key srv) \<noteq> [] then header_value (sv_api_key srv) else []), sr_body = body_json tt b\<rparr>"

lemma call_arrives:
  assumes "cut_at (CHR ''?'') url = (raw, query)" "unescape False raw = Some path"
  shows "agent_call (agent_network tt (trim_right_slash (sv_agent_url srv)) h) m srv url b dst w =
    served_call dst (h (arrived tt srv m raw path query b) w)"
  using assms
  by (auto simp: agent_call_def agent_do_def agent_network_def has_prefix_def served_call_def arrived_def Let_def
      split: prod.split http_reply.split option.split)

lemma past_the_key:
  assumes "key_accepted cfg srv \<or> path = ''/health''"
  shows "agent_middleware cfg h (arrived tt srv m raw path query b) = h (arrived tt srv m raw path query b)"
  using assms by (auto simp: agent_middleware_def key_accepted_def arrived_def fun_eq_iff)

lemma call_reaches:
  assumes "cut_at (CHR ''?'') url = (raw, query)" "unescape False raw = Some path" "key_accepted cfg srv"
  shows "agent_call (agent_network tt (trim_right_slash (sv_agent_url srv)) (agent_middleware cfg h)) m srv url b dst w =
    served_call dst (h (arrived tt srv m raw path query b) w)"
  by (simp only: call_arrives [OF assms(1,2)] past_the_key [OF disjI1 [OF assms(3)]])

lemma plain_urls:
  "cut_at (CHR ''?'') ''/dns/records/create'' = (''/dns/records/create'', [])"
  "cut_at (CHR ''?'') ''/dns/records/delete'' = (''/dns/records/delete'', [])"
  "cut_at (CHR ''?'') ''/dns/records/update'' = (''/dns/records/update'', [])"
  "cut_at (CHR ''?'') ''/dns/records/query'' = (''/dns/records/query'', [])"
  "unescape False ''/dns/records/create'' = Some ''/dns/records/create''"
  "unescape False ''/dns/records/delete'' = Some ''/dns/records/delete''"
  "unescape False ''/dns/records/update'' = Some ''/dns/records/update''"
  "unescape False ''/dns/records/query'' = Some ''/dns/records/query''"
  by (simp_all add: cut_at_def)

lemma plain_routes:
  "clean_path ''/dns/records/create''" "raw_segments ''/dns/records/create'' = [''dns'', ''records'', ''create'']"
  "clean_path ''/dns/records/delete''" "raw_segments ''/dns/records/delete'' = [''dns'', ''records'', ''delete'']"
  "clean_path ''/dns/records/update''" "raw_segments ''/dns/records/update'' = [''dns'', ''records'', ''update'']"
  "clean_path ''/dns/records/query''" "raw_segments ''/dns/records/query'' = [''dns'', ''records'', ''query'']"
  by (simp_all add: clean_path_def raw_segments_def)

lemma served_answer:
  "served_call dst (answer_with f p w) =
     (case p w of (Inl e, w1) \<Rightarrow> (Inl (StatusError 500 ''AGENT_ERROR'' e), w1) | (Inr x, w1) \<Rightarrow> (dst (f x), w1))"
  by (simp add: served_call_def answer_with_def respond_def error_reply_def data_reply_def split: prod.split sum.split)

definition as_agent_error :: "(string + 'a) \<times> 'w \<Rightarrow> (agent_error + 'a) \<times> 'w" where
  "as_agent_error x = (case x of (Inl e, w) \<Rightarrow> (Inl (StatusError 500 ''AGENT_ERROR'' e), w) | (Inr v, w) \<Rightarrow> (Inr v, w))"

lemma record_routes:
  assumes "trim_space zone = zone" "zone \<noteq> []" "go_int (r_ttl r)" "go_int (r_ttl r')"
  shows "dns_mux H (arrived tt srv MPost ''/dns/records/create'' path qs (RecordBody zone r)) =
      answer_with result_data (provider_create_record H zone (agent_view tt r))"
    and "dns_mux H (arrived tt srv MPost ''/dns/records/delete'' path qs (RecordBody zone r)) =
      answer_with done_data (provider_delete_record H zone (agent_view tt r))"
    and "dns_mux H (arrived tt srv MPost ''/dns/records/update'' path qs (UpdateBody zone r r')) =
      answer_with result_data (provider_update_record H zone (agent_view tt r) (agent_view tt r'))"
    and "dns_mux H (arrived tt srv MPost ''/dns/records/query'' path qs (ZoneBody zone)) =
      answer_with RecordsData (provider_list_records H zone)"
proof -
  note bodies = decoded_bodies [OF assms(3,4)]
  have zone: "body_object (body_json tt (ZoneBody zone)) = Some [(''zone'', JText zone)]" "text_of [(''zone'', JText zone)] ''zone'' = Some zone"
    by (simp_all add: body_object_def text_of_def cfg_get_Cons)
  note route = fun_eq_iff dns_mux_def arrived_def plain_routes only_method_def with_body_def with_zone_def assms(1,2)
  show "dns_mux H (arrived tt srv MPost ''/dns/records/create'' path qs (RecordBody zone r)) =
      answer_with result_data (provider_create_record H zone (agent_view tt r))"
    by (simp add: route dns_create_record_def bodies del: body_json.simps)
  show "dns_mux H (arrived tt srv MPost ''/dns/records/delete'' path qs (RecordBody zone r)) =
      answer_with done_data (provider_delete_record H zone (agent_view tt r))"
    by (simp add: route dns_delete_record_def bodies del: body_json.simps)
  show "dns_mux H (arrived tt srv MPost ''/dns/records/update'' path qs (UpdateBody zone r r')) =
      answer_with result_data (provider_update_record H zone (agent_view tt r) (agent_view tt r'))"
    by (simp add: route dns_update_record_def bodies del: body_json.simps)
  show "dns_mux H (arrived tt srv MPost ''/dns/records/query'' path qs (ZoneBody zone)) =
      answer_with RecordsData (provider_list_records H zone)"
    by (simp add: route dns_query_records_def zone del: body_json.simps)
qed

lemma served_unit: "served_call as_object (answer_with done_data p w) = as_agent_error (p w)"
  by (cases "p w") (simp add: served_answer as_agent_error_def as_object_def done_data_def split: sum.split)

lemma served_outcome: "served_call as_outcome (answer_with result_data p w) =
    (case as_agent_error (p w) of (Inl e, w1) \<Rightarrow> (Inl e, w1) | (Inr x, w1) \<Rightarrow> (Inr (cr_warnings x), w1))"
  by (cases "p w") (simp add: served_answer as_agent_error_def as_outcome_def result_data_def split: sum.split)

lemma served_records: "served_call as_records (answer_with RecordsData p w) = as_agent_error (p w)"
  by (cases "p w") (simp add: served_answer as_agent_error_def as_records_def split: sum.split)

text \<open>No answer of the provider reads as a missing route.\<close>

lemma provider_error_found: "as_agent_error x = (Inl e, w) \<Longrightarrow> \<not> agent_not_found e"
  by (auto simp: as_agent_error_def agent_not_found_def split: prod.splits sum.splits)

lemma no_fallback:
  assumes "\<And>e w1. x = (Inl e, w1) \<Longrightarrow> \<not> agent_not_found e"
  shows "(case x of (Inl e, w1) \<Rightarrow> if \<not> agent_not_found e then (Inl e, w1) else f e w1 | (Inr v, w1) \<Rightarrow> (Inr v, w1)) = x"
  using assms by (cases x; cases "fst x") auto

lemma outcome_error_found:
  "(case as_agent_error x of (Inl e, w1) \<Rightarrow> (Inl e, w1) | (Inr x, w1) \<Rightarrow> (Inr (cr_warnings x), w1)) = (Inl e, w) \<Longrightarrow>
    \<not> agent_not_found e"
  by (cases "as_agent_error x"; cases "fst (as_agent_error x)") (auto dest: provider_error_found)

lemma record_calls:
  assumes "net = agent_network tt (trim_right_slash (sv_agent_url srv)) (dns_agent cfg H)" "key_accepted cfg srv"
    and "trim_space zone = zone" "zone \<noteq> []" "go_int (r_ttl r)" "go_int (r_ttl r')"
  shows "create_dns_record_on_agent net srv zone r as_outcome w =
      (case as_agent_error (provider_create_record H zone (agent_view tt r) w) of
         (Inl e, w1) \<Rightarrow> (Inl e, w1) | (Inr x, w1) \<Rightarrow> (Inr (cr_warnings x), w1)) \<and>
    delete_dns_record_on_agent net srv zone r w = as_agent_error (provider_delete_record H zone (agent_view tt r) w) \<and>
    update_dns_record_on_agent net srv zone r r' w =
      (case as_agent_error (provider_update_record H zone (agent_view tt r) (agent_view tt r') w) of
         (Inl e, w1) \<Rightarrow> (Inl e, w1) | (Inr x, w1) \<Rightarrow> (Inr (cr_warnings x), w1)) \<and>
    fetch_dns_records_from_agent net srv zone w = as_agent_error (provider_list_records H zone w)"
proof -
  note reach = call_reaches [OF _ _ assms(2), where h = "dns_mux H" and tt = tt, folded dns_agent_def, folded assms(1)]
  note routes = record_routes [OF assms(3-6)]
  have "agent_call net MPost srv ''/dns/records/create'' (RecordBody zone r) as_outcome w =
      (case as_agent_error (provider_create_record H zone (agent_view tt r) w) of
         (Inl e, w1) \<Rightarrow> (Inl e, w1) | (Inr x, w1) \<Rightarrow> (Inr (cr_warnings x), w1))"
    by (simp only: reach [OF plain_urls(1,5)] routes served_outcome)
  moreover have "agent_call net MPost srv ''/dns/records/delete'' (RecordBody zone r) as_object w =
      as_agent_error (provider_delete_record H zone (agent_view tt r) w)"
    by (simp only: reach [OF plain_urls(2,6)] routes served_unit)
  moreover have "agent_call net MPost srv ''/dns/records/update'' (UpdateBody zone r r') as_outcome w =
      (case as_agent_error (provider_update_record H zone (agent_view tt r) (agent_view tt r') w) of
         (Inl e, w1) \<Rightarrow> (Inl e, w1) | (Inr x, w1) \<Rightarrow> (Inr (cr_warnings x), w1))"
    by (simp only: reach [OF plain_urls(3,7)] routes served_outcome)
  moreover have "agent_call net MPost srv ''/dns/records/query'' (ZoneBody zone) as_records w =
      as_agent_error (provider_list_records H zone w)"
    by (simp only: reach [OF plain_urls(4,8)] routes served_records)
  ultimately show ?thesis
    unfolding create_dns_record_on_agent_def delete_dns_record_on_agent_def update_dns_record_on_agent_def
      fetch_dns_records_from_agent_def
    by (simp only: no_fallback [OF outcome_error_found] no_fallback [OF provider_error_found] simp_thms)
qed

text \<open>C34. The calls of the record handlers do on the DNS server what they say: with an accepted key and a zone name
  without blanks around it, creating, deleting, updating and querying records over the agent's HTTP
  interface is the provider's operation on the record sent, once, with its result or its error; the
  paths of older agents are never tried.\<close>

theorem record_calls_reach_provider:
  assumes "net = agent_network tt (trim_right_slash (sv_agent_url srv)) (dns_agent cfg H)" "key_accepted cfg srv"
    and "trim_space zone = zone" "zone \<noteq> []" "go_int (r_ttl r)" "go_int (r_ttl r')"
  shows "create_dns_record_on_agent net srv zone r as_outcome w =
      (case as_agent_error (provider_create_record H zone (agent_view tt r) w) of
         (Inl e, w1) \<Rightarrow> (Inl e, w1) | (Inr x, w1) \<Rightarrow> (Inr (cr_warnings x), w1)) \<and>
    delete_dns_record_on_agent net srv zone r w = as_agent_error (provider_delete_record H zone (agent_view tt r) w) \<and>
    update_dns_record_on_agent net srv zone r r' w =
      (case as_agent_error (provider_update_record H zone (agent_view tt r) (agent_view tt r') w) of
         (Inl e, w1) \<Rightarrow> (Inl e, w1) | (Inr x, w1) \<Rightarrow> (Inr (cr_warnings x), w1)) \<and>
    fetch_dns_records_from_agent net srv zone w = as_agent_error (provider_list_records H zone w)"
  by (rule record_calls [OF assms])

subsection \<open>Zones by their path\<close>

lemma escaped_no_question: "CHR ''?'' \<notin> set (path_escape s)"
proof -
  have "CHR ''?'' \<noteq> hex_upper n" if "n < 16" for n
    using that by (auto simp: hex_upper_def char_code_inject [symmetric] char_code_char_of char_code_def [of "CHR ''?''"])
  moreover have "char_code c div 16 < 16" "char_code c mod 16 < 16" for c
    using char_code_bound [of c] by (simp_all add: less_mult_imp_div_less)
  ultimately show ?thesis
    by (auto simp: path_escape_def percent_def unreserved_def char_code_def Let_def split: if_splits)
qed

lemma path_escape_inject: "path_escape s = path_escape t \<longleftrightarrow> s = t"
  using escaped_path_roundtrip by (metis option.inject)

lemma escaped_dots: "path_escape [] = []" "path_escape ''.'' = ''.''" "path_escape ''..'' = ''..''"
  by (simp_all add: path_escape_def unreserved_def)

lemma cut_none: "c \<notin> set s \<Longrightarrow> cut_at c s = (s, [])"
  unfolding cut_at_def by (subst takeWhile_eq_all_conv [THEN iffD2], fastforce, subst dropWhile_eq_Nil_conv [THEN iffD2], auto)

lemma zone_url:
  "cut_at (CHR ''?'') (zone_path z) = (zone_path z, [])" "unescape False (zone_path z) = Some (''/dns/zones/'' @ z)"
proof -
  show "cut_at (CHR ''?'') (zone_path z) = (zone_path z, [])"
    using escaped_no_question [of z] by (intro cut_none) (auto simp: zone_path_def)
  show "unescape False (zone_path z) = Some (''/dns/zones/'' @ z)"
    using escaped_path_roundtrip [of z] by (simp add: zone_path_def)
qed

lemma zone_path_segments:
  assumes "z \<notin> {[], ''.'', ''..''}"
  shows "clean_path (zone_path z)" "raw_segments (zone_path z) = [''dns'', ''zones'', z]"
proof -
  have split: "split_on (CHR ''/'') (zone_path z) = [[], ''dns'', ''zones'', path_escape z]"
    using split_on_clean [OF path_escape_no_slash] by (simp add: zone_path_def)
  have "path_escape z \<notin> {[], ''.'', ''..''}"
    using assms path_escape_inject [of z "[]"] path_escape_inject [of z "''.''"] path_escape_inject [of z "''..''"]
    by (auto simp: escaped_dots)
  then show "clean_path (zone_path z)" by (simp add: clean_path_def split)
  show "raw_segments (zone_path z) = [''dns'', ''zones'', z]" by (simp add: raw_segments_def split escaped_path_roundtrip)
qed

lemma zone_delete_arrives:
  assumes "net = agent_network tt (trim_right_slash (sv_agent_url srv)) (dns_agent cfg H)" "key_accepted cfg srv"
    and "z \<notin> {[], ''.'', ''..''}"
  shows "agent_call net MDelete srv (zone_path z) NoBody as_object w =
    served_call as_object (dns_zone_route H (arrived tt srv MDelete (zone_path z) (''/dns/zones/'' @ z) [] NoBody) w)"
  unfolding assms(1) dns_agent_def call_reaches [OF zone_url assms(2)]
  using zone_path_segments [OF assms(3)] by (simp add: dns_mux_def arrived_def)

lemma trim_char_absent: "c \<notin> set s \<Longrightarrow> trim_char c s = s"
  by (intro trim_char_id) (metis hd_in_set last_in_set)

lemma zone_segments: "segments_after ''/dns/zones/'' (''/dns/zones/'' @ z) = split_on (CHR ''/'') (trim_char (CHR ''/'') z)"
  by (simp add: segments_after_def trim_prefix_def has_prefix_def)


subsection \<open>Two computations of one PTR record\<close>

lemma reverse_zone_suffix: "has_suffix (reverse_zone_of ip) ''.in-addr.arpa''"
  "trim_suffix (reverse_zone_of ip) ''.in-addr.arpa'' = itoa (ip ! 2) @ ''.'' @ itoa (ip ! 1) @ ''.'' @ itoa (ip ! 0)"
  using has_suffix_append [of "itoa (ip ! 2) @ ''.'' @ itoa (ip ! 1) @ ''.'' @ itoa (ip ! 0)" "''.in-addr.arpa''"]
    trim_suffix_append [of "itoa (ip ! 2) @ ''.'' @ itoa (ip ! 1) @ ''.'' @ itoa (ip ! 0)" "''.in-addr.arpa''"]
  by (simp_all add: reverse_zone_of_def)

lemma octets_absent: "c \<notin> set (itoa n)" if "\<not> is_digit c"
  using that itoa_digits by blast

lemma graph_ends_octet: "graph_ends (itoa e)"
  using itoa_digits [of "hd (itoa e)" e] itoa_digits [of "last (itoa e)" e] by (auto simp: graph_ends_def is_digit_def)

lemma relative_name_of_octets:
  assumes "\<forall>n \<in> {a, b, c, e}. n < 256"
  shows "ptr_record_relative_name (reverse_zone_of [a, b, c, e]) (dotted [a, b, c, e] @ ''.'') = itoa e"
    and "ptr_record_relative_name z (itoa e) = itoa e"
proof -
  have n: "trim_char (CHR ''.'') (trim_space (dotted [a, b, c, e] @ ''.'')) = dotted [a, b, c, e]"
  proof -
    have "trim_space (dotted [a, b, c, e] @ ''.'') = dotted [a, b, c, e] @ ''.''"
      using graph_ends_itoa [of a "''.'' @ itoa b @ ''.'' @ itoa c @ ''.'' @ itoa e"] by (simp add: dotted4 trim_space_graph)
    moreover have "trim_char (CHR ''.'') (dotted [a, b, c, e] @ ''.'') = trim_char (CHR ''.'') (dotted [a, b, c, e])"
      using octets_absent [of "CHR ''.''" a] by (cases "itoa a") (auto simp: trim_char_def dotted4)
    moreover have "trim_char (CHR ''.'') (dotted [a, b, c, e]) = dotted [a, b, c, e]"
      using octets_absent [of "CHR ''.''" a] octets_absent [of "CHR ''.''" e]
      by (intro trim_char_id) (metis (no_types, lifting) append_is_Nil_conv dot_not_digit(1) dotted4 hd_append2 hd_in_set itoa_nonempty last_appendR last_in_set)
    ultimately show ?thesis by simp
  qed
  have z: "to_lower (trim_space (reverse_zone_of [a, b, c, e])) = reverse_zone_of [a, b, c, e]"
    using reverse_zone_trim [of c b a] reverse_zone_lower [of c b a] by (simp add: reverse_zone_of_def)
  have split: "split_on (CHR ''.'') (itoa c @ ''.'' @ itoa b @ ''.'' @ itoa a) = [itoa c, itoa b, itoa a]"
    using split_on_join [of "[itoa c, itoa b, itoa a]" "CHR ''.''"] by (simp add: itoa_no_dot)
  have oct: "network_octets [itoa a, itoa b, itoa c] = Some [a, b, c]"
    using network_octets_itoa [of "[a, b, c]"] assms by simp
  have ip: "parse_ip_to4 (dotted [a, b, c, e]) = Some [a, b, c, e]"
    using assms parse_ip_dotted [of "[a, b, c, e]"] by simp
  show "ptr_record_relative_name (reverse_zone_of [a, b, c, e]) (dotted [a, b, c, e] @ ''.'') = itoa e"
    using split oct by (simp add: ptr_record_relative_name_def n z ip reverse_zone_suffix)
  have e: "trim_space (itoa e) = itoa e" "trim_char (CHR ''.'') (itoa e) = itoa e"
    using trim_char_absent [OF octets_absent, of "CHR ''.''" e] by (simp_all add: trim_space_graph graph_ends_octet)
  show "ptr_record_relative_name z (itoa e) = itoa e"
  proof (cases "parse_ip_to4 (itoa e)")
    case (Some gs)
    have "CHR '':'' \<notin> set (trim_space (itoa e))" using e octets_absent [of "CHR '':''" e] by simp
    then obtain a' b' c' e' where "itoa e = dotted [a', b', c', e']"
      using parse_ip_no_colon [of "itoa e" gs] Some e octets_of_length4 [of gs] by auto
    then have "CHR ''.'' \<in> set (itoa e)" by (simp add: dotted4)
    then show ?thesis using octets_absent [of "CHR ''.''" e] by simp
  qed (simp add: ptr_record_relative_name_def e)
qed

lemma listed_name_of_octet:
  assumes "hr_type h = ''PTR''" "hr_name h = itoa e"
  shows "listed_name (reverse_zone_of [a, b, c, e]) h = dotted [a, b, c, e] @ ''.''"
proof -
  let ?net = "itoa c @ ''.'' @ itoa b @ ''.'' @ itoa a"
  have z: "reverse_zone_of [a, b, c, e] = ?net @ ''.in-addr.arpa''" by (simp add: reverse_zone_of_def)
  have "to_lower (reverse_zone_of [a, b, c, e]) = reverse_zone_of [a, b, c, e]"
    using reverse_zone_lower [of c b a] by (simp add: reverse_zone_of_def)
  then have "has_suffix (to_lower (reverse_zone_of [a, b, c, e])) ''.in-addr.arpa''" using reverse_zone_suffix(1) by simp
  moreover have "take (length (reverse_zone_of [a, b, c, e]) - 13) (reverse_zone_of [a, b, c, e]) = ?net" by (simp add: z)
  moreover have "split_on (CHR ''.'') ?net = [itoa c, itoa b, itoa a]"
    using split_on_join [of "[itoa c, itoa b, itoa a]" "CHR ''.''"] by (simp add: itoa_no_dot)
  moreover have "list_all is_digit (itoa e)" using itoa_digits by (auto simp: list_all_iff)
  moreover have "itoa e \<noteq> ''.''" using octets_absent [of "CHR ''.''" e] by auto
  ultimately show ?thesis using assms by (simp add: listed_name_def Let_def dotted4)
qed

text \<open>Backend and agent compute the same PTR record of an A record, each in code of its own: for an address in
  plain IPv4 notation, a name and a zone name without blanks or dots at their ends, the reverse zone,
  the target and the full name agree, both reduce the full name to the last octet when they write, and
  the agent lists the record it wrote under the full name the backend looks for.\<close>

theorem ptr_records_agree:
  assumes "is_valid_a_record_value (r_value r)" "trim_space (r_value r) = r_value r" "CHR '':'' \<notin> set (r_value r)"
    and "trim_space (r_name r) = r_name r" "trim_char (CHR ''.'') (r_name r) = r_name r"
    and "trim_space zone = zone" "trim_char (CHR ''.'') zone = zone"
  shows "\<exists>ip p. parse_ip_to4 (ag_value (agent_view tt r)) = Some ip \<and> ptr_record_for_a_record sid zone r = Some p \<and>
    decode_dns_zone_id (r_zone_id p) = Some (sid, reverse_zone_of ip) \<and>
    r_value p = agent_fqdn zone (agent_view tt r) \<and>
    r_name p = ag_name (ptr_answer (agent_view tt r) (agent_fqdn zone (agent_view tt r))) \<and>
    dns_record_agent_name (reverse_zone_of ip) ''PTR'' (r_name p) = itoa (ip ! 3) \<and>
    ptr_record_relative_name (reverse_zone_of ip) (r_name p) = itoa (ip ! 3) \<and>
    ptr_record_relative_name (reverse_zone_of ip) (itoa (ip ! 3)) = itoa (ip ! 3) \<and>
    (\<forall>h. hr_type h = ''PTR'' \<and> hr_name h = itoa (ip ! 3) \<longrightarrow> listed_name (reverse_zone_of ip) h = r_name p)"
proof -
  obtain gs where gs: "parse_ip_to4 (r_value r) = Some gs"
    using assms(1,2) by (auto simp: is_valid_a_record_value_def)
  from parse_ip_no_colon [OF this assms(3)] obtain a b c e where
    g: "gs = [a, b, c, e]" "r_value r = dotted [a, b, c, e]" "\<forall>n \<in> {a, b, c, e}. n < 256"
    using octets_of_length4 [of gs] by auto
  let ?rz = "itoa c @ ''.'' @ itoa b @ ''.'' @ itoa a @ ''.in-addr.arpa''"
  have v: "ptr_record_fqdn zone (r_name r) = agent_fqdn zone (agent_view tt r)"
    using assms(4-7) by (auto simp: ptr_record_fqdn_def agent_fqdn_def agent_view_def Let_def)
  have z: "reverse_zone_of [a, b, c, e] = ?rz" by (simp add: reverse_zone_of_def)
  obtain p where p: "ptr_record_for_a_record sid zone r = Some p" "r_name p = dotted [a, b, c, e] @ ''.''"
      "r_value p = agent_fqdn zone (agent_view tt r)" "r_zone_id p = dns_zone_id sid (reverse_zone_of [a, b, c, e])"
    using gs g assms(2) v by (simp add: ptr_record_for_a_record_def ipv4_reverse_zone_def Let_def default_ttl_def z)
  have name: "dns_record_agent_name (reverse_zone_of [a, b, c, e]) ''PTR'' (dotted [a, b, c, e] @ ''.'') = itoa e"
    unfolding z by (rule agent_name_of_octets [OF g(3)])
  have "parse_ip_to4 (ag_value (agent_view tt r)) = Some [a, b, c, e]" using gs g(1) by (simp add: agent_view_def)
  moreover have "ag_name (ptr_answer (agent_view tt r) t) = dotted [a, b, c, e] @ ''.''" for t
    using assms(2) g(2) by (simp add: ptr_answer_def agent_view_def)
  ultimately show ?thesis
    using p name relative_name_of_octets [OF g(3)] listed_name_of_octet [of _ e a b c]
    by (intro exI [of _ "[a, b, c, e]"] exI [of _ p]) simp
qed

subsection \<open>Removing and replacing records\<close>

text \<open>What the documentation of the cmdlets says of the records of a host, read by \<open>recs\<close>: a search gives the
  records of the name and type in order, removing takes the one given away, adding puts one with the
  name, type and value at the end, and a cmdlet that fails changes nothing.\<close>

definition of_name :: "string \<Rightarrow> string \<Rightarrow> host_record list \<Rightarrow> host_record list" where
  "of_name n t rs = filter (\<lambda>r. equal_fold (hr_name r) n \<and> to_upper (hr_type r) = t) rs"

definition host_works :: "'w dns_host \<Rightarrow> ('w \<Rightarrow> string \<Rightarrow> host_record list) \<Rightarrow> bool" where
  "host_works H recs \<longleftrightarrow>
     (\<forall>w. recs (snd (dh_start H w)) = recs w) \<and>
     (\<forall>z n t w rs. dh_records H z n t w = Inr rs \<longrightarrow> rs = of_name n t (recs w z)) \<and>
     (\<forall>z r w e w'. dh_remove_record H z r w = (Inl e, w') \<longrightarrow> recs w' = recs w) \<and>
     (\<forall>z r w u w'. dh_remove_record H z r w = (Inr u, w') \<longrightarrow> recs w' = (recs w)(z := remove1 r (recs w z))) \<and>
     (\<forall>z n t v l w e w'. dh_add_record H z n t v l w = (Inl e, w') \<longrightarrow> recs w' = recs w) \<and>
     (\<forall>z n t v l w u w'. dh_add_record H z n t v l w = (Inr u, w') \<longrightarrow>
        (\<exists>r. hr_name r = n \<and> hr_type r = t \<and> same_value t (record_value t r) v \<and> recs w' = (recs w)(z := recs w z @ [r])))"

lemma host_worksD:
  assumes "host_works H recs"
  shows "recs (snd (dh_start H w)) = recs w"
    and "dh_records H z n t w = Inr rs \<Longrightarrow> rs = of_name n t (recs w z)"
    and "dh_remove_record H z r w = (Inl e, w') \<Longrightarrow> recs w' = recs w"
    and "dh_remove_record H z r w = (Inr u, w') \<Longrightarrow> recs w' = (recs w)(z := remove1 r (recs w z))"
    and "dh_add_record H z n t v l w = (Inl e, w') \<Longrightarrow> recs w' = recs w"
  using assms by (auto simp: host_works_def)

lemma found_target:
  assumes "find_target t v fallback rs = Some r"
  shows "r \<in> set rs \<and> (same_value t (record_value t r) v \<or> rs = [r])"
proof (cases "find (\<lambda>r. same_value t (record_value t r) v) rs")
  case None
  then have "length rs = 1" "r = hd rs" using assms by (auto simp: find_target_def split: if_splits)
  then show ?thesis by (cases rs) auto
next
  case (Some x)
  then have "r = x" using assms by (simp add: find_target_def)
  then show ?thesis using Some by (auto simp: find_Some_iff)
qed

definition removed_one :: "string \<Rightarrow> string \<Rightarrow> string \<Rightarrow> string \<Rightarrow> (string \<Rightarrow> host_record list) \<Rightarrow> (string \<Rightarrow> host_record list) \<Rightarrow> bool" where
  "removed_one zone n t v old new \<longleftrightarrow>
     (\<exists>r \<in> set (of_name n t (old zone)). (same_value t (record_value t r) v \<or> of_name n t (old zone) = [r]) \<and>
       new = old(zone := remove1 r (old zone)))"

lemma removal:
  assumes "host_works H recs"
  shows "remove_found H zone n t v w = (Inl e, w') \<Longrightarrow> recs w' = recs w"
    and "remove_found H zone n t v w = (Inr u, w') \<Longrightarrow> removed_one zone n t v (recs w) (recs w')"
proof -
  show "recs w' = recs w" if "remove_found H zone n t v w = (Inl e, w')"
    using that host_worksD(3) [OF assms]
    by (auto simp: remove_found_def script_defs split: sum.splits option.splits)
  assume "remove_found H zone n t v w = (Inr u, w')"
  then obtain rs r where r: "dh_records H zone n t w = Inr rs" "find_target t v True rs = Some r"
      "dh_remove_record H zone r w = (Inr u, w')"
    by (auto simp: remove_found_def script_defs split: sum.splits option.splits)
  have "rs = of_name n t (recs w zone)" by (rule host_worksD(2) [OF assms r(1)])
  then show "removed_one zone n t v (recs w) (recs w')"
    using found_target [OF r(2)] host_worksD(4) [OF assms r(3)] by (auto simp: removed_one_def)
qed

lemma provider_deletion:
  assumes "host_works H recs" "\<not> (equal_fold (ag_type a) ''A'' \<and> ag_create_ptr a)" "provider_delete_record H zone a w = (y, w')"
  shows "case y of Inl e \<Rightarrow> recs w' = recs w
    | Inr u \<Rightarrow> removed_one zone (name_for_delete zone a) (to_upper (ag_type a)) (ag_value a) (recs w) (recs w')"
proof -
  obtain z w1 where start: "dh_start H w = (z, w1)" by (rule prod.exhaust)
  have w1: "recs w1 = recs w" using host_worksD(1) [OF assms(1), of w] start by simp
  obtain v w2 where found: "remove_found H zone (name_for_delete zone a) (to_upper (ag_type a)) (ag_value a) w1 = (v, w2)"
    by (rule prod.exhaust)
  have v: "case v of Inl e \<Rightarrow> recs w2 = recs w
    | Inr u \<Rightarrow> removed_one zone (name_for_delete zone a) (to_upper (ag_type a)) (ag_value a) (recs w) (recs w2)"
    using found removal [OF assms(1)] w1 by (cases v) (fastforce simp: w1 [symmetric])+
  show ?thesis
  proof (cases "agent_validate_record a")
    case None
    then show ?thesis
      using assms(2,3) v w1
      by (cases z; cases v)
        (auto simp: provider_delete_record_def delete_record_script_def run_dns_def run_script_def then_do_def start found)
  qed (use assms(3) in \<open>auto simp: provider_delete_record_def throws_def\<close>)
qed

text \<open>Over a host that does what the documentation of its cmdlets says, a deletion that is answered removes exactly
  one record of the name and type, which has the value or is the only one of its name: a record the
  backend knows with a stale value is removed with its new one. A deletion that fails removes nothing.\<close>

theorem delete_removes_one_record:
  assumes "net = agent_network tt (trim_right_slash (sv_agent_url srv)) (dns_agent cfg H)" "key_accepted cfg srv"
    and "trim_space zone = zone" "zone \<noteq> []" "go_int (r_ttl r)" "host_works H recs"
    and "\<not> (equal_fold (r_type r) ''A'' \<and> r_create_ptr r)" "delete_dns_record_on_agent net srv zone r w = (x, w')"
  shows "case x of Inl e \<Rightarrow> recs w' = recs w
    | Inr u \<Rightarrow> removed_one zone (name_for_delete zone (agent_view tt r)) (to_upper (r_type r)) (r_value r) (recs w) (recs w')"
proof -
  let ?a = "agent_view tt r"
  have a: "ag_type ?a = r_type r" "ag_create_ptr ?a = r_create_ptr r" "ag_value ?a = r_value r" by (simp_all add: agent_view_def)
  obtain y w1 where p: "provider_delete_record H zone ?a w = (y, w1)" by (rule prod.exhaust)
  then have "as_agent_error (y, w1) = (x, w')" using record_calls [OF assms(1-5,5)] assms(8) by simp
  then have "w1 = w' \<and> (case y of Inl e \<Rightarrow> \<exists>e. x = Inl e | Inr u \<Rightarrow> x = Inr u)"
    by (cases y) (auto simp: as_agent_error_def)
  then show ?thesis using provider_deletion [OF assms(6) _ p] assms(7) by (cases y) (auto simp: a)
qed

text \<open>An update of a record is one script that removes the old record and then adds the new one: when the host
  refuses the new one, the old one is gone although the backend is told that the update failed, and
  nothing is tried to put it back.\<close>

theorem failed_update_loses_record:
  assumes "net = agent_network tt (trim_right_slash (sv_agent_url srv)) (dns_agent cfg H)" "key_accepted cfg srv"
    and "trim_space zone = zone" "zone \<noteq> []" "go_int (r_ttl r)" "go_int (r_ttl r')" "host_works H recs"
    and "agent_validate_record (agent_view tt r) = None" "agent_validate_record (agent_view tt r') = None"
    and "equal_fold (r_name r) (r_name r')" "equal_fold (r_type r) (r_type r')" "dh_start H w = (Inr u, w)"
    and "remove_found H zone (host_name (record_name_for_write zone (agent_view tt r))) (to_upper (r_type r)) (r_value r) w = (Inr u', w1)"
    and "\<forall>n l. \<exists>e w2. dh_add_record H zone n (to_upper (r_type r)) (r_value r') l w1 = (Inl e, w2)"
  shows "\<exists>e w2. update_dns_record_on_agent net srv zone r r' w = (Inl e, w2) \<and>
    removed_one zone (host_name (record_name_for_write zone (agent_view tt r))) (to_upper (r_type r)) (r_value r) (recs w) (recs w2)"
proof -
  let ?a = "agent_view tt r" and ?b = "agent_view tt r'"
  let ?ttl = "if ag_ttl ?b \<le> 0 then ag_ttl ?a else ag_ttl ?b"
  let ?c = "?b\<lparr>ag_ttl := (if ?ttl \<le> 0 then 3600 else ?ttl)\<rparr>"
  have a: "ag_type ?a = r_type r" "ag_value ?a = r_value r" "ag_name ?a = r_name r" "ag_type ?b = r_type r'"
      "ag_name ?b = r_name r'" "ag_value ?b = r_value r'"
    by (simp_all add: agent_view_def)
  have "\<exists>e w2. add_record_command H zone n (to_upper (r_type r)) (r_value r') l w1 = (Inl e, w2) \<and> recs w2 = recs w1" for n l
    using assms(14) host_worksD(5) [OF assms(7)] by (fastforce simp: add_record_command_def script_defs)
  then obtain e w2 where add: "add_record_command H zone (host_name (record_name_for_write zone ?c)) (to_upper (r_type r)) (r_value r')
      (ag_ttl ?c) w1 = (Inl e, w2)" "recs w2 = recs w1" by blast
  have p: "provider_update_record H zone ?a ?b w = (Inl (''powershell failed: '' @ trim_space e), w2)"
    using assms(8-13) add(1)
    by (simp add: provider_update_record_def update_record_script_def then_do_def run_dns_def run_script_def a Let_def
        split del: if_split)
  have "update_dns_record_on_agent net srv zone r r' w =
      (Inl (StatusError 500 ''AGENT_ERROR'' (''powershell failed: '' @ trim_space e)), w2)"
    using record_calls [OF assms(1-6)] p by (simp add: as_agent_error_def)
  then show ?thesis using removal(2) [OF assms(7,13)] add(2) by auto
qed

subsection \<open>A concrete host\<close>

text \<open>A host whose state is the table of its records; it refuses the value \<open>bad\<close>.\<close>

definition value_property :: "string \<Rightarrow> string" where
  "value_property t = (if t = ''A'' then ''IPv4Address'' else if t = ''AAAA'' then ''IPv6Address''
     else if t = ''CNAME'' then ''HostNameAlias'' else ''PtrDomainName'')"

definition table_record :: "string \<Rightarrow> string \<Rightarrow> string \<Rightarrow> host_record" where
  "table_record n t v = \<lparr>hr_type = t, hr_name = n, hr_ttl = 600, hr_data = [(value_property t, v)], hr_texts = [v]\<rparr>"

definition table_host :: "(string \<Rightarrow> host_record list) dns_host" where
  "table_host = \<lparr>dh_start = returns (), dh_now = 0, dh_zones = returns [], dh_find_zone = (\<lambda>n w. None),
     dh_add_zone = (\<lambda>k st d. throws ''refused''), dh_remove_zone = (\<lambda>n. throws ''refused''),
     dh_all_records = (\<lambda>z w. (Inr (map Some (w z)), w)),
     dh_records = (\<lambda>z n t w. if of_name n t (w z) = [] then Inl ''not found'' else Inr (of_name n t (w z))),
     dh_remove_record = (\<lambda>z r w. (Inr (), w(z := remove1 r (w z)))),
     dh_add_record = (\<lambda>z n t v l w. if v = ''bad'' \<or> t \<notin> {''A'', ''AAAA'', ''CNAME'', ''PTR'', ''TXT''}
        then (Inl ''refused'', w) else (Inr (), w(z := w z @ [table_record n t v])))\<rparr>"

lemma record_type_upper: "to_upper ''A'' = ''A''" "to_upper ''AAAA'' = ''AAAA''" "to_upper ''CNAME'' = ''CNAME''"
  "to_upper ''PTR'' = ''PTR''" "to_upper ''TXT'' = ''TXT''"
  by code_simp+

lemma table_values:
  assumes "t \<in> {''A'', ''AAAA'', ''CNAME'', ''PTR'', ''TXT''}"
  shows "record_value t (table_record n t v) = v"
proof -
  note shape = record_value_def record_type_upper table_record_def value_property_def Let_def
  have "record_value ''A'' (table_record n ''A'' v) = v" by (simp add: shape)
  moreover have "record_value ''AAAA'' (table_record n ''AAAA'' v) = v" by (simp add: shape)
  moreover have "record_value ''CNAME'' (table_record n ''CNAME'' v) = v" by (simp add: shape)
  moreover have "record_value ''PTR'' (table_record n ''PTR'' v) = v" by (simp add: shape)
  moreover have "record_value ''TXT'' (table_record n ''TXT'' v) = v" by (simp add: shape)
  ultimately show ?thesis using assms by blast
qed

lemma table_host_fields:
  "dh_start table_host w = (Inr (), w)"
  "dh_records table_host z n t w = (if of_name n t (w z) = [] then Inl ''not found'' else Inr (of_name n t (w z)))"
  "dh_remove_record table_host z r w = (Inr (), w(z := remove1 r (w z)))"
  "dh_add_record table_host z n t v l w = (if v = ''bad'' \<or> t \<notin> {''A'', ''AAAA'', ''CNAME'', ''PTR'', ''TXT''}
     then (Inl ''refused'', w) else (Inr (), w(z := w z @ [table_record n t v])))"
  by (simp_all add: table_host_def returns_def)

lemma view_fields:
  "ag_name (agent_view tt (sample_record n t v)) = n" "ag_type (agent_view tt (sample_record n t v)) = t"
  "ag_value (agent_view tt (sample_record n t v)) = v" "ag_ttl (agent_view tt (sample_record n t v)) = 600"
  "\<not> ag_create_ptr (agent_view tt (sample_record n t v))"
  "r_name (sample_record n t v) = n" "r_type (sample_record n t v) = t" "r_value (sample_record n t v) = v"
  by (simp_all add: agent_view_def sample_record_def empty_record_def)

lemma table_host_works: "host_works table_host id"
  unfolding host_works_def
proof (intro conjI allI impI)
  fix z n t v l w u w'
  assume h: "dh_add_record table_host z n t v l w = (Inr u, w')"
  then have t: "t \<in> {''A'', ''AAAA'', ''CNAME'', ''PTR'', ''TXT''}" "w' = w(z := w z @ [table_record n t v])"
    by (auto simp: table_host_def split: if_splits)
  have "hr_name (table_record n t v) = n" "hr_type (table_record n t v) = t" by (simp_all add: table_record_def)
  then show "\<exists>r. hr_name r = n \<and> hr_type r = t \<and> same_value t (record_value t r) v \<and> id w' = (id w)(z := id w z @ [r])"
    using t(2) table_values [OF t(1), of n v]
    by (intro exI [of _ "table_record n t v"]) (simp add: same_value_def)
qed (auto simp: table_host_def returns_def split: if_splits)

definition keyed_agent :: agent_config where
  "keyed_agent = dns_agent_config (\<lambda>k. if k = ''DNS_AGENT_API_KEY'' then ''k3y'' else [])"

definition agent_server :: server where
  "agent_server = sample_server\<lparr>sv_agent_url := ''http://a:8460/'', sv_api_key := ''k3y''\<rparr>"

lemma agent_trims: "trim_space ''test'' = ''test''" "trim_space ''k3y'' = ''k3y''" "trim_space ''bad'' = ''bad''"
  "trim_space ''old.test.'' = ''old.test.''" "trim_space ''mail.test.'' = ''mail.test.''"
  by (rule trim_space_graph, simp add: graph_ends_def char_code_def)+

lemma accepted_key: "key_accepted keyed_agent agent_server"
proof -
  have "ac_api_key keyed_agent = ''k3y''"
    by (simp add: keyed_agent_def dns_agent_config_def env_text_def agent_trims)
  then show ?thesis by (simp add: key_accepted_def agent_server_def agent_trims header_value_def)
qed

definition agent_net :: "(string \<Rightarrow> host_record list) network" where
  "agent_net = agent_network (\<lambda>t. []) (trim_right_slash (sv_agent_url agent_server)) (dns_agent keyed_agent table_host)"

definition www_zone :: "string \<Rightarrow> host_record list" where
  "www_zone = (\<lambda>z. [])(''test'' := [table_record ''mail'' ''A'' ''10.0.0.2'', table_record ''www'' ''CNAME'' ''mail.test.''])"

lemma sample_ttl: "go_int (r_ttl (sample_record n t v))"
  by (simp add: sample_record_def go_int_def)

lemma valid_samples:
  "agent_validate_record (agent_view tt (sample_record ''mail'' ''A'' ''10.0.0.7'')) = None"
  "agent_validate_record (agent_view tt (sample_record ''www'' ''CNAME'' ''old.test.'')) = None"
  "agent_validate_record (agent_view tt (sample_record ''www'' ''CNAME'' ''mail.test.'')) = None"
  "agent_validate_record (agent_view tt (sample_record ''www'' ''CNAME'' ''bad'')) = None"
proof -
  have "\<not> equal_fold ''CNAME'' ''A''" "\<not> equal_fold ''CNAME'' ''AAAA''" "\<not> equal_fold ''A'' ''AAAA''" by code_simp+
  then show "agent_validate_record (agent_view tt (sample_record ''mail'' ''A'' ''10.0.0.7'')) = None"
    "agent_validate_record (agent_view tt (sample_record ''www'' ''CNAME'' ''old.test.'')) = None"
    "agent_validate_record (agent_view tt (sample_record ''www'' ''CNAME'' ''mail.test.'')) = None"
    "agent_validate_record (agent_view tt (sample_record ''www'' ''CNAME'' ''bad'')) = None"
    by (simp_all add: agent_validate_record_def agent_view_def sample_record_def literal_trim agent_trims literal_ip)
qed

theorem record_calls_reach_provider_witness:
  "\<exists>w'. create_dns_record_on_agent agent_net agent_server ''test'' (sample_record ''mail'' ''A'' ''10.0.0.7'') as_outcome (\<lambda>z. []) =
     (Inr [], w') \<and> map hr_name (w' ''test'') = [''mail'']"
proof -
  have "provider_create_record table_host ''test'' (agent_view (\<lambda>t. []) (sample_record ''mail'' ''A'' ''10.0.0.7'')) (\<lambda>z. []) =
      (Inr \<lparr>cr_created = True, cr_ptr = None, cr_warnings = []\<rparr>, (\<lambda>z. [])(''test'' := [table_record ''mail'' ''A'' ''10.0.0.7'']))"
  proof -
    have up: "to_upper ''A'' = ''A''" "\<not> equal_fold ''A'' ''PTR''" by code_simp+
    show ?thesis
      by (simp add: provider_create_record_def valid_samples(1) create_record_script_def script_defs run_dns_def run_script_def table_host_fields
          add_record_command_def record_name_for_write_def host_name_def view_fields up)
  qed
  then show ?thesis
    using record_calls_reach_provider [OF agent_net_def accepted_key agent_trims(1) _ sample_ttl [of "''mail''" "''A''" "''10.0.0.7''"]
      sample_ttl [of "[]" "[]" "[]"], of "\<lambda>z. []"]
    by (simp add: as_agent_error_def table_record_def)
qed


theorem ptr_records_agree_witness:
  "\<exists>p. ptr_record_for_a_record ''s'' ''test'' (sample_record ''mail'' ''A'' ''10.0.0.7'') = Some p \<and>
     r_value p = ''mail.test.'' \<and> r_name p = ''10.0.0.7.''"
proof -
  let ?r = "sample_record ''mail'' ''A'' ''10.0.0.7''"
  have f: "r_value ?r = ''10.0.0.7''" "r_name ?r = ''mail''" by (simp_all add: sample_record_def)
  have d: "trim_char (CHR ''.'') ''mail'' = ''mail''" "trim_char (CHR ''.'') ''test'' = ''test''" by code_simp+
  obtain ip p where p: "ptr_record_for_a_record ''s'' ''test'' ?r = Some p"
      "r_value p = agent_fqdn ''test'' (agent_view (\<lambda>t. []) ?r)"
      "r_name p = ag_name (ptr_answer (agent_view (\<lambda>t. []) ?r) (agent_fqdn ''test'' (agent_view (\<lambda>t. []) ?r)))"
    using ptr_records_agree [of ?r "''test''" "\<lambda>t. []" "''s''"]
    by (auto simp: f d is_valid_a_record_value_def literal_trim literal_ip agent_trims)
  moreover have "agent_fqdn ''test'' (agent_view (\<lambda>t. []) ?r) = ''mail.test.''" by code_simp
  moreover have "ag_name (ptr_answer (agent_view (\<lambda>t. []) ?r) x) = ''10.0.0.7.''" for x
    by (simp add: ptr_answer_def agent_view_def f literal_trim)
  ultimately show ?thesis by auto
qed

lemma www_found: "of_name ''www'' ''CNAME'' (www_zone ''test'') = [table_record ''www'' ''CNAME'' ''mail.test.'']"
  by code_simp

lemma www_target:
  assumes "v \<in> {''old.test.'', ''mail.test.''}"
  shows "\<exists>w'. remove_found table_host ''test'' ''www'' ''CNAME'' v www_zone = (Inr (), w')"
proof -
  have "find_target ''CNAME'' v True [table_record ''www'' ''CNAME'' ''mail.test.''] = Some (table_record ''www'' ''CNAME'' ''mail.test.'')"
    by (simp add: find_target_def)
  then show ?thesis by (simp add: remove_found_def then_do_def reads_def table_host_fields www_found)
qed

lemma www_names:
  "name_for_delete ''test'' (agent_view tt (sample_record ''www'' ''CNAME'' v)) = ''www''"
  "host_name (record_name_for_write ''test'' (agent_view tt (sample_record ''www'' ''CNAME'' v))) = ''www''"
proof -
  have "\<not> equal_fold ''CNAME'' ''PTR''" by code_simp
  then show "name_for_delete ''test'' (agent_view tt (sample_record ''www'' ''CNAME'' v)) = ''www''"
      "host_name (record_name_for_write ''test'' (agent_view tt (sample_record ''www'' ''CNAME'' v))) = ''www''"
    by (simp_all add: name_for_delete_def host_name_def record_name_for_write_def view_fields)
qed

theorem delete_removes_one_record_witness:
  "\<exists>w'. delete_dns_record_on_agent agent_net agent_server ''test'' (sample_record ''www'' ''CNAME'' ''old.test.'') www_zone = (Inr (), w') \<and>
     removed_one ''test'' ''www'' ''CNAME'' ''old.test.'' www_zone w'"
proof -
  let ?r = "sample_record ''www'' ''CNAME'' ''old.test.''"
  have c: "\<not> equal_fold ''CNAME'' ''A''" by code_simp
  have "\<exists>w'. provider_delete_record table_host ''test'' (agent_view (\<lambda>t. []) ?r) www_zone = (Inr (), w')"
    using www_target [of "''old.test.''"]
    by (auto simp: provider_delete_record_def valid_samples(2) delete_record_script_def www_names view_fields record_type_upper c
        then_do_def table_host_fields run_dns_def run_script_def)
  then obtain w' where w: "delete_dns_record_on_agent agent_net agent_server ''test'' ?r www_zone = (Inr (), w')"
    using record_calls [OF agent_net_def accepted_key agent_trims(1) _ sample_ttl [of "''www''" "''CNAME''" "''old.test.''"]
      sample_ttl [of "[]" "[]" "[]"], of www_zone]
    by (auto simp: as_agent_error_def)
  show ?thesis
    using delete_removes_one_record [OF agent_net_def accepted_key agent_trims(1) _ sample_ttl table_host_works _ w] w
    by (simp add: c www_names view_fields record_type_upper)
qed

theorem failed_update_loses_record_witness:
  "\<exists>e w'. update_dns_record_on_agent agent_net agent_server ''test'' (sample_record ''www'' ''CNAME'' ''mail.test.'')
      (sample_record ''www'' ''CNAME'' ''bad'') www_zone = (Inl e, w') \<and>
     removed_one ''test'' ''www'' ''CNAME'' ''mail.test.'' www_zone w'"
proof -
  obtain w1 where w1: "remove_found table_host ''test'' ''www'' ''CNAME'' ''mail.test.'' www_zone = (Inr (), w1)"
    using www_target [of "''mail.test.''"] by auto
  have "\<forall>n l. \<exists>e w2. dh_add_record table_host ''test'' n ''CNAME'' ''bad'' l w1 = (Inl e, w2)" by (simp add: table_host_fields)
  then show ?thesis
    using failed_update_loses_record [OF agent_net_def accepted_key agent_trims(1) _ sample_ttl sample_ttl table_host_works valid_samples(3,4),
      of www_zone "()" "()" w1] w1
    by (simp add: www_names view_fields record_type_upper equal_fold_refl table_host_fields)
qed

end
