(* ===== verification/ZL_Dhcp_Agent.thy ===== *)
theory ZL_Dhcp_Agent
  imports ZL_Agent_Server ZL_Scope_Rules
begin

text \<open>
  The DHCP agent, \<open>src/dhcp-agent\<close>: the checks, scripts and provider of \<open>internal/dhcp/powershell.go\<close> and
  the routes of \<open>internal/server/server.go\<close>. As for the DNS agent the cmdlets, here of the
  \<open>DhcpServer\<close> module, are a parameter and the scripts are the calls they make.
\<close>

subsection \<open>The data of the agent\<close>

record agent_scope =
  gs_id :: string
  gs_name :: string
  gs_description :: string
  gs_subnet :: string
  gs_default_gateway :: string
  gs_start_range :: string
  gs_end_range :: string
  gs_lease_hours :: int
  gs_lease_seconds :: int
  gs_state :: string
  gs_server_id :: string
  gs_old_start_range :: string
  gs_old_end_range :: string
  gs_changed_fields :: "string list"

record agent_exclusion =
  gx_id :: string
  gx_scope_id :: string
  gx_start_ip :: string
  gx_end_ip :: string

record agent_reservation =
  gr_id :: string
  gr_scope_id :: string
  gr_ip :: string
  gr_mac :: string
  gr_name :: string
  gr_description :: string

subsection \<open>Checks\<close>

definition is_ipv4 :: "string \<Rightarrow> bool" where
  "is_ipv4 s \<longleftrightarrow> parse_ip_to4 s \<noteq> None"

text \<open>The prefix length of \<open>net.ParseCIDR\<close>: digits only, at most the bits of the address; after an IPv4 address in
  IPv6 notation the mask has 16 bytes, which the caller refuses.\<close>

definition cidr_length :: "nat \<Rightarrow> string \<Rightarrow> nat option" where
  "cidr_length bits m = (if m = [] \<or> \<not> list_all is_digit m \<or> bits < digits_value m then None else Some (digits_value m))"

definition bytes_text :: "ipv4 \<Rightarrow> string" where
  "bytes_text b = dotted (map unat b)"

definition parse_scope_subnet :: "string \<Rightarrow> string + (string \<times> string)" where
  "parse_scope_subnet subnet =
     (let v = trim_space subnet; (a, m) = cut_at (CHR ''/'') v in
      if v = [] then Inl ''scope subnet is required''
      else if CHR ''/'' \<notin> set v then Inl ''scope subnet must be a valid IPv4 CIDR''
      else case to4_bytes a of
        None \<Rightarrow> Inl ''scope subnet must be a valid IPv4 CIDR''
      | Some ip \<Rightarrow>
          case cidr_length (if CHR '':'' \<in> set a then 128 else 32) m of
            None \<Rightarrow> Inl ''scope subnet must be a valid IPv4 CIDR''
          | Some p \<Rightarrow> if CHR '':'' \<in> set a then Inl ''scope subnet mask must be IPv4''
              else Inr (bytes_text ip, bytes_text (cidr_bytes p 4)))"

definition validate_ipv4_range_in_scope :: "string \<Rightarrow> string \<Rightarrow> string \<Rightarrow> string \<Rightarrow> string option" where
  "validate_ipv4_range_in_scope scope_id subnet_mask start_range end_range =
     (case (to4_bytes (trim_space scope_id), to4_bytes (trim_space subnet_mask), to4_bytes (trim_space start_range),
            to4_bytes (trim_space end_range)) of
        (Some net, Some m, Some a, Some b) \<Rightarrow>
          (if ip_mask m a \<noteq> ip_mask m net \<or> ip_mask m b \<noteq> ip_mask m net
           then Some ''scope start and end ranges must belong to the scope subnet''
           else if be_uint32 b < be_uint32 a then Some ''scope start range must not be greater than end range''
           else None)
      | _ \<Rightarrow> Some ''scope and range values must be IPv4 addresses'')"

definition validate_ipv4_in_scope :: "string \<Rightarrow> string \<Rightarrow> string \<Rightarrow> string \<Rightarrow> string option" where
  "validate_ipv4_in_scope scope_id subnet_mask v label =
     (case (to4_bytes (trim_space scope_id), to4_bytes (trim_space subnet_mask), to4_bytes (trim_space v)) of
        (Some net, Some m, Some ip) \<Rightarrow>
          (if ip_mask m ip \<noteq> ip_mask m net then Some (label @ '' must belong to the scope subnet'')
           else let n = be_uint32 (ip_mask m net); g = be_uint32 ip; b = n OR NOT (be_uint32 m) in
             if g = n \<or> g = b then Some (label @ '' cannot be the subnet or broadcast address'') else None)
      | _ \<Rightarrow> Some (label @ '' and scope values must be IPv4 addresses''))"

text \<open>\<open>ipv4MaskPrefix\<close> of a mask: the leading ones, or 0 when a one follows a zero.\<close>

definition mask_bits :: "ipv4 \<Rightarrow> bool list" where
  "mask_bits m = concat (map (\<lambda>b. map (bit b) [7, 6, 5, 4, 3, 2, 1, 0]) m)"

definition ipv4_mask_prefix :: "string \<Rightarrow> string" where
  "ipv4_mask_prefix m =
     (case to4_bytes (trim_space m) of
        None \<Rightarrow> []
      | Some b \<Rightarrow> (let n = length (takeWhile id (mask_bits b)) in itoa (if True \<in> set (drop n (mask_bits b)) then 0 else n)))"

text \<open>Go's \<open>int\<close> has 64 bits: a sum or product wraps around; division rounds towards zero.\<close>

definition int64 :: "int \<Rightarrow> int" where
  "int64 n = signed_take_bit 63 n"

definition ceil_hours :: "int \<Rightarrow> int" where
  "ceil_hours secs = (let n = int64 (secs + 3599) in if n < 0 then - ((- n) div 3600) else n div 3600)"

definition trimmed_scope :: "agent_scope \<Rightarrow> agent_scope" where
  "trimmed_scope s = s\<lparr>gs_name := trim_space (gs_name s), gs_description := trim_space (gs_description s),
     gs_subnet := trim_space (gs_subnet s), gs_default_gateway := trim_space (gs_default_gateway s),
     gs_start_range := trim_space (gs_start_range s), gs_end_range := trim_space (gs_end_range s),
     gs_state := trim_space (gs_state s)\<rparr>"

text \<open>The checks of \<open>normalizeScope\<close> in order: the first that fails is the error.\<close>

fun first_error :: "(bool \<times> string) list \<Rightarrow> string option" where
  "first_error [] = None"
| "first_error ((bad, e) # cs) = (if bad then Some e else first_error cs)"

definition scope_checks :: "agent_scope \<Rightarrow> string \<Rightarrow> string \<Rightarrow> string option" where
  "scope_checks s i m =
     (case first_error
        [(gs_start_range s = [] \<or> gs_end_range s = [], ''scope start and end ranges are required''),
         (\<not> is_ipv4 (gs_start_range s) \<or> \<not> is_ipv4 (gs_end_range s), ''scope start and end ranges must be IPv4 addresses''),
         (\<not> is_ipv4 i, ''scope subnet must start with an IPv4 address'')] of
        Some e \<Rightarrow> Some e
      | None \<Rightarrow>
          (case validate_ipv4_range_in_scope i m (gs_start_range s) (gs_end_range s) of
             Some e \<Rightarrow> Some e
           | None \<Rightarrow>
               (case first_error
                  [(gs_default_gateway s = [], ''default gateway is required''),
                   (\<not> is_ipv4 (gs_default_gateway s), ''default gateway must be an IPv4 address'')] of
                  Some e \<Rightarrow> Some e
                | None \<Rightarrow>
                    (case validate_ipv4_in_scope i m (gs_default_gateway s) ''default gateway'' of
                       Some e \<Rightarrow> Some e
                     | None \<Rightarrow> if gs_lease_seconds s \<noteq> - 1 \<and> gs_lease_seconds s \<le> 0
                               then Some ''scope lease duration seconds must be positive or -1'' else None))))"

definition normalize_scope :: "agent_scope \<Rightarrow> string + (agent_scope \<times> string \<times> string)" where
  "normalize_scope scope =
     (let s = trimmed_scope scope in
      if gs_name s = [] \<or> gs_subnet s = [] then Inl ''scope name and subnet are required''
      else case parse_scope_subnet (gs_subnet s) of
        Inl e \<Rightarrow> Inl e
      | Inr (i, m) \<Rightarrow>
          (case scope_checks s i m of
             Some e \<Rightarrow> Inl e
           | None \<Rightarrow> Inr (s\<lparr>gs_lease_hours := (if gs_lease_seconds s = - 1 then 0 else ceil_hours (gs_lease_seconds s)),
               gs_state := (if gs_state s = [] then ''Active'' else gs_state s), gs_id := i,
               gs_subnet := i @ ''/'' @ ipv4_mask_prefix m, gs_server_id := ''local''\<rparr>, i, m)))"

definition update_gateway_check :: "agent_scope \<Rightarrow> string option" where
  "update_gateway_check s =
     (if gs_default_gateway s = [] then Some ''default gateway is required''
      else if \<not> is_ipv4 (gs_default_gateway s) then Some ''default gateway must be an IPv4 address''
      else if gs_subnet s = [] then None
      else case parse_scope_subnet (gs_subnet s) of
        Inl e \<Rightarrow> Some e
      | Inr (i, m) \<Rightarrow> validate_ipv4_in_scope i m (gs_default_gateway s) ''default gateway'')"

text \<open>\<open>normalizeScopeUpdate\<close> trims the identifier too, but not the range.\<close>

definition normalize_scope_update :: "agent_scope \<Rightarrow> string + (agent_scope \<times> string)" where
  "normalize_scope_update scope =
     (let s = scope\<lparr>gs_id := trim_space (gs_id scope), gs_name := trim_space (gs_name scope),
            gs_description := trim_space (gs_description scope), gs_subnet := trim_space (gs_subnet scope),
            gs_default_gateway := trim_space (gs_default_gateway scope), gs_state := trim_space (gs_state scope)\<rparr>
      in if gs_name s = [] then Inl ''scope name is required''
      else case (if gs_id s \<noteq> [] then Inr (gs_id s) else map_sum id fst (parse_scope_subnet (gs_subnet s))) of
        Inl e \<Rightarrow> Inl e
      | Inr i \<Rightarrow>
          if \<not> is_ipv4 i then Inl ''scope id must be an IPv4 address''
          else case update_gateway_check s of
            Some e \<Rightarrow> Inl e
          | None \<Rightarrow> Inr (s\<lparr>gs_lease_hours := (if gs_lease_seconds s = - 1 then 0 else if gs_lease_hours s \<le> 0 then 24 else gs_lease_hours s),
              gs_state := (if gs_state s = [] then ''Active'' else gs_state s), gs_id := i, gs_server_id := ''local''\<rparr>, i))"

definition normalize_reservation :: "agent_reservation \<Rightarrow> string + agent_reservation" where
  "normalize_reservation r0 =
     (let r = r0\<lparr>gr_scope_id := trim_space (gr_scope_id r0), gr_ip := trim_space (gr_ip r0), gr_mac := trim_space (gr_mac r0),
            gr_name := trim_space (gr_name r0), gr_description := trim_space (gr_description r0)\<rparr>
      in case first_error
        [(gr_scope_id r = [] \<or> gr_ip r = [] \<or> gr_mac r = [], ''reservation scope id, ip and mac are required''),
         (\<not> is_ipv4 (gr_scope_id r), ''reservation scope id must be an IPv4 address''),
         (\<not> is_ipv4 (gr_ip r), ''reservation ip must be an IPv4 address'')] of
        Some e \<Rightarrow> Inl e
      | None \<Rightarrow> Inr (r\<lparr>gr_id := gr_scope_id r @ ''|'' @ gr_ip r\<rparr>))"

definition normalize_exclusion :: "agent_exclusion \<Rightarrow> string + agent_exclusion" where
  "normalize_exclusion x0 =
     (let x = x0\<lparr>gx_scope_id := trim_space (gx_scope_id x0), gx_start_ip := trim_space (gx_start_ip x0),
            gx_end_ip := trim_space (gx_end_ip x0)\<rparr>
      in case first_error
        [(\<not> is_ipv4 (gx_scope_id x), ''scope id must be an IPv4 address''),
         (\<not> is_ipv4 (gx_start_ip x) \<or> \<not> is_ipv4 (gx_end_ip x), ''exclusion range must use IPv4 addresses'')] of
        Some e \<Rightarrow> Inl e
      | None \<Rightarrow> Inr (x\<lparr>gx_id := gx_scope_id x @ ''|'' @ gx_start_ip x @ ''|'' @ gx_end_ip x\<rparr>))"

definition classify_powershell_error :: "string \<Rightarrow> string" where
  "classify_powershell_error e =
     (let t = trim_space e; l = to_lower t in
      if contains l ''dhcpserver'' \<and> (contains l ''module'' \<or> contains l ''not loaded'' \<or> contains l ''was not loaded'')
      then ''DHCP PowerShell module is unavailable''
      else if contains l ''access is denied'' \<or> contains l ''unauthorized'' \<or> contains l ''permission''
      then ''administrator privileges are required''
      else if contains l ''service'' \<and> (contains l ''not running'' \<or> contains l ''stopped'')
      then ''DHCP Server service is not running''
      else if contains l ''already exists'' \<or> contains l ''already present'' then ''DHCP resource already exists''
      else if contains l ''not found'' \<or> contains l ''does not exist'' \<or> contains l ''cannot find''
      then ''DHCP resource was not found''
      else t)"

subsection \<open>The host\<close>

datatype lease_span = NoSpan | UnlimitedSpan | Span int

record host_scope =
  hs_id :: string
  hs_name :: string
  hs_description :: string
  hs_mask :: ipv4
  hs_start :: string
  hs_end :: string
  hs_lease :: lease_span
  hs_state :: string

record host_lease =
  hl_ip :: string
  hl_client_id :: string
  hl_host_name :: string
  hl_state :: string
  hl_expires :: gotime

record host_reservation =
  ho_ip :: string
  ho_client_id :: string
  ho_name :: string
  ho_description :: string

record new_scope =
  nw_name :: string
  nw_start :: string
  nw_end :: string
  nw_mask :: string
  nw_description :: "string option"
  nw_lease :: "int option"

datatype scope_setting =
    SetName string | SetDescription string | SetLease int | SetState string | SetRange string string

record 'w dhcp_host =
  ph_start :: "(unit, 'w) script"
  ph_settings :: "(unit, 'w) script"
  ph_scopes :: "(host_scope list, 'w) script"
  ph_scope :: "string \<Rightarrow> (host_scope, 'w) script"
  ph_router :: "string \<Rightarrow> 'w \<Rightarrow> string option"
  ph_add_scope :: "new_scope \<Rightarrow> (unit, 'w) script"
  ph_set_scope :: "string \<Rightarrow> scope_setting list \<Rightarrow> (unit, 'w) script"
  ph_set_router :: "string \<Rightarrow> string \<Rightarrow> (unit, 'w) script"
  ph_set_unlimited :: "string \<Rightarrow> (unit, 'w) script"
  ph_remove_scope :: "string \<Rightarrow> (unit, 'w) script"
  ph_exclusions :: "string \<Rightarrow> ((string \<times> string) list, 'w) script"
  ph_add_exclusion :: "string \<Rightarrow> string \<Rightarrow> string \<Rightarrow> (unit, 'w) script"
  ph_remove_exclusion :: "string \<Rightarrow> string \<Rightarrow> string \<Rightarrow> (unit, 'w) script"
  ph_leases :: "string \<Rightarrow> (host_lease list, 'w) script"
  ph_remove_lease :: "string \<Rightarrow> (unit, 'w) script"
  ph_reservations :: "string \<Rightarrow> (host_reservation list, 'w) script"
  ph_reservation :: "string \<Rightarrow> string \<Rightarrow> 'w \<Rightarrow> host_reservation option"
  ph_add_reservation :: "agent_reservation \<Rightarrow> (unit, 'w) script"
  ph_set_reservation :: "string \<Rightarrow> string \<Rightarrow> string \<Rightarrow> (unit, 'w) script"
  ph_remove_reservation :: "string \<Rightarrow> (unit, 'w) script"

subsection \<open>The scripts\<close>

text \<open>A script starts PowerShell and the module; a failure is worded by \<open>classifyPowerShellError\<close>.\<close>

definition run_dhcp :: "'w dhcp_host \<Rightarrow> ('a, 'w) script \<Rightarrow> ('a, 'w) script" where
  "run_dhcp H p = run_script classify_powershell_error (then_do (ph_start H) (\<lambda>_. p))"

text \<open>\<open>Convert-MaskToPrefix\<close> ends with an error when a one follows a zero.\<close>

fun mask_to_prefix :: "bool list \<Rightarrow> nat \<Rightarrow> bool \<Rightarrow> nat option" where
  "mask_to_prefix [] n seen = Some n"
| "mask_to_prefix (b # bs) n seen =
     (if b then (if seen then None else mask_to_prefix bs (Suc n) seen) else mask_to_prefix bs n True)"

definition lease_seconds :: "lease_span \<Rightarrow> int" where
  "lease_seconds l = (case l of NoSpan \<Rightarrow> 0 | UnlimitedSpan \<Rightarrow> - 1 | Span n \<Rightarrow> n)"

definition shown_scope :: "'w dhcp_host \<Rightarrow> host_scope \<Rightarrow> 'w \<Rightarrow> agent_scope option" where
  "shown_scope H h w =
     (case mask_to_prefix (mask_bits (hs_mask h)) 0 False of
        None \<Rightarrow> None
      | Some p \<Rightarrow> (let n = lease_seconds (hs_lease h) in
          Some \<lparr>gs_id = hs_id h, gs_name = hs_name h, gs_description = hs_description h,
            gs_subnet = hs_id h @ ''/'' @ itoa p,
            gs_default_gateway = (case ph_router H (hs_id h) w of None \<Rightarrow> [] | Some g \<Rightarrow> g),
            gs_start_range = hs_start h, gs_end_range = hs_end h,
            gs_lease_hours = (if 0 < n then (n + 3599) div 3600 else 0), gs_lease_seconds = n,
            gs_state = (if equal_fold (hs_state h) ''Active'' then ''Active'' else ''Inactive''), gs_server_id = ''local'',
            gs_old_start_range = [], gs_old_end_range = [], gs_changed_fields = []\<rparr>))"

definition list_scopes_script :: "'w dhcp_host \<Rightarrow> (agent_scope list, 'w) script" where
  "list_scopes_script H = then_do (ph_scopes H) (\<lambda>hs w.
     (Inr (concat (map (\<lambda>h. case shown_scope H h w of None \<Rightarrow> [] | Some s \<Rightarrow> [s]) hs)), w))"

definition get_scope_script :: "'w dhcp_host \<Rightarrow> string \<Rightarrow> (agent_scope, 'w) script" where
  "get_scope_script H i = then_do (ph_scope H i) (\<lambda>h w.
     (case shown_scope H h w of None \<Rightarrow> Inl ''scope subnet mask must be contiguous'' | Some s \<Rightarrow> Inr s, w))"

definition added_scope :: "agent_scope \<Rightarrow> string \<Rightarrow> new_scope" where
  "added_scope s m = \<lparr>nw_name = gs_name s, nw_start = gs_start_range s, nw_end = gs_end_range s, nw_mask = m,
     nw_description = (if trim_space (gs_description s) = [] then None else Some (gs_description s)),
     nw_lease = (if 0 < gs_lease_seconds s then Some (gs_lease_seconds s) else None)\<rparr>"

definition create_scope_script :: "'w dhcp_host \<Rightarrow> agent_scope \<Rightarrow> string \<Rightarrow> (unit, 'w) script" where
  "create_scope_script H s m =
     then_do (ph_add_scope H (added_scope s m))
       (\<lambda>_. then_do (if trim_space (gs_default_gateway s) = [] then returns () else ph_set_router H (gs_id s) (gs_default_gateway s))
         (\<lambda>_. if gs_lease_seconds s = - 1 then ph_set_unlimited H (gs_id s) else returns ()))"

definition scope_changed_set :: "string list \<Rightarrow> string set" where
  "scope_changed_set fs = set (filter (\<lambda>f. f \<noteq> []) (map (\<lambda>f. trim_space (to_lower f)) fs))"

definition scope_settings :: "string set \<Rightarrow> agent_scope \<Rightarrow> scope_setting list" where
  "scope_settings ch s =
     (if ''name'' \<in> ch then [SetName (gs_name s)] else []) @
     (if ''description'' \<in> ch then [SetDescription (gs_description s)] else []) @
     (if ''lease'' \<in> ch \<and> gs_lease_seconds s \<noteq> - 1
      then [SetLease (if gs_lease_seconds s \<le> 0 then int64 (gs_lease_hours s * 3600) else gs_lease_seconds s)] else []) @
     (if ''state'' \<in> ch then [SetState (gs_state s)] else []) @
     (if ''range'' \<in> ch \<and> gs_start_range s \<noteq> [] \<and> gs_end_range s \<noteq> [] then [SetRange (gs_start_range s) (gs_end_range s)] else [])"

text \<open>The commands of an update in order; without one the script is not run.\<close>

definition update_scope_commands :: "'w dhcp_host \<Rightarrow> agent_scope \<Rightarrow> string \<Rightarrow> (unit, 'w) script list" where
  "update_scope_commands H s i =
     (let fs = scope_changed_set (gs_changed_fields s);
          ch = (if fs = {} then {''name'', ''description'', ''gateway'', ''lease'', ''range'', ''state''} else fs)
      in (if scope_settings ch s = [] then [] else [ph_set_scope H i (scope_settings ch s)]) @
         (if ''lease'' \<in> ch \<and> gs_lease_seconds s = - 1 then [ph_set_unlimited H i] else []) @
         (if ''gateway'' \<in> ch then [ph_set_router H i (gs_default_gateway s)] else []))"

fun in_order :: "(unit, 'w) script list \<Rightarrow> (unit, 'w) script" where
  "in_order [] = returns ()"
| "in_order (p # ps) = then_do p (\<lambda>_. in_order ps)"

definition mac_value :: "string \<Rightarrow> string" where
  "mac_value v = to_lower (filter (\<lambda>c. c \<notin> set ''-:.'') (trim_space v))"

definition lease_state :: "string \<Rightarrow> string" where
  "lease_state v =
     (let t = trim_space v; n = to_lower (filter (\<lambda>c. c \<notin> set '' _-'') t) in
      if n \<in> {''reservedinactive'', ''inactivereservation'', ''reservationinactive''} then ''ReservedInactive''
      else if n \<in> {''reservedactive'', ''activereservation'', ''reservationactive'', ''reservation''} then ''ReservedActive''
      else t)"

definition shown_exclusions :: "string \<Rightarrow> (string \<times> string) list \<Rightarrow> dhcp_exclusion list" where
  "shown_exclusions i rs = map (\<lambda>(a, b). \<lparr>ex_id = i @ ''|'' @ a @ ''|'' @ b, ex_scope_id = i, ex_start_ip = a, ex_end_ip = b,
       ex_external_id = [], ex_last_synced_at = None\<rparr>)
     (filter (\<lambda>(a, b). trim_space a \<noteq> [] \<and> trim_space b \<noteq> []) rs)"

definition shown_leases :: "string \<Rightarrow> host_lease list \<Rightarrow> dhcp_lease list" where
  "shown_leases i ls = map (\<lambda>l. \<lparr>l_id = i @ ''|'' @ hl_ip l, l_scope_id = i, l_ip = hl_ip l, l_mac = mac_value (hl_client_id l),
       l_hostname = hl_host_name l, l_state = lease_state (hl_state l), l_expires_at = hl_expires l, l_external_id = [],
       l_last_synced_at = None\<rparr>)
     (filter (\<lambda>l. trim_space (hl_ip l) \<noteq> []) ls)"

text \<open>A blank name or description is looked up again for the address alone.\<close>

definition shown_reservation :: "'w dhcp_host \<Rightarrow> string \<Rightarrow> 'w \<Rightarrow> host_reservation \<Rightarrow> dhcp_reservation" where
  "shown_reservation H i w r =
     (let again = (if trim_space (ho_name r) = [] \<or> trim_space (ho_description r) = [] then ph_reservation H i (ho_ip r) w else None);
          name = (case again of Some d \<Rightarrow> if trim_space (ho_name r) = [] then ho_name d else ho_name r | None \<Rightarrow> ho_name r);
          desc = (case again of Some d \<Rightarrow> if trim_space (ho_description r) = [] then ho_description d else ho_description r
                   | None \<Rightarrow> ho_description r)
      in \<lparr>rv_id = i @ ''|'' @ ho_ip r, rv_scope_id = i, rv_ip = ho_ip r, rv_mac = mac_value (ho_client_id r), rv_name = name,
          rv_description = desc, rv_external_id = [], rv_last_synced_at = None\<rparr>)"

definition list_exclusions_script :: "'w dhcp_host \<Rightarrow> string \<Rightarrow> (dhcp_exclusion list, 'w) script" where
  "list_exclusions_script H i = then_do (ph_exclusions H i) (\<lambda>rs. returns (shown_exclusions i rs))"

definition list_leases_script :: "'w dhcp_host \<Rightarrow> string \<Rightarrow> (dhcp_lease list, 'w) script" where
  "list_leases_script H i = then_do (ph_leases H i) (\<lambda>ls. returns (shown_leases i ls))"

definition list_reservations_script :: "'w dhcp_host \<Rightarrow> string \<Rightarrow> (dhcp_reservation list, 'w) script" where
  "list_reservations_script H i = then_do (ph_reservations H i) (\<lambda>rs w.
     (Inr (map (shown_reservation H i w) (filter (\<lambda>r. trim_space (ho_ip r) \<noteq> []) rs)), w))"

definition list_scope_details_script ::
    "'w dhcp_host \<Rightarrow> string \<Rightarrow> (dhcp_exclusion list \<times> dhcp_lease list \<times> dhcp_reservation list, 'w) script" where
  "list_scope_details_script H i =
     then_do (list_exclusions_script H i) (\<lambda>es. then_do (list_leases_script H i) (\<lambda>ls.
       then_do (list_reservations_script H i) (\<lambda>rs. returns (es, ls, rs))))"

subsection \<open>The provider\<close>

definition scope_id_needed :: string where
  "scope_id_needed = ''scope id must be an IPv4 address''"

definition provider_probe :: "'w dhcp_host \<Rightarrow> (unit, 'w) script" where
  "provider_probe H = run_dhcp H (ph_settings H)"

definition provider_list_scopes :: "'w dhcp_host \<Rightarrow> (agent_scope list, 'w) script" where
  "provider_list_scopes H = run_dhcp H (list_scopes_script H)"

definition provider_get_scope :: "'w dhcp_host \<Rightarrow> string \<Rightarrow> (agent_scope, 'w) script" where
  "provider_get_scope H i =
     (if \<not> is_ipv4 (trim_space i) then throws scope_id_needed else run_dhcp H (get_scope_script H (trim_space i)))"

definition provider_create_scope :: "'w dhcp_host \<Rightarrow> agent_scope \<Rightarrow> (agent_scope, 'w) script" where
  "provider_create_scope H s0 =
     (case normalize_scope s0 of
        Inl e \<Rightarrow> throws e
      | Inr (s, i, m) \<Rightarrow> then_do (run_dhcp H (create_scope_script H s m)) (\<lambda>_. returns s))"

definition provider_update_scope :: "'w dhcp_host \<Rightarrow> agent_scope \<Rightarrow> (agent_scope, 'w) script" where
  "provider_update_scope H s0 =
     (case normalize_scope_update s0 of
        Inl e \<Rightarrow> throws e
      | Inr (s, i) \<Rightarrow>
          (let cs = update_scope_commands H s i in
           if cs = [] then returns s else then_do (run_dhcp H (in_order cs)) (\<lambda>_. returns s)))"

definition provider_set_scope_state :: "'w dhcp_host \<Rightarrow> string \<Rightarrow> bool \<Rightarrow> (unit, 'w) script" where
  "provider_set_scope_state H i active =
     (if \<not> is_ipv4 (trim_space i) then throws scope_id_needed
      else run_dhcp H (ph_set_scope H (trim_space i) [SetState (if active then ''Active'' else ''Inactive'')]))"

definition provider_delete_scope :: "'w dhcp_host \<Rightarrow> string \<Rightarrow> (unit, 'w) script" where
  "provider_delete_scope H i =
     (if \<not> is_ipv4 (trim_space i) then throws scope_id_needed else run_dhcp H (ph_remove_scope H (trim_space i)))"

definition provider_list_details ::
    "'w dhcp_host \<Rightarrow> string \<Rightarrow> (dhcp_exclusion list \<times> dhcp_lease list \<times> dhcp_reservation list, 'w) script" where
  "provider_list_details H i = run_dhcp H (list_scope_details_script H i)"

definition provider_list_exclusions :: "'w dhcp_host \<Rightarrow> string \<Rightarrow> (dhcp_exclusion list, 'w) script" where
  "provider_list_exclusions H i = run_dhcp H (list_exclusions_script H i)"

definition provider_list_leases :: "'w dhcp_host \<Rightarrow> string \<Rightarrow> (dhcp_lease list, 'w) script" where
  "provider_list_leases H i = run_dhcp H (list_leases_script H i)"

definition provider_list_reservations :: "'w dhcp_host \<Rightarrow> string \<Rightarrow> (dhcp_reservation list, 'w) script" where
  "provider_list_reservations H i = run_dhcp H (list_reservations_script H i)"

definition provider_create_exclusion :: "'w dhcp_host \<Rightarrow> agent_exclusion \<Rightarrow> (agent_exclusion, 'w) script" where
  "provider_create_exclusion H x0 =
     (case normalize_exclusion x0 of
        Inl e \<Rightarrow> throws e
      | Inr x \<Rightarrow> then_do (run_dhcp H (ph_add_exclusion H (gx_scope_id x) (gx_start_ip x) (gx_end_ip x))) (\<lambda>_. returns x))"

definition provider_delete_exclusion :: "'w dhcp_host \<Rightarrow> string \<Rightarrow> string \<Rightarrow> string \<Rightarrow> (unit, 'w) script" where
  "provider_delete_exclusion H i a b =
     (case normalize_exclusion \<lparr>gx_id = [], gx_scope_id = i, gx_start_ip = a, gx_end_ip = b\<rparr> of
        Inl e \<Rightarrow> throws e
      | Inr x \<Rightarrow> run_dhcp H (ph_remove_exclusion H (gx_scope_id x) (gx_start_ip x) (gx_end_ip x)))"

text \<open>The scope of a lease or reservation is checked but not part of the command.\<close>

definition provider_release_lease :: "'w dhcp_host \<Rightarrow> string \<Rightarrow> string \<Rightarrow> (unit, 'w) script" where
  "provider_release_lease H i ip =
     (if \<not> is_ipv4 (trim_space i) then throws scope_id_needed
      else if \<not> is_ipv4 (trim_space ip) then throws ''lease ip must be an IPv4 address''
      else run_dhcp H (ph_remove_lease H (trim_space ip)))"

definition provider_create_reservation :: "'w dhcp_host \<Rightarrow> agent_reservation \<Rightarrow> (agent_reservation, 'w) script" where
  "provider_create_reservation H r0 =
     (case normalize_reservation r0 of
        Inl e \<Rightarrow> throws e
      | Inr r \<Rightarrow> then_do (run_dhcp H (ph_add_reservation H r)) (\<lambda>_. returns r))"

definition provider_update_reservation ::
    "'w dhcp_host \<Rightarrow> agent_reservation \<Rightarrow> agent_reservation \<Rightarrow> (agent_reservation, 'w) script" where
  "provider_update_reservation H old0 new0 =
     (case normalize_reservation old0 of
        Inl e \<Rightarrow> throws (''old reservation: '' @ e)
      | Inr old \<Rightarrow>
          (case normalize_reservation new0 of
             Inl e \<Rightarrow> throws (''new reservation: '' @ e)
           | Inr new \<Rightarrow> then_do (run_dhcp H (ph_set_reservation H (gr_ip new) (gr_name new) (gr_description new))) (\<lambda>_. returns new)))"

definition provider_delete_reservation :: "'w dhcp_host \<Rightarrow> string \<Rightarrow> string \<Rightarrow> (unit, 'w) script" where
  "provider_delete_reservation H i ip =
     (if \<not> is_ipv4 (trim_space i) then throws ''reservation scope id must be an IPv4 address''
      else if \<not> is_ipv4 (trim_space ip) then throws ''reservation ip must be an IPv4 address''
      else run_dhcp H (ph_remove_reservation H (trim_space ip)))"

subsection \<open>Decoding and answers\<close>

definition decode_agent_scope :: "config \<Rightarrow> agent_scope option" where
  "decode_agent_scope c =
     (case (text_of c ''id'', text_of c ''name'', text_of c ''description'', text_of c ''subnet'', text_of c ''defaultGateway'') of
        (Some i, Some n, Some d, Some s, Some g) \<Rightarrow>
          (case (text_of c ''startRange'', text_of c ''endRange'', int_of c ''leaseDurationHours'', int_of c ''leaseDurationSeconds'') of
             (Some a, Some b, Some h, Some l) \<Rightarrow>
               (case (text_of c ''state'', text_of c ''serverId'', text_of c ''oldStartRange'', text_of c ''oldEndRange'',
                      list_of c ''changedFields'') of
                  (Some st, Some sv, Some oa, Some ob, Some fs) \<Rightarrow>
                    Some \<lparr>gs_id = i, gs_name = n, gs_description = d, gs_subnet = s, gs_default_gateway = g, gs_start_range = a,
                      gs_end_range = b, gs_lease_hours = h, gs_lease_seconds = l, gs_state = st, gs_server_id = sv,
                      gs_old_start_range = oa, gs_old_end_range = ob, gs_changed_fields = fs\<rparr>
                | _ \<Rightarrow> None)
           | _ \<Rightarrow> None)
      | _ \<Rightarrow> None)"

definition decode_agent_exclusion :: "config \<Rightarrow> agent_exclusion option" where
  "decode_agent_exclusion c =
     (case (text_of c ''id'', text_of c ''scopeId'', text_of c ''startIp'', text_of c ''endIp'') of
        (Some i, Some s, Some a, Some b) \<Rightarrow> Some \<lparr>gx_id = i, gx_scope_id = s, gx_start_ip = a, gx_end_ip = b\<rparr>
      | _ \<Rightarrow> None)"

definition decode_agent_reservation :: "config \<Rightarrow> agent_reservation option" where
  "decode_agent_reservation c =
     (case (text_of c ''id'', text_of c ''scopeId'', text_of c ''ip'', text_of c ''mac'', text_of c ''name'', text_of c ''description'') of
        (Some i, Some s, Some a, Some m, Some n, Some d) \<Rightarrow>
          Some \<lparr>gr_id = i, gr_scope_id = s, gr_ip = a, gr_mac = m, gr_name = n, gr_description = d\<rparr>
      | _ \<Rightarrow> None)"

definition decode_reservation_update :: "config \<Rightarrow> (agent_reservation \<times> agent_reservation) option" where
  "decode_reservation_update c =
     (case (Option.bind (object_of c ''old'') decode_agent_reservation, Option.bind (object_of c ''new'') decode_agent_reservation) of
        (Some a, Some b) \<Rightarrow> Some (a, b) | _ \<Rightarrow> None)"

definition decode_two_texts :: "string \<Rightarrow> string \<Rightarrow> config \<Rightarrow> (string \<times> string) option" where
  "decode_two_texts k l c = (case (text_of c k, text_of c l) of (Some a, Some b) \<Rightarrow> Some (a, b) | _ \<Rightarrow> None)"

definition decode_exclusion_ref :: "config \<Rightarrow> (string \<times> string \<times> string) option" where
  "decode_exclusion_ref c =
     (case (text_of c ''scopeId'', text_of c ''startIp'', text_of c ''endIp'') of (Some s, Some a, Some b) \<Rightarrow> Some (s, a, b) | _ \<Rightarrow> None)"

definition decode_scope_state :: "config \<Rightarrow> (string \<times> bool) option" where
  "decode_scope_state c = (case (text_of c ''scopeId'', bool_of c ''active'') of (Some s, Some b) \<Rightarrow> Some (s, b) | _ \<Rightarrow> None)"

text \<open>What the client makes of the JSON of an answer.\<close>

definition domain_scope :: "agent_scope \<Rightarrow> dhcp_scope" where
  "domain_scope s = \<lparr>sc_id = gs_id s, sc_name = gs_name s, sc_description = gs_description s, sc_subnet = gs_subnet s,
     sc_default_gateway = gs_default_gateway s, sc_start_range = gs_start_range s, sc_end_range = gs_end_range s,
     sc_lease_hours = gs_lease_hours s, sc_lease_seconds = gs_lease_seconds s, sc_state = gs_state s,
     sc_server_id = gs_server_id s, sc_external_id = [], sc_last_synced_at = None, sc_sync_status = [], sc_last_error = []\<rparr>"

definition domain_exclusion :: "agent_exclusion \<Rightarrow> dhcp_exclusion" where
  "domain_exclusion x = \<lparr>ex_id = gx_id x, ex_scope_id = gx_scope_id x, ex_start_ip = gx_start_ip x, ex_end_ip = gx_end_ip x,
     ex_external_id = [], ex_last_synced_at = None\<rparr>"

definition domain_reservation :: "agent_reservation \<Rightarrow> dhcp_reservation" where
  "domain_reservation r = \<lparr>rv_id = gr_id r, rv_scope_id = gr_scope_id r, rv_ip = gr_ip r, rv_mac = gr_mac r, rv_name = gr_name r,
     rv_description = gr_description r, rv_external_id = [], rv_last_synced_at = None\<rparr>"

subsection \<open>The routes\<close>

definition dhcp_create_scope :: "'w dhcp_host \<Rightarrow> 'w agent_handler" where
  "dhcp_create_scope H q = with_body decode_agent_scope q
     (\<lambda>s. answer_with (ScopeData \<circ> domain_scope) (provider_create_scope H s))"

definition dhcp_set_scope_state :: "'w dhcp_host \<Rightarrow> 'w agent_handler" where
  "dhcp_set_scope_state H q = with_body decode_scope_state q
     (\<lambda>(i, active). answer_with done_data (provider_set_scope_state H i active))"

definition dhcp_scope_route :: "'w dhcp_host \<Rightarrow> 'w agent_handler" where
  "dhcp_scope_route H q w =
     (let parts = segments_after ''/dhcp/scopes/'' (sr_path q); m = sr_method q; i = hd parts; sub = parts ! 1 in
      if i = [] then (route_not_found, w)
      else if length parts = 1 \<and> m = MDelete then answer_with done_data (provider_delete_scope H i) w
      else if length parts = 1 \<and> m = MGet then answer_with (ScopeData \<circ> domain_scope) (provider_get_scope H i) w
      else if length parts = 1 \<and> m = MPut then
        with_body decode_agent_scope q
          (\<lambda>s. answer_with (ScopeData \<circ> domain_scope) (provider_update_scope H (s\<lparr>gs_id := i\<rparr>))) w
      else if length parts = 2 \<and> sub = ''activate'' \<and> m = MPost then answer_with done_data (provider_set_scope_state H i True) w
      else if length parts = 2 \<and> sub = ''deactivate'' \<and> m = MPost then answer_with done_data (provider_set_scope_state H i False) w
      else if length parts = 2 \<and> sub = ''leases'' \<and> m = MGet then answer_with LeasesData (provider_list_leases H i) w
      else if length parts = 2 \<and> sub = ''details'' \<and> m = MGet then
        answer_with (\<lambda>(es, ls, rs). DetailData es ls rs) (provider_list_details H i) w
      else if length parts = 2 \<and> sub = ''reservations'' \<and> m = MGet then answer_with ReservationsData (provider_list_reservations H i) w
      else if length parts = 2 \<and> sub = ''exclusions'' \<and> m = MGet then answer_with ExclusionsData (provider_list_exclusions H i) w
      else if length parts = 3 \<and> sub = ''leases'' \<and> m = MDelete then answer_with done_data (provider_release_lease H i (parts ! 2)) w
      else (route_not_found, w))"

definition dhcp_release_lease :: "'w dhcp_host \<Rightarrow> 'w agent_handler" where
  "dhcp_release_lease H q = with_body (decode_two_texts ''scopeId'' ''ip'') q
     (\<lambda>(i, ip). answer_with done_data (provider_release_lease H i ip))"

definition dhcp_create_exclusion :: "'w dhcp_host \<Rightarrow> 'w agent_handler" where
  "dhcp_create_exclusion H q = with_body decode_agent_exclusion q
     (\<lambda>x. answer_with (ExclusionData \<circ> domain_exclusion) (provider_create_exclusion H x))"

definition dhcp_delete_exclusion :: "'w dhcp_host \<Rightarrow> 'w agent_handler" where
  "dhcp_delete_exclusion H q = with_body decode_exclusion_ref q
     (\<lambda>(i, a, b). answer_with done_data (provider_delete_exclusion H i a b))"

definition dhcp_create_reservation :: "'w dhcp_host \<Rightarrow> 'w agent_handler" where
  "dhcp_create_reservation H q = with_body decode_agent_reservation q
     (\<lambda>r. answer_with (ReservationData \<circ> domain_reservation) (provider_create_reservation H r))"

definition dhcp_update_reservation_by_body :: "'w dhcp_host \<Rightarrow> 'w agent_handler" where
  "dhcp_update_reservation_by_body H q = with_body decode_reservation_update q
     (\<lambda>(old, new). answer_with (ReservationData \<circ> domain_reservation) (provider_update_reservation H old new))"

definition dhcp_update_reservation :: "'w dhcp_host \<Rightarrow> 'w agent_handler" where
  "dhcp_update_reservation H q w =
     (let parts = segments_after ''/dhcp/reservations/'' (sr_path q) in
      if length parts \<noteq> 2 then (route_not_found, w)
      else with_body decode_agent_reservation q (\<lambda>b. answer_with (ReservationData \<circ> domain_reservation)
        (provider_update_reservation H
          \<lparr>gr_id = [], gr_scope_id = parts ! 0, gr_ip = parts ! 1, gr_mac = gr_mac b, gr_name = gr_name b, gr_description = []\<rparr>
          (b\<lparr>gr_scope_id := (if gr_scope_id b = [] then parts ! 0 else gr_scope_id b),
             gr_ip := (if gr_ip b = [] then parts ! 1 else gr_ip b)\<rparr>))) w)"

definition dhcp_delete_reservation :: "'w dhcp_host \<Rightarrow> 'w agent_handler" where
  "dhcp_delete_reservation H q w =
     (let parts = segments_after ''/dhcp/reservations/'' (sr_path q) in
      if length parts \<noteq> 2 then (route_not_found, w)
      else answer_with done_data (provider_delete_reservation H (parts ! 0) (parts ! 1)) w)"

definition dhcp_delete_reservation_by_body :: "'w dhcp_host \<Rightarrow> 'w agent_handler" where
  "dhcp_delete_reservation_by_body H q = with_body (decode_two_texts ''scopeId'' ''ip'') q
     (\<lambda>(i, ip). answer_with done_data (provider_delete_reservation H i ip))"

text \<open>The multiplexer; a path with a route under it is redirected when its method has none.\<close>

definition dhcp_mux :: "'w dhcp_host \<Rightarrow> 'w agent_handler" where
  "dhcp_mux H q w =
     (let s = raw_segments (sr_raw_path q); m = sr_method q in
      if \<not> clean_path (sr_raw_path q) then (Reply 301 None, w)
      else if s = [''health''] then only_method MGet (\<lambda>q w. (data_reply ObjectData, w)) q w
      else if s = [''dhcp'', ''probe''] then only_method MGet (\<lambda>q. answer_with done_data (provider_probe H)) q w
      else if s = [''dhcp'', ''scopes''] then
        (if m = MGet then answer_with (ScopesData \<circ> map domain_scope) (provider_list_scopes H) w
         else if m = MPost then dhcp_create_scope H q w else (Reply 301 None, w))
      else if s = [''dhcp'', ''scopes'', ''state''] \<and> m = MPost then dhcp_set_scope_state H q w
      else if take 2 s = [''dhcp'', ''scopes''] \<and> 2 < length s then dhcp_scope_route H q w
      else if s = [''dhcp'', ''exclusions''] then only_method MPost (dhcp_create_exclusion H) q w
      else if s = [''dhcp'', ''exclusions'', ''delete''] then only_method MPost (dhcp_delete_exclusion H) q w
      else if s = [''dhcp'', ''leases'', ''release''] then only_method MPost (dhcp_release_lease H) q w
      else if s = [''dhcp'', ''reservations''] then
        (if m = MPost then dhcp_create_reservation H q w else if m = MGet then (Reply 405 None, w) else (Reply 301 None, w))
      else if s = [''dhcp'', ''reservations'', ''delete''] \<and> m = MPost then dhcp_delete_reservation_by_body H q w
      else if s = [''dhcp'', ''reservations'', ''update''] \<and> m = MPost then dhcp_update_reservation_by_body H q w
      else if take 2 s = [''dhcp'', ''reservations''] \<and> 2 < length s then
        (if m = MPut then dhcp_update_reservation H q w else if m = MDelete then dhcp_delete_reservation H q w
         else (Reply 405 None, w))
      else (Reply 404 None, w))"

definition dhcp_agent :: "agent_config \<Rightarrow> 'w dhcp_host \<Rightarrow> 'w agent_handler" where
  "dhcp_agent cfg H = agent_middleware cfg (dhcp_mux H)"

end
