(* ===== verification/ZL_Dhcp_Wire.thy ===== *)
theory ZL_Dhcp_Wire
  imports ZL_Dhcp_Agent ZL_Agent_Wire ZL_Dhcp_Handlers ZL_Sync_Resources
begin

text \<open>
  The DHCP agent beside the backend: the checks that both make on a scope agree, what the agent accepts,
  what the commands of an update set, and the synchronisation of a scope over the agent's HTTP
  interface. The last section is about the key that guards an agent.
\<close>

subsection \<open>Addresses as texts and bytes\<close>

lemma bytes_of_four: "length b = 4 \<Longrightarrow> \<exists>p q r s. b = [p, q, r, s :: 8 word]"
  by (auto simp: numeral_eq_Suc length_Suc_conv)

lemma to4_bytes_text [simp]:
  assumes "length b = 4"
  shows "to4_bytes (bytes_text b) = Some b"
proof -
  have "unat x < 256" for x :: "8 word"
    using unsigned_less [of x, where 'a = nat] by simp
  then have "parse_ip_to4 (bytes_text b) = Some (map unat b)"
    using assms unfolding bytes_text_def by (intro parse_ip_dotted) auto
  then show ?thesis by (simp add: to4_bytes_def comp_def)
qed

lemma bytes_text_ipv4 [simp]: "length b = 4 \<Longrightarrow> is_ipv4 (bytes_text b)"
  using to4_bytes_text [of b] by (auto simp: is_ipv4_def to4_bytes_def)

lemma trim_dotted: "length gs = 4 \<Longrightarrow> trim_space (dotted gs) = dotted gs"
proof -
  assume "length gs = 4"
  then obtain a b c e where "gs = [a, b, c, e]" by (auto simp: numeral_eq_Suc length_Suc_conv)
  moreover have "is_digit (hd (itoa a))" "is_digit (last (itoa e))"
    by (rule itoa_digits [of _ a] itoa_digits [of _ e], simp)+
  ultimately show ?thesis by (intro trim_space_graph) (auto simp: graph_ends_def is_digit_def dotted4)
qed

lemma trim_bytes_text [simp]: "length b = 4 \<Longrightarrow> trim_space (bytes_text b) = bytes_text b"
  by (simp add: bytes_text_def trim_dotted)

lemma trim_digits: "list_all is_digit s \<Longrightarrow> trim_space s = s"
proof (cases "s = []")
  case False
  moreover assume "list_all is_digit s"
  ultimately have "is_digit (hd s)" "is_digit (last s)" by (simp_all add: list_all_iff)
  with False show ?thesis by (intro trim_space_graph) (auto simp: graph_ends_def is_digit_def)
qed simp

lemma slash_not_digit [simp]: "\<not> is_digit (CHR ''/'')" "\<not> is_digit (CHR ''-'')" "\<not> is_digit (CHR ''+'')"
  by (simp_all add: is_digit_def char_code_def)

lemma cut_at_joined: "c \<in> set s \<Longrightarrow> s = fst (cut_at c s) @ c # snd (cut_at c s)"
  by (induction s) (auto simp: cut_at_def)

lemma cut_at_first: "c \<notin> set (fst (cut_at c s))"
  by (auto simp: cut_at_def dest: set_takeWhileD)

subsection \<open>Two parsers of one subnet\<close>

text \<open>What \<open>parseScopeSubnet\<close> accepts, the backend parses to the same network and mask.\<close>

lemma scan_digits: "s \<noteq> [] \<Longrightarrow> list_all is_digit s \<Longrightarrow> digits_value s < 2 ^ 63 \<Longrightarrow> scan_int s = Some (int (digits_value s))"
proof -
  assume a: "s \<noteq> []" "list_all is_digit s" "digits_value s < 2 ^ 63"
  then obtain c cs where s: "s = c # cs" "is_digit c" by (cases s) auto
  then have "c \<noteq> CHR ''-''" "c \<noteq> CHR ''+''" by auto
  moreover have "takeWhile is_digit cs = cs" using a(2) s by (simp add: list_all_iff)
  moreover have "int (digits_value s) < 2 ^ 63" using a(3) by (metis of_nat_less_iff of_nat_numeral of_nat_power)
  ultimately show ?thesis using s a(3) by (simp add: scan_int_def Let_def del: takeWhile_eq_all_conv)
qed

lemma scope_subnet_parsed:
  assumes "parse_scope_subnet subnet = Inr (i, m)"
  obtains net p where "length net = 4" "p \<le> 32" "i = bytes_text net" "m = bytes_text (cidr_bytes p 4)"
    "parse_dhcp_scope_subnet subnet = Inr (net, cidr_bytes p 4)"
proof -
  define v where "v = trim_space subnet"
  obtain a t where cut: "cut_at (CHR ''/'') v = (a, t)" by (rule prod.exhaust)
  have parsed: "CHR ''/'' \<in> set v \<and> CHR '':'' \<notin> set a \<and>
      (\<exists>net p. to4_bytes a = Some net \<and> cidr_length 32 t = Some p \<and> i = bytes_text net \<and> m = bytes_text (cidr_bytes p 4))"
    using assms unfolding parse_scope_subnet_def Let_def v_def [symmetric] cut prod.case
    by (auto split: if_splits option.splits)
  then obtain net p where np: "to4_bytes a = Some net" "cidr_length 32 t = Some p" "i = bytes_text net"
      "m = bytes_text (cidr_bytes p 4)" by blast
  from np(2) have t: "t \<noteq> []" "list_all is_digit t" "p = digits_value t" "p \<le> 32"
    by (auto simp: cidr_length_def split: if_splits)
  then have "CHR ''/'' \<notin> set t" by (auto simp: list_all_iff)
  then have split: "split_on (CHR ''/'') v = [a, t]"
    using cut_at_joined [of "CHR ''/''" v] cut_at_first [of "CHR ''/''" v] parsed cut
    by (simp add: split_on_append split_on_clean)
  obtain gs where gs: "parse_ip_to4 a = Some gs" "net = map of_nat gs" using np(1) by (auto simp: to4_bytes_def)
  then have "trim_space a = a" using parse_ip_no_colon [OF gs(1)] parsed trim_dotted by auto
  moreover have "scan_int t = Some (int p)" using t by (simp add: scan_digits)
  ultimately have "parse_dhcp_scope_subnet subnet = Inr (net, cidr_bytes p 4)"
    using split np(1) t trim_digits [OF t(2)] by (simp add: parse_dhcp_scope_subnet_def v_def del: cidr_bytes.simps)
  then show ?thesis using that [of net p] np t(4) to4_bytes_length [OF np(1)] by blast
qed

text \<open>C37. The agent and the backend accept the same gateways: for every subnet that the agent parses, its check of
  a gateway finds no error exactly when the check that the backend makes before it calls the agent finds none.\<close>

theorem gateway_rules_agree:
  assumes "parse_scope_subnet subnet = Inr (i, m)"
  shows "validate_ipv4_in_scope i m gw label = None \<longleftrightarrow> validate_dhcp_scope_default_gateway subnet gw = None"
proof -
  obtain net p where np: "length net = 4" "p \<le> 32" "i = bytes_text net" "m = bytes_text (cidr_bytes p 4)"
      "parse_dhcp_scope_subnet subnet = Inr (net, cidr_bytes p 4)"
    using scope_subnet_parsed [OF assms] by metis
  have "to4_bytes [] = None" by (simp add: to4_bytes_def parse_ip_to4_def parse_ip_def)
  then show ?thesis
    using np by (auto simp: validate_ipv4_in_scope_def validate_dhcp_scope_default_gateway_def Let_def simp del: cidr_bytes.simps
        split: option.split)
qed

subsection \<open>What the agent accepts as a scope\<close>

lemma same_quotient:
  fixes g b d :: nat
  assumes "0 < d"
  shows "g div d = b div d \<longleftrightarrow> b div d * d \<le> g \<and> g \<le> b div d * d + (d - 1)"
proof
  assume "g div d = b div d"
  then have "g = b div d * d + g mod d" by (metis div_mult_mod_eq)
  moreover have "g mod d < d" using assms by simp
  ultimately show "b div d * d \<le> g \<and> g \<le> b div d * d + (d - 1)" by linarith
next
  assume "b div d * d \<le> g \<and> g \<le> b div d * d + (d - 1)"
  then have "b div d * d \<le> g" "g < Suc (b div d) * d" using assms by auto
  then show "g div d = b div d" by (simp add: div_nat_eqI mult.commute)
qed

lemma unsigned_network:
  assumes "length net = 4" "length ip = 4" "p \<le> 32"
  defines "lo \<equiv> unat (be_uint32 net) div 2 ^ (32 - p) * 2 ^ (32 - p)"
  shows "ip_mask (cidr_bytes p 4) ip = ip_mask (cidr_bytes p 4) net \<longleftrightarrow>
    lo \<le> unat (be_uint32 ip) \<and> unat (be_uint32 ip) \<le> lo + (2 ^ (32 - p) - 1)"
proof -
  have len: "length (ip_mask (cidr_bytes p 4) ip) = 4" "length (ip_mask (cidr_bytes p 4) net) = 4"
    using assms(1,2) by (simp_all add: ip_mask_def)
  have "ip_mask (cidr_bytes p 4) ip = ip_mask (cidr_bytes p 4) net \<longleftrightarrow>
      unat (be_uint32 ip) div 2 ^ (32 - p) = unat (be_uint32 net) div 2 ^ (32 - p)"
    using assms(1-3) unfolding be_uint32_inject [OF len, symmetric]
    by (simp add: be_uint32_mask be_uint32_cidr word_unat_eq_iff unat_low_cleared del: cidr_bytes.simps)
  also have "\<dots> \<longleftrightarrow> lo \<le> unat (be_uint32 ip) \<and> unat (be_uint32 ip) \<le> lo + (2 ^ (32 - p) - 1)"
    unfolding lo_def by (rule same_quotient) simp
  finally show ?thesis .
qed

lemma mask_prefix_of_cidr: "p \<le> 32 \<Longrightarrow> ipv4_mask_prefix (bytes_text (cidr_bytes p 4)) = itoa p"
proof -
  assume "p \<le> 32"
  then have "p \<in> set [0..<33]" by simp
  moreover have "list_all (\<lambda>p. length (takeWhile id (mask_bits (cidr_bytes p 4))) = p \<and>
      True \<notin> set (drop p (mask_bits (cidr_bytes p 4)))) [0..<33]"
    by code_simp
  ultimately show ?thesis by (simp add: list_all_iff ipv4_mask_prefix_def Let_def del: cidr_bytes.simps set_upt)
qed

lemma trimmed_fields [simp]:
  "gs_name (trimmed_scope s) = trim_space (gs_name s)" "gs_subnet (trimmed_scope s) = trim_space (gs_subnet s)"
  "gs_start_range (trimmed_scope s) = trim_space (gs_start_range s)" "gs_end_range (trimmed_scope s) = trim_space (gs_end_range s)"
  "gs_default_gateway (trimmed_scope s) = trim_space (gs_default_gateway s)" "gs_state (trimmed_scope s) = trim_space (gs_state s)"
  "gs_lease_seconds (trimmed_scope s) = gs_lease_seconds s"
  by (simp_all add: trimmed_scope_def)

lemma ranges_in_network:
  assumes "validate_ipv4_range_in_scope (bytes_text net) (bytes_text (cidr_bytes p 4)) st en = None" "length net = 4" "p \<le> 32"
  defines "lo \<equiv> unat (be_uint32 net) div 2 ^ (32 - p) * 2 ^ (32 - p)"
  shows "\<exists>a b. to4_bytes (trim_space st) = Some a \<and> to4_bytes (trim_space en) = Some b \<and> lo \<le> unat (be_uint32 a) \<and>
    unat (be_uint32 a) \<le> unat (be_uint32 b) \<and> unat (be_uint32 b) \<le> lo + (2 ^ (32 - p) - 1)"
proof -
  from assms(1,2) obtain a b where ab: "to4_bytes (trim_space st) = Some a" "to4_bytes (trim_space en) = Some b"
      "ip_mask (cidr_bytes p 4) a = ip_mask (cidr_bytes p 4) net" "ip_mask (cidr_bytes p 4) b = ip_mask (cidr_bytes p 4) net"
      "be_uint32 a \<le> be_uint32 b"
    by (auto simp: validate_ipv4_range_in_scope_def simp del: cidr_bytes.simps split: option.splits if_splits)
  moreover have "length a = 4" "length b = 4" using ab(1,2) to4_bytes_length by blast+
  moreover have "unat (be_uint32 a) \<le> unat (be_uint32 b)" using ab(5) by (simp add: word_le_nat_alt)
  ultimately show ?thesis using assms(3) unsigned_network [OF assms(2)] unfolding lo_def by metis
qed

lemma gateway_in_network:
  assumes "validate_ipv4_in_scope (bytes_text net) (bytes_text (cidr_bytes p 4)) gw label = None" "length net = 4" "p \<le> 32"
  defines "lo \<equiv> unat (be_uint32 net) div 2 ^ (32 - p) * 2 ^ (32 - p)"
  shows "\<exists>g. to4_bytes (trim_space gw) = Some g \<and> lo < unat (be_uint32 g) \<and> unat (be_uint32 g) < lo + (2 ^ (32 - p) - 1)"
proof -
  from assms(1,2) obtain g where g: "to4_bytes (trim_space gw) = Some g"
      "ip_mask (cidr_bytes p 4) g = ip_mask (cidr_bytes p 4) net \<and> be_uint32 g \<noteq> be_uint32 (ip_mask (cidr_bytes p 4) net) \<and>
      be_uint32 g \<noteq> (be_uint32 (ip_mask (cidr_bytes p 4) net) OR NOT (be_uint32 (cidr_bytes p 4)))"
    by (auto simp: validate_ipv4_in_scope_def Let_def simp del: cidr_bytes.simps split: option.splits if_splits)
  moreover have "length g = 4" using g(1) to4_bytes_length by blast
  ultimately show ?thesis using gateway_tests [OF assms(2) _ assms(3)] unfolding lo_def by blast
qed

lemma ceil_hours_bounds:
  assumes "0 < n" "n < 2 ^ 63 - 3599"
  shows "n \<le> ceil_hours n * 3600" "(ceil_hours n - 1) * 3600 < n"
proof -
  have "int64 (n + 3599) = n + 3599"
    unfolding int64_def using assms by (intro signed_take_bit_int_eq_self) auto
  then have "ceil_hours n = (n + 3599) div 3600" using assms by (simp add: ceil_hours_def)
  moreover have "(n + 3599) div 3600 * 3600 + (n + 3599) mod 3600 = n + 3599" "(n + 3599) mod 3600 < 3600" "0 \<le> (n + 3599) mod 3600"
    by simp_all
  ultimately show "n \<le> ceil_hours n * 3600" "(ceil_hours n - 1) * 3600 < n" by (simp_all add: left_diff_distrib)
qed

lemma scope_checks_none:
  "scope_checks s i m = None \<Longrightarrow> validate_ipv4_range_in_scope i m (gs_start_range s) (gs_end_range s) = None \<and>
    validate_ipv4_in_scope i m (gs_default_gateway s) ''default gateway'' = None \<and> (gs_lease_seconds s = - 1 \<or> 0 < gs_lease_seconds s)"
  unfolding scope_checks_def by (auto split: option.splits if_splits)

text \<open>C38. A scope that the agent creates is well formed: it names a network and a prefix length, the start of its
  range does not exceed the end and both lie inside the network, its gateway lies strictly inside, and
  its lease is unlimited or positive, the hours being the seconds rounded up. What the agent stores as
  the subnet is the text of the address and the length, whatever the caller wrote.\<close>

theorem normalized_scope_ok:
  assumes "normalize_scope s = Inr (s', i, m)"
  shows "\<exists>net p a b g lo. length net = 4 \<and> p \<le> 32 \<and> i = bytes_text net \<and> m = bytes_text (cidr_bytes p 4) \<and>
    gs_id s' = i \<and> gs_subnet s' = i @ ''/'' @ itoa p \<and> gs_name s' \<noteq> [] \<and> gs_state s' \<noteq> [] \<and>
    to4_bytes (gs_start_range s') = Some a \<and> to4_bytes (gs_end_range s') = Some b \<and> to4_bytes (gs_default_gateway s') = Some g \<and>
    lo = unat (be_uint32 net) div 2 ^ (32 - p) * 2 ^ (32 - p) \<and>
    lo \<le> unat (be_uint32 a) \<and> unat (be_uint32 a) \<le> unat (be_uint32 b) \<and> unat (be_uint32 b) \<le> lo + (2 ^ (32 - p) - 1) \<and>
    lo < unat (be_uint32 g) \<and> unat (be_uint32 g) < lo + (2 ^ (32 - p) - 1) \<and>
    (gs_lease_seconds s' = - 1 \<and> gs_lease_hours s' = 0 \<or> 0 < gs_lease_seconds s' \<and>
      (gs_lease_seconds s' < 2 ^ 63 - 3599 \<longrightarrow> gs_lease_seconds s' \<le> gs_lease_hours s' * 3600 \<and>
        (gs_lease_hours s' - 1) * 3600 < gs_lease_seconds s'))"
proof -
  let ?t = "trimmed_scope s"
  from assms have n: "gs_name ?t \<noteq> []" "parse_scope_subnet (gs_subnet ?t) = Inr (i, m)" "scope_checks ?t i m = None"
      "s' = ?t\<lparr>gs_lease_hours := (if gs_lease_seconds ?t = - 1 then 0 else ceil_hours (gs_lease_seconds ?t)),
               gs_state := (if gs_state ?t = [] then ''Active'' else gs_state ?t), gs_id := i,
               gs_subnet := i @ ''/'' @ ipv4_mask_prefix m, gs_server_id := ''local''\<rparr>"
    unfolding normalize_scope_def Let_def by (auto split: if_splits sum.splits prod.splits option.splits)
  obtain net p where np: "length net = 4" "p \<le> 32" "i = bytes_text net" "m = bytes_text (cidr_bytes p 4)"
    using scope_subnet_parsed [OF n(2)] by metis
  note ok = scope_checks_none [OF n(3)]
  obtain a b where "to4_bytes (gs_start_range ?t) = Some a" "to4_bytes (gs_end_range ?t) = Some b"
      "unat (be_uint32 net) div 2 ^ (32 - p) * 2 ^ (32 - p) \<le> unat (be_uint32 a)" "unat (be_uint32 a) \<le> unat (be_uint32 b)"
      "unat (be_uint32 b) \<le> unat (be_uint32 net) div 2 ^ (32 - p) * 2 ^ (32 - p) + (2 ^ (32 - p) - 1)"
    using ranges_in_network [OF _ np(1,2), of "gs_start_range ?t" "gs_end_range ?t"] ok np(3,4) by auto
  moreover obtain g where "to4_bytes (gs_default_gateway ?t) = Some g"
      "unat (be_uint32 net) div 2 ^ (32 - p) * 2 ^ (32 - p) < unat (be_uint32 g)"
      "unat (be_uint32 g) < unat (be_uint32 net) div 2 ^ (32 - p) * 2 ^ (32 - p) + (2 ^ (32 - p) - 1)"
    using gateway_in_network [OF _ np(1,2), of "gs_default_gateway ?t" "''default gateway''"] ok np(3,4) by auto
  moreover have "gs_lease_seconds s' = - 1 \<and> gs_lease_hours s' = 0 \<or> 0 < gs_lease_seconds s' \<and>
      (gs_lease_seconds s' < 2 ^ 63 - 3599 \<longrightarrow> gs_lease_seconds s' \<le> gs_lease_hours s' * 3600 \<and>
        (gs_lease_hours s' - 1) * 3600 < gs_lease_seconds s')"
  proof -
    have l: "gs_lease_seconds s' = gs_lease_seconds s"
      "gs_lease_hours s' = (if gs_lease_seconds s = - 1 then 0 else ceil_hours (gs_lease_seconds s))"
      unfolding n(4) by simp_all
    have "gs_lease_seconds s = - 1 \<or> 0 < gs_lease_seconds s" using ok by simp
    then show ?thesis
      unfolding l using ceil_hours_bounds [of "gs_lease_seconds s"] by (elim disjE) simp_all
  qed
  moreover have "gs_id s' = i" "gs_subnet s' = i @ ''/'' @ itoa p" "gs_name s' \<noteq> []" "gs_state s' \<noteq> []"
    unfolding n(4) using n(1) mask_prefix_of_cidr [OF np(2)] np(4) by (simp_all del: cidr_bytes.simps)
  moreover have "gs_start_range s' = gs_start_range ?t" "gs_end_range s' = gs_end_range ?t" "gs_default_gateway s' = gs_default_gateway ?t"
    unfolding n(4) by simp_all
  ultimately show ?thesis
    using np by (intro exI conjI; (rule refl | assumption | simp only:))
qed

subsection \<open>The calls for scopes\<close>

definition scope_view :: "dhcp_scope \<Rightarrow> string \<Rightarrow> string \<Rightarrow> string list \<Rightarrow> agent_scope" where
  "scope_view s a b fs = \<lparr>gs_id = sc_id s, gs_name = sc_name s, gs_description = sc_description s, gs_subnet = sc_subnet s,
     gs_default_gateway = sc_default_gateway s, gs_start_range = sc_start_range s, gs_end_range = sc_end_range s,
     gs_lease_hours = sc_lease_hours s, gs_lease_seconds = sc_lease_seconds s, gs_state = sc_state s, gs_server_id = sc_server_id s,
     gs_old_start_range = a, gs_old_end_range = b, gs_changed_fields = fs\<rparr>"

lemma cfg_get_Nil: "cfg_get [] k = JNull"
  by (simp add: cfg_get_def)

lemma cfg_get_append: "cfg_get (c @ d) k = (if k \<in> fst ` set c then cfg_get c k else cfg_get d k)"
  by (auto simp: cfg_get_def map_add_def dom_map_of_conv_image_fst [symmetric] domIff split: option.split)

lemma cfg_get_text_field: "cfg_get (text_field k v @ c) k' = (if k = k' \<and> v \<noteq> [] then JText v else cfg_get c k')"
  by (simp add: cfg_get_def text_field_def)

lemma cfg_get_time_append: "k \<noteq> k' \<Longrightarrow> cfg_get (time_field tt k v @ c) k' = cfg_get c k'"
  by (simp add: cfg_get_def time_field_def text_field_def split: option.split)

lemma texts_of_texts: "texts_of (map JText fs) = Some fs"
  by (induction fs) simp_all

lemma cfg_get_text_alone: "cfg_get (text_field k v) k' = (if k = k' \<and> v \<noteq> [] then JText v else JNull)"
  by (simp add: cfg_get_def text_field_def)

lemma scope_fields:
  fixes tt :: "gotime \<Rightarrow> string"
  defines "doc \<equiv> \<lambda>s a b fs. scope_json tt s @ text_field ''oldStartRange'' a @ text_field ''oldEndRange'' b @
     (if fs = [] then [] else [(''changedFields'', JList (map JText fs))])"
  shows "text_of (doc s a b fs) ''id'' = Some (sc_id s)" "text_of (doc s a b fs) ''name'' = Some (sc_name s)"
    "text_of (doc s a b fs) ''description'' = Some (sc_description s)" "text_of (doc s a b fs) ''subnet'' = Some (sc_subnet s)"
    "text_of (doc s a b fs) ''defaultGateway'' = Some (sc_default_gateway s)"
    "text_of (doc s a b fs) ''startRange'' = Some (sc_start_range s)" "text_of (doc s a b fs) ''endRange'' = Some (sc_end_range s)"
    "text_of (doc s a b fs) ''state'' = Some (sc_state s)" "text_of (doc s a b fs) ''serverId'' = Some (sc_server_id s)"
    "text_of (doc s a b fs) ''oldStartRange'' = Some a" "text_of (doc s a b fs) ''oldEndRange'' = Some b"
    "list_of (doc s a b fs) ''changedFields'' = Some fs"
    "go_int (sc_lease_hours s) \<Longrightarrow> int_of (doc s a b fs) ''leaseDurationHours'' = Some (sc_lease_hours s)"
    "go_int (sc_lease_seconds s) \<Longrightarrow> int_of (doc s a b fs) ''leaseDurationSeconds'' = Some (sc_lease_seconds s)"
proof -
  note get = doc_def scope_json_def cfg_get_Cons cfg_get_Nil cfg_get_text_field cfg_get_text_alone cfg_get_time_append
  show "text_of (doc s a b fs) ''id'' = Some (sc_id s)" "text_of (doc s a b fs) ''name'' = Some (sc_name s)"
    "text_of (doc s a b fs) ''description'' = Some (sc_description s)" "text_of (doc s a b fs) ''subnet'' = Some (sc_subnet s)"
    "text_of (doc s a b fs) ''defaultGateway'' = Some (sc_default_gateway s)"
    "text_of (doc s a b fs) ''startRange'' = Some (sc_start_range s)" "text_of (doc s a b fs) ''endRange'' = Some (sc_end_range s)"
    "text_of (doc s a b fs) ''state'' = Some (sc_state s)" "text_of (doc s a b fs) ''serverId'' = Some (sc_server_id s)"
    "text_of (doc s a b fs) ''oldStartRange'' = Some a" "text_of (doc s a b fs) ''oldEndRange'' = Some b"
    by (auto simp: text_of_def get)
  show "list_of (doc s a b fs) ''changedFields'' = Some fs"
    by (auto simp: list_of_def get texts_of_texts)
  show "go_int (sc_lease_hours s) \<Longrightarrow> int_of (doc s a b fs) ''leaseDurationHours'' = Some (sc_lease_hours s)"
    by (rule int_of_json) (simp_all add: get)
  show "go_int (sc_lease_seconds s) \<Longrightarrow> int_of (doc s a b fs) ''leaseDurationSeconds'' = Some (sc_lease_seconds s)"
    by (rule int_of_json) (simp_all add: get)
qed

lemma decoded_scope:
  assumes "go_int (sc_lease_hours s)" "go_int (sc_lease_seconds s)"
  shows "Option.bind (body_object (body_json tt (ScopeUpdate s a b fs))) decode_agent_scope = Some (scope_view s a b fs)"
    and "Option.bind (body_object (body_json tt (ScopeBody s))) decode_agent_scope = Some (scope_view s [] [] [])"
proof -
  show "Option.bind (body_object (body_json tt (ScopeUpdate s a b fs))) decode_agent_scope = Some (scope_view s a b fs)"
    using assms by (simp add: body_object_def decode_agent_scope_def scope_fields scope_view_def)
  have none: "text_field k [] = []" for k by (simp add: text_field_def)
  note fields = scope_fields [where a = "[]" and b = "[]" and fs = "[]", simplified none, simplified]
  show "Option.bind (body_object (body_json tt (ScopeBody s))) decode_agent_scope = Some (scope_view s [] [] [])"
    using assms by (simp add: body_object_def decode_agent_scope_def fields scope_view_def)
qed

lemma with_body_bind: "with_body dec q k w = (case Option.bind (body_object (sr_body q)) dec of None \<Rightarrow> (bad_body, w) | Some b \<Rightarrow> k b w)"
  by (simp add: with_body_def split: option.split)

lemma scopes_url:
  "cut_at (CHR ''?'') ''/dhcp/scopes'' = (''/dhcp/scopes'', [])" "unescape False ''/dhcp/scopes'' = Some ''/dhcp/scopes''"
  "clean_path ''/dhcp/scopes''" "raw_segments ''/dhcp/scopes'' = [''dhcp'', ''scopes'']"
  by (simp_all add: cut_at_def clean_path_def raw_segments_def)

lemma scope_url:
  "cut_at (CHR ''?'') (scopes_path ext) = (scopes_path ext, [])"
  "unescape False (scopes_path ext) = Some (''/dhcp/scopes/'' @ ext)"
proof -
  show "cut_at (CHR ''?'') (scopes_path ext) = (scopes_path ext, [])"
    using escaped_no_question [of ext] by (intro cut_none) (auto simp: scopes_path_def)
  show "unescape False (scopes_path ext) = Some (''/dhcp/scopes/'' @ ext)"
    using escaped_path_roundtrip [of ext] by (simp add: scopes_path_def)
qed

lemma scope_path_segments:
  assumes "ext \<notin> {[], ''.'', ''..''}" "CHR ''/'' \<notin> set ext"
  shows "clean_path (scopes_path ext)" "raw_segments (scopes_path ext) = [''dhcp'', ''scopes'', ext]"
    and "segments_after ''/dhcp/scopes/'' (''/dhcp/scopes/'' @ ext) = [ext]"
proof -
  have split: "split_on (CHR ''/'') (scopes_path ext) = [[], ''dhcp'', ''scopes'', path_escape ext]"
    using split_on_clean [OF path_escape_no_slash] by (simp add: scopes_path_def)
  have "path_escape ext \<notin> {[], ''.'', ''..''}"
    using assms(1) path_escape_inject [of ext "[]"] path_escape_inject [of ext "''.''"] path_escape_inject [of ext "''..''"]
    by (auto simp: escaped_dots)
  then show "clean_path (scopes_path ext)" by (simp add: clean_path_def split)
  show "raw_segments (scopes_path ext) = [''dhcp'', ''scopes'', ext]" by (simp add: raw_segments_def split escaped_path_roundtrip)
  show "segments_after ''/dhcp/scopes/'' (''/dhcp/scopes/'' @ ext) = [ext]"
    using assms(2) trim_char_absent [OF assms(2)] by (simp add: segments_after_def trim_prefix_def has_prefix_def split_on_clean)
qed

lemma ipv4_segment: "is_ipv4 (trim_space ext) \<Longrightarrow> ext \<notin> {[], ''.'', ''..'', ''state''}"
proof -
  assume a: "is_ipv4 (trim_space ext)"
  have "trim_space ''.'' = ''.''" "trim_space ''..'' = ''..''" "trim_space ''state'' = ''state''"
    by (rule trim_space_graph, simp add: graph_ends_def char_code_def)+
  moreover have "\<not> is_ipv4 []" "\<not> is_ipv4 ''.''" "\<not> is_ipv4 ''..''" "\<not> is_ipv4 ''state''" by code_simp+
  ultimately show ?thesis using a by auto
qed

lemma scope_routes:
  assumes "go_int (sc_lease_hours s)" "go_int (sc_lease_seconds s)" "ext \<notin> {[], ''.'', ''..''}" "CHR ''/'' \<notin> set ext"
  shows "dhcp_mux H (arrived tt srv MPost ''/dhcp/scopes'' path qs (ScopeBody s)) =
      answer_with (ScopeData \<circ> domain_scope) (provider_create_scope H (scope_view s [] [] []))"
    and "dhcp_mux H (arrived tt srv MGet (scopes_path ext) (''/dhcp/scopes/'' @ ext) qs NoBody) =
      answer_with (ScopeData \<circ> domain_scope) (provider_get_scope H ext)"
    and "dhcp_mux H (arrived tt srv MDelete (scopes_path ext) (''/dhcp/scopes/'' @ ext) qs NoBody) =
      answer_with done_data (provider_delete_scope H ext)"
    and "dhcp_mux H (arrived tt srv MPut (scopes_path ext) (''/dhcp/scopes/'' @ ext) qs (ScopeUpdate s a b fs)) =
      answer_with (ScopeData \<circ> domain_scope) (provider_update_scope H ((scope_view s a b fs)\<lparr>gs_id := ext\<rparr>))"
proof -
  note segs = scope_path_segments [OF assms(3,4)]
  note route = fun_eq_iff dhcp_mux_def arrived_def segs scopes_url only_method_def dhcp_scope_route_def
  have ne: "ext \<noteq> []" using assms(3) by simp
  show "dhcp_mux H (arrived tt srv MPost ''/dhcp/scopes'' path qs (ScopeBody s)) =
      answer_with (ScopeData \<circ> domain_scope) (provider_create_scope H (scope_view s [] [] []))"
    by (simp add: route dhcp_create_scope_def with_body_bind decoded_scope [OF assms(1,2)] del: body_json.simps)
  show "dhcp_mux H (arrived tt srv MGet (scopes_path ext) (''/dhcp/scopes/'' @ ext) qs NoBody) =
      answer_with (ScopeData \<circ> domain_scope) (provider_get_scope H ext)"
    using ne by (simp add: route del: append_Cons)
  show "dhcp_mux H (arrived tt srv MDelete (scopes_path ext) (''/dhcp/scopes/'' @ ext) qs NoBody) =
      answer_with done_data (provider_delete_scope H ext)"
    using ne by (simp add: route del: append_Cons)
  show "dhcp_mux H (arrived tt srv MPut (scopes_path ext) (''/dhcp/scopes/'' @ ext) qs (ScopeUpdate s a b fs)) =
      answer_with (ScopeData \<circ> domain_scope) (provider_update_scope H ((scope_view s a b fs)\<lparr>gs_id := ext\<rparr>))"
    using ne by (simp add: route with_body_bind decoded_scope [OF assms(1,2)] del: append_Cons body_json.simps)
qed

definition reshaped :: "('a \<Rightarrow> 'b) \<Rightarrow> (agent_error + 'a) \<times> 'w \<Rightarrow> (agent_error + 'b) \<times> 'w" where
  "reshaped f x = (case x of (Inl e, w) \<Rightarrow> (Inl e, w) | (Inr v, w) \<Rightarrow> (Inr (f v), w))"

lemma served_reshaped: "(\<And>x. dst (f x) = Inr (g x)) \<Longrightarrow> served_call dst (answer_with f p w) = reshaped g (as_agent_error (p w))"
  by (cases "p w") (simp add: served_answer as_agent_error_def reshaped_def split: sum.split)

lemma scope_calls:
  assumes "net = agent_network tt (trim_right_slash (sv_agent_url srv)) (dhcp_agent cfg H)" "key_accepted cfg srv"
    and "go_int (sc_lease_hours s)" "go_int (sc_lease_seconds s)" "ext \<notin> {[], ''.'', ''..''}" "CHR ''/'' \<notin> set ext"
  shows "agent_call net MPost srv ''/dhcp/scopes'' (ScopeBody s) as_object w =
      reshaped (\<lambda>_. ()) (as_agent_error (provider_create_scope H (scope_view s [] [] []) w)) \<and>
    agent_call net MGet srv (scopes_path ext) NoBody (as_scope z) w =
      reshaped domain_scope (as_agent_error (provider_get_scope H ext w)) \<and>
    agent_call net MDelete srv (scopes_path ext) NoBody as_object w = as_agent_error (provider_delete_scope H ext w) \<and>
    agent_call net MPut srv (scopes_path ext) (ScopeUpdate s a b fs) (as_scope z) w =
      reshaped domain_scope (as_agent_error (provider_update_scope H ((scope_view s a b fs)\<lparr>gs_id := ext\<rparr>) w))"
proof -
  note reach = call_reaches [OF _ _ assms(2), where h = "dhcp_mux H" and tt = tt, folded dhcp_agent_def, folded assms(1)]
  note routes = scope_routes [OF assms(3-6)]
  have scope: "as_scope z ((ScopeData \<circ> domain_scope) x) = Inr (domain_scope x)" "as_object ((ScopeData \<circ> domain_scope) x) = Inr ()"
    for x by (simp_all add: as_scope_def as_object_def)
  show ?thesis
    by (simp only: reach [OF scopes_url(1,2)] reach [OF scope_url] routes served_unit served_reshaped [where f = "ScopeData \<circ> domain_scope" and g = domain_scope and dst = "as_scope z", OF scope(1)]
        served_reshaped [where f = "ScopeData \<circ> domain_scope" and g = "\<lambda>_. ()" and dst = as_object, OF scope(2)])
qed

text \<open>C35. The calls for scopes do on the DHCP server what they say: with an accepted key and a scope named without a slash,
  creating, reading, updating and deleting a scope over the agent's HTTP interface is the provider's
  operation on the scope and the changed fields that were sent, with its result or its error.\<close>

theorem scope_calls_reach_provider:
  assumes "net = agent_network tt (trim_right_slash (sv_agent_url srv)) (dhcp_agent cfg H)" "key_accepted cfg srv"
    and "go_int (sc_lease_hours s)" "go_int (sc_lease_seconds s)" "ext \<notin> {[], ''.'', ''..''}" "CHR ''/'' \<notin> set ext"
  shows "agent_call net MPost srv ''/dhcp/scopes'' (ScopeBody s) as_object w =
      reshaped (\<lambda>_. ()) (as_agent_error (provider_create_scope H (scope_view s [] [] []) w)) \<and>
    agent_call net MGet srv (scopes_path ext) NoBody (as_scope z) w =
      reshaped domain_scope (as_agent_error (provider_get_scope H ext w)) \<and>
    agent_call net MDelete srv (scopes_path ext) NoBody as_object w = as_agent_error (provider_delete_scope H ext w) \<and>
    agent_call net MPut srv (scopes_path ext) (ScopeUpdate s a b fs) (as_scope z) w =
      reshaped domain_scope (as_agent_error (provider_update_scope H ((scope_view s a b fs)\<lparr>gs_id := ext\<rparr>) w))"
  by (rule scope_calls [OF assms])

text \<open>Creating a scope is several commands without a transaction: when the gateway cannot be set, the call fails and
  the backend stores nothing, but the scope stays on the DHCP server.\<close>

theorem failed_gateway_keeps_scope:
  assumes "se_net E = agent_network tt (trim_right_slash (sv_agent_url srv)) (dhcp_agent cfg H)" "key_accepted cfg srv"
    and "go_int (sc_lease_hours body)" "go_int (sc_lease_seconds body)"
    and "normalize_scope (scope_view body [] [] []) = Inr (sc, i, m)"
    and "ph_start H (ap_world s) = (Inr u, ap_world s)" "ph_add_scope H (added_scope sc m) (ap_world s) = (Inr u', w1)"
    and "ph_set_router H i (gs_default_gateway sc) w1 = (Inl e, w2)"
  shows "create_scope_steps E c nid srv body s = (Fail 502 ''agent_create_scope_failed'', s\<lparr>ap_world := w2\<rparr>)"
proof -
  have sc: "gs_id sc = i" "gs_default_gateway sc = trim_space (sc_default_gateway body)" "trim_space (sc_default_gateway body) \<noteq> []"
    using assms(5) unfolding normalize_scope_def Let_def
    by (auto simp: scope_view_def scope_checks_def split: if_splits sum.splits prod.splits option.splits)
  have script: "create_scope_script H sc m (ap_world s) = (Inl e, w2)"
    using assms(7,8) sc by (simp add: create_scope_script_def then_do_def)
  have "provider_create_scope H (scope_view body [] [] []) (ap_world s) =
      (Inl (''powershell failed: '' @ classify_powershell_error (trim_space e)), w2)"
    using assms(5,6) script by (simp add: provider_create_scope_def run_dhcp_def run_script_def then_do_def)
  then have "agent_call (se_net E) MPost srv ''/dhcp/scopes'' (ScopeBody body) as_object (ap_world s) =
      (Inl (StatusError 500 ''AGENT_ERROR'' (''powershell failed: '' @ classify_powershell_error (trim_space e))), w2)"
    using scope_calls [OF assms(1-4), of "''x''"] by (simp add: as_agent_error_def reshaped_def)
  then show ?thesis by (simp add: create_scope_steps_def app_call_def)
qed

subsection \<open>A scope that is gone\<close>

lemma health_url:
  "cut_at (CHR ''?'') ''/health'' = (''/health'', [])" "unescape False ''/health'' = Some ''/health''"
  "clean_path ''/health''" "raw_segments ''/health'' = [''health'']"
  by (simp_all add: cut_at_def clean_path_def raw_segments_def)

lemma agent_not_legacy:
  assumes "se_net E = agent_network tt (trim_right_slash (sv_agent_url srv)) (dhcp_agent cfg H)" "key_accepted cfg srv"
  shows "is_legacy_agent E srv s = (Inr False, s)"
proof -
  have "agent_call (se_net E) MGet srv ''/health'' NoBody as_mode w = (Inr [], w)" for w
    unfolding assms(1) dhcp_agent_def call_reaches [OF health_url(1,2) assms(2)]
    by (simp add: dhcp_mux_def arrived_def health_url only_method_def served_call_def data_reply_def as_mode_def)
  moreover have "\<not> equal_fold [] ''legacy''" by code_simp
  ultimately show ?thesis
    by (simp add: is_legacy_agent_def sync_agent_def app_call_def sync_catch_def sync_return_def)
qed

text \<open>C40. The synchronisation of one scope deletes its rows when the agent answers 404; the DHCP agent never does: a
  scope that the DHCP server does not have any more is a failed script, which it answers with 500, so that the
  synchronisation fails and the stored scope stays.\<close>

theorem missing_scope_never_deleted:
  assumes "se_net E = agent_network tt (trim_right_slash (sv_agent_url srv)) (dhcp_agent cfg H)" "key_accepted cfg srv"
    and "is_ipv4 (trim_space ext)" "CHR ''/'' \<notin> set ext"
    and "ph_start H (ap_world s) = (Inr u, ap_world s)" "ph_scope H (trim_space ext) (ap_world s) = (Inl e, ap_world s)"
  shows "sync_one_dhcp_scope E srv ext s =
    (Inl (AgentErr (StatusError 500 ''AGENT_ERROR'' (''powershell failed: '' @ classify_powershell_error (trim_space e)))), s)"
proof -
  have get: "provider_get_scope H ext (ap_world s) =
      (Inl (''powershell failed: '' @ classify_powershell_error (trim_space e)), ap_world s)"
    using assms(3,5,6) by (simp add: provider_get_scope_def run_dhcp_def run_script_def get_scope_script_def then_do_def)
  have "ext \<notin> {[], ''.'', ''..''}" using ipv4_segment [OF assms(3)] by simp
  then have "agent_call (se_net E) MGet srv (scope_path ext []) NoBody (as_scope empty_scope) (ap_world s) =
      (Inl (StatusError 500 ''AGENT_ERROR'' (''powershell failed: '' @ classify_powershell_error (trim_space e))), ap_world s)"
    using scope_calls [OF assms(1,2), of empty_scope ext] assms(4) get
    by (simp add: as_agent_error_def reshaped_def scope_path_def scopes_path_def empty_scope_def go_int_def)
  then have "fetch_dhcp_scope E srv ext s =
      (Inl (AgentErr (StatusError 500 ''AGENT_ERROR'' (''powershell failed: '' @ classify_powershell_error (trim_space e)))), s)"
    by (simp add: fetch_dhcp_scope_def sync_bind_def sync_agent_def app_call_def)
  then show ?thesis
    using agent_not_legacy [OF assms(1,2), of s]
    by (simp add: sync_one_dhcp_scope_def sync_bind_def sync_catch_def sync_not_found_def agent_not_found_def sync_fail_def)
qed

subsection \<open>The key of an agent\<close>

lemma unescape_plain: "c \<noteq> CHR ''%'' \<Longrightarrow>
    unescape query (c # s) = map_option ((#) (if query \<and> c = CHR ''+'' then CHR '' '' else c)) (unescape query s)"
  by simp

lemma unescape_code:
  assumes "unescape query (CHR ''%'' # s) = Some t"
  obtains x y u v t' where "s = x # y # u" "hex_value x \<noteq> None" "hex_value y \<noteq> None" "unescape query u = Some t'" "t = v # t'"
  using assms that by (auto split: list.splits option.splits)

lemma slash_survives: "unescape query s = Some t \<Longrightarrow> CHR ''/'' \<in> set s \<Longrightarrow> CHR ''/'' \<in> set t"
proof (induction s arbitrary: t rule: length_induct)
  case (1 s)
  have hex: "hex_value (CHR ''/'') = None" by (simp add: hex_value_def char_code_def)
  obtain c s' where s: "s = c # s'" using 1(3) by (cases s) auto
  show ?case
  proof (cases "c = CHR ''%''")
    case True
    with 1(2) s have "unescape query (CHR ''%'' # s') = Some t" by simp
    then obtain x y u v t' where u: "s' = x # y # u" "hex_value x \<noteq> None" "hex_value y \<noteq> None"
        "unescape query u = Some t'" "t = v # t'" by (rule unescape_code)
    then have "CHR ''/'' \<in> set u" using 1(3) s True hex by auto
    then show ?thesis using 1(1) u s by (metis list.set_intros(2) length_Cons less_Suc_eq)
  next
    case False
    then obtain t' where t: "unescape query s' = Some t'" "t = (if query \<and> c = CHR ''+'' then CHR '' '' else c) # t'"
      using 1(2) unfolding s unescape_plain [OF False] by auto
    show ?thesis
    proof (cases "c = CHR ''/''")
      case False
      then have "CHR ''/'' \<in> set s'" using 1(3) s by simp
      then show ?thesis using 1(1) t s by (metis list.set_intros(2) length_Cons lessI)
    qed (simp add: t(2))
  qed
qed

lemma health_segments:
  assumes "clean_path raw" "unescape False raw = Some ''/health''"
  shows "raw_segments raw = [''health'']"
proof -
  obtain ss where ss: "split_on (CHR ''/'') raw = [] # ss" "ss \<noteq> []"
    using assms(1) by (auto simp: clean_path_def split: list.splits)
  then have "raw = CHR ''/'' # join_with ''/'' ss"
    using join_split_on [of "CHR ''/''" raw] by (cases ss) simp_all
  then have rest: "raw = CHR ''/'' # join_with ''/'' ss" "unescape False (join_with ''/'' ss) = Some ''health''"
    using assms(2) by auto
  then have "CHR ''/'' \<notin> set (join_with ''/'' ss)" using slash_survives [OF rest(2)] by auto
  then have "split_on (CHR ''/'') raw = [[], join_with ''/'' ss]"
    using rest(1) split_on_append [of "CHR ''/''" "[]" "join_with ''/'' ss"] by (simp add: split_on_clean)
  then show ?thesis using rest(2) by (simp add: raw_segments_def)
qed

definition sent_key :: "agent_request \<Rightarrow> string" where
  "sent_key q = (case q_api_key q of None \<Rightarrow> [] | Some k \<Rightarrow> header_value k)"

definition says_nothing :: "http_reply \<Rightarrow> bool" where
  "says_nothing r = (case r of Reply code (Some env) \<Rightarrow> ev_data env \<in> {NoData, ObjectData} | _ \<Rightarrow> True)"

lemma guarded:
  assumes "\<not> ac_allow_anonymous cfg" "trim_space (ac_api_key cfg) \<noteq> []" "sent_key q \<noteq> ac_api_key cfg"
    and "\<And>r. clean_path (sr_raw_path r) \<Longrightarrow> raw_segments (sr_raw_path r) = [''health''] \<Longrightarrow> snd (mux r w) = w \<and> says_nothing (fst (mux r w))"
    and "\<And>r. \<not> clean_path (sr_raw_path r) \<Longrightarrow> snd (mux r w) = w \<and> says_nothing (fst (mux r w))"
  shows "snd (agent_network tt base (agent_middleware cfg mux) q w) = w \<and>
    says_nothing (fst (agent_network tt base (agent_middleware cfg mux) q w))"
proof (cases "has_prefix (q_url q) base")
  case True
  obtain raw query where cut: "cut_at (CHR ''?'') (drop (length base) (q_url q)) = (raw, query)" by (rule prod.exhaust)
  show ?thesis
  proof (cases "unescape False raw")
    case None
    then show ?thesis using True cut by (simp add: agent_network_def says_nothing_def)
  next
    case (Some path)
    define r where "r = \<lparr>sr_method = q_method q, sr_raw_path = raw, sr_path = path, sr_query = parse_query query,
      sr_key = sent_key q, sr_body = body_json tt (q_body q)\<rparr>"
    have net: "agent_network tt base (agent_middleware cfg mux) q w = agent_middleware cfg mux r w"
      using True cut Some by (simp add: agent_network_def r_def sent_key_def)
    show ?thesis
    proof (cases "path = ''/health''")
      case True
      have "snd (mux r w) = w \<and> says_nothing (fst (mux r w))"
        using assms(4,5) [of r] health_segments [of raw] Some True by (cases "clean_path raw") (auto simp: r_def)
      then show ?thesis using True by (simp add: net agent_middleware_def r_def)
    next
      case False
      then have "agent_middleware cfg mux r w = (error_reply 401 ''UNAUTHORIZED'' ''invalid api key'', w)"
        using assms(1-3) by (simp add: agent_middleware_def r_def)
      then show ?thesis by (simp add: net says_nothing_def error_reply_def)
    qed
  qed
qed (simp add: agent_network_def says_nothing_def)


subsection \<open>A concrete DHCP server\<close>

text \<open>A server whose state is the list of its scopes; an option is refused for a scope it does not have.\<close>

definition needs_scope :: "string \<Rightarrow> (unit, string list) script" where
  "needs_scope i w = (if i \<in> set w then (Inr (), w) else (Inl ''scope not found'', w))"

definition table_dhcp :: "string list dhcp_host" where
  "table_dhcp = \<lparr>ph_start = returns (), ph_settings = returns (), ph_scopes = returns [], ph_scope = (\<lambda>i. throws ''scope not found''),
     ph_router = (\<lambda>i w. None),
     ph_add_scope = (\<lambda>n w. case (to4_bytes (nw_mask n), to4_bytes (nw_start n)) of
        (Some m, Some a) \<Rightarrow> (Inr (), bytes_text (ip_mask m a) # w) | _ \<Rightarrow> (Inl ''bad address'', w)),
     ph_set_scope = (\<lambda>i cs. needs_scope i), ph_set_router = (\<lambda>i g. needs_scope i), ph_set_unlimited = needs_scope,
     ph_remove_scope = (\<lambda>i w. if i \<in> set w then (Inr (), removeAll i w) else (Inl ''scope not found'', w)),
     ph_exclusions = (\<lambda>i. returns []), ph_add_exclusion = (\<lambda>i a b. needs_scope i), ph_remove_exclusion = (\<lambda>i a b. needs_scope i),
     ph_leases = (\<lambda>i. returns []), ph_remove_lease = (\<lambda>a. returns ()), ph_reservations = (\<lambda>i. returns []),
     ph_reservation = (\<lambda>i a w. None), ph_add_reservation = (\<lambda>r. returns ()), ph_set_reservation = (\<lambda>a n d. returns ()),
     ph_remove_reservation = (\<lambda>a. returns ())\<rparr>"

definition table_env :: "string list sync_env" where
  "table_env = \<lparr>se_net = agent_network (\<lambda>t. []) (trim_right_slash (sv_agent_url agent_server)) (dhcp_agent keyed_agent table_dhcp),
     se_now = 0, se_token = (\<lambda>k. None), se_gen = (\<lambda>p k n. []), se_text = (\<lambda>e. []), se_json = (\<lambda>m. []), se_json_ok = (\<lambda>t. True),
     se_perm = (\<lambda>n. []), se_expired = (\<lambda>w. False), se_cutoff = 0, se_max_len = 1000, se_ttl = 0\<rparr>"

lemma table_net:
  "se_net table_env = agent_network (\<lambda>t. []) (trim_right_slash (sv_agent_url agent_server)) (dhcp_agent keyed_agent table_dhcp)"
  by (simp add: table_env_def)

definition hosted_scope :: dhcp_scope where
  "hosted_scope = empty_scope\<lparr>sc_name := ''lab'', sc_subnet := ''10.0.0.5/24'', sc_default_gateway := ''10.0.0.1'',
     sc_start_range := ''10.0.0.10'', sc_end_range := ''10.0.0.20'', sc_lease_seconds := 5400\<rparr>"

lemma hosted_trims:
  "trim_space ''lab'' = ''lab''" "trim_space ''10.0.0.5/24'' = ''10.0.0.5/24''" "trim_space ''10.0.0.10'' = ''10.0.0.10''"
  "trim_space ''10.0.0.20'' = ''10.0.0.20''" "trim_space ''10.0.0.5'' = ''10.0.0.5''" "trim_space ''255.255.255.0'' = ''255.255.255.0''"
  "trim_space ''10.0.0.0'' = ''10.0.0.0''"
  by (rule trim_space_graph, simp add: graph_ends_def char_code_def)+

lemma hosted_addresses:
  "to4_bytes ''10.0.0.10'' = Some [10, 0, 0, 10]" "to4_bytes ''10.0.0.20'' = Some [10, 0, 0, 20]"
  "to4_bytes ''10.0.0.5'' = Some [10, 0, 0, 5]" "to4_bytes ''255.255.255.0'' = Some [255, 255, 255, 0]"
  "is_ipv4 ''10.0.0.10''" "is_ipv4 ''10.0.0.20''" "is_ipv4 ''10.0.0.5''" "is_ipv4 ''10.0.0.1''" "is_ipv4 ''10.0.0.0''"
  "bytes_text [10, 0, 0, 5] = ''10.0.0.5''" "bytes_text [255, 255, 255, 0] = ''255.255.255.0''" "bytes_text [10, 0, 0, 0] = ''10.0.0.0''"
  "cut_at (CHR ''/'') ''10.0.0.5/24'' = (''10.0.0.5'', ''24'')" "cidr_length 32 ''24'' = Some 24" "itoa 24 = ''24''"
  "cut_at (CHR ''/'') ''10.0.0.0/24'' = (''10.0.0.0'', ''24'')"
  by code_simp+

lemma hosted_subnet:
  "parse_scope_subnet ''10.0.0.5/24'' = Inr (''10.0.0.5'', ''255.255.255.0'')"
  "parse_scope_subnet ''10.0.0.0/24'' = Inr (''10.0.0.0'', ''255.255.255.0'')"
  by (simp_all add: parse_scope_subnet_def hosted_trims hosted_addresses sample_trims sample_parts del: cidr_bytes.simps)

lemma hosted_normal:
  "\<exists>s'. normalize_scope (scope_view hosted_scope [] [] []) = Inr (s', ''10.0.0.5'', ''255.255.255.0'') \<and>
     gs_start_range s' = ''10.0.0.10'' \<and> gs_default_gateway s' = ''10.0.0.1'' \<and> gs_lease_seconds s' = 5400"
proof -
  define t where "t = trimmed_scope (scope_view hosted_scope [] [] [])"
  have f: "gs_name t = ''lab''" "gs_subnet t = ''10.0.0.5/24''" "gs_start_range t = ''10.0.0.10''" "gs_end_range t = ''10.0.0.20''"
      "gs_default_gateway t = ''10.0.0.1''" "gs_lease_seconds t = 5400"
    by (simp_all add: t_def scope_view_def hosted_scope_def empty_scope_def hosted_trims sample_trims)
  have checks: "scope_checks t ''10.0.0.5'' ''255.255.255.0'' = None"
    by (simp add: scope_checks_def f hosted_addresses validate_ipv4_range_in_scope_def validate_ipv4_in_scope_def hosted_trims
        sample_trims sample_parts ip_mask_def be_uint32_def)
  show ?thesis
    by (simp add: normalize_scope_def Let_def t_def [symmetric] f hosted_subnet checks)
qed

definition table_app :: "string list \<Rightarrow> string list app" where
  "table_app w = \<lparr>ap_db = empty_db, ap_redis = empty_redis, ap_sched = new_scheduler, ap_world = w\<rparr>"

theorem gateway_rules_agree_witness:
  "validate_ipv4_in_scope ''10.0.0.0'' ''255.255.255.0'' ''10.0.0.1'' ''gateway'' = None \<and>
   validate_ipv4_in_scope ''10.0.0.0'' ''255.255.255.0'' ''10.0.0.255'' ''gateway'' \<noteq> None"
  using gateway_rules_agree [OF hosted_subnet(2), of "''10.0.0.1''" "''gateway''"]
    gateway_rules_agree [OF hosted_subnet(2), of "''10.0.0.255''" "''gateway''"] default_gateway_samples by simp

theorem normalized_scope_ok_witness:
  "\<exists>s' p. normalize_scope (scope_view hosted_scope [] [] []) = Inr (s', ''10.0.0.5'', ''255.255.255.0'') \<and>
     gs_subnet s' = ''10.0.0.5/'' @ itoa p \<and> p \<le> 32"
proof -
  obtain s' where n: "normalize_scope (scope_view hosted_scope [] [] []) = Inr (s', ''10.0.0.5'', ''255.255.255.0'')"
    using hosted_normal by blast
  from normalized_scope_ok [OF n] obtain p where "gs_subnet s' = ''10.0.0.5'' @ ''/'' @ itoa p" "p \<le> 32" by blast
  then show ?thesis using n by auto
qed

lemma hosted_ints: "go_int (sc_lease_hours hosted_scope)" "go_int (sc_lease_seconds hosted_scope)"
  by (simp_all add: hosted_scope_def empty_scope_def go_int_def)

theorem scope_calls_reach_provider_witness:
  "agent_call (se_net table_env) MDelete agent_server (scopes_path ''10.0.0.0'') NoBody as_object [''10.0.0.0''] = (Inr (), [])"
proof -
  have "provider_delete_scope table_dhcp ''10.0.0.0'' [''10.0.0.0''] = (Inr (), [])"
    by (simp add: provider_delete_scope_def hosted_trims hosted_addresses run_dhcp_def run_script_def then_do_def table_dhcp_def returns_def)
  then show ?thesis
    using scope_calls_reach_provider [OF table_net accepted_key hosted_ints, of "''10.0.0.0''"] by (simp add: as_agent_error_def)
qed

theorem failed_gateway_keeps_scope_witness:
  "create_scope_steps table_env sample_admin ''n'' agent_server hosted_scope (table_app []) =
     (Fail 502 ''agent_create_scope_failed'', table_app [''10.0.0.0''])"
proof -
  obtain s' where n: "normalize_scope (scope_view hosted_scope [] [] []) = Inr (s', ''10.0.0.5'', ''255.255.255.0'')"
      "gs_start_range s' = ''10.0.0.10''"
    using hosted_normal by blast
  have "ph_add_scope table_dhcp (added_scope s' ''255.255.255.0'') [] = (Inr (), [''10.0.0.0''])"
    by (simp add: table_dhcp_def added_scope_def n(2) hosted_addresses ip_mask_def)
  moreover have "ph_set_router table_dhcp ''10.0.0.5'' g [''10.0.0.0''] = (Inl ''scope not found'', [''10.0.0.0''])" for g
    by (simp add: table_dhcp_def needs_scope_def)
  moreover have "ph_start table_dhcp [] = (Inr (), [])" by (simp add: table_dhcp_def returns_def)
  ultimately show ?thesis
    using failed_gateway_keeps_scope [OF table_net accepted_key hosted_ints n(1), of "table_app []" "()" "()" "[''10.0.0.0'']"]
    by (simp add: table_app_def)
qed

theorem missing_scope_never_deleted_witness:
  "\<exists>msg. sync_one_dhcp_scope table_env agent_server ''10.0.0.0'' (table_app []) =
     (Inl (AgentErr (StatusError 500 ''AGENT_ERROR'' msg)), table_app [])"
proof -
  have ip: "is_ipv4 (trim_space ''10.0.0.0'')" "CHR ''/'' \<notin> set ''10.0.0.0''" by (simp_all add: hosted_trims hosted_addresses)
  have "ph_start table_dhcp (ap_world (table_app [])) = (Inr (), ap_world (table_app []))"
    "ph_scope table_dhcp (trim_space ''10.0.0.0'') (ap_world (table_app [])) = (Inl ''scope not found'', ap_world (table_app []))"
    by (simp_all add: table_dhcp_def returns_def throws_def)
  from missing_scope_never_deleted [OF table_net accepted_key ip this] show ?thesis by blast
qed


end
