(* ===== verification/Spec2Isabelle.thy ===== *)
theory Spec2Isabelle
  imports ZL_Resource_Id ZL_IP ZL_Domain ZL_Store ZL_Access_Handlers ZL_Dns_Handlers ZL_Dhcp_Store ZL_Tasks ZL_Sync ZL_Scope_Rules ZL_Refresh_Handlers ZL_Dhcp_Handlers ZL_Servers ZL_Zone_Handlers ZL_Login_Throttle ZL_Password_Reset
    ZL_Wecom ZL_Settings ZL_Agent_Wire ZL_Dhcp_Wire
begin

text \<open>
  A verification development for zonelease, a web console that manages DNS zones and DHCP scopes of
  Windows servers through small agents.
\<close>

end
